(* ===== verification/Go_Prelude.thy ===== *)
theory Go_Prelude
  imports Main "HOL-Library.Word" "HOL-Library.Finite_Map" "HOL-Library.Sublist"
    "HOL-Library.List_Lexorder" "HOL-Library.Char_ord"
begin

text \<open>
  The vocabulary the component theories share: Go's pointers, slices and maps as values, the ways a
  Go function stops early (a panic, an \<open>error\<close> result), \<open>range\<close> loops over maps in an unspecified
  order, and the conversions between \<open>int32\<close> and \<open>int64\<close>.

  A pointer to a value is an option (\<open>None\<close> is \<open>nil\<close>); a slice is an optional list, because the
  code tells a \<open>nil\<close> slice from an empty one; a map with string keys is a finite map, optional
  where the code compares it with \<open>nil\<close>. Values are immutable: where the code writes through a
  pointer, the model returns the new value.
\<close>

named_theorems go_simps \<open>equations that evaluate the Go vocabulary\<close>

type_synonym 'a ptr = "'a option"
type_synonym 'a slice = "'a list option"
type_synonym 'v gomap = "(string, 'v) fmap"
type_synonym int32 = "32 word"
type_synonym int64 = "64 word"
type_synonym float64 = "64 word"  \<comment> \<open>the IEEE 754 bit pattern\<close>

section \<open>Early exits\<close>

text \<open>A computation stops with a panic or with a non-nil \<open>error\<close>, or goes on with a value.\<close>

datatype 'e stop = GoPanic | GoErr 'e

type_synonym ('e, 'a) outcome = "'e stop + 'a"

fun and_then :: "('e, 'a) outcome \<Rightarrow> ('a \<Rightarrow> ('e, 'b) outcome) \<Rightarrow> ('e, 'b) outcome" where
  "and_then (Inl x) f = Inl x"
| "and_then (Inr a) f = f a"

definition deref :: "'a ptr \<Rightarrow> ('e, 'a) outcome" where
  "deref p = (case p of None \<Rightarrow> Inl GoPanic | Some a \<Rightarrow> Inr a)"

text \<open>\<open>p.f\<close> of a pointer known not to be nil, for a pointer field \<open>f\<close>.\<close>

definition and_ptr :: "'a ptr \<Rightarrow> ('a \<Rightarrow> 'b ptr) \<Rightarrow> 'b ptr" where
  "and_ptr p f = (case p of None \<Rightarrow> None | Some a \<Rightarrow> f a)"

text \<open>\<open>for _, x := range xs\<close> with a body that may return early: the first early exit wins.\<close>

fun traverse :: "('a \<Rightarrow> ('e, 'b) outcome) \<Rightarrow> 'a list \<Rightarrow> ('e, 'b list) outcome" where
  "traverse f [] = Inr []"
| "traverse f (x # xs) = and_then (f x) (\<lambda>y. and_then (traverse f xs) (\<lambda>ys. Inr (y # ys)))"

text \<open>\<open>if p != nil { ... }\<close> around a conversion of the value \<open>p\<close> points to.\<close>

definition when_set :: "('a \<Rightarrow> ('e, 'b) outcome) \<Rightarrow> 'a option \<Rightarrow> ('e, 'b option) outcome" where
  "when_set f p = (case p of None \<Rightarrow> Inr None | Some a \<Rightarrow> and_then (f a) (\<lambda>b. Inr (Some b)))"

lemma deref_simps [simp, go_simps]: "deref None = Inl GoPanic" "deref (Some a) = Inr a"
  by (simp_all add: deref_def)

lemma and_ptr_simps [simp, go_simps]: "and_ptr None f = None" "and_ptr (Some a) f = f a"
  by (simp_all add: and_ptr_def)

lemma when_set_simps [simp, go_simps]:
  "when_set f None = Inr None"
  "when_set f (Some a) = and_then (f a) (\<lambda>b. Inr (Some b))"
  by (simp_all add: when_set_def)

lemma and_then_eq_Inr: "and_then m f = Inr b \<longleftrightarrow> (\<exists>a. m = Inr a \<and> f a = Inr b)"
  by (cases m) auto

lemma and_then_assoc [simp]: "and_then (and_then m f) g = and_then m (\<lambda>x. and_then (f x) g)"
  by (cases m) auto

lemma and_then_cong [fundef_cong]:
  "m = m' \<Longrightarrow> (\<And>a. m' = Inr a \<Longrightarrow> f a = g a) \<Longrightarrow> and_then m f = and_then m' g"
  by (cases m') auto

lemma traverse_cong [fundef_cong]:
  "xs = ys \<Longrightarrow> (\<And>x. x \<in> set ys \<Longrightarrow> f x = g x) \<Longrightarrow> traverse f xs = traverse g ys"
  by (induction ys arbitrary: xs) (auto intro!: and_then_cong)

lemma traverse_all_Inr: "(\<And>x. x \<in> set xs \<Longrightarrow> f x = Inr (g x)) \<Longrightarrow> traverse f xs = Inr (map g xs)"
  by (induction xs) auto

lemma traverse_map: "traverse f (map g xs) = traverse (\<lambda>x. f (g x)) xs"
  by (induction xs) auto

lemma traverse_length: "traverse f xs = Inr ys \<Longrightarrow> length ys = length xs"
  by (induction xs arbitrary: ys) (auto simp: and_then_eq_Inr)

lemma traverse_eq_Inr: "traverse f xs = Inr ys \<longleftrightarrow> list_all2 (\<lambda>x y. f x = Inr y) xs ys"
  by (induction xs arbitrary: ys) (auto simp: and_then_eq_Inr list_all2_Cons1)

lemma traverse_each: "traverse f xs = Inr ys \<Longrightarrow> x \<in> set xs \<Longrightarrow> \<exists>y. f x = Inr y"
  by (induction xs arbitrary: ys) (auto simp: and_then_eq_Inr)

section \<open>Maps\<close>

text \<open>\<open>len\<close> of a map, 0 for \<open>nil\<close>.\<close>

definition golen :: "'v gomap option \<Rightarrow> nat" where
  "golen m = (case m of None \<Rightarrow> 0 | Some f \<Rightarrow> fcard (fmdom f))"

lemma golen_simps [simp, go_simps]: "golen None = 0" "golen (Some f) = fcard (fmdom f)"
  by (simp_all add: golen_def)

lemma fmdom_empty_iff [simp]: "fmdom m = {||} \<longleftrightarrow> m = fmempty"
  by (metis fmdom_empty fmdrop_fset_fmdom fmdrop_fset_null)

lemma fcard_no_keys [simp]: "fcard {||} = 0"
  by (simp add: fcard_0_eq)

text \<open>
  Go leaves the order in which \<open>range\<close> visits the keys of a map unspecified. The model takes the
  order as an argument: a function that lists every finite set of keys once, so what is proved
  holds for each order the runtime may pick.
\<close>

typedef map_order = "{ord :: string fset \<Rightarrow> string list. \<forall>S. set (ord S) = fset S \<and> distinct (ord S)}"
  morphisms keys_in Map_order
  by (rule exI [of _ sorted_list_of_fset]) (simp add: sorted_list_of_fset.rep_eq)

setup_lifting type_definition_map_order

lift_definition sorted_order :: map_order is sorted_list_of_fset
  by (simp add: sorted_list_of_fset.rep_eq)

lemma set_keys_in [simp]: "set (keys_in ord S) = fset S"
  and distinct_keys_in [simp]: "distinct (keys_in ord S)"
  using keys_in [of ord] by auto

lemma keys_in_empty [simp]: "keys_in ord {||} = []"
  by (metis bot_fset.rep_eq set_empty set_keys_in)

lemma keys_in_single [simp]: "keys_in ord {|k|} = [k]"
proof -
  have "set (keys_in ord {|k|}) = {k}" "length (keys_in ord {|k|}) = 1"
    using distinct_card [OF distinct_keys_in, of ord "{|k|}"] by simp_all
  then show ?thesis by (cases "keys_in ord {|k|}") auto
qed

lemma keys_in_eq_Nil [simp]: "keys_in ord S = [] \<longleftrightarrow> S = {||}"
  by (metis bot_fset.rep_eq fset_inject set_empty set_keys_in)

text \<open>
  \<open>for k, v := range m { ... }\<close> with a body that updates a state. The loops of the program that
  delete from the map they range over only delete the key they have reached, so the entries visited
  are those of the map at the start.
\<close>

definition range_fold :: "map_order \<Rightarrow> (string \<Rightarrow> 'v \<Rightarrow> 's \<Rightarrow> 's) \<Rightarrow> 'v gomap \<Rightarrow> 's \<Rightarrow> 's" where
  "range_fold ord f m s =
     fold (\<lambda>k s. case fmlookup m k of None \<Rightarrow> s | Some v \<Rightarrow> f k v s) (keys_in ord (fmdom m)) s"

text \<open>The same with a body that may return early; the converted entries form the new map.\<close>

definition range_traverse ::
  "map_order \<Rightarrow> ('v \<Rightarrow> ('e, 'b) outcome) \<Rightarrow> 'v gomap \<Rightarrow> ('e, 'b gomap) outcome" where
  "range_traverse ord f m =
     and_then (traverse (\<lambda>k. and_then (deref (fmlookup m k)) (\<lambda>v. and_then (f v) (\<lambda>b. Inr (k, b))))
                 (keys_in ord (fmdom m)))
       (\<lambda>ps. Inr (fmap_of_list ps))"

lemma range_fold_empty [simp]: "range_fold ord f fmempty s = s"
  by (simp add: range_fold_def)

text \<open>
  A body that only touches the entry of the key it is at (written \<open>h\<close>) is a pointwise operation,
  whatever the order.
\<close>

lemma fold_pointwise:
  assumes "distinct ks"
    and step: "\<And>k s k'. fmlookup (f k s) k' = (if k' = k then h k (fmlookup s k) else fmlookup s k')"
  shows "fmlookup (fold f ks s) k = (if k \<in> set ks then h k (fmlookup s k) else fmlookup s k)"
  using assms(1)
proof (induction ks arbitrary: s)
  case (Cons a ks)
  then show ?case by (auto simp: step)
qed simp

lemma range_fold_pointwise:
  assumes "\<And>k v s k'. fmlookup (f k v s) k' = (if k' = k then h k v (fmlookup s k) else fmlookup s k')"
  shows "fmlookup (range_fold ord f m s) k =
           (case fmlookup m k of None \<Rightarrow> fmlookup s k | Some v \<Rightarrow> h k v (fmlookup s k))"
proof -
  let ?g = "\<lambda>k s. case fmlookup m k of None \<Rightarrow> s | Some v \<Rightarrow> f k v s"
  let ?h = "\<lambda>k x. case fmlookup m k of None \<Rightarrow> x | Some v \<Rightarrow> h k v x"
  have "fmlookup (?g k s) k' = (if k' = k then ?h k (fmlookup s k) else fmlookup s k')" for k s k'
    by (simp add: assms split: option.split)
  then have "fmlookup (fold ?g (keys_in ord (fmdom m)) s) k =
      (if k \<in> set (keys_in ord (fmdom m)) then ?h k (fmlookup s k) else fmlookup s k)"
    by (rule fold_pointwise [OF distinct_keys_in])
  then show ?thesis
    by (auto simp: range_fold_def fmlookup_dom_iff split: option.splits)
qed

lemma range_traverse_all_Inr:
  assumes "\<And>k v. fmlookup m k = Some v \<Longrightarrow> f v = Inr (g v)"
  shows "range_traverse ord f m = Inr (fmmap g m)"
proof -
  let ?ks = "keys_in ord (fmdom m)"
  have "traverse (\<lambda>k. and_then (deref (fmlookup m k)) (\<lambda>v. and_then (f v) (\<lambda>b. Inr (k, b)))) ?ks =
        Inr (map (\<lambda>k. (k, g (the (fmlookup m k)))) ?ks)"
    by (rule traverse_all_Inr) (auto simp: assms fmlookup_dom_iff)
  moreover have "fmap_of_list (map (\<lambda>k. (k, g (the (fmlookup m k)))) ?ks) = fmmap g m"
    by (rule fmap_ext)
      (auto simp: fmap_of_list.rep_eq map_of_map_keys map_of_map_restrict restrict_map_def
        fmlookup_dom_iff o_def)
  ultimately show ?thesis by (simp add: range_traverse_def)
qed

lemma range_traverse_eq_Inr:
  "range_traverse ord f m = Inr r \<longleftrightarrow>
     (\<forall>k v. fmlookup m k = Some v \<longrightarrow> (\<exists>b. f v = Inr b)) \<and> r = fmmap (\<lambda>v. projr (f v)) m"
  (is "?run = _ \<longleftrightarrow> ?all \<and> _")
proof (cases ?all)
  case True
  then have "?run = Inr (fmmap (\<lambda>v. projr (f v)) m)"
    by (intro range_traverse_all_Inr) fastforce
  with True show ?thesis by auto
next
  case False
  then obtain k v where k: "fmlookup m k = Some v" "\<nexists>b. f v = Inr b" by blast
  then have "k \<in> set (keys_in ord (fmdom m))" by (auto simp: fmlookup_dom_iff)
  with k have "?run \<noteq> Inr r"
    by (fastforce simp: range_traverse_def and_then_eq_Inr dest: traverse_each)
  with False show ?thesis by blast
qed

text \<open>
  Two runs that range over maps in different orders may stop for different reasons; \<open>agree\<close> says that
  they return the same values.
\<close>

definition agree :: "('e, 'a) outcome \<Rightarrow> ('e, 'a) outcome \<Rightarrow> bool" where
  "agree r r' \<longleftrightarrow> (\<forall>a. r = Inr a \<longleftrightarrow> r' = Inr a)"

lemma agree_refl: "agree r r"
  by (simp add: agree_def)

lemma agreeD: "agree r r' \<Longrightarrow> r = Inr a \<longleftrightarrow> r' = Inr a"
  by (simp add: agree_def)

lemma agree_and_then: "agree m m' \<Longrightarrow> (\<And>a. agree (f a) (f' a)) \<Longrightarrow> agree (and_then m f) (and_then m' f')"
  by (simp add: agree_def and_then_eq_Inr)

lemma agree_when_set: "(\<And>a. agree (f a) (f' a)) \<Longrightarrow> agree (when_set f p) (when_set f' p)"
  by (cases p) (simp_all add: agree_refl agree_and_then)

lemma agree_range_traverse:
  assumes "\<And>v. agree (f v) (f' v)"
  shows "agree (range_traverse ord f m) (range_traverse ord' f' m)"
proof -
  have same: "f v = Inr b \<longleftrightarrow> f' v = Inr b" for v b
    by (rule agreeD [OF assms])
  have "fmmap (\<lambda>v. projr (f v)) m = fmmap (\<lambda>v. projr (f' v)) m"
    if "\<forall>k v. fmlookup m k = Some v \<longrightarrow> (\<exists>b. f' v = Inr b)"
  proof (rule fmap_ext)
    fix k
    show "fmlookup (fmmap (\<lambda>v. projr (f v)) m) k = fmlookup (fmmap (\<lambda>v. projr (f' v)) m) k"
    proof (cases "fmlookup m k")
      case (Some v)
      with that obtain b where "f' v = Inr b" by blast
      with same [of v b] have "f v = f' v" by simp
      with Some show ?thesis by simp
    qed simp
  qed
  then show ?thesis
    by (auto simp: agree_def range_traverse_eq_Inr same)
qed

section \<open>Integers\<close>

text \<open>
  The API types hold \<open>int64\<close> where the service takes \<open>int32\<close>: \<open>int64(x)\<close> extends the sign and
  \<open>int32(x)\<close> keeps the low 32 bits; the code guards the latter with
  \<open>x > math.MaxInt32 || x < math.MinInt32\<close>.
\<close>

definition int64_of :: "int32 \<Rightarrow> int64" where
  "int64_of x = scast x"

definition int32_of :: "int64 \<Rightarrow> int32" where
  "int32_of x = ucast x"

definition outside_int32 :: "int64 \<Rightarrow> bool" where
  "outside_int32 x \<longleftrightarrow> sint x > 2147483647 \<or> sint x < -2147483648"

lemma sint_int64_of: "sint (int64_of x) = sint x"
  by (simp add: int64_of_def sint_up_scast is_up)

lemma int64_of_inside [simp]: "\<not> outside_int32 (int64_of x)"
  using sint_ge [of x] sint_lt [of x] by (simp add: outside_int32_def sint_int64_of)

lemma int32_of_int64_of [simp]: "int32_of (int64_of x) = x"
  by (rule bit_word_eqI) (simp add: int32_of_def int64_of_def bit_simps)

section \<open>Floating-point numbers\<close>

text \<open>
  The program copies and compares float64 values. \<open>!=\<close> is IEEE inequality on the bit patterns: a
  NaN differs from every number, itself included, and the two zeros are equal.
\<close>

definition float_nan :: "float64 \<Rightarrow> bool" where
  "float_nan x \<longleftrightarrow> uint x mod 2 ^ 63 > 0x7FF * 2 ^ 52"

definition float_ne :: "float64 \<Rightarrow> float64 \<Rightarrow> bool" where
  "float_ne x y \<longleftrightarrow> float_nan x \<or> float_nan y \<or> (x \<noteq> y \<and> \<not> (uint x mod 2 ^ 63 = 0 \<and> uint y mod 2 ^ 63 = 0))"

lemma float_ne_refl: "float_ne x x \<longleftrightarrow> float_nan x"
  by (simp add: float_ne_def)

end
