(* ===== verification/Ack_Runtime.thy ===== *)
theory Ack_Runtime
  imports Go_Prelude
begin

text \<open>
  What the program takes from outside the repository. The modules
  \<open>github.com/aws-controllers-k8s/runtime\<close>, \<open>aws-sdk-go-v2\<close>, \<open>smithy-go\<close> and the Kubernetes
  libraries are not under src/, so their functions are fields of the records below, passed to every
  definition that calls them, and the theorems name the documented behaviour they rely on as a
  hypothesis (\<open>conversion_laws\<close>, \<open>tag_laws\<close>, \<open>error_laws\<close>, \<open>finalizer_laws\<close>). Their data types
  appear with the fields the program reads and writes. The last section gives one concrete library,
  which the witnesses use to show that the hypotheses hold together.
\<close>

section \<open>Data of the ACK runtime and of Kubernetes\<close>

type_synonym tags = "string gomap"

datatype ConditionType = ConditionTypeTerminal | ConditionTypeRecoverable
  | ConditionTypeResourceSynced | OtherConditionType string

datatype ConditionStatus = ConditionTrue | ConditionFalse | ConditionUnknown
  | ConditionUnset  \<comment> \<open>the empty string, Go's zero value\<close>

record Condition =
  Type :: ConditionType
  Status :: ConditionStatus
  LastTransitionTime :: "int ptr"
  Reason :: "string ptr"
  Message :: "string ptr"

record ResourceMetadata =
  ARN :: "string ptr"
  OwnerAccountID :: "string ptr"
  Region :: "string ptr"
  Partition :: "string ptr"

record AWSIdentifiers =
  NameOrID :: string
  AdditionalKeys :: "string gomap"

record ObjectMeta =
  Namespace :: string
  DeletionTimestamp :: "int ptr"
  Finalizers :: "string list"
  Annotations :: "string gomap option"

text \<open>
  The tags a spec holds, read as ACK tags: a missing map has none, a \<open>nil\<close> value is the empty string.
\<close>

definition ptr_string :: "string ptr \<Rightarrow> string" where
  "ptr_string p = (case p of None \<Rightarrow> '''' | Some s \<Rightarrow> s)"

definition tag_view :: "string ptr gomap option \<Rightarrow> tags" where
  "tag_view m = (case m of None \<Rightarrow> fmempty | Some f \<Rightarrow> fmmap ptr_string f)"

lemma ptr_string_Some [simp]: "ptr_string (Some s) = s"
  by (simp add: ptr_string_def)

lemma fmmap_ptr_string [simp]: "fmmap ptr_string (fmmap Some m) = m"
  by (rule fmap_ext) (simp add: option.map_comp o_def option.map_ident)

lemma tag_view_simps [simp]:
  "tag_view None = fmempty" "tag_view (Some f) = fmmap ptr_string f"
  by (simp_all add: tag_view_def)

text \<open>The status every custom resource of the controller carries.\<close>

record ack_status =
  ACKResourceMetadata :: "ResourceMetadata ptr"
  Conditions :: "Condition ptr slice"

section \<open>The library functions\<close>

record 'e golib =
  fmt_Errorf :: "string \<Rightarrow> 'e"
  errors_As_APIError :: "'e \<Rightarrow> string option"
  errors_As_TerminalError :: "'e \<Rightarrow> bool"
  error_Error :: "'e \<Rightarrow> string"
  ackerr_NotFound :: 'e
  ackerr_Terminal :: 'e
  ackerr_SecretTypeNotSupported :: 'e
  ackerr_SecretNotFound :: 'e
  ackerr_MissingNameIdentifier :: 'e
  ackerr_AWSError :: "'e \<Rightarrow> 'e option"
  ackerr_NewTerminalError :: "'e \<Rightarrow> 'e"
  ackerr_WrapPostCreateError :: "'e \<Rightarrow> 'e"
  ackerr_ResourceReferenceAndIDNotSupportedFor :: "string \<Rightarrow> string \<Rightarrow> 'e"
  ackerr_ResourceReferenceOrIDRequiredFor :: "string \<Rightarrow> string \<Rightarrow> 'e"
  ackerr_ResourceReferenceTerminalFor :: "string \<Rightarrow> string \<Rightarrow> string \<Rightarrow> 'e"
  ackerr_ResourceReferenceNotSyncedFor :: "string \<Rightarrow> string \<Rightarrow> string \<Rightarrow> 'e"
  ackerr_ResourceReferenceMissingTargetFieldFor ::
    "string \<Rightarrow> string \<Rightarrow> string \<Rightarrow> string \<Rightarrow> 'e"
  ackrequeue_NeededAfter :: "'e option \<Rightarrow> nat \<Rightarrow> 'e"
  ackrt_ValidateCrossNamespaceReference ::
    "bool \<Rightarrow> string \<Rightarrow> string ptr \<Rightarrow> string \<Rightarrow> 'e + string"
  ackcondition_SetLateInitialized ::
    "Condition ptr slice \<Rightarrow> ConditionStatus \<Rightarrow> string ptr \<Rightarrow> string ptr \<Rightarrow> Condition ptr slice"
  ackcondition_SetSynced ::
    "Condition ptr slice \<Rightarrow> ConditionStatus \<Rightarrow> string ptr \<Rightarrow> string ptr \<Rightarrow> Condition ptr slice"
  acktags_Merge :: "tags \<Rightarrow> tags \<Rightarrow> tags"
  ackcompare_GetTagsDifference :: "tags \<Rightarrow> tags \<Rightarrow> tags \<times> tags \<times> tags"
  aws_String :: "string \<Rightarrow> string ptr"
  aws_StringSlice :: "string list \<Rightarrow> string ptr list"
  aws_ToStringSlice :: "string ptr list \<Rightarrow> string list"
  aws_StringMap :: "string gomap \<Rightarrow> string ptr gomap"
  aws_ToStringMap :: "string ptr gomap \<Rightarrow> string gomap"
  metav1_Time_IsZero :: "int ptr \<Rightarrow> bool"
  k8sctrlutil_AddFinalizer :: "string list \<Rightarrow> string \<Rightarrow> string list"
  k8sctrlutil_RemoveFinalizer :: "string list \<Rightarrow> string \<Rightarrow> string list"

text \<open>
  \<open>aws.String\<close> returns a pointer to its argument; \<open>aws.StringSlice\<close>/\<open>aws.StringMap\<close> take the
  address of every element and \<open>aws.ToStringSlice\<close>/\<open>aws.ToStringMap\<close> read them back.
\<close>

definition conversion_laws :: "'e golib \<Rightarrow> bool" where
  "conversion_laws lib \<longleftrightarrow>
     (\<forall>s. aws_String lib s = Some s) \<and>
     (\<forall>xs. aws_ToStringSlice lib (aws_StringSlice lib xs) = xs) \<and>
     (\<forall>m. aws_ToStringMap lib (aws_StringMap lib m) = m)"

lemma conversion_lawsD:
  assumes "conversion_laws lib"
  shows "aws_String lib s = Some s"
    and "aws_ToStringSlice lib (aws_StringSlice lib xs) = xs"
    and "aws_ToStringMap lib (aws_StringMap lib m) = m"
  using assms by (auto simp: conversion_laws_def)

text \<open>
  \<open>GetTagsDifference(from, to)\<close> compares the tags as key/value pairs: what is in \<open>to\<close> only, what is
  in both, what is in \<open>from\<close> only. \<open>Merge(a, b)\<close> keeps the tags of \<open>a\<close> and adds those of \<open>b\<close>.
\<close>

definition tag_laws :: "'e golib \<Rightarrow> bool" where
  "tag_laws lib \<longleftrightarrow>
     (\<forall>from to added unchanged removed.
        ackcompare_GetTagsDifference lib from to = (added, unchanged, removed) \<longrightarrow>
          (\<forall>k. fmlookup added k =
                 (if fmlookup to k = fmlookup from k then None else fmlookup to k)) \<and>
          (\<forall>k. fmlookup unchanged k =
                 (if fmlookup to k = fmlookup from k then fmlookup to k else None)) \<and>
          (\<forall>k. fmlookup removed k =
                 (if fmlookup to k = fmlookup from k then None else fmlookup from k))) \<and>
     (\<forall>a b. acktags_Merge lib a b = b ++\<^sub>f a)"

text \<open>\<open>AWSError\<close> finds an AWS error in the chain exactly when \<open>errors.As\<close> finds an \<open>APIError\<close>.\<close>

definition error_laws :: "'e golib \<Rightarrow> bool" where
  "error_laws lib \<longleftrightarrow> (\<forall>e. ackerr_AWSError lib e = None \<longleftrightarrow> errors_As_APIError lib e = None)"

text \<open>\<open>AddFinalizer\<close> appends a missing finalizer, \<open>RemoveFinalizer\<close> removes every occurrence.\<close>

definition finalizer_laws :: "'e golib \<Rightarrow> bool" where
  "finalizer_laws lib \<longleftrightarrow>
     (\<forall>fs f. set (k8sctrlutil_AddFinalizer lib fs f) = insert f (set fs)) \<and>
     (\<forall>fs f. set (k8sctrlutil_RemoveFinalizer lib fs f) = set fs - {f})"

section \<open>State\<close>

text \<open>
  The outside world (the state of the AWS account, of type \<open>'w\<close>, changed by the service calls only)
  and the calls recorded with \<open>metrics.RecordAPICall\<close>, oldest first.
\<close>

record ('e, 'w) env =
  world :: 'w
  calls :: "(string \<times> string \<times> 'e option) list"

definition invoke :: "('w \<Rightarrow> 'w \<times> 'r) \<Rightarrow> ('e, 'w) env \<Rightarrow> ('e, 'w) env \<times> 'r" where
  "invoke f s = (let (w, r) = f (world s) in (s\<lparr>world := w\<rparr>, r))"

definition RecordAPICall :: "string \<Rightarrow> string \<Rightarrow> 'e option \<Rightarrow> ('e, 'w) env \<Rightarrow> ('e, 'w) env" where
  "RecordAPICall opType opID err s = s\<lparr>calls := calls s @ [(opType, opID, err)]\<rparr>"

definition err_of :: "'e + 'a \<Rightarrow> 'e option" where
  "err_of r = (case r of Inl e \<Rightarrow> Some e | Inr _ \<Rightarrow> None)"

lemma env_simps [simp, go_simps]:
  "invoke f s = (s\<lparr>world := fst (f (world s))\<rparr>, snd (f (world s)))"
  "world (RecordAPICall t i e s) = world s"
  "calls (RecordAPICall t i e s) = calls s @ [(t, i, e)]"
  "err_of (Inl x) = Some x" "err_of (Inr a) = None"
  by (simp_all add: invoke_def RecordAPICall_def err_of_def case_prod_beta)

text \<open>
  A method of the program that ends with \<open>return x, err\<close> yields the pair; a panic leaves no result.
  \<open>proceed\<close> is the code's \<open>if err != nil { return nil, err }\<close> after a step that may stop.
\<close>

type_synonym ('e, 'a) returned = "('e, 'a option \<times> 'e option) outcome"

fun proceed ::
  "'s \<Rightarrow> ('e, 'a) outcome \<Rightarrow> ('a \<Rightarrow> 's \<times> ('e, 'b) returned) \<Rightarrow> 's \<times> ('e, 'b) returned" where
  "proceed s (Inl GoPanic) k = (s, Inl GoPanic)"
| "proceed s (Inl (GoErr e)) k = (s, Inr (None, Some e))"
| "proceed s (Inr a) k = k a"

section \<open>A concrete library\<close>

text \<open>Errors as the documented error values, enough to run the model on concrete inputs.\<close>

datatype gerror = NotFound | Terminal | SecretTypeNotSupported | SecretNotFound
  | MissingNameIdentifier | APIError string string | TerminalError gerror | PostCreateError gerror
  | Requeue "gerror option" nat | Errorf string

fun gerror_api :: "gerror \<Rightarrow> string option" where
  "gerror_api (APIError c m) = Some c"
| "gerror_api (PostCreateError e) = gerror_api e"
| "gerror_api _ = None"

fun gerror_text :: "gerror \<Rightarrow> string" where
  "gerror_text (APIError c m) = c @ '': '' @ m"
| "gerror_text (TerminalError e) = gerror_text e"
| "gerror_text (PostCreateError e) = gerror_text e"
| "gerror_text (Errorf m) = m"
| "gerror_text _ = ''ack error''"

definition keep_differing :: "tags \<Rightarrow> tags \<Rightarrow> tags" where
  "keep_differing a b = fmfilter (\<lambda>k. fmlookup a k \<noteq> fmlookup b k) a"

definition go_library :: "gerror golib" where
  "go_library = \<lparr>
     fmt_Errorf = Errorf,
     errors_As_APIError = gerror_api,
     errors_As_TerminalError = (\<lambda>e. case e of TerminalError _ \<Rightarrow> True | _ \<Rightarrow> False),
     error_Error = gerror_text,
     ackerr_NotFound = NotFound,
     ackerr_Terminal = Terminal,
     ackerr_SecretTypeNotSupported = SecretTypeNotSupported,
     ackerr_SecretNotFound = SecretNotFound,
     ackerr_MissingNameIdentifier = MissingNameIdentifier,
     ackerr_AWSError = (\<lambda>e. case gerror_api e of None \<Rightarrow> None | Some c \<Rightarrow> Some e),
     ackerr_NewTerminalError = TerminalError,
     ackerr_WrapPostCreateError = PostCreateError,
     ackerr_ResourceReferenceAndIDNotSupportedFor = (\<lambda>f r. Errorf (f @ '' and '' @ r)),
     ackerr_ResourceReferenceOrIDRequiredFor = (\<lambda>f r. Errorf (f @ '' or '' @ r)),
     ackerr_ResourceReferenceTerminalFor = (\<lambda>r ns n. Errorf (n @ '' is terminal'')),
     ackerr_ResourceReferenceNotSyncedFor = (\<lambda>r ns n. Errorf (n @ '' is not synced'')),
     ackerr_ResourceReferenceMissingTargetFieldFor = (\<lambda>r ns n f. Errorf (n @ '' has no '' @ f)),
     ackrequeue_NeededAfter = Requeue,
     ackrt_ValidateCrossNamespaceReference =
       (\<lambda>allowed ns ref n. case ref of None \<Rightarrow> Inr ns
          | Some r \<Rightarrow> if allowed \<or> r = ns then Inr r else Inl (Errorf ''cross namespace'')),
     ackcondition_SetLateInitialized = (\<lambda>cs st m r. cs),
     ackcondition_SetSynced = (\<lambda>cs st m r. cs),
     acktags_Merge = (\<lambda>a b. b ++\<^sub>f a),
     ackcompare_GetTagsDifference =
       (\<lambda>from to. (keep_differing to from,
          fmfilter (\<lambda>k. fmlookup to k = fmlookup from k) to, keep_differing from to)),
     aws_String = Some,
     aws_StringSlice = map Some,
     aws_ToStringSlice = map ptr_string,
     aws_StringMap = fmmap Some,
     aws_ToStringMap = fmmap ptr_string,
     metav1_Time_IsZero = (\<lambda>t. t = None \<or> t = Some 0),
     k8sctrlutil_AddFinalizer = (\<lambda>fs f. if f \<in> set fs then fs else fs @ [f]),
     k8sctrlutil_RemoveFinalizer = (\<lambda>fs f. filter (\<lambda>x. x \<noteq> f) fs)\<rparr>"

lemma go_library_conversion: "conversion_laws go_library"
  by (simp add: conversion_laws_def go_library_def o_def)

lemma go_library_tags: "tag_laws go_library"
  by (auto simp: tag_laws_def go_library_def keep_differing_def)

lemma go_library_errors: "error_laws go_library"
  by (auto simp: error_laws_def go_library_def split: option.splits)

lemma go_library_finalizers: "finalizer_laws go_library"
  by (auto simp: finalizer_laws_def go_library_def)

lemmas go_library_laws = go_library_conversion go_library_tags go_library_errors
  go_library_finalizers

end
