(* ===== verification/Sync_Tags.thy ===== *)
theory Sync_Tags
  imports Ack_Runtime
begin

text \<open>
  pkg/tags/sync.go: reading the tags of a resource and bringing them to the desired set with the
  service's tag and untag calls. Both resource managers share this code; they pass it their own
  \<open>convertToOrderedACKTags\<close>, an argument here as in the source.

  The service is a record of calls on the state of the account. What the theorems say about the
  account after a call rests on \<open>tag_service\<close>: a call that reports no error has had its effect.
\<close>

section \<open>The client interface and the two operations\<close>

record ('e, 'w) tagsClient =
  api_GetTags :: "string \<Rightarrow> 'w \<Rightarrow> 'w \<times> ('e + tags)"
  api_TagResource :: "string \<Rightarrow> tags \<Rightarrow> 'w \<Rightarrow> 'w \<times> 'e option"
  api_UntagResource :: "string \<Rightarrow> string list \<Rightarrow> 'w \<Rightarrow> 'w \<times> 'e option"

definition GetResourceTags ::
  "('e, 'w) tagsClient \<Rightarrow> map_order \<Rightarrow> string \<Rightarrow> ('e, 'w) env \<Rightarrow>
     ('e, 'w) env \<times> ('e + string ptr gomap)" where
  "GetResourceTags client ord resourceARN s =
     (let (s, resp) = invoke (api_GetTags client resourceARN) s;
          s = RecordAPICall ''GET'' ''ListTagsForResource'' (err_of resp) s
      in case resp of
           Inl err \<Rightarrow> (s, Inl err)
         | Inr tags \<Rightarrow> (s, Inr (range_fold ord (\<lambda>key val. fmupd key (Some val)) tags fmempty)))"

text \<open>The loop that drops from \<open>toRemove\<close> the keys that \<open>added\<close> will overwrite.\<close>

definition drop_readded :: "map_order \<Rightarrow> tags \<Rightarrow> tags \<Rightarrow> tags" where
  "drop_readded ord added toRemove =
     range_fold ord (\<lambda>key v m. if fmlookup added key \<noteq> None then fmdrop key m else m) toRemove toRemove"

text \<open>The calls: first the keys to remove, then the tags to add, each call only when needed.\<close>

definition untag_removed ::
  "('e, 'w) tagsClient \<Rightarrow> string \<Rightarrow> string list \<Rightarrow> ('e, 'w) env \<Rightarrow> ('e, 'w) env \<times> 'e option" where
  "untag_removed client resourceARN removed s =
     (if length removed > 0
      then (let (s, err) = invoke (api_UntagResource client resourceARN removed) s
            in (RecordAPICall ''UPDATE'' ''UntagResource'' err s, err))
      else (s, None))"

definition tag_added ::
  "('e, 'w) tagsClient \<Rightarrow> string \<Rightarrow> tags \<Rightarrow> ('e, 'w) env \<Rightarrow> ('e, 'w) env \<times> 'e option" where
  "tag_added client resourceARN added s =
     (if golen (Some added) > 0
      then (let (s, err) = invoke (api_TagResource client resourceARN added) s
            in (RecordAPICall ''UPDATE'' ''TagResource'' err s, err))
      else (s, None))"

definition SyncResourceTags ::
  "'e golib \<Rightarrow> ('e, 'w) tagsClient \<Rightarrow> map_order \<Rightarrow> string \<Rightarrow>
     string ptr gomap option \<Rightarrow> string ptr gomap option \<Rightarrow>
     (string ptr gomap option \<Rightarrow> tags \<times> string list) \<Rightarrow> ('e, 'w) env \<Rightarrow> ('e, 'w) env \<times> 'e option" where
  "SyncResourceTags lib client ord resourceARN desiredTags latestTags convertToOrderedACKTags s =
     (let (desiredACKTags, _) = convertToOrderedACKTags desiredTags;
          (latestACKTags, _) = convertToOrderedACKTags latestTags;
          (added, _, toRemove) = ackcompare_GetTagsDifference lib latestACKTags desiredACKTags;
          toRemove = drop_readded ord added toRemove;
          removed = keys_in ord (fmdom toRemove);
          (s, err) = untag_removed client resourceARN removed s
      in if err \<noteq> None then (s, err)
         else (let (s, err) = tag_added client resourceARN added s
               in if err \<noteq> None then (s, err) else (s, None)))"

section \<open>What the sets of keys are\<close>

lemma GetResourceTags_value:
  "range_fold ord (\<lambda>key val. fmupd key (Some val)) tags fmempty = fmmap Some tags"
  by (rule fmap_ext, subst range_fold_pointwise [where h = "\<lambda>k v x. Some (Some v)"])
    (auto split: option.splits)

lemma lookup_drop_readded:
  "fmlookup (drop_readded ord added toRemove) k =
     (if fmlookup added k = None then fmlookup toRemove k else None)"
  unfolding drop_readded_def
  by (subst range_fold_pointwise
        [where h = "\<lambda>k v x. if fmlookup added k \<noteq> None then None else x"])
    (auto split: option.splits)

text \<open>The two sets, stated on the tags: what changes or is new, and what has to go.\<close>

definition tags_to_add :: "tags \<Rightarrow> tags \<Rightarrow> tags" where
  "tags_to_add latest desired = fmfilter (\<lambda>k. fmlookup desired k \<noteq> fmlookup latest k) desired"

definition keys_to_remove :: "tags \<Rightarrow> tags \<Rightarrow> string fset" where
  "keys_to_remove latest desired = fmdom latest |-| fmdom desired"

lemma difference_sets:
  assumes "tag_laws lib"
    and "ackcompare_GetTagsDifference lib latest desired = (added, unchanged, toRemove)"
  shows "added = tags_to_add latest desired"
    and "fmdom (drop_readded ord added toRemove) = keys_to_remove latest desired"
proof -
  have look: "fmlookup added k =
      (if fmlookup desired k = fmlookup latest k then None else fmlookup desired k)"
    "fmlookup toRemove k =
      (if fmlookup desired k = fmlookup latest k then None else fmlookup latest k)" for k
    using assms by (simp_all add: tag_laws_def)
  show added: "added = tags_to_add latest desired"
    by (rule fmap_ext) (simp add: look tags_to_add_def)
  show "fmdom (drop_readded ord added toRemove) = keys_to_remove latest desired"
    by (rule fset_eqI)
      (simp add: keys_to_remove_def fmlookup_dom_iff lookup_drop_readded look,
        metis option.distinct(1) not_None_eq)
qed

text \<open>With the sets known, the operation is the two calls in sequence.\<close>

lemma SyncResourceTags_eq:
  assumes laws: "tag_laws lib"
    and conv: "fst (conv latestTags) = latest" "fst (conv desiredTags) = desired"
  shows "SyncResourceTags lib client ord arn desiredTags latestTags conv s =
    (let (s, err) = untag_removed client arn (keys_in ord (keys_to_remove latest desired)) s
     in if err \<noteq> None then (s, err) else tag_added client arn (tags_to_add latest desired) s)"
proof -
  obtain added unchanged toRemove where
    diff: "ackcompare_GetTagsDifference lib latest desired = (added, unchanged, toRemove)"
    by (cases "ackcompare_GetTagsDifference lib latest desired") auto
  from conv obtain lo do where pairs: "conv latestTags = (latest, lo)" "conv desiredTags = (desired, do)"
    by (metis prod.collapse)
  note added = difference_sets(1) [OF laws diff]
  note removed = difference_sets(2) [OF laws diff, of ord, unfolded added]
  show ?thesis
    by (simp add: SyncResourceTags_def pairs diff added removed)
      (auto simp: Let_def split: prod.splits)
qed

section \<open>The tag service\<close>

text \<open>\<open>tags_of w arn\<close>: the tags the account holds for a resource.\<close>

definition tag_service :: "('e, 'w) tagsClient \<Rightarrow> ('w \<Rightarrow> string \<Rightarrow> tags) \<Rightarrow> bool" where
  "tag_service client tags_of \<longleftrightarrow>
     (\<forall>arn ks w. snd (api_UntagResource client arn ks w) = None \<longrightarrow>
        tags_of (fst (api_UntagResource client arn ks w)) =
          (tags_of w)(arn := fmdrop_set (set ks) (tags_of w arn))) \<and>
     (\<forall>arn ts w. snd (api_TagResource client arn ts w) = None \<longrightarrow>
        tags_of (fst (api_TagResource client arn ts w)) =
          (tags_of w)(arn := tags_of w arn ++\<^sub>f ts)) \<and>
     (\<forall>arn w ts. snd (api_GetTags client arn w) = Inr ts \<longrightarrow>
        fst (api_GetTags client arn w) = w \<and> ts = tags_of w arn)"

lemma tag_serviceD:
  assumes "tag_service client tags_of"
  shows "snd (api_UntagResource client arn ks w) = None \<Longrightarrow>
      tags_of (fst (api_UntagResource client arn ks w)) =
        (tags_of w)(arn := fmdrop_set (set ks) (tags_of w arn))"
    and "snd (api_TagResource client arn ts w) = None \<Longrightarrow>
      tags_of (fst (api_TagResource client arn ts w)) = (tags_of w)(arn := tags_of w arn ++\<^sub>f ts)"
    and "snd (api_GetTags client arn w) = Inr ts' \<Longrightarrow>
      fst (api_GetTags client arn w) = w \<and> ts' = tags_of w arn"
  using assms unfolding tag_service_def by blast+

lemma untag_removed_effect:
  assumes "tag_service client tags_of" and "untag_removed client arn ks s = (s', None)"
  shows "tags_of (world s') = (tags_of (world s))(arn := fmdrop_set (set ks) (tags_of (world s) arn))"
  using assms(2) by (auto simp: untag_removed_def tag_serviceD(1) [OF assms(1)] split: if_splits)

lemma tag_added_effect:
  assumes "tag_service client tags_of" and "tag_added client arn ts s = (s', None)"
  shows "tags_of (world s') = (tags_of (world s))(arn := tags_of (world s) arn ++\<^sub>f ts)"
  using assms(2) by (auto simp: tag_added_def tag_serviceD(2) [OF assms(1)] split: if_splits)

lemma difference_closes_gap:
  "fmdrop_set (fset (keys_to_remove latest desired)) latest ++\<^sub>f tags_to_add latest desired = desired"
  by (rule fmap_ext)
    (auto simp: keys_to_remove_def tags_to_add_def fmdom'_alt_def [symmetric] fmlookup_dom'_iff
      fmlookup_dom_iff)

text \<open>The calls recorded on the way, whatever the outcome.\<close>

definition tag_calls :: "(string \<times> string \<times> 'e option) list \<Rightarrow> bool" where
  "tag_calls cs \<longleftrightarrow> (\<forall>c\<in>set cs. fst (snd c) \<in> {''UntagResource'', ''TagResource''})"

lemma SyncResourceTags_calls:
  "\<exists>new. calls (fst (SyncResourceTags lib client ord arn desired latest conv s)) = calls s @ new \<and>
     tag_calls new"
proof -
  have untag: "\<exists>new. calls (fst (untag_removed client arn ks s)) = calls s @ new \<and> tag_calls new" for ks s
    by (auto simp: untag_removed_def tag_calls_def split: prod.splits)
  have tag: "\<exists>new. calls (fst (tag_added client arn ts s)) = calls s @ new \<and> tag_calls new" for ts s
    by (auto simp: tag_added_def tag_calls_def split: prod.splits)
  have both: "\<exists>new. calls (fst (tag_added client arn ts (fst (untag_removed client arn ks s)))) =
      calls s @ new \<and> tag_calls new" for ks ts
    using untag [of ks s] tag [of ts "fst (untag_removed client arn ks s)"]
    by (auto simp: tag_calls_def)
  show ?thesis
    using untag both by (simp add: SyncResourceTags_def case_prod_beta Let_def)
qed

lemma SyncResourceTags_effect:
  assumes "tag_laws lib" and service: "tag_service client tags_of"
    and latest: "tags_of (world s) arn = fst (conv latestTags)"
    and run: "SyncResourceTags lib client ord arn desiredTags latestTags conv s = (s', None)"
  shows "tags_of (world s') = (tags_of (world s))(arn := fst (conv desiredTags))"
proof -
  let ?latest = "fst (conv latestTags)" and ?desired = "fst (conv desiredTags)"
  let ?rem = "keys_in ord (keys_to_remove ?latest ?desired)"
  obtain s1 where untag: "untag_removed client arn ?rem s = (s1, None)"
    and tag: "tag_added client arn (tags_to_add ?latest ?desired) s1 = (s', None)"
    using run by (auto simp: SyncResourceTags_eq [OF assms(1) refl refl] split: prod.splits if_splits)
  show ?thesis
    using untag_removed_effect [OF service untag] tag_added_effect [OF service tag] latest
    by (simp add: difference_closes_gap)
qed

text \<open>
  C6: When SyncResourceTags reports no error and the latest tags it was given are those the service
  holds, the service ends up with exactly the desired tags on this resource, and no other resource
  is touched.
\<close>
theorem SyncResourceTags_converges:
  assumes "tag_laws lib" and service: "tag_service client tags_of"
    and latest: "tags_of (world s) arn = fst (conv latestTags)"
    and run: "SyncResourceTags lib client ord arn desiredTags latestTags conv s = (s', None)"
  shows "tags_of (world s') = (tags_of (world s))(arn := fst (conv desiredTags))"
  by (rule SyncResourceTags_effect [OF assms])

text \<open>
  C7: When the desired and the latest tags agree, SyncResourceTags makes no API call, records
  nothing and reports no error.
\<close>
theorem SyncResourceTags_in_sync:
  assumes "tag_laws lib" and "fst (conv desiredTags) = fst (conv latestTags)"
  shows "SyncResourceTags lib client ord arn desiredTags latestTags conv s = (s, None)"
proof -
  have "keys_to_remove t t = {||}" and "tags_to_add t t = fmempty" for t
    by (auto simp: keys_to_remove_def tags_to_add_def intro: fmap_ext)
  then show ?thesis
    by (simp add: SyncResourceTags_eq [OF assms(1) refl refl] assms(2) untag_removed_def
        tag_added_def)
qed

text \<open>
  C8: When a key has to go and UntagResource fails, SyncResourceTags returns that error after this
  one call: the tags to add are not sent. The keys it asked to remove are each listed once, are
  present in the latest tags and absent from the desired ones.
\<close>
theorem SyncResourceTags_untag_failure:
  fixes client :: "('e, 'w) tagsClient"
  assumes "tag_laws lib"
    and keys: "keys = keys_in ord (keys_to_remove (fst (conv latestTags)) (fst (conv desiredTags)))"
    and "keys \<noteq> []" and "api_UntagResource client arn keys (world s) = (w, Some e)"
  shows "SyncResourceTags lib client ord arn desiredTags latestTags conv s =
      (RecordAPICall ''UPDATE'' ''UntagResource'' (Some e) (s\<lparr>world := w\<rparr>), Some e) \<and>
    distinct keys \<and>
    set keys = fset (fmdom (fst (conv latestTags))) - fset (fmdom (fst (conv desiredTags)))"
  using assms
  by (simp add: SyncResourceTags_eq [OF assms(1) refl refl] untag_removed_def keys_to_remove_def)

section \<open>A concrete service, for the witnesses\<close>

text \<open>The account as a function from resources to tags; the second client refuses to untag.\<close>

definition tag_account :: "('e, string \<Rightarrow> tags) tagsClient" where
  "tag_account = \<lparr>
     api_GetTags = (\<lambda>arn w. (w, Inr (w arn))),
     api_TagResource = (\<lambda>arn ts w. (w(arn := w arn ++\<^sub>f ts), None)),
     api_UntagResource = (\<lambda>arn ks w. (w(arn := fmdrop_set (set ks) (w arn)), None))\<rparr>"

definition stubborn_account :: "'e \<Rightarrow> ('e, string \<Rightarrow> tags) tagsClient" where
  "stubborn_account e = tag_account\<lparr>api_UntagResource := (\<lambda>arn ks w. (w, Some e))\<rparr>"

lemma tag_account_service: "tag_service tag_account (\<lambda>w. w)"
  by (simp add: tag_service_def tag_account_def)

lemma tag_account_no_error:
  "tag_laws lib \<Longrightarrow> snd (SyncResourceTags lib tag_account ord arn d l conv s) = None"
  by (simp add: SyncResourceTags_eq [OF _ refl refl] untag_removed_def tag_added_def Let_def
      tag_account_def)

definition sample_tags :: "(string \<times> string) list \<Rightarrow> string ptr gomap option" where
  "sample_tags ps = Some (fmmap Some (fmap_of_list ps))"

definition sample_env :: "(gerror, string \<Rightarrow> tags) env" where
  "sample_env = \<lparr>world = (\<lambda>arn. fmap_of_list [(''old'', ''1''), (''kept'', ''2'')]), calls = []\<rparr>"

lemma sample_tags_view: "tag_view (sample_tags ps) = fmap_of_list ps"
  by (simp add: sample_tags_def)

theorem SyncResourceTags_converges_witness:
  "\<exists>s'. SyncResourceTags go_library tag_account sorted_order ''arn''
      (sample_tags [(''kept'', ''3''), (''new'', ''4'')])
      (sample_tags [(''old'', ''1''), (''kept'', ''2'')])
      (\<lambda>m. (tag_view m, [])) sample_env = (s', None) \<and>
    world s' ''arn'' = fmap_of_list [(''kept'', ''3''), (''new'', ''4'')]"
proof -
  let ?run = "SyncResourceTags go_library tag_account sorted_order ''arn''
      (sample_tags [(''kept'', ''3''), (''new'', ''4'')])
      (sample_tags [(''old'', ''1''), (''kept'', ''2'')]) (\<lambda>m. (tag_view m, [])) sample_env"
  obtain s' where run: "?run = (s', None)"
    using tag_account_no_error [OF go_library_tags] by (metis prod.collapse)
  have "world s' = (world sample_env)(''arn'' := fmap_of_list [(''kept'', ''3''), (''new'', ''4'')])"
    using SyncResourceTags_converges [OF go_library_tags tag_account_service _ run]
    by (simp add: sample_env_def sample_tags_view)
  with run show ?thesis by (intro exI [of _ s']) simp
qed

theorem SyncResourceTags_in_sync_witness:
  "SyncResourceTags go_library tag_account sorted_order ''arn''
      (sample_tags [(''a'', ''1'')]) (sample_tags [(''a'', ''1'')])
      (\<lambda>m. (tag_view m, [])) sample_env = (sample_env, None)"
  by (rule SyncResourceTags_in_sync [OF go_library_tags]) simp

theorem SyncResourceTags_untag_failure_witness:
  "SyncResourceTags go_library (stubborn_account (Errorf ''denied'')) sorted_order ''arn''
      (sample_tags [(''new'', ''4'')]) (sample_tags [(''old'', ''1'')])
      (\<lambda>m. (tag_view m, [])) sample_env =
    (RecordAPICall ''UPDATE'' ''UntagResource'' (Some (Errorf ''denied'')) sample_env,
     Some (Errorf ''denied''))"
  using SyncResourceTags_untag_failure [OF go_library_tags refl,
      where client = "stubborn_account (Errorf ''denied'')" and arn = "''arn''" and s = sample_env
        and w = "world sample_env" and e = "Errorf ''denied''" and ord = sorted_order
        and conv = "\<lambda>m. (tag_view m, [])" and desiredTags = "sample_tags [(''new'', ''4'')]"
        and latestTags = "sample_tags [(''old'', ''1'')]"]
  by (simp add: sample_tags_view keys_to_remove_def stubborn_account_def)

end
