(* ===== verification/Database_Types.thy ===== *)
theory Database_Types
  imports Sync_Tags
begin

text \<open>
  The data of the Database resource: the custom resource of apis/v1alpha1 (database.go, types.go)
  and, with the fields pkg/resource/database reads and writes, the shapes of the Glue SDK
  (names with the prefix \<open>sdk_\<close>), CreateTime, which it does not read, among them. The TypeMeta of the resource is not touched by the code and is
  left out. A string-typed SDK enumeration is its string.
\<close>

section \<open>The custom resource\<close>

record FederatedDatabase =
  ConnectionName :: "string ptr"
  Identifier :: "string ptr"

record DatabaseIdentifier =
  CatalogID :: "string ptr"
  DatabaseName :: "string ptr"
  Region :: "string ptr"

record DataLakePrincipal =
  DataLakePrincipalIdentifier :: "string ptr"

record PrincipalPermissions =
  Permissions :: "string ptr slice"
  Principal :: "DataLakePrincipal ptr"

record DatabaseSpec =
  CatalogID :: "string ptr"
  Description :: "string ptr"
  FederatedDatabase :: "FederatedDatabase ptr"
  LocationURI :: "string ptr"
  Name :: "string ptr"
  Parameters :: "string ptr gomap option"
  TableDefaultPermissions :: "PrincipalPermissions ptr slice"
  Tags :: "string ptr gomap option"
  TargetDatabase :: "DatabaseIdentifier ptr"

type_synonym DatabaseStatus = ack_status

record Database =
  ObjectMeta :: ObjectMeta
  Spec :: DatabaseSpec
  Status :: DatabaseStatus

section \<open>The SDK shapes\<close>

record sdk_FederatedDatabase =
  ConnectionName :: "string ptr"
  Identifier :: "string ptr"

record sdk_DatabaseIdentifier =
  CatalogId :: "string ptr"
  DatabaseName :: "string ptr"
  Region :: "string ptr"

record sdk_DataLakePrincipal =
  DataLakePrincipalIdentifier :: "string ptr"

record sdk_PrincipalPermissions =
  Permissions :: "string slice"
  Principal :: "sdk_DataLakePrincipal ptr"

record sdk_DatabaseInput =
  CreateTableDefaultPermissions :: "sdk_PrincipalPermissions slice"
  Description :: "string ptr"
  FederatedDatabase :: "sdk_FederatedDatabase ptr"
  LocationUri :: "string ptr"
  Name :: "string ptr"
  Parameters :: "string gomap option"
  TargetDatabase :: "sdk_DatabaseIdentifier ptr"

record sdk_Database =
  CatalogId :: "string ptr"
  CreateTableDefaultPermissions :: "sdk_PrincipalPermissions slice"
  CreateTime :: "int ptr"
  Description :: "string ptr"
  FederatedDatabase :: "sdk_FederatedDatabase ptr"
  LocationUri :: "string ptr"
  Name :: "string ptr"
  Parameters :: "string gomap option"
  TargetDatabase :: "sdk_DatabaseIdentifier ptr"

text \<open>GetDatabaseInput and DeleteDatabaseInput name the database.\<close>

record sdk_DatabaseKey =
  CatalogId :: "string ptr"
  Name :: "string ptr"

record sdk_CreateDatabaseInput =
  CatalogId :: "string ptr"
  DatabaseInput :: sdk_DatabaseInput
  Tags :: "string gomap option"

record sdk_UpdateDatabaseInput =
  CatalogId :: "string ptr"
  DatabaseInput :: sdk_DatabaseInput
  Name :: "string ptr"

text \<open>The client calls the manager makes; GetDatabase yields the \<open>Database\<close> of its output.\<close>

record ('e, 'w) databaseClient =
  api_tags :: "('e, 'w) tagsClient"
  api_GetDatabase :: "sdk_DatabaseKey \<Rightarrow> 'w \<Rightarrow> 'w \<times> ('e + sdk_Database ptr)"
  api_CreateDatabase :: "sdk_CreateDatabaseInput \<Rightarrow> 'w \<Rightarrow> 'w \<times> 'e option"
  api_UpdateDatabase :: "sdk_UpdateDatabaseInput \<Rightarrow> 'w \<Rightarrow> 'w \<times> 'e option"
  api_DeleteDatabase :: "sdk_DatabaseKey \<Rightarrow> 'w \<Rightarrow> 'w \<times> 'e option"

section \<open>The resource manager\<close>

text \<open>Of the configuration only the fields the manager reads; the client is the field sdkapi.\<close>

record ('e, 'w) resourceManager_database =
  awsAccountID :: string
  awsRegion :: string
  awsPartition :: string
  sdkapi :: "('e, 'w) databaseClient"

end
