(* ===== verification/Tag_Codec.thy ===== *)
theory Tag_Codec
  imports Ack_Runtime
begin

text \<open>
  The interface between a package's tag helpers (pkg/resource/*/tags.go) and the resource manager
  operations that use them (EnsureTags, FilterSystemTags, mirrorAWSTags, newResourceDelta). The
  \<open>assumes\<close> say what the four helpers do to the tags as a map; the lemmas are what the clients
  need. Each package's own helpers are an interpretation of the interface.
\<close>

definition aws_key :: "string \<Rightarrow> bool" where
  "aws_key k \<longleftrightarrow> prefix ''aws:'' k"

locale tag_codec =
  fixes convert :: "string ptr gomap option \<Rightarrow> tags \<times> string list"
    and restore :: "tags \<Rightarrow> string list \<Rightarrow> string ptr gomap"
    and ignore_system :: "tags \<Rightarrow> string list \<Rightarrow> tags"
    and sync_aws :: "tags \<Rightarrow> tags \<Rightarrow> tags"
  assumes convert_view: "fst (convert m) = tag_view m"
    and restore_view: "tag_view (Some (restore t ks)) = t"
    and restore_set: "fmlookup (restore t ks) k \<noteq> Some None"
    and ignore_system: "ignore_system t sys = fmfilter (\<lambda>k. \<not> aws_key k \<and> k \<notin> set sys) t"
    and sync_aws: "sync_aws a b = a ++\<^sub>f fmfilter aws_key b"
begin

lemma round_trip: "fst (convert (Some (restore t ks))) = t"
  by (simp only: convert_view restore_view)

text \<open>What FilterSystemTags, mirrorAWSTags and EnsureTags store, as tags.\<close>

lemma filtered_view:
  "tag_view (Some (restore (ignore_system (fst (convert m)) sys) ks)) =
     fmfilter (\<lambda>k. \<not> aws_key k \<and> k \<notin> set sys) (tag_view m)"
  by (simp only: restore_view convert_view ignore_system)

lemma mirrored_view:
  "tag_view (Some (restore (sync_aws (fst (convert a)) (fst (convert b))) ks)) =
     tag_view a ++\<^sub>f fmfilter aws_key (tag_view b)"
  by (simp only: restore_view convert_view sync_aws)

lemma mirror_keeps_user_tags:
  "\<not> aws_key k \<Longrightarrow>
   fmlookup (tag_view (Some (restore (sync_aws (fst (convert a)) (fst (convert b))) ks))) k =
     fmlookup (tag_view a) k"
  by (simp add: mirrored_view del: tag_view_simps)

lemma filter_idempotent:
  "ignore_system (ignore_system t sys) sys = ignore_system t sys"
  by (simp add: ignore_system)

lemma ignore_after_sync:
  "ignore_system (sync_aws a b) sys = ignore_system a sys"
  by (rule fmap_ext) (simp add: ignore_system sync_aws)

end

text \<open>Loops that a package's helpers are made of.\<close>

lemma range_fold_insert:
  "range_fold ord (\<lambda>k v. fmupd k (g v)) m fmempty = fmmap g m"
  by (rule fmap_ext, subst range_fold_pointwise [where h = "\<lambda>k v x. Some (g v)"])
    (auto split: option.splits)

lemma range_fold_delete:
  "range_fold ord (\<lambda>k v t. if P k then fmdrop k t else t) m m = fmfilter (\<lambda>k. \<not> P k) m"
  by (rule fmap_ext, subst range_fold_pointwise [where h = "\<lambda>k v x. if P k then None else x"])
    (auto split: option.splits)

lemma range_fold_copy:
  "range_fold ord (\<lambda>k v t. if P k then fmupd k v t else t) b a = a ++\<^sub>f fmfilter P b"
proof (rule fmap_ext)
  fix k
  show "fmlookup (range_fold ord (\<lambda>k v t. if P k then fmupd k v t else t) b a) k =
      fmlookup (a ++\<^sub>f fmfilter P b) k"
    by (subst range_fold_pointwise [where h = "\<lambda>k v x. if P k then Some v else x"])
      (auto simp: fmlookup_dom_iff split: option.splits)
qed

end
