(* ===== verification/Database_Tags.thy ===== *)
theory Database_Tags
  imports Tag_Codec
begin

text \<open>
  pkg/resource/database/tags.go: between the tags of a spec and ACK tags, and the two filters on
  ACK tags. The helpers loop over Go maps, so they take the iteration order as an argument; the
  interpretation of \<open>tag_codec\<close> shows that their results do not depend on it.
\<close>

definition convertToOrderedACKTags_database ::
  "map_order \<Rightarrow> string ptr gomap option \<Rightarrow> tags \<times> string list" where
  "convertToOrderedACKTags_database ord tags =
     (if golen tags = 0 then (fmempty, [])
      else (case tags of
              None \<Rightarrow> (fmempty, [])
            | Some m \<Rightarrow>
                (range_fold ord
                   (\<lambda>k v result. case v of None \<Rightarrow> fmupd k '''' result | Some x \<Rightarrow> fmupd k x result)
                   m fmempty, [])))"

definition fromACKTags_database :: "map_order \<Rightarrow> tags \<Rightarrow> string list \<Rightarrow> string ptr gomap" where
  "fromACKTags_database ord tags keyOrder =
     range_fold ord (\<lambda>k v result. fmupd k (Some v) result) tags fmempty"

definition ignoreSystemTags_database :: "map_order \<Rightarrow> tags \<Rightarrow> string list \<Rightarrow> tags" where
  "ignoreSystemTags_database ord tags systemTags =
     range_fold ord
       (\<lambda>k v tags. if prefix ''aws:'' k \<or> k \<in> set systemTags then fmdrop k tags else tags) tags tags"

definition syncAWSTags_database :: "map_order \<Rightarrow> tags \<Rightarrow> tags \<Rightarrow> tags" where
  "syncAWSTags_database ord a b =
     range_fold ord (\<lambda>k v a. if prefix ''aws:'' k then fmupd k v a else a) b a"

lemma convertToOrderedACKTags_database_eq: "convertToOrderedACKTags_database ord tags = (tag_view tags, [])"
proof -
  have body: "(\<lambda>k v result. case v of None \<Rightarrow> fmupd k '''' result | Some x \<Rightarrow> fmupd k x result) =
      (\<lambda>k v. fmupd k (ptr_string v))"
    by (auto simp: fun_eq_iff ptr_string_def split: option.splits)
  show ?thesis
    unfolding convertToOrderedACKTags_database_def body
    by (auto simp: range_fold_insert split: option.splits)
qed

interpretation database_tags: tag_codec "convertToOrderedACKTags_database ord" "fromACKTags_database ord"
  "ignoreSystemTags_database ord" "syncAWSTags_database ord" for ord
proof unfold_locales
  fix m t ks k sys a b
  show "fst (convertToOrderedACKTags_database ord m) = tag_view m"
    by (simp add: convertToOrderedACKTags_database_eq)
  show "tag_view (Some (fromACKTags_database ord t ks)) = t"
    by (simp add: fromACKTags_database_def range_fold_insert)
  show "fmlookup (fromACKTags_database ord t ks) k \<noteq> Some None"
    by (simp add: fromACKTags_database_def range_fold_insert)
  show "ignoreSystemTags_database ord t sys = fmfilter (\<lambda>k. \<not> aws_key k \<and> k \<notin> set sys) t"
    by (simp add: ignoreSystemTags_database_def aws_key_def range_fold_delete)
  show "syncAWSTags_database ord a b = a ++\<^sub>f fmfilter aws_key b"
    by (simp add: syncAWSTags_database_def aws_key_def [abs_def] range_fold_copy)
qed

end
