(* ===== verification/Ack_Compare.thy ===== *)
theory Ack_Compare
  imports Ack_Runtime
begin

text \<open>
  Comparing a desired with a latest resource. The package \<open>ackcompare\<close> of the ACK runtime and
  Kubernetes' semantic DeepEqual are outside the repository: they are the fields of \<open>cmplib\<close>, for
  the package's type \<open>'v\<close> of the values compared (Go passes them as \<open>interface{}\<close>) and the type
  \<open>'d\<close> of a delta, which the program only builds with \<open>Add\<close> and queries by path.

  The generated comparison is the same few lines for each field of one kind; the \<open>diff_\<close> functions
  are these lines, and the newResourceDelta of each package is their sequence.
\<close>

record ('v, 'd) cmplib =
  NewDelta :: 'd
  Delta_Add :: "'d \<Rightarrow> string \<Rightarrow> 'v \<Rightarrow> 'v \<Rightarrow> 'd"
  DifferentAt :: "'d \<Rightarrow> string \<Rightarrow> bool"
  DifferentExcept :: "'d \<Rightarrow> string \<Rightarrow> bool"
  HasNilDifference :: "'v \<Rightarrow> 'v \<Rightarrow> bool"
  IsNilEqualsZero :: "'v \<Rightarrow> 'v \<Rightarrow> bool"
  MapStringStringEqual :: "tags \<Rightarrow> tags \<Rightarrow> bool"
  MapStringStringPEqual :: "string ptr gomap option \<Rightarrow> string ptr gomap option \<Rightarrow> bool"
  SliceStringPEqual :: "string ptr slice \<Rightarrow> string ptr slice \<Rightarrow> bool"
  DeepEqual :: "'v \<Rightarrow> 'v \<Rightarrow> bool"

section \<open>The comparison of one field\<close>

definition diff_ptr ::
  "('v, 'd) cmplib \<Rightarrow> string \<Rightarrow> ('a ptr \<Rightarrow> 'v) \<Rightarrow> ('a \<Rightarrow> 'a \<Rightarrow> bool) \<Rightarrow> 'a ptr \<Rightarrow> 'a ptr \<Rightarrow> 'd \<Rightarrow> 'd" where
  "diff_ptr cmp path val differ a b delta =
     (if HasNilDifference cmp (val a) (val b) then Delta_Add cmp delta path (val a) (val b)
      else (case (a, b) of
              (Some x, Some y) \<Rightarrow>
                if differ x y then Delta_Add cmp delta path (val a) (val b) else delta
            | _ \<Rightarrow> delta))"

definition diff_ptr_nil_zero ::
  "('v, 'd) cmplib \<Rightarrow> string \<Rightarrow> ('a ptr \<Rightarrow> 'v) \<Rightarrow> ('a \<Rightarrow> 'a \<Rightarrow> bool) \<Rightarrow> 'a ptr \<Rightarrow> 'a ptr \<Rightarrow> 'd \<Rightarrow> 'd" where
  "diff_ptr_nil_zero cmp path val differ a b delta =
     (if HasNilDifference cmp (val a) (val b) then
        if \<not> IsNilEqualsZero cmp (val a) (val b) then Delta_Add cmp delta path (val a) (val b)
        else delta
      else (case (a, b) of
              (Some x, Some y) \<Rightarrow>
                if differ x y then Delta_Add cmp delta path (val a) (val b) else delta
            | _ \<Rightarrow> delta))"

definition diff_struct ::
  "('v, 'd) cmplib \<Rightarrow> string \<Rightarrow> ('a ptr \<Rightarrow> 'v) \<Rightarrow> ('a \<Rightarrow> 'a \<Rightarrow> 'd \<Rightarrow> 'd) \<Rightarrow> 'a ptr \<Rightarrow> 'a ptr \<Rightarrow> 'd \<Rightarrow> 'd" where
  "diff_struct cmp path val inner a b delta =
     (if HasNilDifference cmp (val a) (val b) then Delta_Add cmp delta path (val a) (val b)
      else (case (a, b) of (Some x, Some y) \<Rightarrow> inner x y delta | _ \<Rightarrow> delta))"

definition diff_sized ::
  "('v, 'd) cmplib \<Rightarrow> string \<Rightarrow> ('a \<Rightarrow> 'v) \<Rightarrow> ('a \<Rightarrow> nat) \<Rightarrow> ('a \<Rightarrow> 'a \<Rightarrow> bool) \<Rightarrow> 'a \<Rightarrow> 'a \<Rightarrow> 'd \<Rightarrow> 'd" where
  "diff_sized cmp path val len equal a b delta =
     (if len a \<noteq> len b then Delta_Add cmp delta path (val a) (val b)
      else if len a > 0 then
        if \<not> equal a b then Delta_Add cmp delta path (val a) (val b) else delta
      else delta)"

definition diff_deep :: "('v, 'd) cmplib \<Rightarrow> string \<Rightarrow> ('a \<Rightarrow> 'v) \<Rightarrow> 'a \<Rightarrow> 'a \<Rightarrow> 'd \<Rightarrow> 'd" where
  "diff_deep cmp path val a b delta =
     (if \<not> DeepEqual cmp (val a) (val b) then Delta_Add cmp delta path (val a) (val b) else delta)"

definition diff_tags ::
  "('v, 'd) cmplib \<Rightarrow> string \<Rightarrow> (string ptr gomap option \<Rightarrow> 'v) \<Rightarrow>
     (string ptr gomap option \<Rightarrow> tags \<times> string list) \<Rightarrow>
     string ptr gomap option \<Rightarrow> string ptr gomap option \<Rightarrow> 'd \<Rightarrow> 'd" where
  "diff_tags cmp path val convert a b delta =
     (let (desiredACKTags, _) = convert a; (latestACKTags, _) = convert b
      in if \<not> MapStringStringEqual cmp desiredACKTags latestACKTags
         then Delta_Add cmp delta path (val a) (val b) else delta)"

definition slice_len :: "'a slice \<Rightarrow> nat" where
  "slice_len xs = (case xs of None \<Rightarrow> 0 | Some ys \<Rightarrow> length ys)"

section \<open>What the library promises\<close>

text \<open>
  \<open>paths d\<close> lists the paths of the differences added to a delta, in order. \<open>DifferentAt\<close> asks for a
  difference at or below a path, \<open>DifferentExcept\<close> for one that is neither; \<open>below\<close> is the runtime's
  relation on paths. \<open>nil\<close> and \<open>zero\<close> are the nil and the zero values of \<open>'v\<close>.
\<close>

definition delta_laws :: "('v, 'd) cmplib \<Rightarrow> ('d \<Rightarrow> string list) \<Rightarrow> (string \<Rightarrow> string \<Rightarrow> bool) \<Rightarrow> bool" where
  "delta_laws cmp paths below \<longleftrightarrow>
     paths (NewDelta cmp) = [] \<and>
     (\<forall>d p a b. paths (Delta_Add cmp d p a b) = paths d @ [p]) \<and>
     (\<forall>d q. DifferentAt cmp d q \<longleftrightarrow> (\<exists>p\<in>set (paths d). below p q)) \<and>
     (\<forall>d q. DifferentExcept cmp d q \<longleftrightarrow> (\<exists>p\<in>set (paths d). \<not> below p q))"

definition value_laws :: "('v, 'd) cmplib \<Rightarrow> ('v \<Rightarrow> bool) \<Rightarrow> ('v \<Rightarrow> bool) \<Rightarrow> bool" where
  "value_laws cmp nil zero \<longleftrightarrow>
     (\<forall>a b. HasNilDifference cmp a b \<longleftrightarrow> nil a \<noteq> nil b) \<and>
     (\<forall>a b. nil a \<noteq> nil b \<longrightarrow> (IsNilEqualsZero cmp a b \<longleftrightarrow> zero a \<or> zero b)) \<and>
     (\<forall>a b. MapStringStringEqual cmp a b \<longleftrightarrow> a = b) \<and>
     (\<forall>a. MapStringStringPEqual cmp a a) \<and>
     (\<forall>a. SliceStringPEqual cmp a a)"

text \<open>
  Deep equality holds of a value and itself when it compares only what equals itself under \<open>==\<close>: a
  package whose values hold floats gives the values \<open>P\<close> that have no NaN.
\<close>

definition reflexive_law :: "('v, 'd) cmplib \<Rightarrow> ('v \<Rightarrow> bool) \<Rightarrow> bool" where
  "reflexive_law cmp P \<longleftrightarrow> (\<forall>v. P v \<longrightarrow> DeepEqual cmp v v)"

lemma reflexive_lawD: "reflexive_law cmp P \<Longrightarrow> P v \<Longrightarrow> DeepEqual cmp v v"
  by (simp add: reflexive_law_def)

lemma delta_lawsD:
  assumes "delta_laws cmp paths below"
  shows "paths (NewDelta cmp) = []" "paths (Delta_Add cmp d p a b) = paths d @ [p]"
    and "DifferentAt cmp d q \<longleftrightarrow> (\<exists>p\<in>set (paths d). below p q)"
    and "DifferentExcept cmp d q \<longleftrightarrow> (\<exists>p\<in>set (paths d). \<not> below p q)"
  using assms by (auto simp: delta_laws_def)

lemma value_lawsD:
  assumes "value_laws cmp nil zero"
  shows "HasNilDifference cmp a b \<longleftrightarrow> nil a \<noteq> nil b"
    and "nil a \<noteq> nil b \<Longrightarrow> IsNilEqualsZero cmp a b \<longleftrightarrow> zero a \<or> zero b"
    and "MapStringStringEqual cmp t u \<longleftrightarrow> t = u"
    and "MapStringStringPEqual cmp m m" "SliceStringPEqual cmp xs xs"
  using assms by (auto simp: value_laws_def)

text \<open>The paths one field contributes.\<close>

definition when_differs :: "bool \<Rightarrow> string \<Rightarrow> string list" where
  "when_differs c p = (if c then [p] else [])"

lemma when_differs_simps [simp]:
  "when_differs False p = []" "when_differs True p = [p]"
  "set (when_differs c p) = (if c then {p} else {})" "when_differs c p = [] \<longleftrightarrow> \<not> c"
  by (simp_all add: when_differs_def)

text \<open>Reading a delta field by field, under the laws and with \<open>val\<close> nil only at \<open>None\<close>.\<close>

named_theorems path_simps \<open>the paths each kind of comparison adds\<close>

lemma paths_diff_ptr [path_simps]:
  assumes "delta_laws cmp paths below" "value_laws cmp nil zero" "\<And>p. nil (val p) \<longleftrightarrow> p = None"
  shows "paths (diff_ptr cmp path val (\<noteq>) a b d) = paths d @ when_differs (a \<noteq> b) path"
  by (auto simp: diff_ptr_def delta_lawsD [OF assms(1)] value_lawsD [OF assms(2)] assms(3)
      split: option.splits)

text \<open>Pointers that differ in being nil, or in their values.\<close>

definition differs_by :: "('a \<Rightarrow> 'a \<Rightarrow> bool) \<Rightarrow> 'a ptr \<Rightarrow> 'a ptr \<Rightarrow> bool" where
  "differs_by differ a b \<longleftrightarrow>
     (case (a, b) of (Some x, Some y) \<Rightarrow> differ x y | (None, None) \<Rightarrow> False | _ \<Rightarrow> True)"

lemma paths_diff_ptr_by [path_simps]:
  assumes "delta_laws cmp paths below" "value_laws cmp nil zero" "\<And>p. nil (val p) \<longleftrightarrow> p = None"
  shows "paths (diff_ptr cmp path val differ a b d) = paths d @ when_differs (differs_by differ a b) path"
  by (auto simp: diff_ptr_def differs_by_def delta_lawsD [OF assms(1)] value_lawsD [OF assms(2)] assms(3)
      split: option.splits)

lemma paths_diff_ptr_nil_zero [path_simps]:
  assumes "delta_laws cmp paths below" "value_laws cmp nil zero" "\<And>p. nil (val p) \<longleftrightarrow> p = None"
    and "\<And>p. zero (val p) \<longleftrightarrow> p = Some z"
  shows "paths (diff_ptr_nil_zero cmp path val (\<noteq>) a b d) =
    paths d @ when_differs (case a of None \<Rightarrow> b \<noteq> None \<and> b \<noteq> Some z
                            | Some x \<Rightarrow> b \<noteq> Some x \<and> (b = None \<longrightarrow> x \<noteq> z)) path"
  by (cases a; cases b)
    (auto simp: diff_ptr_nil_zero_def delta_lawsD [OF assms(1)] value_lawsD [OF assms(2)] assms(3,4))

text \<open>A nested struct contributes the paths of its fields, or its own when only one side has it.\<close>

definition struct_paths :: "('a \<Rightarrow> 'a \<Rightarrow> string list) \<Rightarrow> string \<Rightarrow> 'a ptr \<Rightarrow> 'a ptr \<Rightarrow> string list" where
  "struct_paths sub path a b =
     (case (a, b) of (Some x, Some y) \<Rightarrow> sub x y | _ \<Rightarrow> when_differs (a \<noteq> b) path)"

lemma paths_diff_struct [path_simps]:
  assumes "delta_laws cmp paths below" "value_laws cmp nil zero" "\<And>p. nil (val p) \<longleftrightarrow> p = None"
    and "\<And>x y d. paths (inner x y d) = paths d @ sub x y"
  shows "paths (diff_struct cmp path val inner a b d) =
    paths d @ struct_paths sub path a b"
  by (auto simp: diff_struct_def struct_paths_def delta_lawsD [OF assms(1)] value_lawsD [OF assms(2)] assms(3,4)
      split: option.splits)

lemma paths_diff_sized [path_simps]:
  assumes "delta_laws cmp paths below"
  shows "paths (diff_sized cmp path val len equal a b d) =
    paths d @ when_differs (len a \<noteq> len b \<or> (len a > 0 \<and> \<not> equal a b)) path"
  by (auto simp: diff_sized_def delta_lawsD [OF assms])

text \<open>
  A collection the library compares differs when its size does or the library says so; an empty
  collection equals a missing one.
\<close>

definition differs_sized :: "('a \<Rightarrow> nat) \<Rightarrow> ('a \<Rightarrow> 'a \<Rightarrow> bool) \<Rightarrow> 'a \<Rightarrow> 'a \<Rightarrow> bool" where
  "differs_sized len equal a b \<longleftrightarrow> len a \<noteq> len b \<or> (len a > 0 \<and> \<not> equal a b)"

lemma paths_diff_deep [path_simps]:
  assumes "delta_laws cmp paths below"
  shows "paths (diff_deep cmp path val a b d) =
    paths d @ when_differs (\<not> DeepEqual cmp (val a) (val b)) path"
  by (auto simp: diff_deep_def delta_lawsD [OF assms])

lemma paths_diff_tags [path_simps]:
  assumes "delta_laws cmp paths below" "value_laws cmp nil zero" "\<And>m. fst (convert m) = tag_view m"
  shows "paths (diff_tags cmp path val convert a b d) =
    paths d @ when_differs (tag_view a \<noteq> tag_view b) path"
  using assms(3) [of a] assms(3) [of b]
  by (auto simp: diff_tags_def delta_lawsD [OF assms(1)] value_lawsD [OF assms(2)] case_prod_beta)

section \<open>A concrete library\<close>

text \<open>
  A delta as the list of its differences; a path is below another when the other's dotted parts
  are a prefix of its own.
\<close>

fun path_parts :: "string \<Rightarrow> string \<Rightarrow> string list" where
  "path_parts acc [] = [rev acc]"
| "path_parts acc (c # cs) =
     (if c = CHR ''.'' then rev acc # path_parts [] cs else path_parts (c # acc) cs)"

definition path_below :: "string \<Rightarrow> string \<Rightarrow> bool" where
  "path_below p q \<longleftrightarrow> prefix (path_parts [] q) (path_parts [] p)"

text \<open>\<open>pure v\<close> says that the value holds no NaN, which deep equality takes to differ from itself.\<close>

definition list_cmplib ::
  "('v \<Rightarrow> bool) \<Rightarrow> ('v \<Rightarrow> bool) \<Rightarrow> ('v \<Rightarrow> bool) \<Rightarrow> ('v, (string \<times> 'v \<times> 'v) list) cmplib" where
  "list_cmplib nil zero pure = \<lparr>
     NewDelta = [],
     Delta_Add = (\<lambda>d p a b. d @ [(p, a, b)]),
     DifferentAt = (\<lambda>d q. \<exists>x\<in>set d. path_below (fst x) q),
     DifferentExcept = (\<lambda>d q. \<exists>x\<in>set d. \<not> path_below (fst x) q),
     HasNilDifference = (\<lambda>a b. nil a \<noteq> nil b),
     IsNilEqualsZero = (\<lambda>a b. zero a \<or> zero b),
     MapStringStringEqual = (=),
     MapStringStringPEqual = (=),
     SliceStringPEqual = (=),
     DeepEqual = (\<lambda>a b. a = b \<and> pure a)\<rparr>"

lemma list_cmplib_laws:
  "delta_laws (list_cmplib nil zero pure) (map fst) path_below"
  "value_laws (list_cmplib nil zero pure) nil zero" "reflexive_law (list_cmplib nil zero pure) pure"
  by (auto simp: delta_laws_def value_laws_def reflexive_law_def list_cmplib_def)

end
