(* ===== verification/Database_Delta.thy ===== *)
theory Database_Delta
  imports Database_Types Database_Tags Ack_Compare
begin

text \<open>
  pkg/resource/database/delta.go: newResourceDelta compares a desired with a latest Database field
  by field. The main lemma gives the exact list of the paths it reports.
\<close>

text \<open>The values handed to the comparison library, by Go type; a resource is a pointer to its ko.\<close>

record resource_database =
  resource_ko :: "Database ptr"

datatype database_value =
    VString "string ptr"
  | VFederatedDatabase "FederatedDatabase ptr"
  | VTargetDatabase "DatabaseIdentifier ptr"
  | VStringMap "string ptr gomap option"
  | VPermissions "PrincipalPermissions ptr slice"
  | VResource "resource_database ptr"

fun nil_database :: "database_value \<Rightarrow> bool" where
  "nil_database (VString p) \<longleftrightarrow> p = None"
| "nil_database (VFederatedDatabase p) \<longleftrightarrow> p = None"
| "nil_database (VTargetDatabase p) \<longleftrightarrow> p = None"
| "nil_database (VStringMap m) \<longleftrightarrow> m = None"
| "nil_database (VPermissions s) \<longleftrightarrow> s = None"
| "nil_database (VResource p) \<longleftrightarrow> p = None"

fun zero_database :: "database_value \<Rightarrow> bool" where
  "zero_database (VString p) \<longleftrightarrow> p = Some ''''"
| "zero_database _ \<longleftrightarrow> False"

definition diff_FederatedDatabase ::
  "(database_value, 'd) cmplib \<Rightarrow> FederatedDatabase \<Rightarrow> FederatedDatabase \<Rightarrow> 'd \<Rightarrow> 'd" where
  "diff_FederatedDatabase cmp a b delta =
     (let delta = diff_ptr cmp ''Spec.FederatedDatabase.ConnectionName'' VString (\<noteq>)
            (FederatedDatabase.ConnectionName a) (FederatedDatabase.ConnectionName b) delta;
          delta = diff_ptr cmp ''Spec.FederatedDatabase.Identifier'' VString (\<noteq>)
            (FederatedDatabase.Identifier a) (FederatedDatabase.Identifier b) delta
      in delta)"

definition diff_TargetDatabase ::
  "(database_value, 'd) cmplib \<Rightarrow> DatabaseIdentifier \<Rightarrow> DatabaseIdentifier \<Rightarrow> 'd \<Rightarrow> 'd" where
  "diff_TargetDatabase cmp a b delta =
     (let delta = diff_ptr cmp ''Spec.TargetDatabase.CatalogID'' VString (\<noteq>)
            (DatabaseIdentifier.CatalogID a) (DatabaseIdentifier.CatalogID b) delta;
          delta = diff_ptr cmp ''Spec.TargetDatabase.DatabaseName'' VString (\<noteq>)
            (DatabaseIdentifier.DatabaseName a) (DatabaseIdentifier.DatabaseName b) delta;
          delta = diff_ptr cmp ''Spec.TargetDatabase.Region'' VString (\<noteq>)
            (DatabaseIdentifier.Region a) (DatabaseIdentifier.Region b) delta
      in delta)"

definition diff_DatabaseSpec ::
  "(database_value, 'd) cmplib \<Rightarrow> map_order \<Rightarrow> DatabaseSpec \<Rightarrow> DatabaseSpec \<Rightarrow> 'd \<Rightarrow> 'd" where
  "diff_DatabaseSpec cmp ord a b delta =
     (let delta = diff_ptr cmp ''Spec.CatalogID'' VString (\<noteq>)
            (DatabaseSpec.CatalogID a) (DatabaseSpec.CatalogID b) delta;
          delta = diff_ptr_nil_zero cmp ''Spec.Description'' VString (\<noteq>)
            (DatabaseSpec.Description a) (DatabaseSpec.Description b) delta;
          delta = diff_struct cmp ''Spec.FederatedDatabase'' VFederatedDatabase
            (diff_FederatedDatabase cmp)
            (DatabaseSpec.FederatedDatabase a) (DatabaseSpec.FederatedDatabase b) delta;
          delta = diff_ptr_nil_zero cmp ''Spec.LocationURI'' VString (\<noteq>)
            (DatabaseSpec.LocationURI a) (DatabaseSpec.LocationURI b) delta;
          delta = diff_ptr cmp ''Spec.Name'' VString (\<noteq>)
            (DatabaseSpec.Name a) (DatabaseSpec.Name b) delta;
          delta = diff_sized cmp ''Spec.Parameters'' VStringMap golen (MapStringStringPEqual cmp)
            (DatabaseSpec.Parameters a) (DatabaseSpec.Parameters b) delta;
          delta = diff_sized cmp ''Spec.TableDefaultPermissions'' VPermissions slice_len
            (\<lambda>x y. DeepEqual cmp (VPermissions x) (VPermissions y))
            (DatabaseSpec.TableDefaultPermissions a) (DatabaseSpec.TableDefaultPermissions b) delta;
          delta = diff_tags cmp ''Spec.Tags'' VStringMap (convertToOrderedACKTags_database ord)
            (DatabaseSpec.Tags a) (DatabaseSpec.Tags b) delta;
          delta = diff_struct cmp ''Spec.TargetDatabase'' VTargetDatabase
            (diff_TargetDatabase cmp)
            (DatabaseSpec.TargetDatabase a) (DatabaseSpec.TargetDatabase b) delta
      in delta)"

definition newResourceDelta_database ::
  "(database_value, 'd) cmplib \<Rightarrow> map_order \<Rightarrow> resource_database ptr \<Rightarrow> resource_database ptr \<Rightarrow>
     ('e, 'd) outcome" where
  "newResourceDelta_database cmp ord a b =
     (if (a = None \<and> b \<noteq> None) \<or> (a \<noteq> None \<and> b = None)
      then Inr (Delta_Add cmp (NewDelta cmp) '''' (VResource a) (VResource b))
      else and_then (deref a) (\<lambda>a. and_then (deref b) (\<lambda>b.
             and_then (deref (resource_ko a)) (\<lambda>a. and_then (deref (resource_ko b)) (\<lambda>b.
               Inr (diff_DatabaseSpec cmp ord (Spec a) (Spec b) (NewDelta cmp)))))))"

section \<open>The reported paths\<close>

text \<open>Where \<open>nil\<close> counts as the empty string.\<close>

definition differs_nil_zero :: "string ptr \<Rightarrow> string ptr \<Rightarrow> bool" where
  "differs_nil_zero a b \<longleftrightarrow> ptr_string a \<noteq> ptr_string b"

definition federated_paths :: "FederatedDatabase ptr \<Rightarrow> FederatedDatabase ptr \<Rightarrow> string list" where
  "federated_paths a b =
     (case (a, b) of
        (Some x, Some y) \<Rightarrow>
          when_differs (FederatedDatabase.ConnectionName x \<noteq> FederatedDatabase.ConnectionName y)
            ''Spec.FederatedDatabase.ConnectionName'' @
          when_differs (FederatedDatabase.Identifier x \<noteq> FederatedDatabase.Identifier y)
            ''Spec.FederatedDatabase.Identifier''
      | _ \<Rightarrow> when_differs (a \<noteq> b) ''Spec.FederatedDatabase'')"

definition target_paths :: "DatabaseIdentifier ptr \<Rightarrow> DatabaseIdentifier ptr \<Rightarrow> string list" where
  "target_paths a b =
     (case (a, b) of
        (Some x, Some y) \<Rightarrow>
          when_differs (DatabaseIdentifier.CatalogID x \<noteq> DatabaseIdentifier.CatalogID y)
            ''Spec.TargetDatabase.CatalogID'' @
          when_differs (DatabaseIdentifier.DatabaseName x \<noteq> DatabaseIdentifier.DatabaseName y)
            ''Spec.TargetDatabase.DatabaseName'' @
          when_differs (DatabaseIdentifier.Region x \<noteq> DatabaseIdentifier.Region y)
            ''Spec.TargetDatabase.Region''
      | _ \<Rightarrow> when_differs (a \<noteq> b) ''Spec.TargetDatabase'')"

definition spec_paths ::
  "(database_value, 'd) cmplib \<Rightarrow> DatabaseSpec \<Rightarrow> DatabaseSpec \<Rightarrow> string list" where
  "spec_paths cmp a b =
     when_differs (DatabaseSpec.CatalogID a \<noteq> DatabaseSpec.CatalogID b) ''Spec.CatalogID'' @
     when_differs (differs_nil_zero (DatabaseSpec.Description a) (DatabaseSpec.Description b))
       ''Spec.Description'' @
     federated_paths (DatabaseSpec.FederatedDatabase a) (DatabaseSpec.FederatedDatabase b) @
     when_differs (differs_nil_zero (DatabaseSpec.LocationURI a) (DatabaseSpec.LocationURI b))
       ''Spec.LocationURI'' @
     when_differs (DatabaseSpec.Name a \<noteq> DatabaseSpec.Name b) ''Spec.Name'' @
     when_differs (differs_sized golen (MapStringStringPEqual cmp)
       (DatabaseSpec.Parameters a) (DatabaseSpec.Parameters b)) ''Spec.Parameters'' @
     when_differs (differs_sized slice_len (\<lambda>x y. DeepEqual cmp (VPermissions x) (VPermissions y))
       (DatabaseSpec.TableDefaultPermissions a) (DatabaseSpec.TableDefaultPermissions b))
       ''Spec.TableDefaultPermissions'' @
     when_differs (tag_view (DatabaseSpec.Tags a) \<noteq> tag_view (DatabaseSpec.Tags b)) ''Spec.Tags'' @
     target_paths (DatabaseSpec.TargetDatabase a) (DatabaseSpec.TargetDatabase b)"

lemma differs_nil_zero_case:
  "(case a of None \<Rightarrow> b \<noteq> None \<and> b \<noteq> Some '''' | Some x \<Rightarrow> b \<noteq> Some x \<and> (b = None \<longrightarrow> x \<noteq> '''')) =
   differs_nil_zero a b"
  by (auto simp: differs_nil_zero_def ptr_string_def split: option.splits)

lemma paths_diff_DatabaseSpec:
  assumes delta: "delta_laws cmp paths below"
    and vals: "value_laws cmp nil_database zero_database"
  shows "paths (diff_DatabaseSpec cmp ord a b d) = paths d @ spec_paths cmp a b"
proof -
  note string = paths_diff_ptr [OF delta vals, of VString, simplified]
  note nil_zero = paths_diff_ptr_nil_zero [OF delta vals, of VString "''''", simplified,
      unfolded differs_nil_zero_case]
  have federated: "paths (diff_FederatedDatabase cmp x y d) = paths d @
      (when_differs (FederatedDatabase.ConnectionName x \<noteq> FederatedDatabase.ConnectionName y)
         ''Spec.FederatedDatabase.ConnectionName'' @
       when_differs (FederatedDatabase.Identifier x \<noteq> FederatedDatabase.Identifier y)
         ''Spec.FederatedDatabase.Identifier'')" for x y d
    by (simp add: diff_FederatedDatabase_def string)
  have target: "paths (diff_TargetDatabase cmp x y d) = paths d @
      (when_differs (DatabaseIdentifier.CatalogID x \<noteq> DatabaseIdentifier.CatalogID y)
         ''Spec.TargetDatabase.CatalogID'' @
       when_differs (DatabaseIdentifier.DatabaseName x \<noteq> DatabaseIdentifier.DatabaseName y)
         ''Spec.TargetDatabase.DatabaseName'' @
       when_differs (DatabaseIdentifier.Region x \<noteq> DatabaseIdentifier.Region y)
         ''Spec.TargetDatabase.Region'')" for x y d
    by (simp add: diff_TargetDatabase_def string)
  note structs = paths_diff_struct [OF delta vals _ federated, of VFederatedDatabase, simplified]
    paths_diff_struct [OF delta vals _ target, of VTargetDatabase, simplified]
  show ?thesis
    unfolding diff_DatabaseSpec_def Let_def
    by (simp only: string nil_zero structs paths_diff_sized [OF delta]
        paths_diff_tags [OF delta vals database_tags.convert_view] append_assoc
        spec_paths_def struct_paths_def federated_paths_def target_paths_def differs_sized_def prod.case)
qed

end
