(* ===== verification/Ack_Status.thy ===== *)
theory Ack_Status
  imports Ack_Runtime
begin

text \<open>
  The status of a custom resource: the defaults setStatusDefaults fills in, and the conditions
  updateConditions maintains from the outcome of an operation. The two packages hold the same code
  (sdk.go: setStatusDefaults, updateConditions, terminalAWSError); it works on the status alone, so
  it is stated once here and each package's function applies it to its own resource type.

  The interface \<open>ack_manager\<close> at the end is what onError and onSuccess of a resource manager build
  on; the lemmas about them are proved in it once, for both packages.
\<close>

section \<open>Defaults\<close>

definition empty_metadata :: ResourceMetadata where
  "empty_metadata = \<lparr>ARN = None, OwnerAccountID = None, Region = None, Partition = None\<rparr>"

definition or_default :: "'a ptr \<Rightarrow> 'a \<Rightarrow> 'a ptr" where
  "or_default p d = (if p = None then Some d else p)"

definition status_defaults :: "string \<Rightarrow> string \<Rightarrow> string \<Rightarrow> ack_status \<Rightarrow> ack_status" where
  "status_defaults awsRegion awsPartition awsAccountID st =
     (let md = (case ACKResourceMetadata st of None \<Rightarrow> empty_metadata | Some md \<Rightarrow> md);
          md = md\<lparr>Region := or_default (Region md) awsRegion\<rparr>;
          md = md\<lparr>Partition := or_default (Partition md) awsPartition\<rparr>;
          md = md\<lparr>OwnerAccountID := or_default (OwnerAccountID md) awsAccountID\<rparr>
      in st\<lparr>ACKResourceMetadata := Some md, Conditions := or_default (Conditions st) []\<rparr>)"

lemma or_default_simps [simp]: "or_default None d = Some d" "or_default (Some a) d = Some a"
  by (simp_all add: or_default_def)

lemma or_default_set [simp]: "or_default p d \<noteq> None" "or_default (or_default p d) d' = or_default p d"
  by (cases p; simp)+

lemma status_defaults_metadata:
  "\<exists>md r p a. ACKResourceMetadata (status_defaults region part acct st) = Some md \<and>
     Region md = Some r \<and> Partition md = Some p \<and> OwnerAccountID md = Some a"
  by (cases "ACKResourceMetadata st")
    (auto simp: status_defaults_def Let_def or_default_def)

lemma status_defaults_idem:
  "status_defaults r p a (status_defaults r' p' a' st) = status_defaults r' p' a' st"
  by (simp add: status_defaults_def Let_def)

section \<open>Terminal errors\<close>

definition terminalAWSError :: "'e golib \<Rightarrow> 'e option \<Rightarrow> bool" where
  "terminalAWSError lib err =
     (case err of
        None \<Rightarrow> False
      | Some e \<Rightarrow>
          (case errors_As_APIError lib e of
             None \<Rightarrow> False
           | Some code \<Rightarrow> code = ''InvalidInputException''))"

text \<open>The errors of the ACK runtime that are terminal whatever the service said.\<close>

definition terminalACKError :: "'e golib \<Rightarrow> 'e option \<Rightarrow> bool" where
  "terminalACKError lib err =
     (case err of
        None \<Rightarrow> False
      | Some e \<Rightarrow> e = ackerr_SecretTypeNotSupported lib \<or> e = ackerr_SecretNotFound lib \<or>
          errors_As_TerminalError lib e)"

section \<open>Conditions\<close>

text \<open>The loop over the conditions keeps the last one of each type.\<close>

fun find_last :: "ConditionType \<Rightarrow> nat \<Rightarrow> Condition list \<Rightarrow> nat option \<Rightarrow> nat option" where
  "find_last t i [] found = found"
| "find_last t i (c # cs) found = find_last t (Suc i) cs (if Type c = t then Some i else found)"

definition new_condition :: "ConditionType \<Rightarrow> Condition" where
  "new_condition t =
     \<lparr>Type = t, Status = ConditionUnset, LastTransitionTime = None, Reason = None, Message = None\<rparr>"

definition set_condition :: "ConditionStatus \<Rightarrow> string ptr \<Rightarrow> nat \<Rightarrow> Condition list \<Rightarrow> Condition list" where
  "set_condition st msg i cs = cs[i := (cs ! i)\<lparr>Status := st, Message := msg\<rparr>]"

text \<open>\<open>if c == nil { c = &Condition{Type: t}; append }\<close>: the list and the position of the condition.\<close>

definition ensure_condition ::
  "ConditionType \<Rightarrow> nat option \<Rightarrow> Condition list \<Rightarrow> Condition list \<times> nat" where
  "ensure_condition t found cs =
     (case found of None \<Rightarrow> (cs @ [new_condition t], length cs) | Some i \<Rightarrow> (cs, i))"

definition clear_condition :: "nat option \<Rightarrow> Condition list \<Rightarrow> Condition list" where
  "clear_condition found cs =
     (case found of None \<Rightarrow> cs | Some i \<Rightarrow> set_condition ConditionFalse None i cs)"

definition terminal_message :: "'e golib \<Rightarrow> 'e \<Rightarrow> ('e, string) outcome" where
  "terminal_message lib e =
     (if terminalACKError lib (Some e) then Inr (error_Error lib e)
      else and_then (deref (ackerr_AWSError lib e)) (\<lambda>awsErr. Inr (error_Error lib awsErr)))"

definition recoverable_message :: "'e golib \<Rightarrow> 'e \<Rightarrow> string" where
  "recoverable_message lib e =
     (case ackerr_AWSError lib e of
        None \<Rightarrow> error_Error lib e
      | Some awsErr \<Rightarrow> error_Error lib awsErr)"

text \<open>
  updateConditions once its loop has found the conditions: the new list and whether it counts as
  updated.
\<close>

definition update_found ::
  "'e golib \<Rightarrow> 'e option \<Rightarrow> Condition list \<Rightarrow> ('e, Condition list \<times> bool) outcome" where
  "update_found lib err cs =
     (let terminal = find_last ConditionTypeTerminal 0 cs None;
          recoverable = find_last ConditionTypeRecoverable 0 cs None;
          sync = find_last ConditionTypeResourceSynced 0 cs None
      in if terminalAWSError lib err \<or> terminalACKError lib err then
           (case err of
              None \<Rightarrow> Inl GoPanic
            | Some e \<Rightarrow>
                (let (cs, i) = ensure_condition ConditionTypeTerminal terminal cs
                 in and_then (terminal_message lib e)
                      (\<lambda>msg. Inr (set_condition ConditionTrue (Some msg) i cs, True))))
         else
           (let cs = clear_condition terminal cs
            in case err of
                 Some e \<Rightarrow>
                   (let (cs, i) = ensure_condition ConditionTypeRecoverable recoverable cs
                    in Inr (set_condition ConditionTrue (Some (recoverable_message lib e)) i cs, True))
               | None \<Rightarrow>
                   Inr (clear_condition recoverable cs,
                     terminal \<noteq> None \<or> recoverable \<noteq> None \<or> sync \<noteq> None)))"

text \<open>
  The conditions of a status are pointers. The loop that finds them dereferences each one, so that a
  nil element is a panic; after it every element points to a condition. \<open>any_condition\<close> is a loop
  that returns at the first condition that satisfies \<open>P\<close>.
\<close>

definition update_conditions ::
  "'e golib \<Rightarrow> 'e option \<Rightarrow> Condition ptr list \<Rightarrow> ('e, Condition ptr list \<times> bool) outcome" where
  "update_conditions lib err conditions =
     and_then (traverse deref conditions) (\<lambda>cs.
     and_then (update_found lib err cs) (\<lambda>(cs, updated). Inr (map Some cs, updated)))"

fun any_condition :: "(Condition \<Rightarrow> bool) \<Rightarrow> Condition ptr list \<Rightarrow> ('e, bool) outcome" where
  "any_condition P [] = Inr False"
| "any_condition P (c # cs) = and_then (deref c) (\<lambda>c. if P c then Inr True else any_condition P cs)"

lemma traverse_deref_map [simp]: "traverse deref (map Some xs) = Inr xs"
  by (induction xs) simp_all

lemma traverse_deref_nil: "None \<in> set ps \<Longrightarrow> traverse deref ps = Inl GoPanic"
proof (induction ps)
  case (Cons p ps)
  then show ?case by (cases p) auto
qed simp

lemma any_condition_map [simp]: "any_condition P (map Some cs) = Inr (\<exists>c\<in>set cs. P c)"
  by (induction cs) auto

lemma update_conditions_map [simp]:
  "update_conditions lib err (map Some cs) =
     and_then (update_found lib err cs) (\<lambda>(cs, updated). Inr (map Some cs, updated))"
  by (simp add: update_conditions_def)

lemma update_conditions_nil: "None \<in> set ps \<Longrightarrow> update_conditions lib err ps = Inl GoPanic"
  by (simp add: update_conditions_def traverse_deref_nil)

subsection \<open>The conditions as a specification\<close>

text \<open>
  The index arithmetic above is an update of the last condition of a type, and an insertion where
  there is none.
\<close>

definition has_type :: "ConditionType \<Rightarrow> Condition list \<Rightarrow> bool" where
  "has_type t cs \<longleftrightarrow> (\<exists>c\<in>set cs. Type c = t)"

fun update_last :: "ConditionType \<Rightarrow> (Condition \<Rightarrow> Condition) \<Rightarrow> Condition list \<Rightarrow> Condition list" where
  "update_last t f [] = []"
| "update_last t f (c # cs) =
     (if has_type t cs then c # update_last t f cs
      else if Type c = t then f c # cs else c # cs)"

definition mark :: "ConditionStatus \<Rightarrow> string ptr \<Rightarrow> Condition \<Rightarrow> Condition" where
  "mark st msg c = c\<lparr>Status := st, Message := msg\<rparr>"

definition upsert :: "ConditionType \<Rightarrow> ConditionStatus \<Rightarrow> string ptr \<Rightarrow> Condition list \<Rightarrow> Condition list" where
  "upsert t st msg cs =
     (if has_type t cs then update_last t (mark st msg) cs else cs @ [mark st msg (new_condition t)])"

lemma has_type_simps [simp]:
  "\<not> has_type t []" "has_type t (c # cs) \<longleftrightarrow> Type c = t \<or> has_type t cs"
  "has_type t (xs @ ys) \<longleftrightarrow> has_type t xs \<or> has_type t ys"
  by (auto simp: has_type_def)

lemma Type_mark [simp]: "Type (mark st msg c) = Type c" "Status (mark st msg c) = st"
    "Message (mark st msg c) = msg"
  and Type_new [simp]: "Type (new_condition t) = t"
  by (simp_all add: mark_def new_condition_def)

lemma find_last_absent: "\<not> has_type t cs \<Longrightarrow> find_last t i cs found = found"
  by (induction cs arbitrary: i) auto

lemma find_last_here:
  "Type c = t \<Longrightarrow> \<not> has_type t bs \<Longrightarrow> find_last t i (as @ c # bs) found = Some (i + length as)"
  by (induction as arbitrary: i found) (auto simp: find_last_absent)

lemma has_type_split:
  assumes "has_type t cs"
  obtains as c bs where "cs = as @ c # bs" "Type c = t" "\<not> has_type t bs"
  using split_list_last_propE [of cs "\<lambda>c. Type c = t"] assms unfolding has_type_def by metis

lemma find_last_eq_None: "find_last t 0 cs None = None \<longleftrightarrow> \<not> has_type t cs"
  by (metis find_last_absent find_last_here has_type_split option.distinct(1))

lemma update_last_here:
  "Type c = t \<Longrightarrow> \<not> has_type t bs \<Longrightarrow> update_last t f (as @ c # bs) = as @ f c # bs"
  by (induction as) auto

lemma update_last_absent: "\<not> has_type t cs \<Longrightarrow> update_last t f cs = cs"
  by (induction cs) auto

lemma clear_condition_eq:
  "clear_condition (find_last t 0 cs None) cs = update_last t (mark ConditionFalse None) cs"
proof (cases "has_type t cs")
  case True
  then obtain as c bs where cs: "cs = as @ c # bs" "Type c = t" "\<not> has_type t bs"
    by (rule has_type_split)
  then show ?thesis
    by (simp add: clear_condition_def find_last_here update_last_here set_condition_def mark_def)
qed (simp add: clear_condition_def find_last_absent update_last_absent)

lemma ensure_condition_eq:
  "ensure_condition t (find_last t 0 cs None) cs = (cs', i) \<Longrightarrow>
   set_condition st msg i cs' = upsert t st msg cs"
proof (cases "has_type t cs")
  case True
  moreover assume "ensure_condition t (find_last t 0 cs None) cs = (cs', i)"
  moreover obtain as c bs where "cs = as @ c # bs" "Type c = t" "\<not> has_type t bs"
    using True by (rule has_type_split)
  ultimately show ?thesis
    by (auto simp: ensure_condition_def upsert_def find_last_here update_last_here set_condition_def
        mark_def)
qed (auto simp: ensure_condition_def upsert_def find_last_absent set_condition_def mark_def)

lemma has_type_update_last [simp]:
  "(\<And>c. Type (f c) = Type c) \<Longrightarrow> has_type t (update_last t' f cs) \<longleftrightarrow> has_type t cs"
  by (induction cs) auto

lemma find_last_update_last:
  "(\<And>c. Type (f c) = Type c) \<Longrightarrow> find_last t i (update_last t' f cs) found = find_last t i cs found"
  by (induction cs arbitrary: i found) auto

text \<open>The whole of updateConditions, on each branch.\<close>

lemma update_found_terminal:
  assumes "terminalAWSError lib (Some e) \<or> terminalACKError lib (Some e)"
    and "terminal_message lib e = Inr msg"
  shows "update_found lib (Some e) cs =
    Inr (upsert ConditionTypeTerminal ConditionTrue (Some msg) cs, True)"
  using assms ensure_condition_eq [of ConditionTypeTerminal cs _ _ ConditionTrue "Some msg"]
  by (auto simp: update_found_def Let_def split: prod.splits)

lemma update_found_recoverable:
  assumes "\<not> terminalAWSError lib (Some e)" "\<not> terminalACKError lib (Some e)"
  shows "update_found lib (Some e) cs =
    Inr (upsert ConditionTypeRecoverable ConditionTrue (Some (recoverable_message lib e))
           (update_last ConditionTypeTerminal (mark ConditionFalse None) cs), True)"
proof -
  let ?cs = "update_last ConditionTypeTerminal (mark ConditionFalse None) cs"
  have same: "find_last ConditionTypeRecoverable 0 ?cs None = find_last ConditionTypeRecoverable 0 cs None"
    by (rule find_last_update_last) simp
  show ?thesis
    using assms ensure_condition_eq [of ConditionTypeRecoverable ?cs _ _ ConditionTrue
        "Some (recoverable_message lib e)"]
    by (auto simp: update_found_def Let_def clear_condition_eq same split: prod.splits)
qed

lemma update_found_success:
  "update_found lib None cs =
    Inr (update_last ConditionTypeRecoverable (mark ConditionFalse None)
           (update_last ConditionTypeTerminal (mark ConditionFalse None) cs),
         has_type ConditionTypeTerminal cs \<or> has_type ConditionTypeRecoverable cs \<or>
         has_type ConditionTypeResourceSynced cs)"
proof -
  let ?cs = "update_last ConditionTypeTerminal (mark ConditionFalse None) cs"
  have "find_last ConditionTypeRecoverable 0 ?cs None = find_last ConditionTypeRecoverable 0 cs None"
    by (rule find_last_update_last) simp
  then have "clear_condition (find_last ConditionTypeRecoverable 0 cs None) ?cs =
      update_last ConditionTypeRecoverable (mark ConditionFalse None) ?cs"
    by (metis clear_condition_eq)
  then show ?thesis
    by (simp add: update_found_def Let_def clear_condition_eq find_last_eq_None
        terminalAWSError_def terminalACKError_def del: not_None_eq) blast
qed

text \<open>With the error laws, the message of a terminal error is always found: no panic.\<close>

lemma terminal_message_found:
  assumes laws: "error_laws lib"
    and err: "terminalAWSError lib (Some e) \<or> terminalACKError lib (Some e)"
  obtains msg where "terminal_message lib e = Inr msg"
proof (cases "terminalACKError lib (Some e)")
  case False
  with err have "errors_As_APIError lib e \<noteq> None"
    by (auto simp: terminalAWSError_def split: option.splits)
  with laws obtain a where "ackerr_AWSError lib e = Some a"
    by (metis error_laws_def not_None_eq)
  then show ?thesis using that False by (simp add: terminal_message_def)
qed (use that in \<open>simp add: terminal_message_def\<close>)

lemma update_found_returns:
  assumes "error_laws lib"
  obtains cs' updated where "update_found lib err cs = Inr (cs', updated)"
  by (metis assms not_None_eq terminal_message_found update_found_recoverable
      update_found_success update_found_terminal)

section \<open>What a resource manager makes of it\<close>

text \<open>The elements of the slice, and the conditions they point to.\<close>

definition condition_ptrs :: "ack_status \<Rightarrow> Condition ptr list" where
  "condition_ptrs st = (case Conditions st of None \<Rightarrow> [] | Some cs \<Rightarrow> cs)"

definition conditions_of :: "ack_status \<Rightarrow> Condition list" where
  "conditions_of st = List.map_filter id (condition_ptrs st)"

definition no_nil :: "ack_status \<Rightarrow> bool" where
  "no_nil st \<longleftrightarrow> None \<notin> set (condition_ptrs st)"

lemma map_filter_Some [simp]: "List.map_filter id (map Some xs) = xs"
  by (induction xs) (simp_all add: List.map_filter_simps)

lemma conditions_of_set [simp]: "condition_ptrs (st\<lparr>Conditions := Some ps\<rparr>) = ps"
  "conditions_of (st\<lparr>Conditions := Some (map Some cs)\<rparr>) = cs" "no_nil (st\<lparr>Conditions := Some (map Some cs)\<rparr>)"
  by (simp_all add: conditions_of_def condition_ptrs_def no_nil_def image_iff)

lemma no_nil_ptrs: "no_nil st \<Longrightarrow> condition_ptrs st = map Some (conditions_of st)"
proof -
  have "None \<notin> set ps \<Longrightarrow> ps = map Some (List.map_filter id ps)" for ps :: "Condition ptr list"
  proof (induction ps)
    case (Cons p ps)
    then show ?case by (cases p) (auto simp: List.map_filter_simps)
  qed (simp add: List.map_filter_simps)
  then show "no_nil st \<Longrightarrow> ?thesis" by (simp add: no_nil_def conditions_of_def)
qed

text \<open>Defaulting a resource that already has its conditions leaves them alone; nil becomes none.\<close>

lemma conditions_of_defaults [simp]:
  "condition_ptrs (status_defaults r p a st) = condition_ptrs st"
  "conditions_of (status_defaults r p a st) = conditions_of st"
  "no_nil (status_defaults r p a st) = no_nil st"
  by (simp_all add: conditions_of_def no_nil_def)
    (simp_all add: condition_ptrs_def status_defaults_def or_default_def Let_def split: option.split)

definition is_terminal :: "Condition \<Rightarrow> bool" where
  "is_terminal c \<longleftrightarrow> Type c = ConditionTypeTerminal \<and> Status c = ConditionTrue"

text \<open>At most one condition of a type, as the code itself keeps it.\<close>

definition single :: "ConditionType \<Rightarrow> Condition list \<Rightarrow> bool" where
  "single t cs \<longleftrightarrow> length (filter (\<lambda>c. Type c = t) cs) \<le> 1"

lemma single_update_last [simp]:
  assumes "\<And>c. Type (f c) = Type c"
  shows "single t (update_last t' f cs) \<longleftrightarrow> single t cs"
proof -
  have "map Type (update_last t' f cs) = map Type cs"
    by (induction cs) (auto simp: assms)
  then have "length (filter (\<lambda>x. x = t) (map Type (update_last t' f cs))) =
      length (filter (\<lambda>x. x = t) (map Type cs))" by simp
  then show ?thesis by (simp add: single_def filter_map o_def)
qed

lemma single_upsert [simp]: "single t cs \<Longrightarrow> single t (upsert t' st msg cs)"
  by (auto simp: upsert_def) (auto simp: single_def has_type_def filter_empty_conv)

lemma upsert_terminal: "\<exists>c\<in>set (upsert ConditionTypeTerminal ConditionTrue msg cs). is_terminal c"
proof (cases "has_type ConditionTypeTerminal cs")
  case True
  then obtain as c bs where "cs = as @ c # bs" "Type c = ConditionTypeTerminal"
    "\<not> has_type ConditionTypeTerminal bs" by (rule has_type_split)
  then show ?thesis by (auto simp: upsert_def update_last_here is_terminal_def)
qed (simp add: upsert_def is_terminal_def)

lemma cleared_terminal:
  assumes "single ConditionTypeTerminal cs"
  shows "\<forall>c\<in>set (update_last ConditionTypeTerminal (mark ConditionFalse None) cs). \<not> is_terminal c"
proof (cases "has_type ConditionTypeTerminal cs")
  case True
  then obtain as c bs where cs: "cs = as @ c # bs" "Type c = ConditionTypeTerminal"
    "\<not> has_type ConditionTypeTerminal bs" by (rule has_type_split)
  with assms have "\<not> has_type ConditionTypeTerminal as"
    by (auto simp: single_def has_type_def filter_empty_conv)
  with cs show ?thesis by (auto simp: update_last_here is_terminal_def has_type_def)
qed (auto simp: update_last_absent is_terminal_def has_type_def)

lemma update_last_other:
  "t \<noteq> t' \<Longrightarrow> (\<And>c. Type (f c) = Type c) \<Longrightarrow>
   filter (\<lambda>c. Type c = t) (update_last t' f cs) = filter (\<lambda>c. Type c = t) cs"
  by (induction cs) auto

lemma upsert_other:
  "t \<noteq> t' \<Longrightarrow> filter (\<lambda>c. Type c = t) (upsert t' st msg cs) = filter (\<lambda>c. Type c = t) cs"
  by (simp add: upsert_def update_last_other)

lemma is_terminal_filter:
  "(\<exists>c\<in>set cs. is_terminal c) \<longleftrightarrow>
   (\<exists>c\<in>set (filter (\<lambda>c. Type c = ConditionTypeTerminal) cs). is_terminal c)"
  by (auto simp: is_terminal_def)

text \<open>Marking conditions of another type leaves the terminal ones as they are.\<close>

lemma terminal_elsewhere:
  assumes "t \<noteq> ConditionTypeTerminal"
  shows "(\<exists>c\<in>set (upsert t st msg cs). is_terminal c) \<longleftrightarrow> (\<exists>c\<in>set cs. is_terminal c)"
    and "(\<exists>c\<in>set (update_last t (mark st msg) cs). is_terminal c) \<longleftrightarrow> (\<exists>c\<in>set cs. is_terminal c)"
proof -
  note filters = upsert_other [OF assms [symmetric], of st msg cs]
    update_last_other [OF assms [symmetric], of "mark st msg" cs, OF Type_mark(1)]
  show "(\<exists>c\<in>set (upsert t st msg cs). is_terminal c) \<longleftrightarrow> (\<exists>c\<in>set cs. is_terminal c)"
    by (subst (1 2) is_terminal_filter) (simp only: filters)
  show "(\<exists>c\<in>set (update_last t (mark st msg) cs). is_terminal c) \<longleftrightarrow> (\<exists>c\<in>set cs. is_terminal c)"
    by (subst (1 2) is_terminal_filter) (simp only: filters)
qed

lemma upsert_marks:
  "\<exists>c\<in>set (upsert t st msg cs). Type c = t \<and> Status c = st \<and> Message c = msg"
proof (cases "has_type t cs")
  case True
  then obtain as c bs where "cs = as @ c # bs" "Type c = t" "\<not> has_type t bs" by (rule has_type_split)
  then show ?thesis by (auto simp: upsert_def update_last_here)
qed (simp add: upsert_def)

lemma update_found_single:
  assumes "single t cs" and "update_found lib err cs = Inr (cs', updated)"
  shows "single t cs'"
proof (cases "terminalAWSError lib err \<or> terminalACKError lib err")
  case True
  then obtain e where e: "err = Some e" by (auto simp: terminalAWSError_def terminalACKError_def split: option.splits)
  obtain msg where "terminal_message lib e = Inr msg"
    using assms(2) True e by (auto simp: update_found_def Let_def and_then_eq_Inr split: prod.splits)
  with update_found_terminal [of lib e msg cs] True assms show ?thesis by (auto simp: e)
next
  case False
  then show ?thesis
    using assms update_found_recoverable [of lib _ cs]
    by (cases err) (auto simp: update_found_success)
qed

text \<open>A nil element is the only reason to panic.\<close>

lemma update_conditions_outcome:
  assumes "error_laws lib"
  shows "update_conditions lib err (condition_ptrs st) = Inl GoPanic \<and> \<not> no_nil st \<or>
    (\<exists>cs updated. update_conditions lib err (condition_ptrs st) = Inr (map Some cs, updated) \<and> no_nil st \<and>
       update_found lib err (conditions_of st) = Inr (cs, updated))"
proof (cases "no_nil st")
  case True
  obtain cs updated where "update_found lib err (conditions_of st) = Inr (cs, updated)"
    by (rule update_found_returns [OF assms])
  with True show ?thesis by (simp add: no_nil_ptrs)
qed (simp add: no_nil_def update_conditions_nil)

locale ack_manager =
  fixes lib :: "'e golib"
    and get :: "'ko \<Rightarrow> ack_status"
    and put :: "(ack_status \<Rightarrow> ack_status) \<Rightarrow> 'ko \<Rightarrow> 'ko"
    and defaults :: "ack_status \<Rightarrow> ack_status"
    and updateConditions :: "'ko \<Rightarrow> 'e option \<Rightarrow> ('e, 'ko option) outcome"
    and onError :: "'ko option \<Rightarrow> 'e \<Rightarrow> ('e, 'ko) returned"
    and onSuccess :: "'ko option \<Rightarrow> ('e, 'ko) returned"
  assumes get_put: "get (put f ko) = f (get ko)"
    and updates: "updateConditions ko err =
      and_then (update_conditions lib err (condition_ptrs (defaults (get ko))))
        (\<lambda>(cs, updated). Inr (if updated
           then Some (put (\<lambda>st. (defaults st)\<lparr>Conditions := Some cs\<rparr>) ko) else None))"
    and onError_nil: "onError None e = Inr (None, Some e)"
    and onError_some: "onError (Some ko) e =
      and_then (updateConditions ko (Some e)) (\<lambda>r. case r of
          None \<Rightarrow> Inr (Some ko, Some e)
        | Some r1 \<Rightarrow> and_then (any_condition is_terminal (condition_ptrs (get r1))) (\<lambda>terminal.
            Inr (Some r1, Some (if terminal then ackerr_Terminal lib else e))))"
    and onSuccess_nil: "onSuccess None = Inr (None, None)"
    and onSuccess_some: "onSuccess (Some ko) =
      and_then (updateConditions ko None) (\<lambda>r. Inr (case r of
          None \<Rightarrow> (Some ko, None)
        | Some r1 \<Rightarrow> (Some r1, None)))"
begin

text \<open>What the operations do when no element of the conditions is nil.\<close>

lemma onError_terminal:
  assumes "error_laws lib" and "terminalAWSError lib (Some e) \<or> terminalACKError lib (Some e)"
    and "no_nil (defaults (get ko))"
  obtains msg where "terminal_message lib e = Inr msg"
    and "onError (Some ko) e =
      Inr (Some (put (\<lambda>st. (defaults st)\<lparr>Conditions := Some (map Some (upsert ConditionTypeTerminal
             ConditionTrue (Some msg) (conditions_of (defaults (get ko)))))\<rparr>) ko),
           Some (ackerr_Terminal lib))"
proof -
  obtain msg where msg: "terminal_message lib e = Inr msg"
    using assms(1,2) by (rule terminal_message_found)
  show ?thesis
    by (rule that [OF msg])
      (use upsert_terminal in \<open>simp add: onError_some updates get_put no_nil_ptrs [OF assms(3)]
        update_found_terminal [OF assms(2) msg]\<close>)
qed

lemma onError_recoverable:
  assumes "\<not> terminalAWSError lib (Some e)" "\<not> terminalACKError lib (Some e)"
    and "single ConditionTypeTerminal (conditions_of (defaults (get ko)))"
    and "no_nil (defaults (get ko))"
  shows "onError (Some ko) e =
    Inr (Some (put (\<lambda>st. (defaults st)\<lparr>Conditions := Some (map Some (upsert ConditionTypeRecoverable
           ConditionTrue (Some (recoverable_message lib e))
           (update_last ConditionTypeTerminal (mark ConditionFalse None)
              (conditions_of (defaults (get ko))))))\<rparr>) ko), Some e)"
proof -
  let ?cs = "update_last ConditionTypeTerminal (mark ConditionFalse None)
      (conditions_of (defaults (get ko)))"
  have "\<not> (\<exists>c\<in>set (upsert ConditionTypeRecoverable ConditionTrue msg ?cs). is_terminal c)" for msg
    using cleared_terminal [OF assms(3)] by (subst terminal_elsewhere(1)) auto
  then show ?thesis
    by (simp add: onError_some updates get_put no_nil_ptrs [OF assms(4)]
        update_found_recoverable [OF assms(1,2)])
qed

text \<open>The conditions of a successful operation, before and after.\<close>

lemma onSuccess_eq:
  assumes "no_nil (defaults (get ko))"
  shows "onSuccess (Some ko) =
     (let cs = conditions_of (defaults (get ko)) in Inr (Some
       (if has_type ConditionTypeTerminal cs \<or> has_type ConditionTypeRecoverable cs \<or>
           has_type ConditionTypeResourceSynced cs
        then put (\<lambda>st. (defaults st)\<lparr>Conditions := Some (map Some
               (update_last ConditionTypeRecoverable (mark ConditionFalse None)
                 (update_last ConditionTypeTerminal (mark ConditionFalse None) cs)))\<rparr>) ko
        else ko), None))"
  by (simp add: onSuccess_some updates no_nil_ptrs [OF assms] update_found_success Let_def)

lemma onSuccess_clears:
  assumes "single ConditionTypeTerminal (conditions_of (defaults (get ko)))"
    and same: "conditions_of (defaults (get ko)) = conditions_of (get ko)"
    and "no_nil (defaults (get ko))"
  shows "\<exists>ko'. onSuccess (Some ko) = Inr (Some ko', None) \<and>
    (\<forall>c\<in>set (conditions_of (get ko')). \<not> is_terminal c)"
proof -
  let ?cs = "conditions_of (get ko)"
  let ?cleared = "update_last ConditionTypeTerminal (mark ConditionFalse None) ?cs"
  have "\<not> (\<exists>c\<in>set (update_last ConditionTypeRecoverable (mark ConditionFalse None) ?cleared).
      is_terminal c)"
    using cleared_terminal [OF assms(1)] unfolding same by (subst terminal_elsewhere(2)) auto
  moreover have "\<not> has_type ConditionTypeTerminal ?cs \<Longrightarrow> \<forall>c\<in>set ?cs. \<not> is_terminal c"
    by (auto simp: has_type_def is_terminal_def)
  ultimately show ?thesis
    by (simp add: onSuccess_eq [OF assms(3)] Let_def same get_put)
qed

text \<open>Whatever the conditions: a panic on a nil element, otherwise a result.\<close>

lemma updates_outcome:
  assumes "error_laws lib"
  shows "updateConditions ko err = Inl GoPanic \<and> \<not> no_nil (defaults (get ko)) \<or>
    (\<exists>cs updated. update_found lib err (conditions_of (defaults (get ko))) = Inr (cs, updated) \<and>
       no_nil (defaults (get ko)) \<and> updateConditions ko err = Inr (if updated
         then Some (put (\<lambda>st. (defaults st)\<lparr>Conditions := Some (map Some cs)\<rparr>) ko) else None))"
  using update_conditions_outcome [OF assms, of err "defaults (get ko)"]
  by (elim disjE exE conjE) (simp_all add: updates)

lemma onError_outcome:
  assumes "error_laws lib"
  shows "onError (Some ko) e = Inl GoPanic \<and> \<not> no_nil (defaults (get ko)) \<or>
    (\<exists>cs updated err'. update_found lib (Some e) (conditions_of (defaults (get ko))) = Inr (cs, updated) \<and>
       no_nil (defaults (get ko)) \<and> onError (Some ko) e = Inr (Some (if updated
         then put (\<lambda>st. (defaults st)\<lparr>Conditions := Some (map Some cs)\<rparr>) ko else ko), err'))"
  using updates_outcome [OF assms, of ko "Some e"]
  by (elim disjE exE conjE) (simp_all add: onError_some get_put)

lemma onSuccess_outcome:
  assumes "error_laws lib"
  shows "onSuccess (Some ko) = Inl GoPanic \<and> \<not> no_nil (defaults (get ko)) \<or>
    (\<exists>cs updated. update_found lib None (conditions_of (defaults (get ko))) = Inr (cs, updated) \<and>
       no_nil (defaults (get ko)) \<and> onSuccess (Some ko) = Inr (Some (if updated
         then put (\<lambda>st. (defaults st)\<lparr>Conditions := Some (map Some cs)\<rparr>) ko else ko), None))"
  using updates_outcome [OF assms, of ko None]
  by (elim disjE exE conjE) (simp_all add: onSuccess_some)

lemma manager_returns:
  assumes "error_laws lib" and "\<And>k. ko = Some k \<Longrightarrow> no_nil (defaults (get k))"
  shows "\<exists>r. onError ko e = Inr r" and "\<exists>r. onSuccess ko = Inr r"
proof -
  show "\<exists>r. onError ko e = Inr r"
  proof (cases ko)
    case (Some k)
    then show ?thesis using onError_outcome [OF assms(1), of k e] assms(2) by blast
  qed (simp add: onError_nil)
  show "\<exists>r. onSuccess ko = Inr r"
  proof (cases ko)
    case (Some k)
    then show ?thesis using onSuccess_outcome [OF assms(1), of k] assms(2) by blast
  qed (simp add: onSuccess_nil)
qed

end

end
