(* ===== verification/Database_Sdk.thy ===== *)
theory Database_Sdk
  imports Database_Delta Ack_Status
begin

text \<open>
  pkg/resource/database/sdk.go and hooks.go: the calls to Glue's Database API. Each \<open>sdk\<close> method
  takes the resource's \<open>ko\<close>, which its callers in manager.go have checked not to be nil, and the
  state of the account, and returns the new state with the pair of results, or a panic. DeepCopy
  and the trace logging have no effect on these values.
\<close>

section \<open>hooks.go\<close>

definition getTags_database ::
  "('e, 'w) resourceManager_database \<Rightarrow> map_order \<Rightarrow> string \<Rightarrow> ('e, 'w) env \<Rightarrow>
     ('e, 'w) env \<times> ('e + string ptr gomap)" where
  "getTags_database rm ord resourceARN s = GetResourceTags (api_tags (sdkapi rm)) ord resourceARN s"

definition syncTags_database ::
  "'e golib \<Rightarrow> ('e, 'w) resourceManager_database \<Rightarrow> map_order \<Rightarrow> Database \<Rightarrow> Database \<Rightarrow>
     ('e, 'w) env \<Rightarrow> ('e, 'w) env \<times> ('e, 'e option) outcome" where
  "syncTags_database lib rm ord desired latest s =
     (case and_then (deref (ACKResourceMetadata (Database.Status latest))) (\<lambda>md. deref (ARN md)) of
        Inl stop \<Rightarrow> (s, Inl stop)
      | Inr arn \<Rightarrow>
          (let (s, err) = SyncResourceTags lib (api_tags (sdkapi rm)) ord arn
                 (DatabaseSpec.Tags (Spec desired)) (DatabaseSpec.Tags (Spec latest))
                 (convertToOrderedACKTags_database ord) s
           in (s, Inr err)))"

definition databaseARN :: "Database \<Rightarrow> ('e, string) outcome" where
  "databaseARN database =
     and_then (deref (ACKResourceMetadata (Database.Status database))) (\<lambda>md.
     and_then (deref (Partition md)) (\<lambda>partition.
     and_then (deref (ResourceMetadata.Region md)) (\<lambda>region.
     and_then (deref (OwnerAccountID md)) (\<lambda>account.
     and_then (deref (DatabaseSpec.Name (Spec database))) (\<lambda>name.
       Inr (''arn:'' @ partition @ '':glue:'' @ region @ '':'' @ account @ '':database/'' @ name))))))"

section \<open>Defaults and conditions of the resource\<close>

definition setStatusDefaults_database ::
  "('e, 'w) resourceManager_database \<Rightarrow> Database \<Rightarrow> Database" where
  "setStatusDefaults_database rm ko =
     ko\<lparr>Database.Status :=
        status_defaults (awsRegion rm) (awsPartition rm) (awsAccountID rm) (Database.Status ko)\<rparr>"

definition updateConditions_database ::
  "'e golib \<Rightarrow> ('e, 'w) resourceManager_database \<Rightarrow> Database \<Rightarrow> 'e option \<Rightarrow>
     ('e, Database option) outcome" where
  "updateConditions_database lib rm r_ko err =
     (let ko = setStatusDefaults_database rm r_ko
      in and_then (update_conditions lib err (condition_ptrs (Database.Status ko)))
           (\<lambda>(cs, updated). Inr (if updated
              then Some (ko\<lparr>Database.Status := (Database.Status ko)\<lparr>Conditions := Some cs\<rparr>\<rparr>) else None)))"

section \<open>Reading\<close>

definition requiredFieldsMissingFromReadOneInput_database :: "Database \<Rightarrow> bool" where
  "requiredFieldsMissingFromReadOneInput_database r_ko \<longleftrightarrow> DatabaseSpec.Name (Spec r_ko) = None"

definition newDescribeRequestPayload_database :: "Database \<Rightarrow> sdk_DatabaseKey" where
  "newDescribeRequestPayload_database r_ko =
     \<lparr>sdk_DatabaseKey.CatalogId = DatabaseSpec.CatalogID (Spec r_ko),
      sdk_DatabaseKey.Name = DatabaseSpec.Name (Spec r_ko)\<rparr>"

text \<open>The copy of a response into the spec, nested structures first.\<close>

definition read_PrincipalPermissions ::
  "'e golib \<Rightarrow> sdk_PrincipalPermissions \<Rightarrow> PrincipalPermissions ptr" where
  "read_PrincipalPermissions lib f1iter = Some
     \<lparr>PrincipalPermissions.Permissions = map_option (map (aws_String lib)) (sdk_PrincipalPermissions.Permissions f1iter),
      PrincipalPermissions.Principal = map_option (\<lambda>p. \<lparr>DataLakePrincipal.DataLakePrincipalIdentifier =
          sdk_DataLakePrincipal.DataLakePrincipalIdentifier p\<rparr>)
        (sdk_PrincipalPermissions.Principal f1iter)\<rparr>"

definition read_FederatedDatabase :: "sdk_FederatedDatabase \<Rightarrow> FederatedDatabase" where
  "read_FederatedDatabase f =
     \<lparr>FederatedDatabase.ConnectionName = sdk_FederatedDatabase.ConnectionName f,
      FederatedDatabase.Identifier = sdk_FederatedDatabase.Identifier f\<rparr>"

definition read_DatabaseIdentifier :: "sdk_DatabaseIdentifier \<Rightarrow> DatabaseIdentifier" where
  "read_DatabaseIdentifier f =
     \<lparr>DatabaseIdentifier.CatalogID = sdk_DatabaseIdentifier.CatalogId f,
      DatabaseIdentifier.DatabaseName = sdk_DatabaseIdentifier.DatabaseName f,
      DatabaseIdentifier.Region = sdk_DatabaseIdentifier.Region f\<rparr>"

definition read_DatabaseSpec :: "'e golib \<Rightarrow> sdk_Database \<Rightarrow> DatabaseSpec \<Rightarrow> DatabaseSpec" where
  "read_DatabaseSpec lib resp spec =
     spec\<lparr>DatabaseSpec.CatalogID := sdk_Database.CatalogId resp,
      DatabaseSpec.TableDefaultPermissions := map_option (map (read_PrincipalPermissions lib))
        (sdk_Database.CreateTableDefaultPermissions resp),
      DatabaseSpec.Description := sdk_Database.Description resp,
      DatabaseSpec.FederatedDatabase := map_option read_FederatedDatabase
        (sdk_Database.FederatedDatabase resp),
      DatabaseSpec.LocationURI := sdk_Database.LocationUri resp,
      DatabaseSpec.Name := sdk_Database.Name resp,
      DatabaseSpec.Parameters := map_option (aws_StringMap lib) (sdk_Database.Parameters resp),
      DatabaseSpec.TargetDatabase := map_option read_DatabaseIdentifier
        (sdk_Database.TargetDatabase resp)\<rparr>"

text \<open>The ARN the hook stores in the metadata, which setStatusDefaults has made non-nil.\<close>

definition set_arn :: "string \<Rightarrow> Database \<Rightarrow> Database" where
  "set_arn arn ko =
     ko\<lparr>Database.Status := (Database.Status ko)\<lparr>ACKResourceMetadata :=
        Some ((case ACKResourceMetadata (Database.Status ko) of
                 None \<Rightarrow> empty_metadata | Some md \<Rightarrow> md)\<lparr>ARN := Some arn\<rparr>)\<rparr>\<rparr>"

definition ensure_metadata :: "Database \<Rightarrow> Database" where
  "ensure_metadata ko =
     (if ACKResourceMetadata (Database.Status ko) = None
      then ko\<lparr>Database.Status := (Database.Status ko)\<lparr>ACKResourceMetadata := Some empty_metadata\<rparr>\<rparr>
      else ko)"

definition sdkFind_database ::
  "'e golib \<Rightarrow> ('e, 'w) resourceManager_database \<Rightarrow> map_order \<Rightarrow> Database \<Rightarrow> ('e, 'w) env \<Rightarrow>
     ('e, 'w) env \<times> ('e, Database) returned" where
  "sdkFind_database lib rm ord r_ko s =
     (if requiredFieldsMissingFromReadOneInput_database r_ko
      then (s, Inr (None, Some (ackerr_NotFound lib)))
      else
        (let input = newDescribeRequestPayload_database r_ko;
             (s, resp) = invoke (api_GetDatabase (sdkapi rm) input) s;
             s = RecordAPICall ''READ_ONE'' ''GetDatabase'' (err_of resp) s
         in case resp of
              Inl err \<Rightarrow>
                (s, Inr (None, Some
                   (if errors_As_APIError lib err = Some ''EntityNotFoundException''
                    then ackerr_NotFound lib else err)))
            | Inr out \<Rightarrow>
                proceed s (deref out) (\<lambda>resp_Database.
                  let ko = r_ko\<lparr>Spec := read_DatabaseSpec lib resp_Database (Spec r_ko)\<rparr>;
                      ko = setStatusDefaults_database rm ko;
                      ko = ensure_metadata ko
                  in proceed s (databaseARN ko) (\<lambda>arn.
                       let ko = set_arn arn ko;
                           (s, tags) = getTags_database rm ord arn s
                       in case tags of
                            Inl err \<Rightarrow> (s, Inr (None, Some err))
                          | Inr t \<Rightarrow>
                              (s, Inr (Some (ko\<lparr>Spec := (Spec ko)\<lparr>DatabaseSpec.Tags := Some t\<rparr>\<rparr>),
                                 None))))))"

section \<open>Creating\<close>

definition create_PrincipalPermissions ::
  "PrincipalPermissions ptr \<Rightarrow> ('e, sdk_PrincipalPermissions) outcome" where
  "create_PrincipalPermissions f0iter =
     and_then (deref f0iter) (\<lambda>f0iter.
     and_then (when_set (traverse deref) (PrincipalPermissions.Permissions f0iter)) (\<lambda>permissions.
       Inr \<lparr>sdk_PrincipalPermissions.Permissions = permissions,
            sdk_PrincipalPermissions.Principal = map_option (\<lambda>p. \<lparr>sdk_DataLakePrincipal.DataLakePrincipalIdentifier =
                DataLakePrincipal.DataLakePrincipalIdentifier p\<rparr>)
              (PrincipalPermissions.Principal f0iter)\<rparr>))"

definition create_FederatedDatabase :: "FederatedDatabase \<Rightarrow> sdk_FederatedDatabase" where
  "create_FederatedDatabase f =
     \<lparr>sdk_FederatedDatabase.ConnectionName = FederatedDatabase.ConnectionName f,
      sdk_FederatedDatabase.Identifier = FederatedDatabase.Identifier f\<rparr>"

definition create_DatabaseIdentifier :: "DatabaseIdentifier \<Rightarrow> sdk_DatabaseIdentifier" where
  "create_DatabaseIdentifier f =
     \<lparr>sdk_DatabaseIdentifier.CatalogId = DatabaseIdentifier.CatalogID f,
      sdk_DatabaseIdentifier.DatabaseName = DatabaseIdentifier.DatabaseName f,
      sdk_DatabaseIdentifier.Region = DatabaseIdentifier.Region f\<rparr>"

definition newCreateRequestPayload_database ::
  "'e golib \<Rightarrow> Database \<Rightarrow> ('e, sdk_CreateDatabaseInput) outcome" where
  "newCreateRequestPayload_database lib r_ko =
     (let spec = Spec r_ko
      in and_then (when_set (traverse create_PrincipalPermissions)
           (DatabaseSpec.TableDefaultPermissions spec)) (\<lambda>f0.
         Inr \<lparr>sdk_CreateDatabaseInput.CatalogId = None,
              sdk_CreateDatabaseInput.DatabaseInput =
                \<lparr>sdk_DatabaseInput.CreateTableDefaultPermissions = f0,
                 sdk_DatabaseInput.Description = DatabaseSpec.Description spec,
                 sdk_DatabaseInput.FederatedDatabase = map_option create_FederatedDatabase
                   (DatabaseSpec.FederatedDatabase spec),
                 sdk_DatabaseInput.LocationUri = DatabaseSpec.LocationURI spec,
                 sdk_DatabaseInput.Name = DatabaseSpec.Name spec,
                 sdk_DatabaseInput.Parameters = map_option (aws_ToStringMap lib) (DatabaseSpec.Parameters spec),
                 sdk_DatabaseInput.TargetDatabase = map_option create_DatabaseIdentifier
                   (DatabaseSpec.TargetDatabase spec)\<rparr>,
              sdk_CreateDatabaseInput.Tags = None\<rparr>))"

text \<open>
  The deferred function of sdkCreate: once the resource exists, an error is wrapped as a
  post-create failure and the resource is returned with it.
\<close>

definition post_create ::
  "'e golib \<Rightarrow> Database \<Rightarrow> ('e, Database) returned \<Rightarrow> ('e, Database) returned" where
  "post_create lib ko result = and_then result (\<lambda>(created, err). Inr (case err of
       None \<Rightarrow> (created, None)
     | Some e \<Rightarrow>
         (case created of None \<Rightarrow> Some ko | Some r \<Rightarrow> Some r, Some (ackerr_WrapPostCreateError lib e))))"

definition sdkCreate_database ::
  "'e golib \<Rightarrow> ('e, 'w) resourceManager_database \<Rightarrow> Database \<Rightarrow> ('e, 'w) env \<Rightarrow>
     ('e, 'w) env \<times> ('e, Database) returned" where
  "sdkCreate_database lib rm desired s =
     proceed s (newCreateRequestPayload_database lib desired) (\<lambda>input.
       let input = input\<lparr>sdk_CreateDatabaseInput.CatalogId := DatabaseSpec.CatalogID (Spec desired)\<rparr>;
           input = (case DatabaseSpec.Tags (Spec desired) of
                      None \<Rightarrow> input
                    | Some t \<Rightarrow> input\<lparr>sdk_CreateDatabaseInput.Tags := Some (aws_ToStringMap lib t)\<rparr>);
           (s, err) = invoke (api_CreateDatabase (sdkapi rm) input) s;
           s = RecordAPICall ''CREATE'' ''CreateDatabase'' err s
       in if err \<noteq> None then (s, Inr (None, err))
          else
            (let ko = ensure_metadata (setStatusDefaults_database rm desired)
             in (s, post_create lib ko
                  (and_then (databaseARN ko) (\<lambda>arn. Inr (Some (set_arn arn ko), None))))))"

section \<open>Updating\<close>

definition update_PrincipalPermissions ::
  "PrincipalPermissions ptr \<Rightarrow> ('e, sdk_PrincipalPermissions) outcome" where
  "update_PrincipalPermissions f0iter =
     and_then (deref f0iter) (\<lambda>f0iter.
     and_then (when_set (traverse deref) (PrincipalPermissions.Permissions f0iter)) (\<lambda>permissions.
       Inr \<lparr>sdk_PrincipalPermissions.Permissions = permissions,
            sdk_PrincipalPermissions.Principal = map_option (\<lambda>p. \<lparr>sdk_DataLakePrincipal.DataLakePrincipalIdentifier =
                DataLakePrincipal.DataLakePrincipalIdentifier p\<rparr>)
              (PrincipalPermissions.Principal f0iter)\<rparr>))"

definition newUpdateRequestPayload_database ::
  "'e golib \<Rightarrow> Database \<Rightarrow> ('e, sdk_UpdateDatabaseInput) outcome" where
  "newUpdateRequestPayload_database lib r_ko =
     (let spec = Spec r_ko
      in and_then (when_set (traverse update_PrincipalPermissions)
           (DatabaseSpec.TableDefaultPermissions spec)) (\<lambda>f0.
         Inr \<lparr>sdk_UpdateDatabaseInput.CatalogId = None,
              sdk_UpdateDatabaseInput.DatabaseInput =
                \<lparr>sdk_DatabaseInput.CreateTableDefaultPermissions = f0,
                 sdk_DatabaseInput.Description = DatabaseSpec.Description spec,
                 sdk_DatabaseInput.FederatedDatabase = map_option (\<lambda>f2.
                     \<lparr>sdk_FederatedDatabase.ConnectionName = FederatedDatabase.ConnectionName f2,
                      sdk_FederatedDatabase.Identifier = FederatedDatabase.Identifier f2\<rparr>)
                   (DatabaseSpec.FederatedDatabase spec),
                 sdk_DatabaseInput.LocationUri = DatabaseSpec.LocationURI spec,
                 sdk_DatabaseInput.Name = DatabaseSpec.Name spec,
                 sdk_DatabaseInput.Parameters = map_option (aws_ToStringMap lib) (DatabaseSpec.Parameters spec),
                 sdk_DatabaseInput.TargetDatabase = map_option (\<lambda>f6.
                     \<lparr>sdk_DatabaseIdentifier.CatalogId = DatabaseIdentifier.CatalogID f6,
                      sdk_DatabaseIdentifier.DatabaseName = DatabaseIdentifier.DatabaseName f6,
                      sdk_DatabaseIdentifier.Region = DatabaseIdentifier.Region f6\<rparr>)
                   (DatabaseSpec.TargetDatabase spec)\<rparr>,
              sdk_UpdateDatabaseInput.Name = None\<rparr>))"

definition sdkUpdate_database ::
  "'e golib \<Rightarrow> (database_value, 'd) cmplib \<Rightarrow> ('e, 'w) resourceManager_database \<Rightarrow> map_order \<Rightarrow>
     Database \<Rightarrow> Database \<Rightarrow> 'd \<Rightarrow> ('e, 'w) env \<Rightarrow> ('e, 'w) env \<times> ('e, Database) returned" where
  "sdkUpdate_database lib cmp rm ord desired latest delta s =
     (let (s, synced) =
            (if DifferentAt cmp delta ''Spec.Tags'' then syncTags_database lib rm ord desired latest s
             else (s, Inr None))
      in proceed s synced (\<lambda>err.
        if err \<noteq> None then (s, Inr (None, err))
        else if \<not> DifferentExcept cmp delta ''Spec.Tags'' then (s, Inr (Some desired, None))
        else proceed s (newUpdateRequestPayload_database lib desired) (\<lambda>input.
          let input = input\<lparr>
                sdk_UpdateDatabaseInput.CatalogId := DatabaseSpec.CatalogID (Spec desired),
                sdk_UpdateDatabaseInput.Name := DatabaseSpec.Name (Spec desired)\<rparr>;
              (s, err) = invoke (api_UpdateDatabase (sdkapi rm) input) s;
              s = RecordAPICall ''UPDATE'' ''UpdateDatabase'' err s
          in if err \<noteq> None then (s, Inr (None, err))
             else (s, Inr (Some (setStatusDefaults_database rm desired), None)))))"

section \<open>Deleting\<close>

definition newDeleteRequestPayload_database :: "Database \<Rightarrow> sdk_DatabaseKey" where
  "newDeleteRequestPayload_database r_ko =
     \<lparr>sdk_DatabaseKey.CatalogId = DatabaseSpec.CatalogID (Spec r_ko),
      sdk_DatabaseKey.Name = DatabaseSpec.Name (Spec r_ko)\<rparr>"

definition sdkDelete_database ::
  "('e, 'w) resourceManager_database \<Rightarrow> Database \<Rightarrow> ('e, 'w) env \<Rightarrow>
     ('e, 'w) env \<times> ('e, Database) returned" where
  "sdkDelete_database rm r_ko s =
     (let input = newDeleteRequestPayload_database r_ko;
          (s, err) = invoke (api_DeleteDatabase (sdkapi rm) input) s;
          s = RecordAPICall ''DELETE'' ''DeleteDatabase'' err s
      in (s, Inr (None, err)))"

end
