(* ===== verification/Database_Manager.thy ===== *)
theory Database_Manager
  imports Database_Sdk
begin

text \<open>
  pkg/resource/database/manager.go: the operations the reconciler calls. A resource is a pointer to
  its \<open>ko\<close>; an operation that writes to the resource it is given returns the new resource first.
  The AWSResource interface values the reconciler passes always hold this package's resource type,
  so concreteResource is the identity.
\<close>

section \<open>Results\<close>

definition onError_database ::
  "'e golib \<Rightarrow> ('e, 'w) resourceManager_database \<Rightarrow> Database option \<Rightarrow> 'e \<Rightarrow>
     ('e, Database) returned" where
  "onError_database lib rm r err =
     (case r of
        None \<Rightarrow> Inr (None, Some err)
      | Some r_ko \<Rightarrow>
          and_then (updateConditions_database lib rm r_ko (Some err)) (\<lambda>r1. case r1 of
              None \<Rightarrow> Inr (Some r_ko, Some err)
            | Some r1_ko \<Rightarrow>
                and_then (any_condition is_terminal (condition_ptrs (Database.Status r1_ko))) (\<lambda>terminal.
                  if terminal then Inr (Some r1_ko, Some (ackerr_Terminal lib))
                  else Inr (Some r1_ko, Some err))))"

definition onSuccess_database ::
  "'e golib \<Rightarrow> ('e, 'w) resourceManager_database \<Rightarrow> Database option \<Rightarrow> ('e, Database) returned" where
  "onSuccess_database lib rm r =
     (case r of
        None \<Rightarrow> Inr (None, None)
      | Some r_ko \<Rightarrow>
          and_then (updateConditions_database lib rm r_ko None) (\<lambda>r1. Inr (case r1 of
              None \<Rightarrow> (Some r_ko, None)
            | Some r1_ko \<Rightarrow> (Some r1_ko, None))))"

text \<open>
  The tail of ReadOne, Create, Update and Delete: conditions on the resource an sdk method returned
  with its error, on the one passed in when it returned none.
\<close>

definition finish_database ::
  "'e golib \<Rightarrow> ('e, 'w) resourceManager_database \<Rightarrow> Database \<Rightarrow> ('e, Database) returned \<Rightarrow>
     ('e, Database) returned" where
  "finish_database lib rm r result =
     and_then result (\<lambda>(observed, err).
       case err of
         Some e \<Rightarrow> onError_database lib rm (case observed of Some o_ko \<Rightarrow> Some o_ko | None \<Rightarrow> Some r) e
       | None \<Rightarrow> onSuccess_database lib rm observed)"

section \<open>Tags of a resource\<close>

definition mirrorAWSTags_database ::
  "map_order \<Rightarrow> Database option \<Rightarrow> Database option \<Rightarrow> Database option" where
  "mirrorAWSTags_database ord a b =
     (case (a, b) of
        (Some a_ko, Some b_ko) \<Rightarrow>
          (let existingDesiredTags = DatabaseSpec.Tags (Spec a_ko);
               existingLatestTags = DatabaseSpec.Tags (Spec b_ko);
               (desiredTags, desiredTagKeyOrder) =
                 convertToOrderedACKTags_database ord existingDesiredTags;
               (latestTags, _) = convertToOrderedACKTags_database ord existingLatestTags;
               desiredTags = syncAWSTags_database ord desiredTags latestTags
           in Some (a_ko\<lparr>Spec := (Spec a_ko)\<lparr>DatabaseSpec.Tags :=
                Some (fromACKTags_database ord desiredTags desiredTagKeyOrder)\<rparr>\<rparr>))
      | _ \<Rightarrow> a)"

lemma mirrorAWSTags_database_eq:
  "mirrorAWSTags_database ord a b = (case (a, b) of
     (Some a_ko, Some b_ko) \<Rightarrow> Some (a_ko\<lparr>Spec := (Spec a_ko)\<lparr>DatabaseSpec.Tags := Some
       (fromACKTags_database ord (syncAWSTags_database ord
          (fst (convertToOrderedACKTags_database ord (DatabaseSpec.Tags (Spec a_ko))))
          (fst (convertToOrderedACKTags_database ord (DatabaseSpec.Tags (Spec b_ko)))))
        (snd (convertToOrderedACKTags_database ord (DatabaseSpec.Tags (Spec a_ko)))))\<rparr>\<rparr>)
   | _ \<Rightarrow> a)"
  by (simp add: mirrorAWSTags_database_def case_prod_beta Let_def split: option.split)

text \<open>\<open>getDefaultTags\<close> is \<open>ackrt.GetDefaultTags\<close> for the configuration and the service metadata.\<close>

definition EnsureTags_database ::
  "'e golib \<Rightarrow> map_order \<Rightarrow> (Database \<Rightarrow> tags) \<Rightarrow> Database ptr \<Rightarrow>
     ('e, Database \<times> 'e option) outcome" where
  "EnsureTags_database lib ord getDefaultTags r =
     and_then (deref r) (\<lambda>r_ko.
       let defaultTags = getDefaultTags r_ko;
           existingTags = DatabaseSpec.Tags (Spec r_ko);
           (resourceTags, keyOrder) = convertToOrderedACKTags_database ord existingTags;
           tags = acktags_Merge lib resourceTags defaultTags
       in Inr (r_ko\<lparr>Spec := (Spec r_ko)\<lparr>DatabaseSpec.Tags :=
            Some (fromACKTags_database ord tags keyOrder)\<rparr>\<rparr>, None))"

definition FilterSystemTags_database ::
  "map_order \<Rightarrow> Database ptr \<Rightarrow> string list \<Rightarrow> Database ptr" where
  "FilterSystemTags_database ord r systemTags =
     (case r of
        None \<Rightarrow> None
      | Some r_ko \<Rightarrow>
          (let existingTags = DatabaseSpec.Tags (Spec r_ko);
               (resourceTags, tagKeyOrder) = convertToOrderedACKTags_database ord existingTags;
               resourceTags = ignoreSystemTags_database ord resourceTags systemTags
           in Some (r_ko\<lparr>Spec := (Spec r_ko)\<lparr>DatabaseSpec.Tags :=
                Some (fromACKTags_database ord resourceTags tagKeyOrder)\<rparr>\<rparr>)))"

section \<open>The operations\<close>

text \<open>The resource passed in as ReadOne leaves it, and what ReadOne returns.\<close>

definition ReadOne_database ::
  "'e golib \<Rightarrow> ('e, 'w) resourceManager_database \<Rightarrow> map_order \<Rightarrow> Database ptr \<Rightarrow> ('e, 'w) env \<Rightarrow>
     ('e, 'w) env \<times> ('e, Database \<times> (Database option \<times> 'e option)) outcome" where
  "ReadOne_database lib rm ord r s =
     (case r of
        None \<Rightarrow> (s, Inl GoPanic)
      | Some r_ko \<Rightarrow>
          (let (s, found) = sdkFind_database lib rm ord r_ko s
           in (s, and_then found (\<lambda>(observed, err).
                (case mirrorAWSTags_database ord (Some r_ko) observed of
                   None \<Rightarrow> Inl GoPanic
                 | Some r_ko \<Rightarrow>
                     and_then (finish_database lib rm r_ko (Inr (observed, err))) (\<lambda>result.
                       Inr (r_ko, result)))))))"

definition Create_database ::
  "'e golib \<Rightarrow> ('e, 'w) resourceManager_database \<Rightarrow> Database ptr \<Rightarrow> ('e, 'w) env \<Rightarrow>
     ('e, 'w) env \<times> ('e, Database) returned" where
  "Create_database lib rm r s =
     (case r of
        None \<Rightarrow> (s, Inl GoPanic)
      | Some r_ko \<Rightarrow>
          (let (s, created) = sdkCreate_database lib rm r_ko s
           in (s, finish_database lib rm r_ko created)))"

definition Update_database ::
  "'e golib \<Rightarrow> (database_value, 'd) cmplib \<Rightarrow> ('e, 'w) resourceManager_database \<Rightarrow> map_order \<Rightarrow>
     Database ptr \<Rightarrow> Database ptr \<Rightarrow> 'd \<Rightarrow> ('e, 'w) env \<Rightarrow> ('e, 'w) env \<times> ('e, Database) returned" where
  "Update_database lib cmp rm ord desired latest delta s =
     (case (desired, latest) of
        (Some desired_ko, Some latest_ko) \<Rightarrow>
          (let (s, updated) = sdkUpdate_database lib cmp rm ord desired_ko latest_ko delta s
           in (s, finish_database lib rm latest_ko updated))
      | _ \<Rightarrow> (s, Inl GoPanic))"

definition Delete_database ::
  "'e golib \<Rightarrow> ('e, 'w) resourceManager_database \<Rightarrow> Database ptr \<Rightarrow> ('e, 'w) env \<Rightarrow>
     ('e, 'w) env \<times> ('e, Database) returned" where
  "Delete_database lib rm r s =
     (case r of
        None \<Rightarrow> (s, Inl GoPanic)
      | Some r_ko \<Rightarrow>
          (let (s, observed) = sdkDelete_database rm r_ko s
           in (s, finish_database lib rm r_ko observed)))"

definition ARNFromName_database :: "('e, 'w) resourceManager_database \<Rightarrow> string \<Rightarrow> string" where
  "ARNFromName_database rm name =
     ''arn:'' @ awsPartition rm @ '':glue:'' @ awsRegion rm @ '':'' @ awsAccountID rm @ '':'' @ name"

definition IsSynced_database :: "Database ptr \<Rightarrow> ('e, bool \<times> 'e option) outcome" where
  "IsSynced_database r = and_then (deref r) (\<lambda>_. Inr (True, None))"

section \<open>Late initialization\<close>

definition lateInitializeFieldNames_database :: "string list" where
  "lateInitializeFieldNames_database = [''CatalogID'', ''TableDefaultPermissions'']"

definition incompleteLateInitialization_database :: "Database \<Rightarrow> bool" where
  "incompleteLateInitialization_database res \<longleftrightarrow> False"

definition lateInitializeFromReadOneOutput_database :: "Database \<Rightarrow> Database \<Rightarrow> Database" where
  "lateInitializeFromReadOneOutput_database observedKo latestKo =
     (let latestKo =
            (if DatabaseSpec.CatalogID (Spec observedKo) \<noteq> None \<and>
                DatabaseSpec.CatalogID (Spec latestKo) = None
             then latestKo\<lparr>Spec := (Spec latestKo)\<lparr>DatabaseSpec.CatalogID :=
                    DatabaseSpec.CatalogID (Spec observedKo)\<rparr>\<rparr>
             else latestKo);
          latestKo =
            (if DatabaseSpec.TableDefaultPermissions (Spec observedKo) \<noteq> None \<and>
                DatabaseSpec.TableDefaultPermissions (Spec latestKo) = None
             then latestKo\<lparr>Spec := (Spec latestKo)\<lparr>DatabaseSpec.TableDefaultPermissions :=
                    DatabaseSpec.TableDefaultPermissions (Spec observedKo)\<rparr>\<rparr>
             else latestKo)
      in latestKo)"

text \<open>\<open>ackcondition.SetLateInitialized\<close> and \<open>ackcondition.SetSynced\<close> on a resource.\<close>

definition with_conditions :: "(Condition ptr slice \<Rightarrow> Condition ptr slice) \<Rightarrow> Database \<Rightarrow> Database" where
  "with_conditions f res =
     res\<lparr>Database.Status := (Database.Status res)\<lparr>Conditions := f (Conditions (Database.Status res))\<rparr>\<rparr>"

definition LateInitialize_database ::
  "'e golib \<Rightarrow> ('e, 'w) resourceManager_database \<Rightarrow> map_order \<Rightarrow> Database ptr \<Rightarrow> ('e, 'w) env \<Rightarrow>
     ('e, 'w) env \<times> ('e, Database) returned" where
  "LateInitialize_database lib rm ord latest s =
     (if length lateInitializeFieldNames_database = 0 then (s, Inr (latest, None))
      else
        (let (s, read) = ReadOne_database lib rm ord latest s
         in (s, and_then read (\<lambda>(latestCopy, observed, err).
              (case err of
                 Some e \<Rightarrow>
                   (let latestCopy = with_conditions (\<lambda>cs. ackcondition_SetLateInitialized lib cs
                          ConditionFalse
                          (Some ''Unable to complete Read operation required for late initialization'')
                          (Some ''Late Initialization Failure'')) latestCopy;
                        latestCopy = with_conditions (\<lambda>cs. ackcondition_SetSynced lib cs
                          ConditionFalse None None) latestCopy
                    in Inr (Some latestCopy, Some e))
               | None \<Rightarrow>
                   and_then (deref observed) (\<lambda>observed.
                     let res = lateInitializeFromReadOneOutput_database observed latestCopy
                     in if incompleteLateInitialization_database res then
                          (let res = with_conditions (\<lambda>cs. ackcondition_SetLateInitialized lib cs
                                 ConditionFalse
                                 (Some ''Late initialization did not complete, requeuing with delay of 5 seconds'')
                                 (Some ''Delayed Late Initialization'')) res;
                               res = with_conditions (\<lambda>cs. ackcondition_SetSynced lib cs
                                 ConditionFalse None None) res
                           in Inr (Some res, Some (ackrequeue_NeededAfter lib None 5)))
                        else
                          (let res = with_conditions (\<lambda>cs. ackcondition_SetLateInitialized lib cs
                                 ConditionTrue (Some ''Late initialization successful'')
                                 (Some ''Late initialization successful'')) res
                           in Inr (Some res, None))))))))"

section \<open>The manager interface\<close>

text \<open>The conditions code of this package satisfies the contract proved for managers.\<close>

interpretation database_manager: ack_manager lib Database.Status
  "\<lambda>f ko. ko\<lparr>Database.Status := f (Database.Status ko)\<rparr>"
  "status_defaults (awsRegion rm) (awsPartition rm) (awsAccountID rm)"
  "updateConditions_database lib rm" "onError_database lib rm" "onSuccess_database lib rm" for lib rm
proof unfold_locales
  fix k :: Database and f e and err
  let ?d = "status_defaults (awsRegion rm) (awsPartition rm) (awsAccountID rm)"
  show "Database.Status (k\<lparr>Database.Status := f (Database.Status k)\<rparr>) = f (Database.Status k)"
    by simp
  show "updateConditions_database lib rm k err =
      and_then (update_conditions lib err (condition_ptrs (?d (Database.Status k))))
        (\<lambda>(cs, updated). Inr (if updated
           then Some (k\<lparr>Database.Status := (?d (Database.Status k))\<lparr>Conditions := Some cs\<rparr>\<rparr>) else None))"
    by (simp add: updateConditions_database_def setStatusDefaults_database_def Let_def cong: if_cong)
  show "onError_database lib rm None e = Inr (None, Some e)"
    and "onSuccess_database lib rm None = Inr (None, None)"
    by (simp_all add: onError_database_def onSuccess_database_def)
  show "onError_database lib rm (Some k) e =
      and_then (updateConditions_database lib rm k (Some e)) (\<lambda>r. case r of
          None \<Rightarrow> Inr (Some k, Some e)
        | Some r1 \<Rightarrow> and_then (any_condition is_terminal (condition_ptrs (Database.Status r1))) (\<lambda>terminal.
            Inr (Some r1, Some (if terminal then ackerr_Terminal lib else e))))"
    by (auto simp: onError_database_def split: option.split intro!: and_then_cong)
  show "onSuccess_database lib rm (Some k) =
      and_then (updateConditions_database lib rm k None) (\<lambda>r. Inr (case r of
          None \<Rightarrow> (Some k, None) | Some r1 \<Rightarrow> (Some r1, None)))"
    by (simp add: onSuccess_database_def)
qed

end
