(* ===== verification/Ack_Lifecycle.thy ===== *)
theory Ack_Lifecycle
  imports Ack_Runtime
begin

text \<open>
  The interface between a resource descriptor and the reconciler: a resource is under management
  while it carries the descriptor's finalizer. The laws of the finalizer functions of
  controller-runtime are a hypothesis of the lemmas, not of the interface.
\<close>

locale finalized =
  fixes lib :: "'e golib"
    and finalizers :: "'ko \<Rightarrow> string set"
    and mine :: string
    and isManaged :: "'ko \<Rightarrow> bool"
    and markManaged :: "'ko \<Rightarrow> 'ko"
    and markUnmanaged :: "'ko \<Rightarrow> 'ko"
  assumes managed_iff: "isManaged ko \<longleftrightarrow> mine \<in> finalizers ko"
    and managed_adds: "finalizer_laws lib \<Longrightarrow> finalizers (markManaged ko) = insert mine (finalizers ko)"
    and unmanaged_removes: "finalizer_laws lib \<Longrightarrow> finalizers (markUnmanaged ko) = finalizers ko - {mine}"
begin

lemma manage: "finalizer_laws lib \<Longrightarrow> isManaged (markManaged ko)"
  by (simp add: managed_iff managed_adds)

lemma unmanage: "finalizer_laws lib \<Longrightarrow> \<not> isManaged (markUnmanaged ko)"
  by (simp add: managed_iff unmanaged_removes)

text \<open>The finalizers of others are kept, and an unmanaged resource is back where it was.\<close>

lemma others_kept:
  assumes "finalizer_laws lib" "f \<noteq> mine"
  shows "f \<in> finalizers (markManaged ko) \<longleftrightarrow> f \<in> finalizers ko"
    and "f \<in> finalizers (markUnmanaged ko) \<longleftrightarrow> f \<in> finalizers ko"
  using assms by (simp_all add: managed_adds unmanaged_removes)

lemma manage_unmanage:
  "finalizer_laws lib \<Longrightarrow> \<not> isManaged ko \<Longrightarrow> finalizers (markUnmanaged (markManaged ko)) = finalizers ko"
  by (simp add: managed_iff managed_adds unmanaged_removes)

end

end
