(* ===== verification/Database_Resource.thy ===== *)
theory Database_Resource
  imports Database_Types Ack_Status Ack_Lifecycle
begin

text \<open>
  pkg/resource/database/resource.go, identifiers.go, descriptor.go and references.go: what the reconciler asks of a
  database resource and of its descriptor. A resource is its non-nil \<open>ko\<close>; an operation that writes to it
  returns the new value. Finalizers and annotations are those of the object's metadata; the key of the
  adoption annotation is the runtime's, an argument here.
\<close>

section \<open>resource.go\<close>

definition IsBeingDeleted_database :: "'e golib \<Rightarrow> Database \<Rightarrow> bool" where
  "IsBeingDeleted_database lib r_ko \<longleftrightarrow> \<not> metav1_Time_IsZero lib (DeletionTimestamp (Database.ObjectMeta r_ko))"

definition Conditions_database :: "Database \<Rightarrow> Condition ptr slice" where
  "Conditions_database r_ko = ack_status.Conditions (Database.Status r_ko)"

definition ReplaceConditions_database :: "Condition ptr slice \<Rightarrow> Database \<Rightarrow> Database" where
  "ReplaceConditions_database conditions r_ko =
     r_ko\<lparr>Database.Status := (Database.Status r_ko)\<lparr>ack_status.Conditions := conditions\<rparr>\<rparr>"

definition SetObjectMeta_database :: "ObjectMeta \<Rightarrow> Database \<Rightarrow> Database" where
  "SetObjectMeta_database meta r_ko = r_ko\<lparr>Database.ObjectMeta := meta\<rparr>"

definition SetStatus_database :: "Database \<Rightarrow> Database \<Rightarrow> Database" where
  "SetStatus_database desired_ko r_ko = r_ko\<lparr>Database.Status := Database.Status desired_ko\<rparr>"

text \<open>The error, if any, and the resource afterwards.\<close>

definition SetIdentifiers_database :: "'e golib \<Rightarrow> AWSIdentifiers \<Rightarrow> Database \<Rightarrow> 'e option \<times> Database" where
  "SetIdentifiers_database lib identifier r_ko =
     (if NameOrID identifier = '''' then (Some (ackerr_MissingNameIdentifier lib), r_ko)
      else
        (let r_ko = r_ko\<lparr>Spec := (Spec r_ko)\<lparr>DatabaseSpec.Name := Some (NameOrID identifier)\<rparr>\<rparr>;
             r_ko = (case fmlookup (AdditionalKeys identifier) ''catalogID'' of
                       None \<Rightarrow> r_ko
                     | Some f0 \<Rightarrow> r_ko\<lparr>Spec := (Spec r_ko)\<lparr>DatabaseSpec.CatalogID := aws_String lib f0\<rparr>\<rparr>)
         in (None, r_ko)))"

definition PopulateResourceFromAnnotation_database ::
  "'e golib \<Rightarrow> string gomap \<Rightarrow> Database \<Rightarrow> 'e option \<times> Database" where
  "PopulateResourceFromAnnotation_database lib annotation r_ko =
     (case fmlookup annotation ''name'' of
        None \<Rightarrow> (Some (ackerr_NewTerminalError lib (fmt_Errorf lib ''required field missing: name'')), r_ko)
      | Some name \<Rightarrow>
          (let r_ko = r_ko\<lparr>Spec := (Spec r_ko)\<lparr>DatabaseSpec.Name := Some name\<rparr>\<rparr>;
               r_ko = (case fmlookup annotation ''catalogID'' of
                         None \<Rightarrow> r_ko
                       | Some f0 \<Rightarrow> r_ko\<lparr>Spec := (Spec r_ko)\<lparr>DatabaseSpec.CatalogID := aws_String lib f0\<rparr>\<rparr>)
           in (None, r_ko)))"

section \<open>identifiers.go\<close>

text \<open>The identifiers read the metadata of the status, nil when there is none.\<close>

definition Identifiers_database :: "Database \<Rightarrow> ResourceMetadata ptr" where
  "Identifiers_database r_ko = ACKResourceMetadata (Database.Status r_ko)"

definition identifiers_ARN_database :: "ResourceMetadata ptr \<Rightarrow> string ptr" where
  "identifiers_ARN_database meta = (case meta of Some md \<Rightarrow> ResourceMetadata.ARN md | None \<Rightarrow> None)"

definition identifiers_OwnerAccountID_database :: "ResourceMetadata ptr \<Rightarrow> string ptr" where
  "identifiers_OwnerAccountID_database meta =
     (case meta of Some md \<Rightarrow> ResourceMetadata.OwnerAccountID md | None \<Rightarrow> None)"

definition identifiers_Region_database :: "ResourceMetadata ptr \<Rightarrow> string ptr" where
  "identifiers_Region_database meta = (case meta of Some md \<Rightarrow> ResourceMetadata.Region md | None \<Rightarrow> None)"

definition identifiers_Partition_database :: "ResourceMetadata ptr \<Rightarrow> string ptr" where
  "identifiers_Partition_database meta = (case meta of Some md \<Rightarrow> ResourceMetadata.Partition md | None \<Rightarrow> None)"

section \<open>descriptor.go\<close>

definition FinalizerString_database :: string where
  "FinalizerString_database = ''finalizers.glue.services.k8s.aws/Database''"

fun containsFinalizer_database :: "string list \<Rightarrow> string \<Rightarrow> bool" where
  "containsFinalizer_database [] finalizer \<longleftrightarrow> False"
| "containsFinalizer_database (e # f) finalizer \<longleftrightarrow> (if e = finalizer then True else containsFinalizer_database f finalizer)"

definition IsManaged_database :: "Database \<Rightarrow> bool" where
  "IsManaged_database r_ko \<longleftrightarrow> containsFinalizer_database (Finalizers (Database.ObjectMeta r_ko)) FinalizerString_database"

definition MarkManaged_database :: "'e golib \<Rightarrow> Database \<Rightarrow> Database" where
  "MarkManaged_database lib r_ko = r_ko\<lparr>Database.ObjectMeta := (Database.ObjectMeta r_ko)\<lparr>Finalizers :=
     k8sctrlutil_AddFinalizer lib (Finalizers (Database.ObjectMeta r_ko)) FinalizerString_database\<rparr>\<rparr>"

definition MarkUnmanaged_database :: "'e golib \<Rightarrow> Database \<Rightarrow> Database" where
  "MarkUnmanaged_database lib r_ko = r_ko\<lparr>Database.ObjectMeta := (Database.ObjectMeta r_ko)\<lparr>Finalizers :=
     k8sctrlutil_RemoveFinalizer lib (Finalizers (Database.ObjectMeta r_ko)) FinalizerString_database\<rparr>\<rparr>"

definition MarkAdopted_database :: "string \<Rightarrow> Database \<Rightarrow> Database" where
  "MarkAdopted_database annotationAdopted r_ko =
     (let curr = (case Annotations (Database.ObjectMeta r_ko) of None \<Rightarrow> fmempty | Some m \<Rightarrow> m)
      in r_ko\<lparr>Database.ObjectMeta := (Database.ObjectMeta r_ko)\<lparr>Annotations :=
           Some (fmupd annotationAdopted ''true'' curr)\<rparr>\<rparr>)"

section \<open>references.go\<close>

text \<open>A database has no reference field; the copy that ClearResolvedReferences takes equals its original.\<close>

definition ClearResolvedReferences_database :: "Database \<Rightarrow> Database" where
  "ClearResolvedReferences_database ko = ko"

definition validateReferenceFields_database :: "Database \<Rightarrow> 'e option" where
  "validateReferenceFields_database ko = None"

definition ResolveReferences_database :: "'reader \<Rightarrow> Database \<Rightarrow> Database \<times> bool \<times> 'e option" where
  "ResolveReferences_database apiReader res = (res, False, None)"

section \<open>The lifecycle contract\<close>

lemma containsFinalizer_database_iff [simp]: "containsFinalizer_database fs f \<longleftrightarrow> f \<in> set fs"
  by (induction fs) auto

text \<open>The interface the reconciler's lifecycle rests on, proved for this package's descriptor.\<close>

interpretation database_lifecycle: finalized lib "\<lambda>ko. set (Finalizers (Database.ObjectMeta ko))"
  FinalizerString_database IsManaged_database "MarkManaged_database lib" "MarkUnmanaged_database lib" for lib
  by unfold_locales
    (simp_all add: IsManaged_database_def MarkManaged_database_def MarkUnmanaged_database_def finalizer_laws_def)

end
