(* ===== verification/Sdk_Codec.thy ===== *)
theory Sdk_Codec
  imports Ack_Runtime
begin

text \<open>
  Pairs of conversions between a custom resource and the SDK: \<open>from\<close> copies a response into the
  resource, \<open>to\<close> builds a request from it. \<open>codec\<close> says that a request built from what a response
  left carries exactly that response, without an error or a panic. The generated code nests these
  conversions in structs, slices and maps; so do the lemmas.
\<close>

definition codec :: "('s \<Rightarrow> 'k) \<Rightarrow> ('k \<Rightarrow> ('e, 's) outcome) \<Rightarrow> bool" where
  "codec from to \<longleftrightarrow> (\<forall>s. to (from s) = Inr s)"

text \<open>The same but for what the resource has no field for: \<open>norm\<close> drops it from the response.\<close>

definition codec_up_to :: "('s \<Rightarrow> 's) \<Rightarrow> ('s \<Rightarrow> 'k) \<Rightarrow> ('k \<Rightarrow> ('e, 's) outcome) \<Rightarrow> bool" where
  "codec_up_to norm from to \<longleftrightarrow> (\<forall>s. to (from s) = Inr (norm s))"

section \<open>The statements the conversions are made of\<close>

text \<open>
  A value the SDK holds without a pointer is the zero value unless the resource sets it; an
  enumeration is read unless it is the empty string.
\<close>

definition or_zero :: "'a \<Rightarrow> 'a ptr \<Rightarrow> 'a" where
  "or_zero z p = (case p of None \<Rightarrow> z | Some a \<Rightarrow> a)"

definition enum_read :: "'e golib \<Rightarrow> string \<Rightarrow> string ptr" where
  "enum_read lib s = (if s \<noteq> '''' then aws_String lib s else None)"

text \<open>Integers: the resource holds 64 bits where the SDK holds 32, by pointer or by value.\<close>

definition int32_read :: "int32 ptr \<Rightarrow> int64 ptr" where
  "int32_read p = map_option int64_of p"

definition int32_addr :: "int32 \<Rightarrow> int64 ptr" where
  "int32_addr x = Some (int64_of x)"

definition int32_write_ptr :: "'e golib \<Rightarrow> string \<Rightarrow> int64 ptr \<Rightarrow> ('e, int32 ptr) outcome" where
  "int32_write_ptr lib msg p =
     when_set (\<lambda>x. if outside_int32 x then Inl (GoErr (fmt_Errorf lib msg)) else Inr (int32_of x)) p"

definition int32_write :: "'e golib \<Rightarrow> string \<Rightarrow> int64 ptr \<Rightarrow> ('e, int32) outcome" where
  "int32_write lib msg p = and_then (int32_write_ptr lib msg p) (\<lambda>q. Inr (or_zero 0 q))"

text \<open>
  Slices and maps of structures: the SDK holds the structures, the resource pointers to them, which
  a request dereferences.
\<close>

definition slice_read :: "('s \<Rightarrow> 'k) \<Rightarrow> 's slice \<Rightarrow> 'k ptr slice" where
  "slice_read from xs = map_option (map (\<lambda>x. Some (from x))) xs"

definition slice_write :: "('k \<Rightarrow> ('e, 's) outcome) \<Rightarrow> 'k ptr slice \<Rightarrow> ('e, 's slice) outcome" where
  "slice_write to xs = when_set (traverse (\<lambda>p. and_then (deref p) to)) xs"

definition range_copy :: "map_order \<Rightarrow> ('a \<Rightarrow> 'b) \<Rightarrow> 'a gomap \<Rightarrow> 'b gomap" where
  "range_copy ord f m = range_fold ord (\<lambda>k v r. fmupd k (f v) r) m fmempty"

definition map_read :: "map_order \<Rightarrow> ('s \<Rightarrow> 'k) \<Rightarrow> 's gomap option \<Rightarrow> 'k ptr gomap option" where
  "map_read ord from m = map_option (range_copy ord (\<lambda>x. Some (from x))) m"

definition map_write ::
  "map_order \<Rightarrow> ('k \<Rightarrow> ('e, 's) outcome) \<Rightarrow> 'k ptr gomap option \<Rightarrow> ('e, 's gomap option) outcome" where
  "map_write ord to m = when_set (range_traverse ord (\<lambda>p. and_then (deref p) to)) m"

lemma or_zero_simps [simp, go_simps]: "or_zero z None = z" "or_zero z (Some a) = a"
  by (simp_all add: or_zero_def)

section \<open>Codecs\<close>

named_theorems codecs \<open>conversions that form a codec\<close>

lemma codecI: "(\<And>s. to (from s) = Inr s) \<Longrightarrow> codec from to"
  by (simp add: codec_def)

lemma codecD: "codec from to \<Longrightarrow> to (from s) = Inr s"
  by (simp add: codec_def)

lemma codec_traverse: "codec from to \<Longrightarrow> traverse to (map from xs) = Inr xs"
  by (induction xs) (simp_all add: codecD)

lemma codec_when_set: "codec from to \<Longrightarrow> when_set to (map_option from p) = Inr p"
  by (cases p) (simp_all add: codecD)

lemma codec_slice: "codec from to \<Longrightarrow> when_set (traverse to) (map_option (map from) xs) = Inr xs"
  by (cases xs) (simp_all add: codec_traverse)

lemma codec_map: "codec from to \<Longrightarrow> range_traverse ord to (fmmap from m) = Inr m"
  by (subst range_traverse_all_Inr [where g = "\<lambda>k. projr (to k)"])
    (auto simp: codecD intro!: fmap_ext simp: option.map_comp o_def option.map_ident)

lemma codec_gomap:
  "codec from to \<Longrightarrow> when_set (range_traverse ord to) (map_option (fmmap from) m) = Inr m"
  by (cases m) (simp_all add: codec_map)

lemmas codec_lift = codec_traverse codec_when_set codec_slice codec_map codec_gomap

lemma codec_aws_strings:
  "conversion_laws lib \<Longrightarrow> map_option (aws_ToStringSlice lib) (map_option (aws_StringSlice lib) xs) = xs"
  by (cases xs) (simp_all add: conversion_lawsD)

lemma codec_aws_map:
  "conversion_laws lib \<Longrightarrow> map_option (aws_ToStringMap lib) (map_option (aws_StringMap lib) m) = m"
  by (cases m) (simp_all add: conversion_lawsD)

lemma range_copy_eq: "range_copy ord f m = fmmap f m"
  unfolding range_copy_def
  by (rule fmap_ext, subst range_fold_pointwise [where h = "\<lambda>k v x. Some (f v)"])
    (auto split: option.splits)

lemma codec_ptr: "codec from to \<Longrightarrow> codec (\<lambda>x. Some (from x)) (\<lambda>p. and_then (deref p) to)"
  by (simp add: codec_def)

lemma codec_slice_structs: "codec from to \<Longrightarrow> slice_write to (slice_read from xs) = Inr xs"
  unfolding slice_write_def slice_read_def by (rule codec_slice [OF codec_ptr])

lemma codec_map_structs: "codec from to \<Longrightarrow> map_write ord to (map_read ord' from m) = Inr m"
  unfolding map_write_def map_read_def range_copy_eq [abs_def] by (rule codec_gomap [OF codec_ptr])

lemma codec_up_to_when_set:
  "codec_up_to norm from to \<Longrightarrow> when_set to (map_option from p) = Inr (map_option norm p)"
  by (cases p) (simp_all add: codec_up_to_def)

lemma codec_up_to_slice_structs:
  assumes "codec_up_to norm from to"
  shows "slice_write to (slice_read from xs) = Inr (map_option (map norm) xs)"
proof (cases xs)
  case (Some ys)
  have "traverse (\<lambda>p. and_then (deref p) to) (map (\<lambda>x. Some (from x)) ys) = Inr (map norm ys)"
    using assms by (induction ys) (simp_all add: codec_up_to_def)
  with Some show ?thesis by (simp add: slice_write_def slice_read_def)
qed (simp add: slice_write_def slice_read_def)

lemma codec_up_to_map_structs:
  assumes "codec_up_to norm from to"
  shows "map_write ord to (map_read ord' from m) = Inr (map_option (fmmap norm) m)"
proof (cases m)
  case (Some f)
  have "range_traverse ord (\<lambda>p. and_then (deref p) to) (fmmap (\<lambda>x. Some (from x)) f) = Inr (fmmap norm f)"
    using assms
    by (subst range_traverse_all_Inr [where g = "\<lambda>p. projr (and_then (deref p) to)"])
      (auto simp: codec_up_to_def option.map_comp o_def intro!: fmap_ext)
  with Some show ?thesis by (simp add: map_write_def map_read_def range_copy_eq [abs_def])
qed (simp add: map_write_def map_read_def)

lemma codec_enum_map:
  assumes "conversion_laws lib"
  shows "when_set (range_traverse ord deref) (map_option (range_copy ord' (aws_String lib)) m) = Inr m"
  unfolding range_copy_eq [abs_def]
  by (rule codec_gomap) (simp add: codec_def conversion_lawsD [OF assms])

lemma codec_enum: "conversion_laws lib \<Longrightarrow> or_zero '''' (enum_read lib s) = s"
  by (simp add: enum_read_def conversion_lawsD)

lemma codec_string_lists:
  "conversion_laws lib \<Longrightarrow>
   map_option (map (aws_ToStringSlice lib)) (map_option (map (aws_StringSlice lib)) xs) = xs"
  by (cases xs) (simp_all add: conversion_lawsD o_def)

lemma codec_int32:
  "int32_write_ptr lib msg (int32_read p) = Inr p" "int32_write lib msg (int32_addr x) = Inr x"
  by (cases p) (simp_all add: int32_write_ptr_def int32_write_def int32_read_def int32_addr_def)

lemmas codec_rules = codec_when_set codec_slice_structs codec_map_structs codec_enum_map codec_enum
  codec_string_lists codec_int32 codec_aws_strings codec_aws_map

end
