(* ===== verification/Database_Properties.thy ===== *)
theory Database_Properties
  imports Database_Manager Database_Resource Sdk_Codec
begin

text \<open>
  What the Database controller guarantees: the differences newResourceDelta reports, the requests
  built from a response, the results of the sdk methods on each branch, the conditions the manager
  leaves, late initialization and the tag operations of the manager. The section of samples holds the concrete library,
  account and resources of the witnesses.
\<close>

section \<open>Samples\<close>

definition sample_cmp :: "(database_value, (string \<times> database_value \<times> database_value) list) cmplib" where
  "sample_cmp = list_cmplib nil_database zero_database (\<lambda>_. True)"

lemma sample_cmp_laws:
  "delta_laws sample_cmp (map fst) path_below" "value_laws sample_cmp nil_database zero_database"
    "reflexive_law sample_cmp (\<lambda>_. True)"
  by (simp_all add: sample_cmp_def list_cmplib_laws)

definition sample_meta :: ObjectMeta where
  "sample_meta = \<lparr>Namespace = ''default'', DeletionTimestamp = None, Finalizers = [], Annotations = None\<rparr>"

definition sample_spec :: DatabaseSpec where
  "sample_spec = \<lparr>DatabaseSpec.CatalogID = None, Description = None, FederatedDatabase = None,
     LocationURI = None, Name = Some ''db'', Parameters = None, TableDefaultPermissions = None,
     Tags = None, TargetDatabase = None\<rparr>"

definition sample_db :: Database where
  "sample_db = \<lparr>Database.ObjectMeta = sample_meta, Spec = sample_spec,
     Status = \<lparr>ACKResourceMetadata = None, Conditions = None\<rparr>\<rparr>"

definition sample_response :: sdk_Database where
  "sample_response = \<lparr>sdk_Database.CatalogId = Some ''123'',
     CreateTableDefaultPermissions = Some [\<lparr>sdk_PrincipalPermissions.Permissions = Some [''ALL''],
       Principal = Some \<lparr>sdk_DataLakePrincipal.DataLakePrincipalIdentifier = Some ''me''\<rparr>\<rparr>],
     CreateTime = None, Description = Some ''d'', FederatedDatabase = None, LocationUri = Some ''s3'',
     Name = Some ''db'', Parameters = Some (fmap_of_list [(''p'', ''1'')]), TargetDatabase = None\<rparr>"

text \<open>An account that knows one database (or has none), and takes every other call.\<close>

definition sample_client ::
  "('e, string \<Rightarrow> tags) tagsClient \<Rightarrow> 'e + sdk_Database ptr \<Rightarrow> ('e, string \<Rightarrow> tags) databaseClient" where
  "sample_client tc out = \<lparr>api_tags = tc,
     api_GetDatabase = (\<lambda>i w. (w, out)), api_CreateDatabase = (\<lambda>i w. (w, None)),
     api_UpdateDatabase = (\<lambda>i w. (w, None)), api_DeleteDatabase = (\<lambda>i w. (w, None))\<rparr>"

definition sample_rm ::
  "('e, string \<Rightarrow> tags) tagsClient \<Rightarrow> 'e + sdk_Database ptr \<Rightarrow>
     ('e, string \<Rightarrow> tags) resourceManager_database" where
  "sample_rm tc out = \<lparr>awsAccountID = ''1'', awsRegion = ''r'', awsPartition = ''aws'',
     sdkapi = sample_client tc out\<rparr>"

section \<open>Differences\<close>

text \<open>
  C9: newResourceDelta on two databases reports exactly the spec fields that differ, in the order of
  the fields: pointers by value, Description and LocationURI with nil equal to the empty string, the
  two nested structures by path, Parameters and TableDefaultPermissions by size and library
  equality, Tags as ACK tags.
\<close>
theorem newResourceDelta_database_paths:
  assumes "delta_laws cmp paths below" and "value_laws cmp nil_database zero_database"
  shows "\<exists>d. newResourceDelta_database cmp ord (Some \<lparr>resource_ko = Some a\<rparr>) (Some \<lparr>resource_ko = Some b\<rparr>) =
      (Inr d :: ('e, 'd) outcome) \<and>
    paths d = spec_paths cmp (Spec a) (Spec b)"
  using paths_diff_DatabaseSpec [OF assms, of ord "Spec a" "Spec b" "NewDelta cmp"]
  by (simp add: newResourceDelta_database_def delta_lawsD(1) [OF assms(1)])

theorem newResourceDelta_database_paths_witness:
  "\<exists>d. newResourceDelta_database sample_cmp sorted_order (Some \<lparr>resource_ko = Some sample_db\<rparr>)
        (Some \<lparr>resource_ko = Some (sample_db\<lparr>Spec := sample_spec\<lparr>DatabaseSpec.Description := Some '''',
           DatabaseSpec.Name := Some ''x''\<rparr>\<rparr>)\<rparr>) = (Inr d :: (gerror, _) outcome) \<and>
      map fst d = [''Spec.Name'']"
  using newResourceDelta_database_paths [OF sample_cmp_laws(1,2), of sorted_order sample_db
      "sample_db\<lparr>Spec := sample_spec\<lparr>DatabaseSpec.Description := Some '''', DatabaseSpec.Name := Some ''x''\<rparr>\<rparr>",
      where ?'e = gerror]
  by (simp add: spec_paths_def sample_db_def sample_spec_def differs_nil_zero_def ptr_string_def
      federated_paths_def target_paths_def differs_sized_def slice_len_def)

lemma spec_paths_refl:
  assumes "value_laws cmp nil_database zero_database" "reflexive_law cmp (\<lambda>_. True)"
  shows "spec_paths cmp a a = []"
  by (simp add: spec_paths_def differs_nil_zero_def federated_paths_def target_paths_def
      differs_sized_def value_lawsD [OF assms(1)] reflexive_lawD [OF assms(2)] split: option.split)

section \<open>Requests built from a response\<close>

lemma perm_codec [codecs]:
  assumes "conversion_laws lib"
  shows "codec (read_PrincipalPermissions lib) create_PrincipalPermissions"
    and "codec (read_PrincipalPermissions lib) update_PrincipalPermissions"
proof -
  have strings: "when_set (traverse deref) (map_option (map (aws_String lib)) xs) = Inr xs" for xs
    by (rule codec_slice) (simp add: codec_def conversion_lawsD [OF assms])
  have principal: "map_option (\<lambda>p. \<lparr>sdk_DataLakePrincipal.DataLakePrincipalIdentifier =
        DataLakePrincipal.DataLakePrincipalIdentifier p\<rparr>)
      (map_option (\<lambda>p. \<lparr>DataLakePrincipal.DataLakePrincipalIdentifier =
        sdk_DataLakePrincipal.DataLakePrincipalIdentifier p\<rparr>) q) = q" for q
    by (cases q) simp_all
  show "codec (read_PrincipalPermissions lib) create_PrincipalPermissions"
    "codec (read_PrincipalPermissions lib) update_PrincipalPermissions"
    by (auto intro!: codecI simp: read_PrincipalPermissions_def create_PrincipalPermissions_def
        update_PrincipalPermissions_def strings principal)
qed

lemma federated_back: "map_option create_FederatedDatabase (map_option read_FederatedDatabase p) = p"
  by (cases p) (simp_all add: create_FederatedDatabase_def read_FederatedDatabase_def)

lemma target_back: "map_option create_DatabaseIdentifier (map_option read_DatabaseIdentifier p) = p"
  by (cases p) (simp_all add: create_DatabaseIdentifier_def read_DatabaseIdentifier_def)

lemma update_permissions_eq: "update_PrincipalPermissions = create_PrincipalPermissions"
  by (simp add: fun_eq_iff update_PrincipalPermissions_def create_PrincipalPermissions_def)

text \<open>The request that sdkUpdate sends for a resource that holds a response.\<close>

definition request_of_response :: "sdk_Database \<Rightarrow> sdk_UpdateDatabaseInput" where
  "request_of_response resp =
     \<lparr>sdk_UpdateDatabaseInput.CatalogId = sdk_Database.CatalogId resp,
      sdk_UpdateDatabaseInput.DatabaseInput =
        \<lparr>sdk_DatabaseInput.CreateTableDefaultPermissions = sdk_Database.CreateTableDefaultPermissions resp,
         sdk_DatabaseInput.Description = sdk_Database.Description resp,
         sdk_DatabaseInput.FederatedDatabase = sdk_Database.FederatedDatabase resp,
         sdk_DatabaseInput.LocationUri = sdk_Database.LocationUri resp,
         sdk_DatabaseInput.Name = sdk_Database.Name resp,
         sdk_DatabaseInput.Parameters = sdk_Database.Parameters resp,
         sdk_DatabaseInput.TargetDatabase = sdk_Database.TargetDatabase resp\<rparr>,
      sdk_UpdateDatabaseInput.Name = sdk_Database.Name resp\<rparr>"

lemma update_payload_of_read:
  assumes "conversion_laws lib"
  shows "newUpdateRequestPayload_database lib
      (ko\<lparr>Spec := (read_DatabaseSpec lib resp spec)\<lparr>DatabaseSpec.Tags := t\<rparr>\<rparr>) =
    Inr ((request_of_response resp)\<lparr>sdk_UpdateDatabaseInput.CatalogId := None,
      sdk_UpdateDatabaseInput.Name := None\<rparr>)"
  by (simp add: newUpdateRequestPayload_database_def read_DatabaseSpec_def request_of_response_def Let_def
      codec_slice [OF perm_codec(2) [OF assms]] codec_aws_map [OF assms] federated_back
      target_back create_FederatedDatabase_def [abs_def, symmetric]
      create_DatabaseIdentifier_def [abs_def, symmetric])


section \<open>The sdk methods\<close>

text \<open>The ARN of a database whose metadata setStatusDefaults has completed.\<close>

definition arn_with :: "ResourceMetadata \<Rightarrow> string \<Rightarrow> string" where
  "arn_with md name = ''arn:'' @ the (Partition md) @ '':glue:'' @ the (ResourceMetadata.Region md) @
     '':'' @ the (OwnerAccountID md) @ '':database/'' @ name"

definition metadata_after :: "('e, 'w) resourceManager_database \<Rightarrow> Database \<Rightarrow> ResourceMetadata" where
  "metadata_after rm ko = the (ACKResourceMetadata
     (status_defaults (awsRegion rm) (awsPartition rm) (awsAccountID rm) (Database.Status ko)))"

lemma metadata_defaulted:
  "ACKResourceMetadata (status_defaults (awsRegion rm) (awsPartition rm) (awsAccountID rm)
     (Database.Status ko)) = Some (metadata_after rm ko)"
  "\<exists>x. Partition (metadata_after rm ko) = Some x" "\<exists>x. ResourceMetadata.Region (metadata_after rm ko) = Some x"
  "\<exists>x. OwnerAccountID (metadata_after rm ko) = Some x"
  using status_defaults_metadata [of "awsRegion rm" "awsPartition rm" "awsAccountID rm" "Database.Status ko"]
  by (auto simp: metadata_after_def)

lemma ensure_after_defaults [simp]:
  "ensure_metadata (setStatusDefaults_database rm ko) = setStatusDefaults_database rm ko"
  by (simp add: ensure_metadata_def setStatusDefaults_database_def metadata_defaulted)

lemma databaseARN_defaulted:
  "databaseARN (setStatusDefaults_database rm ko) =
     and_then (deref (DatabaseSpec.Name (Spec ko))) (\<lambda>name. Inr (arn_with (metadata_after rm ko) name))"
  using metadata_defaulted [of rm ko]
  by (auto simp: databaseARN_def setStatusDefaults_database_def arn_with_def)

lemma metadata_after_spec [simp]: "metadata_after rm (ko\<lparr>Spec := x\<rparr>) = metadata_after rm ko"
  by (simp add: metadata_after_def)

lemma Name_read [simp]: "DatabaseSpec.Name (read_DatabaseSpec lib resp spec) = sdk_Database.Name resp"
  by (simp add: read_DatabaseSpec_def)

text \<open>sdkFind once the database has been found, up to the tags.\<close>

lemma sdkFind_found:
  assumes "DatabaseSpec.Name (Spec ko) \<noteq> None"
    and "api_GetDatabase (sdkapi rm) (newDescribeRequestPayload_database ko) (world s) =
           (w, Inr (Some resp))"
    and "sdk_Database.Name resp = Some name"
  shows "sdkFind_database lib rm ord ko s =
    (let ko' = set_arn (arn_with (metadata_after rm ko) name) (setStatusDefaults_database rm
           (ko\<lparr>Spec := read_DatabaseSpec lib resp (Spec ko)\<rparr>));
         (s, tags) = getTags_database rm ord (arn_with (metadata_after rm ko) name)
           (RecordAPICall ''READ_ONE'' ''GetDatabase'' None (s\<lparr>world := w\<rparr>))
     in (s, Inr (case tags of Inl err \<Rightarrow> (None, Some err)
          | Inr t \<Rightarrow> (Some (ko'\<lparr>Spec := (Spec ko')\<lparr>DatabaseSpec.Tags := Some t\<rparr>\<rparr>), None))))"
  using assms
  by (auto simp: sdkFind_database_def requiredFieldsMissingFromReadOneInput_database_def
      databaseARN_defaulted Let_def split: prod.split sum.split)

lemma sdkFind_no_name:
  "DatabaseSpec.Name (Spec ko) = None \<Longrightarrow>
   sdkFind_database lib rm ord ko s = (s, Inr (None, Some (ackerr_NotFound lib)))"
  by (simp add: sdkFind_database_def requiredFieldsMissingFromReadOneInput_database_def)

lemma sdkFind_get_error:
  "DatabaseSpec.Name (Spec ko) \<noteq> None \<Longrightarrow>
   api_GetDatabase (sdkapi rm) (newDescribeRequestPayload_database ko) (world s) = (w, Inl e) \<Longrightarrow>
   sdkFind_database lib rm ord ko s =
     (RecordAPICall ''READ_ONE'' ''GetDatabase'' (Some e) (s\<lparr>world := w\<rparr>),
      Inr (None, Some (if errors_As_APIError lib e = Some ''EntityNotFoundException''
                       then ackerr_NotFound lib else e)))"
  by (auto simp: sdkFind_database_def requiredFieldsMissingFromReadOneInput_database_def Let_def
      split: prod.splits)

lemma sdkFind_nameless:
  "DatabaseSpec.Name (Spec ko) \<noteq> None \<Longrightarrow>
   api_GetDatabase (sdkapi rm) (newDescribeRequestPayload_database ko) (world s) = (w, Inr out) \<Longrightarrow>
   (case out of None \<Rightarrow> True | Some resp \<Rightarrow> sdk_Database.Name resp = None) \<Longrightarrow>
   snd (sdkFind_database lib rm ord ko s) = Inl GoPanic"
  by (auto simp: sdkFind_database_def requiredFieldsMissingFromReadOneInput_database_def Let_def
      databaseARN_defaulted split: prod.splits option.splits)

text \<open>
  C11: A database that exists is read in two calls: sdkFind copies the response into the spec, keeps
  the object's metadata, fills in the status defaults and the ARN (partition, region, account and
  the name in the response), and takes the tags the service holds for that ARN.
\<close>
theorem sdkFind_database_success:
  assumes "DatabaseSpec.Name (Spec ko) \<noteq> None"
    and "api_GetDatabase (sdkapi rm) (newDescribeRequestPayload_database ko) (world s) =
           (w, Inr (Some resp))"
    and "sdk_Database.Name resp = Some name" and arn: "arn = arn_with (metadata_after rm ko) name"
    and "api_GetTags (api_tags (sdkapi rm)) arn w = (w', Inr tags)"
  shows "\<exists>s' ko'. sdkFind_database lib rm ord ko s = (s', Inr (Some ko', None)) \<and>
    world s' = w' \<and>
    calls s' = calls s @ [(''READ_ONE'', ''GetDatabase'', None), (''GET'', ''ListTagsForResource'', None)] \<and>
    Spec ko' = (read_DatabaseSpec lib resp (Spec ko))\<lparr>DatabaseSpec.Tags := Some (fmmap Some tags)\<rparr> \<and>
    ACKResourceMetadata (Database.Status ko') = Some ((metadata_after rm ko)\<lparr>ARN := Some arn\<rparr>) \<and>
    Database.ObjectMeta ko' = Database.ObjectMeta ko"
  using assms(5) unfolding arn
  by (simp add: sdkFind_found [OF assms(1-3)] getTags_database_def GetResourceTags_def
      GetResourceTags_value Let_def set_arn_def setStatusDefaults_database_def metadata_defaulted)

theorem sdkFind_database_success_witness:
  "\<exists>s' ko'. sdkFind_database go_library (sample_rm tag_account (Inr (Some sample_response))) sorted_order
      sample_db sample_env = (s', Inr (Some ko', None)) \<and>
    ACKResourceMetadata (Database.Status ko') = Some
      \<lparr>ARN = Some ''arn:aws:glue:r:1:database/db'', OwnerAccountID = Some ''1'', Region = Some ''r'',
       Partition = Some ''aws''\<rparr>"
proof -
  let ?rm = "sample_rm tag_account (Inr (Some sample_response)) :: (gerror, string \<Rightarrow> tags) resourceManager_database"
  have md: "metadata_after ?rm sample_db =
      \<lparr>ARN = None, OwnerAccountID = Some ''1'', Region = Some ''r'', Partition = Some ''aws''\<rparr>"
    by (simp add: metadata_after_def sample_rm_def sample_db_def status_defaults_def empty_metadata_def Let_def)
  have found: "DatabaseSpec.Name (Spec sample_db) \<noteq> None"
    "api_GetDatabase (sdkapi ?rm) (newDescribeRequestPayload_database sample_db) (world sample_env) =
       (world sample_env, Inr (Some sample_response))"
    "sdk_Database.Name sample_response = Some ''db''"
    "''arn:aws:glue:r:1:database/db'' = arn_with (metadata_after ?rm sample_db) ''db''"
    "api_GetTags (api_tags (sdkapi ?rm)) ''arn:aws:glue:r:1:database/db'' (world sample_env) =
       (world sample_env, Inr (world sample_env ''arn:aws:glue:r:1:database/db''))"
    unfolding md by (simp_all add: arn_with_def sample_rm_def sample_client_def tag_account_def
        sample_db_def sample_spec_def sample_response_def)
  show ?thesis
    using sdkFind_database_success [OF found, of go_library sorted_order] unfolding md by auto
qed

text \<open>
  C12: sdkFind panics exactly when the service answers without a database or with a database that
  has no name (the ARN hook dereferences both); every other response yields a result.
\<close>
theorem sdkFind_database_panics_iff:
  "snd (sdkFind_database lib rm ord ko s) = Inl GoPanic \<longleftrightarrow>
     DatabaseSpec.Name (Spec ko) \<noteq> None \<and>
     (case snd (api_GetDatabase (sdkapi rm) (newDescribeRequestPayload_database ko) (world s)) of
        Inl e \<Rightarrow> False
      | Inr None \<Rightarrow> True
      | Inr (Some resp) \<Rightarrow> sdk_Database.Name resp = None)"
proof (cases "DatabaseSpec.Name (Spec ko) = None")
  case False
  obtain w out where call: "api_GetDatabase (sdkapi rm) (newDescribeRequestPayload_database ko) (world s) = (w, out)"
    by fastforce
  consider (err) e where "out = Inl e"
    | (bad) o' where "out = Inr o'" "case o' of None \<Rightarrow> True | Some resp \<Rightarrow> sdk_Database.Name resp = None"
    | (good) resp name where "out = Inr (Some resp)" "sdk_Database.Name resp = Some name"
    by (cases out; force split: option.splits)
  then show ?thesis
  proof cases
    case err
    then show ?thesis using sdkFind_get_error [OF False call [unfolded err]] call by simp
  next
    case bad
    then show ?thesis using sdkFind_nameless [OF False call [unfolded bad(1)] bad(2)] False call
      by (simp split: option.splits)
  next
    case good
    then show ?thesis using sdkFind_found [OF False call [unfolded good(1)] good(2)] call
      by (simp add: case_prod_beta Let_def)
  qed
qed (simp add: sdkFind_no_name)

section \<open>Updating\<close>

text \<open>
  C13: When only the tags differ, sdkUpdate does not call UpdateDatabase: on success it returns the
  desired resource unchanged, the service holds exactly the desired tags for the ARN of the latest
  resource, and the only calls recorded are tag calls.
\<close>
theorem sdkUpdate_database_tags_only:
  assumes "tag_laws lib" and service: "tag_service (api_tags (sdkapi rm)) tags_of"
    and "ACKResourceMetadata (Database.Status latest) = Some md" "ARN md = Some arn"
    and latest: "tags_of (world s) arn = tag_view (DatabaseSpec.Tags (Spec latest))"
    and "DifferentAt cmp delta ''Spec.Tags''" "\<not> DifferentExcept cmp delta ''Spec.Tags''"
    and run: "sdkUpdate_database lib cmp rm ord desired latest delta s = (s', Inr (r, None))"
  shows "r = Some desired \<and>
    tags_of (world s') = (tags_of (world s))(arn := tag_view (DatabaseSpec.Tags (Spec desired))) \<and>
    (\<exists>new. calls s' = calls s @ new \<and> tag_calls new)"
proof -
  let ?sync = "SyncResourceTags lib (api_tags (sdkapi rm)) ord arn (DatabaseSpec.Tags (Spec desired))
      (DatabaseSpec.Tags (Spec latest)) (convertToOrderedACKTags_database ord) s"
  obtain s1 err where sync: "?sync = (s1, err)" by fastforce
  with assms(3,4,6,7) run have r: "err = None" "r = Some desired" "s1 = s'"
    by (auto simp: sdkUpdate_database_def syncTags_database_def split: if_splits)
  have "tags_of (world s') = (tags_of (world s))(arn :=
      fst (convertToOrderedACKTags_database ord (DatabaseSpec.Tags (Spec desired))))"
    by (rule SyncResourceTags_effect [OF assms(1) service _ sync [unfolded r]])
      (simp add: latest database_tags.convert_view)
  moreover have "\<exists>new. calls s' = calls s @ new \<and> tag_calls new"
    using SyncResourceTags_calls [of lib "api_tags (sdkapi rm)" ord arn] sync r by (metis fst_conv)
  ultimately show ?thesis using r by (simp add: database_tags.convert_view)
qed

text \<open>
  C14: When the tags cannot be brought in sync, sdkUpdate returns that error and stops: the
  database itself is not updated, whatever else differs, and only tag calls are recorded.
\<close>
theorem sdkUpdate_database_tag_failure:
  assumes "DifferentAt cmp delta ''Spec.Tags''"
    and sync: "syncTags_database lib rm ord desired latest s = (s', Inr (Some e))"
  shows "sdkUpdate_database lib cmp rm ord desired latest delta s = (s', Inr (None, Some e)) \<and>
    (\<exists>new. calls s' = calls s @ new \<and> tag_calls new)"
proof -
  obtain arn where "SyncResourceTags lib (api_tags (sdkapi rm)) ord arn (DatabaseSpec.Tags (Spec desired))
      (DatabaseSpec.Tags (Spec latest)) (convertToOrderedACKTags_database ord) s = (s', Some e)"
    using sync by (auto simp: syncTags_database_def Let_def split: prod.splits sum.splits)
  then have "\<exists>new. calls s' = calls s @ new \<and> tag_calls new"
    using SyncResourceTags_calls by (metis fst_conv)
  with assms show ?thesis by (simp add: sdkUpdate_database_def)
qed

text \<open>The sample database as the controller has read it, and the delta of a change of tags.\<close>

definition sample_read :: Database where
  "sample_read = set_arn ''arn:aws:glue:r:1:database/db''
     (sample_db\<lparr>Spec := sample_spec\<lparr>DatabaseSpec.Tags := sample_tags [(''old'', ''1''), (''kept'', ''2'')]\<rparr>\<rparr>)"

definition sample_desired :: Database where
  "sample_desired = sample_db\<lparr>Spec := sample_spec\<lparr>DatabaseSpec.Tags := sample_tags [(''kept'', ''3'')]\<rparr>\<rparr>"

definition tags_delta :: "(string \<times> database_value \<times> database_value) list" where
  "tags_delta = [(''Spec.Tags'', VStringMap None, VStringMap None)]"

lemma tags_delta_at: "DifferentAt sample_cmp tags_delta ''Spec.Tags''"
    "\<not> DifferentExcept sample_cmp tags_delta ''Spec.Tags''"
  by (simp_all add: sample_cmp_def list_cmplib_def tags_delta_def path_below_def)

lemma sample_read_metadata:
  "ACKResourceMetadata (Database.Status sample_read) =
     Some (empty_metadata\<lparr>ARN := Some ''arn:aws:glue:r:1:database/db''\<rparr>)"
  "DatabaseSpec.Tags (Spec sample_read) = sample_tags [(''old'', ''1''), (''kept'', ''2'')]"
  "DatabaseSpec.Tags (Spec sample_desired) = sample_tags [(''kept'', ''3'')]"
  by (simp_all add: sample_read_def set_arn_def sample_db_def sample_desired_def)

text \<open>The delta of a change of the description.\<close>

definition description_delta :: "(string \<times> database_value \<times> database_value) list" where
  "description_delta = [(''Spec.Description'', VString None, VString (Some ''d''))]"

lemma description_delta_at: "\<not> DifferentAt sample_cmp description_delta ''Spec.Tags''"
    "DifferentExcept sample_cmp description_delta ''Spec.Tags''"
  by (simp_all add: sample_cmp_def list_cmplib_def description_delta_def path_below_def)


theorem sdkUpdate_database_tags_only_witness:
  "\<exists>s'. sdkUpdate_database go_library sample_cmp (sample_rm tag_account (Inr None)) sorted_order
      sample_desired sample_read tags_delta sample_env = (s', Inr (Some sample_desired, None)) \<and>
    world s' ''arn:aws:glue:r:1:database/db'' = fmap_of_list [(''kept'', ''3'')]"
proof -
  let ?rm = "sample_rm tag_account (Inr None) :: (gerror, string \<Rightarrow> tags) resourceManager_database"
  let ?run = "sdkUpdate_database go_library sample_cmp ?rm sorted_order
      sample_desired sample_read tags_delta sample_env"
  have tc: "api_tags (sdkapi ?rm) = tag_account" by (simp add: sample_rm_def sample_client_def)
  have service: "tag_service (api_tags (sdkapi ?rm)) (\<lambda>w. w)"
    by (simp add: tc tag_account_service)
  have "\<exists>s' r. ?run = (s', Inr (r, None))"
    using tag_account_no_error [OF go_library_tags, of sorted_order "''arn:aws:glue:r:1:database/db''"
        "DatabaseSpec.Tags (Spec sample_desired)" "DatabaseSpec.Tags (Spec sample_read)"
        "convertToOrderedACKTags_database sorted_order" sample_env]
    by (auto simp: sdkUpdate_database_def syncTags_database_def tags_delta_at sample_read_metadata(1)
        tc split: prod.splits)
  then obtain s' r where run: "?run = (s', Inr (r, None))" by blast
  have arn: "ARN (empty_metadata\<lparr>ARN := Some ''arn:aws:glue:r:1:database/db''\<rparr>) =
      Some ''arn:aws:glue:r:1:database/db''" by simp
  have "r = Some sample_desired \<and> world s' = (world sample_env)(''arn:aws:glue:r:1:database/db'' :=
      tag_view (DatabaseSpec.Tags (Spec sample_desired)))"
    using sdkUpdate_database_tags_only [OF go_library_tags service sample_read_metadata(1) arn _ tags_delta_at run]
    by (simp add: sample_env_def sample_read_metadata sample_tags_view)
  with run show ?thesis by (simp add: sample_read_metadata sample_tags_view)
qed

theorem sdkUpdate_database_tag_failure_witness:
  "snd (sdkUpdate_database go_library sample_cmp
      (sample_rm (stubborn_account (Errorf ''denied'')) (Inr None)) sorted_order
      sample_desired sample_read tags_delta sample_env) = Inr (None, Some (Errorf ''denied''))"
proof -
  let ?rm = "sample_rm (stubborn_account (Errorf ''denied'')) (Inr None)"
  have "\<exists>s'. syncTags_database go_library ?rm sorted_order sample_desired sample_read sample_env =
      (s', Inr (Some (Errorf ''denied'')))"
    by (simp add: syncTags_database_def sample_read_metadata SyncResourceTags_eq [OF go_library_tags refl refl]
        database_tags.convert_view sample_tags_view keys_to_remove_def untag_removed_def
        stubborn_account_def sample_rm_def sample_client_def)
  then obtain s' where "syncTags_database go_library ?rm sorted_order sample_desired sample_read sample_env =
      (s', Inr (Some (Errorf ''denied'')))" by blast
  from sdkUpdate_database_tag_failure [OF tags_delta_at(1) this] show ?thesis by simp
qed

section \<open>Results and conditions\<close>

abbreviation database_conditions :: "Database \<Rightarrow> Condition list" where
  "database_conditions ko \<equiv> conditions_of (Database.Status ko)"

text \<open>The request of sdkCreate: the payload with the catalog and the tags of the spec.\<close>

definition create_request ::
  "'e golib \<Rightarrow> Database \<Rightarrow> sdk_CreateDatabaseInput \<Rightarrow> sdk_CreateDatabaseInput" where
  "create_request lib ko i = i\<lparr>sdk_CreateDatabaseInput.CatalogId := DatabaseSpec.CatalogID (Spec ko),
     sdk_CreateDatabaseInput.Tags := (case DatabaseSpec.Tags (Spec ko) of
         None \<Rightarrow> sdk_CreateDatabaseInput.Tags i | Some t \<Rightarrow> Some (aws_ToStringMap lib t))\<rparr>"

lemma create_request_eq:
  "(case DatabaseSpec.Tags (Spec ko) of
      None \<Rightarrow> i\<lparr>sdk_CreateDatabaseInput.CatalogId := DatabaseSpec.CatalogID (Spec ko)\<rparr>
    | Some t \<Rightarrow> i\<lparr>sdk_CreateDatabaseInput.CatalogId := DatabaseSpec.CatalogID (Spec ko),
        sdk_CreateDatabaseInput.Tags := Some (aws_ToStringMap lib t)\<rparr>) = create_request lib ko i"
  by (simp add: create_request_def split: option.split)

lemma Create_rejected:
  assumes "newCreateRequestPayload_database lib ko = Inr i"
    and "api_CreateDatabase (sdkapi rm) (create_request lib ko i) (world s) = (w, Some e)"
  shows "Create_database lib rm (Some ko) s =
    (RecordAPICall ''CREATE'' ''CreateDatabase'' (Some e) (s\<lparr>world := w\<rparr>), onError_database lib rm (Some ko) e)"
  using assms
  by (simp add: Create_database_def sdkCreate_database_def finish_database_def Let_def create_request_eq)

text \<open>
  C15: When the service rejects the CreateDatabase request of a database (the payload with the catalog
  and tags of its spec) as InvalidInputException, Create ends in the runtime's Terminal error and a
  Terminal condition set to True with the service's message; every condition of another type is as
  before and the spec is untouched. No condition of the database may be nil.
\<close>
theorem Create_database_terminal:
  assumes laws: "error_laws lib"
    and payload: "newCreateRequestPayload_database lib ko = Inr input"
    and reject: "api_CreateDatabase (sdkapi rm) (create_request lib ko input) (world s) = (w, Some e)"
    and code: "errors_As_APIError lib e = Some ''InvalidInputException''"
    and no_nil: "no_nil (Database.Status ko)"
  shows "\<exists>msg ko'. terminal_message lib e = Inr msg \<and>
    snd (Create_database lib rm (Some ko) s) = Inr (Some ko', Some (ackerr_Terminal lib)) \<and>
    database_conditions ko' =
      upsert ConditionTypeTerminal ConditionTrue (Some msg) (database_conditions ko) \<and>
    (\<forall>t. t \<noteq> ConditionTypeTerminal \<longrightarrow>
       filter (\<lambda>c. Type c = t) (database_conditions ko') = filter (\<lambda>c. Type c = t) (database_conditions ko)) \<and>
    Spec ko' = Spec ko"
proof -
  have "terminalAWSError lib (Some e) \<or> terminalACKError lib (Some e)"
    using code by (simp add: terminalAWSError_def)
  from database_manager.onError_terminal [OF laws this, where ko = ko and rm = rm]
  obtain msg where msg: "terminal_message lib e = Inr msg"
    and err: "onError_database lib rm (Some ko) e = Inr (Some (ko\<lparr>Database.Status :=
        (status_defaults (awsRegion rm) (awsPartition rm) (awsAccountID rm) (Database.Status ko))
          \<lparr>Conditions := Some (map Some (upsert ConditionTypeTerminal ConditionTrue (Some msg)
            (database_conditions ko)))\<rparr>\<rparr>), Some (ackerr_Terminal lib))"
    using no_nil by auto
  show ?thesis
    using msg by (simp add: Create_rejected [OF payload reject] err upsert_other)
qed

text \<open>
  C16: When the service rejects that request with an error that is neither InvalidInputException nor
  one of the runtime's own terminal errors, Create returns the error as it is, with a Recoverable
  condition set to True that carries its message, and no condition is terminal any more. The database
  may have at most one Terminal condition beforehand (the invariant of the code), and none that is nil.
\<close>
theorem Create_database_recoverable:
  assumes payload: "newCreateRequestPayload_database lib ko = Inr input"
    and reject: "api_CreateDatabase (sdkapi rm) (create_request lib ko input) (world s) = (w, Some e)"
    and "\<not> terminalAWSError lib (Some e)" "\<not> terminalACKError lib (Some e)"
    and single: "single ConditionTypeTerminal (database_conditions ko)"
    and no_nil: "no_nil (Database.Status ko)"
  shows "\<exists>ko'. snd (Create_database lib rm (Some ko) s) = Inr (Some ko', Some e) \<and>
    (\<exists>c\<in>set (database_conditions ko'). Type c = ConditionTypeRecoverable \<and> Condition.Status c = ConditionTrue \<and>
       Message c = Some (recoverable_message lib e)) \<and>
    (\<forall>c\<in>set (database_conditions ko'). \<not> is_terminal c) \<and> Spec ko' = Spec ko"
proof -
  let ?cs = "update_last ConditionTypeTerminal (mark ConditionFalse None) (database_conditions ko)"
  let ?new = "upsert ConditionTypeRecoverable ConditionTrue (Some (recoverable_message lib e)) ?cs"
  have "\<not> (\<exists>c\<in>set ?new. is_terminal c)"
    using cleared_terminal [OF single] by (subst terminal_elsewhere(1)) auto
  moreover have "\<exists>c\<in>set ?new. Type c = ConditionTypeRecoverable \<and> Condition.Status c = ConditionTrue \<and>
      Message c = Some (recoverable_message lib e)"
    by (rule upsert_marks)
  ultimately show ?thesis
    using database_manager.onError_recoverable [OF assms(3,4), where ko = ko and rm = rm] single no_nil
    by (simp add: Create_rejected [OF payload reject])
qed

lemma sample_db_conditions:
  "conditions_of (Database.Status sample_db) = []" "no_nil (Database.Status sample_db)" "single t []"
  by (simp_all add: sample_db_def conditions_of_def condition_ptrs_def no_nil_def single_def List.map_filter_simps)

lemma sample_db_payload: "\<exists>i. newCreateRequestPayload_database go_library sample_db = (Inr i :: (gerror, _) outcome)"
  by (simp add: newCreateRequestPayload_database_def sample_db_def sample_spec_def)

definition rejecting_rm :: "gerror \<Rightarrow> (gerror, string \<Rightarrow> tags) resourceManager_database" where
  "rejecting_rm e = (sample_rm tag_account (Inr None))\<lparr>sdkapi :=
     (sample_client tag_account (Inr None))\<lparr>api_CreateDatabase := (\<lambda>i w. (w, Some e))\<rparr>\<rparr>"

lemma rejecting_rm: "api_CreateDatabase (sdkapi (rejecting_rm e)) i w = (w, Some e)"
  by (simp add: rejecting_rm_def)

theorem Create_database_terminal_witness:
  "\<exists>ko'. snd (Create_database go_library (rejecting_rm (APIError ''InvalidInputException'' ''m''))
      (Some sample_db) sample_env) = Inr (Some ko', Some Terminal) \<and>
    map Message (database_conditions ko') = [Some ''InvalidInputException: m'']"
proof -
  obtain i where i: "newCreateRequestPayload_database go_library sample_db = (Inr i :: (gerror, _) outcome)"
    using sample_db_payload by blast
  have "errors_As_APIError go_library (APIError ''InvalidInputException'' ''m'') = Some ''InvalidInputException''"
    by (simp add: go_library_def)
  from Create_database_terminal [OF go_library_errors i rejecting_rm this sample_db_conditions(2)]
  obtain msg ko' where "terminal_message go_library (APIError ''InvalidInputException'' ''m'') = Inr msg"
    and "snd (Create_database go_library (rejecting_rm (APIError ''InvalidInputException'' ''m''))
      (Some sample_db) sample_env) = Inr (Some ko', Some (ackerr_Terminal go_library))"
    and "database_conditions ko' = upsert ConditionTypeTerminal ConditionTrue (Some msg) (database_conditions sample_db)"
    by blast
  then show ?thesis
    by (intro exI [of _ ko'])
      (simp add: go_library_def sample_db_conditions upsert_def
        new_condition_def mark_def terminal_message_def terminalACKError_def)
qed

theorem Create_database_recoverable_witness:
  "\<exists>ko'. snd (Create_database go_library (rejecting_rm (APIError ''ThrottlingException'' ''m''))
      (Some sample_db) sample_env) = Inr (Some ko', Some (APIError ''ThrottlingException'' ''m''))"
proof -
  obtain i where i: "newCreateRequestPayload_database go_library sample_db = (Inr i :: (gerror, _) outcome)"
    using sample_db_payload by blast
  show ?thesis
    using Create_database_recoverable [OF i rejecting_rm, of "APIError ''ThrottlingException'' ''m''" sample_env]
    by (auto simp: terminalAWSError_def terminalACKError_def go_library_def sample_db_conditions)
qed

text \<open>
  C17: No operation of the manager duplicates a condition: however it ends, the tail every operation
  shares keeps at most one condition of each type, given that the resource passed in and the one
  the sdk method returned have at most one. It fails only by panicking on a nil element of the
  conditions of the resource it updates.
\<close>
theorem finish_database_single:
  assumes "error_laws lib" and "single t (database_conditions r)"
    and "\<And>o_ko. observed = Some o_ko \<Longrightarrow> single t (database_conditions o_ko)"
  shows "(\<exists>res err'. finish_database lib rm r (Inr (observed, err)) = Inr (res, err') \<and>
      (\<forall>ko. res = Some ko \<longrightarrow> single t (database_conditions ko))) \<or>
    (finish_database lib rm r (Inr (observed, err)) = Inl GoPanic \<and>
      \<not> no_nil (Database.Status (case observed of None \<Rightarrow> r | Some o_ko \<Rightarrow> o_ko)))"
proof -
  define ends where "ends res k \<longleftrightarrow>
      (\<exists>x err'. res = Inr (x, err') \<and> (\<forall>ko. x = Some ko \<longrightarrow> single t (database_conditions ko))) \<or>
      res = Inl GoPanic \<and> \<not> no_nil (Database.Status k)" for res :: "('a, Database) returned" and k :: Database
  have err: "ends (onError_database lib rm (Some k) e) k" if "single t (database_conditions k)" for k e
    using database_manager.onError_outcome [OF assms(1), of rm k e] update_found_single [of t] that
    by (elim disjE exE conjE) (auto simp: ends_def)
  have ok: "ends (onSuccess_database lib rm (Some k)) k" if "single t (database_conditions k)" for k
    using database_manager.onSuccess_outcome [OF assms(1), of rm k] update_found_single [of t] that
    by (elim disjE exE conjE) (auto simp: ends_def)
  have "ends (finish_database lib rm r (Inr (observed, err))) (case observed of None \<Rightarrow> r | Some o_ko \<Rightarrow> o_ko)"
    using err [OF assms(2)] err [OF assms(3)] ok [OF assms(3)]
    by (cases observed; cases err) (simp_all add: finish_database_def onSuccess_database_def ends_def)
  then show ?thesis by (simp add: ends_def)
qed

theorem finish_database_single_witness:
  "\<exists>res err'. finish_database go_library (sample_rm tag_account (Inr None)) sample_db
      (Inr (Some sample_db, Some Terminal)) = Inr (res, err') \<and>
    (\<forall>ko. res = Some ko \<longrightarrow> single ConditionTypeTerminal (database_conditions ko))"
proof -
  have "single ConditionTypeTerminal (database_conditions sample_db)"
    by (simp add: sample_db_conditions)
  then show ?thesis
    using finish_database_single [OF go_library_errors, of ConditionTypeTerminal sample_db "Some sample_db"
        "sample_rm tag_account (Inr None)" "Some Terminal"]
    by (auto simp: sample_db_conditions(2))
qed

section \<open>Late initialization\<close>

text \<open>
  C18: Late initialization never overrides: every field the user has set keeps its value, CatalogID
  and TableDefaultPermissions take the observed value exactly when they were nil, nothing else of
  the resource changes, and running it again changes nothing.
\<close>
theorem lateInitialize_database_fills_only_nil:
  "lateInitializeFromReadOneOutput_database observed latest =
     latest\<lparr>Spec := (Spec latest)\<lparr>
       DatabaseSpec.CatalogID := (if DatabaseSpec.CatalogID (Spec latest) = None
         then DatabaseSpec.CatalogID (Spec observed) else DatabaseSpec.CatalogID (Spec latest)),
       DatabaseSpec.TableDefaultPermissions := (if DatabaseSpec.TableDefaultPermissions (Spec latest) = None
         then DatabaseSpec.TableDefaultPermissions (Spec observed)
         else DatabaseSpec.TableDefaultPermissions (Spec latest))\<rparr>\<rparr> \<and>
   lateInitializeFromReadOneOutput_database observed (lateInitializeFromReadOneOutput_database observed latest) =
     lateInitializeFromReadOneOutput_database observed latest"
  by (simp add: lateInitializeFromReadOneOutput_database_def Let_def)

text \<open>
  C19: When the read fails, LateInitialize returns the resource it was given with its spec filled
  with nothing but mirrored system tags, marked as not late initialized and not synced, together
  with the error; it never drops the resource.
\<close>
theorem LateInitialize_database_read_error:
  assumes "ReadOne_database lib rm ord (Some latest) s = (s', Inr (latest', observed, Some e))"
  shows "LateInitialize_database lib rm ord (Some latest) s =
    (s', Inr (Some (latest'\<lparr>Database.Status := (Database.Status latest')\<lparr>Conditions :=
        ackcondition_SetSynced lib
          (ackcondition_SetLateInitialized lib (Conditions (Database.Status latest')) ConditionFalse
            (Some ''Unable to complete Read operation required for late initialization'')
            (Some ''Late Initialization Failure''))
          ConditionFalse None None\<rparr>\<rparr>), Some e)) \<and>
    Spec latest' = (Spec latest)\<lparr>DatabaseSpec.Tags := DatabaseSpec.Tags (Spec latest')\<rparr> \<and>
    (\<forall>k. \<not> aws_key k \<longrightarrow>
       fmlookup (tag_view (DatabaseSpec.Tags (Spec latest'))) k =
       fmlookup (tag_view (DatabaseSpec.Tags (Spec latest))) k)"
proof -
  have mirrored: "\<exists>o'. mirrorAWSTags_database ord (Some latest) o' = Some latest'"
    using assms by (auto simp: ReadOne_database_def and_then_eq_Inr split: prod.splits option.splits)
  have "Spec latest' = (Spec latest)\<lparr>DatabaseSpec.Tags := DatabaseSpec.Tags (Spec latest')\<rparr> \<and>
    (\<forall>k. \<not> aws_key k \<longrightarrow>
       fmlookup (tag_view (DatabaseSpec.Tags (Spec latest'))) k =
       fmlookup (tag_view (DatabaseSpec.Tags (Spec latest))) k)"
    using mirrored database_tags.mirror_keeps_user_tags
    by (auto simp: mirrorAWSTags_database_eq simp del: tag_view_simps split: option.splits)
  then show ?thesis
    using assms by (simp add: LateInitialize_database_def lateInitializeFieldNames_database_def
        with_conditions_def Let_def)
qed

section \<open>Tags of the resource\<close>

text \<open>
  C20: EnsureTags adds the controller's default tags and overrides none the user has set: the tags
  afterwards are the user's, and the defaults for the keys the user left out; nothing else changes.
\<close>
theorem EnsureTags_database_keeps_user_tags:
  assumes "tag_laws lib"
  shows "\<exists>ko'. EnsureTags_database lib ord getDefaultTags (Some ko) = Inr (ko', None) \<and>
    (\<forall>k. fmlookup (tag_view (DatabaseSpec.Tags (Spec ko'))) k =
       (case fmlookup (tag_view (DatabaseSpec.Tags (Spec ko))) k of
          Some v \<Rightarrow> Some v | None \<Rightarrow> fmlookup (getDefaultTags ko) k)) \<and>
    ko' = ko\<lparr>Spec := (Spec ko)\<lparr>DatabaseSpec.Tags := DatabaseSpec.Tags (Spec ko')\<rparr>\<rparr>"
proof -
  have merge: "acktags_Merge lib a b = b ++\<^sub>f a" for a b
    using assms by (simp add: tag_laws_def)
  show ?thesis
    by (simp add: EnsureTags_database_def convertToOrderedACKTags_database_eq Let_def merge
        database_tags.restore_view fmlookup_dom_iff split: option.split del: tag_view_simps)
qed

lemma FilterSystemTags_view:
  assumes "FilterSystemTags_database ord (Some ko) systemTags = Some ko'"
  shows "tag_view (DatabaseSpec.Tags (Spec ko')) =
    fmfilter (\<lambda>k. \<not> prefix ''aws:'' k \<and> k \<notin> set systemTags) (tag_view (DatabaseSpec.Tags (Spec ko)))"
  using assms
  by (auto simp: FilterSystemTags_database_def convertToOrderedACKTags_database_eq Let_def
      database_tags.restore_view database_tags.ignore_system aws_key_def simp del: tag_view_simps)

lemma FilterSystemTags_other:
  "\<exists>ko'. FilterSystemTags_database ord (Some ko) systemTags = Some ko' \<and>
     ko' = ko\<lparr>Spec := (Spec ko)\<lparr>DatabaseSpec.Tags := DatabaseSpec.Tags (Spec ko')\<rparr>\<rparr>"
  by (simp add: FilterSystemTags_database_def case_prod_beta Let_def)

text \<open>
  C21: FilterSystemTags removes exactly the tags with the aws: prefix and the tags the caller lists,
  keeps the value of every other tag and the rest of the resource, and removes nothing more the
  second time.
\<close>
theorem FilterSystemTags_database_exact:
  "\<exists>ko'. FilterSystemTags_database ord (Some ko) systemTags = Some ko' \<and>
     tag_view (DatabaseSpec.Tags (Spec ko')) =
       fmfilter (\<lambda>k. \<not> prefix ''aws:'' k \<and> k \<notin> set systemTags) (tag_view (DatabaseSpec.Tags (Spec ko))) \<and>
     ko' = ko\<lparr>Spec := (Spec ko)\<lparr>DatabaseSpec.Tags := DatabaseSpec.Tags (Spec ko')\<rparr>\<rparr> \<and>
     (\<forall>ko''. FilterSystemTags_database ord (Some ko') systemTags = Some ko'' \<longrightarrow>
        tag_view (DatabaseSpec.Tags (Spec ko'')) = tag_view (DatabaseSpec.Tags (Spec ko')))"
proof -
  obtain ko' where ko': "FilterSystemTags_database ord (Some ko) systemTags = Some ko'"
    "ko' = ko\<lparr>Spec := (Spec ko)\<lparr>DatabaseSpec.Tags := DatabaseSpec.Tags (Spec ko')\<rparr>\<rparr>"
    using FilterSystemTags_other by blast
  have twice: "fmfilter P (fmfilter P m) = fmfilter P m" for P and m :: tags
    by (rule fmap_ext) simp
  have "tag_view (DatabaseSpec.Tags (Spec ko'')) = tag_view (DatabaseSpec.Tags (Spec ko'))"
    if again: "FilterSystemTags_database ord (Some ko') systemTags = Some ko''" for ko''
    by (simp only: FilterSystemTags_view [OF again] FilterSystemTags_view [OF ko'(1)] twice)
  then show ?thesis
    by (intro exI [of _ ko'] conjI allI impI)
      (rule ko'(1), rule FilterSystemTags_view [OF ko'(1)], rule ko'(2))
qed

theorem FilterSystemTags_database_exact_witness:
  "\<exists>ko'. FilterSystemTags_database sorted_order (Some sample_read) [''old''] = Some ko' \<and>
     tag_view (DatabaseSpec.Tags (Spec ko')) = fmap_of_list [(''kept'', ''2'')]"
proof -
  have "fmfilter (\<lambda>k. \<not> prefix ''aws:'' k \<and> k \<notin> set [''old'']) (tag_view (DatabaseSpec.Tags (Spec sample_read))) =
      fmap_of_list [(''kept'', ''2'')]"
    by (rule fmap_ext) (auto simp: sample_read_metadata sample_tags_view simp del: tag_view_simps)
  then show ?thesis
    using FilterSystemTags_database_exact [of sorted_order sample_read "[''old'']"] by metis
qed

text \<open>
  C22: mirrorAWSTags, by which ReadOne hides the service's own tags from the comparison, copies the
  aws: tags of the observed resource to the desired one and leaves every other tag of it alone, so
  that afterwards the two agree on the aws: tags the observed resource carries.
\<close>
theorem mirrorAWSTags_database_exact:
  "\<exists>a'. mirrorAWSTags_database ord (Some a) (Some b) = Some a' \<and>
     (\<forall>k. fmlookup (tag_view (DatabaseSpec.Tags (Spec a'))) k =
        (if prefix ''aws:'' k \<and> fmlookup (tag_view (DatabaseSpec.Tags (Spec b))) k \<noteq> None
         then fmlookup (tag_view (DatabaseSpec.Tags (Spec b))) k
         else fmlookup (tag_view (DatabaseSpec.Tags (Spec a))) k)) \<and>
     a' = a\<lparr>Spec := (Spec a)\<lparr>DatabaseSpec.Tags := DatabaseSpec.Tags (Spec a')\<rparr>\<rparr>"
  by (auto simp: mirrorAWSTags_database_eq database_tags.mirrored_view aws_key_def fmlookup_dom_iff
      simp del: tag_view_simps)

theorem EnsureTags_database_keeps_user_tags_witness:
  "\<exists>ko'. EnsureTags_database go_library sorted_order (\<lambda>_. fmap_of_list [(''old'', ''9''), (''by'', ''ack'')])
      (Some sample_read) = (Inr (ko', None) :: (gerror, _) outcome) \<and>
    fmlookup (tag_view (DatabaseSpec.Tags (Spec ko'))) ''old'' = Some ''1'' \<and>
    fmlookup (tag_view (DatabaseSpec.Tags (Spec ko'))) ''by'' = Some ''ack''"
  using EnsureTags_database_keeps_user_tags [OF go_library_tags, of sorted_order
      "\<lambda>_. fmap_of_list [(''old'', ''9''), (''by'', ''ack'')]" sample_read]
  by (auto simp: sample_read_metadata sample_tags_view simp del: tag_view_simps)

theorem LateInitialize_database_read_error_witness:
  "\<exists>s' ko'. LateInitialize_database go_library (sample_rm tag_account (Inl (APIError ''Throttled'' ''m'')))
      sorted_order (Some sample_db) sample_env = (s', Inr (Some ko', Some (APIError ''Throttled'' ''m'')))"
proof -
  let ?rm = "sample_rm tag_account (Inl (APIError ''Throttled'' ''m''))"
  have find: "sdkFind_database go_library ?rm sorted_order sample_db sample_env =
      (RecordAPICall ''READ_ONE'' ''GetDatabase'' (Some (APIError ''Throttled'' ''m''))
         (sample_env\<lparr>world := world sample_env\<rparr>), Inr (None, Some (APIError ''Throttled'' ''m'')))"
    by (subst sdkFind_get_error [where w = "world sample_env" and e = "APIError ''Throttled'' ''m''"])
      (simp_all add: sample_db_def sample_spec_def sample_rm_def sample_client_def go_library_def)
  have throttled: "\<not> terminalAWSError go_library (Some (APIError ''Throttled'' ''m''))"
    "\<not> terminalACKError go_library (Some (APIError ''Throttled'' ''m''))"
    by (simp_all add: terminalAWSError_def terminalACKError_def go_library_def)
  obtain r where "onError_database go_library ?rm (Some sample_db) (APIError ''Throttled'' ''m'') = Inr r"
    using database_manager.manager_returns(1) [OF go_library_errors, of "Some sample_db" ?rm
        "APIError ''Throttled'' ''m''"]
    by (auto simp: sample_db_conditions)
  moreover have "\<exists>k. r = (k, Some (APIError ''Throttled'' ''m''))" if "onError_database go_library ?rm
      (Some sample_db) (APIError ''Throttled'' ''m'') = Inr r" for r
    using that database_manager.onError_recoverable [OF throttled, where rm = ?rm and ko = sample_db]
    by (auto simp: sample_db_conditions)
  ultimately obtain k where "ReadOne_database go_library ?rm sorted_order (Some sample_db) sample_env =
      (RecordAPICall ''READ_ONE'' ''GetDatabase'' (Some (APIError ''Throttled'' ''m''))
         (sample_env\<lparr>world := world sample_env\<rparr>),
       Inr (sample_db, k, Some (APIError ''Throttled'' ''m'')))"
    by (auto simp: ReadOne_database_def find mirrorAWSTags_database_eq finish_database_def)
  from LateInitialize_database_read_error [OF this] show ?thesis by blast
qed

section \<open>Adoption and management\<close>

text \<open>
  C34: A database is under management exactly between MarkManaged and MarkUnmanaged: marking it makes
  IsManaged true, unmarking makes it false, both touch no finalizer but the controller's own, and
  unmarking a newly marked resource restores its finalizers.
\<close>
theorem database_management:
  assumes "finalizer_laws lib"
  shows "IsManaged_database (MarkManaged_database lib ko) \<and>
    \<not> IsManaged_database (MarkUnmanaged_database lib ko) \<and>
    (\<forall>f. f \<noteq> FinalizerString_database \<longrightarrow>
       (f \<in> set (Finalizers (Database.ObjectMeta (MarkManaged_database lib ko))) \<longleftrightarrow>
          f \<in> set (Finalizers (Database.ObjectMeta ko))) \<and>
       (f \<in> set (Finalizers (Database.ObjectMeta (MarkUnmanaged_database lib ko))) \<longleftrightarrow>
          f \<in> set (Finalizers (Database.ObjectMeta ko)))) \<and>
    (\<not> IsManaged_database ko \<longrightarrow>
       set (Finalizers (Database.ObjectMeta (MarkUnmanaged_database lib (MarkManaged_database lib ko)))) =
         set (Finalizers (Database.ObjectMeta ko)))"
  using database_lifecycle.manage [OF assms] database_lifecycle.unmanage [OF assms]
    database_lifecycle.others_kept [OF assms] database_lifecycle.manage_unmanage [OF assms]
  by blast

theorem database_management_witness:
  "set (Finalizers (Database.ObjectMeta (MarkUnmanaged_database go_library
      (MarkManaged_database go_library (sample_db\<lparr>Database.ObjectMeta := sample_meta\<lparr>Finalizers := [''other'']\<rparr>\<rparr>))))) =
     {''other''}"
proof -
  let ?ko = "sample_db\<lparr>Database.ObjectMeta := sample_meta\<lparr>Finalizers := [''other'']\<rparr>\<rparr>"
  have "\<not> IsManaged_database ?ko"
    by (simp add: IsManaged_database_def FinalizerString_database_def)
  with database_management [OF go_library_finalizers, of ?ko] show ?thesis by simp
qed

end
