(* ===== verification/Reconcile_Base.thy ===== *)
theory Reconcile_Base
  imports Sync_Tags
begin

text \<open>
  What both controllers need to follow an update through to the next read: how a method that succeeds
  got there, and what the tag step of sdkUpdate leaves in the account.
\<close>

lemma proceed_success:
  assumes "proceed s r k = (s', Inr (Some y, None))"
  obtains a where "r = Inr a" "k a = (s', Inr (Some y, None))"
proof (cases r)
  case (Inl stop)
  with assms show ?thesis by (cases stop) simp_all
qed (use assms that in simp)

text \<open>\<open>store\<close> is the part of the account a controller keeps apart from the tags.\<close>

definition apart_law :: "('e, 'w) tagsClient \<Rightarrow> ('w \<Rightarrow> 's) \<Rightarrow> bool" where
  "apart_law client store \<longleftrightarrow>
     (\<forall>arn ts w. store (fst (api_TagResource client arn ts w)) = store w) \<and>
     (\<forall>arn ks w. store (fst (api_UntagResource client arn ks w)) = store w)"

lemma SyncResourceTags_store:
  assumes "apart_law client store"
  shows "store (world (fst (SyncResourceTags lib client ord arn d l conv s))) = store (world s)"
proof -
  have "store (world (fst (untag_removed client arn ks s))) = store (world s)" for ks s
    using assms by (simp add: untag_removed_def apart_law_def case_prod_beta Let_def)
  moreover have "store (world (fst (tag_added client arn ts s))) = store (world s)" for ts s
    using assms by (simp add: tag_added_def apart_law_def case_prod_beta Let_def)
  ultimately show ?thesis by (simp add: SyncResourceTags_def case_prod_beta Let_def)
qed

text \<open>The tag step, whether (\<open>c\<close>) or not it makes calls.\<close>

lemma tag_step:
  assumes "apart_law client store" "tag_service client tags_of" "tag_laws lib"
    and view: "\<And>m. fst (conv m) = tag_view m"
    and latest: "tag_view l = tags_of (world s) arn"
    and run: "c \<Longrightarrow> SyncResourceTags lib client ord arn d l conv s = (s', None)"
    and skip: "\<not> c \<Longrightarrow> s' = s \<and> tag_view d = tag_view l"
  shows "store (world s') = store (world s) \<and> tags_of (world s') arn = tag_view d"
proof (cases c)
  case True
  have "store (world s') = store (world s)"
    using SyncResourceTags_store [OF assms(1), of lib ord arn d l conv s] run [OF True] by simp
  moreover have "tags_of (world s') arn = tag_view d"
    using SyncResourceTags_effect [OF assms(3,2) _ run [OF True]] by (simp add: view latest)
  ultimately show ?thesis ..
next
  case False
  with skip latest show ?thesis by simp
qed

text \<open>\<open>aws.StringMap\<close> takes the address of every value, \<open>aws.ToStringMap\<close> reads a nil as \<open>""\<close>.\<close>

definition string_map_laws :: "'e golib \<Rightarrow> bool" where
  "string_map_laws lib \<longleftrightarrow>
     (\<forall>m. aws_StringMap lib m = fmmap Some m) \<and> (\<forall>m. aws_ToStringMap lib m = fmmap ptr_string m)"

lemma go_library_string_maps: "string_map_laws go_library"
  by (simp add: string_map_laws_def go_library_def)

end
