(* ===== verification/Database_Reconcile.thy ===== *)
theory Database_Reconcile
  imports Database_Properties Reconcile_Base
begin

text \<open>
  The parts together: what one pass of the reconciler over a Database achieves. The account is any
  state behind the client for which \<open>database_service\<close> holds: calls that report no error have their
  documented effect. Under it, an update that succeeds, and a create that succeeds, are followed by a
  read that differs from the desired resource in no field, so that the controller comes to rest; a delete
  that succeeds is followed by a read that reports NotFound.
\<close>

section \<open>The account\<close>

text \<open>
  Glue files a database under its catalog and its name; a request that names no catalog means the
  caller's own account, \<open>own\<close>. \<open>store w (c, n)\<close> is what GetDatabase answers for the database \<open>n\<close> of
  catalog \<open>c\<close> when the account is \<open>w\<close>, \<open>arn_of (c, n)\<close> its ARN, \<open>tags_of w arn\<close> the tags of a resource.
\<close>

type_synonym database_key = "string \<times> string"

definition catalog_of :: "string \<Rightarrow> string ptr \<Rightarrow> string" where
  "catalog_of own c = (case c of None \<Rightarrow> own | Some c \<Rightarrow> c)"

definition lower_case :: "string \<Rightarrow> bool" where
  "lower_case n \<longleftrightarrow> list_all (\<lambda>c. c \<notin> set ''ABCDEFGHIJKLMNOPQRSTUVWXYZ'') n"

text \<open>
  What GetDatabase answers for a database stored from an input. Glue keeps what the input says, except
  that it fills in the table permissions when the input has none. A text the input leaves out may be
  answered as the empty string, and on a resource link (TargetDatabase set) both texts always may:
  generator.yaml and delta_test.go say that GetDatabase returns "" for both there. A missing map may be
  answered as an empty one. Names are folded to lower case, so the laws are about lower-case names.
\<close>

definition text_kept :: "bool \<Rightarrow> string ptr \<Rightarrow> string ptr \<Rightarrow> bool" where
  "text_kept link sent got \<longleftrightarrow>
     got = sent \<or> (ptr_string sent = '''' \<and> ptr_string got = '''') \<or> (link \<and> got = Some '''')"

definition keeps :: "string \<Rightarrow> sdk_DatabaseInput \<Rightarrow> sdk_Database \<Rightarrow> bool" where
  "keeps catalog i d \<longleftrightarrow>
     sdk_Database.CatalogId d = Some catalog \<and>
     (sdk_DatabaseInput.CreateTableDefaultPermissions i \<noteq> None \<longrightarrow>
        sdk_Database.CreateTableDefaultPermissions d = sdk_DatabaseInput.CreateTableDefaultPermissions i) \<and>
     text_kept (sdk_DatabaseInput.TargetDatabase i \<noteq> None)
       (sdk_DatabaseInput.Description i) (sdk_Database.Description d) \<and>
     sdk_Database.FederatedDatabase d = sdk_DatabaseInput.FederatedDatabase i \<and>
     text_kept (sdk_DatabaseInput.TargetDatabase i \<noteq> None)
       (sdk_DatabaseInput.LocationUri i) (sdk_Database.LocationUri d) \<and>
     sdk_Database.Name d = sdk_DatabaseInput.Name i \<and>
     (sdk_Database.Parameters d = sdk_DatabaseInput.Parameters i \<or>
      golen (sdk_Database.Parameters d) = 0 \<and> golen (sdk_DatabaseInput.Parameters i) = 0) \<and>
     sdk_Database.TargetDatabase d = sdk_DatabaseInput.TargetDatabase i"

definition get_law ::
  "('e, 'w) databaseClient \<Rightarrow> string \<Rightarrow> ('w \<Rightarrow> database_key \<Rightarrow> sdk_Database option) \<Rightarrow> bool" where
  "get_law client own store \<longleftrightarrow> (\<forall>k n w out. sdk_DatabaseKey.Name k = Some n \<and> lower_case n \<longrightarrow>
     snd (api_GetDatabase client k w) = Inr (Some out) \<longrightarrow>
       fst (api_GetDatabase client k w) = w \<and>
       store w (catalog_of own (sdk_DatabaseKey.CatalogId k), n) = Some out \<and>
       sdk_Database.Name out = Some n)"

definition update_law ::
  "('e, 'w) databaseClient \<Rightarrow> string \<Rightarrow> ('w \<Rightarrow> database_key \<Rightarrow> sdk_Database option) \<Rightarrow>
     ('w \<Rightarrow> string \<Rightarrow> tags) \<Rightarrow> bool" where
  "update_law client own store tags_of \<longleftrightarrow> (\<forall>i n c w. sdk_UpdateDatabaseInput.Name i = Some n \<and>
     sdk_DatabaseInput.Name (sdk_UpdateDatabaseInput.DatabaseInput i) = Some n \<and> lower_case n \<and>
     c = catalog_of own (sdk_UpdateDatabaseInput.CatalogId i) \<and>
     snd (api_UpdateDatabase client i w) = None \<longrightarrow>
       (\<exists>d. store (fst (api_UpdateDatabase client i w)) = (store w)((c, n) := Some d) \<and>
          keeps c (sdk_UpdateDatabaseInput.DatabaseInput i) d) \<and>
       tags_of (fst (api_UpdateDatabase client i w)) = tags_of w)"

definition create_law ::
  "('e, 'w) databaseClient \<Rightarrow> string \<Rightarrow> ('w \<Rightarrow> database_key \<Rightarrow> sdk_Database option) \<Rightarrow>
     ('w \<Rightarrow> string \<Rightarrow> tags) \<Rightarrow> (database_key \<Rightarrow> string) \<Rightarrow> bool" where
  "create_law client own store tags_of arn_of \<longleftrightarrow> (\<forall>i n c w.
     sdk_DatabaseInput.Name (sdk_CreateDatabaseInput.DatabaseInput i) = Some n \<and> lower_case n \<and>
     c = catalog_of own (sdk_CreateDatabaseInput.CatalogId i) \<and>
     snd (api_CreateDatabase client i w) = None \<longrightarrow>
       (\<exists>d. store (fst (api_CreateDatabase client i w)) = (store w)((c, n) := Some d) \<and>
          keeps c (sdk_CreateDatabaseInput.DatabaseInput i) d) \<and>
       tags_of (fst (api_CreateDatabase client i w)) = (tags_of w)(arn_of (c, n) :=
         (case sdk_CreateDatabaseInput.Tags i of None \<Rightarrow> fmempty | Some t \<Rightarrow> t)))"

definition database_service ::
  "('e, 'w) databaseClient \<Rightarrow> string \<Rightarrow> ('w \<Rightarrow> database_key \<Rightarrow> sdk_Database option) \<Rightarrow>
     ('w \<Rightarrow> string \<Rightarrow> tags) \<Rightarrow> (database_key \<Rightarrow> string) \<Rightarrow> bool" where
  "database_service client own store tags_of arn_of \<longleftrightarrow>
     get_law client own store \<and> update_law client own store tags_of \<and>
     create_law client own store tags_of arn_of \<and>
     apart_law (api_tags client) store \<and> tag_service (api_tags client) tags_of"

text \<open>The database a spec speaks of.\<close>

definition key_of :: "string \<Rightarrow> DatabaseSpec \<Rightarrow> string \<Rightarrow> database_key" where
  "key_of own spec n = (catalog_of own (DatabaseSpec.CatalogID spec), n)"

section \<open>Reading\<close>

lemma sdkFind_database_result:
  assumes "sdkFind_database lib rm ord ko s = (s', Inr (Some ko', None))"
  obtains w resp name tags where "DatabaseSpec.Name (Spec ko) \<noteq> None"
    "api_GetDatabase (sdkapi rm) (newDescribeRequestPayload_database ko) (world s) = (w, Inr (Some resp))"
    "sdk_Database.Name resp = Some name"
    "snd (api_GetTags (api_tags (sdkapi rm)) (arn_with (metadata_after rm ko) name) w) = Inr tags"
    "world s' = fst (api_GetTags (api_tags (sdkapi rm)) (arn_with (metadata_after rm ko) name) w)"
    "Spec ko' = (read_DatabaseSpec lib resp (Spec ko))\<lparr>DatabaseSpec.Tags := Some (fmmap Some tags)\<rparr>"
    "and_ptr (ACKResourceMetadata (Database.Status ko')) ARN = Some (arn_with (metadata_after rm ko) name)"
proof -
  have name: "DatabaseSpec.Name (Spec ko) \<noteq> None"
    using assms by (rule contrapos_pn) (simp add: sdkFind_no_name)
  obtain w out where get: "api_GetDatabase (sdkapi rm) (newDescribeRequestPayload_database ko) (world s) = (w, out)"
    by fastforce
  show thesis
  proof (cases out)
    case (Inl e)
    then show ?thesis using sdkFind_get_error [OF name get [unfolded Inl]] assms by simp
  next
    case (Inr o')
    show ?thesis
    proof (cases "case o' of None \<Rightarrow> True | Some resp \<Rightarrow> sdk_Database.Name resp = None")
      case True
      from sdkFind_nameless [OF name get [unfolded Inr] True, of lib ord] assms show ?thesis by simp
    next
      case False
      then obtain resp n where resp: "o' = Some resp" "sdk_Database.Name resp = Some n"
        by (auto split: option.splits)
      note found = sdkFind_found [OF name get [unfolded Inr resp(1)] resp(2), of lib ord]
      from assms obtain tags where
        "snd (api_GetTags (api_tags (sdkapi rm)) (arn_with (metadata_after rm ko) n) w) = Inr tags"
        by (auto simp: found getTags_database_def GetResourceTags_def Let_def split: sum.splits)
      with assms get Inr resp name show ?thesis
        by (intro that) (auto simp: found getTags_database_def GetResourceTags_def GetResourceTags_value
            Let_def set_arn_def setStatusDefaults_database_def metadata_defaulted)
    qed
  qed
qed

section \<open>What a stored request reads as\<close>

lemma read_create_permissions:
  assumes "conversion_laws lib" "create_PrincipalPermissions p = Inr q"
  shows "read_PrincipalPermissions lib q = p"
proof -
  obtain pp where p: "p = Some pp" using assms(2) by (cases p) (simp_all add: create_PrincipalPermissions_def)
  have strings: "map (aws_String lib) ys = xs" if "traverse deref xs = Inr ys" for xs ys
    using that by (induction xs arbitrary: ys)
      (auto simp: and_then_eq_Inr conversion_lawsD [OF assms(1)] deref_def split: option.splits)
  have principal: "map_option (\<lambda>p. \<lparr>DataLakePrincipal.DataLakePrincipalIdentifier =
        sdk_DataLakePrincipal.DataLakePrincipalIdentifier p\<rparr>)
      (map_option (\<lambda>p. \<lparr>sdk_DataLakePrincipal.DataLakePrincipalIdentifier =
        DataLakePrincipal.DataLakePrincipalIdentifier p\<rparr>) r) = r" for r
    by (cases r) simp_all
  show ?thesis
    using assms(2) p by (cases "PrincipalPermissions.Permissions pp")
      (auto simp: create_PrincipalPermissions_def read_PrincipalPermissions_def and_then_eq_Inr strings principal)
qed

lemma read_create_permission_list:
  assumes "conversion_laws lib"
  shows "traverse create_PrincipalPermissions ps = Inr qs \<Longrightarrow> map (read_PrincipalPermissions lib) qs = ps"
  by (induction ps arbitrary: qs) (auto simp: and_then_eq_Inr read_create_permissions [OF assms])

lemma federated_forth: "map_option read_FederatedDatabase (map_option create_FederatedDatabase p) = p"
  by (cases p) (simp_all add: create_FederatedDatabase_def read_FederatedDatabase_def)

lemma target_forth: "map_option read_DatabaseIdentifier (map_option create_DatabaseIdentifier p) = p"
  by (cases p) (simp_all add: create_DatabaseIdentifier_def read_DatabaseIdentifier_def)

text \<open>Parameters without a nil value come back as they were.\<close>

definition no_nil_values :: "string ptr gomap option \<Rightarrow> bool" where
  "no_nil_values m \<longleftrightarrow> (case m of None \<Rightarrow> True | Some f \<Rightarrow> fmpred (\<lambda>_ v. v \<noteq> None) f)"

lemma string_map_forth:
  assumes "string_map_laws lib" "no_nil_values m"
  shows "map_option (aws_StringMap lib) (map_option (aws_ToStringMap lib) m) = m"
proof (cases m)
  case (Some f)
  have "fmmap Some (fmmap ptr_string f) = f"
  proof (rule fmap_ext)
    fix k
    show "fmlookup (fmmap Some (fmmap ptr_string f)) k = fmlookup f k"
      using assms(2) Some
      by (cases "fmlookup f k") (auto simp: no_nil_values_def fmpred_iff ptr_string_def split: option.splits)
  qed
  with Some assms(1) show ?thesis by (simp add: string_map_laws_def)
qed simp

text \<open>
  A resource whose late-initialized fields are set, so that the service has nothing to choose, and, when
  it is a resource link, with no text of its own, which the service does not keep there.
\<close>

definition settled :: "DatabaseSpec \<Rightarrow> bool" where
  "settled spec \<longleftrightarrow> DatabaseSpec.CatalogID spec \<noteq> None \<and> DatabaseSpec.TableDefaultPermissions spec \<noteq> None \<and>
     no_nil_values (DatabaseSpec.Parameters spec) \<and>
     (DatabaseSpec.TargetDatabase spec \<noteq> None \<longrightarrow>
        ptr_string (DatabaseSpec.Description spec) = '''' \<and> ptr_string (DatabaseSpec.LocationURI spec) = '''')"

lemma text_kept_same:
  "text_kept link sent got \<Longrightarrow> (link \<longrightarrow> ptr_string sent = '''') \<Longrightarrow> \<not> differs_nil_zero sent got"
  by (auto simp: text_kept_def differs_nil_zero_def)

lemma parameters_kept:
  assumes "value_laws cmp nil_database zero_database"
    and "map_option (aws_StringMap lib) (map_option (aws_ToStringMap lib) m) = m" "string_map_laws lib"
    and "got = map_option (aws_ToStringMap lib) m \<or> golen got = 0 \<and> golen (map_option (aws_ToStringMap lib) m) = 0"
  shows "\<not> differs_sized golen (MapStringStringPEqual cmp) m (map_option (aws_StringMap lib) got)"
proof -
  have len: "golen (map_option (aws_StringMap lib) x) = golen x" "golen (map_option (aws_ToStringMap lib) y) = golen y"
    for x y using assms(3) by (cases x; cases y; simp add: string_map_laws_def)+
  from assms(4) show ?thesis
  proof
    assume "got = map_option (aws_ToStringMap lib) m"
    then show ?thesis by (simp only: assms(2)) (simp add: differs_sized_def value_lawsD(4) [OF assms(1)])
  qed (simp add: differs_sized_def len)
qed

text \<open>A stored request reads as the resource it was built from, as far as the comparison can tell.\<close>

lemma read_kept:
  fixes lib :: "'e golib"
  assumes laws: "conversion_laws lib" "string_map_laws lib"
    and cmp: "value_laws cmp nil_database zero_database" "reflexive_law cmp (\<lambda>_. True)"
    and payload: "newCreateRequestPayload_database lib ko = Inr i"
    and kept: "keeps (catalog_of own (DatabaseSpec.CatalogID (Spec ko))) (sdk_CreateDatabaseInput.DatabaseInput i) d"
    and settled: "settled (Spec ko)"
    and tags: "tag_view t = tag_view (DatabaseSpec.Tags (Spec ko))"
  shows "spec_paths cmp (Spec ko) ((read_DatabaseSpec lib d (Spec ko))\<lparr>DatabaseSpec.Tags := t\<rparr>) = []"
proof -
  let ?spec = "Spec ko"
  from settled obtain ps where ps: "DatabaseSpec.TableDefaultPermissions ?spec = Some ps"
    by (auto simp: settled_def)
  from payload ps obtain qs where qs: "traverse create_PrincipalPermissions ps = (Inr qs :: ('e, _) outcome)"
    and i: "sdk_DatabaseInput.CreateTableDefaultPermissions (sdk_CreateDatabaseInput.DatabaseInput i) = Some qs"
    by (auto simp: newCreateRequestPayload_database_def Let_def and_then_eq_Inr)
  have sent: "sdk_DatabaseInput.Description (sdk_CreateDatabaseInput.DatabaseInput i) = DatabaseSpec.Description ?spec"
    "sdk_DatabaseInput.LocationUri (sdk_CreateDatabaseInput.DatabaseInput i) = DatabaseSpec.LocationURI ?spec"
    "sdk_DatabaseInput.Name (sdk_CreateDatabaseInput.DatabaseInput i) = DatabaseSpec.Name ?spec"
    "sdk_DatabaseInput.FederatedDatabase (sdk_CreateDatabaseInput.DatabaseInput i) =
       map_option create_FederatedDatabase (DatabaseSpec.FederatedDatabase ?spec)"
    "sdk_DatabaseInput.Parameters (sdk_CreateDatabaseInput.DatabaseInput i) =
       map_option (aws_ToStringMap lib) (DatabaseSpec.Parameters ?spec)"
    "sdk_DatabaseInput.TargetDatabase (sdk_CreateDatabaseInput.DatabaseInput i) =
       map_option create_DatabaseIdentifier (DatabaseSpec.TargetDatabase ?spec)"
    using payload by (auto simp: newCreateRequestPayload_database_def Let_def and_then_eq_Inr)
  have link: "text_kept (DatabaseSpec.TargetDatabase ?spec \<noteq> None) (DatabaseSpec.Description ?spec) (sdk_Database.Description d)"
    "text_kept (DatabaseSpec.TargetDatabase ?spec \<noteq> None) (DatabaseSpec.LocationURI ?spec) (sdk_Database.LocationUri d)"
    using kept by (simp_all add: keeps_def sent)
  have texts: "\<not> differs_nil_zero (DatabaseSpec.Description ?spec) (sdk_Database.Description d)"
    "\<not> differs_nil_zero (DatabaseSpec.LocationURI ?spec) (sdk_Database.LocationUri d)"
    by (rule text_kept_same [OF link(1)] text_kept_same [OF link(2)],
        use settled in \<open>simp add: settled_def\<close>)+
  have params: "\<not> differs_sized golen (MapStringStringPEqual cmp) (DatabaseSpec.Parameters ?spec)
      (map_option (aws_StringMap lib) (sdk_Database.Parameters d))"
    by (rule parameters_kept [OF cmp(1) string_map_forth [OF laws(2)] laws(2)])
      (use kept settled in \<open>auto simp: keeps_def sent settled_def\<close>)
  have fields: "sdk_Database.CatalogId d = DatabaseSpec.CatalogID ?spec"
    "sdk_Database.CreateTableDefaultPermissions d = Some qs"
    "sdk_Database.FederatedDatabase d = map_option create_FederatedDatabase (DatabaseSpec.FederatedDatabase ?spec)"
    "sdk_Database.Name d = DatabaseSpec.Name ?spec"
    "sdk_Database.TargetDatabase d = map_option create_DatabaseIdentifier (DatabaseSpec.TargetDatabase ?spec)"
    using kept i settled by (auto simp: keeps_def sent settled_def catalog_of_def)
  have permissions: "\<not> differs_sized slice_len (\<lambda>x y. DeepEqual cmp (VPermissions x) (VPermissions y)) (Some ps) (Some ps)"
    by (simp add: differs_sized_def reflexive_lawD [OF cmp(2)])
  have nested: "federated_paths p p = []" "target_paths q q = []" for p q
    by (simp_all add: federated_paths_def target_paths_def split: option.split)
  show ?thesis
    by (simp add: spec_paths_def read_DatabaseSpec_def fields federated_forth target_forth nested texts params
        ps read_create_permission_list [OF laws(1) qs] permissions tags del: tag_view_simps)
qed

text \<open>The update request carries the input of the create request.\<close>

lemma update_payload_eq:
  "newUpdateRequestPayload_database lib ko = and_then (newCreateRequestPayload_database lib ko)
     (\<lambda>c. Inr \<lparr>sdk_UpdateDatabaseInput.CatalogId = None,
       sdk_UpdateDatabaseInput.DatabaseInput = sdk_CreateDatabaseInput.DatabaseInput c,
       sdk_UpdateDatabaseInput.Name = None\<rparr>)"
  by (simp add: newUpdateRequestPayload_database_def newCreateRequestPayload_database_def Let_def
      update_permissions_eq create_FederatedDatabase_def [abs_def] create_DatabaseIdentifier_def [abs_def])

section \<open>The differences a read leaves\<close>

lemma nested_paths:
  "''Spec.Tags'' \<notin> set (federated_paths p q)" "''Spec.Tags'' \<notin> set (target_paths u v)"
  by (auto simp: federated_paths_def target_paths_def split: option.splits if_splits)

lemma spec_paths_settled:
  assumes "set (spec_paths cmp a b) \<subseteq> {''Spec.Tags''}" and "tag_view (DatabaseSpec.Tags a) = tag_view t"
  shows "spec_paths cmp a (b\<lparr>DatabaseSpec.Tags := t\<rparr>) = []"
proof -
  have nested: "xs = []" if "set xs \<subseteq> {''Spec.Tags''}" "''Spec.Tags'' \<notin> set xs" for xs :: "string list"
    using that by (cases xs) auto
  have "set (federated_paths (DatabaseSpec.FederatedDatabase a) (DatabaseSpec.FederatedDatabase b)) \<subseteq> {''Spec.Tags''}"
    "set (target_paths (DatabaseSpec.TargetDatabase a) (DatabaseSpec.TargetDatabase b)) \<subseteq> {''Spec.Tags''}"
    using assms(1) by (simp_all add: spec_paths_def)
  from nested [OF this(1) nested_paths(1)] nested [OF this(2) nested_paths(2)] assms
  show ?thesis by (simp add: spec_paths_def split: if_splits del: tag_view_simps)
qed

lemma paths_of_delta:
  assumes "delta_laws cmp paths below" "value_laws cmp nil_database zero_database"
    and "newResourceDelta_database cmp ord (Some \<lparr>resource_ko = Some a\<rparr>) (Some \<lparr>resource_ko = Some b\<rparr>) = Inr d"
  shows "paths d = spec_paths cmp (Spec a) (Spec b)"
  using assms(3) paths_diff_DatabaseSpec [OF assms(1,2), of ord "Spec a" "Spec b" "NewDelta cmp"]
  by (simp add: newResourceDelta_database_def delta_lawsD(1) [OF assms(1)])

lemma no_delta:
  assumes "delta_laws cmp paths below" "value_laws cmp nil_database zero_database"
    and "spec_paths cmp (Spec a) (Spec b) = []"
  shows "\<exists>d. newResourceDelta_database cmp ord (Some \<lparr>resource_ko = Some a\<rparr>) (Some \<lparr>resource_ko = Some b\<rparr>) =
    Inr d \<and> paths d = []"
  using paths_diff_DatabaseSpec [OF assms(1,2), of ord "Spec a" "Spec b" "NewDelta cmp"] assms(3)
  by (simp add: newResourceDelta_database_def delta_lawsD(1) [OF assms(1)])

text \<open>Of the reported paths only \<open>Spec.Tags\<close> itself is at or below \<open>Spec.Tags\<close>.\<close>

lemma not_below_tags:
  "\<not> path_below ''Spec.CatalogID'' ''Spec.Tags''" "\<not> path_below ''Spec.Description'' ''Spec.Tags''"
  "\<not> path_below ''Spec.FederatedDatabase'' ''Spec.Tags''" "\<not> path_below ''Spec.LocationURI'' ''Spec.Tags''"
  "\<not> path_below ''Spec.FederatedDatabase.ConnectionName'' ''Spec.Tags''"
  "\<not> path_below ''Spec.FederatedDatabase.Identifier'' ''Spec.Tags''"
  "\<not> path_below ''Spec.Name'' ''Spec.Tags''" "\<not> path_below ''Spec.Parameters'' ''Spec.Tags''"
  "\<not> path_below ''Spec.TableDefaultPermissions'' ''Spec.Tags''" "path_below ''Spec.Tags'' ''Spec.Tags''"
  "\<not> path_below ''Spec.TargetDatabase'' ''Spec.Tags''" "\<not> path_below ''Spec.TargetDatabase.CatalogID'' ''Spec.Tags''"
  "\<not> path_below ''Spec.TargetDatabase.DatabaseName'' ''Spec.Tags''" "\<not> path_below ''Spec.TargetDatabase.Region'' ''Spec.Tags''"
  by (simp_all add: path_below_def)

lemma below_tags:
  assumes "p \<in> set (spec_paths cmp a b)"
  shows "path_below p ''Spec.Tags'' \<longleftrightarrow> p = ''Spec.Tags''"
proof -
  let ?P = "list_all (\<lambda>p. path_below p ''Spec.Tags'' \<longleftrightarrow> p = ''Spec.Tags'')"
  have "?P (federated_paths u v)" "?P (target_paths x y)" for u v x y
    by (simp_all add: federated_paths_def target_paths_def when_differs_def not_below_tags split: option.split)
  then have "?P (spec_paths cmp a b)"
    by (simp add: spec_paths_def when_differs_def not_below_tags del: tag_view_simps)
  with assms show ?thesis by (auto simp: list_all_iff)
qed

section \<open>Reading from the account\<close>

lemma sdkFind_from_service:
  assumes service: "database_service (sdkapi rm) own store tags_of arn_of"
    and name: "DatabaseSpec.Name (Spec ko) = Some n" "lower_case n"
    and find: "sdkFind_database lib rm ord ko s = (s', Inr (Some ko', None))"
    and arn: "arn = arn_with (metadata_after rm ko) n"
  shows "world s' = world s" "and_ptr (ACKResourceMetadata (Database.Status ko')) ARN = Some arn"
    and "\<exists>d. store (world s) (key_of own (Spec ko) n) = Some d \<and> Spec ko' =
      (read_DatabaseSpec lib d (Spec ko))\<lparr>DatabaseSpec.Tags := Some (fmmap Some (tags_of (world s) arn))\<rparr>"
proof -
  from find obtain w d m tags where
    get: "api_GetDatabase (sdkapi rm) (newDescribeRequestPayload_database ko) (world s) = (w, Inr (Some d))"
    and dname: "sdk_Database.Name d = Some m"
    and tags: "snd (api_GetTags (api_tags (sdkapi rm)) (arn_with (metadata_after rm ko) m) w) = Inr tags"
      "world s' = fst (api_GetTags (api_tags (sdkapi rm)) (arn_with (metadata_after rm ko) m) w)"
    and ko': "Spec ko' = (read_DatabaseSpec lib d (Spec ko))\<lparr>DatabaseSpec.Tags := Some (fmmap Some tags)\<rparr>"
      "and_ptr (ACKResourceMetadata (Database.Status ko')) ARN = Some (arn_with (metadata_after rm ko) m)"
    by (rule sdkFind_database_result)
  let ?key = "newDescribeRequestPayload_database ko"
  have key: "sdk_DatabaseKey.Name ?key = Some n" "sdk_DatabaseKey.CatalogId ?key = DatabaseSpec.CatalogID (Spec ko)"
    using name(1) by (simp_all add: newDescribeRequestPayload_database_def)
  have "get_law (sdkapi rm) own store" using service by (simp add: database_service_def)
  with key get dname name(2) have stored: "w = world s" "store (world s) (key_of own (Spec ko) n) = Some d" "m = n"
    unfolding get_law_def key_of_def by (metis fst_conv snd_conv option.inject)+
  have "tag_service (api_tags (sdkapi rm)) tags_of" using service by (simp add: database_service_def)
  from tag_serviceD(3) [OF this tags(1)] tags(2) stored
  have w: "world s' = world s" "tags = tags_of (world s) arn" by (simp_all add: arn)
  show "world s' = world s" by (rule w)
  show "and_ptr (ACKResourceMetadata (Database.Status ko')) ARN = Some arn" using ko'(2) by (simp add: arn stored)
  show "\<exists>d. store (world s) (key_of own (Spec ko) n) = Some d \<and> Spec ko' =
      (read_DatabaseSpec lib d (Spec ko))\<lparr>DatabaseSpec.Tags := Some (fmmap Some (tags_of (world s) arn))\<rparr>"
    using stored ko'(1) w by blast
qed

text \<open>The tag step of sdkUpdate, whether or not it makes calls.\<close>

lemma tags_brought_in_sync:
  assumes service: "database_service (sdkapi rm) own store tags_of arn_of" and "tag_laws lib"
    and arn: "and_ptr (ACKResourceMetadata (Database.Status latest)) ARN = Some arn"
    and tags: "tag_view (DatabaseSpec.Tags (Spec latest)) = tags_of (world s) arn"
    and run: "(if c then syncTags_database lib rm ord desired latest s else (s, Inr None)) = (s', Inr None)"
    and skip: "\<not> c \<Longrightarrow> tag_view (DatabaseSpec.Tags (Spec desired)) = tag_view (DatabaseSpec.Tags (Spec latest))"
  shows "store (world s') = store (world s)"
    and "tags_of (world s') arn = tag_view (DatabaseSpec.Tags (Spec desired))"
proof -
  have laws: "apart_law (api_tags (sdkapi rm)) store" "tag_service (api_tags (sdkapi rm)) tags_of"
    using service by (simp_all add: database_service_def)
  have sync: "SyncResourceTags lib (api_tags (sdkapi rm)) ord arn (DatabaseSpec.Tags (Spec desired))
      (DatabaseSpec.Tags (Spec latest)) (convertToOrderedACKTags_database ord) s = (s', None)" if c
  proof -
    obtain md where "ACKResourceMetadata (Database.Status latest) = Some md" "ARN md = Some arn"
      using arn by (cases "ACKResourceMetadata (Database.Status latest)") auto
    with run that show ?thesis by (simp add: syncTags_database_def case_prod_beta prod_eq_iff)
  qed
  have "store (world s') = store (world s) \<and> tags_of (world s') arn = tag_view (DatabaseSpec.Tags (Spec desired))"
    by (rule tag_step [OF laws assms(2) database_tags.convert_view tags sync, of c])
      (use run skip in auto)
  then show "store (world s') = store (world s)"
    "tags_of (world s') arn = tag_view (DatabaseSpec.Tags (Spec desired))" by simp_all
qed

text \<open>sdkUpdate when it succeeds: the tag step, then nothing or the call.\<close>

lemma sdkUpdate_database_success:
  assumes "sdkUpdate_database lib cmp rm ord desired latest delta s = (s', Inr (Some u, None))"
  obtains t where
    "(if DifferentAt cmp delta ''Spec.Tags'' then syncTags_database lib rm ord desired latest s
      else (s, Inr None)) = (t, Inr None)"
    "\<not> DifferentExcept cmp delta ''Spec.Tags'' \<Longrightarrow> s' = t"
    "DifferentExcept cmp delta ''Spec.Tags'' \<Longrightarrow> \<exists>i input.
       newCreateRequestPayload_database lib desired = Inr i \<and>
       input = \<lparr>sdk_UpdateDatabaseInput.CatalogId = DatabaseSpec.CatalogID (Spec desired),
         sdk_UpdateDatabaseInput.DatabaseInput = sdk_CreateDatabaseInput.DatabaseInput i,
         sdk_UpdateDatabaseInput.Name = DatabaseSpec.Name (Spec desired)\<rparr> \<and>
       snd (api_UpdateDatabase (sdkapi rm) input (world t)) = None \<and>
       world s' = fst (api_UpdateDatabase (sdkapi rm) input (world t))"
proof -
  obtain t synced where step: "(if DifferentAt cmp delta ''Spec.Tags'' then
      syncTags_database lib rm ord desired latest s else (s, Inr None)) = (t, synced)" by fastforce
  from assms [unfolded sdkUpdate_database_def step Let_def prod.case] obtain err where err: "synced = Inr err"
    "(if err \<noteq> None then (t, Inr (None, err))
      else if \<not> DifferentExcept cmp delta ''Spec.Tags'' then (t, Inr (Some desired, None))
      else proceed t (newUpdateRequestPayload_database lib desired) (\<lambda>input.
          case invoke (api_UpdateDatabase (sdkapi rm) (input\<lparr>
                sdk_UpdateDatabaseInput.CatalogId := DatabaseSpec.CatalogID (Spec desired),
                sdk_UpdateDatabaseInput.Name := DatabaseSpec.Name (Spec desired)\<rparr>)) t of
            (s, err) \<Rightarrow> if err \<noteq> None then (RecordAPICall ''UPDATE'' ''UpdateDatabase'' err s, Inr (None, err))
              else (RecordAPICall ''UPDATE'' ''UpdateDatabase'' err s,
                Inr (Some (setStatusDefaults_database rm desired), None)))) = (s', Inr (Some u, None))"
    by (rule proceed_success)
  have none: "err = None" using err(2) by (auto split: if_splits)
  show thesis
  proof (rule that)
    show "(if DifferentAt cmp delta ''Spec.Tags'' then syncTags_database lib rm ord desired latest s
      else (s, Inr None)) = (t, Inr None)" using step err(1) none by simp
    show "s' = t" if "\<not> DifferentExcept cmp delta ''Spec.Tags''" using err(2) none that by simp
    show "\<exists>i input. newCreateRequestPayload_database lib desired = Inr i \<and>
       input = \<lparr>sdk_UpdateDatabaseInput.CatalogId = DatabaseSpec.CatalogID (Spec desired),
         sdk_UpdateDatabaseInput.DatabaseInput = sdk_CreateDatabaseInput.DatabaseInput i,
         sdk_UpdateDatabaseInput.Name = DatabaseSpec.Name (Spec desired)\<rparr> \<and>
       snd (api_UpdateDatabase (sdkapi rm) input (world t)) = None \<and>
       world s' = fst (api_UpdateDatabase (sdkapi rm) input (world t))"
      if "DifferentExcept cmp delta ''Spec.Tags''"
    proof -
      from err(2) none that have "proceed t (newUpdateRequestPayload_database lib desired) (\<lambda>input.
          case invoke (api_UpdateDatabase (sdkapi rm) (input\<lparr>
                sdk_UpdateDatabaseInput.CatalogId := DatabaseSpec.CatalogID (Spec desired),
                sdk_UpdateDatabaseInput.Name := DatabaseSpec.Name (Spec desired)\<rparr>)) t of
            (s, err) \<Rightarrow> if err \<noteq> None then (RecordAPICall ''UPDATE'' ''UpdateDatabase'' err s, Inr (None, err))
              else (RecordAPICall ''UPDATE'' ''UpdateDatabase'' err s,
                Inr (Some (setStatusDefaults_database rm desired), None))) = (s', Inr (Some u, None))"
        by simp
      then show ?thesis
        by (rule proceed_success) (auto simp: update_payload_eq and_then_eq_Inr split: if_splits)
    qed
  qed
qed

section \<open>One pass of the reconciler\<close>

text \<open>
  C1: An update settles: take a late-initialized Database with a lower-case name (a resource link
  without texts of its own included), read it, compare, and let sdkUpdate succeed on the differences
  found; then the next read differs from the desired resource in no field, spec and tags, whichever of
  the ways sdkUpdate took (nothing to do, tags only, UpdateDatabase with or without tags) and in
  whatever orders the runtime ranges over the maps. What the service may answer is database_service:
  on a resource link the empty string for texts the spec leaves out, which the comparison must take
  for equal.
\<close>
theorem sdkUpdate_database_settles:
  fixes lib :: "'e golib"
  assumes laws: "conversion_laws lib" "string_map_laws lib" "tag_laws lib"
    and cmp: "delta_laws cmp paths path_below" "value_laws cmp nil_database zero_database"
      "reflexive_law cmp (\<lambda>_. True)"
    and service: "database_service (sdkapi rm) own store tags_of arn_of"
    and desired: "DatabaseSpec.Name (Spec desired) = Some n" "lower_case n" "settled (Spec desired)"
    and read: "sdkFind_database lib rm ord0 desired s0 = (s1, Inr (Some latest, None))"
    and compare: "newResourceDelta_database cmp ord1 (Some \<lparr>resource_ko = Some desired\<rparr>)
        (Some \<lparr>resource_ko = Some latest\<rparr>) = (Inr delta :: ('e, 'd) outcome)"
    and update: "sdkUpdate_database lib cmp rm ord2 desired latest delta s1 = (s2, Inr (Some u, None))"
    and again: "sdkFind_database lib rm ord3 desired s2 = (s3, Inr (Some latest', None))"
  shows "\<exists>delta'. newResourceDelta_database cmp ord4 (Some \<lparr>resource_ko = Some desired\<rparr>)
        (Some \<lparr>resource_ko = Some latest'\<rparr>) = (Inr delta' :: ('e, 'd) outcome) \<and> paths delta' = []"
proof (rule no_delta [OF cmp(1,2)])
  let ?arn = "arn_with (metadata_after rm desired) n"
  let ?spec = "Spec desired"
  let ?key = "key_of own ?spec n"
  let ?tags = "DifferentAt cmp delta ''Spec.Tags''"
  note first = sdkFind_from_service [OF service desired(1,2) read refl]
  note second = sdkFind_from_service [OF service desired(1,2) again refl]
  obtain d where d: "store (world s0) ?key = Some d" "Spec latest =
      (read_DatabaseSpec lib d ?spec)\<lparr>DatabaseSpec.Tags := Some (fmmap Some (tags_of (world s0) ?arn))\<rparr>"
    using first(3) by blast
  obtain d' where d': "store (world s2) ?key = Some d'" "Spec latest' =
      (read_DatabaseSpec lib d' ?spec)\<lparr>DatabaseSpec.Tags := Some (fmmap Some (tags_of (world s2) ?arn))\<rparr>"
    using second(3) by blast
  note delta = paths_of_delta [OF cmp(1,2) compare]
  from update obtain t where
    tagged: "(if ?tags then syncTags_database lib rm ord2 desired latest s1 else (s1, Inr None)) = (t, Inr None)"
    and unchanged: "\<not> DifferentExcept cmp delta ''Spec.Tags'' \<Longrightarrow> s2 = t"
    and called: "DifferentExcept cmp delta ''Spec.Tags'' \<Longrightarrow> \<exists>i input.
       newCreateRequestPayload_database lib desired = Inr i \<and>
       input = \<lparr>sdk_UpdateDatabaseInput.CatalogId = DatabaseSpec.CatalogID ?spec,
         sdk_UpdateDatabaseInput.DatabaseInput = sdk_CreateDatabaseInput.DatabaseInput i,
         sdk_UpdateDatabaseInput.Name = DatabaseSpec.Name ?spec\<rparr> \<and>
       snd (api_UpdateDatabase (sdkapi rm) input (world t)) = None \<and>
       world s2 = fst (api_UpdateDatabase (sdkapi rm) input (world t))"
    by (rule sdkUpdate_database_success) (rule that, assumption+)
  have same: "tag_view (DatabaseSpec.Tags ?spec) = tag_view (DatabaseSpec.Tags (Spec latest))" if "\<not> ?tags"
    using that not_below_tags(10) by (auto simp: delta_lawsD(3) [OF cmp(1)] delta spec_paths_def)
  have view: "tag_view (DatabaseSpec.Tags (Spec latest)) = tags_of (world s1) ?arn" using d(2) first(1) by simp
  note sync = tags_brought_in_sync [OF service laws(3) first(2) view tagged same]
  show "spec_paths cmp ?spec (Spec latest') = []"
  proof (cases "DifferentExcept cmp delta ''Spec.Tags''")
    case False
    with unchanged have "s2 = t" by blast
    with sync first(1) d d' have eq: "d' = d" and tags: "tags_of (world s2) ?arn = tag_view (DatabaseSpec.Tags ?spec)"
      by simp_all
    have "set (spec_paths cmp ?spec (Spec latest)) \<subseteq> {''Spec.Tags''}"
      using False below_tags [of _ cmp ?spec "Spec latest"]
      by (auto simp: delta_lawsD(4) [OF cmp(1)] delta)
    from spec_paths_settled [OF this, of "Some (fmmap Some (tags_of (world s2) ?arn))"]
    show ?thesis using d(2) d'(2) eq tags by simp
  next
    case True
    from called [OF this] obtain i input where i: "newCreateRequestPayload_database lib desired = Inr i"
      and input: "input = \<lparr>sdk_UpdateDatabaseInput.CatalogId = DatabaseSpec.CatalogID ?spec,
        sdk_UpdateDatabaseInput.DatabaseInput = sdk_CreateDatabaseInput.DatabaseInput i,
        sdk_UpdateDatabaseInput.Name = DatabaseSpec.Name ?spec\<rparr>"
      and call: "snd (api_UpdateDatabase (sdkapi rm) input (world t)) = None"
        "world s2 = fst (api_UpdateDatabase (sdkapi rm) input (world t))"
      by blast
    have fields: "sdk_UpdateDatabaseInput.Name input = Some n"
      "sdk_UpdateDatabaseInput.CatalogId input = DatabaseSpec.CatalogID ?spec"
      "sdk_UpdateDatabaseInput.DatabaseInput input = sdk_CreateDatabaseInput.DatabaseInput i"
      by (simp_all add: input desired(1))
    have iname: "sdk_DatabaseInput.Name (sdk_CreateDatabaseInput.DatabaseInput i) = Some n"
      using i desired(1) by (auto simp: newCreateRequestPayload_database_def Let_def and_then_eq_Inr)
    let ?c = "catalog_of own (DatabaseSpec.CatalogID ?spec)"
    have "update_law (sdkapi rm) own store tags_of" using service by (simp add: database_service_def)
    with call(1) fields(1) desired(2) iname have "(\<exists>e. store (world s2) = (store (world t))((?c, n) := Some e) \<and>
        keeps ?c (sdk_CreateDatabaseInput.DatabaseInput i) e) \<and>
      tags_of (world s2) = tags_of (world t)"
      unfolding update_law_def call(2) fields(2,3) [symmetric] by blast
    then obtain e where e: "store (world s2) = (store (world t))((?c, n) := Some e)"
      "keeps ?c (sdk_CreateDatabaseInput.DatabaseInput i) e"
      "tags_of (world s2) = tags_of (world t)" by blast
    with d'(1) have "d' = e" by (simp add: key_of_def)
    with read_kept [OF laws(1,2) cmp(2,3) i e(2) desired(3)] d'(2) e(3) sync(2)
    show ?thesis by simp
  qed
qed

text \<open>sdkCreate when it succeeds.\<close>

lemma metadata_after_create:
  "metadata_after rm (set_arn arn (setStatusDefaults_database rm ko)) = (metadata_after rm ko)\<lparr>ARN := Some arn\<rparr>"
  by (cases "ACKResourceMetadata (Database.Status ko)")
    (auto simp: metadata_after_def set_arn_def setStatusDefaults_database_def status_defaults_def
      or_default_def Let_def split: option.split)

lemma sdkCreate_database_success:
  assumes "sdkCreate_database lib rm desired s = (s', Inr (Some created, None))"
  obtains i n where "newCreateRequestPayload_database lib desired = Inr i"
    "DatabaseSpec.Name (Spec desired) = Some n"
    "created = set_arn (arn_with (metadata_after rm desired) n) (setStatusDefaults_database rm desired)"
    "snd (api_CreateDatabase (sdkapi rm) (create_request lib desired i) (world s)) = None"
    "world s' = fst (api_CreateDatabase (sdkapi rm) (create_request lib desired i) (world s))"
  using assms [unfolded sdkCreate_database_def]
proof (rule proceed_success)
  fix i
  assume i: "newCreateRequestPayload_database lib desired = Inr i"
  assume rest: "(let input = i\<lparr>sdk_CreateDatabaseInput.CatalogId := DatabaseSpec.CatalogID (Spec desired)\<rparr>;
           input = (case DatabaseSpec.Tags (Spec desired) of None \<Rightarrow> input
                    | Some t \<Rightarrow> input\<lparr>sdk_CreateDatabaseInput.Tags := Some (aws_ToStringMap lib t)\<rparr>);
           (s, err) = invoke (api_CreateDatabase (sdkapi rm) input) s;
           s = RecordAPICall ''CREATE'' ''CreateDatabase'' err s
       in if err \<noteq> None then (s, Inr (None, err))
          else (let ko = ensure_metadata (setStatusDefaults_database rm desired)
             in (s, post_create lib ko (and_then (databaseARN ko) (\<lambda>arn. Inr (Some (set_arn arn ko), None)))))) =
      (s', Inr (Some created, None))"
  let ?input = "create_request lib desired i"
  from rest have ok: "snd (api_CreateDatabase (sdkapi rm) ?input (world s)) = None"
    by (auto simp: Let_def create_request_eq split: if_splits)
  with rest have s': "world s' = fst (api_CreateDatabase (sdkapi rm) ?input (world s))"
    by (auto simp: Let_def create_request_eq)
  from rest ok obtain n where "DatabaseSpec.Name (Spec desired) = Some n"
    "created = set_arn (arn_with (metadata_after rm desired) n) (setStatusDefaults_database rm desired)"
    by (cases "DatabaseSpec.Name (Spec desired)")
      (auto simp: Let_def create_request_eq databaseARN_defaulted post_create_def)
  with i ok s' that show thesis by blast
qed

text \<open>
  C3: A create settles: once sdkCreate has succeeded for a late-initialized Database with a lower-case
  name (a resource link without texts of its own included), and the service files it under the ARN the
  controller computes, reading the created resource back finds no difference, tags included, under the
  same account of what the service may answer.
\<close>
theorem sdkCreate_database_settles:
  fixes lib :: "'e golib"
  assumes laws: "conversion_laws lib" "string_map_laws lib"
    and cmp: "delta_laws cmp paths path_below" "value_laws cmp nil_database zero_database"
      "reflexive_law cmp (\<lambda>_. True)"
    and service: "database_service (sdkapi rm) own store tags_of arn_of"
    and desired: "DatabaseSpec.Name (Spec desired) = Some n" "lower_case n" "settled (Spec desired)"
    and arn: "arn_of (key_of own (Spec desired) n) = arn_with (metadata_after rm desired) n"
    and create: "sdkCreate_database lib rm desired s0 = (s1, Inr (Some created, None))"
    and read: "sdkFind_database lib rm ord created s1 = (s2, Inr (Some latest, None))"
  shows "\<exists>delta. newResourceDelta_database cmp ord' (Some \<lparr>resource_ko = Some created\<rparr>)
        (Some \<lparr>resource_ko = Some latest\<rparr>) = (Inr delta :: ('e, 'd) outcome) \<and> paths delta = []"
proof (rule no_delta [OF cmp(1,2)])
  let ?spec = "Spec desired"
  let ?c = "catalog_of own (DatabaseSpec.CatalogID ?spec)"
  from create obtain i where i: "newCreateRequestPayload_database lib desired = Inr i"
    and created: "created = set_arn (arn_with (metadata_after rm desired) n) (setStatusDefaults_database rm desired)"
    and call: "snd (api_CreateDatabase (sdkapi rm) (create_request lib desired i) (world s0)) = None"
      "world s1 = fst (api_CreateDatabase (sdkapi rm) (create_request lib desired i) (world s0))"
    by (rule sdkCreate_database_success) (simp add: desired(1))
  let ?input = "create_request lib desired i"
  have spec: "Spec created = ?spec" by (simp add: created set_arn_def setStatusDefaults_database_def)
  have same_arn: "arn_with (metadata_after rm created) n = arn_of (?c, n)"
    by (simp add: created metadata_after_create arn_with_def arn [unfolded key_of_def])
  have fields: "sdk_CreateDatabaseInput.CatalogId ?input = DatabaseSpec.CatalogID ?spec"
    "sdk_CreateDatabaseInput.DatabaseInput ?input = sdk_CreateDatabaseInput.DatabaseInput i"
    by (simp_all add: create_request_def)
  have iname: "sdk_DatabaseInput.Name (sdk_CreateDatabaseInput.DatabaseInput ?input) = Some n"
    and notags: "sdk_CreateDatabaseInput.Tags i = None"
    using i desired(1) by (auto simp: create_request_def newCreateRequestPayload_database_def Let_def and_then_eq_Inr)
  have tags: "(case sdk_CreateDatabaseInput.Tags ?input of None \<Rightarrow> fmempty | Some t \<Rightarrow> t) = tag_view (DatabaseSpec.Tags ?spec)"
    using laws(2) notags by (simp add: create_request_def string_map_laws_def split: option.split)
  have "create_law (sdkapi rm) own store tags_of arn_of" using service by (simp add: database_service_def)
  with call(1) iname desired(2) have "(\<exists>d. store (world s1) = (store (world s0))((?c, n) := Some d) \<and>
        keeps ?c (sdk_CreateDatabaseInput.DatabaseInput i) d) \<and>
      tags_of (world s1) = (tags_of (world s0))(arn_of (?c, n) := tag_view (DatabaseSpec.Tags ?spec))"
    unfolding create_law_def call(2) fields [symmetric] tags [symmetric] by blast
  then obtain d where d: "store (world s1) (?c, n) = Some d" "keeps ?c (sdk_CreateDatabaseInput.DatabaseInput i) d"
    "tags_of (world s1) (arn_of (?c, n)) = tag_view (DatabaseSpec.Tags ?spec)" by auto
  have name: "DatabaseSpec.Name (Spec created) = Some n" by (simp add: spec desired(1))
  from sdkFind_from_service(3) [OF service name desired(2) read refl] d(1,3)
  have "Spec latest = (read_DatabaseSpec lib d ?spec)\<lparr>DatabaseSpec.Tags :=
      Some (fmmap Some (tag_view (DatabaseSpec.Tags ?spec)))\<rparr>"
    by (simp add: spec same_arn key_of_def)
  with read_kept [OF laws cmp(2,3) i d(2) desired(3)]
  show "spec_paths cmp (Spec created) (Spec latest) = []" by (simp add: spec)
qed

section \<open>Deleting\<close>

text \<open>
  Deleting removes the database of the catalog the request names; reading one that is not there answers
  EntityNotFoundException.
\<close>

definition delete_law ::
  "('e, 'w) databaseClient \<Rightarrow> string \<Rightarrow> ('w \<Rightarrow> database_key \<Rightarrow> sdk_Database option) \<Rightarrow> bool" where
  "delete_law client own store \<longleftrightarrow> (\<forall>k n w. sdk_DatabaseKey.Name k = Some n \<and> lower_case n \<and>
     snd (api_DeleteDatabase client k w) = None \<longrightarrow>
       store (fst (api_DeleteDatabase client k w)) =
         (store w)((catalog_of own (sdk_DatabaseKey.CatalogId k), n) := None))"

definition absent_law ::
  "'e golib \<Rightarrow> ('e, 'w) databaseClient \<Rightarrow> string \<Rightarrow> ('w \<Rightarrow> database_key \<Rightarrow> sdk_Database option) \<Rightarrow> bool" where
  "absent_law lib client own store \<longleftrightarrow> (\<forall>k n w. sdk_DatabaseKey.Name k = Some n \<and> lower_case n \<and>
     store w (catalog_of own (sdk_DatabaseKey.CatalogId k), n) = None \<longrightarrow>
     (\<exists>e. snd (api_GetDatabase client k w) = Inl e \<and>
        errors_As_APIError lib e = Some ''EntityNotFoundException''))"

lemma sdkFind_absent:
  assumes "absent_law lib (sdkapi rm) own store" "DatabaseSpec.Name (Spec ko) = Some n" "lower_case n"
    and "store (world s) (key_of own (Spec ko) n) = None"
  shows "snd (sdkFind_database lib rm ord ko s) = Inr (None, Some (ackerr_NotFound lib))"
proof -
  obtain w out where call: "api_GetDatabase (sdkapi rm) (newDescribeRequestPayload_database ko) (world s) = (w, out)"
    by fastforce
  have "sdk_DatabaseKey.Name (newDescribeRequestPayload_database ko) = Some n"
    "sdk_DatabaseKey.CatalogId (newDescribeRequestPayload_database ko) = DatabaseSpec.CatalogID (Spec ko)"
    using assms(2) by (simp_all add: newDescribeRequestPayload_database_def)
  with assms(1,3,4) call obtain e where e: "out = Inl e" "errors_As_APIError lib e = Some ''EntityNotFoundException''"
    unfolding absent_law_def key_of_def by (metis snd_conv)
  then show ?thesis using sdkFind_get_error [OF _ call [unfolded e(1)], of lib ord] assms(2) by simp
qed


section \<open>A concrete account, for the witnesses\<close>

type_synonym account = "(database_key \<Rightarrow> sdk_Database option) \<times> (string \<Rightarrow> tags)"

text \<open>On a resource link the account answers the empty string for both texts.\<close>

definition as_stored :: "sdk_DatabaseInput \<Rightarrow> sdk_Database" where
  "as_stored i =
     (let text = (\<lambda>t. if sdk_DatabaseInput.TargetDatabase i = None then t else Some '''')
      in \<lparr>sdk_Database.CatalogId = None,
          CreateTableDefaultPermissions = (case sdk_DatabaseInput.CreateTableDefaultPermissions i of
             None \<Rightarrow> Some [] | Some ps \<Rightarrow> Some ps),
          CreateTime = Some 0,
          Description = text (sdk_DatabaseInput.Description i),
          FederatedDatabase = sdk_DatabaseInput.FederatedDatabase i,
          LocationUri = text (sdk_DatabaseInput.LocationUri i), Name = sdk_DatabaseInput.Name i,
          Parameters = sdk_DatabaseInput.Parameters i, TargetDatabase = sdk_DatabaseInput.TargetDatabase i\<rparr>)"

definition account_store :: "account \<Rightarrow> database_key \<Rightarrow> sdk_Database option" where
  "account_store w k = map_option (\<lambda>d. d\<lparr>sdk_Database.CatalogId := Some (fst k), sdk_Database.Name := Some (snd k)\<rparr>) (fst w k)"

definition account_arn :: "database_key \<Rightarrow> string" where
  "account_arn k = ''arn:aws:glue:r:'' @ fst k @ '':database/'' @ snd k"

definition account_client :: "(gerror, account) databaseClient" where
  "account_client = \<lparr>
     api_tags = \<lparr>api_GetTags = (\<lambda>arn w. (w, Inr (snd w arn))),
       api_TagResource = (\<lambda>arn ts w. ((fst w, (snd w)(arn := snd w arn ++\<^sub>f ts)), None)),
       api_UntagResource = (\<lambda>arn ks w. ((fst w, (snd w)(arn := fmdrop_set (set ks) (snd w arn))), None))\<rparr>,
     api_GetDatabase = (\<lambda>k w. (w, case sdk_DatabaseKey.Name k of
         None \<Rightarrow> Inl (Errorf ''no name'')
       | Some n \<Rightarrow> (case account_store w (catalog_of ''123'' (sdk_DatabaseKey.CatalogId k), n) of
           None \<Rightarrow> Inl (APIError ''EntityNotFoundException'' n) | Some d \<Rightarrow> Inr (Some d)))),
     api_CreateDatabase = (\<lambda>i w. case sdk_DatabaseInput.Name (sdk_CreateDatabaseInput.DatabaseInput i) of
         None \<Rightarrow> (w, Some (Errorf ''no name''))
       | Some n \<Rightarrow> (let k = (catalog_of ''123'' (sdk_CreateDatabaseInput.CatalogId i), n)
           in (((fst w)(k := Some (as_stored (sdk_CreateDatabaseInput.DatabaseInput i))),
             (snd w)(account_arn k := case sdk_CreateDatabaseInput.Tags i of None \<Rightarrow> fmempty | Some t \<Rightarrow> t)), None))),
     api_UpdateDatabase = (\<lambda>i w. case sdk_UpdateDatabaseInput.Name i of
         None \<Rightarrow> (w, Some (Errorf ''no name''))
       | Some n \<Rightarrow> (((fst w)((catalog_of ''123'' (sdk_UpdateDatabaseInput.CatalogId i), n) :=
             Some (as_stored (sdk_UpdateDatabaseInput.DatabaseInput i))), snd w), None)),
     api_DeleteDatabase = (\<lambda>k w. case sdk_DatabaseKey.Name k of
         None \<Rightarrow> (w, Some (Errorf ''no name''))
       | Some n \<Rightarrow> (((fst w)((catalog_of ''123'' (sdk_DatabaseKey.CatalogId k), n) := None), snd w), None))\<rparr>"

definition account_rm :: "(gerror, account) resourceManager_database" where
  "account_rm = \<lparr>awsAccountID = ''123'', awsRegion = ''r'', awsPartition = ''aws'', sdkapi = account_client\<rparr>"

lemma keeps_as_stored:
  "sdk_DatabaseInput.Name i = Some n \<Longrightarrow>
   keeps c i ((as_stored i)\<lparr>sdk_Database.CatalogId := Some c, sdk_Database.Name := Some n\<rparr>)"
  by (auto simp: keeps_def as_stored_def text_kept_def Let_def)

lemma account_service: "database_service (sdkapi account_rm) ''123'' account_store snd account_arn"
proof -
  have store: "account_store ((fst w)((c, n) := Some d), t) =
      (account_store w)((c, n) := Some (d\<lparr>sdk_Database.CatalogId := Some c, sdk_Database.Name := Some n\<rparr>))"
    for w :: account and c n d t
    by (rule ext) (simp add: account_store_def)
  have "get_law account_client ''123'' account_store"
    by (auto simp: get_law_def account_client_def account_store_def split: option.splits)
  moreover have "update_law account_client ''123'' account_store snd"
    by (auto simp: update_law_def account_client_def store intro: keeps_as_stored)
  moreover have "create_law account_client ''123'' account_store snd account_arn"
    by (auto simp: create_law_def account_client_def store Let_def intro: keeps_as_stored)
  moreover have "apart_law (api_tags account_client) account_store"
    by (auto simp: apart_law_def account_client_def account_store_def fun_eq_iff)
  moreover have "tag_service (api_tags account_client) snd"
    by (simp add: tag_service_def account_client_def)
  ultimately show ?thesis by (simp add: database_service_def account_rm_def)
qed

lemma account_deletion: "delete_law (sdkapi account_rm) ''123'' account_store"
    "absent_law go_library (sdkapi account_rm) ''123'' account_store"
  by (auto simp: delete_law_def absent_law_def account_rm_def account_client_def account_store_def fun_eq_iff
      go_library_def)

text \<open>Calls on this account succeed.\<close>

lemma account_find:
  assumes "DatabaseSpec.Name (Spec ko) = Some n" "account_store (world s) (key_of ''123'' (Spec ko) n) \<noteq> None"
  shows "\<exists>s' ko'. sdkFind_database go_library account_rm ord ko s = (s', Inr (Some ko', None))"
proof -
  obtain d where d: "account_store (world s) (key_of ''123'' (Spec ko) n) = Some d" "sdk_Database.Name d = Some n"
    using assms(2) by (auto simp: account_store_def key_of_def)
  have get: "api_GetDatabase (sdkapi account_rm) (newDescribeRequestPayload_database ko) (world s) = (world s, Inr (Some d))"
    using assms(1) d(1)
    by (simp add: account_rm_def account_client_def newDescribeRequestPayload_database_def key_of_def)
  have tags: "snd (api_GetTags (api_tags (sdkapi account_rm)) arn w) = Inr (snd w arn)" for arn w
    by (simp add: account_rm_def account_client_def)
  show ?thesis
    by (subst sdkFind_found [OF _ get d(2)]) (simp_all add: assms(1) getTags_database_def GetResourceTags_def tags Let_def)
qed

lemma account_sync:
  assumes "and_ptr (ACKResourceMetadata (Database.Status latest)) ARN = Some arn"
  shows "\<exists>t. (if c then syncTags_database go_library account_rm ord desired latest s else (s, Inr None)) =
      (t, Inr None) \<and> account_store (world t) = account_store (world s)"
proof -
  obtain md where md: "ACKResourceMetadata (Database.Status latest) = Some md" "ARN md = Some arn"
    using assms by (cases "ACKResourceMetadata (Database.Status latest)") auto
  have none: "snd (SyncResourceTags go_library (api_tags (sdkapi account_rm)) ord arn d l conv s) = None" for d l conv
    by (simp add: SyncResourceTags_eq [OF go_library_tags refl refl] untag_removed_def tag_added_def Let_def
        account_rm_def account_client_def)
  have apart: "apart_law (api_tags (sdkapi account_rm)) account_store"
    using account_service by (simp add: database_service_def)
  show ?thesis
    using none SyncResourceTags_store [OF apart, of go_library ord arn _ _ _ s]
    by (auto simp: syncTags_database_def md case_prod_beta)
qed

lemma account_update:
  assumes arn: "and_ptr (ACKResourceMetadata (Database.Status latest)) ARN = Some arn"
    and payload: "newCreateRequestPayload_database go_library desired = Inr i"
    and name: "DatabaseSpec.Name (Spec desired) = Some n"
      "account_store (world s) (key_of ''123'' (Spec desired) n) \<noteq> None"
  shows "\<exists>s' u. sdkUpdate_database go_library cmp account_rm ord desired latest delta s = (s', Inr (Some u, None)) \<and>
    account_store (world s') (key_of ''123'' (Spec desired) n) \<noteq> None"
proof -
  from account_sync [OF arn, of "DifferentAt cmp delta ''Spec.Tags''" ord desired s] obtain t where
    t: "(if DifferentAt cmp delta ''Spec.Tags'' then syncTags_database go_library account_rm ord desired latest s
        else (s, Inr None)) = (t, Inr None)" "account_store (world t) = account_store (world s)" by blast
  show ?thesis
    using t(2) name
    by (simp add: sdkUpdate_database_def t(1) update_payload_eq payload Let_def)
      (simp add: account_rm_def account_client_def account_store_def key_of_def)
qed

text \<open>
  A resource link without texts, late-initialized, in an account that answers "" for them and still has
  an old parameter; and a database of the same name in another catalog.
\<close>

definition sample_settled :: Database where
  "sample_settled = sample_db\<lparr>Spec := sample_spec\<lparr>DatabaseSpec.CatalogID := Some ''123'',
     DatabaseSpec.TableDefaultPermissions := Some [],
     DatabaseSpec.TargetDatabase := Some \<lparr>DatabaseIdentifier.CatalogID = Some ''111122223333'',
       DatabaseName = Some ''producer_db'', Region = None\<rparr>,
     DatabaseSpec.Tags := sample_tags [(''kept'', ''3'')]\<rparr>\<rparr>"

definition sample_link_response :: sdk_Database where
  "sample_link_response = sample_response\<lparr>sdk_Database.Description := Some '''', sdk_Database.LocationUri := Some '''',
     sdk_Database.TargetDatabase := Some \<lparr>sdk_DatabaseIdentifier.CatalogId = Some ''111122223333'',
       DatabaseName = Some ''producer_db'', Region = None\<rparr>\<rparr>"

definition sample_account :: "(gerror, account) env" where
  "sample_account = \<lparr>world = ((\<lambda>k. None)((''123'', ''db'') := Some sample_link_response,
       (''999'', ''db'') := Some sample_response), \<lambda>arn. fmap_of_list [(''old'', ''1'')]), calls = []\<rparr>"

lemma sample_settled_props:
  "DatabaseSpec.Name (Spec sample_settled) = Some ''db''" "lower_case ''db''" "settled (Spec sample_settled)"
  "key_of ''123'' (Spec sample_settled) n = (''123'', n)" "DatabaseSpec.Parameters (Spec sample_settled) = None"
  "\<exists>i. newCreateRequestPayload_database go_library sample_settled = (Inr i :: (gerror, _) outcome)"
  by (simp_all add: sample_settled_def sample_spec_def lower_case_def settled_def no_nil_values_def key_of_def
      catalog_of_def ptr_string_def newCreateRequestPayload_database_def Let_def)

lemma sample_account_holds: "account_store (world sample_account) (''123'', ''db'') = Some sample_link_response"
  "account_store (world sample_account) (''999'', ''db'') \<noteq> None"
  by (simp_all add: account_store_def sample_account_def sample_link_response_def sample_response_def)

theorem sdkUpdate_database_settles_witness:
  "\<exists>s1 latest delta s2 u s3 latest' delta'.
     sdkFind_database go_library account_rm sorted_order sample_settled sample_account = (s1, Inr (Some latest, None)) \<and>
     newResourceDelta_database sample_cmp sorted_order (Some \<lparr>resource_ko = Some sample_settled\<rparr>)
       (Some \<lparr>resource_ko = Some latest\<rparr>) = (Inr delta :: (gerror, _) outcome) \<and>
     ''Spec.Parameters'' \<in> fst ` set delta \<and>
     sdkUpdate_database go_library sample_cmp account_rm sorted_order sample_settled latest delta s1 = (s2, Inr (Some u, None)) \<and>
     sdkFind_database go_library account_rm sorted_order sample_settled s2 = (s3, Inr (Some latest', None)) \<and>
     newResourceDelta_database sample_cmp sorted_order (Some \<lparr>resource_ko = Some sample_settled\<rparr>)
       (Some \<lparr>resource_ko = Some latest'\<rparr>) = (Inr delta' :: (gerror, _) outcome) \<and> delta' = []"
proof -
  note props = sample_settled_props
  obtain s1 latest where read: "sdkFind_database go_library account_rm sorted_order sample_settled sample_account =
      (s1, Inr (Some latest, None))"
    using account_find [OF props(1), of sample_account sorted_order] by (auto simp: props(4) sample_account_holds)
  note first = sdkFind_from_service [OF account_service props(1,2) read refl]
  obtain delta where delta: "newResourceDelta_database sample_cmp sorted_order
      (Some \<lparr>resource_ko = Some sample_settled\<rparr>) (Some \<lparr>resource_ko = Some latest\<rparr>) = (Inr delta :: (gerror, _) outcome)"
    by (simp add: newResourceDelta_database_def)
  have string_map: "aws_StringMap go_library m = fmmap Some m" for m
    by (simp add: go_library_def)
  have "golen (DatabaseSpec.Parameters (Spec latest)) \<noteq> 0"
    using first(3) by (auto simp: props(4) sample_account_holds read_DatabaseSpec_def sample_link_response_def
        sample_response_def string_map fcard_0_eq)
  then have differs: "''Spec.Parameters'' \<in> fst ` set delta"
    using paths_of_delta [OF sample_cmp_laws(1,2) delta] props(5)
    by (simp add: spec_paths_def differs_sized_def flip: list.set_map)
  obtain i where "newCreateRequestPayload_database go_library sample_settled = (Inr i :: (gerror, _) outcome)"
    using props(6) by blast
  from account_update [OF first(2) this props(1), of s1 sample_cmp sorted_order delta] obtain s2 u where
    update: "sdkUpdate_database go_library sample_cmp account_rm sorted_order sample_settled latest delta s1 = (s2, Inr (Some u, None))"
    and held: "account_store (world s2) (key_of ''123'' (Spec sample_settled) ''db'') \<noteq> None"
    by (auto simp: first(1) props(4) sample_account_holds)
  obtain s3 latest' where again: "sdkFind_database go_library account_rm sorted_order sample_settled s2 = (s3, Inr (Some latest', None))"
    using account_find [OF props(1) held, of sorted_order] by blast
  from sdkUpdate_database_settles [OF go_library_conversion go_library_string_maps go_library_tags sample_cmp_laws
      account_service props(1-3) read delta update again]
  obtain delta' where "newResourceDelta_database sample_cmp sorted_order (Some \<lparr>resource_ko = Some sample_settled\<rparr>)
       (Some \<lparr>resource_ko = Some latest'\<rparr>) = (Inr delta' :: (gerror, _) outcome)" "map fst delta' = []" by blast
  with read delta differs update again show ?thesis by simp
qed

theorem sdkCreate_database_settles_witness:
  "\<exists>s1 created s2 latest delta.
     sdkCreate_database go_library account_rm sample_settled sample_account = (s1, Inr (Some created, None)) \<and>
     sdkFind_database go_library account_rm sorted_order created s1 = (s2, Inr (Some latest, None)) \<and>
     newResourceDelta_database sample_cmp sorted_order (Some \<lparr>resource_ko = Some created\<rparr>)
       (Some \<lparr>resource_ko = Some latest\<rparr>) = (Inr delta :: (gerror, _) outcome) \<and> delta = []"
proof -
  note props = sample_settled_props
  obtain i where i: "newCreateRequestPayload_database go_library sample_settled = (Inr i :: (gerror, _) outcome)"
    using props(6) by blast
  then have iname: "sdk_DatabaseInput.Name (sdk_CreateDatabaseInput.DatabaseInput i) = Some ''db''"
    using props(1) by (auto simp: newCreateRequestPayload_database_def Let_def and_then_eq_Inr)
  have tags: "\<exists>t. DatabaseSpec.Tags (Spec sample_settled) = Some t"
    by (simp add: sample_settled_def sample_tags_def)
  let ?created = "set_arn (arn_with (metadata_after account_rm sample_settled) ''db'')
      (setStatusDefaults_database account_rm sample_settled)"
  have key: "key_of ''123'' (Spec ?created) ''db'' = (''123'', ''db'')"
    using props(4) by (simp add: set_arn_def setStatusDefaults_database_def)
  have catalog: "catalog_of ''123'' (DatabaseSpec.CatalogID (Spec sample_settled)) = ''123''"
    using props(4) [of "''db''"] by (simp add: key_of_def)
  obtain s1 where create: "sdkCreate_database go_library account_rm sample_settled sample_account = (s1, Inr (Some ?created, None))"
    and held: "account_store (world s1) (key_of ''123'' (Spec ?created) ''db'') \<noteq> None"
    using iname props(1) tags unfolding key
    by (auto simp: sdkCreate_database_def i Let_def account_rm_def account_client_def account_store_def
        catalog databaseARN_defaulted post_create_def)
  have arn: "account_arn (key_of ''123'' (Spec sample_settled) ''db'') = arn_with (metadata_after account_rm sample_settled) ''db''"
    by (simp add: props(4)) (simp add: account_arn_def arn_with_def metadata_after_def status_defaults_def empty_metadata_def
        account_rm_def sample_settled_def sample_db_def)
  have name: "DatabaseSpec.Name (Spec ?created) = Some ''db''"
    using props(1) by (simp add: set_arn_def setStatusDefaults_database_def)
  obtain s2 latest where read: "sdkFind_database go_library account_rm sorted_order ?created s1 = (s2, Inr (Some latest, None))"
    using account_find [OF name held, of sorted_order] by blast
  from sdkCreate_database_settles [OF go_library_conversion go_library_string_maps sample_cmp_laws account_service
      props(1-3) arn create read]
  obtain delta where "newResourceDelta_database sample_cmp sorted_order (Some \<lparr>resource_ko = Some ?created\<rparr>)
       (Some \<lparr>resource_ko = Some latest\<rparr>) = (Inr delta :: (gerror, _) outcome)" "map fst delta = []" by blast
  with create read show ?thesis by simp
qed


end
