(* ===== verification/Job_Node_Types.thy ===== *)
theory Job_Node_Types
  imports Ack_Runtime
begin

text \<open>
  The structures a job's spec is made of (apis/v1alpha1/types.go), those used by others first. The
  largest is CodeGenConfigurationNode, one node of a job's visual graph: a struct with one pointer
  per kind of node. A timestamp (metav1.Time) is its instant. In a slice of string slices the inner
  slices are lists: no code tells a nil inner slice from an empty one.
\<close>

record AggregateOperation =
  AggFunc :: "string ptr"
  Column :: "string ptr slice"

record Aggregate =
  Aggs :: "AggregateOperation ptr slice"
  Groups :: "string ptr list slice"
  Inputs :: "string ptr slice"
  Name :: "string ptr"

record AmazonRedshiftAdvancedOption =
  Key :: "string ptr"
  Value :: "string ptr"

record Option =
  Description :: "string ptr"
  Label :: "string ptr"
  Value :: "string ptr"

record AmazonRedshiftNodeData =
  AccessType :: "string ptr"
  Action :: "string ptr"
  AdvancedOptions :: "AmazonRedshiftAdvancedOption ptr slice"
  CatalogDatabase :: "Option ptr"
  CatalogRedshiftSchema :: "string ptr"
  CatalogRedshiftTable :: "string ptr"
  CatalogTable :: "Option ptr"
  Connection :: "Option ptr"
  CrawlerConnection :: "string ptr"
  IAMRole :: "Option ptr"
  MergeAction :: "string ptr"
  MergeClause :: "string ptr"
  MergeWhenMatched :: "string ptr"
  MergeWhenNotMatched :: "string ptr"
  PostAction :: "string ptr"
  PreAction :: "string ptr"
  SampleQuery :: "string ptr"
  Schema :: "Option ptr"
  SelectedColumns :: "Option ptr slice"
  SourceType :: "string ptr"
  StagingTable :: "string ptr"
  Table :: "Option ptr"
  TablePrefix :: "string ptr"
  TableSchema :: "Option ptr slice"
  TempDir :: "string ptr"
  Upsert :: "bool ptr"

record AmazonRedshiftSource =
  Data :: "AmazonRedshiftNodeData ptr"
  Name :: "string ptr"

record AmazonRedshiftTarget =
  Data :: "AmazonRedshiftNodeData ptr"
  Inputs :: "string ptr slice"
  Name :: "string ptr"

record Mapping =
  Dropped :: "bool ptr"
  FromPath :: "string ptr slice"
  FromType :: "string ptr"
  ToKey :: "string ptr"
  ToType :: "string ptr"

record ApplyMapping =
  Inputs :: "string ptr slice"
  Mapping :: "Mapping ptr slice"
  Name :: "string ptr"

record GlueStudioSchemaColumn =
  Name :: "string ptr"
  Type :: "string ptr"

record GlueSchema =
  Columns :: "GlueStudioSchemaColumn ptr slice"

record AthenaConnectorSource =
  ConnectionName :: "string ptr"
  ConnectionTable :: "string ptr"
  ConnectionType :: "string ptr"
  ConnectorName :: "string ptr"
  Name :: "string ptr"
  OutputSchemas :: "GlueSchema ptr slice"
  SchemaName :: "string ptr"

record CatalogDeltaSource =
  AdditionalDeltaOptions :: "string ptr gomap option"
  Database :: "string ptr"
  Name :: "string ptr"
  OutputSchemas :: "GlueSchema ptr slice"
  Table :: "string ptr"

record CatalogHudiSource =
  AdditionalHudiOptions :: "string ptr gomap option"
  Database :: "string ptr"
  Name :: "string ptr"
  OutputSchemas :: "GlueSchema ptr slice"
  Table :: "string ptr"

record StreamingDataPreviewOptions =
  PollingTime :: "int64 ptr"
  RecordPollingLimit :: "int64 ptr"

record KafkaStreamingSourceOptions =
  AddRecordTimestamp :: "string ptr"
  Assign :: "string ptr"
  BootstrapServers :: "string ptr"
  Classification :: "string ptr"
  ConnectionName :: "string ptr"
  Delimiter :: "string ptr"
  EmitConsumerLagMetrics :: "string ptr"
  EndingOffsets :: "string ptr"
  IncludeHeaders :: "bool ptr"
  MaxOffsetsPerTrigger :: "int64 ptr"
  MinPartitions :: "int64 ptr"
  NumRetries :: "int64 ptr"
  PollTimeoutMs :: "int64 ptr"
  RetryIntervalMs :: "int64 ptr"
  SecurityProtocol :: "string ptr"
  StartingOffsets :: "string ptr"
  StartingTimestamp :: "int ptr"
  SubscribePattern :: "string ptr"
  TopicName :: "string ptr"

record CatalogKafkaSource =
  DataPreviewOptions :: "StreamingDataPreviewOptions ptr"
  Database :: "string ptr"
  DetectSchema :: "bool ptr"
  Name :: "string ptr"
  StreamingOptions :: "KafkaStreamingSourceOptions ptr"
  Table :: "string ptr"
  WindowSize :: "int64 ptr"

record KinesisStreamingSourceOptions =
  AddIdleTimeBetweenReads :: "bool ptr"
  AddRecordTimestamp :: "string ptr"
  AvoidEmptyBatches :: "bool ptr"
  Classification :: "string ptr"
  Delimiter :: "string ptr"
  DescribeShardInterval :: "int64 ptr"
  EmitConsumerLagMetrics :: "string ptr"
  EndpointURL :: "string ptr"
  IdleTimeBetweenReadsInMs :: "int64 ptr"
  MaxFetchRecordsPerShard :: "int64 ptr"
  MaxFetchTimeInMs :: "int64 ptr"
  MaxRecordPerRead :: "int64 ptr"
  MaxRetryIntervalMs :: "int64 ptr"
  NumRetries :: "int64 ptr"
  RetryIntervalMs :: "int64 ptr"
  RoleARN :: "string ptr"
  RoleSessionName :: "string ptr"
  StartingPosition :: "string ptr"
  StartingTimestamp :: "int ptr"
  StreamARN :: "string ptr"
  StreamName :: "string ptr"

record CatalogKinesisSource =
  DataPreviewOptions :: "StreamingDataPreviewOptions ptr"
  Database :: "string ptr"
  DetectSchema :: "bool ptr"
  Name :: "string ptr"
  StreamingOptions :: "KinesisStreamingSourceOptions ptr"
  Table :: "string ptr"
  WindowSize :: "int64 ptr"

record CatalogSource =
  Database :: "string ptr"
  Name :: "string ptr"
  Table :: "string ptr"

record BasicCatalogTarget =
  Database :: "string ptr"
  Inputs :: "string ptr slice"
  Name :: "string ptr"
  PartitionKeys :: "string ptr list slice"
  Table :: "string ptr"

record ConnectorDataSource =
  ConnectionType :: "string ptr"
  Data :: "string ptr gomap option"
  Name :: "string ptr"
  OutputSchemas :: "GlueSchema ptr slice"

record ConnectorDataTarget =
  ConnectionType :: "string ptr"
  Data :: "string ptr gomap option"
  Inputs :: "string ptr slice"
  Name :: "string ptr"

record CustomCode =
  ClassName :: "string ptr"
  Code :: "string ptr"
  Inputs :: "string ptr slice"
  Name :: "string ptr"
  OutputSchemas :: "GlueSchema ptr slice"

record DirectJDBCSource =
  ConnectionName :: "string ptr"
  ConnectionType :: "string ptr"
  Database :: "string ptr"
  Name :: "string ptr"
  RedshiftTmpDir :: "string ptr"
  Table :: "string ptr"

record DirectKafkaSource =
  DataPreviewOptions :: "StreamingDataPreviewOptions ptr"
  DetectSchema :: "bool ptr"
  Name :: "string ptr"
  StreamingOptions :: "KafkaStreamingSourceOptions ptr"
  WindowSize :: "int64 ptr"

record DirectKinesisSource =
  DataPreviewOptions :: "StreamingDataPreviewOptions ptr"
  DetectSchema :: "bool ptr"
  Name :: "string ptr"
  StreamingOptions :: "KinesisStreamingSourceOptions ptr"
  WindowSize :: "int64 ptr"

record DropDuplicates =
  Columns :: "string ptr list slice"
  Inputs :: "string ptr slice"
  Name :: "string ptr"

record DropFields =
  Inputs :: "string ptr slice"
  Name :: "string ptr"
  Paths :: "string ptr list slice"

record NullCheckBoxList =
  IsEmpty :: "bool ptr"
  IsNegOne :: "bool ptr"
  IsNullString :: "bool ptr"

record Datatype =
  ID :: "string ptr"
  Label :: "string ptr"

record NullValueField =
  Datatype :: "Datatype ptr"
  Value :: "string ptr"

record DropNullFields =
  Inputs :: "string ptr slice"
  Name :: "string ptr"
  NullCheckBoxList :: "NullCheckBoxList ptr"
  NullTextList :: "NullValueField ptr slice"

record TransformConfigParameter =
  IsOptional :: "bool ptr"
  ListType :: "string ptr"
  Name :: "string ptr"
  Type :: "string ptr"
  ValidationMessage :: "string ptr"
  ValidationRule :: "string ptr"
  Value :: "string ptr slice"

record DynamicTransform =
  FunctionName :: "string ptr"
  Inputs :: "string ptr slice"
  Name :: "string ptr"
  OutputSchemas :: "GlueSchema ptr slice"
  Parameters :: "TransformConfigParameter ptr slice"
  Path :: "string ptr"
  TransformName :: "string ptr"
  Version :: "string ptr"

record DynamoDBCatalogSource =
  Database :: "string ptr"
  Name :: "string ptr"
  Table :: "string ptr"

record DQResultsPublishingOptions =
  CloudWatchMetricsEnabled :: "bool ptr"
  EvaluationContext :: "string ptr"
  ResultsPublishingEnabled :: "bool ptr"
  ResultsS3Prefix :: "string ptr"

record DQStopJobOnFailureOptions =
  StopJobOnFailureTiming :: "string ptr"

record EvaluateDataQuality =
  Inputs :: "string ptr slice"
  Name :: "string ptr"
  Output :: "string ptr"
  PublishingOptions :: "DQResultsPublishingOptions ptr"
  Ruleset :: "string ptr"
  StopJobOnFailureOptions :: "DQStopJobOnFailureOptions ptr"

record EvaluateDataQualityMultiFrame =
  AdditionalDataSources :: "string ptr gomap option"
  AdditionalOptions :: "string ptr gomap option"
  Inputs :: "string ptr slice"
  Name :: "string ptr"
  PublishingOptions :: "DQResultsPublishingOptions ptr"
  Ruleset :: "string ptr"
  StopJobOnFailureOptions :: "DQStopJobOnFailureOptions ptr"

record FillMissingValues =
  FilledPath :: "string ptr"
  ImputedPath :: "string ptr"
  Inputs :: "string ptr slice"
  Name :: "string ptr"

record FilterValue =
  Type :: "string ptr"
  Value :: "string ptr slice"

record FilterExpression =
  Negated :: "bool ptr"
  Operation :: "string ptr"
  Values :: "FilterValue ptr slice"

record Filter =
  Filters :: "FilterExpression ptr slice"
  Inputs :: "string ptr slice"
  LogicalOperator :: "string ptr"
  Name :: "string ptr"

record S3SourceAdditionalOptions =
  BoundedFiles :: "int64 ptr"
  BoundedSize :: "int64 ptr"

record GovernedCatalogSource =
  AdditionalOptions :: "S3SourceAdditionalOptions ptr"
  Database :: "string ptr"
  Name :: "string ptr"
  PartitionPredicate :: "string ptr"
  Table :: "string ptr"

record CatalogSchemaChangePolicy =
  EnableUpdateCatalog :: "bool ptr"
  UpdateBehavior :: "string ptr"

record GovernedCatalogTarget =
  Database :: "string ptr"
  Inputs :: "string ptr slice"
  Name :: "string ptr"
  PartitionKeys :: "string ptr list slice"
  SchemaChangePolicy :: "CatalogSchemaChangePolicy ptr"
  Table :: "string ptr"

record JDBCConnectorOptions =
  DataTypeMapping :: "string ptr gomap option"
  FilterPredicate :: "string ptr"
  JobBookmarkKeys :: "string ptr slice"
  JobBookmarkKeysSortOrder :: "string ptr"
  LowerBound :: "int64 ptr"
  NumPartitions :: "int64 ptr"
  PartitionColumn :: "string ptr"
  UpperBound :: "int64 ptr"

record JDBCConnectorSource =
  AdditionalOptions :: "JDBCConnectorOptions ptr"
  ConnectionName :: "string ptr"
  ConnectionTable :: "string ptr"
  ConnectionType :: "string ptr"
  ConnectorName :: "string ptr"
  Name :: "string ptr"
  OutputSchemas :: "GlueSchema ptr slice"
  Query :: "string ptr"

record JDBCConnectorTarget =
  AdditionalOptions :: "string ptr gomap option"
  ConnectionName :: "string ptr"
  ConnectionTable :: "string ptr"
  ConnectionType :: "string ptr"
  ConnectorName :: "string ptr"
  Inputs :: "string ptr slice"
  Name :: "string ptr"
  OutputSchemas :: "GlueSchema ptr slice"

record JoinColumn =
  From :: "string ptr"
  Keys :: "string ptr list slice"

record Join =
  Columns :: "JoinColumn ptr slice"
  Inputs :: "string ptr slice"
  JoinType :: "string ptr"
  Name :: "string ptr"

record Merge =
  Inputs :: "string ptr slice"
  Name :: "string ptr"
  PrimaryKeys :: "string ptr list slice"
  Source :: "string ptr"

record MicrosoftSQLServerCatalogSource =
  Database :: "string ptr"
  Name :: "string ptr"
  Table :: "string ptr"

record MicrosoftSQLServerCatalogTarget =
  Database :: "string ptr"
  Inputs :: "string ptr slice"
  Name :: "string ptr"
  Table :: "string ptr"

record MySQLCatalogSource =
  Database :: "string ptr"
  Name :: "string ptr"
  Table :: "string ptr"

record MySQLCatalogTarget =
  Database :: "string ptr"
  Inputs :: "string ptr slice"
  Name :: "string ptr"
  Table :: "string ptr"

record OracleSQLCatalogSource =
  Database :: "string ptr"
  Name :: "string ptr"
  Table :: "string ptr"

record OracleSQLCatalogTarget =
  Database :: "string ptr"
  Inputs :: "string ptr slice"
  Name :: "string ptr"
  Table :: "string ptr"

record PIIDetection =
  EntityTypesToDetect :: "string ptr slice"
  Inputs :: "string ptr slice"
  MaskValue :: "string ptr"
  Name :: "string ptr"
  OutputColumnName :: "string ptr"
  PiiType :: "string ptr"
  SampleFraction :: "float64 ptr"
  ThresholdFraction :: "float64 ptr"

record PostgreSQLCatalogSource =
  Database :: "string ptr"
  Name :: "string ptr"
  Table :: "string ptr"

record PostgreSQLCatalogTarget =
  Database :: "string ptr"
  Inputs :: "string ptr slice"
  Name :: "string ptr"
  Table :: "string ptr"

record RecipeReference =
  RecipeARN :: "string ptr"
  RecipeVersion :: "string ptr"

record RecipeAction =
  Operation :: "string ptr"
  Parameters :: "string ptr gomap option"

record ConditionExpression =
  Condition :: "string ptr"
  TargetColumn :: "string ptr"
  Value :: "string ptr"

record RecipeStep =
  Action :: "RecipeAction ptr"
  ConditionExpressions :: "ConditionExpression ptr slice"

record Recipe =
  Inputs :: "string ptr slice"
  Name :: "string ptr"
  RecipeReference :: "RecipeReference ptr"
  RecipeSteps :: "RecipeStep ptr slice"

record RedshiftSource =
  Database :: "string ptr"
  Name :: "string ptr"
  RedshiftTmpDir :: "string ptr"
  Table :: "string ptr"
  TmpDirIAMRole :: "string ptr"

record UpsertRedshiftTargetOptions =
  ConnectionName :: "string ptr"
  TableLocation :: "string ptr"
  UpsertKeys :: "string ptr slice"

record RedshiftTarget =
  Database :: "string ptr"
  Inputs :: "string ptr slice"
  Name :: "string ptr"
  RedshiftTmpDir :: "string ptr"
  Table :: "string ptr"
  TmpDirIAMRole :: "string ptr"
  UpsertRedshiftOptions :: "UpsertRedshiftTargetOptions ptr"

record RelationalCatalogSource =
  Database :: "string ptr"
  Name :: "string ptr"
  Table :: "string ptr"

record RenameField =
  Inputs :: "string ptr slice"
  Name :: "string ptr"
  SourcePath :: "string ptr slice"
  TargetPath :: "string ptr slice"

record S3CatalogDeltaSource =
  AdditionalDeltaOptions :: "string ptr gomap option"
  Database :: "string ptr"
  Name :: "string ptr"
  OutputSchemas :: "GlueSchema ptr slice"
  Table :: "string ptr"

record S3CatalogHudiSource =
  AdditionalHudiOptions :: "string ptr gomap option"
  Database :: "string ptr"
  Name :: "string ptr"
  OutputSchemas :: "GlueSchema ptr slice"
  Table :: "string ptr"

record S3CatalogSource =
  AdditionalOptions :: "S3SourceAdditionalOptions ptr"
  Database :: "string ptr"
  Name :: "string ptr"
  PartitionPredicate :: "string ptr"
  Table :: "string ptr"

record S3CatalogTarget =
  Database :: "string ptr"
  Inputs :: "string ptr slice"
  Name :: "string ptr"
  PartitionKeys :: "string ptr list slice"
  SchemaChangePolicy :: "CatalogSchemaChangePolicy ptr"
  Table :: "string ptr"

record S3DirectSourceAdditionalOptions =
  BoundedFiles :: "int64 ptr"
  BoundedSize :: "int64 ptr"
  EnableSamplePath :: "bool ptr"
  SamplePath :: "string ptr"

record S3CsvSource =
  AdditionalOptions :: "S3DirectSourceAdditionalOptions ptr"
  CompressionType :: "string ptr"
  Escaper :: "string ptr"
  Exclusions :: "string ptr slice"
  GroupFiles :: "string ptr"
  GroupSize :: "string ptr"
  MaxBand :: "int64 ptr"
  MaxFilesInBand :: "int64 ptr"
  Multiline :: "bool ptr"
  Name :: "string ptr"
  OptimizePerformance :: "bool ptr"
  OutputSchemas :: "GlueSchema ptr slice"
  Paths :: "string ptr slice"
  QuoteChar :: "string ptr"
  Recurse :: "bool ptr"
  Separator :: "string ptr"
  SkipFirst :: "bool ptr"
  WithHeader :: "bool ptr"
  WriteHeader :: "bool ptr"

record S3DeltaCatalogTarget =
  AdditionalOptions :: "string ptr gomap option"
  Database :: "string ptr"
  Inputs :: "string ptr slice"
  Name :: "string ptr"
  PartitionKeys :: "string ptr list slice"
  SchemaChangePolicy :: "CatalogSchemaChangePolicy ptr"
  Table :: "string ptr"

record DirectSchemaChangePolicy =
  Database :: "string ptr"
  EnableUpdateCatalog :: "bool ptr"
  Table :: "string ptr"
  UpdateBehavior :: "string ptr"

record S3DeltaDirectTarget =
  AdditionalOptions :: "string ptr gomap option"
  Compression :: "string ptr"
  Format :: "string ptr"
  Inputs :: "string ptr slice"
  Name :: "string ptr"
  PartitionKeys :: "string ptr list slice"
  Path :: "string ptr"
  SchemaChangePolicy :: "DirectSchemaChangePolicy ptr"

record S3DeltaSource =
  AdditionalDeltaOptions :: "string ptr gomap option"
  AdditionalOptions :: "S3DirectSourceAdditionalOptions ptr"
  Name :: "string ptr"
  OutputSchemas :: "GlueSchema ptr slice"
  Paths :: "string ptr slice"

record S3DirectTarget =
  Compression :: "string ptr"
  Format :: "string ptr"
  Inputs :: "string ptr slice"
  Name :: "string ptr"
  PartitionKeys :: "string ptr list slice"
  Path :: "string ptr"
  SchemaChangePolicy :: "DirectSchemaChangePolicy ptr"

record S3GlueParquetTarget =
  Compression :: "string ptr"
  Inputs :: "string ptr slice"
  Name :: "string ptr"
  PartitionKeys :: "string ptr list slice"
  Path :: "string ptr"
  SchemaChangePolicy :: "DirectSchemaChangePolicy ptr"

record S3HudiCatalogTarget =
  AdditionalOptions :: "string ptr gomap option"
  Database :: "string ptr"
  Inputs :: "string ptr slice"
  Name :: "string ptr"
  PartitionKeys :: "string ptr list slice"
  SchemaChangePolicy :: "CatalogSchemaChangePolicy ptr"
  Table :: "string ptr"

record S3HudiDirectTarget =
  AdditionalOptions :: "string ptr gomap option"
  Compression :: "string ptr"
  Format :: "string ptr"
  Inputs :: "string ptr slice"
  Name :: "string ptr"
  PartitionKeys :: "string ptr list slice"
  Path :: "string ptr"
  SchemaChangePolicy :: "DirectSchemaChangePolicy ptr"

record S3HudiSource =
  AdditionalHudiOptions :: "string ptr gomap option"
  AdditionalOptions :: "S3DirectSourceAdditionalOptions ptr"
  Name :: "string ptr"
  OutputSchemas :: "GlueSchema ptr slice"
  Paths :: "string ptr slice"

record S3JSONSource =
  AdditionalOptions :: "S3DirectSourceAdditionalOptions ptr"
  CompressionType :: "string ptr"
  Exclusions :: "string ptr slice"
  GroupFiles :: "string ptr"
  GroupSize :: "string ptr"
  JSONPath :: "string ptr"
  MaxBand :: "int64 ptr"
  MaxFilesInBand :: "int64 ptr"
  Multiline :: "bool ptr"
  Name :: "string ptr"
  OutputSchemas :: "GlueSchema ptr slice"
  Paths :: "string ptr slice"
  Recurse :: "bool ptr"

record S3ParquetSource =
  AdditionalOptions :: "S3DirectSourceAdditionalOptions ptr"
  CompressionType :: "string ptr"
  Exclusions :: "string ptr slice"
  GroupFiles :: "string ptr"
  GroupSize :: "string ptr"
  MaxBand :: "int64 ptr"
  MaxFilesInBand :: "int64 ptr"
  Name :: "string ptr"
  OutputSchemas :: "GlueSchema ptr slice"
  Paths :: "string ptr slice"
  Recurse :: "bool ptr"

record SelectFields =
  Inputs :: "string ptr slice"
  Name :: "string ptr"
  Paths :: "string ptr list slice"

record SelectFromCollection =
  Index :: "int64 ptr"
  Inputs :: "string ptr slice"
  Name :: "string ptr"

record SnowflakeNodeData =
  Action :: "string ptr"
  AdditionalOptions :: "string ptr gomap option"
  AutoPushdown :: "bool ptr"
  Connection :: "Option ptr"
  Database :: "string ptr"
  IAMRole :: "Option ptr"
  MergeAction :: "string ptr"
  MergeClause :: "string ptr"
  MergeWhenMatched :: "string ptr"
  MergeWhenNotMatched :: "string ptr"
  PostAction :: "string ptr"
  PreAction :: "string ptr"
  SampleQuery :: "string ptr"
  Schema :: "string ptr"
  SelectedColumns :: "Option ptr slice"
  SourceType :: "string ptr"
  StagingTable :: "string ptr"
  Table :: "string ptr"
  TableSchema :: "Option ptr slice"
  TempDir :: "string ptr"
  Upsert :: "bool ptr"

record SnowflakeSource =
  Data :: "SnowflakeNodeData ptr"
  Name :: "string ptr"
  OutputSchemas :: "GlueSchema ptr slice"

record SnowflakeTarget =
  Data :: "SnowflakeNodeData ptr"
  Inputs :: "string ptr slice"
  Name :: "string ptr"

record SparkConnectorSource =
  AdditionalOptions :: "string ptr gomap option"
  ConnectionName :: "string ptr"
  ConnectionType :: "string ptr"
  ConnectorName :: "string ptr"
  Name :: "string ptr"
  OutputSchemas :: "GlueSchema ptr slice"

record SparkConnectorTarget =
  AdditionalOptions :: "string ptr gomap option"
  ConnectionName :: "string ptr"
  ConnectionType :: "string ptr"
  ConnectorName :: "string ptr"
  Inputs :: "string ptr slice"
  Name :: "string ptr"
  OutputSchemas :: "GlueSchema ptr slice"

record SQLAlias =
  Alias :: "string ptr"
  From :: "string ptr"

record SparkSQL =
  Inputs :: "string ptr slice"
  Name :: "string ptr"
  OutputSchemas :: "GlueSchema ptr slice"
  SQLAliases :: "SQLAlias ptr slice"
  SQLQuery :: "string ptr"

record Spigot =
  Inputs :: "string ptr slice"
  Name :: "string ptr"
  Path :: "string ptr"
  Prob :: "float64 ptr"
  Topk :: "int64 ptr"

record SplitFields =
  Inputs :: "string ptr slice"
  Name :: "string ptr"
  Paths :: "string ptr list slice"

record Union =
  Inputs :: "string ptr slice"
  Name :: "string ptr"
  UnionType :: "string ptr"

record CodeGenConfigurationNode =
  Aggregate :: "Aggregate ptr"
  AmazonRedshiftSource :: "AmazonRedshiftSource ptr"
  AmazonRedshiftTarget :: "AmazonRedshiftTarget ptr"
  ApplyMapping :: "ApplyMapping ptr"
  AthenaConnectorSource :: "AthenaConnectorSource ptr"
  CatalogDeltaSource :: "CatalogDeltaSource ptr"
  CatalogHudiSource :: "CatalogHudiSource ptr"
  CatalogKafkaSource :: "CatalogKafkaSource ptr"
  CatalogKinesisSource :: "CatalogKinesisSource ptr"
  CatalogSource :: "CatalogSource ptr"
  CatalogTarget :: "BasicCatalogTarget ptr"
  ConnectorDataSource :: "ConnectorDataSource ptr"
  ConnectorDataTarget :: "ConnectorDataTarget ptr"
  CustomCode :: "CustomCode ptr"
  DirectJDBCSource :: "DirectJDBCSource ptr"
  DirectKafkaSource :: "DirectKafkaSource ptr"
  DirectKinesisSource :: "DirectKinesisSource ptr"
  DropDuplicates :: "DropDuplicates ptr"
  DropFields :: "DropFields ptr"
  DropNullFields :: "DropNullFields ptr"
  DynamicTransform :: "DynamicTransform ptr"
  DynamoDBCatalogSource :: "DynamoDBCatalogSource ptr"
  EvaluateDataQuality :: "EvaluateDataQuality ptr"
  EvaluateDataQualityMultiFrame :: "EvaluateDataQualityMultiFrame ptr"
  FillMissingValues :: "FillMissingValues ptr"
  Filter :: "Filter ptr"
  GovernedCatalogSource :: "GovernedCatalogSource ptr"
  GovernedCatalogTarget :: "GovernedCatalogTarget ptr"
  JDBCConnectorSource :: "JDBCConnectorSource ptr"
  JDBCConnectorTarget :: "JDBCConnectorTarget ptr"
  Join :: "Join ptr"
  Merge :: "Merge ptr"
  MicrosoftSQLServerCatalogSource :: "MicrosoftSQLServerCatalogSource ptr"
  MicrosoftSQLServerCatalogTarget :: "MicrosoftSQLServerCatalogTarget ptr"
  MySQLCatalogSource :: "MySQLCatalogSource ptr"
  MySQLCatalogTarget :: "MySQLCatalogTarget ptr"
  OracleSQLCatalogSource :: "OracleSQLCatalogSource ptr"
  OracleSQLCatalogTarget :: "OracleSQLCatalogTarget ptr"
  PIIDetection :: "PIIDetection ptr"
  PostgreSQLCatalogSource :: "PostgreSQLCatalogSource ptr"
  PostgreSQLCatalogTarget :: "PostgreSQLCatalogTarget ptr"
  Recipe :: "Recipe ptr"
  RedshiftSource :: "RedshiftSource ptr"
  RedshiftTarget :: "RedshiftTarget ptr"
  RelationalCatalogSource :: "RelationalCatalogSource ptr"
  RenameField :: "RenameField ptr"
  S3CatalogDeltaSource :: "S3CatalogDeltaSource ptr"
  S3CatalogHudiSource :: "S3CatalogHudiSource ptr"
  S3CatalogSource :: "S3CatalogSource ptr"
  S3CatalogTarget :: "S3CatalogTarget ptr"
  S3CsvSource :: "S3CsvSource ptr"
  S3DeltaCatalogTarget :: "S3DeltaCatalogTarget ptr"
  S3DeltaDirectTarget :: "S3DeltaDirectTarget ptr"
  S3DeltaSource :: "S3DeltaSource ptr"
  S3DirectTarget :: "S3DirectTarget ptr"
  S3GlueParquetTarget :: "S3GlueParquetTarget ptr"
  S3HudiCatalogTarget :: "S3HudiCatalogTarget ptr"
  S3HudiDirectTarget :: "S3HudiDirectTarget ptr"
  S3HudiSource :: "S3HudiSource ptr"
  S3JSONSource :: "S3JSONSource ptr"
  S3ParquetSource :: "S3ParquetSource ptr"
  SelectFields :: "SelectFields ptr"
  SelectFromCollection :: "SelectFromCollection ptr"
  SnowflakeSource :: "SnowflakeSource ptr"
  SnowflakeTarget :: "SnowflakeTarget ptr"
  SparkConnectorSource :: "SparkConnectorSource ptr"
  SparkConnectorTarget :: "SparkConnectorTarget ptr"
  SparkSQL :: "SparkSQL ptr"
  Spigot :: "Spigot ptr"
  SplitFields :: "SplitFields ptr"
  Union :: "Union ptr"

record JobCommand =
  Name :: "string ptr"
  PythonVersion :: "string ptr"
  Runtime :: "string ptr"
  ScriptLocation :: "string ptr"

record ConnectionsList =
  Connections :: "string ptr slice"

record ExecutionProperty =
  MaxConcurrentRuns :: "int64 ptr"

record NotificationProperty =
  NotifyDelayAfter :: "int64 ptr"

record SourceControlDetails =
  AuthStrategy :: "string ptr"
  AuthToken :: "string ptr"
  Branch :: "string ptr"
  Folder :: "string ptr"
  LastCommitID :: "string ptr"
  Owner :: "string ptr"
  Provider :: "string ptr"
  Repository :: "string ptr"

end
