(* ===== verification/Sdk_Node_Types.thy ===== *)
theory Sdk_Node_Types
  imports Ack_Runtime
begin

text \<open>
  The Glue SDK's shapes of the same structures, with the fields and in the order pkg/resource/job
  reads and writes them, and the Children of a mapping, which it ignores. Enumerations are strings, with the empty string for an unset one; booleans
  and 32-bit integers that the SDK does not hold by pointer are plain values.
\<close>

record sdk_AggregateOperation =
  AggFunc :: string
  Column :: "string slice"

record sdk_Aggregate =
  Aggs :: "sdk_AggregateOperation slice"
  Groups :: "string list slice"
  Inputs :: "string slice"
  Name :: "string ptr"

record sdk_AmazonRedshiftAdvancedOption =
  Key :: "string ptr"
  Value :: "string ptr"

record sdk_Option =
  Description :: "string ptr"
  Label :: "string ptr"
  Value :: "string ptr"

record sdk_AmazonRedshiftNodeData =
  AccessType :: "string ptr"
  Action :: "string ptr"
  AdvancedOptions :: "sdk_AmazonRedshiftAdvancedOption slice"
  CatalogDatabase :: "sdk_Option ptr"
  CatalogRedshiftSchema :: "string ptr"
  CatalogRedshiftTable :: "string ptr"
  CatalogTable :: "sdk_Option ptr"
  Connection :: "sdk_Option ptr"
  CrawlerConnection :: "string ptr"
  IamRole :: "sdk_Option ptr"
  MergeAction :: "string ptr"
  MergeClause :: "string ptr"
  MergeWhenMatched :: "string ptr"
  MergeWhenNotMatched :: "string ptr"
  PostAction :: "string ptr"
  PreAction :: "string ptr"
  SampleQuery :: "string ptr"
  Schema :: "sdk_Option ptr"
  SelectedColumns :: "sdk_Option slice"
  SourceType :: "string ptr"
  StagingTable :: "string ptr"
  Table :: "sdk_Option ptr"
  TablePrefix :: "string ptr"
  TableSchema :: "sdk_Option slice"
  TempDir :: "string ptr"
  Upsert :: bool

record sdk_AmazonRedshiftSource =
  Data :: "sdk_AmazonRedshiftNodeData ptr"
  Name :: "string ptr"

record sdk_AmazonRedshiftTarget =
  Data :: "sdk_AmazonRedshiftNodeData ptr"
  Inputs :: "string slice"
  Name :: "string ptr"

text \<open>
  The SDK's Mapping is recursive: its Children, which the controller ignores, are Mappings of the same
  fields.
\<close>

datatype sdk_MappingTree =
  sdk_MappingTree "bool ptr" "string slice" "string ptr" "string ptr" "string ptr"
    "sdk_MappingTree list option"

record sdk_Mapping =
  Children :: "sdk_MappingTree slice"
  Dropped :: "bool ptr"
  FromPath :: "string slice"
  FromType :: "string ptr"
  ToKey :: "string ptr"
  ToType :: "string ptr"

record sdk_ApplyMapping =
  Inputs :: "string slice"
  Mapping :: "sdk_Mapping slice"
  Name :: "string ptr"

record sdk_GlueStudioSchemaColumn =
  Name :: "string ptr"
  Type :: "string ptr"

record sdk_GlueSchema =
  Columns :: "sdk_GlueStudioSchemaColumn slice"

record sdk_AthenaConnectorSource =
  ConnectionName :: "string ptr"
  ConnectionTable :: "string ptr"
  ConnectionType :: "string ptr"
  ConnectorName :: "string ptr"
  Name :: "string ptr"
  OutputSchemas :: "sdk_GlueSchema slice"
  SchemaName :: "string ptr"

record sdk_CatalogDeltaSource =
  AdditionalDeltaOptions :: "string gomap option"
  Database :: "string ptr"
  Name :: "string ptr"
  OutputSchemas :: "sdk_GlueSchema slice"
  Table :: "string ptr"

record sdk_CatalogHudiSource =
  AdditionalHudiOptions :: "string gomap option"
  Database :: "string ptr"
  Name :: "string ptr"
  OutputSchemas :: "sdk_GlueSchema slice"
  Table :: "string ptr"

record sdk_StreamingDataPreviewOptions =
  PollingTime :: "int64 ptr"
  RecordPollingLimit :: "int64 ptr"

record sdk_KafkaStreamingSourceOptions =
  AddRecordTimestamp :: "string ptr"
  Assign :: "string ptr"
  BootstrapServers :: "string ptr"
  Classification :: "string ptr"
  ConnectionName :: "string ptr"
  Delimiter :: "string ptr"
  EmitConsumerLagMetrics :: "string ptr"
  EndingOffsets :: "string ptr"
  IncludeHeaders :: "bool ptr"
  MaxOffsetsPerTrigger :: "int64 ptr"
  MinPartitions :: "int32 ptr"
  NumRetries :: "int32 ptr"
  PollTimeoutMs :: "int64 ptr"
  RetryIntervalMs :: "int64 ptr"
  SecurityProtocol :: "string ptr"
  StartingOffsets :: "string ptr"
  StartingTimestamp :: "int ptr"
  SubscribePattern :: "string ptr"
  TopicName :: "string ptr"

record sdk_CatalogKafkaSource =
  DataPreviewOptions :: "sdk_StreamingDataPreviewOptions ptr"
  Database :: "string ptr"
  DetectSchema :: "bool ptr"
  Name :: "string ptr"
  StreamingOptions :: "sdk_KafkaStreamingSourceOptions ptr"
  Table :: "string ptr"
  WindowSize :: "int32 ptr"

record sdk_KinesisStreamingSourceOptions =
  AddIdleTimeBetweenReads :: "bool ptr"
  AddRecordTimestamp :: "string ptr"
  AvoidEmptyBatches :: "bool ptr"
  Classification :: "string ptr"
  Delimiter :: "string ptr"
  DescribeShardInterval :: "int64 ptr"
  EmitConsumerLagMetrics :: "string ptr"
  EndpointUrl :: "string ptr"
  IdleTimeBetweenReadsInMs :: "int64 ptr"
  MaxFetchRecordsPerShard :: "int64 ptr"
  MaxFetchTimeInMs :: "int64 ptr"
  MaxRecordPerRead :: "int64 ptr"
  MaxRetryIntervalMs :: "int64 ptr"
  NumRetries :: "int32 ptr"
  RetryIntervalMs :: "int64 ptr"
  RoleArn :: "string ptr"
  RoleSessionName :: "string ptr"
  StartingPosition :: string
  StartingTimestamp :: "int ptr"
  StreamArn :: "string ptr"
  StreamName :: "string ptr"

record sdk_CatalogKinesisSource =
  DataPreviewOptions :: "sdk_StreamingDataPreviewOptions ptr"
  Database :: "string ptr"
  DetectSchema :: "bool ptr"
  Name :: "string ptr"
  StreamingOptions :: "sdk_KinesisStreamingSourceOptions ptr"
  Table :: "string ptr"
  WindowSize :: "int32 ptr"

record sdk_CatalogSource =
  Database :: "string ptr"
  Name :: "string ptr"
  Table :: "string ptr"

record sdk_BasicCatalogTarget =
  Database :: "string ptr"
  Inputs :: "string slice"
  Name :: "string ptr"
  PartitionKeys :: "string list slice"
  Table :: "string ptr"

record sdk_ConnectorDataSource =
  ConnectionType :: "string ptr"
  Data :: "string gomap option"
  Name :: "string ptr"
  OutputSchemas :: "sdk_GlueSchema slice"

record sdk_ConnectorDataTarget =
  ConnectionType :: "string ptr"
  Data :: "string gomap option"
  Inputs :: "string slice"
  Name :: "string ptr"

record sdk_CustomCode =
  ClassName :: "string ptr"
  Code :: "string ptr"
  Inputs :: "string slice"
  Name :: "string ptr"
  OutputSchemas :: "sdk_GlueSchema slice"

record sdk_DirectJDBCSource =
  ConnectionName :: "string ptr"
  ConnectionType :: string
  Database :: "string ptr"
  Name :: "string ptr"
  RedshiftTmpDir :: "string ptr"
  Table :: "string ptr"

record sdk_DirectKafkaSource =
  DataPreviewOptions :: "sdk_StreamingDataPreviewOptions ptr"
  DetectSchema :: "bool ptr"
  Name :: "string ptr"
  StreamingOptions :: "sdk_KafkaStreamingSourceOptions ptr"
  WindowSize :: "int32 ptr"

record sdk_DirectKinesisSource =
  DataPreviewOptions :: "sdk_StreamingDataPreviewOptions ptr"
  DetectSchema :: "bool ptr"
  Name :: "string ptr"
  StreamingOptions :: "sdk_KinesisStreamingSourceOptions ptr"
  WindowSize :: "int32 ptr"

record sdk_DropDuplicates =
  Columns :: "string list slice"
  Inputs :: "string slice"
  Name :: "string ptr"

record sdk_DropFields =
  Inputs :: "string slice"
  Name :: "string ptr"
  Paths :: "string list slice"

record sdk_NullCheckBoxList =
  IsEmpty :: "bool ptr"
  IsNegOne :: "bool ptr"
  IsNullString :: "bool ptr"

record sdk_Datatype =
  Id :: "string ptr"
  Label :: "string ptr"

record sdk_NullValueField =
  Datatype :: "sdk_Datatype ptr"
  Value :: "string ptr"

record sdk_DropNullFields =
  Inputs :: "string slice"
  Name :: "string ptr"
  NullCheckBoxList :: "sdk_NullCheckBoxList ptr"
  NullTextList :: "sdk_NullValueField slice"

record sdk_TransformConfigParameter =
  IsOptional :: "bool ptr"
  ListType :: string
  Name :: "string ptr"
  Type :: string
  ValidationMessage :: "string ptr"
  ValidationRule :: "string ptr"
  Value :: "string slice"

record sdk_DynamicTransform =
  FunctionName :: "string ptr"
  Inputs :: "string slice"
  Name :: "string ptr"
  OutputSchemas :: "sdk_GlueSchema slice"
  Parameters :: "sdk_TransformConfigParameter slice"
  Path :: "string ptr"
  TransformName :: "string ptr"
  Version :: "string ptr"

record sdk_DynamoDBCatalogSource =
  Database :: "string ptr"
  Name :: "string ptr"
  Table :: "string ptr"

record sdk_DQResultsPublishingOptions =
  CloudWatchMetricsEnabled :: "bool ptr"
  EvaluationContext :: "string ptr"
  ResultsPublishingEnabled :: "bool ptr"
  ResultsS3Prefix :: "string ptr"

record sdk_DQStopJobOnFailureOptions =
  StopJobOnFailureTiming :: string

record sdk_EvaluateDataQuality =
  Inputs :: "string slice"
  Name :: "string ptr"
  Output :: string
  PublishingOptions :: "sdk_DQResultsPublishingOptions ptr"
  Ruleset :: "string ptr"
  StopJobOnFailureOptions :: "sdk_DQStopJobOnFailureOptions ptr"

record sdk_EvaluateDataQualityMultiFrame =
  AdditionalDataSources :: "string gomap option"
  AdditionalOptions :: "string gomap option"
  Inputs :: "string slice"
  Name :: "string ptr"
  PublishingOptions :: "sdk_DQResultsPublishingOptions ptr"
  Ruleset :: "string ptr"
  StopJobOnFailureOptions :: "sdk_DQStopJobOnFailureOptions ptr"

record sdk_FillMissingValues =
  FilledPath :: "string ptr"
  ImputedPath :: "string ptr"
  Inputs :: "string slice"
  Name :: "string ptr"

record sdk_FilterValue =
  Type :: string
  Value :: "string slice"

record sdk_FilterExpression =
  Negated :: "bool ptr"
  Operation :: string
  Values :: "sdk_FilterValue slice"

record sdk_Filter =
  Filters :: "sdk_FilterExpression slice"
  Inputs :: "string slice"
  LogicalOperator :: string
  Name :: "string ptr"

record sdk_S3SourceAdditionalOptions =
  BoundedFiles :: "int64 ptr"
  BoundedSize :: "int64 ptr"

record sdk_GovernedCatalogSource =
  AdditionalOptions :: "sdk_S3SourceAdditionalOptions ptr"
  Database :: "string ptr"
  Name :: "string ptr"
  PartitionPredicate :: "string ptr"
  Table :: "string ptr"

record sdk_CatalogSchemaChangePolicy =
  EnableUpdateCatalog :: "bool ptr"
  UpdateBehavior :: string

record sdk_GovernedCatalogTarget =
  Database :: "string ptr"
  Inputs :: "string slice"
  Name :: "string ptr"
  PartitionKeys :: "string list slice"
  SchemaChangePolicy :: "sdk_CatalogSchemaChangePolicy ptr"
  Table :: "string ptr"

record sdk_JDBCConnectorOptions =
  DataTypeMapping :: "string gomap option"
  FilterPredicate :: "string ptr"
  JobBookmarkKeys :: "string slice"
  JobBookmarkKeysSortOrder :: "string ptr"
  LowerBound :: "int64 ptr"
  NumPartitions :: "int64 ptr"
  PartitionColumn :: "string ptr"
  UpperBound :: "int64 ptr"

record sdk_JDBCConnectorSource =
  AdditionalOptions :: "sdk_JDBCConnectorOptions ptr"
  ConnectionName :: "string ptr"
  ConnectionTable :: "string ptr"
  ConnectionType :: "string ptr"
  ConnectorName :: "string ptr"
  Name :: "string ptr"
  OutputSchemas :: "sdk_GlueSchema slice"
  Query :: "string ptr"

record sdk_JDBCConnectorTarget =
  AdditionalOptions :: "string gomap option"
  ConnectionName :: "string ptr"
  ConnectionTable :: "string ptr"
  ConnectionType :: "string ptr"
  ConnectorName :: "string ptr"
  Inputs :: "string slice"
  Name :: "string ptr"
  OutputSchemas :: "sdk_GlueSchema slice"

record sdk_JoinColumn =
  From :: "string ptr"
  Keys :: "string list slice"

record sdk_Join =
  Columns :: "sdk_JoinColumn slice"
  Inputs :: "string slice"
  JoinType :: string
  Name :: "string ptr"

record sdk_Merge =
  Inputs :: "string slice"
  Name :: "string ptr"
  PrimaryKeys :: "string list slice"
  Source :: "string ptr"

record sdk_MicrosoftSQLServerCatalogSource =
  Database :: "string ptr"
  Name :: "string ptr"
  Table :: "string ptr"

record sdk_MicrosoftSQLServerCatalogTarget =
  Database :: "string ptr"
  Inputs :: "string slice"
  Name :: "string ptr"
  Table :: "string ptr"

record sdk_MySQLCatalogSource =
  Database :: "string ptr"
  Name :: "string ptr"
  Table :: "string ptr"

record sdk_MySQLCatalogTarget =
  Database :: "string ptr"
  Inputs :: "string slice"
  Name :: "string ptr"
  Table :: "string ptr"

record sdk_OracleSQLCatalogSource =
  Database :: "string ptr"
  Name :: "string ptr"
  Table :: "string ptr"

record sdk_OracleSQLCatalogTarget =
  Database :: "string ptr"
  Inputs :: "string slice"
  Name :: "string ptr"
  Table :: "string ptr"

record sdk_PIIDetection =
  EntityTypesToDetect :: "string slice"
  Inputs :: "string slice"
  MaskValue :: "string ptr"
  Name :: "string ptr"
  OutputColumnName :: "string ptr"
  PiiType :: string
  SampleFraction :: "float64 ptr"
  ThresholdFraction :: "float64 ptr"

record sdk_PostgreSQLCatalogSource =
  Database :: "string ptr"
  Name :: "string ptr"
  Table :: "string ptr"

record sdk_PostgreSQLCatalogTarget =
  Database :: "string ptr"
  Inputs :: "string slice"
  Name :: "string ptr"
  Table :: "string ptr"

record sdk_RecipeReference =
  RecipeArn :: "string ptr"
  RecipeVersion :: "string ptr"

record sdk_RecipeAction =
  Operation :: "string ptr"
  Parameters :: "string gomap option"

record sdk_ConditionExpression =
  Condition :: "string ptr"
  TargetColumn :: "string ptr"
  Value :: "string ptr"

record sdk_RecipeStep =
  Action :: "sdk_RecipeAction ptr"
  ConditionExpressions :: "sdk_ConditionExpression slice"

record sdk_Recipe =
  Inputs :: "string slice"
  Name :: "string ptr"
  RecipeReference :: "sdk_RecipeReference ptr"
  RecipeSteps :: "sdk_RecipeStep slice"

record sdk_RedshiftSource =
  Database :: "string ptr"
  Name :: "string ptr"
  RedshiftTmpDir :: "string ptr"
  Table :: "string ptr"
  TmpDirIAMRole :: "string ptr"

record sdk_UpsertRedshiftTargetOptions =
  ConnectionName :: "string ptr"
  TableLocation :: "string ptr"
  UpsertKeys :: "string slice"

record sdk_RedshiftTarget =
  Database :: "string ptr"
  Inputs :: "string slice"
  Name :: "string ptr"
  RedshiftTmpDir :: "string ptr"
  Table :: "string ptr"
  TmpDirIAMRole :: "string ptr"
  UpsertRedshiftOptions :: "sdk_UpsertRedshiftTargetOptions ptr"

record sdk_RelationalCatalogSource =
  Database :: "string ptr"
  Name :: "string ptr"
  Table :: "string ptr"

record sdk_RenameField =
  Inputs :: "string slice"
  Name :: "string ptr"
  SourcePath :: "string slice"
  TargetPath :: "string slice"

record sdk_S3CatalogDeltaSource =
  AdditionalDeltaOptions :: "string gomap option"
  Database :: "string ptr"
  Name :: "string ptr"
  OutputSchemas :: "sdk_GlueSchema slice"
  Table :: "string ptr"

record sdk_S3CatalogHudiSource =
  AdditionalHudiOptions :: "string gomap option"
  Database :: "string ptr"
  Name :: "string ptr"
  OutputSchemas :: "sdk_GlueSchema slice"
  Table :: "string ptr"

record sdk_S3CatalogSource =
  AdditionalOptions :: "sdk_S3SourceAdditionalOptions ptr"
  Database :: "string ptr"
  Name :: "string ptr"
  PartitionPredicate :: "string ptr"
  Table :: "string ptr"

record sdk_S3CatalogTarget =
  Database :: "string ptr"
  Inputs :: "string slice"
  Name :: "string ptr"
  PartitionKeys :: "string list slice"
  SchemaChangePolicy :: "sdk_CatalogSchemaChangePolicy ptr"
  Table :: "string ptr"

record sdk_S3DirectSourceAdditionalOptions =
  BoundedFiles :: "int64 ptr"
  BoundedSize :: "int64 ptr"
  EnableSamplePath :: "bool ptr"
  SamplePath :: "string ptr"

record sdk_S3CsvSource =
  AdditionalOptions :: "sdk_S3DirectSourceAdditionalOptions ptr"
  CompressionType :: string
  Escaper :: "string ptr"
  Exclusions :: "string slice"
  GroupFiles :: "string ptr"
  GroupSize :: "string ptr"
  MaxBand :: "int32 ptr"
  MaxFilesInBand :: "int32 ptr"
  Multiline :: "bool ptr"
  Name :: "string ptr"
  OptimizePerformance :: bool
  OutputSchemas :: "sdk_GlueSchema slice"
  Paths :: "string slice"
  QuoteChar :: string
  Recurse :: "bool ptr"
  Separator :: string
  SkipFirst :: "bool ptr"
  WithHeader :: "bool ptr"
  WriteHeader :: "bool ptr"

record sdk_S3DeltaCatalogTarget =
  AdditionalOptions :: "string gomap option"
  Database :: "string ptr"
  Inputs :: "string slice"
  Name :: "string ptr"
  PartitionKeys :: "string list slice"
  SchemaChangePolicy :: "sdk_CatalogSchemaChangePolicy ptr"
  Table :: "string ptr"

record sdk_DirectSchemaChangePolicy =
  Database :: "string ptr"
  EnableUpdateCatalog :: "bool ptr"
  Table :: "string ptr"
  UpdateBehavior :: string

record sdk_S3DeltaDirectTarget =
  AdditionalOptions :: "string gomap option"
  Compression :: string
  Format :: string
  Inputs :: "string slice"
  Name :: "string ptr"
  PartitionKeys :: "string list slice"
  Path :: "string ptr"
  SchemaChangePolicy :: "sdk_DirectSchemaChangePolicy ptr"

record sdk_S3DeltaSource =
  AdditionalDeltaOptions :: "string gomap option"
  AdditionalOptions :: "sdk_S3DirectSourceAdditionalOptions ptr"
  Name :: "string ptr"
  OutputSchemas :: "sdk_GlueSchema slice"
  Paths :: "string slice"

record sdk_S3DirectTarget =
  Compression :: "string ptr"
  Format :: string
  Inputs :: "string slice"
  Name :: "string ptr"
  PartitionKeys :: "string list slice"
  Path :: "string ptr"
  SchemaChangePolicy :: "sdk_DirectSchemaChangePolicy ptr"

record sdk_S3GlueParquetTarget =
  Compression :: string
  Inputs :: "string slice"
  Name :: "string ptr"
  PartitionKeys :: "string list slice"
  Path :: "string ptr"
  SchemaChangePolicy :: "sdk_DirectSchemaChangePolicy ptr"

record sdk_S3HudiCatalogTarget =
  AdditionalOptions :: "string gomap option"
  Database :: "string ptr"
  Inputs :: "string slice"
  Name :: "string ptr"
  PartitionKeys :: "string list slice"
  SchemaChangePolicy :: "sdk_CatalogSchemaChangePolicy ptr"
  Table :: "string ptr"

record sdk_S3HudiDirectTarget =
  AdditionalOptions :: "string gomap option"
  Compression :: string
  Format :: string
  Inputs :: "string slice"
  Name :: "string ptr"
  PartitionKeys :: "string list slice"
  Path :: "string ptr"
  SchemaChangePolicy :: "sdk_DirectSchemaChangePolicy ptr"

record sdk_S3HudiSource =
  AdditionalHudiOptions :: "string gomap option"
  AdditionalOptions :: "sdk_S3DirectSourceAdditionalOptions ptr"
  Name :: "string ptr"
  OutputSchemas :: "sdk_GlueSchema slice"
  Paths :: "string slice"

record sdk_S3JsonSource =
  AdditionalOptions :: "sdk_S3DirectSourceAdditionalOptions ptr"
  CompressionType :: string
  Exclusions :: "string slice"
  GroupFiles :: "string ptr"
  GroupSize :: "string ptr"
  JsonPath :: "string ptr"
  MaxBand :: "int32 ptr"
  MaxFilesInBand :: "int32 ptr"
  Multiline :: "bool ptr"
  Name :: "string ptr"
  OutputSchemas :: "sdk_GlueSchema slice"
  Paths :: "string slice"
  Recurse :: "bool ptr"

record sdk_S3ParquetSource =
  AdditionalOptions :: "sdk_S3DirectSourceAdditionalOptions ptr"
  CompressionType :: string
  Exclusions :: "string slice"
  GroupFiles :: "string ptr"
  GroupSize :: "string ptr"
  MaxBand :: "int32 ptr"
  MaxFilesInBand :: "int32 ptr"
  Name :: "string ptr"
  OutputSchemas :: "sdk_GlueSchema slice"
  Paths :: "string slice"
  Recurse :: "bool ptr"

record sdk_SelectFields =
  Inputs :: "string slice"
  Name :: "string ptr"
  Paths :: "string list slice"

record sdk_SelectFromCollection =
  Index :: int32
  Inputs :: "string slice"
  Name :: "string ptr"

record sdk_SnowflakeNodeData =
  Action :: "string ptr"
  AdditionalOptions :: "string gomap option"
  AutoPushdown :: bool
  Connection :: "sdk_Option ptr"
  Database :: "string ptr"
  IamRole :: "sdk_Option ptr"
  MergeAction :: "string ptr"
  MergeClause :: "string ptr"
  MergeWhenMatched :: "string ptr"
  MergeWhenNotMatched :: "string ptr"
  PostAction :: "string ptr"
  PreAction :: "string ptr"
  SampleQuery :: "string ptr"
  Schema :: "string ptr"
  SelectedColumns :: "sdk_Option slice"
  SourceType :: "string ptr"
  StagingTable :: "string ptr"
  Table :: "string ptr"
  TableSchema :: "sdk_Option slice"
  TempDir :: "string ptr"
  Upsert :: bool

record sdk_SnowflakeSource =
  Data :: "sdk_SnowflakeNodeData ptr"
  Name :: "string ptr"
  OutputSchemas :: "sdk_GlueSchema slice"

record sdk_SnowflakeTarget =
  Data :: "sdk_SnowflakeNodeData ptr"
  Inputs :: "string slice"
  Name :: "string ptr"

record sdk_SparkConnectorSource =
  AdditionalOptions :: "string gomap option"
  ConnectionName :: "string ptr"
  ConnectionType :: "string ptr"
  ConnectorName :: "string ptr"
  Name :: "string ptr"
  OutputSchemas :: "sdk_GlueSchema slice"

record sdk_SparkConnectorTarget =
  AdditionalOptions :: "string gomap option"
  ConnectionName :: "string ptr"
  ConnectionType :: "string ptr"
  ConnectorName :: "string ptr"
  Inputs :: "string slice"
  Name :: "string ptr"
  OutputSchemas :: "sdk_GlueSchema slice"

record sdk_SqlAlias =
  Alias :: "string ptr"
  From :: "string ptr"

record sdk_SparkSQL =
  Inputs :: "string slice"
  Name :: "string ptr"
  OutputSchemas :: "sdk_GlueSchema slice"
  SqlAliases :: "sdk_SqlAlias slice"
  SqlQuery :: "string ptr"

record sdk_Spigot =
  Inputs :: "string slice"
  Name :: "string ptr"
  Path :: "string ptr"
  Prob :: "float64 ptr"
  Topk :: "int32 ptr"

record sdk_SplitFields =
  Inputs :: "string slice"
  Name :: "string ptr"
  Paths :: "string list slice"

record sdk_Union =
  Inputs :: "string slice"
  Name :: "string ptr"
  UnionType :: string

record sdk_CodeGenConfigurationNode =
  Aggregate :: "sdk_Aggregate ptr"
  AmazonRedshiftSource :: "sdk_AmazonRedshiftSource ptr"
  AmazonRedshiftTarget :: "sdk_AmazonRedshiftTarget ptr"
  ApplyMapping :: "sdk_ApplyMapping ptr"
  AthenaConnectorSource :: "sdk_AthenaConnectorSource ptr"
  CatalogDeltaSource :: "sdk_CatalogDeltaSource ptr"
  CatalogHudiSource :: "sdk_CatalogHudiSource ptr"
  CatalogKafkaSource :: "sdk_CatalogKafkaSource ptr"
  CatalogKinesisSource :: "sdk_CatalogKinesisSource ptr"
  CatalogSource :: "sdk_CatalogSource ptr"
  CatalogTarget :: "sdk_BasicCatalogTarget ptr"
  ConnectorDataSource :: "sdk_ConnectorDataSource ptr"
  ConnectorDataTarget :: "sdk_ConnectorDataTarget ptr"
  CustomCode :: "sdk_CustomCode ptr"
  DirectJDBCSource :: "sdk_DirectJDBCSource ptr"
  DirectKafkaSource :: "sdk_DirectKafkaSource ptr"
  DirectKinesisSource :: "sdk_DirectKinesisSource ptr"
  DropDuplicates :: "sdk_DropDuplicates ptr"
  DropFields :: "sdk_DropFields ptr"
  DropNullFields :: "sdk_DropNullFields ptr"
  DynamicTransform :: "sdk_DynamicTransform ptr"
  DynamoDBCatalogSource :: "sdk_DynamoDBCatalogSource ptr"
  EvaluateDataQuality :: "sdk_EvaluateDataQuality ptr"
  EvaluateDataQualityMultiFrame :: "sdk_EvaluateDataQualityMultiFrame ptr"
  FillMissingValues :: "sdk_FillMissingValues ptr"
  Filter :: "sdk_Filter ptr"
  GovernedCatalogSource :: "sdk_GovernedCatalogSource ptr"
  GovernedCatalogTarget :: "sdk_GovernedCatalogTarget ptr"
  JDBCConnectorSource :: "sdk_JDBCConnectorSource ptr"
  JDBCConnectorTarget :: "sdk_JDBCConnectorTarget ptr"
  Join :: "sdk_Join ptr"
  Merge :: "sdk_Merge ptr"
  MicrosoftSQLServerCatalogSource :: "sdk_MicrosoftSQLServerCatalogSource ptr"
  MicrosoftSQLServerCatalogTarget :: "sdk_MicrosoftSQLServerCatalogTarget ptr"
  MySQLCatalogSource :: "sdk_MySQLCatalogSource ptr"
  MySQLCatalogTarget :: "sdk_MySQLCatalogTarget ptr"
  OracleSQLCatalogSource :: "sdk_OracleSQLCatalogSource ptr"
  OracleSQLCatalogTarget :: "sdk_OracleSQLCatalogTarget ptr"
  PIIDetection :: "sdk_PIIDetection ptr"
  PostgreSQLCatalogSource :: "sdk_PostgreSQLCatalogSource ptr"
  PostgreSQLCatalogTarget :: "sdk_PostgreSQLCatalogTarget ptr"
  Recipe :: "sdk_Recipe ptr"
  RedshiftSource :: "sdk_RedshiftSource ptr"
  RedshiftTarget :: "sdk_RedshiftTarget ptr"
  RelationalCatalogSource :: "sdk_RelationalCatalogSource ptr"
  RenameField :: "sdk_RenameField ptr"
  S3CatalogDeltaSource :: "sdk_S3CatalogDeltaSource ptr"
  S3CatalogHudiSource :: "sdk_S3CatalogHudiSource ptr"
  S3CatalogSource :: "sdk_S3CatalogSource ptr"
  S3CatalogTarget :: "sdk_S3CatalogTarget ptr"
  S3CsvSource :: "sdk_S3CsvSource ptr"
  S3DeltaCatalogTarget :: "sdk_S3DeltaCatalogTarget ptr"
  S3DeltaDirectTarget :: "sdk_S3DeltaDirectTarget ptr"
  S3DeltaSource :: "sdk_S3DeltaSource ptr"
  S3DirectTarget :: "sdk_S3DirectTarget ptr"
  S3GlueParquetTarget :: "sdk_S3GlueParquetTarget ptr"
  S3HudiCatalogTarget :: "sdk_S3HudiCatalogTarget ptr"
  S3HudiDirectTarget :: "sdk_S3HudiDirectTarget ptr"
  S3HudiSource :: "sdk_S3HudiSource ptr"
  S3JsonSource :: "sdk_S3JsonSource ptr"
  S3ParquetSource :: "sdk_S3ParquetSource ptr"
  SelectFields :: "sdk_SelectFields ptr"
  SelectFromCollection :: "sdk_SelectFromCollection ptr"
  SnowflakeSource :: "sdk_SnowflakeSource ptr"
  SnowflakeTarget :: "sdk_SnowflakeTarget ptr"
  SparkConnectorSource :: "sdk_SparkConnectorSource ptr"
  SparkConnectorTarget :: "sdk_SparkConnectorTarget ptr"
  SparkSQL :: "sdk_SparkSQL ptr"
  Spigot :: "sdk_Spigot ptr"
  SplitFields :: "sdk_SplitFields ptr"
  Union :: "sdk_Union ptr"

record sdk_JobCommand =
  Name :: "string ptr"
  PythonVersion :: "string ptr"
  Runtime :: "string ptr"
  ScriptLocation :: "string ptr"

record sdk_ConnectionsList =
  Connections :: "string slice"

record sdk_ExecutionProperty =
  MaxConcurrentRuns :: int32

record sdk_NotificationProperty =
  NotifyDelayAfter :: "int32 ptr"

record sdk_SourceControlDetails =
  AuthStrategy :: string
  AuthToken :: "string ptr"
  Branch :: "string ptr"
  Folder :: "string ptr"
  LastCommitId :: "string ptr"
  Owner :: "string ptr"
  Provider :: string
  Repository :: "string ptr"

end
