(* ===== verification/Job_Types.thy ===== *)
theory Job_Types
  imports Job_Node_Types Sdk_Node_Types Sync_Tags
begin

text \<open>
  The data of the Job resource: the custom resource of apis/v1alpha1/job.go with the structures of
  Job_Node_Types, the shapes of Glue's Job API with the fields the controller does not read
  (AllocatedCapacity, CreatedOn, LastModifiedOn, ProfileName), and the resource manager of
  pkg/resource/job with the client calls it makes. RoleRef is the ACK runtime's reference to another resource; a referenced
  IAM role is read through the Kubernetes API, and only its status matters.
\<close>

section \<open>The custom resource\<close>

record AWSResourceReference =
  Name :: "string ptr"
  Namespace :: "string ptr"

record AWSResourceReferenceWrapper =
  From :: "AWSResourceReference ptr"

record JobSpec =
  CodeGenConfigurationNodes :: "CodeGenConfigurationNode ptr gomap option"
  Command :: "JobCommand ptr"
  Connections :: "ConnectionsList ptr"
  DefaultArguments :: "string ptr gomap option"
  Description :: "string ptr"
  ExecutionClass :: "string ptr"
  ExecutionProperty :: "ExecutionProperty ptr"
  GlueVersion :: "string ptr"
  JobMode :: "string ptr"
  JobRunQueuingEnabled :: "bool ptr"
  LogURI :: "string ptr"
  MaintenanceWindow :: "string ptr"
  MaxCapacity :: "float64 ptr"
  MaxRetries :: "int64 ptr"
  Name :: "string ptr"
  NonOverridableArguments :: "string ptr gomap option"
  NotificationProperty :: "NotificationProperty ptr"
  NumberOfWorkers :: "int64 ptr"
  Role :: "string ptr"
  RoleRef :: "AWSResourceReferenceWrapper ptr"
  SecurityConfiguration :: "string ptr"
  SourceControlDetails :: "SourceControlDetails ptr"
  Tags :: "string ptr gomap option"
  Timeout :: "int64 ptr"
  WorkerType :: "string ptr"

type_synonym JobStatus = ack_status

record Job =
  ObjectMeta :: ObjectMeta
  Spec :: JobSpec
  Status :: JobStatus

section \<open>The SDK shapes\<close>

record sdk_Job =
  AllocatedCapacity :: int32
  CodeGenConfigurationNodes :: "sdk_CodeGenConfigurationNode gomap option"
  Command :: "sdk_JobCommand ptr"
  Connections :: "sdk_ConnectionsList ptr"
  CreatedOn :: "int ptr"
  DefaultArguments :: "string gomap option"
  Description :: "string ptr"
  ExecutionClass :: string
  ExecutionProperty :: "sdk_ExecutionProperty ptr"
  GlueVersion :: "string ptr"
  JobMode :: string
  JobRunQueuingEnabled :: "bool ptr"
  LastModifiedOn :: "int ptr"
  LogUri :: "string ptr"
  MaintenanceWindow :: "string ptr"
  MaxCapacity :: "float64 ptr"
  MaxRetries :: int32
  Name :: "string ptr"
  NonOverridableArguments :: "string gomap option"
  NotificationProperty :: "sdk_NotificationProperty ptr"
  NumberOfWorkers :: "int32 ptr"
  ProfileName :: "string ptr"
  Role :: "string ptr"
  SecurityConfiguration :: "string ptr"
  SourceControlDetails :: "sdk_SourceControlDetails ptr"
  Timeout :: "int32 ptr"
  WorkerType :: string

record sdk_CreateJobInput =
  AllocatedCapacity :: int32
  CodeGenConfigurationNodes :: "sdk_CodeGenConfigurationNode gomap option"
  Command :: "sdk_JobCommand ptr"
  Connections :: "sdk_ConnectionsList ptr"
  DefaultArguments :: "string gomap option"
  Description :: "string ptr"
  ExecutionClass :: string
  ExecutionProperty :: "sdk_ExecutionProperty ptr"
  GlueVersion :: "string ptr"
  JobMode :: string
  JobRunQueuingEnabled :: "bool ptr"
  LogUri :: "string ptr"
  MaintenanceWindow :: "string ptr"
  MaxCapacity :: "float64 ptr"
  MaxRetries :: int32
  Name :: "string ptr"
  NonOverridableArguments :: "string gomap option"
  NotificationProperty :: "sdk_NotificationProperty ptr"
  NumberOfWorkers :: "int32 ptr"
  Role :: "string ptr"
  SecurityConfiguration :: "string ptr"
  SourceControlDetails :: "sdk_SourceControlDetails ptr"
  Tags :: "string gomap option"
  Timeout :: "int32 ptr"
  WorkerType :: string

record sdk_JobUpdate =
  AllocatedCapacity :: int32
  CodeGenConfigurationNodes :: "sdk_CodeGenConfigurationNode gomap option"
  Command :: "sdk_JobCommand ptr"
  Connections :: "sdk_ConnectionsList ptr"
  DefaultArguments :: "string gomap option"
  Description :: "string ptr"
  ExecutionClass :: string
  ExecutionProperty :: "sdk_ExecutionProperty ptr"
  GlueVersion :: "string ptr"
  JobMode :: string
  JobRunQueuingEnabled :: "bool ptr"
  LogUri :: "string ptr"
  MaintenanceWindow :: "string ptr"
  MaxCapacity :: "float64 ptr"
  MaxRetries :: int32
  NonOverridableArguments :: "string gomap option"
  NotificationProperty :: "sdk_NotificationProperty ptr"
  NumberOfWorkers :: "int32 ptr"
  Role :: "string ptr"
  SecurityConfiguration :: "string ptr"
  SourceControlDetails :: "sdk_SourceControlDetails ptr"
  Timeout :: "int32 ptr"
  WorkerType :: string

record sdk_UpdateJobInput =
  JobName :: "string ptr"
  JobUpdate :: "sdk_JobUpdate ptr"

text \<open>GetJobInput and DeleteJobInput name the job.\<close>

record sdk_JobKey =
  JobName :: "string ptr"

text \<open>
  The client calls: GetJob yields the \<open>Job\<close> of its output, CreateJob and UpdateJob the name in
  theirs.
\<close>

record ('e, 'w) jobClient =
  api_tags :: "('e, 'w) tagsClient"
  api_GetJob :: "sdk_JobKey \<Rightarrow> 'w \<Rightarrow> 'w \<times> ('e + sdk_Job ptr)"
  api_CreateJob :: "sdk_CreateJobInput \<Rightarrow> 'w \<Rightarrow> 'w \<times> ('e + string ptr)"
  api_UpdateJob :: "sdk_UpdateJobInput \<Rightarrow> 'w \<Rightarrow> 'w \<times> ('e + string ptr)"
  api_DeleteJob :: "sdk_JobKey \<Rightarrow> 'w \<Rightarrow> 'w \<times> 'e option"

section \<open>The resource manager and the referenced role\<close>

record ('e, 'w) resourceManager_job =
  awsAccountID :: string
  awsRegion :: string
  awsPartition :: string
  cfg_EnableCrossNamespace :: bool
  sdkapi :: "('e, 'w) jobClient"

text \<open>The status of an IAM role, of iam-controller; \<open>reader\<close> is the Kubernetes client's Get.\<close>

record iam_Role =
  Status :: ack_status

type_synonym 'e reader = "string \<Rightarrow> string \<Rightarrow> 'e + iam_Role"

end
