(* ===== verification/Job_Tags.thy ===== *)
theory Job_Tags
  imports Tag_Codec
begin

text \<open>
  pkg/resource/job/tags.go: between the tags of a spec and ACK tags, and the two filters on
  ACK tags. The helpers loop over Go maps, so they take the iteration order as an argument; the
  interpretation of \<open>tag_codec\<close> shows that their results do not depend on it.
\<close>

definition convertToOrderedACKTags_job ::
  "map_order \<Rightarrow> string ptr gomap option \<Rightarrow> tags \<times> string list" where
  "convertToOrderedACKTags_job ord tags =
     (if golen tags = 0 then (fmempty, [])
      else (case tags of
              None \<Rightarrow> (fmempty, [])
            | Some m \<Rightarrow>
                (range_fold ord
                   (\<lambda>k v result. case v of None \<Rightarrow> fmupd k '''' result | Some x \<Rightarrow> fmupd k x result)
                   m fmempty, [])))"

definition fromACKTags_job :: "map_order \<Rightarrow> tags \<Rightarrow> string list \<Rightarrow> string ptr gomap" where
  "fromACKTags_job ord tags keyOrder =
     range_fold ord (\<lambda>k v result. fmupd k (Some v) result) tags fmempty"

definition ignoreSystemTags_job :: "map_order \<Rightarrow> tags \<Rightarrow> string list \<Rightarrow> tags" where
  "ignoreSystemTags_job ord tags systemTags =
     range_fold ord
       (\<lambda>k v tags. if prefix ''aws:'' k \<or> k \<in> set systemTags then fmdrop k tags else tags) tags tags"

definition syncAWSTags_job :: "map_order \<Rightarrow> tags \<Rightarrow> tags \<Rightarrow> tags" where
  "syncAWSTags_job ord a b =
     range_fold ord (\<lambda>k v a. if prefix ''aws:'' k then fmupd k v a else a) b a"

lemma convertToOrderedACKTags_job_eq: "convertToOrderedACKTags_job ord tags = (tag_view tags, [])"
proof -
  have body: "(\<lambda>k v result. case v of None \<Rightarrow> fmupd k '''' result | Some x \<Rightarrow> fmupd k x result) =
      (\<lambda>k v. fmupd k (ptr_string v))"
    by (auto simp: fun_eq_iff ptr_string_def split: option.splits)
  show ?thesis
    unfolding convertToOrderedACKTags_job_def body
    by (auto simp: range_fold_insert split: option.splits)
qed

interpretation job_tags: tag_codec "convertToOrderedACKTags_job ord" "fromACKTags_job ord"
  "ignoreSystemTags_job ord" "syncAWSTags_job ord" for ord
proof unfold_locales
  fix m t ks k sys a b
  show "fst (convertToOrderedACKTags_job ord m) = tag_view m"
    by (simp add: convertToOrderedACKTags_job_eq)
  show "tag_view (Some (fromACKTags_job ord t ks)) = t"
    by (simp add: fromACKTags_job_def range_fold_insert)
  show "fmlookup (fromACKTags_job ord t ks) k \<noteq> Some None"
    by (simp add: fromACKTags_job_def range_fold_insert)
  show "ignoreSystemTags_job ord t sys = fmfilter (\<lambda>k. \<not> aws_key k \<and> k \<notin> set sys) t"
    by (simp add: ignoreSystemTags_job_def aws_key_def range_fold_delete)
  show "syncAWSTags_job ord a b = a ++\<^sub>f fmfilter aws_key b"
    by (simp add: syncAWSTags_job_def aws_key_def [abs_def] range_fold_copy)
qed

end
