(* ===== verification/Job_Delta.thy ===== *)
theory Job_Delta
  imports Job_Types Job_Tags Ack_Compare
begin

text \<open>
  pkg/resource/job/delta.go: newResourceDelta compares a desired with a latest Job field by field.
  The main lemma gives the exact list of the paths it reports.
\<close>

section \<open>The comparison\<close>

text \<open>The values handed to the comparison library, by Go type; a resource is a pointer to its ko.\<close>

record resource_job =
  resource_ko :: "Job ptr"

datatype job_value =
    VString "string ptr"
  | VInt "int64 ptr"
  | VBool "bool ptr"
  | VFloat "float64 ptr"
  | VStrings "string ptr slice"
  | VStringMap "string ptr gomap option"
  | VNodes "CodeGenConfigurationNode ptr gomap option"
  | VJobCommand "JobCommand ptr"
  | VConnectionsList "ConnectionsList ptr"
  | VExecutionProperty "ExecutionProperty ptr"
  | VNotificationProperty "NotificationProperty ptr"
  | VSourceControlDetails "SourceControlDetails ptr"
  | VRoleRef "AWSResourceReferenceWrapper ptr"
  | VResource "resource_job ptr"

fun nil_job :: "job_value \<Rightarrow> bool" where
  "nil_job (VString p) \<longleftrightarrow> p = None"
| "nil_job (VInt p) \<longleftrightarrow> p = None"
| "nil_job (VBool p) \<longleftrightarrow> p = None"
| "nil_job (VFloat p) \<longleftrightarrow> p = None"
| "nil_job (VStrings p) \<longleftrightarrow> p = None"
| "nil_job (VStringMap p) \<longleftrightarrow> p = None"
| "nil_job (VNodes p) \<longleftrightarrow> p = None"
| "nil_job (VJobCommand p) \<longleftrightarrow> p = None"
| "nil_job (VConnectionsList p) \<longleftrightarrow> p = None"
| "nil_job (VExecutionProperty p) \<longleftrightarrow> p = None"
| "nil_job (VNotificationProperty p) \<longleftrightarrow> p = None"
| "nil_job (VSourceControlDetails p) \<longleftrightarrow> p = None"
| "nil_job (VRoleRef p) \<longleftrightarrow> p = None"
| "nil_job (VResource p) \<longleftrightarrow> p = None"

fun zero_job :: "job_value \<Rightarrow> bool" where
  "zero_job (VString p) \<longleftrightarrow> p = Some ''''"
| "zero_job (VInt p) \<longleftrightarrow> p = Some 0"
| "zero_job (VBool p) \<longleftrightarrow> p = Some False"
| "zero_job (VFloat p) \<longleftrightarrow> p = Some 0"
| "zero_job _ \<longleftrightarrow> False"

text \<open>
  The values without a NaN. Of the structures of a node only Spigot and PIIDetection hold floats; the
  other structures compared hold none.
\<close>

definition no_nan :: "float64 ptr \<Rightarrow> bool" where
  "no_nan p \<longleftrightarrow> (case p of None \<Rightarrow> True | Some x \<Rightarrow> \<not> float_nan x)"

definition node_no_nan :: "CodeGenConfigurationNode \<Rightarrow> bool" where
  "node_no_nan n \<longleftrightarrow>
     (case CodeGenConfigurationNode.Spigot n of None \<Rightarrow> True | Some s \<Rightarrow> no_nan (Spigot.Prob s)) \<and>
     (case CodeGenConfigurationNode.PIIDetection n of None \<Rightarrow> True
      | Some d \<Rightarrow> no_nan (PIIDetection.SampleFraction d) \<and> no_nan (PIIDetection.ThresholdFraction d))"

definition nodes_no_nan :: "CodeGenConfigurationNode ptr gomap option \<Rightarrow> bool" where
  "nodes_no_nan nodes \<longleftrightarrow> (case nodes of None \<Rightarrow> True
     | Some m \<Rightarrow> fmpred (\<lambda>_ p. case p of None \<Rightarrow> True | Some n \<Rightarrow> node_no_nan n) m)"

definition spec_no_nan :: "JobSpec \<Rightarrow> bool" where
  "spec_no_nan spec \<longleftrightarrow>
     no_nan (JobSpec.MaxCapacity spec) \<and> nodes_no_nan (JobSpec.CodeGenConfigurationNodes spec)"

fun nan_free :: "job_value \<Rightarrow> bool" where
  "nan_free (VFloat p) \<longleftrightarrow> no_nan p"
| "nan_free (VNodes nodes) \<longleftrightarrow> nodes_no_nan nodes"
| "nan_free (VResource r) \<longleftrightarrow>
     (case and_ptr r resource_ko of None \<Rightarrow> True | Some ko \<Rightarrow> spec_no_nan (Spec ko))"
| "nan_free _ \<longleftrightarrow> True"

definition diff_JobCommand ::
  "(job_value, 'd) cmplib \<Rightarrow> JobCommand \<Rightarrow> JobCommand \<Rightarrow> 'd \<Rightarrow> 'd" where
  "diff_JobCommand cmp a b delta =
     (let delta = diff_ptr cmp ''Spec.Command.Name'' VString (\<noteq>)
            (JobCommand.Name a) (JobCommand.Name b) delta;
          delta = diff_ptr cmp ''Spec.Command.PythonVersion'' VString (\<noteq>)
            (JobCommand.PythonVersion a) (JobCommand.PythonVersion b) delta;
          delta = diff_ptr cmp ''Spec.Command.Runtime'' VString (\<noteq>)
            (JobCommand.Runtime a) (JobCommand.Runtime b) delta;
          delta = diff_ptr cmp ''Spec.Command.ScriptLocation'' VString (\<noteq>)
            (JobCommand.ScriptLocation a) (JobCommand.ScriptLocation b) delta
      in delta)"

definition diff_ConnectionsList ::
  "(job_value, 'd) cmplib \<Rightarrow> ConnectionsList \<Rightarrow> ConnectionsList \<Rightarrow> 'd \<Rightarrow> 'd" where
  "diff_ConnectionsList cmp a b delta =
     (let delta = diff_sized cmp ''Spec.Connections.Connections'' VStrings slice_len (SliceStringPEqual cmp)
            (ConnectionsList.Connections a) (ConnectionsList.Connections b) delta
      in delta)"

definition diff_ExecutionProperty ::
  "(job_value, 'd) cmplib \<Rightarrow> ExecutionProperty \<Rightarrow> ExecutionProperty \<Rightarrow> 'd \<Rightarrow> 'd" where
  "diff_ExecutionProperty cmp a b delta =
     (let delta = diff_ptr cmp ''Spec.ExecutionProperty.MaxConcurrentRuns'' VInt (\<noteq>)
            (ExecutionProperty.MaxConcurrentRuns a) (ExecutionProperty.MaxConcurrentRuns b) delta
      in delta)"

definition diff_NotificationProperty ::
  "(job_value, 'd) cmplib \<Rightarrow> NotificationProperty \<Rightarrow> NotificationProperty \<Rightarrow> 'd \<Rightarrow> 'd" where
  "diff_NotificationProperty cmp a b delta =
     (let delta = diff_ptr cmp ''Spec.NotificationProperty.NotifyDelayAfter'' VInt (\<noteq>)
            (NotificationProperty.NotifyDelayAfter a) (NotificationProperty.NotifyDelayAfter b) delta
      in delta)"

definition diff_SourceControlDetails ::
  "(job_value, 'd) cmplib \<Rightarrow> SourceControlDetails \<Rightarrow> SourceControlDetails \<Rightarrow> 'd \<Rightarrow> 'd" where
  "diff_SourceControlDetails cmp a b delta =
     (let delta = diff_ptr cmp ''Spec.SourceControlDetails.AuthStrategy'' VString (\<noteq>)
            (SourceControlDetails.AuthStrategy a) (SourceControlDetails.AuthStrategy b) delta;
          delta = diff_ptr cmp ''Spec.SourceControlDetails.AuthToken'' VString (\<noteq>)
            (SourceControlDetails.AuthToken a) (SourceControlDetails.AuthToken b) delta;
          delta = diff_ptr cmp ''Spec.SourceControlDetails.Branch'' VString (\<noteq>)
            (SourceControlDetails.Branch a) (SourceControlDetails.Branch b) delta;
          delta = diff_ptr cmp ''Spec.SourceControlDetails.Folder'' VString (\<noteq>)
            (SourceControlDetails.Folder a) (SourceControlDetails.Folder b) delta;
          delta = diff_ptr cmp ''Spec.SourceControlDetails.LastCommitID'' VString (\<noteq>)
            (SourceControlDetails.LastCommitID a) (SourceControlDetails.LastCommitID b) delta;
          delta = diff_ptr cmp ''Spec.SourceControlDetails.Owner'' VString (\<noteq>)
            (SourceControlDetails.Owner a) (SourceControlDetails.Owner b) delta;
          delta = diff_ptr cmp ''Spec.SourceControlDetails.Provider'' VString (\<noteq>)
            (SourceControlDetails.Provider a) (SourceControlDetails.Provider b) delta;
          delta = diff_ptr cmp ''Spec.SourceControlDetails.Repository'' VString (\<noteq>)
            (SourceControlDetails.Repository a) (SourceControlDetails.Repository b) delta
      in delta)"

definition diff_JobSpec ::
  "(job_value, 'd) cmplib \<Rightarrow> map_order \<Rightarrow> JobSpec \<Rightarrow> JobSpec \<Rightarrow> 'd \<Rightarrow> 'd" where
  "diff_JobSpec cmp ord a b delta =
     (let delta = diff_sized cmp ''Spec.CodeGenConfigurationNodes'' VNodes golen
            (\<lambda>x y. DeepEqual cmp (VNodes x) (VNodes y)) (JobSpec.CodeGenConfigurationNodes a) (JobSpec.CodeGenConfigurationNodes b) delta;
          delta = diff_struct cmp ''Spec.Command'' VJobCommand (diff_JobCommand cmp)
            (JobSpec.Command a) (JobSpec.Command b) delta;
          delta = diff_struct cmp ''Spec.Connections'' VConnectionsList (diff_ConnectionsList cmp)
            (JobSpec.Connections a) (JobSpec.Connections b) delta;
          delta = diff_sized cmp ''Spec.DefaultArguments'' VStringMap golen (MapStringStringPEqual cmp)
            (JobSpec.DefaultArguments a) (JobSpec.DefaultArguments b) delta;
          delta = diff_ptr cmp ''Spec.Description'' VString (\<noteq>)
            (JobSpec.Description a) (JobSpec.Description b) delta;
          delta = diff_ptr cmp ''Spec.ExecutionClass'' VString (\<noteq>)
            (JobSpec.ExecutionClass a) (JobSpec.ExecutionClass b) delta;
          delta = diff_struct cmp ''Spec.ExecutionProperty'' VExecutionProperty (diff_ExecutionProperty cmp)
            (JobSpec.ExecutionProperty a) (JobSpec.ExecutionProperty b) delta;
          delta = diff_ptr cmp ''Spec.GlueVersion'' VString (\<noteq>)
            (JobSpec.GlueVersion a) (JobSpec.GlueVersion b) delta;
          delta = diff_ptr cmp ''Spec.JobMode'' VString (\<noteq>)
            (JobSpec.JobMode a) (JobSpec.JobMode b) delta;
          delta = diff_ptr cmp ''Spec.JobRunQueuingEnabled'' VBool (\<noteq>)
            (JobSpec.JobRunQueuingEnabled a) (JobSpec.JobRunQueuingEnabled b) delta;
          delta = diff_ptr cmp ''Spec.LogURI'' VString (\<noteq>)
            (JobSpec.LogURI a) (JobSpec.LogURI b) delta;
          delta = diff_ptr cmp ''Spec.MaintenanceWindow'' VString (\<noteq>)
            (JobSpec.MaintenanceWindow a) (JobSpec.MaintenanceWindow b) delta;
          delta = diff_ptr cmp ''Spec.MaxCapacity'' VFloat float_ne
            (JobSpec.MaxCapacity a) (JobSpec.MaxCapacity b) delta;
          delta = diff_ptr cmp ''Spec.MaxRetries'' VInt (\<noteq>)
            (JobSpec.MaxRetries a) (JobSpec.MaxRetries b) delta;
          delta = diff_ptr cmp ''Spec.Name'' VString (\<noteq>)
            (JobSpec.Name a) (JobSpec.Name b) delta;
          delta = diff_sized cmp ''Spec.NonOverridableArguments'' VStringMap golen (MapStringStringPEqual cmp)
            (JobSpec.NonOverridableArguments a) (JobSpec.NonOverridableArguments b) delta;
          delta = diff_struct cmp ''Spec.NotificationProperty'' VNotificationProperty (diff_NotificationProperty cmp)
            (JobSpec.NotificationProperty a) (JobSpec.NotificationProperty b) delta;
          delta = diff_ptr cmp ''Spec.NumberOfWorkers'' VInt (\<noteq>)
            (JobSpec.NumberOfWorkers a) (JobSpec.NumberOfWorkers b) delta;
          delta = diff_ptr cmp ''Spec.Role'' VString (\<noteq>)
            (JobSpec.Role a) (JobSpec.Role b) delta;
          delta = diff_deep cmp ''Spec.RoleRef'' VRoleRef (JobSpec.RoleRef a) (JobSpec.RoleRef b) delta;
          delta = diff_ptr cmp ''Spec.SecurityConfiguration'' VString (\<noteq>)
            (JobSpec.SecurityConfiguration a) (JobSpec.SecurityConfiguration b) delta;
          delta = diff_struct cmp ''Spec.SourceControlDetails'' VSourceControlDetails (diff_SourceControlDetails cmp)
            (JobSpec.SourceControlDetails a) (JobSpec.SourceControlDetails b) delta;
          delta = diff_tags cmp ''Spec.Tags'' VStringMap (convertToOrderedACKTags_job ord)
            (JobSpec.Tags a) (JobSpec.Tags b) delta;
          delta = diff_ptr cmp ''Spec.Timeout'' VInt (\<noteq>)
            (JobSpec.Timeout a) (JobSpec.Timeout b) delta;
          delta = diff_ptr cmp ''Spec.WorkerType'' VString (\<noteq>)
            (JobSpec.WorkerType a) (JobSpec.WorkerType b) delta
      in delta)"

definition newResourceDelta_job ::
  "(job_value, 'd) cmplib \<Rightarrow> map_order \<Rightarrow> resource_job ptr \<Rightarrow> resource_job ptr \<Rightarrow>
     ('e, 'd) outcome" where
  "newResourceDelta_job cmp ord a b =
     (if (a = None \<and> b \<noteq> None) \<or> (a \<noteq> None \<and> b = None)
      then Inr (Delta_Add cmp (NewDelta cmp) '''' (VResource a) (VResource b))
      else and_then (deref a) (\<lambda>a. and_then (deref b) (\<lambda>b.
             and_then (deref (resource_ko a)) (\<lambda>a. and_then (deref (resource_ko b)) (\<lambda>b.
               Inr (diff_JobSpec cmp ord (Spec a) (Spec b) (NewDelta cmp)))))))"

section \<open>The reported paths\<close>

definition JobCommand_paths :: "(job_value, 'd) cmplib \<Rightarrow> JobCommand \<Rightarrow> JobCommand \<Rightarrow> string list" where
  "JobCommand_paths cmp a b =
     when_differs (JobCommand.Name a \<noteq> JobCommand.Name b) ''Spec.Command.Name'' @
     when_differs (JobCommand.PythonVersion a \<noteq> JobCommand.PythonVersion b) ''Spec.Command.PythonVersion'' @
     when_differs (JobCommand.Runtime a \<noteq> JobCommand.Runtime b) ''Spec.Command.Runtime'' @
     when_differs (JobCommand.ScriptLocation a \<noteq> JobCommand.ScriptLocation b) ''Spec.Command.ScriptLocation''"

definition ConnectionsList_paths :: "(job_value, 'd) cmplib \<Rightarrow> ConnectionsList \<Rightarrow> ConnectionsList \<Rightarrow> string list" where
  "ConnectionsList_paths cmp a b =
     when_differs (differs_sized slice_len (SliceStringPEqual cmp)
       (ConnectionsList.Connections a) (ConnectionsList.Connections b)) ''Spec.Connections.Connections''"

definition ExecutionProperty_paths :: "(job_value, 'd) cmplib \<Rightarrow> ExecutionProperty \<Rightarrow> ExecutionProperty \<Rightarrow> string list" where
  "ExecutionProperty_paths cmp a b =
     when_differs (ExecutionProperty.MaxConcurrentRuns a \<noteq> ExecutionProperty.MaxConcurrentRuns b) ''Spec.ExecutionProperty.MaxConcurrentRuns''"

definition NotificationProperty_paths :: "(job_value, 'd) cmplib \<Rightarrow> NotificationProperty \<Rightarrow> NotificationProperty \<Rightarrow> string list" where
  "NotificationProperty_paths cmp a b =
     when_differs (NotificationProperty.NotifyDelayAfter a \<noteq> NotificationProperty.NotifyDelayAfter b) ''Spec.NotificationProperty.NotifyDelayAfter''"

definition SourceControlDetails_paths :: "(job_value, 'd) cmplib \<Rightarrow> SourceControlDetails \<Rightarrow> SourceControlDetails \<Rightarrow> string list" where
  "SourceControlDetails_paths cmp a b =
     when_differs (SourceControlDetails.AuthStrategy a \<noteq> SourceControlDetails.AuthStrategy b) ''Spec.SourceControlDetails.AuthStrategy'' @
     when_differs (SourceControlDetails.AuthToken a \<noteq> SourceControlDetails.AuthToken b) ''Spec.SourceControlDetails.AuthToken'' @
     when_differs (SourceControlDetails.Branch a \<noteq> SourceControlDetails.Branch b) ''Spec.SourceControlDetails.Branch'' @
     when_differs (SourceControlDetails.Folder a \<noteq> SourceControlDetails.Folder b) ''Spec.SourceControlDetails.Folder'' @
     when_differs (SourceControlDetails.LastCommitID a \<noteq> SourceControlDetails.LastCommitID b) ''Spec.SourceControlDetails.LastCommitID'' @
     when_differs (SourceControlDetails.Owner a \<noteq> SourceControlDetails.Owner b) ''Spec.SourceControlDetails.Owner'' @
     when_differs (SourceControlDetails.Provider a \<noteq> SourceControlDetails.Provider b) ''Spec.SourceControlDetails.Provider'' @
     when_differs (SourceControlDetails.Repository a \<noteq> SourceControlDetails.Repository b) ''Spec.SourceControlDetails.Repository''"

definition job_spec_paths :: "(job_value, 'd) cmplib \<Rightarrow> JobSpec \<Rightarrow> JobSpec \<Rightarrow> string list" where
  "job_spec_paths cmp a b =
     when_differs (differs_sized golen (\<lambda>x y. DeepEqual cmp (VNodes x) (VNodes y))
       (JobSpec.CodeGenConfigurationNodes a) (JobSpec.CodeGenConfigurationNodes b)) ''Spec.CodeGenConfigurationNodes'' @
     struct_paths (JobCommand_paths cmp) ''Spec.Command'' (JobSpec.Command a) (JobSpec.Command b) @
     struct_paths (ConnectionsList_paths cmp) ''Spec.Connections'' (JobSpec.Connections a) (JobSpec.Connections b) @
     when_differs (differs_sized golen (MapStringStringPEqual cmp)
       (JobSpec.DefaultArguments a) (JobSpec.DefaultArguments b)) ''Spec.DefaultArguments'' @
     when_differs (JobSpec.Description a \<noteq> JobSpec.Description b) ''Spec.Description'' @
     when_differs (JobSpec.ExecutionClass a \<noteq> JobSpec.ExecutionClass b) ''Spec.ExecutionClass'' @
     struct_paths (ExecutionProperty_paths cmp) ''Spec.ExecutionProperty'' (JobSpec.ExecutionProperty a) (JobSpec.ExecutionProperty b) @
     when_differs (JobSpec.GlueVersion a \<noteq> JobSpec.GlueVersion b) ''Spec.GlueVersion'' @
     when_differs (JobSpec.JobMode a \<noteq> JobSpec.JobMode b) ''Spec.JobMode'' @
     when_differs (JobSpec.JobRunQueuingEnabled a \<noteq> JobSpec.JobRunQueuingEnabled b) ''Spec.JobRunQueuingEnabled'' @
     when_differs (JobSpec.LogURI a \<noteq> JobSpec.LogURI b) ''Spec.LogURI'' @
     when_differs (JobSpec.MaintenanceWindow a \<noteq> JobSpec.MaintenanceWindow b) ''Spec.MaintenanceWindow'' @
     when_differs (differs_by float_ne (JobSpec.MaxCapacity a) (JobSpec.MaxCapacity b)) ''Spec.MaxCapacity'' @
     when_differs (JobSpec.MaxRetries a \<noteq> JobSpec.MaxRetries b) ''Spec.MaxRetries'' @
     when_differs (JobSpec.Name a \<noteq> JobSpec.Name b) ''Spec.Name'' @
     when_differs (differs_sized golen (MapStringStringPEqual cmp)
       (JobSpec.NonOverridableArguments a) (JobSpec.NonOverridableArguments b)) ''Spec.NonOverridableArguments'' @
     struct_paths (NotificationProperty_paths cmp) ''Spec.NotificationProperty'' (JobSpec.NotificationProperty a) (JobSpec.NotificationProperty b) @
     when_differs (JobSpec.NumberOfWorkers a \<noteq> JobSpec.NumberOfWorkers b) ''Spec.NumberOfWorkers'' @
     when_differs (JobSpec.Role a \<noteq> JobSpec.Role b) ''Spec.Role'' @
     when_differs (\<not> DeepEqual cmp (VRoleRef (JobSpec.RoleRef a)) (VRoleRef (JobSpec.RoleRef b))) ''Spec.RoleRef'' @
     when_differs (JobSpec.SecurityConfiguration a \<noteq> JobSpec.SecurityConfiguration b) ''Spec.SecurityConfiguration'' @
     struct_paths (SourceControlDetails_paths cmp) ''Spec.SourceControlDetails'' (JobSpec.SourceControlDetails a) (JobSpec.SourceControlDetails b) @
     when_differs (tag_view (JobSpec.Tags a) \<noteq> tag_view (JobSpec.Tags b)) ''Spec.Tags'' @
     when_differs (JobSpec.Timeout a \<noteq> JobSpec.Timeout b) ''Spec.Timeout'' @
     when_differs (JobSpec.WorkerType a \<noteq> JobSpec.WorkerType b) ''Spec.WorkerType''"

lemma paths_diff_JobSpec:
  assumes delta: "delta_laws cmp paths below" and vals: "value_laws cmp nil_job zero_job"
  shows "paths (diff_JobSpec cmp ord a b d) = paths d @ job_spec_paths cmp a b"
proof -
  note ptrs = paths_diff_ptr [OF delta vals nil_job.simps(1)] paths_diff_ptr [OF delta vals nil_job.simps(2)]
    paths_diff_ptr [OF delta vals nil_job.simps(3)]
    paths_diff_ptr_by [OF delta vals nil_job.simps(4), of _ float_ne]
  note sized = paths_diff_sized [OF delta]
  have JobCommand: "paths (diff_JobCommand cmp x y d) = paths d @ JobCommand_paths cmp x y" for x y d
    by (simp add: diff_JobCommand_def JobCommand_paths_def ptrs sized differs_sized_def)
  have ConnectionsList: "paths (diff_ConnectionsList cmp x y d) = paths d @ ConnectionsList_paths cmp x y" for x y d
    by (simp add: diff_ConnectionsList_def ConnectionsList_paths_def ptrs sized differs_sized_def)
  have ExecutionProperty: "paths (diff_ExecutionProperty cmp x y d) = paths d @ ExecutionProperty_paths cmp x y" for x y d
    by (simp add: diff_ExecutionProperty_def ExecutionProperty_paths_def ptrs sized differs_sized_def)
  have NotificationProperty: "paths (diff_NotificationProperty cmp x y d) = paths d @ NotificationProperty_paths cmp x y" for x y d
    by (simp add: diff_NotificationProperty_def NotificationProperty_paths_def ptrs sized differs_sized_def)
  have SourceControlDetails: "paths (diff_SourceControlDetails cmp x y d) = paths d @ SourceControlDetails_paths cmp x y" for x y d
    by (simp add: diff_SourceControlDetails_def SourceControlDetails_paths_def ptrs sized differs_sized_def)
  note structs =
    paths_diff_struct [OF delta vals nil_job.simps(8) JobCommand]
    paths_diff_struct [OF delta vals nil_job.simps(9) ConnectionsList]
    paths_diff_struct [OF delta vals nil_job.simps(10) ExecutionProperty]
    paths_diff_struct [OF delta vals nil_job.simps(11) NotificationProperty]
    paths_diff_struct [OF delta vals nil_job.simps(12) SourceControlDetails]
  show ?thesis
    unfolding diff_JobSpec_def Let_def
    by (simp only: ptrs structs sized paths_diff_deep [OF delta]
        paths_diff_tags [OF delta vals job_tags.convert_view] append_assoc
        job_spec_paths_def differs_sized_def)
qed

end
