(* ===== verification/Job_Node_Read.thy ===== *)
theory Job_Node_Read
  imports Job_Node_Types Sdk_Node_Types Sdk_Codec
begin

text \<open>
  pkg/resource/job/sdk.go, sdkFind: the copy of each structure of a GetJob response into the
  custom resource, one definition per structure. The generated code repeats a structure's copy at
  every place the structure occurs; the repetitions differ in the names of local variables only.
\<close>

definition read_AggregateOperation :: "'e golib \<Rightarrow> sdk_AggregateOperation \<Rightarrow> AggregateOperation" where
  "read_AggregateOperation lib x =
     \<lparr>AggregateOperation.AggFunc = enum_read lib (sdk_AggregateOperation.AggFunc x),
      AggregateOperation.Column = map_option (aws_StringSlice lib) (sdk_AggregateOperation.Column x)\<rparr>"

definition read_Aggregate :: "'e golib \<Rightarrow> sdk_Aggregate \<Rightarrow> Aggregate" where
  "read_Aggregate lib x =
     \<lparr>Aggregate.Aggs = slice_read (read_AggregateOperation lib) (sdk_Aggregate.Aggs x),
      Aggregate.Groups = map_option (map (aws_StringSlice lib)) (sdk_Aggregate.Groups x),
      Aggregate.Inputs = map_option (aws_StringSlice lib) (sdk_Aggregate.Inputs x),
      Aggregate.Name = sdk_Aggregate.Name x\<rparr>"

definition read_AmazonRedshiftAdvancedOption :: "sdk_AmazonRedshiftAdvancedOption \<Rightarrow> AmazonRedshiftAdvancedOption" where
  "read_AmazonRedshiftAdvancedOption x =
     \<lparr>AmazonRedshiftAdvancedOption.Key = sdk_AmazonRedshiftAdvancedOption.Key x,
      AmazonRedshiftAdvancedOption.Value = sdk_AmazonRedshiftAdvancedOption.Value x\<rparr>"

definition read_Option :: "sdk_Option \<Rightarrow> Option" where
  "read_Option x =
     \<lparr>Option.Description = sdk_Option.Description x,
      Option.Label = sdk_Option.Label x,
      Option.Value = sdk_Option.Value x\<rparr>"

definition read_AmazonRedshiftNodeData :: "sdk_AmazonRedshiftNodeData \<Rightarrow> AmazonRedshiftNodeData" where
  "read_AmazonRedshiftNodeData x =
     \<lparr>AmazonRedshiftNodeData.AccessType = sdk_AmazonRedshiftNodeData.AccessType x,
      AmazonRedshiftNodeData.Action = sdk_AmazonRedshiftNodeData.Action x,
      AmazonRedshiftNodeData.AdvancedOptions = slice_read read_AmazonRedshiftAdvancedOption (sdk_AmazonRedshiftNodeData.AdvancedOptions x),
      AmazonRedshiftNodeData.CatalogDatabase = map_option read_Option (sdk_AmazonRedshiftNodeData.CatalogDatabase x),
      AmazonRedshiftNodeData.CatalogRedshiftSchema = sdk_AmazonRedshiftNodeData.CatalogRedshiftSchema x,
      AmazonRedshiftNodeData.CatalogRedshiftTable = sdk_AmazonRedshiftNodeData.CatalogRedshiftTable x,
      AmazonRedshiftNodeData.CatalogTable = map_option read_Option (sdk_AmazonRedshiftNodeData.CatalogTable x),
      AmazonRedshiftNodeData.Connection = map_option read_Option (sdk_AmazonRedshiftNodeData.Connection x),
      AmazonRedshiftNodeData.CrawlerConnection = sdk_AmazonRedshiftNodeData.CrawlerConnection x,
      AmazonRedshiftNodeData.IAMRole = map_option read_Option (sdk_AmazonRedshiftNodeData.IamRole x),
      AmazonRedshiftNodeData.MergeAction = sdk_AmazonRedshiftNodeData.MergeAction x,
      AmazonRedshiftNodeData.MergeClause = sdk_AmazonRedshiftNodeData.MergeClause x,
      AmazonRedshiftNodeData.MergeWhenMatched = sdk_AmazonRedshiftNodeData.MergeWhenMatched x,
      AmazonRedshiftNodeData.MergeWhenNotMatched = sdk_AmazonRedshiftNodeData.MergeWhenNotMatched x,
      AmazonRedshiftNodeData.PostAction = sdk_AmazonRedshiftNodeData.PostAction x,
      AmazonRedshiftNodeData.PreAction = sdk_AmazonRedshiftNodeData.PreAction x,
      AmazonRedshiftNodeData.SampleQuery = sdk_AmazonRedshiftNodeData.SampleQuery x,
      AmazonRedshiftNodeData.Schema = map_option read_Option (sdk_AmazonRedshiftNodeData.Schema x),
      AmazonRedshiftNodeData.SelectedColumns = slice_read read_Option (sdk_AmazonRedshiftNodeData.SelectedColumns x),
      AmazonRedshiftNodeData.SourceType = sdk_AmazonRedshiftNodeData.SourceType x,
      AmazonRedshiftNodeData.StagingTable = sdk_AmazonRedshiftNodeData.StagingTable x,
      AmazonRedshiftNodeData.Table = map_option read_Option (sdk_AmazonRedshiftNodeData.Table x),
      AmazonRedshiftNodeData.TablePrefix = sdk_AmazonRedshiftNodeData.TablePrefix x,
      AmazonRedshiftNodeData.TableSchema = slice_read read_Option (sdk_AmazonRedshiftNodeData.TableSchema x),
      AmazonRedshiftNodeData.TempDir = sdk_AmazonRedshiftNodeData.TempDir x,
      AmazonRedshiftNodeData.Upsert = Some (sdk_AmazonRedshiftNodeData.Upsert x)\<rparr>"

definition read_AmazonRedshiftSource :: "sdk_AmazonRedshiftSource \<Rightarrow> AmazonRedshiftSource" where
  "read_AmazonRedshiftSource x =
     \<lparr>AmazonRedshiftSource.Data = map_option read_AmazonRedshiftNodeData (sdk_AmazonRedshiftSource.Data x),
      AmazonRedshiftSource.Name = sdk_AmazonRedshiftSource.Name x\<rparr>"

definition read_AmazonRedshiftTarget :: "'e golib \<Rightarrow> sdk_AmazonRedshiftTarget \<Rightarrow> AmazonRedshiftTarget" where
  "read_AmazonRedshiftTarget lib x =
     \<lparr>AmazonRedshiftTarget.Data = map_option read_AmazonRedshiftNodeData (sdk_AmazonRedshiftTarget.Data x),
      AmazonRedshiftTarget.Inputs = map_option (aws_StringSlice lib) (sdk_AmazonRedshiftTarget.Inputs x),
      AmazonRedshiftTarget.Name = sdk_AmazonRedshiftTarget.Name x\<rparr>"

definition read_Mapping :: "'e golib \<Rightarrow> sdk_Mapping \<Rightarrow> Mapping" where
  "read_Mapping lib x =
     \<lparr>Mapping.Dropped = sdk_Mapping.Dropped x,
      Mapping.FromPath = map_option (aws_StringSlice lib) (sdk_Mapping.FromPath x),
      Mapping.FromType = sdk_Mapping.FromType x,
      Mapping.ToKey = sdk_Mapping.ToKey x,
      Mapping.ToType = sdk_Mapping.ToType x\<rparr>"

definition read_ApplyMapping :: "'e golib \<Rightarrow> sdk_ApplyMapping \<Rightarrow> ApplyMapping" where
  "read_ApplyMapping lib x =
     \<lparr>ApplyMapping.Inputs = map_option (aws_StringSlice lib) (sdk_ApplyMapping.Inputs x),
      ApplyMapping.Mapping = slice_read (read_Mapping lib) (sdk_ApplyMapping.Mapping x),
      ApplyMapping.Name = sdk_ApplyMapping.Name x\<rparr>"

definition read_GlueStudioSchemaColumn :: "sdk_GlueStudioSchemaColumn \<Rightarrow> GlueStudioSchemaColumn" where
  "read_GlueStudioSchemaColumn x =
     \<lparr>GlueStudioSchemaColumn.Name = sdk_GlueStudioSchemaColumn.Name x,
      GlueStudioSchemaColumn.Type = sdk_GlueStudioSchemaColumn.Type x\<rparr>"

definition read_GlueSchema :: "sdk_GlueSchema \<Rightarrow> GlueSchema" where
  "read_GlueSchema x =
     \<lparr>GlueSchema.Columns = slice_read read_GlueStudioSchemaColumn (sdk_GlueSchema.Columns x)\<rparr>"

definition read_AthenaConnectorSource :: "sdk_AthenaConnectorSource \<Rightarrow> AthenaConnectorSource" where
  "read_AthenaConnectorSource x =
     \<lparr>AthenaConnectorSource.ConnectionName = sdk_AthenaConnectorSource.ConnectionName x,
      AthenaConnectorSource.ConnectionTable = sdk_AthenaConnectorSource.ConnectionTable x,
      AthenaConnectorSource.ConnectionType = sdk_AthenaConnectorSource.ConnectionType x,
      AthenaConnectorSource.ConnectorName = sdk_AthenaConnectorSource.ConnectorName x,
      AthenaConnectorSource.Name = sdk_AthenaConnectorSource.Name x,
      AthenaConnectorSource.OutputSchemas = slice_read read_GlueSchema (sdk_AthenaConnectorSource.OutputSchemas x),
      AthenaConnectorSource.SchemaName = sdk_AthenaConnectorSource.SchemaName x\<rparr>"

definition read_CatalogDeltaSource :: "'e golib \<Rightarrow> sdk_CatalogDeltaSource \<Rightarrow> CatalogDeltaSource" where
  "read_CatalogDeltaSource lib x =
     \<lparr>CatalogDeltaSource.AdditionalDeltaOptions = map_option (aws_StringMap lib) (sdk_CatalogDeltaSource.AdditionalDeltaOptions x),
      CatalogDeltaSource.Database = sdk_CatalogDeltaSource.Database x,
      CatalogDeltaSource.Name = sdk_CatalogDeltaSource.Name x,
      CatalogDeltaSource.OutputSchemas = slice_read read_GlueSchema (sdk_CatalogDeltaSource.OutputSchemas x),
      CatalogDeltaSource.Table = sdk_CatalogDeltaSource.Table x\<rparr>"

definition read_CatalogHudiSource :: "'e golib \<Rightarrow> sdk_CatalogHudiSource \<Rightarrow> CatalogHudiSource" where
  "read_CatalogHudiSource lib x =
     \<lparr>CatalogHudiSource.AdditionalHudiOptions = map_option (aws_StringMap lib) (sdk_CatalogHudiSource.AdditionalHudiOptions x),
      CatalogHudiSource.Database = sdk_CatalogHudiSource.Database x,
      CatalogHudiSource.Name = sdk_CatalogHudiSource.Name x,
      CatalogHudiSource.OutputSchemas = slice_read read_GlueSchema (sdk_CatalogHudiSource.OutputSchemas x),
      CatalogHudiSource.Table = sdk_CatalogHudiSource.Table x\<rparr>"

definition read_StreamingDataPreviewOptions :: "sdk_StreamingDataPreviewOptions \<Rightarrow> StreamingDataPreviewOptions" where
  "read_StreamingDataPreviewOptions x =
     \<lparr>StreamingDataPreviewOptions.PollingTime = sdk_StreamingDataPreviewOptions.PollingTime x,
      StreamingDataPreviewOptions.RecordPollingLimit = sdk_StreamingDataPreviewOptions.RecordPollingLimit x\<rparr>"

definition read_KafkaStreamingSourceOptions :: "sdk_KafkaStreamingSourceOptions \<Rightarrow> KafkaStreamingSourceOptions" where
  "read_KafkaStreamingSourceOptions x =
     \<lparr>KafkaStreamingSourceOptions.AddRecordTimestamp = sdk_KafkaStreamingSourceOptions.AddRecordTimestamp x,
      KafkaStreamingSourceOptions.Assign = sdk_KafkaStreamingSourceOptions.Assign x,
      KafkaStreamingSourceOptions.BootstrapServers = sdk_KafkaStreamingSourceOptions.BootstrapServers x,
      KafkaStreamingSourceOptions.Classification = sdk_KafkaStreamingSourceOptions.Classification x,
      KafkaStreamingSourceOptions.ConnectionName = sdk_KafkaStreamingSourceOptions.ConnectionName x,
      KafkaStreamingSourceOptions.Delimiter = sdk_KafkaStreamingSourceOptions.Delimiter x,
      KafkaStreamingSourceOptions.EmitConsumerLagMetrics = sdk_KafkaStreamingSourceOptions.EmitConsumerLagMetrics x,
      KafkaStreamingSourceOptions.EndingOffsets = sdk_KafkaStreamingSourceOptions.EndingOffsets x,
      KafkaStreamingSourceOptions.IncludeHeaders = sdk_KafkaStreamingSourceOptions.IncludeHeaders x,
      KafkaStreamingSourceOptions.MaxOffsetsPerTrigger = sdk_KafkaStreamingSourceOptions.MaxOffsetsPerTrigger x,
      KafkaStreamingSourceOptions.MinPartitions = int32_read (sdk_KafkaStreamingSourceOptions.MinPartitions x),
      KafkaStreamingSourceOptions.NumRetries = int32_read (sdk_KafkaStreamingSourceOptions.NumRetries x),
      KafkaStreamingSourceOptions.PollTimeoutMs = sdk_KafkaStreamingSourceOptions.PollTimeoutMs x,
      KafkaStreamingSourceOptions.RetryIntervalMs = sdk_KafkaStreamingSourceOptions.RetryIntervalMs x,
      KafkaStreamingSourceOptions.SecurityProtocol = sdk_KafkaStreamingSourceOptions.SecurityProtocol x,
      KafkaStreamingSourceOptions.StartingOffsets = sdk_KafkaStreamingSourceOptions.StartingOffsets x,
      KafkaStreamingSourceOptions.StartingTimestamp = sdk_KafkaStreamingSourceOptions.StartingTimestamp x,
      KafkaStreamingSourceOptions.SubscribePattern = sdk_KafkaStreamingSourceOptions.SubscribePattern x,
      KafkaStreamingSourceOptions.TopicName = sdk_KafkaStreamingSourceOptions.TopicName x\<rparr>"

definition read_CatalogKafkaSource :: "sdk_CatalogKafkaSource \<Rightarrow> CatalogKafkaSource" where
  "read_CatalogKafkaSource x =
     \<lparr>CatalogKafkaSource.DataPreviewOptions = map_option read_StreamingDataPreviewOptions (sdk_CatalogKafkaSource.DataPreviewOptions x),
      CatalogKafkaSource.Database = sdk_CatalogKafkaSource.Database x,
      CatalogKafkaSource.DetectSchema = sdk_CatalogKafkaSource.DetectSchema x,
      CatalogKafkaSource.Name = sdk_CatalogKafkaSource.Name x,
      CatalogKafkaSource.StreamingOptions = map_option read_KafkaStreamingSourceOptions (sdk_CatalogKafkaSource.StreamingOptions x),
      CatalogKafkaSource.Table = sdk_CatalogKafkaSource.Table x,
      CatalogKafkaSource.WindowSize = int32_read (sdk_CatalogKafkaSource.WindowSize x)\<rparr>"

definition read_KinesisStreamingSourceOptions :: "'e golib \<Rightarrow> sdk_KinesisStreamingSourceOptions \<Rightarrow> KinesisStreamingSourceOptions" where
  "read_KinesisStreamingSourceOptions lib x =
     \<lparr>KinesisStreamingSourceOptions.AddIdleTimeBetweenReads = sdk_KinesisStreamingSourceOptions.AddIdleTimeBetweenReads x,
      KinesisStreamingSourceOptions.AddRecordTimestamp = sdk_KinesisStreamingSourceOptions.AddRecordTimestamp x,
      KinesisStreamingSourceOptions.AvoidEmptyBatches = sdk_KinesisStreamingSourceOptions.AvoidEmptyBatches x,
      KinesisStreamingSourceOptions.Classification = sdk_KinesisStreamingSourceOptions.Classification x,
      KinesisStreamingSourceOptions.Delimiter = sdk_KinesisStreamingSourceOptions.Delimiter x,
      KinesisStreamingSourceOptions.DescribeShardInterval = sdk_KinesisStreamingSourceOptions.DescribeShardInterval x,
      KinesisStreamingSourceOptions.EmitConsumerLagMetrics = sdk_KinesisStreamingSourceOptions.EmitConsumerLagMetrics x,
      KinesisStreamingSourceOptions.EndpointURL = sdk_KinesisStreamingSourceOptions.EndpointUrl x,
      KinesisStreamingSourceOptions.IdleTimeBetweenReadsInMs = sdk_KinesisStreamingSourceOptions.IdleTimeBetweenReadsInMs x,
      KinesisStreamingSourceOptions.MaxFetchRecordsPerShard = sdk_KinesisStreamingSourceOptions.MaxFetchRecordsPerShard x,
      KinesisStreamingSourceOptions.MaxFetchTimeInMs = sdk_KinesisStreamingSourceOptions.MaxFetchTimeInMs x,
      KinesisStreamingSourceOptions.MaxRecordPerRead = sdk_KinesisStreamingSourceOptions.MaxRecordPerRead x,
      KinesisStreamingSourceOptions.MaxRetryIntervalMs = sdk_KinesisStreamingSourceOptions.MaxRetryIntervalMs x,
      KinesisStreamingSourceOptions.NumRetries = int32_read (sdk_KinesisStreamingSourceOptions.NumRetries x),
      KinesisStreamingSourceOptions.RetryIntervalMs = sdk_KinesisStreamingSourceOptions.RetryIntervalMs x,
      KinesisStreamingSourceOptions.RoleARN = sdk_KinesisStreamingSourceOptions.RoleArn x,
      KinesisStreamingSourceOptions.RoleSessionName = sdk_KinesisStreamingSourceOptions.RoleSessionName x,
      KinesisStreamingSourceOptions.StartingPosition = enum_read lib (sdk_KinesisStreamingSourceOptions.StartingPosition x),
      KinesisStreamingSourceOptions.StartingTimestamp = sdk_KinesisStreamingSourceOptions.StartingTimestamp x,
      KinesisStreamingSourceOptions.StreamARN = sdk_KinesisStreamingSourceOptions.StreamArn x,
      KinesisStreamingSourceOptions.StreamName = sdk_KinesisStreamingSourceOptions.StreamName x\<rparr>"

definition read_CatalogKinesisSource :: "'e golib \<Rightarrow> sdk_CatalogKinesisSource \<Rightarrow> CatalogKinesisSource" where
  "read_CatalogKinesisSource lib x =
     \<lparr>CatalogKinesisSource.DataPreviewOptions = map_option read_StreamingDataPreviewOptions (sdk_CatalogKinesisSource.DataPreviewOptions x),
      CatalogKinesisSource.Database = sdk_CatalogKinesisSource.Database x,
      CatalogKinesisSource.DetectSchema = sdk_CatalogKinesisSource.DetectSchema x,
      CatalogKinesisSource.Name = sdk_CatalogKinesisSource.Name x,
      CatalogKinesisSource.StreamingOptions = map_option (read_KinesisStreamingSourceOptions lib) (sdk_CatalogKinesisSource.StreamingOptions x),
      CatalogKinesisSource.Table = sdk_CatalogKinesisSource.Table x,
      CatalogKinesisSource.WindowSize = int32_read (sdk_CatalogKinesisSource.WindowSize x)\<rparr>"

definition read_CatalogSource :: "sdk_CatalogSource \<Rightarrow> CatalogSource" where
  "read_CatalogSource x =
     \<lparr>CatalogSource.Database = sdk_CatalogSource.Database x,
      CatalogSource.Name = sdk_CatalogSource.Name x,
      CatalogSource.Table = sdk_CatalogSource.Table x\<rparr>"

definition read_BasicCatalogTarget :: "'e golib \<Rightarrow> sdk_BasicCatalogTarget \<Rightarrow> BasicCatalogTarget" where
  "read_BasicCatalogTarget lib x =
     \<lparr>BasicCatalogTarget.Database = sdk_BasicCatalogTarget.Database x,
      BasicCatalogTarget.Inputs = map_option (aws_StringSlice lib) (sdk_BasicCatalogTarget.Inputs x),
      BasicCatalogTarget.Name = sdk_BasicCatalogTarget.Name x,
      BasicCatalogTarget.PartitionKeys = map_option (map (aws_StringSlice lib)) (sdk_BasicCatalogTarget.PartitionKeys x),
      BasicCatalogTarget.Table = sdk_BasicCatalogTarget.Table x\<rparr>"

definition read_ConnectorDataSource :: "'e golib \<Rightarrow> sdk_ConnectorDataSource \<Rightarrow> ConnectorDataSource" where
  "read_ConnectorDataSource lib x =
     \<lparr>ConnectorDataSource.ConnectionType = sdk_ConnectorDataSource.ConnectionType x,
      ConnectorDataSource.Data = map_option (aws_StringMap lib) (sdk_ConnectorDataSource.Data x),
      ConnectorDataSource.Name = sdk_ConnectorDataSource.Name x,
      ConnectorDataSource.OutputSchemas = slice_read read_GlueSchema (sdk_ConnectorDataSource.OutputSchemas x)\<rparr>"

definition read_ConnectorDataTarget :: "'e golib \<Rightarrow> sdk_ConnectorDataTarget \<Rightarrow> ConnectorDataTarget" where
  "read_ConnectorDataTarget lib x =
     \<lparr>ConnectorDataTarget.ConnectionType = sdk_ConnectorDataTarget.ConnectionType x,
      ConnectorDataTarget.Data = map_option (aws_StringMap lib) (sdk_ConnectorDataTarget.Data x),
      ConnectorDataTarget.Inputs = map_option (aws_StringSlice lib) (sdk_ConnectorDataTarget.Inputs x),
      ConnectorDataTarget.Name = sdk_ConnectorDataTarget.Name x\<rparr>"

definition read_CustomCode :: "'e golib \<Rightarrow> sdk_CustomCode \<Rightarrow> CustomCode" where
  "read_CustomCode lib x =
     \<lparr>CustomCode.ClassName = sdk_CustomCode.ClassName x,
      CustomCode.Code = sdk_CustomCode.Code x,
      CustomCode.Inputs = map_option (aws_StringSlice lib) (sdk_CustomCode.Inputs x),
      CustomCode.Name = sdk_CustomCode.Name x,
      CustomCode.OutputSchemas = slice_read read_GlueSchema (sdk_CustomCode.OutputSchemas x)\<rparr>"

definition read_DirectJDBCSource :: "'e golib \<Rightarrow> sdk_DirectJDBCSource \<Rightarrow> DirectJDBCSource" where
  "read_DirectJDBCSource lib x =
     \<lparr>DirectJDBCSource.ConnectionName = sdk_DirectJDBCSource.ConnectionName x,
      DirectJDBCSource.ConnectionType = enum_read lib (sdk_DirectJDBCSource.ConnectionType x),
      DirectJDBCSource.Database = sdk_DirectJDBCSource.Database x,
      DirectJDBCSource.Name = sdk_DirectJDBCSource.Name x,
      DirectJDBCSource.RedshiftTmpDir = sdk_DirectJDBCSource.RedshiftTmpDir x,
      DirectJDBCSource.Table = sdk_DirectJDBCSource.Table x\<rparr>"

definition read_DirectKafkaSource :: "sdk_DirectKafkaSource \<Rightarrow> DirectKafkaSource" where
  "read_DirectKafkaSource x =
     \<lparr>DirectKafkaSource.DataPreviewOptions = map_option read_StreamingDataPreviewOptions (sdk_DirectKafkaSource.DataPreviewOptions x),
      DirectKafkaSource.DetectSchema = sdk_DirectKafkaSource.DetectSchema x,
      DirectKafkaSource.Name = sdk_DirectKafkaSource.Name x,
      DirectKafkaSource.StreamingOptions = map_option read_KafkaStreamingSourceOptions (sdk_DirectKafkaSource.StreamingOptions x),
      DirectKafkaSource.WindowSize = int32_read (sdk_DirectKafkaSource.WindowSize x)\<rparr>"

definition read_DirectKinesisSource :: "'e golib \<Rightarrow> sdk_DirectKinesisSource \<Rightarrow> DirectKinesisSource" where
  "read_DirectKinesisSource lib x =
     \<lparr>DirectKinesisSource.DataPreviewOptions = map_option read_StreamingDataPreviewOptions (sdk_DirectKinesisSource.DataPreviewOptions x),
      DirectKinesisSource.DetectSchema = sdk_DirectKinesisSource.DetectSchema x,
      DirectKinesisSource.Name = sdk_DirectKinesisSource.Name x,
      DirectKinesisSource.StreamingOptions = map_option (read_KinesisStreamingSourceOptions lib) (sdk_DirectKinesisSource.StreamingOptions x),
      DirectKinesisSource.WindowSize = int32_read (sdk_DirectKinesisSource.WindowSize x)\<rparr>"

definition read_DropDuplicates :: "'e golib \<Rightarrow> sdk_DropDuplicates \<Rightarrow> DropDuplicates" where
  "read_DropDuplicates lib x =
     \<lparr>DropDuplicates.Columns = map_option (map (aws_StringSlice lib)) (sdk_DropDuplicates.Columns x),
      DropDuplicates.Inputs = map_option (aws_StringSlice lib) (sdk_DropDuplicates.Inputs x),
      DropDuplicates.Name = sdk_DropDuplicates.Name x\<rparr>"

definition read_DropFields :: "'e golib \<Rightarrow> sdk_DropFields \<Rightarrow> DropFields" where
  "read_DropFields lib x =
     \<lparr>DropFields.Inputs = map_option (aws_StringSlice lib) (sdk_DropFields.Inputs x),
      DropFields.Name = sdk_DropFields.Name x,
      DropFields.Paths = map_option (map (aws_StringSlice lib)) (sdk_DropFields.Paths x)\<rparr>"

definition read_NullCheckBoxList :: "sdk_NullCheckBoxList \<Rightarrow> NullCheckBoxList" where
  "read_NullCheckBoxList x =
     \<lparr>NullCheckBoxList.IsEmpty = sdk_NullCheckBoxList.IsEmpty x,
      NullCheckBoxList.IsNegOne = sdk_NullCheckBoxList.IsNegOne x,
      NullCheckBoxList.IsNullString = sdk_NullCheckBoxList.IsNullString x\<rparr>"

definition read_Datatype :: "sdk_Datatype \<Rightarrow> Datatype" where
  "read_Datatype x =
     \<lparr>Datatype.ID = sdk_Datatype.Id x,
      Datatype.Label = sdk_Datatype.Label x\<rparr>"

definition read_NullValueField :: "sdk_NullValueField \<Rightarrow> NullValueField" where
  "read_NullValueField x =
     \<lparr>NullValueField.Datatype = map_option read_Datatype (sdk_NullValueField.Datatype x),
      NullValueField.Value = sdk_NullValueField.Value x\<rparr>"

definition read_DropNullFields :: "'e golib \<Rightarrow> sdk_DropNullFields \<Rightarrow> DropNullFields" where
  "read_DropNullFields lib x =
     \<lparr>DropNullFields.Inputs = map_option (aws_StringSlice lib) (sdk_DropNullFields.Inputs x),
      DropNullFields.Name = sdk_DropNullFields.Name x,
      DropNullFields.NullCheckBoxList = map_option read_NullCheckBoxList (sdk_DropNullFields.NullCheckBoxList x),
      DropNullFields.NullTextList = slice_read read_NullValueField (sdk_DropNullFields.NullTextList x)\<rparr>"

definition read_TransformConfigParameter :: "'e golib \<Rightarrow> sdk_TransformConfigParameter \<Rightarrow> TransformConfigParameter" where
  "read_TransformConfigParameter lib x =
     \<lparr>TransformConfigParameter.IsOptional = sdk_TransformConfigParameter.IsOptional x,
      TransformConfigParameter.ListType = enum_read lib (sdk_TransformConfigParameter.ListType x),
      TransformConfigParameter.Name = sdk_TransformConfigParameter.Name x,
      TransformConfigParameter.Type = enum_read lib (sdk_TransformConfigParameter.Type x),
      TransformConfigParameter.ValidationMessage = sdk_TransformConfigParameter.ValidationMessage x,
      TransformConfigParameter.ValidationRule = sdk_TransformConfigParameter.ValidationRule x,
      TransformConfigParameter.Value = map_option (aws_StringSlice lib) (sdk_TransformConfigParameter.Value x)\<rparr>"

definition read_DynamicTransform :: "'e golib \<Rightarrow> sdk_DynamicTransform \<Rightarrow> DynamicTransform" where
  "read_DynamicTransform lib x =
     \<lparr>DynamicTransform.FunctionName = sdk_DynamicTransform.FunctionName x,
      DynamicTransform.Inputs = map_option (aws_StringSlice lib) (sdk_DynamicTransform.Inputs x),
      DynamicTransform.Name = sdk_DynamicTransform.Name x,
      DynamicTransform.OutputSchemas = slice_read read_GlueSchema (sdk_DynamicTransform.OutputSchemas x),
      DynamicTransform.Parameters = slice_read (read_TransformConfigParameter lib) (sdk_DynamicTransform.Parameters x),
      DynamicTransform.Path = sdk_DynamicTransform.Path x,
      DynamicTransform.TransformName = sdk_DynamicTransform.TransformName x,
      DynamicTransform.Version = sdk_DynamicTransform.Version x\<rparr>"

definition read_DynamoDBCatalogSource :: "sdk_DynamoDBCatalogSource \<Rightarrow> DynamoDBCatalogSource" where
  "read_DynamoDBCatalogSource x =
     \<lparr>DynamoDBCatalogSource.Database = sdk_DynamoDBCatalogSource.Database x,
      DynamoDBCatalogSource.Name = sdk_DynamoDBCatalogSource.Name x,
      DynamoDBCatalogSource.Table = sdk_DynamoDBCatalogSource.Table x\<rparr>"

definition read_DQResultsPublishingOptions :: "sdk_DQResultsPublishingOptions \<Rightarrow> DQResultsPublishingOptions" where
  "read_DQResultsPublishingOptions x =
     \<lparr>DQResultsPublishingOptions.CloudWatchMetricsEnabled = sdk_DQResultsPublishingOptions.CloudWatchMetricsEnabled x,
      DQResultsPublishingOptions.EvaluationContext = sdk_DQResultsPublishingOptions.EvaluationContext x,
      DQResultsPublishingOptions.ResultsPublishingEnabled = sdk_DQResultsPublishingOptions.ResultsPublishingEnabled x,
      DQResultsPublishingOptions.ResultsS3Prefix = sdk_DQResultsPublishingOptions.ResultsS3Prefix x\<rparr>"

definition read_DQStopJobOnFailureOptions :: "'e golib \<Rightarrow> sdk_DQStopJobOnFailureOptions \<Rightarrow> DQStopJobOnFailureOptions" where
  "read_DQStopJobOnFailureOptions lib x =
     \<lparr>DQStopJobOnFailureOptions.StopJobOnFailureTiming = enum_read lib (sdk_DQStopJobOnFailureOptions.StopJobOnFailureTiming x)\<rparr>"

definition read_EvaluateDataQuality :: "'e golib \<Rightarrow> sdk_EvaluateDataQuality \<Rightarrow> EvaluateDataQuality" where
  "read_EvaluateDataQuality lib x =
     \<lparr>EvaluateDataQuality.Inputs = map_option (aws_StringSlice lib) (sdk_EvaluateDataQuality.Inputs x),
      EvaluateDataQuality.Name = sdk_EvaluateDataQuality.Name x,
      EvaluateDataQuality.Output = enum_read lib (sdk_EvaluateDataQuality.Output x),
      EvaluateDataQuality.PublishingOptions = map_option read_DQResultsPublishingOptions (sdk_EvaluateDataQuality.PublishingOptions x),
      EvaluateDataQuality.Ruleset = sdk_EvaluateDataQuality.Ruleset x,
      EvaluateDataQuality.StopJobOnFailureOptions = map_option (read_DQStopJobOnFailureOptions lib) (sdk_EvaluateDataQuality.StopJobOnFailureOptions x)\<rparr>"

definition read_EvaluateDataQualityMultiFrame :: "'e golib \<Rightarrow> sdk_EvaluateDataQualityMultiFrame \<Rightarrow> EvaluateDataQualityMultiFrame" where
  "read_EvaluateDataQualityMultiFrame lib x =
     \<lparr>EvaluateDataQualityMultiFrame.AdditionalDataSources = map_option (aws_StringMap lib) (sdk_EvaluateDataQualityMultiFrame.AdditionalDataSources x),
      EvaluateDataQualityMultiFrame.AdditionalOptions = map_option (aws_StringMap lib) (sdk_EvaluateDataQualityMultiFrame.AdditionalOptions x),
      EvaluateDataQualityMultiFrame.Inputs = map_option (aws_StringSlice lib) (sdk_EvaluateDataQualityMultiFrame.Inputs x),
      EvaluateDataQualityMultiFrame.Name = sdk_EvaluateDataQualityMultiFrame.Name x,
      EvaluateDataQualityMultiFrame.PublishingOptions = map_option read_DQResultsPublishingOptions (sdk_EvaluateDataQualityMultiFrame.PublishingOptions x),
      EvaluateDataQualityMultiFrame.Ruleset = sdk_EvaluateDataQualityMultiFrame.Ruleset x,
      EvaluateDataQualityMultiFrame.StopJobOnFailureOptions = map_option (read_DQStopJobOnFailureOptions lib) (sdk_EvaluateDataQualityMultiFrame.StopJobOnFailureOptions x)\<rparr>"

definition read_FillMissingValues :: "'e golib \<Rightarrow> sdk_FillMissingValues \<Rightarrow> FillMissingValues" where
  "read_FillMissingValues lib x =
     \<lparr>FillMissingValues.FilledPath = sdk_FillMissingValues.FilledPath x,
      FillMissingValues.ImputedPath = sdk_FillMissingValues.ImputedPath x,
      FillMissingValues.Inputs = map_option (aws_StringSlice lib) (sdk_FillMissingValues.Inputs x),
      FillMissingValues.Name = sdk_FillMissingValues.Name x\<rparr>"

definition read_FilterValue :: "'e golib \<Rightarrow> sdk_FilterValue \<Rightarrow> FilterValue" where
  "read_FilterValue lib x =
     \<lparr>FilterValue.Type = enum_read lib (sdk_FilterValue.Type x),
      FilterValue.Value = map_option (aws_StringSlice lib) (sdk_FilterValue.Value x)\<rparr>"

definition read_FilterExpression :: "'e golib \<Rightarrow> sdk_FilterExpression \<Rightarrow> FilterExpression" where
  "read_FilterExpression lib x =
     \<lparr>FilterExpression.Negated = sdk_FilterExpression.Negated x,
      FilterExpression.Operation = enum_read lib (sdk_FilterExpression.Operation x),
      FilterExpression.Values = slice_read (read_FilterValue lib) (sdk_FilterExpression.Values x)\<rparr>"

definition read_Filter :: "'e golib \<Rightarrow> sdk_Filter \<Rightarrow> Filter" where
  "read_Filter lib x =
     \<lparr>Filter.Filters = slice_read (read_FilterExpression lib) (sdk_Filter.Filters x),
      Filter.Inputs = map_option (aws_StringSlice lib) (sdk_Filter.Inputs x),
      Filter.LogicalOperator = enum_read lib (sdk_Filter.LogicalOperator x),
      Filter.Name = sdk_Filter.Name x\<rparr>"

definition read_S3SourceAdditionalOptions :: "sdk_S3SourceAdditionalOptions \<Rightarrow> S3SourceAdditionalOptions" where
  "read_S3SourceAdditionalOptions x =
     \<lparr>S3SourceAdditionalOptions.BoundedFiles = sdk_S3SourceAdditionalOptions.BoundedFiles x,
      S3SourceAdditionalOptions.BoundedSize = sdk_S3SourceAdditionalOptions.BoundedSize x\<rparr>"

definition read_GovernedCatalogSource :: "sdk_GovernedCatalogSource \<Rightarrow> GovernedCatalogSource" where
  "read_GovernedCatalogSource x =
     \<lparr>GovernedCatalogSource.AdditionalOptions = map_option read_S3SourceAdditionalOptions (sdk_GovernedCatalogSource.AdditionalOptions x),
      GovernedCatalogSource.Database = sdk_GovernedCatalogSource.Database x,
      GovernedCatalogSource.Name = sdk_GovernedCatalogSource.Name x,
      GovernedCatalogSource.PartitionPredicate = sdk_GovernedCatalogSource.PartitionPredicate x,
      GovernedCatalogSource.Table = sdk_GovernedCatalogSource.Table x\<rparr>"

definition read_CatalogSchemaChangePolicy :: "'e golib \<Rightarrow> sdk_CatalogSchemaChangePolicy \<Rightarrow> CatalogSchemaChangePolicy" where
  "read_CatalogSchemaChangePolicy lib x =
     \<lparr>CatalogSchemaChangePolicy.EnableUpdateCatalog = sdk_CatalogSchemaChangePolicy.EnableUpdateCatalog x,
      CatalogSchemaChangePolicy.UpdateBehavior = enum_read lib (sdk_CatalogSchemaChangePolicy.UpdateBehavior x)\<rparr>"

definition read_GovernedCatalogTarget :: "'e golib \<Rightarrow> sdk_GovernedCatalogTarget \<Rightarrow> GovernedCatalogTarget" where
  "read_GovernedCatalogTarget lib x =
     \<lparr>GovernedCatalogTarget.Database = sdk_GovernedCatalogTarget.Database x,
      GovernedCatalogTarget.Inputs = map_option (aws_StringSlice lib) (sdk_GovernedCatalogTarget.Inputs x),
      GovernedCatalogTarget.Name = sdk_GovernedCatalogTarget.Name x,
      GovernedCatalogTarget.PartitionKeys = map_option (map (aws_StringSlice lib)) (sdk_GovernedCatalogTarget.PartitionKeys x),
      GovernedCatalogTarget.SchemaChangePolicy = map_option (read_CatalogSchemaChangePolicy lib) (sdk_GovernedCatalogTarget.SchemaChangePolicy x),
      GovernedCatalogTarget.Table = sdk_GovernedCatalogTarget.Table x\<rparr>"

definition read_JDBCConnectorOptions :: "'e golib \<Rightarrow> map_order \<Rightarrow> sdk_JDBCConnectorOptions \<Rightarrow> JDBCConnectorOptions" where
  "read_JDBCConnectorOptions lib ord x =
     \<lparr>JDBCConnectorOptions.DataTypeMapping = map_option (range_copy ord (aws_String lib)) (sdk_JDBCConnectorOptions.DataTypeMapping x),
      JDBCConnectorOptions.FilterPredicate = sdk_JDBCConnectorOptions.FilterPredicate x,
      JDBCConnectorOptions.JobBookmarkKeys = map_option (aws_StringSlice lib) (sdk_JDBCConnectorOptions.JobBookmarkKeys x),
      JDBCConnectorOptions.JobBookmarkKeysSortOrder = sdk_JDBCConnectorOptions.JobBookmarkKeysSortOrder x,
      JDBCConnectorOptions.LowerBound = sdk_JDBCConnectorOptions.LowerBound x,
      JDBCConnectorOptions.NumPartitions = sdk_JDBCConnectorOptions.NumPartitions x,
      JDBCConnectorOptions.PartitionColumn = sdk_JDBCConnectorOptions.PartitionColumn x,
      JDBCConnectorOptions.UpperBound = sdk_JDBCConnectorOptions.UpperBound x\<rparr>"

definition read_JDBCConnectorSource :: "'e golib \<Rightarrow> map_order \<Rightarrow> sdk_JDBCConnectorSource \<Rightarrow> JDBCConnectorSource" where
  "read_JDBCConnectorSource lib ord x =
     \<lparr>JDBCConnectorSource.AdditionalOptions = map_option (read_JDBCConnectorOptions lib ord) (sdk_JDBCConnectorSource.AdditionalOptions x),
      JDBCConnectorSource.ConnectionName = sdk_JDBCConnectorSource.ConnectionName x,
      JDBCConnectorSource.ConnectionTable = sdk_JDBCConnectorSource.ConnectionTable x,
      JDBCConnectorSource.ConnectionType = sdk_JDBCConnectorSource.ConnectionType x,
      JDBCConnectorSource.ConnectorName = sdk_JDBCConnectorSource.ConnectorName x,
      JDBCConnectorSource.Name = sdk_JDBCConnectorSource.Name x,
      JDBCConnectorSource.OutputSchemas = slice_read read_GlueSchema (sdk_JDBCConnectorSource.OutputSchemas x),
      JDBCConnectorSource.Query = sdk_JDBCConnectorSource.Query x\<rparr>"

definition read_JDBCConnectorTarget :: "'e golib \<Rightarrow> sdk_JDBCConnectorTarget \<Rightarrow> JDBCConnectorTarget" where
  "read_JDBCConnectorTarget lib x =
     \<lparr>JDBCConnectorTarget.AdditionalOptions = map_option (aws_StringMap lib) (sdk_JDBCConnectorTarget.AdditionalOptions x),
      JDBCConnectorTarget.ConnectionName = sdk_JDBCConnectorTarget.ConnectionName x,
      JDBCConnectorTarget.ConnectionTable = sdk_JDBCConnectorTarget.ConnectionTable x,
      JDBCConnectorTarget.ConnectionType = sdk_JDBCConnectorTarget.ConnectionType x,
      JDBCConnectorTarget.ConnectorName = sdk_JDBCConnectorTarget.ConnectorName x,
      JDBCConnectorTarget.Inputs = map_option (aws_StringSlice lib) (sdk_JDBCConnectorTarget.Inputs x),
      JDBCConnectorTarget.Name = sdk_JDBCConnectorTarget.Name x,
      JDBCConnectorTarget.OutputSchemas = slice_read read_GlueSchema (sdk_JDBCConnectorTarget.OutputSchemas x)\<rparr>"

definition read_JoinColumn :: "'e golib \<Rightarrow> sdk_JoinColumn \<Rightarrow> JoinColumn" where
  "read_JoinColumn lib x =
     \<lparr>JoinColumn.From = sdk_JoinColumn.From x,
      JoinColumn.Keys = map_option (map (aws_StringSlice lib)) (sdk_JoinColumn.Keys x)\<rparr>"

definition read_Join :: "'e golib \<Rightarrow> sdk_Join \<Rightarrow> Join" where
  "read_Join lib x =
     \<lparr>Join.Columns = slice_read (read_JoinColumn lib) (sdk_Join.Columns x),
      Join.Inputs = map_option (aws_StringSlice lib) (sdk_Join.Inputs x),
      Join.JoinType = enum_read lib (sdk_Join.JoinType x),
      Join.Name = sdk_Join.Name x\<rparr>"

definition read_Merge :: "'e golib \<Rightarrow> sdk_Merge \<Rightarrow> Merge" where
  "read_Merge lib x =
     \<lparr>Merge.Inputs = map_option (aws_StringSlice lib) (sdk_Merge.Inputs x),
      Merge.Name = sdk_Merge.Name x,
      Merge.PrimaryKeys = map_option (map (aws_StringSlice lib)) (sdk_Merge.PrimaryKeys x),
      Merge.Source = sdk_Merge.Source x\<rparr>"

definition read_MicrosoftSQLServerCatalogSource :: "sdk_MicrosoftSQLServerCatalogSource \<Rightarrow> MicrosoftSQLServerCatalogSource" where
  "read_MicrosoftSQLServerCatalogSource x =
     \<lparr>MicrosoftSQLServerCatalogSource.Database = sdk_MicrosoftSQLServerCatalogSource.Database x,
      MicrosoftSQLServerCatalogSource.Name = sdk_MicrosoftSQLServerCatalogSource.Name x,
      MicrosoftSQLServerCatalogSource.Table = sdk_MicrosoftSQLServerCatalogSource.Table x\<rparr>"

definition read_MicrosoftSQLServerCatalogTarget :: "'e golib \<Rightarrow> sdk_MicrosoftSQLServerCatalogTarget \<Rightarrow> MicrosoftSQLServerCatalogTarget" where
  "read_MicrosoftSQLServerCatalogTarget lib x =
     \<lparr>MicrosoftSQLServerCatalogTarget.Database = sdk_MicrosoftSQLServerCatalogTarget.Database x,
      MicrosoftSQLServerCatalogTarget.Inputs = map_option (aws_StringSlice lib) (sdk_MicrosoftSQLServerCatalogTarget.Inputs x),
      MicrosoftSQLServerCatalogTarget.Name = sdk_MicrosoftSQLServerCatalogTarget.Name x,
      MicrosoftSQLServerCatalogTarget.Table = sdk_MicrosoftSQLServerCatalogTarget.Table x\<rparr>"

definition read_MySQLCatalogSource :: "sdk_MySQLCatalogSource \<Rightarrow> MySQLCatalogSource" where
  "read_MySQLCatalogSource x =
     \<lparr>MySQLCatalogSource.Database = sdk_MySQLCatalogSource.Database x,
      MySQLCatalogSource.Name = sdk_MySQLCatalogSource.Name x,
      MySQLCatalogSource.Table = sdk_MySQLCatalogSource.Table x\<rparr>"

definition read_MySQLCatalogTarget :: "'e golib \<Rightarrow> sdk_MySQLCatalogTarget \<Rightarrow> MySQLCatalogTarget" where
  "read_MySQLCatalogTarget lib x =
     \<lparr>MySQLCatalogTarget.Database = sdk_MySQLCatalogTarget.Database x,
      MySQLCatalogTarget.Inputs = map_option (aws_StringSlice lib) (sdk_MySQLCatalogTarget.Inputs x),
      MySQLCatalogTarget.Name = sdk_MySQLCatalogTarget.Name x,
      MySQLCatalogTarget.Table = sdk_MySQLCatalogTarget.Table x\<rparr>"

definition read_OracleSQLCatalogSource :: "sdk_OracleSQLCatalogSource \<Rightarrow> OracleSQLCatalogSource" where
  "read_OracleSQLCatalogSource x =
     \<lparr>OracleSQLCatalogSource.Database = sdk_OracleSQLCatalogSource.Database x,
      OracleSQLCatalogSource.Name = sdk_OracleSQLCatalogSource.Name x,
      OracleSQLCatalogSource.Table = sdk_OracleSQLCatalogSource.Table x\<rparr>"

definition read_OracleSQLCatalogTarget :: "'e golib \<Rightarrow> sdk_OracleSQLCatalogTarget \<Rightarrow> OracleSQLCatalogTarget" where
  "read_OracleSQLCatalogTarget lib x =
     \<lparr>OracleSQLCatalogTarget.Database = sdk_OracleSQLCatalogTarget.Database x,
      OracleSQLCatalogTarget.Inputs = map_option (aws_StringSlice lib) (sdk_OracleSQLCatalogTarget.Inputs x),
      OracleSQLCatalogTarget.Name = sdk_OracleSQLCatalogTarget.Name x,
      OracleSQLCatalogTarget.Table = sdk_OracleSQLCatalogTarget.Table x\<rparr>"

definition read_PIIDetection :: "'e golib \<Rightarrow> sdk_PIIDetection \<Rightarrow> PIIDetection" where
  "read_PIIDetection lib x =
     \<lparr>PIIDetection.EntityTypesToDetect = map_option (aws_StringSlice lib) (sdk_PIIDetection.EntityTypesToDetect x),
      PIIDetection.Inputs = map_option (aws_StringSlice lib) (sdk_PIIDetection.Inputs x),
      PIIDetection.MaskValue = sdk_PIIDetection.MaskValue x,
      PIIDetection.Name = sdk_PIIDetection.Name x,
      PIIDetection.OutputColumnName = sdk_PIIDetection.OutputColumnName x,
      PIIDetection.PiiType = enum_read lib (sdk_PIIDetection.PiiType x),
      PIIDetection.SampleFraction = sdk_PIIDetection.SampleFraction x,
      PIIDetection.ThresholdFraction = sdk_PIIDetection.ThresholdFraction x\<rparr>"

definition read_PostgreSQLCatalogSource :: "sdk_PostgreSQLCatalogSource \<Rightarrow> PostgreSQLCatalogSource" where
  "read_PostgreSQLCatalogSource x =
     \<lparr>PostgreSQLCatalogSource.Database = sdk_PostgreSQLCatalogSource.Database x,
      PostgreSQLCatalogSource.Name = sdk_PostgreSQLCatalogSource.Name x,
      PostgreSQLCatalogSource.Table = sdk_PostgreSQLCatalogSource.Table x\<rparr>"

definition read_PostgreSQLCatalogTarget :: "'e golib \<Rightarrow> sdk_PostgreSQLCatalogTarget \<Rightarrow> PostgreSQLCatalogTarget" where
  "read_PostgreSQLCatalogTarget lib x =
     \<lparr>PostgreSQLCatalogTarget.Database = sdk_PostgreSQLCatalogTarget.Database x,
      PostgreSQLCatalogTarget.Inputs = map_option (aws_StringSlice lib) (sdk_PostgreSQLCatalogTarget.Inputs x),
      PostgreSQLCatalogTarget.Name = sdk_PostgreSQLCatalogTarget.Name x,
      PostgreSQLCatalogTarget.Table = sdk_PostgreSQLCatalogTarget.Table x\<rparr>"

definition read_RecipeReference :: "sdk_RecipeReference \<Rightarrow> RecipeReference" where
  "read_RecipeReference x =
     \<lparr>RecipeReference.RecipeARN = sdk_RecipeReference.RecipeArn x,
      RecipeReference.RecipeVersion = sdk_RecipeReference.RecipeVersion x\<rparr>"

definition read_RecipeAction :: "'e golib \<Rightarrow> sdk_RecipeAction \<Rightarrow> RecipeAction" where
  "read_RecipeAction lib x =
     \<lparr>RecipeAction.Operation = sdk_RecipeAction.Operation x,
      RecipeAction.Parameters = map_option (aws_StringMap lib) (sdk_RecipeAction.Parameters x)\<rparr>"

definition read_ConditionExpression :: "sdk_ConditionExpression \<Rightarrow> ConditionExpression" where
  "read_ConditionExpression x =
     \<lparr>ConditionExpression.Condition = sdk_ConditionExpression.Condition x,
      ConditionExpression.TargetColumn = sdk_ConditionExpression.TargetColumn x,
      ConditionExpression.Value = sdk_ConditionExpression.Value x\<rparr>"

definition read_RecipeStep :: "'e golib \<Rightarrow> sdk_RecipeStep \<Rightarrow> RecipeStep" where
  "read_RecipeStep lib x =
     \<lparr>RecipeStep.Action = map_option (read_RecipeAction lib) (sdk_RecipeStep.Action x),
      RecipeStep.ConditionExpressions = slice_read read_ConditionExpression (sdk_RecipeStep.ConditionExpressions x)\<rparr>"

definition read_Recipe :: "'e golib \<Rightarrow> sdk_Recipe \<Rightarrow> Recipe" where
  "read_Recipe lib x =
     \<lparr>Recipe.Inputs = map_option (aws_StringSlice lib) (sdk_Recipe.Inputs x),
      Recipe.Name = sdk_Recipe.Name x,
      Recipe.RecipeReference = map_option read_RecipeReference (sdk_Recipe.RecipeReference x),
      Recipe.RecipeSteps = slice_read (read_RecipeStep lib) (sdk_Recipe.RecipeSteps x)\<rparr>"

definition read_RedshiftSource :: "sdk_RedshiftSource \<Rightarrow> RedshiftSource" where
  "read_RedshiftSource x =
     \<lparr>RedshiftSource.Database = sdk_RedshiftSource.Database x,
      RedshiftSource.Name = sdk_RedshiftSource.Name x,
      RedshiftSource.RedshiftTmpDir = sdk_RedshiftSource.RedshiftTmpDir x,
      RedshiftSource.Table = sdk_RedshiftSource.Table x,
      RedshiftSource.TmpDirIAMRole = sdk_RedshiftSource.TmpDirIAMRole x\<rparr>"

definition read_UpsertRedshiftTargetOptions :: "'e golib \<Rightarrow> sdk_UpsertRedshiftTargetOptions \<Rightarrow> UpsertRedshiftTargetOptions" where
  "read_UpsertRedshiftTargetOptions lib x =
     \<lparr>UpsertRedshiftTargetOptions.ConnectionName = sdk_UpsertRedshiftTargetOptions.ConnectionName x,
      UpsertRedshiftTargetOptions.TableLocation = sdk_UpsertRedshiftTargetOptions.TableLocation x,
      UpsertRedshiftTargetOptions.UpsertKeys = map_option (aws_StringSlice lib) (sdk_UpsertRedshiftTargetOptions.UpsertKeys x)\<rparr>"

definition read_RedshiftTarget :: "'e golib \<Rightarrow> sdk_RedshiftTarget \<Rightarrow> RedshiftTarget" where
  "read_RedshiftTarget lib x =
     \<lparr>RedshiftTarget.Database = sdk_RedshiftTarget.Database x,
      RedshiftTarget.Inputs = map_option (aws_StringSlice lib) (sdk_RedshiftTarget.Inputs x),
      RedshiftTarget.Name = sdk_RedshiftTarget.Name x,
      RedshiftTarget.RedshiftTmpDir = sdk_RedshiftTarget.RedshiftTmpDir x,
      RedshiftTarget.Table = sdk_RedshiftTarget.Table x,
      RedshiftTarget.TmpDirIAMRole = sdk_RedshiftTarget.TmpDirIAMRole x,
      RedshiftTarget.UpsertRedshiftOptions = map_option (read_UpsertRedshiftTargetOptions lib) (sdk_RedshiftTarget.UpsertRedshiftOptions x)\<rparr>"

definition read_RelationalCatalogSource :: "sdk_RelationalCatalogSource \<Rightarrow> RelationalCatalogSource" where
  "read_RelationalCatalogSource x =
     \<lparr>RelationalCatalogSource.Database = sdk_RelationalCatalogSource.Database x,
      RelationalCatalogSource.Name = sdk_RelationalCatalogSource.Name x,
      RelationalCatalogSource.Table = sdk_RelationalCatalogSource.Table x\<rparr>"

definition read_RenameField :: "'e golib \<Rightarrow> sdk_RenameField \<Rightarrow> RenameField" where
  "read_RenameField lib x =
     \<lparr>RenameField.Inputs = map_option (aws_StringSlice lib) (sdk_RenameField.Inputs x),
      RenameField.Name = sdk_RenameField.Name x,
      RenameField.SourcePath = map_option (aws_StringSlice lib) (sdk_RenameField.SourcePath x),
      RenameField.TargetPath = map_option (aws_StringSlice lib) (sdk_RenameField.TargetPath x)\<rparr>"

definition read_S3CatalogDeltaSource :: "'e golib \<Rightarrow> sdk_S3CatalogDeltaSource \<Rightarrow> S3CatalogDeltaSource" where
  "read_S3CatalogDeltaSource lib x =
     \<lparr>S3CatalogDeltaSource.AdditionalDeltaOptions = map_option (aws_StringMap lib) (sdk_S3CatalogDeltaSource.AdditionalDeltaOptions x),
      S3CatalogDeltaSource.Database = sdk_S3CatalogDeltaSource.Database x,
      S3CatalogDeltaSource.Name = sdk_S3CatalogDeltaSource.Name x,
      S3CatalogDeltaSource.OutputSchemas = slice_read read_GlueSchema (sdk_S3CatalogDeltaSource.OutputSchemas x),
      S3CatalogDeltaSource.Table = sdk_S3CatalogDeltaSource.Table x\<rparr>"

definition read_S3CatalogHudiSource :: "'e golib \<Rightarrow> sdk_S3CatalogHudiSource \<Rightarrow> S3CatalogHudiSource" where
  "read_S3CatalogHudiSource lib x =
     \<lparr>S3CatalogHudiSource.AdditionalHudiOptions = map_option (aws_StringMap lib) (sdk_S3CatalogHudiSource.AdditionalHudiOptions x),
      S3CatalogHudiSource.Database = sdk_S3CatalogHudiSource.Database x,
      S3CatalogHudiSource.Name = sdk_S3CatalogHudiSource.Name x,
      S3CatalogHudiSource.OutputSchemas = slice_read read_GlueSchema (sdk_S3CatalogHudiSource.OutputSchemas x),
      S3CatalogHudiSource.Table = sdk_S3CatalogHudiSource.Table x\<rparr>"

definition read_S3CatalogSource :: "sdk_S3CatalogSource \<Rightarrow> S3CatalogSource" where
  "read_S3CatalogSource x =
     \<lparr>S3CatalogSource.AdditionalOptions = map_option read_S3SourceAdditionalOptions (sdk_S3CatalogSource.AdditionalOptions x),
      S3CatalogSource.Database = sdk_S3CatalogSource.Database x,
      S3CatalogSource.Name = sdk_S3CatalogSource.Name x,
      S3CatalogSource.PartitionPredicate = sdk_S3CatalogSource.PartitionPredicate x,
      S3CatalogSource.Table = sdk_S3CatalogSource.Table x\<rparr>"

definition read_S3CatalogTarget :: "'e golib \<Rightarrow> sdk_S3CatalogTarget \<Rightarrow> S3CatalogTarget" where
  "read_S3CatalogTarget lib x =
     \<lparr>S3CatalogTarget.Database = sdk_S3CatalogTarget.Database x,
      S3CatalogTarget.Inputs = map_option (aws_StringSlice lib) (sdk_S3CatalogTarget.Inputs x),
      S3CatalogTarget.Name = sdk_S3CatalogTarget.Name x,
      S3CatalogTarget.PartitionKeys = map_option (map (aws_StringSlice lib)) (sdk_S3CatalogTarget.PartitionKeys x),
      S3CatalogTarget.SchemaChangePolicy = map_option (read_CatalogSchemaChangePolicy lib) (sdk_S3CatalogTarget.SchemaChangePolicy x),
      S3CatalogTarget.Table = sdk_S3CatalogTarget.Table x\<rparr>"

definition read_S3DirectSourceAdditionalOptions :: "sdk_S3DirectSourceAdditionalOptions \<Rightarrow> S3DirectSourceAdditionalOptions" where
  "read_S3DirectSourceAdditionalOptions x =
     \<lparr>S3DirectSourceAdditionalOptions.BoundedFiles = sdk_S3DirectSourceAdditionalOptions.BoundedFiles x,
      S3DirectSourceAdditionalOptions.BoundedSize = sdk_S3DirectSourceAdditionalOptions.BoundedSize x,
      S3DirectSourceAdditionalOptions.EnableSamplePath = sdk_S3DirectSourceAdditionalOptions.EnableSamplePath x,
      S3DirectSourceAdditionalOptions.SamplePath = sdk_S3DirectSourceAdditionalOptions.SamplePath x\<rparr>"

definition read_S3CsvSource :: "'e golib \<Rightarrow> sdk_S3CsvSource \<Rightarrow> S3CsvSource" where
  "read_S3CsvSource lib x =
     \<lparr>S3CsvSource.AdditionalOptions = map_option read_S3DirectSourceAdditionalOptions (sdk_S3CsvSource.AdditionalOptions x),
      S3CsvSource.CompressionType = enum_read lib (sdk_S3CsvSource.CompressionType x),
      S3CsvSource.Escaper = sdk_S3CsvSource.Escaper x,
      S3CsvSource.Exclusions = map_option (aws_StringSlice lib) (sdk_S3CsvSource.Exclusions x),
      S3CsvSource.GroupFiles = sdk_S3CsvSource.GroupFiles x,
      S3CsvSource.GroupSize = sdk_S3CsvSource.GroupSize x,
      S3CsvSource.MaxBand = int32_read (sdk_S3CsvSource.MaxBand x),
      S3CsvSource.MaxFilesInBand = int32_read (sdk_S3CsvSource.MaxFilesInBand x),
      S3CsvSource.Multiline = sdk_S3CsvSource.Multiline x,
      S3CsvSource.Name = sdk_S3CsvSource.Name x,
      S3CsvSource.OptimizePerformance = Some (sdk_S3CsvSource.OptimizePerformance x),
      S3CsvSource.OutputSchemas = slice_read read_GlueSchema (sdk_S3CsvSource.OutputSchemas x),
      S3CsvSource.Paths = map_option (aws_StringSlice lib) (sdk_S3CsvSource.Paths x),
      S3CsvSource.QuoteChar = enum_read lib (sdk_S3CsvSource.QuoteChar x),
      S3CsvSource.Recurse = sdk_S3CsvSource.Recurse x,
      S3CsvSource.Separator = enum_read lib (sdk_S3CsvSource.Separator x),
      S3CsvSource.SkipFirst = sdk_S3CsvSource.SkipFirst x,
      S3CsvSource.WithHeader = sdk_S3CsvSource.WithHeader x,
      S3CsvSource.WriteHeader = sdk_S3CsvSource.WriteHeader x\<rparr>"

definition read_S3DeltaCatalogTarget :: "'e golib \<Rightarrow> sdk_S3DeltaCatalogTarget \<Rightarrow> S3DeltaCatalogTarget" where
  "read_S3DeltaCatalogTarget lib x =
     \<lparr>S3DeltaCatalogTarget.AdditionalOptions = map_option (aws_StringMap lib) (sdk_S3DeltaCatalogTarget.AdditionalOptions x),
      S3DeltaCatalogTarget.Database = sdk_S3DeltaCatalogTarget.Database x,
      S3DeltaCatalogTarget.Inputs = map_option (aws_StringSlice lib) (sdk_S3DeltaCatalogTarget.Inputs x),
      S3DeltaCatalogTarget.Name = sdk_S3DeltaCatalogTarget.Name x,
      S3DeltaCatalogTarget.PartitionKeys = map_option (map (aws_StringSlice lib)) (sdk_S3DeltaCatalogTarget.PartitionKeys x),
      S3DeltaCatalogTarget.SchemaChangePolicy = map_option (read_CatalogSchemaChangePolicy lib) (sdk_S3DeltaCatalogTarget.SchemaChangePolicy x),
      S3DeltaCatalogTarget.Table = sdk_S3DeltaCatalogTarget.Table x\<rparr>"

definition read_DirectSchemaChangePolicy :: "'e golib \<Rightarrow> sdk_DirectSchemaChangePolicy \<Rightarrow> DirectSchemaChangePolicy" where
  "read_DirectSchemaChangePolicy lib x =
     \<lparr>DirectSchemaChangePolicy.Database = sdk_DirectSchemaChangePolicy.Database x,
      DirectSchemaChangePolicy.EnableUpdateCatalog = sdk_DirectSchemaChangePolicy.EnableUpdateCatalog x,
      DirectSchemaChangePolicy.Table = sdk_DirectSchemaChangePolicy.Table x,
      DirectSchemaChangePolicy.UpdateBehavior = enum_read lib (sdk_DirectSchemaChangePolicy.UpdateBehavior x)\<rparr>"

definition read_S3DeltaDirectTarget :: "'e golib \<Rightarrow> sdk_S3DeltaDirectTarget \<Rightarrow> S3DeltaDirectTarget" where
  "read_S3DeltaDirectTarget lib x =
     \<lparr>S3DeltaDirectTarget.AdditionalOptions = map_option (aws_StringMap lib) (sdk_S3DeltaDirectTarget.AdditionalOptions x),
      S3DeltaDirectTarget.Compression = enum_read lib (sdk_S3DeltaDirectTarget.Compression x),
      S3DeltaDirectTarget.Format = enum_read lib (sdk_S3DeltaDirectTarget.Format x),
      S3DeltaDirectTarget.Inputs = map_option (aws_StringSlice lib) (sdk_S3DeltaDirectTarget.Inputs x),
      S3DeltaDirectTarget.Name = sdk_S3DeltaDirectTarget.Name x,
      S3DeltaDirectTarget.PartitionKeys = map_option (map (aws_StringSlice lib)) (sdk_S3DeltaDirectTarget.PartitionKeys x),
      S3DeltaDirectTarget.Path = sdk_S3DeltaDirectTarget.Path x,
      S3DeltaDirectTarget.SchemaChangePolicy = map_option (read_DirectSchemaChangePolicy lib) (sdk_S3DeltaDirectTarget.SchemaChangePolicy x)\<rparr>"

definition read_S3DeltaSource :: "'e golib \<Rightarrow> sdk_S3DeltaSource \<Rightarrow> S3DeltaSource" where
  "read_S3DeltaSource lib x =
     \<lparr>S3DeltaSource.AdditionalDeltaOptions = map_option (aws_StringMap lib) (sdk_S3DeltaSource.AdditionalDeltaOptions x),
      S3DeltaSource.AdditionalOptions = map_option read_S3DirectSourceAdditionalOptions (sdk_S3DeltaSource.AdditionalOptions x),
      S3DeltaSource.Name = sdk_S3DeltaSource.Name x,
      S3DeltaSource.OutputSchemas = slice_read read_GlueSchema (sdk_S3DeltaSource.OutputSchemas x),
      S3DeltaSource.Paths = map_option (aws_StringSlice lib) (sdk_S3DeltaSource.Paths x)\<rparr>"

definition read_S3DirectTarget :: "'e golib \<Rightarrow> sdk_S3DirectTarget \<Rightarrow> S3DirectTarget" where
  "read_S3DirectTarget lib x =
     \<lparr>S3DirectTarget.Compression = sdk_S3DirectTarget.Compression x,
      S3DirectTarget.Format = enum_read lib (sdk_S3DirectTarget.Format x),
      S3DirectTarget.Inputs = map_option (aws_StringSlice lib) (sdk_S3DirectTarget.Inputs x),
      S3DirectTarget.Name = sdk_S3DirectTarget.Name x,
      S3DirectTarget.PartitionKeys = map_option (map (aws_StringSlice lib)) (sdk_S3DirectTarget.PartitionKeys x),
      S3DirectTarget.Path = sdk_S3DirectTarget.Path x,
      S3DirectTarget.SchemaChangePolicy = map_option (read_DirectSchemaChangePolicy lib) (sdk_S3DirectTarget.SchemaChangePolicy x)\<rparr>"

definition read_S3GlueParquetTarget :: "'e golib \<Rightarrow> sdk_S3GlueParquetTarget \<Rightarrow> S3GlueParquetTarget" where
  "read_S3GlueParquetTarget lib x =
     \<lparr>S3GlueParquetTarget.Compression = enum_read lib (sdk_S3GlueParquetTarget.Compression x),
      S3GlueParquetTarget.Inputs = map_option (aws_StringSlice lib) (sdk_S3GlueParquetTarget.Inputs x),
      S3GlueParquetTarget.Name = sdk_S3GlueParquetTarget.Name x,
      S3GlueParquetTarget.PartitionKeys = map_option (map (aws_StringSlice lib)) (sdk_S3GlueParquetTarget.PartitionKeys x),
      S3GlueParquetTarget.Path = sdk_S3GlueParquetTarget.Path x,
      S3GlueParquetTarget.SchemaChangePolicy = map_option (read_DirectSchemaChangePolicy lib) (sdk_S3GlueParquetTarget.SchemaChangePolicy x)\<rparr>"

definition read_S3HudiCatalogTarget :: "'e golib \<Rightarrow> sdk_S3HudiCatalogTarget \<Rightarrow> S3HudiCatalogTarget" where
  "read_S3HudiCatalogTarget lib x =
     \<lparr>S3HudiCatalogTarget.AdditionalOptions = map_option (aws_StringMap lib) (sdk_S3HudiCatalogTarget.AdditionalOptions x),
      S3HudiCatalogTarget.Database = sdk_S3HudiCatalogTarget.Database x,
      S3HudiCatalogTarget.Inputs = map_option (aws_StringSlice lib) (sdk_S3HudiCatalogTarget.Inputs x),
      S3HudiCatalogTarget.Name = sdk_S3HudiCatalogTarget.Name x,
      S3HudiCatalogTarget.PartitionKeys = map_option (map (aws_StringSlice lib)) (sdk_S3HudiCatalogTarget.PartitionKeys x),
      S3HudiCatalogTarget.SchemaChangePolicy = map_option (read_CatalogSchemaChangePolicy lib) (sdk_S3HudiCatalogTarget.SchemaChangePolicy x),
      S3HudiCatalogTarget.Table = sdk_S3HudiCatalogTarget.Table x\<rparr>"

definition read_S3HudiDirectTarget :: "'e golib \<Rightarrow> sdk_S3HudiDirectTarget \<Rightarrow> S3HudiDirectTarget" where
  "read_S3HudiDirectTarget lib x =
     \<lparr>S3HudiDirectTarget.AdditionalOptions = map_option (aws_StringMap lib) (sdk_S3HudiDirectTarget.AdditionalOptions x),
      S3HudiDirectTarget.Compression = enum_read lib (sdk_S3HudiDirectTarget.Compression x),
      S3HudiDirectTarget.Format = enum_read lib (sdk_S3HudiDirectTarget.Format x),
      S3HudiDirectTarget.Inputs = map_option (aws_StringSlice lib) (sdk_S3HudiDirectTarget.Inputs x),
      S3HudiDirectTarget.Name = sdk_S3HudiDirectTarget.Name x,
      S3HudiDirectTarget.PartitionKeys = map_option (map (aws_StringSlice lib)) (sdk_S3HudiDirectTarget.PartitionKeys x),
      S3HudiDirectTarget.Path = sdk_S3HudiDirectTarget.Path x,
      S3HudiDirectTarget.SchemaChangePolicy = map_option (read_DirectSchemaChangePolicy lib) (sdk_S3HudiDirectTarget.SchemaChangePolicy x)\<rparr>"

definition read_S3HudiSource :: "'e golib \<Rightarrow> sdk_S3HudiSource \<Rightarrow> S3HudiSource" where
  "read_S3HudiSource lib x =
     \<lparr>S3HudiSource.AdditionalHudiOptions = map_option (aws_StringMap lib) (sdk_S3HudiSource.AdditionalHudiOptions x),
      S3HudiSource.AdditionalOptions = map_option read_S3DirectSourceAdditionalOptions (sdk_S3HudiSource.AdditionalOptions x),
      S3HudiSource.Name = sdk_S3HudiSource.Name x,
      S3HudiSource.OutputSchemas = slice_read read_GlueSchema (sdk_S3HudiSource.OutputSchemas x),
      S3HudiSource.Paths = map_option (aws_StringSlice lib) (sdk_S3HudiSource.Paths x)\<rparr>"

definition read_S3JSONSource :: "'e golib \<Rightarrow> sdk_S3JsonSource \<Rightarrow> S3JSONSource" where
  "read_S3JSONSource lib x =
     \<lparr>S3JSONSource.AdditionalOptions = map_option read_S3DirectSourceAdditionalOptions (sdk_S3JsonSource.AdditionalOptions x),
      S3JSONSource.CompressionType = enum_read lib (sdk_S3JsonSource.CompressionType x),
      S3JSONSource.Exclusions = map_option (aws_StringSlice lib) (sdk_S3JsonSource.Exclusions x),
      S3JSONSource.GroupFiles = sdk_S3JsonSource.GroupFiles x,
      S3JSONSource.GroupSize = sdk_S3JsonSource.GroupSize x,
      S3JSONSource.JSONPath = sdk_S3JsonSource.JsonPath x,
      S3JSONSource.MaxBand = int32_read (sdk_S3JsonSource.MaxBand x),
      S3JSONSource.MaxFilesInBand = int32_read (sdk_S3JsonSource.MaxFilesInBand x),
      S3JSONSource.Multiline = sdk_S3JsonSource.Multiline x,
      S3JSONSource.Name = sdk_S3JsonSource.Name x,
      S3JSONSource.OutputSchemas = slice_read read_GlueSchema (sdk_S3JsonSource.OutputSchemas x),
      S3JSONSource.Paths = map_option (aws_StringSlice lib) (sdk_S3JsonSource.Paths x),
      S3JSONSource.Recurse = sdk_S3JsonSource.Recurse x\<rparr>"

definition read_S3ParquetSource :: "'e golib \<Rightarrow> sdk_S3ParquetSource \<Rightarrow> S3ParquetSource" where
  "read_S3ParquetSource lib x =
     \<lparr>S3ParquetSource.AdditionalOptions = map_option read_S3DirectSourceAdditionalOptions (sdk_S3ParquetSource.AdditionalOptions x),
      S3ParquetSource.CompressionType = enum_read lib (sdk_S3ParquetSource.CompressionType x),
      S3ParquetSource.Exclusions = map_option (aws_StringSlice lib) (sdk_S3ParquetSource.Exclusions x),
      S3ParquetSource.GroupFiles = sdk_S3ParquetSource.GroupFiles x,
      S3ParquetSource.GroupSize = sdk_S3ParquetSource.GroupSize x,
      S3ParquetSource.MaxBand = int32_read (sdk_S3ParquetSource.MaxBand x),
      S3ParquetSource.MaxFilesInBand = int32_read (sdk_S3ParquetSource.MaxFilesInBand x),
      S3ParquetSource.Name = sdk_S3ParquetSource.Name x,
      S3ParquetSource.OutputSchemas = slice_read read_GlueSchema (sdk_S3ParquetSource.OutputSchemas x),
      S3ParquetSource.Paths = map_option (aws_StringSlice lib) (sdk_S3ParquetSource.Paths x),
      S3ParquetSource.Recurse = sdk_S3ParquetSource.Recurse x\<rparr>"

definition read_SelectFields :: "'e golib \<Rightarrow> sdk_SelectFields \<Rightarrow> SelectFields" where
  "read_SelectFields lib x =
     \<lparr>SelectFields.Inputs = map_option (aws_StringSlice lib) (sdk_SelectFields.Inputs x),
      SelectFields.Name = sdk_SelectFields.Name x,
      SelectFields.Paths = map_option (map (aws_StringSlice lib)) (sdk_SelectFields.Paths x)\<rparr>"

definition read_SelectFromCollection :: "'e golib \<Rightarrow> sdk_SelectFromCollection \<Rightarrow> SelectFromCollection" where
  "read_SelectFromCollection lib x =
     \<lparr>SelectFromCollection.Index = int32_addr (sdk_SelectFromCollection.Index x),
      SelectFromCollection.Inputs = map_option (aws_StringSlice lib) (sdk_SelectFromCollection.Inputs x),
      SelectFromCollection.Name = sdk_SelectFromCollection.Name x\<rparr>"

definition read_SnowflakeNodeData :: "'e golib \<Rightarrow> sdk_SnowflakeNodeData \<Rightarrow> SnowflakeNodeData" where
  "read_SnowflakeNodeData lib x =
     \<lparr>SnowflakeNodeData.Action = sdk_SnowflakeNodeData.Action x,
      SnowflakeNodeData.AdditionalOptions = map_option (aws_StringMap lib) (sdk_SnowflakeNodeData.AdditionalOptions x),
      SnowflakeNodeData.AutoPushdown = Some (sdk_SnowflakeNodeData.AutoPushdown x),
      SnowflakeNodeData.Connection = map_option read_Option (sdk_SnowflakeNodeData.Connection x),
      SnowflakeNodeData.Database = sdk_SnowflakeNodeData.Database x,
      SnowflakeNodeData.IAMRole = map_option read_Option (sdk_SnowflakeNodeData.IamRole x),
      SnowflakeNodeData.MergeAction = sdk_SnowflakeNodeData.MergeAction x,
      SnowflakeNodeData.MergeClause = sdk_SnowflakeNodeData.MergeClause x,
      SnowflakeNodeData.MergeWhenMatched = sdk_SnowflakeNodeData.MergeWhenMatched x,
      SnowflakeNodeData.MergeWhenNotMatched = sdk_SnowflakeNodeData.MergeWhenNotMatched x,
      SnowflakeNodeData.PostAction = sdk_SnowflakeNodeData.PostAction x,
      SnowflakeNodeData.PreAction = sdk_SnowflakeNodeData.PreAction x,
      SnowflakeNodeData.SampleQuery = sdk_SnowflakeNodeData.SampleQuery x,
      SnowflakeNodeData.Schema = sdk_SnowflakeNodeData.Schema x,
      SnowflakeNodeData.SelectedColumns = slice_read read_Option (sdk_SnowflakeNodeData.SelectedColumns x),
      SnowflakeNodeData.SourceType = sdk_SnowflakeNodeData.SourceType x,
      SnowflakeNodeData.StagingTable = sdk_SnowflakeNodeData.StagingTable x,
      SnowflakeNodeData.Table = sdk_SnowflakeNodeData.Table x,
      SnowflakeNodeData.TableSchema = slice_read read_Option (sdk_SnowflakeNodeData.TableSchema x),
      SnowflakeNodeData.TempDir = sdk_SnowflakeNodeData.TempDir x,
      SnowflakeNodeData.Upsert = Some (sdk_SnowflakeNodeData.Upsert x)\<rparr>"

definition read_SnowflakeSource :: "'e golib \<Rightarrow> sdk_SnowflakeSource \<Rightarrow> SnowflakeSource" where
  "read_SnowflakeSource lib x =
     \<lparr>SnowflakeSource.Data = map_option (read_SnowflakeNodeData lib) (sdk_SnowflakeSource.Data x),
      SnowflakeSource.Name = sdk_SnowflakeSource.Name x,
      SnowflakeSource.OutputSchemas = slice_read read_GlueSchema (sdk_SnowflakeSource.OutputSchemas x)\<rparr>"

definition read_SnowflakeTarget :: "'e golib \<Rightarrow> sdk_SnowflakeTarget \<Rightarrow> SnowflakeTarget" where
  "read_SnowflakeTarget lib x =
     \<lparr>SnowflakeTarget.Data = map_option (read_SnowflakeNodeData lib) (sdk_SnowflakeTarget.Data x),
      SnowflakeTarget.Inputs = map_option (aws_StringSlice lib) (sdk_SnowflakeTarget.Inputs x),
      SnowflakeTarget.Name = sdk_SnowflakeTarget.Name x\<rparr>"

definition read_SparkConnectorSource :: "'e golib \<Rightarrow> sdk_SparkConnectorSource \<Rightarrow> SparkConnectorSource" where
  "read_SparkConnectorSource lib x =
     \<lparr>SparkConnectorSource.AdditionalOptions = map_option (aws_StringMap lib) (sdk_SparkConnectorSource.AdditionalOptions x),
      SparkConnectorSource.ConnectionName = sdk_SparkConnectorSource.ConnectionName x,
      SparkConnectorSource.ConnectionType = sdk_SparkConnectorSource.ConnectionType x,
      SparkConnectorSource.ConnectorName = sdk_SparkConnectorSource.ConnectorName x,
      SparkConnectorSource.Name = sdk_SparkConnectorSource.Name x,
      SparkConnectorSource.OutputSchemas = slice_read read_GlueSchema (sdk_SparkConnectorSource.OutputSchemas x)\<rparr>"

definition read_SparkConnectorTarget :: "'e golib \<Rightarrow> sdk_SparkConnectorTarget \<Rightarrow> SparkConnectorTarget" where
  "read_SparkConnectorTarget lib x =
     \<lparr>SparkConnectorTarget.AdditionalOptions = map_option (aws_StringMap lib) (sdk_SparkConnectorTarget.AdditionalOptions x),
      SparkConnectorTarget.ConnectionName = sdk_SparkConnectorTarget.ConnectionName x,
      SparkConnectorTarget.ConnectionType = sdk_SparkConnectorTarget.ConnectionType x,
      SparkConnectorTarget.ConnectorName = sdk_SparkConnectorTarget.ConnectorName x,
      SparkConnectorTarget.Inputs = map_option (aws_StringSlice lib) (sdk_SparkConnectorTarget.Inputs x),
      SparkConnectorTarget.Name = sdk_SparkConnectorTarget.Name x,
      SparkConnectorTarget.OutputSchemas = slice_read read_GlueSchema (sdk_SparkConnectorTarget.OutputSchemas x)\<rparr>"

definition read_SQLAlias :: "sdk_SqlAlias \<Rightarrow> SQLAlias" where
  "read_SQLAlias x =
     \<lparr>SQLAlias.Alias = sdk_SqlAlias.Alias x,
      SQLAlias.From = sdk_SqlAlias.From x\<rparr>"

definition read_SparkSQL :: "'e golib \<Rightarrow> sdk_SparkSQL \<Rightarrow> SparkSQL" where
  "read_SparkSQL lib x =
     \<lparr>SparkSQL.Inputs = map_option (aws_StringSlice lib) (sdk_SparkSQL.Inputs x),
      SparkSQL.Name = sdk_SparkSQL.Name x,
      SparkSQL.OutputSchemas = slice_read read_GlueSchema (sdk_SparkSQL.OutputSchemas x),
      SparkSQL.SQLAliases = slice_read read_SQLAlias (sdk_SparkSQL.SqlAliases x),
      SparkSQL.SQLQuery = sdk_SparkSQL.SqlQuery x\<rparr>"

definition read_Spigot :: "'e golib \<Rightarrow> sdk_Spigot \<Rightarrow> Spigot" where
  "read_Spigot lib x =
     \<lparr>Spigot.Inputs = map_option (aws_StringSlice lib) (sdk_Spigot.Inputs x),
      Spigot.Name = sdk_Spigot.Name x,
      Spigot.Path = sdk_Spigot.Path x,
      Spigot.Prob = sdk_Spigot.Prob x,
      Spigot.Topk = int32_read (sdk_Spigot.Topk x)\<rparr>"

definition read_SplitFields :: "'e golib \<Rightarrow> sdk_SplitFields \<Rightarrow> SplitFields" where
  "read_SplitFields lib x =
     \<lparr>SplitFields.Inputs = map_option (aws_StringSlice lib) (sdk_SplitFields.Inputs x),
      SplitFields.Name = sdk_SplitFields.Name x,
      SplitFields.Paths = map_option (map (aws_StringSlice lib)) (sdk_SplitFields.Paths x)\<rparr>"

definition read_Union :: "'e golib \<Rightarrow> sdk_Union \<Rightarrow> Union" where
  "read_Union lib x =
     \<lparr>Union.Inputs = map_option (aws_StringSlice lib) (sdk_Union.Inputs x),
      Union.Name = sdk_Union.Name x,
      Union.UnionType = enum_read lib (sdk_Union.UnionType x)\<rparr>"

definition read_CodeGenConfigurationNode :: "'e golib \<Rightarrow> map_order \<Rightarrow> sdk_CodeGenConfigurationNode \<Rightarrow> CodeGenConfigurationNode" where
  "read_CodeGenConfigurationNode lib ord x =
     \<lparr>CodeGenConfigurationNode.Aggregate = map_option (read_Aggregate lib) (sdk_CodeGenConfigurationNode.Aggregate x),
      CodeGenConfigurationNode.AmazonRedshiftSource = map_option read_AmazonRedshiftSource (sdk_CodeGenConfigurationNode.AmazonRedshiftSource x),
      CodeGenConfigurationNode.AmazonRedshiftTarget = map_option (read_AmazonRedshiftTarget lib) (sdk_CodeGenConfigurationNode.AmazonRedshiftTarget x),
      CodeGenConfigurationNode.ApplyMapping = map_option (read_ApplyMapping lib) (sdk_CodeGenConfigurationNode.ApplyMapping x),
      CodeGenConfigurationNode.AthenaConnectorSource = map_option read_AthenaConnectorSource (sdk_CodeGenConfigurationNode.AthenaConnectorSource x),
      CodeGenConfigurationNode.CatalogDeltaSource = map_option (read_CatalogDeltaSource lib) (sdk_CodeGenConfigurationNode.CatalogDeltaSource x),
      CodeGenConfigurationNode.CatalogHudiSource = map_option (read_CatalogHudiSource lib) (sdk_CodeGenConfigurationNode.CatalogHudiSource x),
      CodeGenConfigurationNode.CatalogKafkaSource = map_option read_CatalogKafkaSource (sdk_CodeGenConfigurationNode.CatalogKafkaSource x),
      CodeGenConfigurationNode.CatalogKinesisSource = map_option (read_CatalogKinesisSource lib) (sdk_CodeGenConfigurationNode.CatalogKinesisSource x),
      CodeGenConfigurationNode.CatalogSource = map_option read_CatalogSource (sdk_CodeGenConfigurationNode.CatalogSource x),
      CodeGenConfigurationNode.CatalogTarget = map_option (read_BasicCatalogTarget lib) (sdk_CodeGenConfigurationNode.CatalogTarget x),
      CodeGenConfigurationNode.ConnectorDataSource = map_option (read_ConnectorDataSource lib) (sdk_CodeGenConfigurationNode.ConnectorDataSource x),
      CodeGenConfigurationNode.ConnectorDataTarget = map_option (read_ConnectorDataTarget lib) (sdk_CodeGenConfigurationNode.ConnectorDataTarget x),
      CodeGenConfigurationNode.CustomCode = map_option (read_CustomCode lib) (sdk_CodeGenConfigurationNode.CustomCode x),
      CodeGenConfigurationNode.DirectJDBCSource = map_option (read_DirectJDBCSource lib) (sdk_CodeGenConfigurationNode.DirectJDBCSource x),
      CodeGenConfigurationNode.DirectKafkaSource = map_option read_DirectKafkaSource (sdk_CodeGenConfigurationNode.DirectKafkaSource x),
      CodeGenConfigurationNode.DirectKinesisSource = map_option (read_DirectKinesisSource lib) (sdk_CodeGenConfigurationNode.DirectKinesisSource x),
      CodeGenConfigurationNode.DropDuplicates = map_option (read_DropDuplicates lib) (sdk_CodeGenConfigurationNode.DropDuplicates x),
      CodeGenConfigurationNode.DropFields = map_option (read_DropFields lib) (sdk_CodeGenConfigurationNode.DropFields x),
      CodeGenConfigurationNode.DropNullFields = map_option (read_DropNullFields lib) (sdk_CodeGenConfigurationNode.DropNullFields x),
      CodeGenConfigurationNode.DynamicTransform = map_option (read_DynamicTransform lib) (sdk_CodeGenConfigurationNode.DynamicTransform x),
      CodeGenConfigurationNode.DynamoDBCatalogSource = map_option read_DynamoDBCatalogSource (sdk_CodeGenConfigurationNode.DynamoDBCatalogSource x),
      CodeGenConfigurationNode.EvaluateDataQuality = map_option (read_EvaluateDataQuality lib) (sdk_CodeGenConfigurationNode.EvaluateDataQuality x),
      CodeGenConfigurationNode.EvaluateDataQualityMultiFrame = map_option (read_EvaluateDataQualityMultiFrame lib) (sdk_CodeGenConfigurationNode.EvaluateDataQualityMultiFrame x),
      CodeGenConfigurationNode.FillMissingValues = map_option (read_FillMissingValues lib) (sdk_CodeGenConfigurationNode.FillMissingValues x),
      CodeGenConfigurationNode.Filter = map_option (read_Filter lib) (sdk_CodeGenConfigurationNode.Filter x),
      CodeGenConfigurationNode.GovernedCatalogSource = map_option read_GovernedCatalogSource (sdk_CodeGenConfigurationNode.GovernedCatalogSource x),
      CodeGenConfigurationNode.GovernedCatalogTarget = map_option (read_GovernedCatalogTarget lib) (sdk_CodeGenConfigurationNode.GovernedCatalogTarget x),
      CodeGenConfigurationNode.JDBCConnectorSource = map_option (read_JDBCConnectorSource lib ord) (sdk_CodeGenConfigurationNode.JDBCConnectorSource x),
      CodeGenConfigurationNode.JDBCConnectorTarget = map_option (read_JDBCConnectorTarget lib) (sdk_CodeGenConfigurationNode.JDBCConnectorTarget x),
      CodeGenConfigurationNode.Join = map_option (read_Join lib) (sdk_CodeGenConfigurationNode.Join x),
      CodeGenConfigurationNode.Merge = map_option (read_Merge lib) (sdk_CodeGenConfigurationNode.Merge x),
      CodeGenConfigurationNode.MicrosoftSQLServerCatalogSource = map_option read_MicrosoftSQLServerCatalogSource (sdk_CodeGenConfigurationNode.MicrosoftSQLServerCatalogSource x),
      CodeGenConfigurationNode.MicrosoftSQLServerCatalogTarget = map_option (read_MicrosoftSQLServerCatalogTarget lib) (sdk_CodeGenConfigurationNode.MicrosoftSQLServerCatalogTarget x),
      CodeGenConfigurationNode.MySQLCatalogSource = map_option read_MySQLCatalogSource (sdk_CodeGenConfigurationNode.MySQLCatalogSource x),
      CodeGenConfigurationNode.MySQLCatalogTarget = map_option (read_MySQLCatalogTarget lib) (sdk_CodeGenConfigurationNode.MySQLCatalogTarget x),
      CodeGenConfigurationNode.OracleSQLCatalogSource = map_option read_OracleSQLCatalogSource (sdk_CodeGenConfigurationNode.OracleSQLCatalogSource x),
      CodeGenConfigurationNode.OracleSQLCatalogTarget = map_option (read_OracleSQLCatalogTarget lib) (sdk_CodeGenConfigurationNode.OracleSQLCatalogTarget x),
      CodeGenConfigurationNode.PIIDetection = map_option (read_PIIDetection lib) (sdk_CodeGenConfigurationNode.PIIDetection x),
      CodeGenConfigurationNode.PostgreSQLCatalogSource = map_option read_PostgreSQLCatalogSource (sdk_CodeGenConfigurationNode.PostgreSQLCatalogSource x),
      CodeGenConfigurationNode.PostgreSQLCatalogTarget = map_option (read_PostgreSQLCatalogTarget lib) (sdk_CodeGenConfigurationNode.PostgreSQLCatalogTarget x),
      CodeGenConfigurationNode.Recipe = map_option (read_Recipe lib) (sdk_CodeGenConfigurationNode.Recipe x),
      CodeGenConfigurationNode.RedshiftSource = map_option read_RedshiftSource (sdk_CodeGenConfigurationNode.RedshiftSource x),
      CodeGenConfigurationNode.RedshiftTarget = map_option (read_RedshiftTarget lib) (sdk_CodeGenConfigurationNode.RedshiftTarget x),
      CodeGenConfigurationNode.RelationalCatalogSource = map_option read_RelationalCatalogSource (sdk_CodeGenConfigurationNode.RelationalCatalogSource x),
      CodeGenConfigurationNode.RenameField = map_option (read_RenameField lib) (sdk_CodeGenConfigurationNode.RenameField x),
      CodeGenConfigurationNode.S3CatalogDeltaSource = map_option (read_S3CatalogDeltaSource lib) (sdk_CodeGenConfigurationNode.S3CatalogDeltaSource x),
      CodeGenConfigurationNode.S3CatalogHudiSource = map_option (read_S3CatalogHudiSource lib) (sdk_CodeGenConfigurationNode.S3CatalogHudiSource x),
      CodeGenConfigurationNode.S3CatalogSource = map_option read_S3CatalogSource (sdk_CodeGenConfigurationNode.S3CatalogSource x),
      CodeGenConfigurationNode.S3CatalogTarget = map_option (read_S3CatalogTarget lib) (sdk_CodeGenConfigurationNode.S3CatalogTarget x),
      CodeGenConfigurationNode.S3CsvSource = map_option (read_S3CsvSource lib) (sdk_CodeGenConfigurationNode.S3CsvSource x),
      CodeGenConfigurationNode.S3DeltaCatalogTarget = map_option (read_S3DeltaCatalogTarget lib) (sdk_CodeGenConfigurationNode.S3DeltaCatalogTarget x),
      CodeGenConfigurationNode.S3DeltaDirectTarget = map_option (read_S3DeltaDirectTarget lib) (sdk_CodeGenConfigurationNode.S3DeltaDirectTarget x),
      CodeGenConfigurationNode.S3DeltaSource = map_option (read_S3DeltaSource lib) (sdk_CodeGenConfigurationNode.S3DeltaSource x),
      CodeGenConfigurationNode.S3DirectTarget = map_option (read_S3DirectTarget lib) (sdk_CodeGenConfigurationNode.S3DirectTarget x),
      CodeGenConfigurationNode.S3GlueParquetTarget = map_option (read_S3GlueParquetTarget lib) (sdk_CodeGenConfigurationNode.S3GlueParquetTarget x),
      CodeGenConfigurationNode.S3HudiCatalogTarget = map_option (read_S3HudiCatalogTarget lib) (sdk_CodeGenConfigurationNode.S3HudiCatalogTarget x),
      CodeGenConfigurationNode.S3HudiDirectTarget = map_option (read_S3HudiDirectTarget lib) (sdk_CodeGenConfigurationNode.S3HudiDirectTarget x),
      CodeGenConfigurationNode.S3HudiSource = map_option (read_S3HudiSource lib) (sdk_CodeGenConfigurationNode.S3HudiSource x),
      CodeGenConfigurationNode.S3JSONSource = map_option (read_S3JSONSource lib) (sdk_CodeGenConfigurationNode.S3JsonSource x),
      CodeGenConfigurationNode.S3ParquetSource = map_option (read_S3ParquetSource lib) (sdk_CodeGenConfigurationNode.S3ParquetSource x),
      CodeGenConfigurationNode.SelectFields = map_option (read_SelectFields lib) (sdk_CodeGenConfigurationNode.SelectFields x),
      CodeGenConfigurationNode.SelectFromCollection = map_option (read_SelectFromCollection lib) (sdk_CodeGenConfigurationNode.SelectFromCollection x),
      CodeGenConfigurationNode.SnowflakeSource = map_option (read_SnowflakeSource lib) (sdk_CodeGenConfigurationNode.SnowflakeSource x),
      CodeGenConfigurationNode.SnowflakeTarget = map_option (read_SnowflakeTarget lib) (sdk_CodeGenConfigurationNode.SnowflakeTarget x),
      CodeGenConfigurationNode.SparkConnectorSource = map_option (read_SparkConnectorSource lib) (sdk_CodeGenConfigurationNode.SparkConnectorSource x),
      CodeGenConfigurationNode.SparkConnectorTarget = map_option (read_SparkConnectorTarget lib) (sdk_CodeGenConfigurationNode.SparkConnectorTarget x),
      CodeGenConfigurationNode.SparkSQL = map_option (read_SparkSQL lib) (sdk_CodeGenConfigurationNode.SparkSQL x),
      CodeGenConfigurationNode.Spigot = map_option (read_Spigot lib) (sdk_CodeGenConfigurationNode.Spigot x),
      CodeGenConfigurationNode.SplitFields = map_option (read_SplitFields lib) (sdk_CodeGenConfigurationNode.SplitFields x),
      CodeGenConfigurationNode.Union = map_option (read_Union lib) (sdk_CodeGenConfigurationNode.Union x)\<rparr>"

definition read_JobCommand :: "sdk_JobCommand \<Rightarrow> JobCommand" where
  "read_JobCommand x =
     \<lparr>JobCommand.Name = sdk_JobCommand.Name x,
      JobCommand.PythonVersion = sdk_JobCommand.PythonVersion x,
      JobCommand.Runtime = sdk_JobCommand.Runtime x,
      JobCommand.ScriptLocation = sdk_JobCommand.ScriptLocation x\<rparr>"

definition read_ConnectionsList :: "'e golib \<Rightarrow> sdk_ConnectionsList \<Rightarrow> ConnectionsList" where
  "read_ConnectionsList lib x =
     \<lparr>ConnectionsList.Connections = map_option (aws_StringSlice lib) (sdk_ConnectionsList.Connections x)\<rparr>"

definition read_ExecutionProperty :: "sdk_ExecutionProperty \<Rightarrow> ExecutionProperty" where
  "read_ExecutionProperty x =
     \<lparr>ExecutionProperty.MaxConcurrentRuns = int32_addr (sdk_ExecutionProperty.MaxConcurrentRuns x)\<rparr>"

definition read_NotificationProperty :: "sdk_NotificationProperty \<Rightarrow> NotificationProperty" where
  "read_NotificationProperty x =
     \<lparr>NotificationProperty.NotifyDelayAfter = int32_read (sdk_NotificationProperty.NotifyDelayAfter x)\<rparr>"

definition read_SourceControlDetails :: "'e golib \<Rightarrow> sdk_SourceControlDetails \<Rightarrow> SourceControlDetails" where
  "read_SourceControlDetails lib x =
     \<lparr>SourceControlDetails.AuthStrategy = enum_read lib (sdk_SourceControlDetails.AuthStrategy x),
      SourceControlDetails.AuthToken = sdk_SourceControlDetails.AuthToken x,
      SourceControlDetails.Branch = sdk_SourceControlDetails.Branch x,
      SourceControlDetails.Folder = sdk_SourceControlDetails.Folder x,
      SourceControlDetails.LastCommitID = sdk_SourceControlDetails.LastCommitId x,
      SourceControlDetails.Owner = sdk_SourceControlDetails.Owner x,
      SourceControlDetails.Provider = enum_read lib (sdk_SourceControlDetails.Provider x),
      SourceControlDetails.Repository = sdk_SourceControlDetails.Repository x\<rparr>"

end
