(* ===== verification/Job_Node_Update.thy ===== *)
theory Job_Node_Update
  imports Job_Node_Types Sdk_Node_Types Sdk_Codec
begin

text \<open>
  pkg/resource/job/sdk.go, newJobUpdate: each structure of the custom resource as the
  SDK's shape for a request, one definition per structure. A nil element of a slice or a map panics,
  a 64-bit value outside the 32-bit range ends the conversion with an error.
\<close>

definition update_AggregateOperation :: "'e golib \<Rightarrow> AggregateOperation \<Rightarrow> ('e, sdk_AggregateOperation) outcome" where
  "update_AggregateOperation lib x =
       Inr \<lparr>sdk_AggregateOperation.AggFunc = or_zero '''' (AggregateOperation.AggFunc x),
            sdk_AggregateOperation.Column = map_option (aws_ToStringSlice lib) (AggregateOperation.Column x)\<rparr>"

definition update_Aggregate :: "'e golib \<Rightarrow> Aggregate \<Rightarrow> ('e, sdk_Aggregate) outcome" where
  "update_Aggregate lib x =
     and_then (slice_write (update_AggregateOperation lib) (Aggregate.Aggs x)) (\<lambda>f0.
       Inr \<lparr>sdk_Aggregate.Aggs = f0,
            sdk_Aggregate.Groups = map_option (map (aws_ToStringSlice lib)) (Aggregate.Groups x),
            sdk_Aggregate.Inputs = map_option (aws_ToStringSlice lib) (Aggregate.Inputs x),
            sdk_Aggregate.Name = Aggregate.Name x\<rparr>)"

definition update_AmazonRedshiftAdvancedOption :: "AmazonRedshiftAdvancedOption \<Rightarrow> ('e, sdk_AmazonRedshiftAdvancedOption) outcome" where
  "update_AmazonRedshiftAdvancedOption x =
       Inr \<lparr>sdk_AmazonRedshiftAdvancedOption.Key = AmazonRedshiftAdvancedOption.Key x,
            sdk_AmazonRedshiftAdvancedOption.Value = AmazonRedshiftAdvancedOption.Value x\<rparr>"

definition update_Option :: "Option \<Rightarrow> ('e, sdk_Option) outcome" where
  "update_Option x =
       Inr \<lparr>sdk_Option.Description = Option.Description x,
            sdk_Option.Label = Option.Label x,
            sdk_Option.Value = Option.Value x\<rparr>"

definition update_AmazonRedshiftNodeData :: "AmazonRedshiftNodeData \<Rightarrow> ('e, sdk_AmazonRedshiftNodeData) outcome" where
  "update_AmazonRedshiftNodeData x =
     and_then (slice_write update_AmazonRedshiftAdvancedOption (AmazonRedshiftNodeData.AdvancedOptions x)) (\<lambda>f0.
     and_then (when_set update_Option (AmazonRedshiftNodeData.CatalogDatabase x)) (\<lambda>f1.
     and_then (when_set update_Option (AmazonRedshiftNodeData.CatalogTable x)) (\<lambda>f2.
     and_then (when_set update_Option (AmazonRedshiftNodeData.Connection x)) (\<lambda>f3.
     and_then (when_set update_Option (AmazonRedshiftNodeData.IAMRole x)) (\<lambda>f4.
     and_then (when_set update_Option (AmazonRedshiftNodeData.Schema x)) (\<lambda>f5.
     and_then (slice_write update_Option (AmazonRedshiftNodeData.SelectedColumns x)) (\<lambda>f6.
     and_then (when_set update_Option (AmazonRedshiftNodeData.Table x)) (\<lambda>f7.
     and_then (slice_write update_Option (AmazonRedshiftNodeData.TableSchema x)) (\<lambda>f8.
       Inr \<lparr>sdk_AmazonRedshiftNodeData.AccessType = AmazonRedshiftNodeData.AccessType x,
            sdk_AmazonRedshiftNodeData.Action = AmazonRedshiftNodeData.Action x,
            sdk_AmazonRedshiftNodeData.AdvancedOptions = f0,
            sdk_AmazonRedshiftNodeData.CatalogDatabase = f1,
            sdk_AmazonRedshiftNodeData.CatalogRedshiftSchema = AmazonRedshiftNodeData.CatalogRedshiftSchema x,
            sdk_AmazonRedshiftNodeData.CatalogRedshiftTable = AmazonRedshiftNodeData.CatalogRedshiftTable x,
            sdk_AmazonRedshiftNodeData.CatalogTable = f2,
            sdk_AmazonRedshiftNodeData.Connection = f3,
            sdk_AmazonRedshiftNodeData.CrawlerConnection = AmazonRedshiftNodeData.CrawlerConnection x,
            sdk_AmazonRedshiftNodeData.IamRole = f4,
            sdk_AmazonRedshiftNodeData.MergeAction = AmazonRedshiftNodeData.MergeAction x,
            sdk_AmazonRedshiftNodeData.MergeClause = AmazonRedshiftNodeData.MergeClause x,
            sdk_AmazonRedshiftNodeData.MergeWhenMatched = AmazonRedshiftNodeData.MergeWhenMatched x,
            sdk_AmazonRedshiftNodeData.MergeWhenNotMatched = AmazonRedshiftNodeData.MergeWhenNotMatched x,
            sdk_AmazonRedshiftNodeData.PostAction = AmazonRedshiftNodeData.PostAction x,
            sdk_AmazonRedshiftNodeData.PreAction = AmazonRedshiftNodeData.PreAction x,
            sdk_AmazonRedshiftNodeData.SampleQuery = AmazonRedshiftNodeData.SampleQuery x,
            sdk_AmazonRedshiftNodeData.Schema = f5,
            sdk_AmazonRedshiftNodeData.SelectedColumns = f6,
            sdk_AmazonRedshiftNodeData.SourceType = AmazonRedshiftNodeData.SourceType x,
            sdk_AmazonRedshiftNodeData.StagingTable = AmazonRedshiftNodeData.StagingTable x,
            sdk_AmazonRedshiftNodeData.Table = f7,
            sdk_AmazonRedshiftNodeData.TablePrefix = AmazonRedshiftNodeData.TablePrefix x,
            sdk_AmazonRedshiftNodeData.TableSchema = f8,
            sdk_AmazonRedshiftNodeData.TempDir = AmazonRedshiftNodeData.TempDir x,
            sdk_AmazonRedshiftNodeData.Upsert = or_zero False (AmazonRedshiftNodeData.Upsert x)\<rparr>)))))))))"

definition update_AmazonRedshiftSource :: "AmazonRedshiftSource \<Rightarrow> ('e, sdk_AmazonRedshiftSource) outcome" where
  "update_AmazonRedshiftSource x =
     and_then (when_set update_AmazonRedshiftNodeData (AmazonRedshiftSource.Data x)) (\<lambda>f0.
       Inr \<lparr>sdk_AmazonRedshiftSource.Data = f0,
            sdk_AmazonRedshiftSource.Name = AmazonRedshiftSource.Name x\<rparr>)"

definition update_AmazonRedshiftTarget :: "'e golib \<Rightarrow> AmazonRedshiftTarget \<Rightarrow> ('e, sdk_AmazonRedshiftTarget) outcome" where
  "update_AmazonRedshiftTarget lib x =
     and_then (when_set update_AmazonRedshiftNodeData (AmazonRedshiftTarget.Data x)) (\<lambda>f0.
       Inr \<lparr>sdk_AmazonRedshiftTarget.Data = f0,
            sdk_AmazonRedshiftTarget.Inputs = map_option (aws_ToStringSlice lib) (AmazonRedshiftTarget.Inputs x),
            sdk_AmazonRedshiftTarget.Name = AmazonRedshiftTarget.Name x\<rparr>)"

definition update_Mapping :: "'e golib \<Rightarrow> Mapping \<Rightarrow> ('e, sdk_Mapping) outcome" where
  "update_Mapping lib x =
       Inr \<lparr>sdk_Mapping.Children = None,
            sdk_Mapping.Dropped = Mapping.Dropped x,
            sdk_Mapping.FromPath = map_option (aws_ToStringSlice lib) (Mapping.FromPath x),
            sdk_Mapping.FromType = Mapping.FromType x,
            sdk_Mapping.ToKey = Mapping.ToKey x,
            sdk_Mapping.ToType = Mapping.ToType x\<rparr>"

definition update_ApplyMapping :: "'e golib \<Rightarrow> ApplyMapping \<Rightarrow> ('e, sdk_ApplyMapping) outcome" where
  "update_ApplyMapping lib x =
     and_then (slice_write (update_Mapping lib) (ApplyMapping.Mapping x)) (\<lambda>f0.
       Inr \<lparr>sdk_ApplyMapping.Inputs = map_option (aws_ToStringSlice lib) (ApplyMapping.Inputs x),
            sdk_ApplyMapping.Mapping = f0,
            sdk_ApplyMapping.Name = ApplyMapping.Name x\<rparr>)"

definition update_GlueStudioSchemaColumn :: "GlueStudioSchemaColumn \<Rightarrow> ('e, sdk_GlueStudioSchemaColumn) outcome" where
  "update_GlueStudioSchemaColumn x =
       Inr \<lparr>sdk_GlueStudioSchemaColumn.Name = GlueStudioSchemaColumn.Name x,
            sdk_GlueStudioSchemaColumn.Type = GlueStudioSchemaColumn.Type x\<rparr>"

definition update_GlueSchema :: "GlueSchema \<Rightarrow> ('e, sdk_GlueSchema) outcome" where
  "update_GlueSchema x =
     and_then (slice_write update_GlueStudioSchemaColumn (GlueSchema.Columns x)) (\<lambda>f0.
       Inr \<lparr>sdk_GlueSchema.Columns = f0\<rparr>)"

definition update_AthenaConnectorSource :: "AthenaConnectorSource \<Rightarrow> ('e, sdk_AthenaConnectorSource) outcome" where
  "update_AthenaConnectorSource x =
     and_then (slice_write update_GlueSchema (AthenaConnectorSource.OutputSchemas x)) (\<lambda>f0.
       Inr \<lparr>sdk_AthenaConnectorSource.ConnectionName = AthenaConnectorSource.ConnectionName x,
            sdk_AthenaConnectorSource.ConnectionTable = AthenaConnectorSource.ConnectionTable x,
            sdk_AthenaConnectorSource.ConnectionType = AthenaConnectorSource.ConnectionType x,
            sdk_AthenaConnectorSource.ConnectorName = AthenaConnectorSource.ConnectorName x,
            sdk_AthenaConnectorSource.Name = AthenaConnectorSource.Name x,
            sdk_AthenaConnectorSource.OutputSchemas = f0,
            sdk_AthenaConnectorSource.SchemaName = AthenaConnectorSource.SchemaName x\<rparr>)"

definition update_CatalogDeltaSource :: "'e golib \<Rightarrow> CatalogDeltaSource \<Rightarrow> ('e, sdk_CatalogDeltaSource) outcome" where
  "update_CatalogDeltaSource lib x =
     and_then (slice_write update_GlueSchema (CatalogDeltaSource.OutputSchemas x)) (\<lambda>f0.
       Inr \<lparr>sdk_CatalogDeltaSource.AdditionalDeltaOptions = map_option (aws_ToStringMap lib) (CatalogDeltaSource.AdditionalDeltaOptions x),
            sdk_CatalogDeltaSource.Database = CatalogDeltaSource.Database x,
            sdk_CatalogDeltaSource.Name = CatalogDeltaSource.Name x,
            sdk_CatalogDeltaSource.OutputSchemas = f0,
            sdk_CatalogDeltaSource.Table = CatalogDeltaSource.Table x\<rparr>)"

definition update_CatalogHudiSource :: "'e golib \<Rightarrow> CatalogHudiSource \<Rightarrow> ('e, sdk_CatalogHudiSource) outcome" where
  "update_CatalogHudiSource lib x =
     and_then (slice_write update_GlueSchema (CatalogHudiSource.OutputSchemas x)) (\<lambda>f0.
       Inr \<lparr>sdk_CatalogHudiSource.AdditionalHudiOptions = map_option (aws_ToStringMap lib) (CatalogHudiSource.AdditionalHudiOptions x),
            sdk_CatalogHudiSource.Database = CatalogHudiSource.Database x,
            sdk_CatalogHudiSource.Name = CatalogHudiSource.Name x,
            sdk_CatalogHudiSource.OutputSchemas = f0,
            sdk_CatalogHudiSource.Table = CatalogHudiSource.Table x\<rparr>)"

definition update_StreamingDataPreviewOptions :: "StreamingDataPreviewOptions \<Rightarrow> ('e, sdk_StreamingDataPreviewOptions) outcome" where
  "update_StreamingDataPreviewOptions x =
       Inr \<lparr>sdk_StreamingDataPreviewOptions.PollingTime = StreamingDataPreviewOptions.PollingTime x,
            sdk_StreamingDataPreviewOptions.RecordPollingLimit = StreamingDataPreviewOptions.RecordPollingLimit x\<rparr>"

definition update_KafkaStreamingSourceOptions :: "'e golib \<Rightarrow> KafkaStreamingSourceOptions \<Rightarrow> ('e, sdk_KafkaStreamingSourceOptions) outcome" where
  "update_KafkaStreamingSourceOptions lib x =
     and_then (int32_write_ptr lib ''error: field MinPartitions is of type int32'' (KafkaStreamingSourceOptions.MinPartitions x)) (\<lambda>f0.
     and_then (int32_write_ptr lib ''error: field NumRetries is of type int32'' (KafkaStreamingSourceOptions.NumRetries x)) (\<lambda>f1.
       Inr \<lparr>sdk_KafkaStreamingSourceOptions.AddRecordTimestamp = KafkaStreamingSourceOptions.AddRecordTimestamp x,
            sdk_KafkaStreamingSourceOptions.Assign = KafkaStreamingSourceOptions.Assign x,
            sdk_KafkaStreamingSourceOptions.BootstrapServers = KafkaStreamingSourceOptions.BootstrapServers x,
            sdk_KafkaStreamingSourceOptions.Classification = KafkaStreamingSourceOptions.Classification x,
            sdk_KafkaStreamingSourceOptions.ConnectionName = KafkaStreamingSourceOptions.ConnectionName x,
            sdk_KafkaStreamingSourceOptions.Delimiter = KafkaStreamingSourceOptions.Delimiter x,
            sdk_KafkaStreamingSourceOptions.EmitConsumerLagMetrics = KafkaStreamingSourceOptions.EmitConsumerLagMetrics x,
            sdk_KafkaStreamingSourceOptions.EndingOffsets = KafkaStreamingSourceOptions.EndingOffsets x,
            sdk_KafkaStreamingSourceOptions.IncludeHeaders = KafkaStreamingSourceOptions.IncludeHeaders x,
            sdk_KafkaStreamingSourceOptions.MaxOffsetsPerTrigger = KafkaStreamingSourceOptions.MaxOffsetsPerTrigger x,
            sdk_KafkaStreamingSourceOptions.MinPartitions = f0,
            sdk_KafkaStreamingSourceOptions.NumRetries = f1,
            sdk_KafkaStreamingSourceOptions.PollTimeoutMs = KafkaStreamingSourceOptions.PollTimeoutMs x,
            sdk_KafkaStreamingSourceOptions.RetryIntervalMs = KafkaStreamingSourceOptions.RetryIntervalMs x,
            sdk_KafkaStreamingSourceOptions.SecurityProtocol = KafkaStreamingSourceOptions.SecurityProtocol x,
            sdk_KafkaStreamingSourceOptions.StartingOffsets = KafkaStreamingSourceOptions.StartingOffsets x,
            sdk_KafkaStreamingSourceOptions.StartingTimestamp = KafkaStreamingSourceOptions.StartingTimestamp x,
            sdk_KafkaStreamingSourceOptions.SubscribePattern = KafkaStreamingSourceOptions.SubscribePattern x,
            sdk_KafkaStreamingSourceOptions.TopicName = KafkaStreamingSourceOptions.TopicName x\<rparr>))"

definition update_CatalogKafkaSource :: "'e golib \<Rightarrow> CatalogKafkaSource \<Rightarrow> ('e, sdk_CatalogKafkaSource) outcome" where
  "update_CatalogKafkaSource lib x =
     and_then (when_set update_StreamingDataPreviewOptions (CatalogKafkaSource.DataPreviewOptions x)) (\<lambda>f0.
     and_then (when_set (update_KafkaStreamingSourceOptions lib) (CatalogKafkaSource.StreamingOptions x)) (\<lambda>f1.
     and_then (int32_write_ptr lib ''error: field WindowSize is of type int32'' (CatalogKafkaSource.WindowSize x)) (\<lambda>f2.
       Inr \<lparr>sdk_CatalogKafkaSource.DataPreviewOptions = f0,
            sdk_CatalogKafkaSource.Database = CatalogKafkaSource.Database x,
            sdk_CatalogKafkaSource.DetectSchema = CatalogKafkaSource.DetectSchema x,
            sdk_CatalogKafkaSource.Name = CatalogKafkaSource.Name x,
            sdk_CatalogKafkaSource.StreamingOptions = f1,
            sdk_CatalogKafkaSource.Table = CatalogKafkaSource.Table x,
            sdk_CatalogKafkaSource.WindowSize = f2\<rparr>)))"

definition update_KinesisStreamingSourceOptions :: "'e golib \<Rightarrow> KinesisStreamingSourceOptions \<Rightarrow> ('e, sdk_KinesisStreamingSourceOptions) outcome" where
  "update_KinesisStreamingSourceOptions lib x =
     and_then (int32_write_ptr lib ''error: field NumRetries is of type int32'' (KinesisStreamingSourceOptions.NumRetries x)) (\<lambda>f0.
       Inr \<lparr>sdk_KinesisStreamingSourceOptions.AddIdleTimeBetweenReads = KinesisStreamingSourceOptions.AddIdleTimeBetweenReads x,
            sdk_KinesisStreamingSourceOptions.AddRecordTimestamp = KinesisStreamingSourceOptions.AddRecordTimestamp x,
            sdk_KinesisStreamingSourceOptions.AvoidEmptyBatches = KinesisStreamingSourceOptions.AvoidEmptyBatches x,
            sdk_KinesisStreamingSourceOptions.Classification = KinesisStreamingSourceOptions.Classification x,
            sdk_KinesisStreamingSourceOptions.Delimiter = KinesisStreamingSourceOptions.Delimiter x,
            sdk_KinesisStreamingSourceOptions.DescribeShardInterval = KinesisStreamingSourceOptions.DescribeShardInterval x,
            sdk_KinesisStreamingSourceOptions.EmitConsumerLagMetrics = KinesisStreamingSourceOptions.EmitConsumerLagMetrics x,
            sdk_KinesisStreamingSourceOptions.EndpointUrl = KinesisStreamingSourceOptions.EndpointURL x,
            sdk_KinesisStreamingSourceOptions.IdleTimeBetweenReadsInMs = KinesisStreamingSourceOptions.IdleTimeBetweenReadsInMs x,
            sdk_KinesisStreamingSourceOptions.MaxFetchRecordsPerShard = KinesisStreamingSourceOptions.MaxFetchRecordsPerShard x,
            sdk_KinesisStreamingSourceOptions.MaxFetchTimeInMs = KinesisStreamingSourceOptions.MaxFetchTimeInMs x,
            sdk_KinesisStreamingSourceOptions.MaxRecordPerRead = KinesisStreamingSourceOptions.MaxRecordPerRead x,
            sdk_KinesisStreamingSourceOptions.MaxRetryIntervalMs = KinesisStreamingSourceOptions.MaxRetryIntervalMs x,
            sdk_KinesisStreamingSourceOptions.NumRetries = f0,
            sdk_KinesisStreamingSourceOptions.RetryIntervalMs = KinesisStreamingSourceOptions.RetryIntervalMs x,
            sdk_KinesisStreamingSourceOptions.RoleArn = KinesisStreamingSourceOptions.RoleARN x,
            sdk_KinesisStreamingSourceOptions.RoleSessionName = KinesisStreamingSourceOptions.RoleSessionName x,
            sdk_KinesisStreamingSourceOptions.StartingPosition = or_zero '''' (KinesisStreamingSourceOptions.StartingPosition x),
            sdk_KinesisStreamingSourceOptions.StartingTimestamp = KinesisStreamingSourceOptions.StartingTimestamp x,
            sdk_KinesisStreamingSourceOptions.StreamArn = KinesisStreamingSourceOptions.StreamARN x,
            sdk_KinesisStreamingSourceOptions.StreamName = KinesisStreamingSourceOptions.StreamName x\<rparr>)"

definition update_CatalogKinesisSource :: "'e golib \<Rightarrow> CatalogKinesisSource \<Rightarrow> ('e, sdk_CatalogKinesisSource) outcome" where
  "update_CatalogKinesisSource lib x =
     and_then (when_set update_StreamingDataPreviewOptions (CatalogKinesisSource.DataPreviewOptions x)) (\<lambda>f0.
     and_then (when_set (update_KinesisStreamingSourceOptions lib) (CatalogKinesisSource.StreamingOptions x)) (\<lambda>f1.
     and_then (int32_write_ptr lib ''error: field WindowSize is of type int32'' (CatalogKinesisSource.WindowSize x)) (\<lambda>f2.
       Inr \<lparr>sdk_CatalogKinesisSource.DataPreviewOptions = f0,
            sdk_CatalogKinesisSource.Database = CatalogKinesisSource.Database x,
            sdk_CatalogKinesisSource.DetectSchema = CatalogKinesisSource.DetectSchema x,
            sdk_CatalogKinesisSource.Name = CatalogKinesisSource.Name x,
            sdk_CatalogKinesisSource.StreamingOptions = f1,
            sdk_CatalogKinesisSource.Table = CatalogKinesisSource.Table x,
            sdk_CatalogKinesisSource.WindowSize = f2\<rparr>)))"

definition update_CatalogSource :: "CatalogSource \<Rightarrow> ('e, sdk_CatalogSource) outcome" where
  "update_CatalogSource x =
       Inr \<lparr>sdk_CatalogSource.Database = CatalogSource.Database x,
            sdk_CatalogSource.Name = CatalogSource.Name x,
            sdk_CatalogSource.Table = CatalogSource.Table x\<rparr>"

definition update_BasicCatalogTarget :: "'e golib \<Rightarrow> BasicCatalogTarget \<Rightarrow> ('e, sdk_BasicCatalogTarget) outcome" where
  "update_BasicCatalogTarget lib x =
       Inr \<lparr>sdk_BasicCatalogTarget.Database = BasicCatalogTarget.Database x,
            sdk_BasicCatalogTarget.Inputs = map_option (aws_ToStringSlice lib) (BasicCatalogTarget.Inputs x),
            sdk_BasicCatalogTarget.Name = BasicCatalogTarget.Name x,
            sdk_BasicCatalogTarget.PartitionKeys = map_option (map (aws_ToStringSlice lib)) (BasicCatalogTarget.PartitionKeys x),
            sdk_BasicCatalogTarget.Table = BasicCatalogTarget.Table x\<rparr>"

definition update_ConnectorDataSource :: "'e golib \<Rightarrow> ConnectorDataSource \<Rightarrow> ('e, sdk_ConnectorDataSource) outcome" where
  "update_ConnectorDataSource lib x =
     and_then (slice_write update_GlueSchema (ConnectorDataSource.OutputSchemas x)) (\<lambda>f0.
       Inr \<lparr>sdk_ConnectorDataSource.ConnectionType = ConnectorDataSource.ConnectionType x,
            sdk_ConnectorDataSource.Data = map_option (aws_ToStringMap lib) (ConnectorDataSource.Data x),
            sdk_ConnectorDataSource.Name = ConnectorDataSource.Name x,
            sdk_ConnectorDataSource.OutputSchemas = f0\<rparr>)"

definition update_ConnectorDataTarget :: "'e golib \<Rightarrow> ConnectorDataTarget \<Rightarrow> ('e, sdk_ConnectorDataTarget) outcome" where
  "update_ConnectorDataTarget lib x =
       Inr \<lparr>sdk_ConnectorDataTarget.ConnectionType = ConnectorDataTarget.ConnectionType x,
            sdk_ConnectorDataTarget.Data = map_option (aws_ToStringMap lib) (ConnectorDataTarget.Data x),
            sdk_ConnectorDataTarget.Inputs = map_option (aws_ToStringSlice lib) (ConnectorDataTarget.Inputs x),
            sdk_ConnectorDataTarget.Name = ConnectorDataTarget.Name x\<rparr>"

definition update_CustomCode :: "'e golib \<Rightarrow> CustomCode \<Rightarrow> ('e, sdk_CustomCode) outcome" where
  "update_CustomCode lib x =
     and_then (slice_write update_GlueSchema (CustomCode.OutputSchemas x)) (\<lambda>f0.
       Inr \<lparr>sdk_CustomCode.ClassName = CustomCode.ClassName x,
            sdk_CustomCode.Code = CustomCode.Code x,
            sdk_CustomCode.Inputs = map_option (aws_ToStringSlice lib) (CustomCode.Inputs x),
            sdk_CustomCode.Name = CustomCode.Name x,
            sdk_CustomCode.OutputSchemas = f0\<rparr>)"

definition update_DirectJDBCSource :: "DirectJDBCSource \<Rightarrow> ('e, sdk_DirectJDBCSource) outcome" where
  "update_DirectJDBCSource x =
       Inr \<lparr>sdk_DirectJDBCSource.ConnectionName = DirectJDBCSource.ConnectionName x,
            sdk_DirectJDBCSource.ConnectionType = or_zero '''' (DirectJDBCSource.ConnectionType x),
            sdk_DirectJDBCSource.Database = DirectJDBCSource.Database x,
            sdk_DirectJDBCSource.Name = DirectJDBCSource.Name x,
            sdk_DirectJDBCSource.RedshiftTmpDir = DirectJDBCSource.RedshiftTmpDir x,
            sdk_DirectJDBCSource.Table = DirectJDBCSource.Table x\<rparr>"

definition update_DirectKafkaSource :: "'e golib \<Rightarrow> DirectKafkaSource \<Rightarrow> ('e, sdk_DirectKafkaSource) outcome" where
  "update_DirectKafkaSource lib x =
     and_then (when_set update_StreamingDataPreviewOptions (DirectKafkaSource.DataPreviewOptions x)) (\<lambda>f0.
     and_then (when_set (update_KafkaStreamingSourceOptions lib) (DirectKafkaSource.StreamingOptions x)) (\<lambda>f1.
     and_then (int32_write_ptr lib ''error: field WindowSize is of type int32'' (DirectKafkaSource.WindowSize x)) (\<lambda>f2.
       Inr \<lparr>sdk_DirectKafkaSource.DataPreviewOptions = f0,
            sdk_DirectKafkaSource.DetectSchema = DirectKafkaSource.DetectSchema x,
            sdk_DirectKafkaSource.Name = DirectKafkaSource.Name x,
            sdk_DirectKafkaSource.StreamingOptions = f1,
            sdk_DirectKafkaSource.WindowSize = f2\<rparr>)))"

definition update_DirectKinesisSource :: "'e golib \<Rightarrow> DirectKinesisSource \<Rightarrow> ('e, sdk_DirectKinesisSource) outcome" where
  "update_DirectKinesisSource lib x =
     and_then (when_set update_StreamingDataPreviewOptions (DirectKinesisSource.DataPreviewOptions x)) (\<lambda>f0.
     and_then (when_set (update_KinesisStreamingSourceOptions lib) (DirectKinesisSource.StreamingOptions x)) (\<lambda>f1.
     and_then (int32_write_ptr lib ''error: field WindowSize is of type int32'' (DirectKinesisSource.WindowSize x)) (\<lambda>f2.
       Inr \<lparr>sdk_DirectKinesisSource.DataPreviewOptions = f0,
            sdk_DirectKinesisSource.DetectSchema = DirectKinesisSource.DetectSchema x,
            sdk_DirectKinesisSource.Name = DirectKinesisSource.Name x,
            sdk_DirectKinesisSource.StreamingOptions = f1,
            sdk_DirectKinesisSource.WindowSize = f2\<rparr>)))"

definition update_DropDuplicates :: "'e golib \<Rightarrow> DropDuplicates \<Rightarrow> ('e, sdk_DropDuplicates) outcome" where
  "update_DropDuplicates lib x =
       Inr \<lparr>sdk_DropDuplicates.Columns = map_option (map (aws_ToStringSlice lib)) (DropDuplicates.Columns x),
            sdk_DropDuplicates.Inputs = map_option (aws_ToStringSlice lib) (DropDuplicates.Inputs x),
            sdk_DropDuplicates.Name = DropDuplicates.Name x\<rparr>"

definition update_DropFields :: "'e golib \<Rightarrow> DropFields \<Rightarrow> ('e, sdk_DropFields) outcome" where
  "update_DropFields lib x =
       Inr \<lparr>sdk_DropFields.Inputs = map_option (aws_ToStringSlice lib) (DropFields.Inputs x),
            sdk_DropFields.Name = DropFields.Name x,
            sdk_DropFields.Paths = map_option (map (aws_ToStringSlice lib)) (DropFields.Paths x)\<rparr>"

definition update_NullCheckBoxList :: "NullCheckBoxList \<Rightarrow> ('e, sdk_NullCheckBoxList) outcome" where
  "update_NullCheckBoxList x =
       Inr \<lparr>sdk_NullCheckBoxList.IsEmpty = NullCheckBoxList.IsEmpty x,
            sdk_NullCheckBoxList.IsNegOne = NullCheckBoxList.IsNegOne x,
            sdk_NullCheckBoxList.IsNullString = NullCheckBoxList.IsNullString x\<rparr>"

definition update_Datatype :: "Datatype \<Rightarrow> ('e, sdk_Datatype) outcome" where
  "update_Datatype x =
       Inr \<lparr>sdk_Datatype.Id = Datatype.ID x,
            sdk_Datatype.Label = Datatype.Label x\<rparr>"

definition update_NullValueField :: "NullValueField \<Rightarrow> ('e, sdk_NullValueField) outcome" where
  "update_NullValueField x =
     and_then (when_set update_Datatype (NullValueField.Datatype x)) (\<lambda>f0.
       Inr \<lparr>sdk_NullValueField.Datatype = f0,
            sdk_NullValueField.Value = NullValueField.Value x\<rparr>)"

definition update_DropNullFields :: "'e golib \<Rightarrow> DropNullFields \<Rightarrow> ('e, sdk_DropNullFields) outcome" where
  "update_DropNullFields lib x =
     and_then (when_set update_NullCheckBoxList (DropNullFields.NullCheckBoxList x)) (\<lambda>f0.
     and_then (slice_write update_NullValueField (DropNullFields.NullTextList x)) (\<lambda>f1.
       Inr \<lparr>sdk_DropNullFields.Inputs = map_option (aws_ToStringSlice lib) (DropNullFields.Inputs x),
            sdk_DropNullFields.Name = DropNullFields.Name x,
            sdk_DropNullFields.NullCheckBoxList = f0,
            sdk_DropNullFields.NullTextList = f1\<rparr>))"

definition update_TransformConfigParameter :: "'e golib \<Rightarrow> TransformConfigParameter \<Rightarrow> ('e, sdk_TransformConfigParameter) outcome" where
  "update_TransformConfigParameter lib x =
       Inr \<lparr>sdk_TransformConfigParameter.IsOptional = TransformConfigParameter.IsOptional x,
            sdk_TransformConfigParameter.ListType = or_zero '''' (TransformConfigParameter.ListType x),
            sdk_TransformConfigParameter.Name = TransformConfigParameter.Name x,
            sdk_TransformConfigParameter.Type = or_zero '''' (TransformConfigParameter.Type x),
            sdk_TransformConfigParameter.ValidationMessage = TransformConfigParameter.ValidationMessage x,
            sdk_TransformConfigParameter.ValidationRule = TransformConfigParameter.ValidationRule x,
            sdk_TransformConfigParameter.Value = map_option (aws_ToStringSlice lib) (TransformConfigParameter.Value x)\<rparr>"

definition update_DynamicTransform :: "'e golib \<Rightarrow> DynamicTransform \<Rightarrow> ('e, sdk_DynamicTransform) outcome" where
  "update_DynamicTransform lib x =
     and_then (slice_write update_GlueSchema (DynamicTransform.OutputSchemas x)) (\<lambda>f0.
     and_then (slice_write (update_TransformConfigParameter lib) (DynamicTransform.Parameters x)) (\<lambda>f1.
       Inr \<lparr>sdk_DynamicTransform.FunctionName = DynamicTransform.FunctionName x,
            sdk_DynamicTransform.Inputs = map_option (aws_ToStringSlice lib) (DynamicTransform.Inputs x),
            sdk_DynamicTransform.Name = DynamicTransform.Name x,
            sdk_DynamicTransform.OutputSchemas = f0,
            sdk_DynamicTransform.Parameters = f1,
            sdk_DynamicTransform.Path = DynamicTransform.Path x,
            sdk_DynamicTransform.TransformName = DynamicTransform.TransformName x,
            sdk_DynamicTransform.Version = DynamicTransform.Version x\<rparr>))"

definition update_DynamoDBCatalogSource :: "DynamoDBCatalogSource \<Rightarrow> ('e, sdk_DynamoDBCatalogSource) outcome" where
  "update_DynamoDBCatalogSource x =
       Inr \<lparr>sdk_DynamoDBCatalogSource.Database = DynamoDBCatalogSource.Database x,
            sdk_DynamoDBCatalogSource.Name = DynamoDBCatalogSource.Name x,
            sdk_DynamoDBCatalogSource.Table = DynamoDBCatalogSource.Table x\<rparr>"

definition update_DQResultsPublishingOptions :: "DQResultsPublishingOptions \<Rightarrow> ('e, sdk_DQResultsPublishingOptions) outcome" where
  "update_DQResultsPublishingOptions x =
       Inr \<lparr>sdk_DQResultsPublishingOptions.CloudWatchMetricsEnabled = DQResultsPublishingOptions.CloudWatchMetricsEnabled x,
            sdk_DQResultsPublishingOptions.EvaluationContext = DQResultsPublishingOptions.EvaluationContext x,
            sdk_DQResultsPublishingOptions.ResultsPublishingEnabled = DQResultsPublishingOptions.ResultsPublishingEnabled x,
            sdk_DQResultsPublishingOptions.ResultsS3Prefix = DQResultsPublishingOptions.ResultsS3Prefix x\<rparr>"

definition update_DQStopJobOnFailureOptions :: "DQStopJobOnFailureOptions \<Rightarrow> ('e, sdk_DQStopJobOnFailureOptions) outcome" where
  "update_DQStopJobOnFailureOptions x =
       Inr \<lparr>sdk_DQStopJobOnFailureOptions.StopJobOnFailureTiming = or_zero '''' (DQStopJobOnFailureOptions.StopJobOnFailureTiming x)\<rparr>"

definition update_EvaluateDataQuality :: "'e golib \<Rightarrow> EvaluateDataQuality \<Rightarrow> ('e, sdk_EvaluateDataQuality) outcome" where
  "update_EvaluateDataQuality lib x =
     and_then (when_set update_DQResultsPublishingOptions (EvaluateDataQuality.PublishingOptions x)) (\<lambda>f0.
     and_then (when_set update_DQStopJobOnFailureOptions (EvaluateDataQuality.StopJobOnFailureOptions x)) (\<lambda>f1.
       Inr \<lparr>sdk_EvaluateDataQuality.Inputs = map_option (aws_ToStringSlice lib) (EvaluateDataQuality.Inputs x),
            sdk_EvaluateDataQuality.Name = EvaluateDataQuality.Name x,
            sdk_EvaluateDataQuality.Output = or_zero '''' (EvaluateDataQuality.Output x),
            sdk_EvaluateDataQuality.PublishingOptions = f0,
            sdk_EvaluateDataQuality.Ruleset = EvaluateDataQuality.Ruleset x,
            sdk_EvaluateDataQuality.StopJobOnFailureOptions = f1\<rparr>))"

definition update_EvaluateDataQualityMultiFrame :: "'e golib \<Rightarrow> EvaluateDataQualityMultiFrame \<Rightarrow> ('e, sdk_EvaluateDataQualityMultiFrame) outcome" where
  "update_EvaluateDataQualityMultiFrame lib x =
     and_then (when_set update_DQResultsPublishingOptions (EvaluateDataQualityMultiFrame.PublishingOptions x)) (\<lambda>f0.
     and_then (when_set update_DQStopJobOnFailureOptions (EvaluateDataQualityMultiFrame.StopJobOnFailureOptions x)) (\<lambda>f1.
       Inr \<lparr>sdk_EvaluateDataQualityMultiFrame.AdditionalDataSources = map_option (aws_ToStringMap lib) (EvaluateDataQualityMultiFrame.AdditionalDataSources x),
            sdk_EvaluateDataQualityMultiFrame.AdditionalOptions = map_option (aws_ToStringMap lib) (EvaluateDataQualityMultiFrame.AdditionalOptions x),
            sdk_EvaluateDataQualityMultiFrame.Inputs = map_option (aws_ToStringSlice lib) (EvaluateDataQualityMultiFrame.Inputs x),
            sdk_EvaluateDataQualityMultiFrame.Name = EvaluateDataQualityMultiFrame.Name x,
            sdk_EvaluateDataQualityMultiFrame.PublishingOptions = f0,
            sdk_EvaluateDataQualityMultiFrame.Ruleset = EvaluateDataQualityMultiFrame.Ruleset x,
            sdk_EvaluateDataQualityMultiFrame.StopJobOnFailureOptions = f1\<rparr>))"

definition update_FillMissingValues :: "'e golib \<Rightarrow> FillMissingValues \<Rightarrow> ('e, sdk_FillMissingValues) outcome" where
  "update_FillMissingValues lib x =
       Inr \<lparr>sdk_FillMissingValues.FilledPath = FillMissingValues.FilledPath x,
            sdk_FillMissingValues.ImputedPath = FillMissingValues.ImputedPath x,
            sdk_FillMissingValues.Inputs = map_option (aws_ToStringSlice lib) (FillMissingValues.Inputs x),
            sdk_FillMissingValues.Name = FillMissingValues.Name x\<rparr>"

definition update_FilterValue :: "'e golib \<Rightarrow> FilterValue \<Rightarrow> ('e, sdk_FilterValue) outcome" where
  "update_FilterValue lib x =
       Inr \<lparr>sdk_FilterValue.Type = or_zero '''' (FilterValue.Type x),
            sdk_FilterValue.Value = map_option (aws_ToStringSlice lib) (FilterValue.Value x)\<rparr>"

definition update_FilterExpression :: "'e golib \<Rightarrow> FilterExpression \<Rightarrow> ('e, sdk_FilterExpression) outcome" where
  "update_FilterExpression lib x =
     and_then (slice_write (update_FilterValue lib) (FilterExpression.Values x)) (\<lambda>f0.
       Inr \<lparr>sdk_FilterExpression.Negated = FilterExpression.Negated x,
            sdk_FilterExpression.Operation = or_zero '''' (FilterExpression.Operation x),
            sdk_FilterExpression.Values = f0\<rparr>)"

definition update_Filter :: "'e golib \<Rightarrow> Filter \<Rightarrow> ('e, sdk_Filter) outcome" where
  "update_Filter lib x =
     and_then (slice_write (update_FilterExpression lib) (Filter.Filters x)) (\<lambda>f0.
       Inr \<lparr>sdk_Filter.Filters = f0,
            sdk_Filter.Inputs = map_option (aws_ToStringSlice lib) (Filter.Inputs x),
            sdk_Filter.LogicalOperator = or_zero '''' (Filter.LogicalOperator x),
            sdk_Filter.Name = Filter.Name x\<rparr>)"

definition update_S3SourceAdditionalOptions :: "S3SourceAdditionalOptions \<Rightarrow> ('e, sdk_S3SourceAdditionalOptions) outcome" where
  "update_S3SourceAdditionalOptions x =
       Inr \<lparr>sdk_S3SourceAdditionalOptions.BoundedFiles = S3SourceAdditionalOptions.BoundedFiles x,
            sdk_S3SourceAdditionalOptions.BoundedSize = S3SourceAdditionalOptions.BoundedSize x\<rparr>"

definition update_GovernedCatalogSource :: "GovernedCatalogSource \<Rightarrow> ('e, sdk_GovernedCatalogSource) outcome" where
  "update_GovernedCatalogSource x =
     and_then (when_set update_S3SourceAdditionalOptions (GovernedCatalogSource.AdditionalOptions x)) (\<lambda>f0.
       Inr \<lparr>sdk_GovernedCatalogSource.AdditionalOptions = f0,
            sdk_GovernedCatalogSource.Database = GovernedCatalogSource.Database x,
            sdk_GovernedCatalogSource.Name = GovernedCatalogSource.Name x,
            sdk_GovernedCatalogSource.PartitionPredicate = GovernedCatalogSource.PartitionPredicate x,
            sdk_GovernedCatalogSource.Table = GovernedCatalogSource.Table x\<rparr>)"

definition update_CatalogSchemaChangePolicy :: "CatalogSchemaChangePolicy \<Rightarrow> ('e, sdk_CatalogSchemaChangePolicy) outcome" where
  "update_CatalogSchemaChangePolicy x =
       Inr \<lparr>sdk_CatalogSchemaChangePolicy.EnableUpdateCatalog = CatalogSchemaChangePolicy.EnableUpdateCatalog x,
            sdk_CatalogSchemaChangePolicy.UpdateBehavior = or_zero '''' (CatalogSchemaChangePolicy.UpdateBehavior x)\<rparr>"

definition update_GovernedCatalogTarget :: "'e golib \<Rightarrow> GovernedCatalogTarget \<Rightarrow> ('e, sdk_GovernedCatalogTarget) outcome" where
  "update_GovernedCatalogTarget lib x =
     and_then (when_set update_CatalogSchemaChangePolicy (GovernedCatalogTarget.SchemaChangePolicy x)) (\<lambda>f0.
       Inr \<lparr>sdk_GovernedCatalogTarget.Database = GovernedCatalogTarget.Database x,
            sdk_GovernedCatalogTarget.Inputs = map_option (aws_ToStringSlice lib) (GovernedCatalogTarget.Inputs x),
            sdk_GovernedCatalogTarget.Name = GovernedCatalogTarget.Name x,
            sdk_GovernedCatalogTarget.PartitionKeys = map_option (map (aws_ToStringSlice lib)) (GovernedCatalogTarget.PartitionKeys x),
            sdk_GovernedCatalogTarget.SchemaChangePolicy = f0,
            sdk_GovernedCatalogTarget.Table = GovernedCatalogTarget.Table x\<rparr>)"

definition update_JDBCConnectorOptions :: "'e golib \<Rightarrow> map_order \<Rightarrow> JDBCConnectorOptions \<Rightarrow> ('e, sdk_JDBCConnectorOptions) outcome" where
  "update_JDBCConnectorOptions lib ord x =
     and_then (when_set (range_traverse ord deref) (JDBCConnectorOptions.DataTypeMapping x)) (\<lambda>f0.
       Inr \<lparr>sdk_JDBCConnectorOptions.DataTypeMapping = f0,
            sdk_JDBCConnectorOptions.FilterPredicate = JDBCConnectorOptions.FilterPredicate x,
            sdk_JDBCConnectorOptions.JobBookmarkKeys = map_option (aws_ToStringSlice lib) (JDBCConnectorOptions.JobBookmarkKeys x),
            sdk_JDBCConnectorOptions.JobBookmarkKeysSortOrder = JDBCConnectorOptions.JobBookmarkKeysSortOrder x,
            sdk_JDBCConnectorOptions.LowerBound = JDBCConnectorOptions.LowerBound x,
            sdk_JDBCConnectorOptions.NumPartitions = JDBCConnectorOptions.NumPartitions x,
            sdk_JDBCConnectorOptions.PartitionColumn = JDBCConnectorOptions.PartitionColumn x,
            sdk_JDBCConnectorOptions.UpperBound = JDBCConnectorOptions.UpperBound x\<rparr>)"

definition update_JDBCConnectorSource :: "'e golib \<Rightarrow> map_order \<Rightarrow> JDBCConnectorSource \<Rightarrow> ('e, sdk_JDBCConnectorSource) outcome" where
  "update_JDBCConnectorSource lib ord x =
     and_then (when_set (update_JDBCConnectorOptions lib ord) (JDBCConnectorSource.AdditionalOptions x)) (\<lambda>f0.
     and_then (slice_write update_GlueSchema (JDBCConnectorSource.OutputSchemas x)) (\<lambda>f1.
       Inr \<lparr>sdk_JDBCConnectorSource.AdditionalOptions = f0,
            sdk_JDBCConnectorSource.ConnectionName = JDBCConnectorSource.ConnectionName x,
            sdk_JDBCConnectorSource.ConnectionTable = JDBCConnectorSource.ConnectionTable x,
            sdk_JDBCConnectorSource.ConnectionType = JDBCConnectorSource.ConnectionType x,
            sdk_JDBCConnectorSource.ConnectorName = JDBCConnectorSource.ConnectorName x,
            sdk_JDBCConnectorSource.Name = JDBCConnectorSource.Name x,
            sdk_JDBCConnectorSource.OutputSchemas = f1,
            sdk_JDBCConnectorSource.Query = JDBCConnectorSource.Query x\<rparr>))"

definition update_JDBCConnectorTarget :: "'e golib \<Rightarrow> JDBCConnectorTarget \<Rightarrow> ('e, sdk_JDBCConnectorTarget) outcome" where
  "update_JDBCConnectorTarget lib x =
     and_then (slice_write update_GlueSchema (JDBCConnectorTarget.OutputSchemas x)) (\<lambda>f0.
       Inr \<lparr>sdk_JDBCConnectorTarget.AdditionalOptions = map_option (aws_ToStringMap lib) (JDBCConnectorTarget.AdditionalOptions x),
            sdk_JDBCConnectorTarget.ConnectionName = JDBCConnectorTarget.ConnectionName x,
            sdk_JDBCConnectorTarget.ConnectionTable = JDBCConnectorTarget.ConnectionTable x,
            sdk_JDBCConnectorTarget.ConnectionType = JDBCConnectorTarget.ConnectionType x,
            sdk_JDBCConnectorTarget.ConnectorName = JDBCConnectorTarget.ConnectorName x,
            sdk_JDBCConnectorTarget.Inputs = map_option (aws_ToStringSlice lib) (JDBCConnectorTarget.Inputs x),
            sdk_JDBCConnectorTarget.Name = JDBCConnectorTarget.Name x,
            sdk_JDBCConnectorTarget.OutputSchemas = f0\<rparr>)"

definition update_JoinColumn :: "'e golib \<Rightarrow> JoinColumn \<Rightarrow> ('e, sdk_JoinColumn) outcome" where
  "update_JoinColumn lib x =
       Inr \<lparr>sdk_JoinColumn.From = JoinColumn.From x,
            sdk_JoinColumn.Keys = map_option (map (aws_ToStringSlice lib)) (JoinColumn.Keys x)\<rparr>"

definition update_Join :: "'e golib \<Rightarrow> Join \<Rightarrow> ('e, sdk_Join) outcome" where
  "update_Join lib x =
     and_then (slice_write (update_JoinColumn lib) (Join.Columns x)) (\<lambda>f0.
       Inr \<lparr>sdk_Join.Columns = f0,
            sdk_Join.Inputs = map_option (aws_ToStringSlice lib) (Join.Inputs x),
            sdk_Join.JoinType = or_zero '''' (Join.JoinType x),
            sdk_Join.Name = Join.Name x\<rparr>)"

definition update_Merge :: "'e golib \<Rightarrow> Merge \<Rightarrow> ('e, sdk_Merge) outcome" where
  "update_Merge lib x =
       Inr \<lparr>sdk_Merge.Inputs = map_option (aws_ToStringSlice lib) (Merge.Inputs x),
            sdk_Merge.Name = Merge.Name x,
            sdk_Merge.PrimaryKeys = map_option (map (aws_ToStringSlice lib)) (Merge.PrimaryKeys x),
            sdk_Merge.Source = Merge.Source x\<rparr>"

definition update_MicrosoftSQLServerCatalogSource :: "MicrosoftSQLServerCatalogSource \<Rightarrow> ('e, sdk_MicrosoftSQLServerCatalogSource) outcome" where
  "update_MicrosoftSQLServerCatalogSource x =
       Inr \<lparr>sdk_MicrosoftSQLServerCatalogSource.Database = MicrosoftSQLServerCatalogSource.Database x,
            sdk_MicrosoftSQLServerCatalogSource.Name = MicrosoftSQLServerCatalogSource.Name x,
            sdk_MicrosoftSQLServerCatalogSource.Table = MicrosoftSQLServerCatalogSource.Table x\<rparr>"

definition update_MicrosoftSQLServerCatalogTarget :: "'e golib \<Rightarrow> MicrosoftSQLServerCatalogTarget \<Rightarrow> ('e, sdk_MicrosoftSQLServerCatalogTarget) outcome" where
  "update_MicrosoftSQLServerCatalogTarget lib x =
       Inr \<lparr>sdk_MicrosoftSQLServerCatalogTarget.Database = MicrosoftSQLServerCatalogTarget.Database x,
            sdk_MicrosoftSQLServerCatalogTarget.Inputs = map_option (aws_ToStringSlice lib) (MicrosoftSQLServerCatalogTarget.Inputs x),
            sdk_MicrosoftSQLServerCatalogTarget.Name = MicrosoftSQLServerCatalogTarget.Name x,
            sdk_MicrosoftSQLServerCatalogTarget.Table = MicrosoftSQLServerCatalogTarget.Table x\<rparr>"

definition update_MySQLCatalogSource :: "MySQLCatalogSource \<Rightarrow> ('e, sdk_MySQLCatalogSource) outcome" where
  "update_MySQLCatalogSource x =
       Inr \<lparr>sdk_MySQLCatalogSource.Database = MySQLCatalogSource.Database x,
            sdk_MySQLCatalogSource.Name = MySQLCatalogSource.Name x,
            sdk_MySQLCatalogSource.Table = MySQLCatalogSource.Table x\<rparr>"

definition update_MySQLCatalogTarget :: "'e golib \<Rightarrow> MySQLCatalogTarget \<Rightarrow> ('e, sdk_MySQLCatalogTarget) outcome" where
  "update_MySQLCatalogTarget lib x =
       Inr \<lparr>sdk_MySQLCatalogTarget.Database = MySQLCatalogTarget.Database x,
            sdk_MySQLCatalogTarget.Inputs = map_option (aws_ToStringSlice lib) (MySQLCatalogTarget.Inputs x),
            sdk_MySQLCatalogTarget.Name = MySQLCatalogTarget.Name x,
            sdk_MySQLCatalogTarget.Table = MySQLCatalogTarget.Table x\<rparr>"

definition update_OracleSQLCatalogSource :: "OracleSQLCatalogSource \<Rightarrow> ('e, sdk_OracleSQLCatalogSource) outcome" where
  "update_OracleSQLCatalogSource x =
       Inr \<lparr>sdk_OracleSQLCatalogSource.Database = OracleSQLCatalogSource.Database x,
            sdk_OracleSQLCatalogSource.Name = OracleSQLCatalogSource.Name x,
            sdk_OracleSQLCatalogSource.Table = OracleSQLCatalogSource.Table x\<rparr>"

definition update_OracleSQLCatalogTarget :: "'e golib \<Rightarrow> OracleSQLCatalogTarget \<Rightarrow> ('e, sdk_OracleSQLCatalogTarget) outcome" where
  "update_OracleSQLCatalogTarget lib x =
       Inr \<lparr>sdk_OracleSQLCatalogTarget.Database = OracleSQLCatalogTarget.Database x,
            sdk_OracleSQLCatalogTarget.Inputs = map_option (aws_ToStringSlice lib) (OracleSQLCatalogTarget.Inputs x),
            sdk_OracleSQLCatalogTarget.Name = OracleSQLCatalogTarget.Name x,
            sdk_OracleSQLCatalogTarget.Table = OracleSQLCatalogTarget.Table x\<rparr>"

definition update_PIIDetection :: "'e golib \<Rightarrow> PIIDetection \<Rightarrow> ('e, sdk_PIIDetection) outcome" where
  "update_PIIDetection lib x =
       Inr \<lparr>sdk_PIIDetection.EntityTypesToDetect = map_option (aws_ToStringSlice lib) (PIIDetection.EntityTypesToDetect x),
            sdk_PIIDetection.Inputs = map_option (aws_ToStringSlice lib) (PIIDetection.Inputs x),
            sdk_PIIDetection.MaskValue = PIIDetection.MaskValue x,
            sdk_PIIDetection.Name = PIIDetection.Name x,
            sdk_PIIDetection.OutputColumnName = PIIDetection.OutputColumnName x,
            sdk_PIIDetection.PiiType = or_zero '''' (PIIDetection.PiiType x),
            sdk_PIIDetection.SampleFraction = PIIDetection.SampleFraction x,
            sdk_PIIDetection.ThresholdFraction = PIIDetection.ThresholdFraction x\<rparr>"

definition update_PostgreSQLCatalogSource :: "PostgreSQLCatalogSource \<Rightarrow> ('e, sdk_PostgreSQLCatalogSource) outcome" where
  "update_PostgreSQLCatalogSource x =
       Inr \<lparr>sdk_PostgreSQLCatalogSource.Database = PostgreSQLCatalogSource.Database x,
            sdk_PostgreSQLCatalogSource.Name = PostgreSQLCatalogSource.Name x,
            sdk_PostgreSQLCatalogSource.Table = PostgreSQLCatalogSource.Table x\<rparr>"

definition update_PostgreSQLCatalogTarget :: "'e golib \<Rightarrow> PostgreSQLCatalogTarget \<Rightarrow> ('e, sdk_PostgreSQLCatalogTarget) outcome" where
  "update_PostgreSQLCatalogTarget lib x =
       Inr \<lparr>sdk_PostgreSQLCatalogTarget.Database = PostgreSQLCatalogTarget.Database x,
            sdk_PostgreSQLCatalogTarget.Inputs = map_option (aws_ToStringSlice lib) (PostgreSQLCatalogTarget.Inputs x),
            sdk_PostgreSQLCatalogTarget.Name = PostgreSQLCatalogTarget.Name x,
            sdk_PostgreSQLCatalogTarget.Table = PostgreSQLCatalogTarget.Table x\<rparr>"

definition update_RecipeReference :: "RecipeReference \<Rightarrow> ('e, sdk_RecipeReference) outcome" where
  "update_RecipeReference x =
       Inr \<lparr>sdk_RecipeReference.RecipeArn = RecipeReference.RecipeARN x,
            sdk_RecipeReference.RecipeVersion = RecipeReference.RecipeVersion x\<rparr>"

definition update_RecipeAction :: "'e golib \<Rightarrow> RecipeAction \<Rightarrow> ('e, sdk_RecipeAction) outcome" where
  "update_RecipeAction lib x =
       Inr \<lparr>sdk_RecipeAction.Operation = RecipeAction.Operation x,
            sdk_RecipeAction.Parameters = map_option (aws_ToStringMap lib) (RecipeAction.Parameters x)\<rparr>"

definition update_ConditionExpression :: "ConditionExpression \<Rightarrow> ('e, sdk_ConditionExpression) outcome" where
  "update_ConditionExpression x =
       Inr \<lparr>sdk_ConditionExpression.Condition = ConditionExpression.Condition x,
            sdk_ConditionExpression.TargetColumn = ConditionExpression.TargetColumn x,
            sdk_ConditionExpression.Value = ConditionExpression.Value x\<rparr>"

definition update_RecipeStep :: "'e golib \<Rightarrow> RecipeStep \<Rightarrow> ('e, sdk_RecipeStep) outcome" where
  "update_RecipeStep lib x =
     and_then (when_set (update_RecipeAction lib) (RecipeStep.Action x)) (\<lambda>f0.
     and_then (slice_write update_ConditionExpression (RecipeStep.ConditionExpressions x)) (\<lambda>f1.
       Inr \<lparr>sdk_RecipeStep.Action = f0,
            sdk_RecipeStep.ConditionExpressions = f1\<rparr>))"

definition update_Recipe :: "'e golib \<Rightarrow> Recipe \<Rightarrow> ('e, sdk_Recipe) outcome" where
  "update_Recipe lib x =
     and_then (when_set update_RecipeReference (Recipe.RecipeReference x)) (\<lambda>f0.
     and_then (slice_write (update_RecipeStep lib) (Recipe.RecipeSteps x)) (\<lambda>f1.
       Inr \<lparr>sdk_Recipe.Inputs = map_option (aws_ToStringSlice lib) (Recipe.Inputs x),
            sdk_Recipe.Name = Recipe.Name x,
            sdk_Recipe.RecipeReference = f0,
            sdk_Recipe.RecipeSteps = f1\<rparr>))"

definition update_RedshiftSource :: "RedshiftSource \<Rightarrow> ('e, sdk_RedshiftSource) outcome" where
  "update_RedshiftSource x =
       Inr \<lparr>sdk_RedshiftSource.Database = RedshiftSource.Database x,
            sdk_RedshiftSource.Name = RedshiftSource.Name x,
            sdk_RedshiftSource.RedshiftTmpDir = RedshiftSource.RedshiftTmpDir x,
            sdk_RedshiftSource.Table = RedshiftSource.Table x,
            sdk_RedshiftSource.TmpDirIAMRole = RedshiftSource.TmpDirIAMRole x\<rparr>"

definition update_UpsertRedshiftTargetOptions :: "'e golib \<Rightarrow> UpsertRedshiftTargetOptions \<Rightarrow> ('e, sdk_UpsertRedshiftTargetOptions) outcome" where
  "update_UpsertRedshiftTargetOptions lib x =
       Inr \<lparr>sdk_UpsertRedshiftTargetOptions.ConnectionName = UpsertRedshiftTargetOptions.ConnectionName x,
            sdk_UpsertRedshiftTargetOptions.TableLocation = UpsertRedshiftTargetOptions.TableLocation x,
            sdk_UpsertRedshiftTargetOptions.UpsertKeys = map_option (aws_ToStringSlice lib) (UpsertRedshiftTargetOptions.UpsertKeys x)\<rparr>"

definition update_RedshiftTarget :: "'e golib \<Rightarrow> RedshiftTarget \<Rightarrow> ('e, sdk_RedshiftTarget) outcome" where
  "update_RedshiftTarget lib x =
     and_then (when_set (update_UpsertRedshiftTargetOptions lib) (RedshiftTarget.UpsertRedshiftOptions x)) (\<lambda>f0.
       Inr \<lparr>sdk_RedshiftTarget.Database = RedshiftTarget.Database x,
            sdk_RedshiftTarget.Inputs = map_option (aws_ToStringSlice lib) (RedshiftTarget.Inputs x),
            sdk_RedshiftTarget.Name = RedshiftTarget.Name x,
            sdk_RedshiftTarget.RedshiftTmpDir = RedshiftTarget.RedshiftTmpDir x,
            sdk_RedshiftTarget.Table = RedshiftTarget.Table x,
            sdk_RedshiftTarget.TmpDirIAMRole = RedshiftTarget.TmpDirIAMRole x,
            sdk_RedshiftTarget.UpsertRedshiftOptions = f0\<rparr>)"

definition update_RelationalCatalogSource :: "RelationalCatalogSource \<Rightarrow> ('e, sdk_RelationalCatalogSource) outcome" where
  "update_RelationalCatalogSource x =
       Inr \<lparr>sdk_RelationalCatalogSource.Database = RelationalCatalogSource.Database x,
            sdk_RelationalCatalogSource.Name = RelationalCatalogSource.Name x,
            sdk_RelationalCatalogSource.Table = RelationalCatalogSource.Table x\<rparr>"

definition update_RenameField :: "'e golib \<Rightarrow> RenameField \<Rightarrow> ('e, sdk_RenameField) outcome" where
  "update_RenameField lib x =
       Inr \<lparr>sdk_RenameField.Inputs = map_option (aws_ToStringSlice lib) (RenameField.Inputs x),
            sdk_RenameField.Name = RenameField.Name x,
            sdk_RenameField.SourcePath = map_option (aws_ToStringSlice lib) (RenameField.SourcePath x),
            sdk_RenameField.TargetPath = map_option (aws_ToStringSlice lib) (RenameField.TargetPath x)\<rparr>"

definition update_S3CatalogDeltaSource :: "'e golib \<Rightarrow> S3CatalogDeltaSource \<Rightarrow> ('e, sdk_S3CatalogDeltaSource) outcome" where
  "update_S3CatalogDeltaSource lib x =
     and_then (slice_write update_GlueSchema (S3CatalogDeltaSource.OutputSchemas x)) (\<lambda>f0.
       Inr \<lparr>sdk_S3CatalogDeltaSource.AdditionalDeltaOptions = map_option (aws_ToStringMap lib) (S3CatalogDeltaSource.AdditionalDeltaOptions x),
            sdk_S3CatalogDeltaSource.Database = S3CatalogDeltaSource.Database x,
            sdk_S3CatalogDeltaSource.Name = S3CatalogDeltaSource.Name x,
            sdk_S3CatalogDeltaSource.OutputSchemas = f0,
            sdk_S3CatalogDeltaSource.Table = S3CatalogDeltaSource.Table x\<rparr>)"

definition update_S3CatalogHudiSource :: "'e golib \<Rightarrow> S3CatalogHudiSource \<Rightarrow> ('e, sdk_S3CatalogHudiSource) outcome" where
  "update_S3CatalogHudiSource lib x =
     and_then (slice_write update_GlueSchema (S3CatalogHudiSource.OutputSchemas x)) (\<lambda>f0.
       Inr \<lparr>sdk_S3CatalogHudiSource.AdditionalHudiOptions = map_option (aws_ToStringMap lib) (S3CatalogHudiSource.AdditionalHudiOptions x),
            sdk_S3CatalogHudiSource.Database = S3CatalogHudiSource.Database x,
            sdk_S3CatalogHudiSource.Name = S3CatalogHudiSource.Name x,
            sdk_S3CatalogHudiSource.OutputSchemas = f0,
            sdk_S3CatalogHudiSource.Table = S3CatalogHudiSource.Table x\<rparr>)"

definition update_S3CatalogSource :: "S3CatalogSource \<Rightarrow> ('e, sdk_S3CatalogSource) outcome" where
  "update_S3CatalogSource x =
     and_then (when_set update_S3SourceAdditionalOptions (S3CatalogSource.AdditionalOptions x)) (\<lambda>f0.
       Inr \<lparr>sdk_S3CatalogSource.AdditionalOptions = f0,
            sdk_S3CatalogSource.Database = S3CatalogSource.Database x,
            sdk_S3CatalogSource.Name = S3CatalogSource.Name x,
            sdk_S3CatalogSource.PartitionPredicate = S3CatalogSource.PartitionPredicate x,
            sdk_S3CatalogSource.Table = S3CatalogSource.Table x\<rparr>)"

definition update_S3CatalogTarget :: "'e golib \<Rightarrow> S3CatalogTarget \<Rightarrow> ('e, sdk_S3CatalogTarget) outcome" where
  "update_S3CatalogTarget lib x =
     and_then (when_set update_CatalogSchemaChangePolicy (S3CatalogTarget.SchemaChangePolicy x)) (\<lambda>f0.
       Inr \<lparr>sdk_S3CatalogTarget.Database = S3CatalogTarget.Database x,
            sdk_S3CatalogTarget.Inputs = map_option (aws_ToStringSlice lib) (S3CatalogTarget.Inputs x),
            sdk_S3CatalogTarget.Name = S3CatalogTarget.Name x,
            sdk_S3CatalogTarget.PartitionKeys = map_option (map (aws_ToStringSlice lib)) (S3CatalogTarget.PartitionKeys x),
            sdk_S3CatalogTarget.SchemaChangePolicy = f0,
            sdk_S3CatalogTarget.Table = S3CatalogTarget.Table x\<rparr>)"

definition update_S3DirectSourceAdditionalOptions :: "S3DirectSourceAdditionalOptions \<Rightarrow> ('e, sdk_S3DirectSourceAdditionalOptions) outcome" where
  "update_S3DirectSourceAdditionalOptions x =
       Inr \<lparr>sdk_S3DirectSourceAdditionalOptions.BoundedFiles = S3DirectSourceAdditionalOptions.BoundedFiles x,
            sdk_S3DirectSourceAdditionalOptions.BoundedSize = S3DirectSourceAdditionalOptions.BoundedSize x,
            sdk_S3DirectSourceAdditionalOptions.EnableSamplePath = S3DirectSourceAdditionalOptions.EnableSamplePath x,
            sdk_S3DirectSourceAdditionalOptions.SamplePath = S3DirectSourceAdditionalOptions.SamplePath x\<rparr>"

definition update_S3CsvSource :: "'e golib \<Rightarrow> S3CsvSource \<Rightarrow> ('e, sdk_S3CsvSource) outcome" where
  "update_S3CsvSource lib x =
     and_then (when_set update_S3DirectSourceAdditionalOptions (S3CsvSource.AdditionalOptions x)) (\<lambda>f0.
     and_then (int32_write_ptr lib ''error: field MaxBand is of type int32'' (S3CsvSource.MaxBand x)) (\<lambda>f1.
     and_then (int32_write_ptr lib ''error: field MaxFilesInBand is of type int32'' (S3CsvSource.MaxFilesInBand x)) (\<lambda>f2.
     and_then (slice_write update_GlueSchema (S3CsvSource.OutputSchemas x)) (\<lambda>f3.
       Inr \<lparr>sdk_S3CsvSource.AdditionalOptions = f0,
            sdk_S3CsvSource.CompressionType = or_zero '''' (S3CsvSource.CompressionType x),
            sdk_S3CsvSource.Escaper = S3CsvSource.Escaper x,
            sdk_S3CsvSource.Exclusions = map_option (aws_ToStringSlice lib) (S3CsvSource.Exclusions x),
            sdk_S3CsvSource.GroupFiles = S3CsvSource.GroupFiles x,
            sdk_S3CsvSource.GroupSize = S3CsvSource.GroupSize x,
            sdk_S3CsvSource.MaxBand = f1,
            sdk_S3CsvSource.MaxFilesInBand = f2,
            sdk_S3CsvSource.Multiline = S3CsvSource.Multiline x,
            sdk_S3CsvSource.Name = S3CsvSource.Name x,
            sdk_S3CsvSource.OptimizePerformance = or_zero False (S3CsvSource.OptimizePerformance x),
            sdk_S3CsvSource.OutputSchemas = f3,
            sdk_S3CsvSource.Paths = map_option (aws_ToStringSlice lib) (S3CsvSource.Paths x),
            sdk_S3CsvSource.QuoteChar = or_zero '''' (S3CsvSource.QuoteChar x),
            sdk_S3CsvSource.Recurse = S3CsvSource.Recurse x,
            sdk_S3CsvSource.Separator = or_zero '''' (S3CsvSource.Separator x),
            sdk_S3CsvSource.SkipFirst = S3CsvSource.SkipFirst x,
            sdk_S3CsvSource.WithHeader = S3CsvSource.WithHeader x,
            sdk_S3CsvSource.WriteHeader = S3CsvSource.WriteHeader x\<rparr>))))"

definition update_S3DeltaCatalogTarget :: "'e golib \<Rightarrow> S3DeltaCatalogTarget \<Rightarrow> ('e, sdk_S3DeltaCatalogTarget) outcome" where
  "update_S3DeltaCatalogTarget lib x =
     and_then (when_set update_CatalogSchemaChangePolicy (S3DeltaCatalogTarget.SchemaChangePolicy x)) (\<lambda>f0.
       Inr \<lparr>sdk_S3DeltaCatalogTarget.AdditionalOptions = map_option (aws_ToStringMap lib) (S3DeltaCatalogTarget.AdditionalOptions x),
            sdk_S3DeltaCatalogTarget.Database = S3DeltaCatalogTarget.Database x,
            sdk_S3DeltaCatalogTarget.Inputs = map_option (aws_ToStringSlice lib) (S3DeltaCatalogTarget.Inputs x),
            sdk_S3DeltaCatalogTarget.Name = S3DeltaCatalogTarget.Name x,
            sdk_S3DeltaCatalogTarget.PartitionKeys = map_option (map (aws_ToStringSlice lib)) (S3DeltaCatalogTarget.PartitionKeys x),
            sdk_S3DeltaCatalogTarget.SchemaChangePolicy = f0,
            sdk_S3DeltaCatalogTarget.Table = S3DeltaCatalogTarget.Table x\<rparr>)"

definition update_DirectSchemaChangePolicy :: "DirectSchemaChangePolicy \<Rightarrow> ('e, sdk_DirectSchemaChangePolicy) outcome" where
  "update_DirectSchemaChangePolicy x =
       Inr \<lparr>sdk_DirectSchemaChangePolicy.Database = DirectSchemaChangePolicy.Database x,
            sdk_DirectSchemaChangePolicy.EnableUpdateCatalog = DirectSchemaChangePolicy.EnableUpdateCatalog x,
            sdk_DirectSchemaChangePolicy.Table = DirectSchemaChangePolicy.Table x,
            sdk_DirectSchemaChangePolicy.UpdateBehavior = or_zero '''' (DirectSchemaChangePolicy.UpdateBehavior x)\<rparr>"

definition update_S3DeltaDirectTarget :: "'e golib \<Rightarrow> S3DeltaDirectTarget \<Rightarrow> ('e, sdk_S3DeltaDirectTarget) outcome" where
  "update_S3DeltaDirectTarget lib x =
     and_then (when_set update_DirectSchemaChangePolicy (S3DeltaDirectTarget.SchemaChangePolicy x)) (\<lambda>f0.
       Inr \<lparr>sdk_S3DeltaDirectTarget.AdditionalOptions = map_option (aws_ToStringMap lib) (S3DeltaDirectTarget.AdditionalOptions x),
            sdk_S3DeltaDirectTarget.Compression = or_zero '''' (S3DeltaDirectTarget.Compression x),
            sdk_S3DeltaDirectTarget.Format = or_zero '''' (S3DeltaDirectTarget.Format x),
            sdk_S3DeltaDirectTarget.Inputs = map_option (aws_ToStringSlice lib) (S3DeltaDirectTarget.Inputs x),
            sdk_S3DeltaDirectTarget.Name = S3DeltaDirectTarget.Name x,
            sdk_S3DeltaDirectTarget.PartitionKeys = map_option (map (aws_ToStringSlice lib)) (S3DeltaDirectTarget.PartitionKeys x),
            sdk_S3DeltaDirectTarget.Path = S3DeltaDirectTarget.Path x,
            sdk_S3DeltaDirectTarget.SchemaChangePolicy = f0\<rparr>)"

definition update_S3DeltaSource :: "'e golib \<Rightarrow> S3DeltaSource \<Rightarrow> ('e, sdk_S3DeltaSource) outcome" where
  "update_S3DeltaSource lib x =
     and_then (when_set update_S3DirectSourceAdditionalOptions (S3DeltaSource.AdditionalOptions x)) (\<lambda>f0.
     and_then (slice_write update_GlueSchema (S3DeltaSource.OutputSchemas x)) (\<lambda>f1.
       Inr \<lparr>sdk_S3DeltaSource.AdditionalDeltaOptions = map_option (aws_ToStringMap lib) (S3DeltaSource.AdditionalDeltaOptions x),
            sdk_S3DeltaSource.AdditionalOptions = f0,
            sdk_S3DeltaSource.Name = S3DeltaSource.Name x,
            sdk_S3DeltaSource.OutputSchemas = f1,
            sdk_S3DeltaSource.Paths = map_option (aws_ToStringSlice lib) (S3DeltaSource.Paths x)\<rparr>))"

definition update_S3DirectTarget :: "'e golib \<Rightarrow> S3DirectTarget \<Rightarrow> ('e, sdk_S3DirectTarget) outcome" where
  "update_S3DirectTarget lib x =
     and_then (when_set update_DirectSchemaChangePolicy (S3DirectTarget.SchemaChangePolicy x)) (\<lambda>f0.
       Inr \<lparr>sdk_S3DirectTarget.Compression = S3DirectTarget.Compression x,
            sdk_S3DirectTarget.Format = or_zero '''' (S3DirectTarget.Format x),
            sdk_S3DirectTarget.Inputs = map_option (aws_ToStringSlice lib) (S3DirectTarget.Inputs x),
            sdk_S3DirectTarget.Name = S3DirectTarget.Name x,
            sdk_S3DirectTarget.PartitionKeys = map_option (map (aws_ToStringSlice lib)) (S3DirectTarget.PartitionKeys x),
            sdk_S3DirectTarget.Path = S3DirectTarget.Path x,
            sdk_S3DirectTarget.SchemaChangePolicy = f0\<rparr>)"

definition update_S3GlueParquetTarget :: "'e golib \<Rightarrow> S3GlueParquetTarget \<Rightarrow> ('e, sdk_S3GlueParquetTarget) outcome" where
  "update_S3GlueParquetTarget lib x =
     and_then (when_set update_DirectSchemaChangePolicy (S3GlueParquetTarget.SchemaChangePolicy x)) (\<lambda>f0.
       Inr \<lparr>sdk_S3GlueParquetTarget.Compression = or_zero '''' (S3GlueParquetTarget.Compression x),
            sdk_S3GlueParquetTarget.Inputs = map_option (aws_ToStringSlice lib) (S3GlueParquetTarget.Inputs x),
            sdk_S3GlueParquetTarget.Name = S3GlueParquetTarget.Name x,
            sdk_S3GlueParquetTarget.PartitionKeys = map_option (map (aws_ToStringSlice lib)) (S3GlueParquetTarget.PartitionKeys x),
            sdk_S3GlueParquetTarget.Path = S3GlueParquetTarget.Path x,
            sdk_S3GlueParquetTarget.SchemaChangePolicy = f0\<rparr>)"

definition update_S3HudiCatalogTarget :: "'e golib \<Rightarrow> S3HudiCatalogTarget \<Rightarrow> ('e, sdk_S3HudiCatalogTarget) outcome" where
  "update_S3HudiCatalogTarget lib x =
     and_then (when_set update_CatalogSchemaChangePolicy (S3HudiCatalogTarget.SchemaChangePolicy x)) (\<lambda>f0.
       Inr \<lparr>sdk_S3HudiCatalogTarget.AdditionalOptions = map_option (aws_ToStringMap lib) (S3HudiCatalogTarget.AdditionalOptions x),
            sdk_S3HudiCatalogTarget.Database = S3HudiCatalogTarget.Database x,
            sdk_S3HudiCatalogTarget.Inputs = map_option (aws_ToStringSlice lib) (S3HudiCatalogTarget.Inputs x),
            sdk_S3HudiCatalogTarget.Name = S3HudiCatalogTarget.Name x,
            sdk_S3HudiCatalogTarget.PartitionKeys = map_option (map (aws_ToStringSlice lib)) (S3HudiCatalogTarget.PartitionKeys x),
            sdk_S3HudiCatalogTarget.SchemaChangePolicy = f0,
            sdk_S3HudiCatalogTarget.Table = S3HudiCatalogTarget.Table x\<rparr>)"

definition update_S3HudiDirectTarget :: "'e golib \<Rightarrow> S3HudiDirectTarget \<Rightarrow> ('e, sdk_S3HudiDirectTarget) outcome" where
  "update_S3HudiDirectTarget lib x =
     and_then (when_set update_DirectSchemaChangePolicy (S3HudiDirectTarget.SchemaChangePolicy x)) (\<lambda>f0.
       Inr \<lparr>sdk_S3HudiDirectTarget.AdditionalOptions = map_option (aws_ToStringMap lib) (S3HudiDirectTarget.AdditionalOptions x),
            sdk_S3HudiDirectTarget.Compression = or_zero '''' (S3HudiDirectTarget.Compression x),
            sdk_S3HudiDirectTarget.Format = or_zero '''' (S3HudiDirectTarget.Format x),
            sdk_S3HudiDirectTarget.Inputs = map_option (aws_ToStringSlice lib) (S3HudiDirectTarget.Inputs x),
            sdk_S3HudiDirectTarget.Name = S3HudiDirectTarget.Name x,
            sdk_S3HudiDirectTarget.PartitionKeys = map_option (map (aws_ToStringSlice lib)) (S3HudiDirectTarget.PartitionKeys x),
            sdk_S3HudiDirectTarget.Path = S3HudiDirectTarget.Path x,
            sdk_S3HudiDirectTarget.SchemaChangePolicy = f0\<rparr>)"

definition update_S3HudiSource :: "'e golib \<Rightarrow> S3HudiSource \<Rightarrow> ('e, sdk_S3HudiSource) outcome" where
  "update_S3HudiSource lib x =
     and_then (when_set update_S3DirectSourceAdditionalOptions (S3HudiSource.AdditionalOptions x)) (\<lambda>f0.
     and_then (slice_write update_GlueSchema (S3HudiSource.OutputSchemas x)) (\<lambda>f1.
       Inr \<lparr>sdk_S3HudiSource.AdditionalHudiOptions = map_option (aws_ToStringMap lib) (S3HudiSource.AdditionalHudiOptions x),
            sdk_S3HudiSource.AdditionalOptions = f0,
            sdk_S3HudiSource.Name = S3HudiSource.Name x,
            sdk_S3HudiSource.OutputSchemas = f1,
            sdk_S3HudiSource.Paths = map_option (aws_ToStringSlice lib) (S3HudiSource.Paths x)\<rparr>))"

definition update_S3JSONSource :: "'e golib \<Rightarrow> S3JSONSource \<Rightarrow> ('e, sdk_S3JsonSource) outcome" where
  "update_S3JSONSource lib x =
     and_then (when_set update_S3DirectSourceAdditionalOptions (S3JSONSource.AdditionalOptions x)) (\<lambda>f0.
     and_then (int32_write_ptr lib ''error: field MaxBand is of type int32'' (S3JSONSource.MaxBand x)) (\<lambda>f1.
     and_then (int32_write_ptr lib ''error: field MaxFilesInBand is of type int32'' (S3JSONSource.MaxFilesInBand x)) (\<lambda>f2.
     and_then (slice_write update_GlueSchema (S3JSONSource.OutputSchemas x)) (\<lambda>f3.
       Inr \<lparr>sdk_S3JsonSource.AdditionalOptions = f0,
            sdk_S3JsonSource.CompressionType = or_zero '''' (S3JSONSource.CompressionType x),
            sdk_S3JsonSource.Exclusions = map_option (aws_ToStringSlice lib) (S3JSONSource.Exclusions x),
            sdk_S3JsonSource.GroupFiles = S3JSONSource.GroupFiles x,
            sdk_S3JsonSource.GroupSize = S3JSONSource.GroupSize x,
            sdk_S3JsonSource.JsonPath = S3JSONSource.JSONPath x,
            sdk_S3JsonSource.MaxBand = f1,
            sdk_S3JsonSource.MaxFilesInBand = f2,
            sdk_S3JsonSource.Multiline = S3JSONSource.Multiline x,
            sdk_S3JsonSource.Name = S3JSONSource.Name x,
            sdk_S3JsonSource.OutputSchemas = f3,
            sdk_S3JsonSource.Paths = map_option (aws_ToStringSlice lib) (S3JSONSource.Paths x),
            sdk_S3JsonSource.Recurse = S3JSONSource.Recurse x\<rparr>))))"

definition update_S3ParquetSource :: "'e golib \<Rightarrow> S3ParquetSource \<Rightarrow> ('e, sdk_S3ParquetSource) outcome" where
  "update_S3ParquetSource lib x =
     and_then (when_set update_S3DirectSourceAdditionalOptions (S3ParquetSource.AdditionalOptions x)) (\<lambda>f0.
     and_then (int32_write_ptr lib ''error: field MaxBand is of type int32'' (S3ParquetSource.MaxBand x)) (\<lambda>f1.
     and_then (int32_write_ptr lib ''error: field MaxFilesInBand is of type int32'' (S3ParquetSource.MaxFilesInBand x)) (\<lambda>f2.
     and_then (slice_write update_GlueSchema (S3ParquetSource.OutputSchemas x)) (\<lambda>f3.
       Inr \<lparr>sdk_S3ParquetSource.AdditionalOptions = f0,
            sdk_S3ParquetSource.CompressionType = or_zero '''' (S3ParquetSource.CompressionType x),
            sdk_S3ParquetSource.Exclusions = map_option (aws_ToStringSlice lib) (S3ParquetSource.Exclusions x),
            sdk_S3ParquetSource.GroupFiles = S3ParquetSource.GroupFiles x,
            sdk_S3ParquetSource.GroupSize = S3ParquetSource.GroupSize x,
            sdk_S3ParquetSource.MaxBand = f1,
            sdk_S3ParquetSource.MaxFilesInBand = f2,
            sdk_S3ParquetSource.Name = S3ParquetSource.Name x,
            sdk_S3ParquetSource.OutputSchemas = f3,
            sdk_S3ParquetSource.Paths = map_option (aws_ToStringSlice lib) (S3ParquetSource.Paths x),
            sdk_S3ParquetSource.Recurse = S3ParquetSource.Recurse x\<rparr>))))"

definition update_SelectFields :: "'e golib \<Rightarrow> SelectFields \<Rightarrow> ('e, sdk_SelectFields) outcome" where
  "update_SelectFields lib x =
       Inr \<lparr>sdk_SelectFields.Inputs = map_option (aws_ToStringSlice lib) (SelectFields.Inputs x),
            sdk_SelectFields.Name = SelectFields.Name x,
            sdk_SelectFields.Paths = map_option (map (aws_ToStringSlice lib)) (SelectFields.Paths x)\<rparr>"

definition update_SelectFromCollection :: "'e golib \<Rightarrow> SelectFromCollection \<Rightarrow> ('e, sdk_SelectFromCollection) outcome" where
  "update_SelectFromCollection lib x =
     and_then (int32_write lib ''error: field Index is of type int32'' (SelectFromCollection.Index x)) (\<lambda>f0.
       Inr \<lparr>sdk_SelectFromCollection.Index = f0,
            sdk_SelectFromCollection.Inputs = map_option (aws_ToStringSlice lib) (SelectFromCollection.Inputs x),
            sdk_SelectFromCollection.Name = SelectFromCollection.Name x\<rparr>)"

definition update_SnowflakeNodeData :: "'e golib \<Rightarrow> SnowflakeNodeData \<Rightarrow> ('e, sdk_SnowflakeNodeData) outcome" where
  "update_SnowflakeNodeData lib x =
     and_then (when_set update_Option (SnowflakeNodeData.Connection x)) (\<lambda>f0.
     and_then (when_set update_Option (SnowflakeNodeData.IAMRole x)) (\<lambda>f1.
     and_then (slice_write update_Option (SnowflakeNodeData.SelectedColumns x)) (\<lambda>f2.
     and_then (slice_write update_Option (SnowflakeNodeData.TableSchema x)) (\<lambda>f3.
       Inr \<lparr>sdk_SnowflakeNodeData.Action = SnowflakeNodeData.Action x,
            sdk_SnowflakeNodeData.AdditionalOptions = map_option (aws_ToStringMap lib) (SnowflakeNodeData.AdditionalOptions x),
            sdk_SnowflakeNodeData.AutoPushdown = or_zero False (SnowflakeNodeData.AutoPushdown x),
            sdk_SnowflakeNodeData.Connection = f0,
            sdk_SnowflakeNodeData.Database = SnowflakeNodeData.Database x,
            sdk_SnowflakeNodeData.IamRole = f1,
            sdk_SnowflakeNodeData.MergeAction = SnowflakeNodeData.MergeAction x,
            sdk_SnowflakeNodeData.MergeClause = SnowflakeNodeData.MergeClause x,
            sdk_SnowflakeNodeData.MergeWhenMatched = SnowflakeNodeData.MergeWhenMatched x,
            sdk_SnowflakeNodeData.MergeWhenNotMatched = SnowflakeNodeData.MergeWhenNotMatched x,
            sdk_SnowflakeNodeData.PostAction = SnowflakeNodeData.PostAction x,
            sdk_SnowflakeNodeData.PreAction = SnowflakeNodeData.PreAction x,
            sdk_SnowflakeNodeData.SampleQuery = SnowflakeNodeData.SampleQuery x,
            sdk_SnowflakeNodeData.Schema = SnowflakeNodeData.Schema x,
            sdk_SnowflakeNodeData.SelectedColumns = f2,
            sdk_SnowflakeNodeData.SourceType = SnowflakeNodeData.SourceType x,
            sdk_SnowflakeNodeData.StagingTable = SnowflakeNodeData.StagingTable x,
            sdk_SnowflakeNodeData.Table = SnowflakeNodeData.Table x,
            sdk_SnowflakeNodeData.TableSchema = f3,
            sdk_SnowflakeNodeData.TempDir = SnowflakeNodeData.TempDir x,
            sdk_SnowflakeNodeData.Upsert = or_zero False (SnowflakeNodeData.Upsert x)\<rparr>))))"

definition update_SnowflakeSource :: "'e golib \<Rightarrow> SnowflakeSource \<Rightarrow> ('e, sdk_SnowflakeSource) outcome" where
  "update_SnowflakeSource lib x =
     and_then (when_set (update_SnowflakeNodeData lib) (SnowflakeSource.Data x)) (\<lambda>f0.
     and_then (slice_write update_GlueSchema (SnowflakeSource.OutputSchemas x)) (\<lambda>f1.
       Inr \<lparr>sdk_SnowflakeSource.Data = f0,
            sdk_SnowflakeSource.Name = SnowflakeSource.Name x,
            sdk_SnowflakeSource.OutputSchemas = f1\<rparr>))"

definition update_SnowflakeTarget :: "'e golib \<Rightarrow> SnowflakeTarget \<Rightarrow> ('e, sdk_SnowflakeTarget) outcome" where
  "update_SnowflakeTarget lib x =
     and_then (when_set (update_SnowflakeNodeData lib) (SnowflakeTarget.Data x)) (\<lambda>f0.
       Inr \<lparr>sdk_SnowflakeTarget.Data = f0,
            sdk_SnowflakeTarget.Inputs = map_option (aws_ToStringSlice lib) (SnowflakeTarget.Inputs x),
            sdk_SnowflakeTarget.Name = SnowflakeTarget.Name x\<rparr>)"

definition update_SparkConnectorSource :: "'e golib \<Rightarrow> SparkConnectorSource \<Rightarrow> ('e, sdk_SparkConnectorSource) outcome" where
  "update_SparkConnectorSource lib x =
     and_then (slice_write update_GlueSchema (SparkConnectorSource.OutputSchemas x)) (\<lambda>f0.
       Inr \<lparr>sdk_SparkConnectorSource.AdditionalOptions = map_option (aws_ToStringMap lib) (SparkConnectorSource.AdditionalOptions x),
            sdk_SparkConnectorSource.ConnectionName = SparkConnectorSource.ConnectionName x,
            sdk_SparkConnectorSource.ConnectionType = SparkConnectorSource.ConnectionType x,
            sdk_SparkConnectorSource.ConnectorName = SparkConnectorSource.ConnectorName x,
            sdk_SparkConnectorSource.Name = SparkConnectorSource.Name x,
            sdk_SparkConnectorSource.OutputSchemas = f0\<rparr>)"

definition update_SparkConnectorTarget :: "'e golib \<Rightarrow> SparkConnectorTarget \<Rightarrow> ('e, sdk_SparkConnectorTarget) outcome" where
  "update_SparkConnectorTarget lib x =
     and_then (slice_write update_GlueSchema (SparkConnectorTarget.OutputSchemas x)) (\<lambda>f0.
       Inr \<lparr>sdk_SparkConnectorTarget.AdditionalOptions = map_option (aws_ToStringMap lib) (SparkConnectorTarget.AdditionalOptions x),
            sdk_SparkConnectorTarget.ConnectionName = SparkConnectorTarget.ConnectionName x,
            sdk_SparkConnectorTarget.ConnectionType = SparkConnectorTarget.ConnectionType x,
            sdk_SparkConnectorTarget.ConnectorName = SparkConnectorTarget.ConnectorName x,
            sdk_SparkConnectorTarget.Inputs = map_option (aws_ToStringSlice lib) (SparkConnectorTarget.Inputs x),
            sdk_SparkConnectorTarget.Name = SparkConnectorTarget.Name x,
            sdk_SparkConnectorTarget.OutputSchemas = f0\<rparr>)"

definition update_SQLAlias :: "SQLAlias \<Rightarrow> ('e, sdk_SqlAlias) outcome" where
  "update_SQLAlias x =
       Inr \<lparr>sdk_SqlAlias.Alias = SQLAlias.Alias x,
            sdk_SqlAlias.From = SQLAlias.From x\<rparr>"

definition update_SparkSQL :: "'e golib \<Rightarrow> SparkSQL \<Rightarrow> ('e, sdk_SparkSQL) outcome" where
  "update_SparkSQL lib x =
     and_then (slice_write update_GlueSchema (SparkSQL.OutputSchemas x)) (\<lambda>f0.
     and_then (slice_write update_SQLAlias (SparkSQL.SQLAliases x)) (\<lambda>f1.
       Inr \<lparr>sdk_SparkSQL.Inputs = map_option (aws_ToStringSlice lib) (SparkSQL.Inputs x),
            sdk_SparkSQL.Name = SparkSQL.Name x,
            sdk_SparkSQL.OutputSchemas = f0,
            sdk_SparkSQL.SqlAliases = f1,
            sdk_SparkSQL.SqlQuery = SparkSQL.SQLQuery x\<rparr>))"

definition update_Spigot :: "'e golib \<Rightarrow> Spigot \<Rightarrow> ('e, sdk_Spigot) outcome" where
  "update_Spigot lib x =
     and_then (int32_write_ptr lib ''error: field Topk is of type int32'' (Spigot.Topk x)) (\<lambda>f0.
       Inr \<lparr>sdk_Spigot.Inputs = map_option (aws_ToStringSlice lib) (Spigot.Inputs x),
            sdk_Spigot.Name = Spigot.Name x,
            sdk_Spigot.Path = Spigot.Path x,
            sdk_Spigot.Prob = Spigot.Prob x,
            sdk_Spigot.Topk = f0\<rparr>)"

definition update_SplitFields :: "'e golib \<Rightarrow> SplitFields \<Rightarrow> ('e, sdk_SplitFields) outcome" where
  "update_SplitFields lib x =
       Inr \<lparr>sdk_SplitFields.Inputs = map_option (aws_ToStringSlice lib) (SplitFields.Inputs x),
            sdk_SplitFields.Name = SplitFields.Name x,
            sdk_SplitFields.Paths = map_option (map (aws_ToStringSlice lib)) (SplitFields.Paths x)\<rparr>"

definition update_Union :: "'e golib \<Rightarrow> Union \<Rightarrow> ('e, sdk_Union) outcome" where
  "update_Union lib x =
       Inr \<lparr>sdk_Union.Inputs = map_option (aws_ToStringSlice lib) (Union.Inputs x),
            sdk_Union.Name = Union.Name x,
            sdk_Union.UnionType = or_zero '''' (Union.UnionType x)\<rparr>"

definition update_CodeGenConfigurationNode :: "'e golib \<Rightarrow> map_order \<Rightarrow> CodeGenConfigurationNode \<Rightarrow> ('e, sdk_CodeGenConfigurationNode) outcome" where
  "update_CodeGenConfigurationNode lib ord x =
     and_then (when_set (update_Aggregate lib) (CodeGenConfigurationNode.Aggregate x)) (\<lambda>f0.
     and_then (when_set update_AmazonRedshiftSource (CodeGenConfigurationNode.AmazonRedshiftSource x)) (\<lambda>f1.
     and_then (when_set (update_AmazonRedshiftTarget lib) (CodeGenConfigurationNode.AmazonRedshiftTarget x)) (\<lambda>f2.
     and_then (when_set (update_ApplyMapping lib) (CodeGenConfigurationNode.ApplyMapping x)) (\<lambda>f3.
     and_then (when_set update_AthenaConnectorSource (CodeGenConfigurationNode.AthenaConnectorSource x)) (\<lambda>f4.
     and_then (when_set (update_CatalogDeltaSource lib) (CodeGenConfigurationNode.CatalogDeltaSource x)) (\<lambda>f5.
     and_then (when_set (update_CatalogHudiSource lib) (CodeGenConfigurationNode.CatalogHudiSource x)) (\<lambda>f6.
     and_then (when_set (update_CatalogKafkaSource lib) (CodeGenConfigurationNode.CatalogKafkaSource x)) (\<lambda>f7.
     and_then (when_set (update_CatalogKinesisSource lib) (CodeGenConfigurationNode.CatalogKinesisSource x)) (\<lambda>f8.
     and_then (when_set update_CatalogSource (CodeGenConfigurationNode.CatalogSource x)) (\<lambda>f9.
     and_then (when_set (update_BasicCatalogTarget lib) (CodeGenConfigurationNode.CatalogTarget x)) (\<lambda>f10.
     and_then (when_set (update_ConnectorDataSource lib) (CodeGenConfigurationNode.ConnectorDataSource x)) (\<lambda>f11.
     and_then (when_set (update_ConnectorDataTarget lib) (CodeGenConfigurationNode.ConnectorDataTarget x)) (\<lambda>f12.
     and_then (when_set (update_CustomCode lib) (CodeGenConfigurationNode.CustomCode x)) (\<lambda>f13.
     and_then (when_set update_DirectJDBCSource (CodeGenConfigurationNode.DirectJDBCSource x)) (\<lambda>f14.
     and_then (when_set (update_DirectKafkaSource lib) (CodeGenConfigurationNode.DirectKafkaSource x)) (\<lambda>f15.
     and_then (when_set (update_DirectKinesisSource lib) (CodeGenConfigurationNode.DirectKinesisSource x)) (\<lambda>f16.
     and_then (when_set (update_DropDuplicates lib) (CodeGenConfigurationNode.DropDuplicates x)) (\<lambda>f17.
     and_then (when_set (update_DropFields lib) (CodeGenConfigurationNode.DropFields x)) (\<lambda>f18.
     and_then (when_set (update_DropNullFields lib) (CodeGenConfigurationNode.DropNullFields x)) (\<lambda>f19.
     and_then (when_set (update_DynamicTransform lib) (CodeGenConfigurationNode.DynamicTransform x)) (\<lambda>f20.
     and_then (when_set update_DynamoDBCatalogSource (CodeGenConfigurationNode.DynamoDBCatalogSource x)) (\<lambda>f21.
     and_then (when_set (update_EvaluateDataQuality lib) (CodeGenConfigurationNode.EvaluateDataQuality x)) (\<lambda>f22.
     and_then (when_set (update_EvaluateDataQualityMultiFrame lib) (CodeGenConfigurationNode.EvaluateDataQualityMultiFrame x)) (\<lambda>f23.
     and_then (when_set (update_FillMissingValues lib) (CodeGenConfigurationNode.FillMissingValues x)) (\<lambda>f24.
     and_then (when_set (update_Filter lib) (CodeGenConfigurationNode.Filter x)) (\<lambda>f25.
     and_then (when_set update_GovernedCatalogSource (CodeGenConfigurationNode.GovernedCatalogSource x)) (\<lambda>f26.
     and_then (when_set (update_GovernedCatalogTarget lib) (CodeGenConfigurationNode.GovernedCatalogTarget x)) (\<lambda>f27.
     and_then (when_set (update_JDBCConnectorSource lib ord) (CodeGenConfigurationNode.JDBCConnectorSource x)) (\<lambda>f28.
     and_then (when_set (update_JDBCConnectorTarget lib) (CodeGenConfigurationNode.JDBCConnectorTarget x)) (\<lambda>f29.
     and_then (when_set (update_Join lib) (CodeGenConfigurationNode.Join x)) (\<lambda>f30.
     and_then (when_set (update_Merge lib) (CodeGenConfigurationNode.Merge x)) (\<lambda>f31.
     and_then (when_set update_MicrosoftSQLServerCatalogSource (CodeGenConfigurationNode.MicrosoftSQLServerCatalogSource x)) (\<lambda>f32.
     and_then (when_set (update_MicrosoftSQLServerCatalogTarget lib) (CodeGenConfigurationNode.MicrosoftSQLServerCatalogTarget x)) (\<lambda>f33.
     and_then (when_set update_MySQLCatalogSource (CodeGenConfigurationNode.MySQLCatalogSource x)) (\<lambda>f34.
     and_then (when_set (update_MySQLCatalogTarget lib) (CodeGenConfigurationNode.MySQLCatalogTarget x)) (\<lambda>f35.
     and_then (when_set update_OracleSQLCatalogSource (CodeGenConfigurationNode.OracleSQLCatalogSource x)) (\<lambda>f36.
     and_then (when_set (update_OracleSQLCatalogTarget lib) (CodeGenConfigurationNode.OracleSQLCatalogTarget x)) (\<lambda>f37.
     and_then (when_set (update_PIIDetection lib) (CodeGenConfigurationNode.PIIDetection x)) (\<lambda>f38.
     and_then (when_set update_PostgreSQLCatalogSource (CodeGenConfigurationNode.PostgreSQLCatalogSource x)) (\<lambda>f39.
     and_then (when_set (update_PostgreSQLCatalogTarget lib) (CodeGenConfigurationNode.PostgreSQLCatalogTarget x)) (\<lambda>f40.
     and_then (when_set (update_Recipe lib) (CodeGenConfigurationNode.Recipe x)) (\<lambda>f41.
     and_then (when_set update_RedshiftSource (CodeGenConfigurationNode.RedshiftSource x)) (\<lambda>f42.
     and_then (when_set (update_RedshiftTarget lib) (CodeGenConfigurationNode.RedshiftTarget x)) (\<lambda>f43.
     and_then (when_set update_RelationalCatalogSource (CodeGenConfigurationNode.RelationalCatalogSource x)) (\<lambda>f44.
     and_then (when_set (update_RenameField lib) (CodeGenConfigurationNode.RenameField x)) (\<lambda>f45.
     and_then (when_set (update_S3CatalogDeltaSource lib) (CodeGenConfigurationNode.S3CatalogDeltaSource x)) (\<lambda>f46.
     and_then (when_set (update_S3CatalogHudiSource lib) (CodeGenConfigurationNode.S3CatalogHudiSource x)) (\<lambda>f47.
     and_then (when_set update_S3CatalogSource (CodeGenConfigurationNode.S3CatalogSource x)) (\<lambda>f48.
     and_then (when_set (update_S3CatalogTarget lib) (CodeGenConfigurationNode.S3CatalogTarget x)) (\<lambda>f49.
     and_then (when_set (update_S3CsvSource lib) (CodeGenConfigurationNode.S3CsvSource x)) (\<lambda>f50.
     and_then (when_set (update_S3DeltaCatalogTarget lib) (CodeGenConfigurationNode.S3DeltaCatalogTarget x)) (\<lambda>f51.
     and_then (when_set (update_S3DeltaDirectTarget lib) (CodeGenConfigurationNode.S3DeltaDirectTarget x)) (\<lambda>f52.
     and_then (when_set (update_S3DeltaSource lib) (CodeGenConfigurationNode.S3DeltaSource x)) (\<lambda>f53.
     and_then (when_set (update_S3DirectTarget lib) (CodeGenConfigurationNode.S3DirectTarget x)) (\<lambda>f54.
     and_then (when_set (update_S3GlueParquetTarget lib) (CodeGenConfigurationNode.S3GlueParquetTarget x)) (\<lambda>f55.
     and_then (when_set (update_S3HudiCatalogTarget lib) (CodeGenConfigurationNode.S3HudiCatalogTarget x)) (\<lambda>f56.
     and_then (when_set (update_S3HudiDirectTarget lib) (CodeGenConfigurationNode.S3HudiDirectTarget x)) (\<lambda>f57.
     and_then (when_set (update_S3HudiSource lib) (CodeGenConfigurationNode.S3HudiSource x)) (\<lambda>f58.
     and_then (when_set (update_S3JSONSource lib) (CodeGenConfigurationNode.S3JSONSource x)) (\<lambda>f59.
     and_then (when_set (update_S3ParquetSource lib) (CodeGenConfigurationNode.S3ParquetSource x)) (\<lambda>f60.
     and_then (when_set (update_SelectFields lib) (CodeGenConfigurationNode.SelectFields x)) (\<lambda>f61.
     and_then (when_set (update_SelectFromCollection lib) (CodeGenConfigurationNode.SelectFromCollection x)) (\<lambda>f62.
     and_then (when_set (update_SnowflakeSource lib) (CodeGenConfigurationNode.SnowflakeSource x)) (\<lambda>f63.
     and_then (when_set (update_SnowflakeTarget lib) (CodeGenConfigurationNode.SnowflakeTarget x)) (\<lambda>f64.
     and_then (when_set (update_SparkConnectorSource lib) (CodeGenConfigurationNode.SparkConnectorSource x)) (\<lambda>f65.
     and_then (when_set (update_SparkConnectorTarget lib) (CodeGenConfigurationNode.SparkConnectorTarget x)) (\<lambda>f66.
     and_then (when_set (update_SparkSQL lib) (CodeGenConfigurationNode.SparkSQL x)) (\<lambda>f67.
     and_then (when_set (update_Spigot lib) (CodeGenConfigurationNode.Spigot x)) (\<lambda>f68.
     and_then (when_set (update_SplitFields lib) (CodeGenConfigurationNode.SplitFields x)) (\<lambda>f69.
     and_then (when_set (update_Union lib) (CodeGenConfigurationNode.Union x)) (\<lambda>f70.
       Inr \<lparr>sdk_CodeGenConfigurationNode.Aggregate = f0,
            sdk_CodeGenConfigurationNode.AmazonRedshiftSource = f1,
            sdk_CodeGenConfigurationNode.AmazonRedshiftTarget = f2,
            sdk_CodeGenConfigurationNode.ApplyMapping = f3,
            sdk_CodeGenConfigurationNode.AthenaConnectorSource = f4,
            sdk_CodeGenConfigurationNode.CatalogDeltaSource = f5,
            sdk_CodeGenConfigurationNode.CatalogHudiSource = f6,
            sdk_CodeGenConfigurationNode.CatalogKafkaSource = f7,
            sdk_CodeGenConfigurationNode.CatalogKinesisSource = f8,
            sdk_CodeGenConfigurationNode.CatalogSource = f9,
            sdk_CodeGenConfigurationNode.CatalogTarget = f10,
            sdk_CodeGenConfigurationNode.ConnectorDataSource = f11,
            sdk_CodeGenConfigurationNode.ConnectorDataTarget = f12,
            sdk_CodeGenConfigurationNode.CustomCode = f13,
            sdk_CodeGenConfigurationNode.DirectJDBCSource = f14,
            sdk_CodeGenConfigurationNode.DirectKafkaSource = f15,
            sdk_CodeGenConfigurationNode.DirectKinesisSource = f16,
            sdk_CodeGenConfigurationNode.DropDuplicates = f17,
            sdk_CodeGenConfigurationNode.DropFields = f18,
            sdk_CodeGenConfigurationNode.DropNullFields = f19,
            sdk_CodeGenConfigurationNode.DynamicTransform = f20,
            sdk_CodeGenConfigurationNode.DynamoDBCatalogSource = f21,
            sdk_CodeGenConfigurationNode.EvaluateDataQuality = f22,
            sdk_CodeGenConfigurationNode.EvaluateDataQualityMultiFrame = f23,
            sdk_CodeGenConfigurationNode.FillMissingValues = f24,
            sdk_CodeGenConfigurationNode.Filter = f25,
            sdk_CodeGenConfigurationNode.GovernedCatalogSource = f26,
            sdk_CodeGenConfigurationNode.GovernedCatalogTarget = f27,
            sdk_CodeGenConfigurationNode.JDBCConnectorSource = f28,
            sdk_CodeGenConfigurationNode.JDBCConnectorTarget = f29,
            sdk_CodeGenConfigurationNode.Join = f30,
            sdk_CodeGenConfigurationNode.Merge = f31,
            sdk_CodeGenConfigurationNode.MicrosoftSQLServerCatalogSource = f32,
            sdk_CodeGenConfigurationNode.MicrosoftSQLServerCatalogTarget = f33,
            sdk_CodeGenConfigurationNode.MySQLCatalogSource = f34,
            sdk_CodeGenConfigurationNode.MySQLCatalogTarget = f35,
            sdk_CodeGenConfigurationNode.OracleSQLCatalogSource = f36,
            sdk_CodeGenConfigurationNode.OracleSQLCatalogTarget = f37,
            sdk_CodeGenConfigurationNode.PIIDetection = f38,
            sdk_CodeGenConfigurationNode.PostgreSQLCatalogSource = f39,
            sdk_CodeGenConfigurationNode.PostgreSQLCatalogTarget = f40,
            sdk_CodeGenConfigurationNode.Recipe = f41,
            sdk_CodeGenConfigurationNode.RedshiftSource = f42,
            sdk_CodeGenConfigurationNode.RedshiftTarget = f43,
            sdk_CodeGenConfigurationNode.RelationalCatalogSource = f44,
            sdk_CodeGenConfigurationNode.RenameField = f45,
            sdk_CodeGenConfigurationNode.S3CatalogDeltaSource = f46,
            sdk_CodeGenConfigurationNode.S3CatalogHudiSource = f47,
            sdk_CodeGenConfigurationNode.S3CatalogSource = f48,
            sdk_CodeGenConfigurationNode.S3CatalogTarget = f49,
            sdk_CodeGenConfigurationNode.S3CsvSource = f50,
            sdk_CodeGenConfigurationNode.S3DeltaCatalogTarget = f51,
            sdk_CodeGenConfigurationNode.S3DeltaDirectTarget = f52,
            sdk_CodeGenConfigurationNode.S3DeltaSource = f53,
            sdk_CodeGenConfigurationNode.S3DirectTarget = f54,
            sdk_CodeGenConfigurationNode.S3GlueParquetTarget = f55,
            sdk_CodeGenConfigurationNode.S3HudiCatalogTarget = f56,
            sdk_CodeGenConfigurationNode.S3HudiDirectTarget = f57,
            sdk_CodeGenConfigurationNode.S3HudiSource = f58,
            sdk_CodeGenConfigurationNode.S3JsonSource = f59,
            sdk_CodeGenConfigurationNode.S3ParquetSource = f60,
            sdk_CodeGenConfigurationNode.SelectFields = f61,
            sdk_CodeGenConfigurationNode.SelectFromCollection = f62,
            sdk_CodeGenConfigurationNode.SnowflakeSource = f63,
            sdk_CodeGenConfigurationNode.SnowflakeTarget = f64,
            sdk_CodeGenConfigurationNode.SparkConnectorSource = f65,
            sdk_CodeGenConfigurationNode.SparkConnectorTarget = f66,
            sdk_CodeGenConfigurationNode.SparkSQL = f67,
            sdk_CodeGenConfigurationNode.Spigot = f68,
            sdk_CodeGenConfigurationNode.SplitFields = f69,
            sdk_CodeGenConfigurationNode.Union = f70\<rparr>)))))))))))))))))))))))))))))))))))))))))))))))))))))))))))))))))))))))"

definition update_JobCommand :: "JobCommand \<Rightarrow> ('e, sdk_JobCommand) outcome" where
  "update_JobCommand x =
       Inr \<lparr>sdk_JobCommand.Name = JobCommand.Name x,
            sdk_JobCommand.PythonVersion = JobCommand.PythonVersion x,
            sdk_JobCommand.Runtime = JobCommand.Runtime x,
            sdk_JobCommand.ScriptLocation = JobCommand.ScriptLocation x\<rparr>"

definition update_ConnectionsList :: "'e golib \<Rightarrow> ConnectionsList \<Rightarrow> ('e, sdk_ConnectionsList) outcome" where
  "update_ConnectionsList lib x =
       Inr \<lparr>sdk_ConnectionsList.Connections = map_option (aws_ToStringSlice lib) (ConnectionsList.Connections x)\<rparr>"

definition update_ExecutionProperty :: "'e golib \<Rightarrow> ExecutionProperty \<Rightarrow> ('e, sdk_ExecutionProperty) outcome" where
  "update_ExecutionProperty lib x =
     and_then (int32_write lib ''error: field MaxConcurrentRuns is of type int32'' (ExecutionProperty.MaxConcurrentRuns x)) (\<lambda>f0.
       Inr \<lparr>sdk_ExecutionProperty.MaxConcurrentRuns = f0\<rparr>)"

definition update_NotificationProperty :: "'e golib \<Rightarrow> NotificationProperty \<Rightarrow> ('e, sdk_NotificationProperty) outcome" where
  "update_NotificationProperty lib x =
     and_then (int32_write_ptr lib ''error: field NotifyDelayAfter is of type int32'' (NotificationProperty.NotifyDelayAfter x)) (\<lambda>f0.
       Inr \<lparr>sdk_NotificationProperty.NotifyDelayAfter = f0\<rparr>)"

definition update_SourceControlDetails :: "SourceControlDetails \<Rightarrow> ('e, sdk_SourceControlDetails) outcome" where
  "update_SourceControlDetails x =
       Inr \<lparr>sdk_SourceControlDetails.AuthStrategy = or_zero '''' (SourceControlDetails.AuthStrategy x),
            sdk_SourceControlDetails.AuthToken = SourceControlDetails.AuthToken x,
            sdk_SourceControlDetails.Branch = SourceControlDetails.Branch x,
            sdk_SourceControlDetails.Folder = SourceControlDetails.Folder x,
            sdk_SourceControlDetails.LastCommitId = SourceControlDetails.LastCommitID x,
            sdk_SourceControlDetails.Owner = SourceControlDetails.Owner x,
            sdk_SourceControlDetails.Provider = or_zero '''' (SourceControlDetails.Provider x),
            sdk_SourceControlDetails.Repository = SourceControlDetails.Repository x\<rparr>"

end
