(* ===== verification/Job_Node_Codec.thy ===== *)
theory Job_Node_Codec
  imports Job_Node_Read Job_Node_Create Job_Node_Update
begin

text \<open>
  For every structure: a request built from what a response left in the resource carries exactly
  that response (\<open>codec\<close>), but for the children of a mapping, which the controller drops
  (\<open>codec_up_to\<close>), and the update request is built like the create request.
\<close>

named_theorems update_eqs \<open>update conversions as create conversions\<close>

lemma codec_AggregateOperation [codecs]: "conversion_laws lib \<Longrightarrow> codec (read_AggregateOperation lib) (create_AggregateOperation lib)"
  by (rule codecI) (simp add: read_AggregateOperation_def create_AggregateOperation_def codec_rules)

lemma codec_Aggregate [codecs]: "conversion_laws lib \<Longrightarrow> codec (read_Aggregate lib) (create_Aggregate lib)"
  by (rule codecI) (simp add: read_Aggregate_def create_Aggregate_def codec_rules codec_AggregateOperation)

lemma codec_AmazonRedshiftAdvancedOption [codecs]: "codec read_AmazonRedshiftAdvancedOption create_AmazonRedshiftAdvancedOption"
  by (rule codecI) (simp add: read_AmazonRedshiftAdvancedOption_def create_AmazonRedshiftAdvancedOption_def codec_rules)

lemma codec_Option [codecs]: "codec read_Option create_Option"
  by (rule codecI) (simp add: read_Option_def create_Option_def codec_rules)

lemma codec_AmazonRedshiftNodeData [codecs]: "codec read_AmazonRedshiftNodeData create_AmazonRedshiftNodeData"
  by (rule codecI) (simp add: read_AmazonRedshiftNodeData_def create_AmazonRedshiftNodeData_def codec_rules codec_AmazonRedshiftAdvancedOption codec_Option)

lemma codec_AmazonRedshiftSource [codecs]: "codec read_AmazonRedshiftSource create_AmazonRedshiftSource"
  by (rule codecI) (simp add: read_AmazonRedshiftSource_def create_AmazonRedshiftSource_def codec_rules codec_AmazonRedshiftNodeData)

lemma codec_AmazonRedshiftTarget [codecs]: "conversion_laws lib \<Longrightarrow> codec (read_AmazonRedshiftTarget lib) (create_AmazonRedshiftTarget lib)"
  by (rule codecI) (simp add: read_AmazonRedshiftTarget_def create_AmazonRedshiftTarget_def codec_rules codec_AmazonRedshiftNodeData)

text \<open>The controller drops the children of a mapping; nothing else of a node is lost.\<close>

definition childless_Mapping :: "sdk_Mapping \<Rightarrow> sdk_Mapping" where
  "childless_Mapping x = x\<lparr>sdk_Mapping.Children := None\<rparr>"

definition childless_ApplyMapping :: "sdk_ApplyMapping \<Rightarrow> sdk_ApplyMapping" where
  "childless_ApplyMapping x =
     x\<lparr>sdk_ApplyMapping.Mapping := map_option (map childless_Mapping) (sdk_ApplyMapping.Mapping x)\<rparr>"

definition childless_node :: "sdk_CodeGenConfigurationNode \<Rightarrow> sdk_CodeGenConfigurationNode" where
  "childless_node x = x\<lparr>sdk_CodeGenConfigurationNode.ApplyMapping :=
     map_option childless_ApplyMapping (sdk_CodeGenConfigurationNode.ApplyMapping x)\<rparr>"

lemma codec_Mapping:
  "conversion_laws lib \<Longrightarrow> codec_up_to childless_Mapping (read_Mapping lib) (create_Mapping lib)"
  by (simp add: codec_up_to_def read_Mapping_def create_Mapping_def childless_Mapping_def codec_rules)

lemma codec_ApplyMapping:
  "conversion_laws lib \<Longrightarrow>
   codec_up_to childless_ApplyMapping (read_ApplyMapping lib) (create_ApplyMapping lib)"
  by (simp add: codec_up_to_def read_ApplyMapping_def create_ApplyMapping_def childless_ApplyMapping_def
      codec_rules codec_up_to_slice_structs [OF codec_Mapping])

lemma codec_GlueStudioSchemaColumn [codecs]: "codec read_GlueStudioSchemaColumn create_GlueStudioSchemaColumn"
  by (rule codecI) (simp add: read_GlueStudioSchemaColumn_def create_GlueStudioSchemaColumn_def codec_rules)

lemma codec_GlueSchema [codecs]: "codec read_GlueSchema create_GlueSchema"
  by (rule codecI) (simp add: read_GlueSchema_def create_GlueSchema_def codec_rules codec_GlueStudioSchemaColumn)

lemma codec_AthenaConnectorSource [codecs]: "codec read_AthenaConnectorSource create_AthenaConnectorSource"
  by (rule codecI) (simp add: read_AthenaConnectorSource_def create_AthenaConnectorSource_def codec_rules codec_GlueSchema)

lemma codec_CatalogDeltaSource [codecs]: "conversion_laws lib \<Longrightarrow> codec (read_CatalogDeltaSource lib) (create_CatalogDeltaSource lib)"
  by (rule codecI) (simp add: read_CatalogDeltaSource_def create_CatalogDeltaSource_def codec_rules codec_GlueSchema)

lemma codec_CatalogHudiSource [codecs]: "conversion_laws lib \<Longrightarrow> codec (read_CatalogHudiSource lib) (create_CatalogHudiSource lib)"
  by (rule codecI) (simp add: read_CatalogHudiSource_def create_CatalogHudiSource_def codec_rules codec_GlueSchema)

lemma codec_StreamingDataPreviewOptions [codecs]: "codec read_StreamingDataPreviewOptions create_StreamingDataPreviewOptions"
  by (rule codecI) (simp add: read_StreamingDataPreviewOptions_def create_StreamingDataPreviewOptions_def codec_rules)

lemma codec_KafkaStreamingSourceOptions [codecs]: "conversion_laws lib \<Longrightarrow> codec read_KafkaStreamingSourceOptions (create_KafkaStreamingSourceOptions lib)"
  by (rule codecI) (simp add: read_KafkaStreamingSourceOptions_def create_KafkaStreamingSourceOptions_def codec_rules)

lemma codec_CatalogKafkaSource [codecs]: "conversion_laws lib \<Longrightarrow> codec read_CatalogKafkaSource (create_CatalogKafkaSource lib)"
  by (rule codecI) (simp add: read_CatalogKafkaSource_def create_CatalogKafkaSource_def codec_rules codec_StreamingDataPreviewOptions codec_KafkaStreamingSourceOptions)

lemma codec_KinesisStreamingSourceOptions [codecs]: "conversion_laws lib \<Longrightarrow> codec (read_KinesisStreamingSourceOptions lib) (create_KinesisStreamingSourceOptions lib)"
  by (rule codecI) (simp add: read_KinesisStreamingSourceOptions_def create_KinesisStreamingSourceOptions_def codec_rules)

lemma codec_CatalogKinesisSource [codecs]: "conversion_laws lib \<Longrightarrow> codec (read_CatalogKinesisSource lib) (create_CatalogKinesisSource lib)"
  by (rule codecI) (simp add: read_CatalogKinesisSource_def create_CatalogKinesisSource_def codec_rules codec_StreamingDataPreviewOptions codec_KinesisStreamingSourceOptions)

lemma codec_CatalogSource [codecs]: "codec read_CatalogSource create_CatalogSource"
  by (rule codecI) (simp add: read_CatalogSource_def create_CatalogSource_def codec_rules)

lemma codec_BasicCatalogTarget [codecs]: "conversion_laws lib \<Longrightarrow> codec (read_BasicCatalogTarget lib) (create_BasicCatalogTarget lib)"
  by (rule codecI) (simp add: read_BasicCatalogTarget_def create_BasicCatalogTarget_def codec_rules)

lemma codec_ConnectorDataSource [codecs]: "conversion_laws lib \<Longrightarrow> codec (read_ConnectorDataSource lib) (create_ConnectorDataSource lib)"
  by (rule codecI) (simp add: read_ConnectorDataSource_def create_ConnectorDataSource_def codec_rules codec_GlueSchema)

lemma codec_ConnectorDataTarget [codecs]: "conversion_laws lib \<Longrightarrow> codec (read_ConnectorDataTarget lib) (create_ConnectorDataTarget lib)"
  by (rule codecI) (simp add: read_ConnectorDataTarget_def create_ConnectorDataTarget_def codec_rules)

lemma codec_CustomCode [codecs]: "conversion_laws lib \<Longrightarrow> codec (read_CustomCode lib) (create_CustomCode lib)"
  by (rule codecI) (simp add: read_CustomCode_def create_CustomCode_def codec_rules codec_GlueSchema)

lemma codec_DirectJDBCSource [codecs]: "conversion_laws lib \<Longrightarrow> codec (read_DirectJDBCSource lib) create_DirectJDBCSource"
  by (rule codecI) (simp add: read_DirectJDBCSource_def create_DirectJDBCSource_def codec_rules)

lemma codec_DirectKafkaSource [codecs]: "conversion_laws lib \<Longrightarrow> codec read_DirectKafkaSource (create_DirectKafkaSource lib)"
  by (rule codecI) (simp add: read_DirectKafkaSource_def create_DirectKafkaSource_def codec_rules codec_StreamingDataPreviewOptions codec_KafkaStreamingSourceOptions)

lemma codec_DirectKinesisSource [codecs]: "conversion_laws lib \<Longrightarrow> codec (read_DirectKinesisSource lib) (create_DirectKinesisSource lib)"
  by (rule codecI) (simp add: read_DirectKinesisSource_def create_DirectKinesisSource_def codec_rules codec_StreamingDataPreviewOptions codec_KinesisStreamingSourceOptions)

lemma codec_DropDuplicates [codecs]: "conversion_laws lib \<Longrightarrow> codec (read_DropDuplicates lib) (create_DropDuplicates lib)"
  by (rule codecI) (simp add: read_DropDuplicates_def create_DropDuplicates_def codec_rules)

lemma codec_DropFields [codecs]: "conversion_laws lib \<Longrightarrow> codec (read_DropFields lib) (create_DropFields lib)"
  by (rule codecI) (simp add: read_DropFields_def create_DropFields_def codec_rules)

lemma codec_NullCheckBoxList [codecs]: "codec read_NullCheckBoxList create_NullCheckBoxList"
  by (rule codecI) (simp add: read_NullCheckBoxList_def create_NullCheckBoxList_def codec_rules)

lemma codec_Datatype [codecs]: "codec read_Datatype create_Datatype"
  by (rule codecI) (simp add: read_Datatype_def create_Datatype_def codec_rules)

lemma codec_NullValueField [codecs]: "codec read_NullValueField create_NullValueField"
  by (rule codecI) (simp add: read_NullValueField_def create_NullValueField_def codec_rules codec_Datatype)

lemma codec_DropNullFields [codecs]: "conversion_laws lib \<Longrightarrow> codec (read_DropNullFields lib) (create_DropNullFields lib)"
  by (rule codecI) (simp add: read_DropNullFields_def create_DropNullFields_def codec_rules codec_NullCheckBoxList codec_NullValueField)

lemma codec_TransformConfigParameter [codecs]: "conversion_laws lib \<Longrightarrow> codec (read_TransformConfigParameter lib) (create_TransformConfigParameter lib)"
  by (rule codecI) (simp add: read_TransformConfigParameter_def create_TransformConfigParameter_def codec_rules)

lemma codec_DynamicTransform [codecs]: "conversion_laws lib \<Longrightarrow> codec (read_DynamicTransform lib) (create_DynamicTransform lib)"
  by (rule codecI) (simp add: read_DynamicTransform_def create_DynamicTransform_def codec_rules codec_GlueSchema codec_TransformConfigParameter)

lemma codec_DynamoDBCatalogSource [codecs]: "codec read_DynamoDBCatalogSource create_DynamoDBCatalogSource"
  by (rule codecI) (simp add: read_DynamoDBCatalogSource_def create_DynamoDBCatalogSource_def codec_rules)

lemma codec_DQResultsPublishingOptions [codecs]: "codec read_DQResultsPublishingOptions create_DQResultsPublishingOptions"
  by (rule codecI) (simp add: read_DQResultsPublishingOptions_def create_DQResultsPublishingOptions_def codec_rules)

lemma codec_DQStopJobOnFailureOptions [codecs]: "conversion_laws lib \<Longrightarrow> codec (read_DQStopJobOnFailureOptions lib) create_DQStopJobOnFailureOptions"
  by (rule codecI) (simp add: read_DQStopJobOnFailureOptions_def create_DQStopJobOnFailureOptions_def codec_rules)

lemma codec_EvaluateDataQuality [codecs]: "conversion_laws lib \<Longrightarrow> codec (read_EvaluateDataQuality lib) (create_EvaluateDataQuality lib)"
  by (rule codecI) (simp add: read_EvaluateDataQuality_def create_EvaluateDataQuality_def codec_rules codec_DQResultsPublishingOptions codec_DQStopJobOnFailureOptions)

lemma codec_EvaluateDataQualityMultiFrame [codecs]: "conversion_laws lib \<Longrightarrow> codec (read_EvaluateDataQualityMultiFrame lib) (create_EvaluateDataQualityMultiFrame lib)"
  by (rule codecI) (simp add: read_EvaluateDataQualityMultiFrame_def create_EvaluateDataQualityMultiFrame_def codec_rules codec_DQResultsPublishingOptions codec_DQStopJobOnFailureOptions)

lemma codec_FillMissingValues [codecs]: "conversion_laws lib \<Longrightarrow> codec (read_FillMissingValues lib) (create_FillMissingValues lib)"
  by (rule codecI) (simp add: read_FillMissingValues_def create_FillMissingValues_def codec_rules)

lemma codec_FilterValue [codecs]: "conversion_laws lib \<Longrightarrow> codec (read_FilterValue lib) (create_FilterValue lib)"
  by (rule codecI) (simp add: read_FilterValue_def create_FilterValue_def codec_rules)

lemma codec_FilterExpression [codecs]: "conversion_laws lib \<Longrightarrow> codec (read_FilterExpression lib) (create_FilterExpression lib)"
  by (rule codecI) (simp add: read_FilterExpression_def create_FilterExpression_def codec_rules codec_FilterValue)

lemma codec_Filter [codecs]: "conversion_laws lib \<Longrightarrow> codec (read_Filter lib) (create_Filter lib)"
  by (rule codecI) (simp add: read_Filter_def create_Filter_def codec_rules codec_FilterExpression)

lemma codec_S3SourceAdditionalOptions [codecs]: "codec read_S3SourceAdditionalOptions create_S3SourceAdditionalOptions"
  by (rule codecI) (simp add: read_S3SourceAdditionalOptions_def create_S3SourceAdditionalOptions_def codec_rules)

lemma codec_GovernedCatalogSource [codecs]: "codec read_GovernedCatalogSource create_GovernedCatalogSource"
  by (rule codecI) (simp add: read_GovernedCatalogSource_def create_GovernedCatalogSource_def codec_rules codec_S3SourceAdditionalOptions)

lemma codec_CatalogSchemaChangePolicy [codecs]: "conversion_laws lib \<Longrightarrow> codec (read_CatalogSchemaChangePolicy lib) create_CatalogSchemaChangePolicy"
  by (rule codecI) (simp add: read_CatalogSchemaChangePolicy_def create_CatalogSchemaChangePolicy_def codec_rules)

lemma codec_GovernedCatalogTarget [codecs]: "conversion_laws lib \<Longrightarrow> codec (read_GovernedCatalogTarget lib) (create_GovernedCatalogTarget lib)"
  by (rule codecI) (simp add: read_GovernedCatalogTarget_def create_GovernedCatalogTarget_def codec_rules codec_CatalogSchemaChangePolicy)

lemma codec_JDBCConnectorOptions [codecs]: "conversion_laws lib \<Longrightarrow> codec (read_JDBCConnectorOptions lib ord') (create_JDBCConnectorOptions lib ord)"
  by (rule codecI) (simp add: read_JDBCConnectorOptions_def create_JDBCConnectorOptions_def codec_rules)

lemma codec_JDBCConnectorSource [codecs]: "conversion_laws lib \<Longrightarrow> codec (read_JDBCConnectorSource lib ord') (create_JDBCConnectorSource lib ord)"
  by (rule codecI) (simp add: read_JDBCConnectorSource_def create_JDBCConnectorSource_def codec_rules codec_GlueSchema codec_JDBCConnectorOptions)

lemma codec_JDBCConnectorTarget [codecs]: "conversion_laws lib \<Longrightarrow> codec (read_JDBCConnectorTarget lib) (create_JDBCConnectorTarget lib)"
  by (rule codecI) (simp add: read_JDBCConnectorTarget_def create_JDBCConnectorTarget_def codec_rules codec_GlueSchema)

lemma codec_JoinColumn [codecs]: "conversion_laws lib \<Longrightarrow> codec (read_JoinColumn lib) (create_JoinColumn lib)"
  by (rule codecI) (simp add: read_JoinColumn_def create_JoinColumn_def codec_rules)

lemma codec_Join [codecs]: "conversion_laws lib \<Longrightarrow> codec (read_Join lib) (create_Join lib)"
  by (rule codecI) (simp add: read_Join_def create_Join_def codec_rules codec_JoinColumn)

lemma codec_Merge [codecs]: "conversion_laws lib \<Longrightarrow> codec (read_Merge lib) (create_Merge lib)"
  by (rule codecI) (simp add: read_Merge_def create_Merge_def codec_rules)

lemma codec_MicrosoftSQLServerCatalogSource [codecs]: "codec read_MicrosoftSQLServerCatalogSource create_MicrosoftSQLServerCatalogSource"
  by (rule codecI) (simp add: read_MicrosoftSQLServerCatalogSource_def create_MicrosoftSQLServerCatalogSource_def codec_rules)

lemma codec_MicrosoftSQLServerCatalogTarget [codecs]: "conversion_laws lib \<Longrightarrow> codec (read_MicrosoftSQLServerCatalogTarget lib) (create_MicrosoftSQLServerCatalogTarget lib)"
  by (rule codecI) (simp add: read_MicrosoftSQLServerCatalogTarget_def create_MicrosoftSQLServerCatalogTarget_def codec_rules)

lemma codec_MySQLCatalogSource [codecs]: "codec read_MySQLCatalogSource create_MySQLCatalogSource"
  by (rule codecI) (simp add: read_MySQLCatalogSource_def create_MySQLCatalogSource_def codec_rules)

lemma codec_MySQLCatalogTarget [codecs]: "conversion_laws lib \<Longrightarrow> codec (read_MySQLCatalogTarget lib) (create_MySQLCatalogTarget lib)"
  by (rule codecI) (simp add: read_MySQLCatalogTarget_def create_MySQLCatalogTarget_def codec_rules)

lemma codec_OracleSQLCatalogSource [codecs]: "codec read_OracleSQLCatalogSource create_OracleSQLCatalogSource"
  by (rule codecI) (simp add: read_OracleSQLCatalogSource_def create_OracleSQLCatalogSource_def codec_rules)

lemma codec_OracleSQLCatalogTarget [codecs]: "conversion_laws lib \<Longrightarrow> codec (read_OracleSQLCatalogTarget lib) (create_OracleSQLCatalogTarget lib)"
  by (rule codecI) (simp add: read_OracleSQLCatalogTarget_def create_OracleSQLCatalogTarget_def codec_rules)

lemma codec_PIIDetection [codecs]: "conversion_laws lib \<Longrightarrow> codec (read_PIIDetection lib) (create_PIIDetection lib)"
  by (rule codecI) (simp add: read_PIIDetection_def create_PIIDetection_def codec_rules)

lemma codec_PostgreSQLCatalogSource [codecs]: "codec read_PostgreSQLCatalogSource create_PostgreSQLCatalogSource"
  by (rule codecI) (simp add: read_PostgreSQLCatalogSource_def create_PostgreSQLCatalogSource_def codec_rules)

lemma codec_PostgreSQLCatalogTarget [codecs]: "conversion_laws lib \<Longrightarrow> codec (read_PostgreSQLCatalogTarget lib) (create_PostgreSQLCatalogTarget lib)"
  by (rule codecI) (simp add: read_PostgreSQLCatalogTarget_def create_PostgreSQLCatalogTarget_def codec_rules)

lemma codec_RecipeReference [codecs]: "codec read_RecipeReference create_RecipeReference"
  by (rule codecI) (simp add: read_RecipeReference_def create_RecipeReference_def codec_rules)

lemma codec_RecipeAction [codecs]: "conversion_laws lib \<Longrightarrow> codec (read_RecipeAction lib) (create_RecipeAction lib)"
  by (rule codecI) (simp add: read_RecipeAction_def create_RecipeAction_def codec_rules)

lemma codec_ConditionExpression [codecs]: "codec read_ConditionExpression create_ConditionExpression"
  by (rule codecI) (simp add: read_ConditionExpression_def create_ConditionExpression_def codec_rules)

lemma codec_RecipeStep [codecs]: "conversion_laws lib \<Longrightarrow> codec (read_RecipeStep lib) (create_RecipeStep lib)"
  by (rule codecI) (simp add: read_RecipeStep_def create_RecipeStep_def codec_rules codec_RecipeAction codec_ConditionExpression)

lemma codec_Recipe [codecs]: "conversion_laws lib \<Longrightarrow> codec (read_Recipe lib) (create_Recipe lib)"
  by (rule codecI) (simp add: read_Recipe_def create_Recipe_def codec_rules codec_RecipeReference codec_RecipeStep)

lemma codec_RedshiftSource [codecs]: "codec read_RedshiftSource create_RedshiftSource"
  by (rule codecI) (simp add: read_RedshiftSource_def create_RedshiftSource_def codec_rules)

lemma codec_UpsertRedshiftTargetOptions [codecs]: "conversion_laws lib \<Longrightarrow> codec (read_UpsertRedshiftTargetOptions lib) (create_UpsertRedshiftTargetOptions lib)"
  by (rule codecI) (simp add: read_UpsertRedshiftTargetOptions_def create_UpsertRedshiftTargetOptions_def codec_rules)

lemma codec_RedshiftTarget [codecs]: "conversion_laws lib \<Longrightarrow> codec (read_RedshiftTarget lib) (create_RedshiftTarget lib)"
  by (rule codecI) (simp add: read_RedshiftTarget_def create_RedshiftTarget_def codec_rules codec_UpsertRedshiftTargetOptions)

lemma codec_RelationalCatalogSource [codecs]: "codec read_RelationalCatalogSource create_RelationalCatalogSource"
  by (rule codecI) (simp add: read_RelationalCatalogSource_def create_RelationalCatalogSource_def codec_rules)

lemma codec_RenameField [codecs]: "conversion_laws lib \<Longrightarrow> codec (read_RenameField lib) (create_RenameField lib)"
  by (rule codecI) (simp add: read_RenameField_def create_RenameField_def codec_rules)

lemma codec_S3CatalogDeltaSource [codecs]: "conversion_laws lib \<Longrightarrow> codec (read_S3CatalogDeltaSource lib) (create_S3CatalogDeltaSource lib)"
  by (rule codecI) (simp add: read_S3CatalogDeltaSource_def create_S3CatalogDeltaSource_def codec_rules codec_GlueSchema)

lemma codec_S3CatalogHudiSource [codecs]: "conversion_laws lib \<Longrightarrow> codec (read_S3CatalogHudiSource lib) (create_S3CatalogHudiSource lib)"
  by (rule codecI) (simp add: read_S3CatalogHudiSource_def create_S3CatalogHudiSource_def codec_rules codec_GlueSchema)

lemma codec_S3CatalogSource [codecs]: "codec read_S3CatalogSource create_S3CatalogSource"
  by (rule codecI) (simp add: read_S3CatalogSource_def create_S3CatalogSource_def codec_rules codec_S3SourceAdditionalOptions)

lemma codec_S3CatalogTarget [codecs]: "conversion_laws lib \<Longrightarrow> codec (read_S3CatalogTarget lib) (create_S3CatalogTarget lib)"
  by (rule codecI) (simp add: read_S3CatalogTarget_def create_S3CatalogTarget_def codec_rules codec_CatalogSchemaChangePolicy)

lemma codec_S3DirectSourceAdditionalOptions [codecs]: "codec read_S3DirectSourceAdditionalOptions create_S3DirectSourceAdditionalOptions"
  by (rule codecI) (simp add: read_S3DirectSourceAdditionalOptions_def create_S3DirectSourceAdditionalOptions_def codec_rules)

lemma codec_S3CsvSource [codecs]: "conversion_laws lib \<Longrightarrow> codec (read_S3CsvSource lib) (create_S3CsvSource lib)"
  by (rule codecI) (simp add: read_S3CsvSource_def create_S3CsvSource_def codec_rules codec_GlueSchema codec_S3DirectSourceAdditionalOptions)

lemma codec_S3DeltaCatalogTarget [codecs]: "conversion_laws lib \<Longrightarrow> codec (read_S3DeltaCatalogTarget lib) (create_S3DeltaCatalogTarget lib)"
  by (rule codecI) (simp add: read_S3DeltaCatalogTarget_def create_S3DeltaCatalogTarget_def codec_rules codec_CatalogSchemaChangePolicy)

lemma codec_DirectSchemaChangePolicy [codecs]: "conversion_laws lib \<Longrightarrow> codec (read_DirectSchemaChangePolicy lib) create_DirectSchemaChangePolicy"
  by (rule codecI) (simp add: read_DirectSchemaChangePolicy_def create_DirectSchemaChangePolicy_def codec_rules)

lemma codec_S3DeltaDirectTarget [codecs]: "conversion_laws lib \<Longrightarrow> codec (read_S3DeltaDirectTarget lib) (create_S3DeltaDirectTarget lib)"
  by (rule codecI) (simp add: read_S3DeltaDirectTarget_def create_S3DeltaDirectTarget_def codec_rules codec_DirectSchemaChangePolicy)

lemma codec_S3DeltaSource [codecs]: "conversion_laws lib \<Longrightarrow> codec (read_S3DeltaSource lib) (create_S3DeltaSource lib)"
  by (rule codecI) (simp add: read_S3DeltaSource_def create_S3DeltaSource_def codec_rules codec_GlueSchema codec_S3DirectSourceAdditionalOptions)

lemma codec_S3DirectTarget [codecs]: "conversion_laws lib \<Longrightarrow> codec (read_S3DirectTarget lib) (create_S3DirectTarget lib)"
  by (rule codecI) (simp add: read_S3DirectTarget_def create_S3DirectTarget_def codec_rules codec_DirectSchemaChangePolicy)

lemma codec_S3GlueParquetTarget [codecs]: "conversion_laws lib \<Longrightarrow> codec (read_S3GlueParquetTarget lib) (create_S3GlueParquetTarget lib)"
  by (rule codecI) (simp add: read_S3GlueParquetTarget_def create_S3GlueParquetTarget_def codec_rules codec_DirectSchemaChangePolicy)

lemma codec_S3HudiCatalogTarget [codecs]: "conversion_laws lib \<Longrightarrow> codec (read_S3HudiCatalogTarget lib) (create_S3HudiCatalogTarget lib)"
  by (rule codecI) (simp add: read_S3HudiCatalogTarget_def create_S3HudiCatalogTarget_def codec_rules codec_CatalogSchemaChangePolicy)

lemma codec_S3HudiDirectTarget [codecs]: "conversion_laws lib \<Longrightarrow> codec (read_S3HudiDirectTarget lib) (create_S3HudiDirectTarget lib)"
  by (rule codecI) (simp add: read_S3HudiDirectTarget_def create_S3HudiDirectTarget_def codec_rules codec_DirectSchemaChangePolicy)

lemma codec_S3HudiSource [codecs]: "conversion_laws lib \<Longrightarrow> codec (read_S3HudiSource lib) (create_S3HudiSource lib)"
  by (rule codecI) (simp add: read_S3HudiSource_def create_S3HudiSource_def codec_rules codec_GlueSchema codec_S3DirectSourceAdditionalOptions)

lemma codec_S3JSONSource [codecs]: "conversion_laws lib \<Longrightarrow> codec (read_S3JSONSource lib) (create_S3JSONSource lib)"
  by (rule codecI) (simp add: read_S3JSONSource_def create_S3JSONSource_def codec_rules codec_GlueSchema codec_S3DirectSourceAdditionalOptions)

lemma codec_S3ParquetSource [codecs]: "conversion_laws lib \<Longrightarrow> codec (read_S3ParquetSource lib) (create_S3ParquetSource lib)"
  by (rule codecI) (simp add: read_S3ParquetSource_def create_S3ParquetSource_def codec_rules codec_GlueSchema codec_S3DirectSourceAdditionalOptions)

lemma codec_SelectFields [codecs]: "conversion_laws lib \<Longrightarrow> codec (read_SelectFields lib) (create_SelectFields lib)"
  by (rule codecI) (simp add: read_SelectFields_def create_SelectFields_def codec_rules)

lemma codec_SelectFromCollection [codecs]: "conversion_laws lib \<Longrightarrow> codec (read_SelectFromCollection lib) (create_SelectFromCollection lib)"
  by (rule codecI) (simp add: read_SelectFromCollection_def create_SelectFromCollection_def codec_rules)

lemma codec_SnowflakeNodeData [codecs]: "conversion_laws lib \<Longrightarrow> codec (read_SnowflakeNodeData lib) (create_SnowflakeNodeData lib)"
  by (rule codecI) (simp add: read_SnowflakeNodeData_def create_SnowflakeNodeData_def codec_rules codec_Option)

lemma codec_SnowflakeSource [codecs]: "conversion_laws lib \<Longrightarrow> codec (read_SnowflakeSource lib) (create_SnowflakeSource lib)"
  by (rule codecI) (simp add: read_SnowflakeSource_def create_SnowflakeSource_def codec_rules codec_GlueSchema codec_SnowflakeNodeData)

lemma codec_SnowflakeTarget [codecs]: "conversion_laws lib \<Longrightarrow> codec (read_SnowflakeTarget lib) (create_SnowflakeTarget lib)"
  by (rule codecI) (simp add: read_SnowflakeTarget_def create_SnowflakeTarget_def codec_rules codec_SnowflakeNodeData)

lemma codec_SparkConnectorSource [codecs]: "conversion_laws lib \<Longrightarrow> codec (read_SparkConnectorSource lib) (create_SparkConnectorSource lib)"
  by (rule codecI) (simp add: read_SparkConnectorSource_def create_SparkConnectorSource_def codec_rules codec_GlueSchema)

lemma codec_SparkConnectorTarget [codecs]: "conversion_laws lib \<Longrightarrow> codec (read_SparkConnectorTarget lib) (create_SparkConnectorTarget lib)"
  by (rule codecI) (simp add: read_SparkConnectorTarget_def create_SparkConnectorTarget_def codec_rules codec_GlueSchema)

lemma codec_SQLAlias [codecs]: "codec read_SQLAlias create_SQLAlias"
  by (rule codecI) (simp add: read_SQLAlias_def create_SQLAlias_def codec_rules)

lemma codec_SparkSQL [codecs]: "conversion_laws lib \<Longrightarrow> codec (read_SparkSQL lib) (create_SparkSQL lib)"
  by (rule codecI) (simp add: read_SparkSQL_def create_SparkSQL_def codec_rules codec_GlueSchema codec_SQLAlias)

lemma codec_Spigot [codecs]: "conversion_laws lib \<Longrightarrow> codec (read_Spigot lib) (create_Spigot lib)"
  by (rule codecI) (simp add: read_Spigot_def create_Spigot_def codec_rules)

lemma codec_SplitFields [codecs]: "conversion_laws lib \<Longrightarrow> codec (read_SplitFields lib) (create_SplitFields lib)"
  by (rule codecI) (simp add: read_SplitFields_def create_SplitFields_def codec_rules)

lemma codec_Union [codecs]: "conversion_laws lib \<Longrightarrow> codec (read_Union lib) (create_Union lib)"
  by (rule codecI) (simp add: read_Union_def create_Union_def codec_rules)

lemma codec_CodeGenConfigurationNode:
  "conversion_laws lib \<Longrightarrow>
   codec_up_to childless_node (read_CodeGenConfigurationNode lib ord) (create_CodeGenConfigurationNode lib ord')"
  by (simp add: codec_up_to_def read_CodeGenConfigurationNode_def create_CodeGenConfigurationNode_def
      childless_node_def codec_rules codec_up_to_when_set [OF codec_ApplyMapping]
      codec_Aggregate codec_AmazonRedshiftSource codec_AmazonRedshiftTarget
      codec_AthenaConnectorSource codec_CatalogDeltaSource codec_CatalogHudiSource
      codec_CatalogKafkaSource codec_CatalogKinesisSource codec_CatalogSource
      codec_BasicCatalogTarget codec_ConnectorDataSource codec_ConnectorDataTarget codec_CustomCode
      codec_DirectJDBCSource codec_DirectKafkaSource codec_DirectKinesisSource codec_DropDuplicates
      codec_DropFields codec_DropNullFields codec_DynamicTransform codec_DynamoDBCatalogSource
      codec_EvaluateDataQuality codec_EvaluateDataQualityMultiFrame codec_FillMissingValues
      codec_Filter codec_GovernedCatalogSource codec_GovernedCatalogTarget codec_JDBCConnectorSource
      codec_JDBCConnectorTarget codec_Join codec_Merge codec_MicrosoftSQLServerCatalogSource
      codec_MicrosoftSQLServerCatalogTarget codec_MySQLCatalogSource codec_MySQLCatalogTarget
      codec_OracleSQLCatalogSource codec_OracleSQLCatalogTarget codec_PIIDetection
      codec_PostgreSQLCatalogSource codec_PostgreSQLCatalogTarget codec_Recipe codec_RedshiftSource
      codec_RedshiftTarget codec_RelationalCatalogSource codec_RenameField
      codec_S3CatalogDeltaSource codec_S3CatalogHudiSource codec_S3CatalogSource
      codec_S3CatalogTarget codec_S3CsvSource codec_S3DeltaCatalogTarget codec_S3DeltaDirectTarget
      codec_S3DeltaSource codec_S3DirectTarget codec_S3GlueParquetTarget codec_S3HudiCatalogTarget
      codec_S3HudiDirectTarget codec_S3HudiSource codec_S3JSONSource codec_S3ParquetSource
      codec_SelectFields codec_SelectFromCollection codec_SnowflakeSource codec_SnowflakeTarget
      codec_SparkConnectorSource codec_SparkConnectorTarget codec_SparkSQL codec_Spigot
      codec_SplitFields codec_Union)

lemma codec_JobCommand [codecs]: "codec read_JobCommand create_JobCommand"
  by (rule codecI) (simp add: read_JobCommand_def create_JobCommand_def codec_rules)

lemma codec_ConnectionsList [codecs]: "conversion_laws lib \<Longrightarrow> codec (read_ConnectionsList lib) (create_ConnectionsList lib)"
  by (rule codecI) (simp add: read_ConnectionsList_def create_ConnectionsList_def codec_rules)

lemma codec_ExecutionProperty [codecs]: "conversion_laws lib \<Longrightarrow> codec read_ExecutionProperty (create_ExecutionProperty lib)"
  by (rule codecI) (simp add: read_ExecutionProperty_def create_ExecutionProperty_def codec_rules)

lemma codec_NotificationProperty [codecs]: "conversion_laws lib \<Longrightarrow> codec read_NotificationProperty (create_NotificationProperty lib)"
  by (rule codecI) (simp add: read_NotificationProperty_def create_NotificationProperty_def codec_rules)

lemma codec_SourceControlDetails [codecs]: "conversion_laws lib \<Longrightarrow> codec (read_SourceControlDetails lib) create_SourceControlDetails"
  by (rule codecI) (simp add: read_SourceControlDetails_def create_SourceControlDetails_def codec_rules)

lemma update_AggregateOperation_eq [update_eqs]: "update_AggregateOperation lib = create_AggregateOperation lib"
  by (simp add: fun_eq_iff update_AggregateOperation_def create_AggregateOperation_def)

lemma update_Aggregate_eq [update_eqs]: "update_Aggregate lib = create_Aggregate lib"
  by (simp add: fun_eq_iff update_Aggregate_def create_Aggregate_def update_AggregateOperation_eq)

lemma update_AmazonRedshiftAdvancedOption_eq [update_eqs]: "update_AmazonRedshiftAdvancedOption = create_AmazonRedshiftAdvancedOption"
  by (simp add: fun_eq_iff update_AmazonRedshiftAdvancedOption_def create_AmazonRedshiftAdvancedOption_def)

lemma update_Option_eq [update_eqs]: "update_Option = create_Option"
  by (simp add: fun_eq_iff update_Option_def create_Option_def)

lemma update_AmazonRedshiftNodeData_eq [update_eqs]: "update_AmazonRedshiftNodeData = create_AmazonRedshiftNodeData"
  by (simp add: fun_eq_iff update_AmazonRedshiftNodeData_def create_AmazonRedshiftNodeData_def update_AmazonRedshiftAdvancedOption_eq update_Option_eq)

lemma update_AmazonRedshiftSource_eq [update_eqs]: "update_AmazonRedshiftSource = create_AmazonRedshiftSource"
  by (simp add: fun_eq_iff update_AmazonRedshiftSource_def create_AmazonRedshiftSource_def update_AmazonRedshiftNodeData_eq)

lemma update_AmazonRedshiftTarget_eq [update_eqs]: "update_AmazonRedshiftTarget lib = create_AmazonRedshiftTarget lib"
  by (simp add: fun_eq_iff update_AmazonRedshiftTarget_def create_AmazonRedshiftTarget_def update_AmazonRedshiftNodeData_eq)

lemma update_Mapping_eq [update_eqs]: "update_Mapping lib = create_Mapping lib"
  by (simp add: fun_eq_iff update_Mapping_def create_Mapping_def)

lemma update_ApplyMapping_eq [update_eqs]: "update_ApplyMapping lib = create_ApplyMapping lib"
  by (simp add: fun_eq_iff update_ApplyMapping_def create_ApplyMapping_def update_Mapping_eq)

lemma update_GlueStudioSchemaColumn_eq [update_eqs]: "update_GlueStudioSchemaColumn = create_GlueStudioSchemaColumn"
  by (simp add: fun_eq_iff update_GlueStudioSchemaColumn_def create_GlueStudioSchemaColumn_def)

lemma update_GlueSchema_eq [update_eqs]: "update_GlueSchema = create_GlueSchema"
  by (simp add: fun_eq_iff update_GlueSchema_def create_GlueSchema_def update_GlueStudioSchemaColumn_eq)

lemma update_AthenaConnectorSource_eq [update_eqs]: "update_AthenaConnectorSource = create_AthenaConnectorSource"
  by (simp add: fun_eq_iff update_AthenaConnectorSource_def create_AthenaConnectorSource_def update_GlueSchema_eq)

lemma update_CatalogDeltaSource_eq [update_eqs]: "update_CatalogDeltaSource lib = create_CatalogDeltaSource lib"
  by (simp add: fun_eq_iff update_CatalogDeltaSource_def create_CatalogDeltaSource_def update_GlueSchema_eq)

lemma update_CatalogHudiSource_eq [update_eqs]: "update_CatalogHudiSource lib = create_CatalogHudiSource lib"
  by (simp add: fun_eq_iff update_CatalogHudiSource_def create_CatalogHudiSource_def update_GlueSchema_eq)

lemma update_StreamingDataPreviewOptions_eq [update_eqs]: "update_StreamingDataPreviewOptions = create_StreamingDataPreviewOptions"
  by (simp add: fun_eq_iff update_StreamingDataPreviewOptions_def create_StreamingDataPreviewOptions_def)

lemma update_KafkaStreamingSourceOptions_eq [update_eqs]: "update_KafkaStreamingSourceOptions lib = create_KafkaStreamingSourceOptions lib"
  by (simp add: fun_eq_iff update_KafkaStreamingSourceOptions_def create_KafkaStreamingSourceOptions_def)

lemma update_CatalogKafkaSource_eq [update_eqs]: "update_CatalogKafkaSource lib = create_CatalogKafkaSource lib"
  by (simp add: fun_eq_iff update_CatalogKafkaSource_def create_CatalogKafkaSource_def update_StreamingDataPreviewOptions_eq update_KafkaStreamingSourceOptions_eq)

lemma update_KinesisStreamingSourceOptions_eq [update_eqs]: "update_KinesisStreamingSourceOptions lib = create_KinesisStreamingSourceOptions lib"
  by (simp add: fun_eq_iff update_KinesisStreamingSourceOptions_def create_KinesisStreamingSourceOptions_def)

lemma update_CatalogKinesisSource_eq [update_eqs]: "update_CatalogKinesisSource lib = create_CatalogKinesisSource lib"
  by (simp add: fun_eq_iff update_CatalogKinesisSource_def create_CatalogKinesisSource_def update_StreamingDataPreviewOptions_eq update_KinesisStreamingSourceOptions_eq)

lemma update_CatalogSource_eq [update_eqs]: "update_CatalogSource = create_CatalogSource"
  by (simp add: fun_eq_iff update_CatalogSource_def create_CatalogSource_def)

lemma update_BasicCatalogTarget_eq [update_eqs]: "update_BasicCatalogTarget lib = create_BasicCatalogTarget lib"
  by (simp add: fun_eq_iff update_BasicCatalogTarget_def create_BasicCatalogTarget_def)

lemma update_ConnectorDataSource_eq [update_eqs]: "update_ConnectorDataSource lib = create_ConnectorDataSource lib"
  by (simp add: fun_eq_iff update_ConnectorDataSource_def create_ConnectorDataSource_def update_GlueSchema_eq)

lemma update_ConnectorDataTarget_eq [update_eqs]: "update_ConnectorDataTarget lib = create_ConnectorDataTarget lib"
  by (simp add: fun_eq_iff update_ConnectorDataTarget_def create_ConnectorDataTarget_def)

lemma update_CustomCode_eq [update_eqs]: "update_CustomCode lib = create_CustomCode lib"
  by (simp add: fun_eq_iff update_CustomCode_def create_CustomCode_def update_GlueSchema_eq)

lemma update_DirectJDBCSource_eq [update_eqs]: "update_DirectJDBCSource = create_DirectJDBCSource"
  by (simp add: fun_eq_iff update_DirectJDBCSource_def create_DirectJDBCSource_def)

lemma update_DirectKafkaSource_eq [update_eqs]: "update_DirectKafkaSource lib = create_DirectKafkaSource lib"
  by (simp add: fun_eq_iff update_DirectKafkaSource_def create_DirectKafkaSource_def update_StreamingDataPreviewOptions_eq update_KafkaStreamingSourceOptions_eq)

lemma update_DirectKinesisSource_eq [update_eqs]: "update_DirectKinesisSource lib = create_DirectKinesisSource lib"
  by (simp add: fun_eq_iff update_DirectKinesisSource_def create_DirectKinesisSource_def update_StreamingDataPreviewOptions_eq update_KinesisStreamingSourceOptions_eq)

lemma update_DropDuplicates_eq [update_eqs]: "update_DropDuplicates lib = create_DropDuplicates lib"
  by (simp add: fun_eq_iff update_DropDuplicates_def create_DropDuplicates_def)

lemma update_DropFields_eq [update_eqs]: "update_DropFields lib = create_DropFields lib"
  by (simp add: fun_eq_iff update_DropFields_def create_DropFields_def)

lemma update_NullCheckBoxList_eq [update_eqs]: "update_NullCheckBoxList = create_NullCheckBoxList"
  by (simp add: fun_eq_iff update_NullCheckBoxList_def create_NullCheckBoxList_def)

lemma update_Datatype_eq [update_eqs]: "update_Datatype = create_Datatype"
  by (simp add: fun_eq_iff update_Datatype_def create_Datatype_def)

lemma update_NullValueField_eq [update_eqs]: "update_NullValueField = create_NullValueField"
  by (simp add: fun_eq_iff update_NullValueField_def create_NullValueField_def update_Datatype_eq)

lemma update_DropNullFields_eq [update_eqs]: "update_DropNullFields lib = create_DropNullFields lib"
  by (simp add: fun_eq_iff update_DropNullFields_def create_DropNullFields_def update_NullCheckBoxList_eq update_NullValueField_eq)

lemma update_TransformConfigParameter_eq [update_eqs]: "update_TransformConfigParameter lib = create_TransformConfigParameter lib"
  by (simp add: fun_eq_iff update_TransformConfigParameter_def create_TransformConfigParameter_def)

lemma update_DynamicTransform_eq [update_eqs]: "update_DynamicTransform lib = create_DynamicTransform lib"
  by (simp add: fun_eq_iff update_DynamicTransform_def create_DynamicTransform_def update_GlueSchema_eq update_TransformConfigParameter_eq)

lemma update_DynamoDBCatalogSource_eq [update_eqs]: "update_DynamoDBCatalogSource = create_DynamoDBCatalogSource"
  by (simp add: fun_eq_iff update_DynamoDBCatalogSource_def create_DynamoDBCatalogSource_def)

lemma update_DQResultsPublishingOptions_eq [update_eqs]: "update_DQResultsPublishingOptions = create_DQResultsPublishingOptions"
  by (simp add: fun_eq_iff update_DQResultsPublishingOptions_def create_DQResultsPublishingOptions_def)

lemma update_DQStopJobOnFailureOptions_eq [update_eqs]: "update_DQStopJobOnFailureOptions = create_DQStopJobOnFailureOptions"
  by (simp add: fun_eq_iff update_DQStopJobOnFailureOptions_def create_DQStopJobOnFailureOptions_def)

lemma update_EvaluateDataQuality_eq [update_eqs]: "update_EvaluateDataQuality lib = create_EvaluateDataQuality lib"
  by (simp add: fun_eq_iff update_EvaluateDataQuality_def create_EvaluateDataQuality_def update_DQResultsPublishingOptions_eq update_DQStopJobOnFailureOptions_eq)

lemma update_EvaluateDataQualityMultiFrame_eq [update_eqs]: "update_EvaluateDataQualityMultiFrame lib = create_EvaluateDataQualityMultiFrame lib"
  by (simp add: fun_eq_iff update_EvaluateDataQualityMultiFrame_def create_EvaluateDataQualityMultiFrame_def update_DQResultsPublishingOptions_eq update_DQStopJobOnFailureOptions_eq)

lemma update_FillMissingValues_eq [update_eqs]: "update_FillMissingValues lib = create_FillMissingValues lib"
  by (simp add: fun_eq_iff update_FillMissingValues_def create_FillMissingValues_def)

lemma update_FilterValue_eq [update_eqs]: "update_FilterValue lib = create_FilterValue lib"
  by (simp add: fun_eq_iff update_FilterValue_def create_FilterValue_def)

lemma update_FilterExpression_eq [update_eqs]: "update_FilterExpression lib = create_FilterExpression lib"
  by (simp add: fun_eq_iff update_FilterExpression_def create_FilterExpression_def update_FilterValue_eq)

lemma update_Filter_eq [update_eqs]: "update_Filter lib = create_Filter lib"
  by (simp add: fun_eq_iff update_Filter_def create_Filter_def update_FilterExpression_eq)

lemma update_S3SourceAdditionalOptions_eq [update_eqs]: "update_S3SourceAdditionalOptions = create_S3SourceAdditionalOptions"
  by (simp add: fun_eq_iff update_S3SourceAdditionalOptions_def create_S3SourceAdditionalOptions_def)

lemma update_GovernedCatalogSource_eq [update_eqs]: "update_GovernedCatalogSource = create_GovernedCatalogSource"
  by (simp add: fun_eq_iff update_GovernedCatalogSource_def create_GovernedCatalogSource_def update_S3SourceAdditionalOptions_eq)

lemma update_CatalogSchemaChangePolicy_eq [update_eqs]: "update_CatalogSchemaChangePolicy = create_CatalogSchemaChangePolicy"
  by (simp add: fun_eq_iff update_CatalogSchemaChangePolicy_def create_CatalogSchemaChangePolicy_def)

lemma update_GovernedCatalogTarget_eq [update_eqs]: "update_GovernedCatalogTarget lib = create_GovernedCatalogTarget lib"
  by (simp add: fun_eq_iff update_GovernedCatalogTarget_def create_GovernedCatalogTarget_def update_CatalogSchemaChangePolicy_eq)

lemma update_JDBCConnectorOptions_eq [update_eqs]: "update_JDBCConnectorOptions lib ord = create_JDBCConnectorOptions lib ord"
  by (simp add: fun_eq_iff update_JDBCConnectorOptions_def create_JDBCConnectorOptions_def)

lemma update_JDBCConnectorSource_eq [update_eqs]: "update_JDBCConnectorSource lib ord = create_JDBCConnectorSource lib ord"
  by (simp add: fun_eq_iff update_JDBCConnectorSource_def create_JDBCConnectorSource_def update_GlueSchema_eq update_JDBCConnectorOptions_eq)

lemma update_JDBCConnectorTarget_eq [update_eqs]: "update_JDBCConnectorTarget lib = create_JDBCConnectorTarget lib"
  by (simp add: fun_eq_iff update_JDBCConnectorTarget_def create_JDBCConnectorTarget_def update_GlueSchema_eq)

lemma update_JoinColumn_eq [update_eqs]: "update_JoinColumn lib = create_JoinColumn lib"
  by (simp add: fun_eq_iff update_JoinColumn_def create_JoinColumn_def)

lemma update_Join_eq [update_eqs]: "update_Join lib = create_Join lib"
  by (simp add: fun_eq_iff update_Join_def create_Join_def update_JoinColumn_eq)

lemma update_Merge_eq [update_eqs]: "update_Merge lib = create_Merge lib"
  by (simp add: fun_eq_iff update_Merge_def create_Merge_def)

lemma update_MicrosoftSQLServerCatalogSource_eq [update_eqs]: "update_MicrosoftSQLServerCatalogSource = create_MicrosoftSQLServerCatalogSource"
  by (simp add: fun_eq_iff update_MicrosoftSQLServerCatalogSource_def create_MicrosoftSQLServerCatalogSource_def)

lemma update_MicrosoftSQLServerCatalogTarget_eq [update_eqs]: "update_MicrosoftSQLServerCatalogTarget lib = create_MicrosoftSQLServerCatalogTarget lib"
  by (simp add: fun_eq_iff update_MicrosoftSQLServerCatalogTarget_def create_MicrosoftSQLServerCatalogTarget_def)

lemma update_MySQLCatalogSource_eq [update_eqs]: "update_MySQLCatalogSource = create_MySQLCatalogSource"
  by (simp add: fun_eq_iff update_MySQLCatalogSource_def create_MySQLCatalogSource_def)

lemma update_MySQLCatalogTarget_eq [update_eqs]: "update_MySQLCatalogTarget lib = create_MySQLCatalogTarget lib"
  by (simp add: fun_eq_iff update_MySQLCatalogTarget_def create_MySQLCatalogTarget_def)

lemma update_OracleSQLCatalogSource_eq [update_eqs]: "update_OracleSQLCatalogSource = create_OracleSQLCatalogSource"
  by (simp add: fun_eq_iff update_OracleSQLCatalogSource_def create_OracleSQLCatalogSource_def)

lemma update_OracleSQLCatalogTarget_eq [update_eqs]: "update_OracleSQLCatalogTarget lib = create_OracleSQLCatalogTarget lib"
  by (simp add: fun_eq_iff update_OracleSQLCatalogTarget_def create_OracleSQLCatalogTarget_def)

lemma update_PIIDetection_eq [update_eqs]: "update_PIIDetection lib = create_PIIDetection lib"
  by (simp add: fun_eq_iff update_PIIDetection_def create_PIIDetection_def)

lemma update_PostgreSQLCatalogSource_eq [update_eqs]: "update_PostgreSQLCatalogSource = create_PostgreSQLCatalogSource"
  by (simp add: fun_eq_iff update_PostgreSQLCatalogSource_def create_PostgreSQLCatalogSource_def)

lemma update_PostgreSQLCatalogTarget_eq [update_eqs]: "update_PostgreSQLCatalogTarget lib = create_PostgreSQLCatalogTarget lib"
  by (simp add: fun_eq_iff update_PostgreSQLCatalogTarget_def create_PostgreSQLCatalogTarget_def)

lemma update_RecipeReference_eq [update_eqs]: "update_RecipeReference = create_RecipeReference"
  by (simp add: fun_eq_iff update_RecipeReference_def create_RecipeReference_def)

lemma update_RecipeAction_eq [update_eqs]: "update_RecipeAction lib = create_RecipeAction lib"
  by (simp add: fun_eq_iff update_RecipeAction_def create_RecipeAction_def)

lemma update_ConditionExpression_eq [update_eqs]: "update_ConditionExpression = create_ConditionExpression"
  by (simp add: fun_eq_iff update_ConditionExpression_def create_ConditionExpression_def)

lemma update_RecipeStep_eq [update_eqs]: "update_RecipeStep lib = create_RecipeStep lib"
  by (simp add: fun_eq_iff update_RecipeStep_def create_RecipeStep_def update_RecipeAction_eq update_ConditionExpression_eq)

lemma update_Recipe_eq [update_eqs]: "update_Recipe lib = create_Recipe lib"
  by (simp add: fun_eq_iff update_Recipe_def create_Recipe_def update_RecipeReference_eq update_RecipeStep_eq)

lemma update_RedshiftSource_eq [update_eqs]: "update_RedshiftSource = create_RedshiftSource"
  by (simp add: fun_eq_iff update_RedshiftSource_def create_RedshiftSource_def)

lemma update_UpsertRedshiftTargetOptions_eq [update_eqs]: "update_UpsertRedshiftTargetOptions lib = create_UpsertRedshiftTargetOptions lib"
  by (simp add: fun_eq_iff update_UpsertRedshiftTargetOptions_def create_UpsertRedshiftTargetOptions_def)

lemma update_RedshiftTarget_eq [update_eqs]: "update_RedshiftTarget lib = create_RedshiftTarget lib"
  by (simp add: fun_eq_iff update_RedshiftTarget_def create_RedshiftTarget_def update_UpsertRedshiftTargetOptions_eq)

lemma update_RelationalCatalogSource_eq [update_eqs]: "update_RelationalCatalogSource = create_RelationalCatalogSource"
  by (simp add: fun_eq_iff update_RelationalCatalogSource_def create_RelationalCatalogSource_def)

lemma update_RenameField_eq [update_eqs]: "update_RenameField lib = create_RenameField lib"
  by (simp add: fun_eq_iff update_RenameField_def create_RenameField_def)

lemma update_S3CatalogDeltaSource_eq [update_eqs]: "update_S3CatalogDeltaSource lib = create_S3CatalogDeltaSource lib"
  by (simp add: fun_eq_iff update_S3CatalogDeltaSource_def create_S3CatalogDeltaSource_def update_GlueSchema_eq)

lemma update_S3CatalogHudiSource_eq [update_eqs]: "update_S3CatalogHudiSource lib = create_S3CatalogHudiSource lib"
  by (simp add: fun_eq_iff update_S3CatalogHudiSource_def create_S3CatalogHudiSource_def update_GlueSchema_eq)

lemma update_S3CatalogSource_eq [update_eqs]: "update_S3CatalogSource = create_S3CatalogSource"
  by (simp add: fun_eq_iff update_S3CatalogSource_def create_S3CatalogSource_def update_S3SourceAdditionalOptions_eq)

lemma update_S3CatalogTarget_eq [update_eqs]: "update_S3CatalogTarget lib = create_S3CatalogTarget lib"
  by (simp add: fun_eq_iff update_S3CatalogTarget_def create_S3CatalogTarget_def update_CatalogSchemaChangePolicy_eq)

lemma update_S3DirectSourceAdditionalOptions_eq [update_eqs]: "update_S3DirectSourceAdditionalOptions = create_S3DirectSourceAdditionalOptions"
  by (simp add: fun_eq_iff update_S3DirectSourceAdditionalOptions_def create_S3DirectSourceAdditionalOptions_def)

lemma update_S3CsvSource_eq [update_eqs]: "update_S3CsvSource lib = create_S3CsvSource lib"
  by (simp add: fun_eq_iff update_S3CsvSource_def create_S3CsvSource_def update_GlueSchema_eq update_S3DirectSourceAdditionalOptions_eq)

lemma update_S3DeltaCatalogTarget_eq [update_eqs]: "update_S3DeltaCatalogTarget lib = create_S3DeltaCatalogTarget lib"
  by (simp add: fun_eq_iff update_S3DeltaCatalogTarget_def create_S3DeltaCatalogTarget_def update_CatalogSchemaChangePolicy_eq)

lemma update_DirectSchemaChangePolicy_eq [update_eqs]: "update_DirectSchemaChangePolicy = create_DirectSchemaChangePolicy"
  by (simp add: fun_eq_iff update_DirectSchemaChangePolicy_def create_DirectSchemaChangePolicy_def)

lemma update_S3DeltaDirectTarget_eq [update_eqs]: "update_S3DeltaDirectTarget lib = create_S3DeltaDirectTarget lib"
  by (simp add: fun_eq_iff update_S3DeltaDirectTarget_def create_S3DeltaDirectTarget_def update_DirectSchemaChangePolicy_eq)

lemma update_S3DeltaSource_eq [update_eqs]: "update_S3DeltaSource lib = create_S3DeltaSource lib"
  by (simp add: fun_eq_iff update_S3DeltaSource_def create_S3DeltaSource_def update_GlueSchema_eq update_S3DirectSourceAdditionalOptions_eq)

lemma update_S3DirectTarget_eq [update_eqs]: "update_S3DirectTarget lib = create_S3DirectTarget lib"
  by (simp add: fun_eq_iff update_S3DirectTarget_def create_S3DirectTarget_def update_DirectSchemaChangePolicy_eq)

lemma update_S3GlueParquetTarget_eq [update_eqs]: "update_S3GlueParquetTarget lib = create_S3GlueParquetTarget lib"
  by (simp add: fun_eq_iff update_S3GlueParquetTarget_def create_S3GlueParquetTarget_def update_DirectSchemaChangePolicy_eq)

lemma update_S3HudiCatalogTarget_eq [update_eqs]: "update_S3HudiCatalogTarget lib = create_S3HudiCatalogTarget lib"
  by (simp add: fun_eq_iff update_S3HudiCatalogTarget_def create_S3HudiCatalogTarget_def update_CatalogSchemaChangePolicy_eq)

lemma update_S3HudiDirectTarget_eq [update_eqs]: "update_S3HudiDirectTarget lib = create_S3HudiDirectTarget lib"
  by (simp add: fun_eq_iff update_S3HudiDirectTarget_def create_S3HudiDirectTarget_def update_DirectSchemaChangePolicy_eq)

lemma update_S3HudiSource_eq [update_eqs]: "update_S3HudiSource lib = create_S3HudiSource lib"
  by (simp add: fun_eq_iff update_S3HudiSource_def create_S3HudiSource_def update_GlueSchema_eq update_S3DirectSourceAdditionalOptions_eq)

lemma update_S3JSONSource_eq [update_eqs]: "update_S3JSONSource lib = create_S3JSONSource lib"
  by (simp add: fun_eq_iff update_S3JSONSource_def create_S3JSONSource_def update_GlueSchema_eq update_S3DirectSourceAdditionalOptions_eq)

lemma update_S3ParquetSource_eq [update_eqs]: "update_S3ParquetSource lib = create_S3ParquetSource lib"
  by (simp add: fun_eq_iff update_S3ParquetSource_def create_S3ParquetSource_def update_GlueSchema_eq update_S3DirectSourceAdditionalOptions_eq)

lemma update_SelectFields_eq [update_eqs]: "update_SelectFields lib = create_SelectFields lib"
  by (simp add: fun_eq_iff update_SelectFields_def create_SelectFields_def)

lemma update_SelectFromCollection_eq [update_eqs]: "update_SelectFromCollection lib = create_SelectFromCollection lib"
  by (simp add: fun_eq_iff update_SelectFromCollection_def create_SelectFromCollection_def)

lemma update_SnowflakeNodeData_eq [update_eqs]: "update_SnowflakeNodeData lib = create_SnowflakeNodeData lib"
  by (simp add: fun_eq_iff update_SnowflakeNodeData_def create_SnowflakeNodeData_def update_Option_eq)

lemma update_SnowflakeSource_eq [update_eqs]: "update_SnowflakeSource lib = create_SnowflakeSource lib"
  by (simp add: fun_eq_iff update_SnowflakeSource_def create_SnowflakeSource_def update_GlueSchema_eq update_SnowflakeNodeData_eq)

lemma update_SnowflakeTarget_eq [update_eqs]: "update_SnowflakeTarget lib = create_SnowflakeTarget lib"
  by (simp add: fun_eq_iff update_SnowflakeTarget_def create_SnowflakeTarget_def update_SnowflakeNodeData_eq)

lemma update_SparkConnectorSource_eq [update_eqs]: "update_SparkConnectorSource lib = create_SparkConnectorSource lib"
  by (simp add: fun_eq_iff update_SparkConnectorSource_def create_SparkConnectorSource_def update_GlueSchema_eq)

lemma update_SparkConnectorTarget_eq [update_eqs]: "update_SparkConnectorTarget lib = create_SparkConnectorTarget lib"
  by (simp add: fun_eq_iff update_SparkConnectorTarget_def create_SparkConnectorTarget_def update_GlueSchema_eq)

lemma update_SQLAlias_eq [update_eqs]: "update_SQLAlias = create_SQLAlias"
  by (simp add: fun_eq_iff update_SQLAlias_def create_SQLAlias_def)

lemma update_SparkSQL_eq [update_eqs]: "update_SparkSQL lib = create_SparkSQL lib"
  by (simp add: fun_eq_iff update_SparkSQL_def create_SparkSQL_def update_GlueSchema_eq update_SQLAlias_eq)

lemma update_Spigot_eq [update_eqs]: "update_Spigot lib = create_Spigot lib"
  by (simp add: fun_eq_iff update_Spigot_def create_Spigot_def)

lemma update_SplitFields_eq [update_eqs]: "update_SplitFields lib = create_SplitFields lib"
  by (simp add: fun_eq_iff update_SplitFields_def create_SplitFields_def)

lemma update_Union_eq [update_eqs]: "update_Union lib = create_Union lib"
  by (simp add: fun_eq_iff update_Union_def create_Union_def)

lemma update_CodeGenConfigurationNode_eq [update_eqs]: "update_CodeGenConfigurationNode lib ord = create_CodeGenConfigurationNode lib ord"
  by (simp add: fun_eq_iff update_CodeGenConfigurationNode_def create_CodeGenConfigurationNode_def update_Aggregate_eq update_AmazonRedshiftSource_eq update_AmazonRedshiftTarget_eq update_ApplyMapping_eq update_AthenaConnectorSource_eq update_CatalogDeltaSource_eq update_CatalogHudiSource_eq update_CatalogKafkaSource_eq update_CatalogKinesisSource_eq update_CatalogSource_eq update_BasicCatalogTarget_eq update_ConnectorDataSource_eq update_ConnectorDataTarget_eq update_CustomCode_eq update_DirectJDBCSource_eq update_DirectKafkaSource_eq update_DirectKinesisSource_eq update_DropDuplicates_eq update_DropFields_eq update_DropNullFields_eq update_DynamicTransform_eq update_DynamoDBCatalogSource_eq update_EvaluateDataQuality_eq update_EvaluateDataQualityMultiFrame_eq update_FillMissingValues_eq update_Filter_eq update_GovernedCatalogSource_eq update_GovernedCatalogTarget_eq update_JDBCConnectorSource_eq update_JDBCConnectorTarget_eq update_Join_eq update_Merge_eq update_MicrosoftSQLServerCatalogSource_eq update_MicrosoftSQLServerCatalogTarget_eq update_MySQLCatalogSource_eq update_MySQLCatalogTarget_eq update_OracleSQLCatalogSource_eq update_OracleSQLCatalogTarget_eq update_PIIDetection_eq update_PostgreSQLCatalogSource_eq update_PostgreSQLCatalogTarget_eq update_Recipe_eq update_RedshiftSource_eq update_RedshiftTarget_eq update_RelationalCatalogSource_eq update_RenameField_eq update_S3CatalogDeltaSource_eq update_S3CatalogHudiSource_eq update_S3CatalogSource_eq update_S3CatalogTarget_eq update_S3CsvSource_eq update_S3DeltaCatalogTarget_eq update_S3DeltaDirectTarget_eq update_S3DeltaSource_eq update_S3DirectTarget_eq update_S3GlueParquetTarget_eq update_S3HudiCatalogTarget_eq update_S3HudiDirectTarget_eq update_S3HudiSource_eq update_S3JSONSource_eq update_S3ParquetSource_eq update_SelectFields_eq update_SelectFromCollection_eq update_SnowflakeSource_eq update_SnowflakeTarget_eq update_SparkConnectorSource_eq update_SparkConnectorTarget_eq update_SparkSQL_eq update_Spigot_eq update_SplitFields_eq update_Union_eq)

lemma update_JobCommand_eq [update_eqs]: "update_JobCommand = create_JobCommand"
  by (simp add: fun_eq_iff update_JobCommand_def create_JobCommand_def)

lemma update_ConnectionsList_eq [update_eqs]: "update_ConnectionsList lib = create_ConnectionsList lib"
  by (simp add: fun_eq_iff update_ConnectionsList_def create_ConnectionsList_def)

lemma update_ExecutionProperty_eq [update_eqs]: "update_ExecutionProperty lib = create_ExecutionProperty lib"
  by (simp add: fun_eq_iff update_ExecutionProperty_def create_ExecutionProperty_def)

lemma update_NotificationProperty_eq [update_eqs]: "update_NotificationProperty lib = create_NotificationProperty lib"
  by (simp add: fun_eq_iff update_NotificationProperty_def create_NotificationProperty_def)

lemma update_SourceControlDetails_eq [update_eqs]: "update_SourceControlDetails = create_SourceControlDetails"
  by (simp add: fun_eq_iff update_SourceControlDetails_def create_SourceControlDetails_def)

text \<open>The order in which the maps are visited does not change what a conversion returns.\<close>

lemma agree_JDBCConnectorOptions: "agree (create_JDBCConnectorOptions lib ord x) (create_JDBCConnectorOptions lib ord' x)"
  unfolding create_JDBCConnectorOptions_def
  by (intro agree_and_then agree_when_set agree_range_traverse agree_refl)

lemma agree_JDBCConnectorSource: "agree (create_JDBCConnectorSource lib ord x) (create_JDBCConnectorSource lib ord' x)"
  unfolding create_JDBCConnectorSource_def
  by (intro agree_and_then agree_when_set agree_JDBCConnectorOptions agree_refl)

lemma agree_CodeGenConfigurationNode:
  "agree (create_CodeGenConfigurationNode lib ord x) (create_CodeGenConfigurationNode lib ord' x)"
  unfolding create_CodeGenConfigurationNode_def
  by ((rule agree_and_then, (rule agree_refl | rule agree_when_set, rule agree_JDBCConnectorSource))+)
    (rule agree_refl)

lemma agree_map_write:
  "(\<And>x. agree (to x) (to' x)) \<Longrightarrow> agree (map_write ord to m) (map_write ord' to' m)"
  unfolding map_write_def
  by (intro agree_when_set agree_range_traverse agree_and_then agree_refl) simp

end
