(* ===== verification/Job_Sdk.thy ===== *)
theory Job_Sdk
  imports Job_Delta Job_Node_Codec Ack_Status
begin

text \<open>
  pkg/resource/job/sdk.go and hooks.go: the calls to Glue's Job API, on top of the conversions of
  Job_Node_Read, Job_Node_Create and Job_Node_Update. As for databases, each \<open>sdk\<close> method takes the
  resource's \<open>ko\<close> and the state of the account and returns the new state with the pair of results,
  or a panic.
\<close>

section \<open>hooks.go\<close>

definition getTags_job ::
  "('e, 'w) resourceManager_job \<Rightarrow> map_order \<Rightarrow> string \<Rightarrow> ('e, 'w) env \<Rightarrow>
     ('e, 'w) env \<times> ('e + string ptr gomap)" where
  "getTags_job rm ord resourceARN s = GetResourceTags (api_tags (sdkapi rm)) ord resourceARN s"

definition syncTags_job ::
  "'e golib \<Rightarrow> ('e, 'w) resourceManager_job \<Rightarrow> map_order \<Rightarrow> Job \<Rightarrow> Job \<Rightarrow>
     ('e, 'w) env \<Rightarrow> ('e, 'w) env \<times> ('e, 'e option) outcome" where
  "syncTags_job lib rm ord desired latest s =
     (case and_then (deref (ACKResourceMetadata (Job.Status latest))) (\<lambda>md. deref (ARN md)) of
        Inl stop \<Rightarrow> (s, Inl stop)
      | Inr arn \<Rightarrow>
          (let (s, err) = SyncResourceTags lib (api_tags (sdkapi rm)) ord arn
                 (JobSpec.Tags (Spec desired)) (JobSpec.Tags (Spec latest))
                 (convertToOrderedACKTags_job ord) s
           in (s, Inr err)))"

definition jobARN :: "Job \<Rightarrow> ('e, string) outcome" where
  "jobARN job =
     and_then (deref (ACKResourceMetadata (Job.Status job))) (\<lambda>md.
     and_then (deref (ResourceMetadata.Region md)) (\<lambda>region.
     and_then (deref (OwnerAccountID md)) (\<lambda>account.
     and_then (deref (JobSpec.Name (Spec job))) (\<lambda>name.
       Inr (''arn:aws:glue:'' @ region @ '':'' @ account @ '':job/'' @ name)))))"

section \<open>Defaults and conditions of the resource\<close>

definition setStatusDefaults_job :: "('e, 'w) resourceManager_job \<Rightarrow> Job \<Rightarrow> Job" where
  "setStatusDefaults_job rm ko =
     ko\<lparr>Job.Status := status_defaults (awsRegion rm) (awsPartition rm) (awsAccountID rm) (Job.Status ko)\<rparr>"

definition updateConditions_job ::
  "'e golib \<Rightarrow> ('e, 'w) resourceManager_job \<Rightarrow> Job \<Rightarrow> 'e option \<Rightarrow> ('e, Job option) outcome" where
  "updateConditions_job lib rm r_ko err =
     (let ko = setStatusDefaults_job rm r_ko
      in and_then (update_conditions lib err (condition_ptrs (Job.Status ko)))
           (\<lambda>(cs, updated). Inr (if updated
              then Some (ko\<lparr>Job.Status := (Job.Status ko)\<lparr>Conditions := Some cs\<rparr>\<rparr>) else None)))"

section \<open>Reading\<close>

definition requiredFieldsMissingFromReadOneInput_job :: "Job \<Rightarrow> bool" where
  "requiredFieldsMissingFromReadOneInput_job r_ko \<longleftrightarrow> JobSpec.Name (Spec r_ko) = None"

definition newDescribeRequestPayload_job :: "Job \<Rightarrow> sdk_JobKey" where
  "newDescribeRequestPayload_job r_ko = \<lparr>sdk_JobKey.JobName = JobSpec.Name (Spec r_ko)\<rparr>"

definition read_JobSpec :: "'e golib \<Rightarrow> map_order \<Rightarrow> sdk_Job \<Rightarrow> JobSpec \<Rightarrow> JobSpec" where
  "read_JobSpec lib ord resp spec =
     spec\<lparr>JobSpec.CodeGenConfigurationNodes := map_read ord (read_CodeGenConfigurationNode lib ord) (sdk_Job.CodeGenConfigurationNodes resp),
      JobSpec.Command := map_option read_JobCommand (sdk_Job.Command resp),
      JobSpec.Connections := map_option (read_ConnectionsList lib) (sdk_Job.Connections resp),
      JobSpec.DefaultArguments := map_option (aws_StringMap lib) (sdk_Job.DefaultArguments resp),
      JobSpec.Description := sdk_Job.Description resp,
      JobSpec.ExecutionClass := enum_read lib (sdk_Job.ExecutionClass resp),
      JobSpec.ExecutionProperty := map_option read_ExecutionProperty (sdk_Job.ExecutionProperty resp),
      JobSpec.GlueVersion := sdk_Job.GlueVersion resp,
      JobSpec.JobMode := enum_read lib (sdk_Job.JobMode resp),
      JobSpec.JobRunQueuingEnabled := sdk_Job.JobRunQueuingEnabled resp,
      JobSpec.LogURI := sdk_Job.LogUri resp,
      JobSpec.MaintenanceWindow := sdk_Job.MaintenanceWindow resp,
      JobSpec.MaxCapacity := sdk_Job.MaxCapacity resp,
      JobSpec.MaxRetries := int32_addr (sdk_Job.MaxRetries resp),
      JobSpec.Name := sdk_Job.Name resp,
      JobSpec.NonOverridableArguments := map_option (aws_StringMap lib) (sdk_Job.NonOverridableArguments resp),
      JobSpec.NotificationProperty := map_option read_NotificationProperty (sdk_Job.NotificationProperty resp),
      JobSpec.NumberOfWorkers := int32_read (sdk_Job.NumberOfWorkers resp),
      JobSpec.Role := sdk_Job.Role resp,
      JobSpec.SecurityConfiguration := sdk_Job.SecurityConfiguration resp,
      JobSpec.SourceControlDetails := map_option (read_SourceControlDetails lib) (sdk_Job.SourceControlDetails resp),
      JobSpec.Timeout := int32_read (sdk_Job.Timeout resp),
      JobSpec.WorkerType := enum_read lib (sdk_Job.WorkerType resp)\<rparr>"

text \<open>The metadata is not nil after setStatusDefaults; a nil one would panic in jobARN already.\<close>

definition set_arn_job :: "string \<Rightarrow> Job \<Rightarrow> Job" where
  "set_arn_job arn ko =
     ko\<lparr>Job.Status := (Job.Status ko)\<lparr>ACKResourceMetadata :=
        map_option (\<lambda>md. md\<lparr>ARN := Some arn\<rparr>) (ACKResourceMetadata (Job.Status ko))\<rparr>\<rparr>"

text \<open>
  The error of getTags is assigned to the named result \<open>err\<close>, and the return statement that follows
  sets \<open>err\<close> to nil: the tags are then the nil map getTags returned.
\<close>

definition sdkFind_job ::
  "'e golib \<Rightarrow> ('e, 'w) resourceManager_job \<Rightarrow> map_order \<Rightarrow> Job \<Rightarrow> ('e, 'w) env \<Rightarrow>
     ('e, 'w) env \<times> ('e, Job) returned" where
  "sdkFind_job lib rm ord r_ko s =
     (if requiredFieldsMissingFromReadOneInput_job r_ko
      then (s, Inr (None, Some (ackerr_NotFound lib)))
      else
        (let input = newDescribeRequestPayload_job r_ko;
             (s, resp) = invoke (api_GetJob (sdkapi rm) input) s;
             s = RecordAPICall ''READ_ONE'' ''GetJob'' (err_of resp) s
         in case resp of
              Inl err \<Rightarrow>
                (s, Inr (None, Some
                   (if errors_As_APIError lib err = Some ''EntityNotFoundException''
                    then ackerr_NotFound lib else err)))
            | Inr out \<Rightarrow>
                proceed s (deref out) (\<lambda>resp_Job.
                  let ko = r_ko\<lparr>Spec := read_JobSpec lib ord resp_Job (Spec r_ko)\<rparr>;
                      ko = setStatusDefaults_job rm ko
                  in proceed s (jobARN ko) (\<lambda>arn.
                       let ko = set_arn_job arn ko;
                           (s, tags) = getTags_job rm ord arn s;
                           ko = ko\<lparr>Spec := (Spec ko)\<lparr>JobSpec.Tags :=
                             (case tags of Inl err \<Rightarrow> None | Inr t \<Rightarrow> Some t)\<rparr>\<rparr>
                       in (s, Inr (Some ko, None))))))"

section \<open>Creating\<close>

definition newCreateRequestPayload_job ::
  "'e golib \<Rightarrow> map_order \<Rightarrow> JobSpec \<Rightarrow> ('e, sdk_CreateJobInput) outcome" where
  "newCreateRequestPayload_job lib ord spec =
     and_then (map_write ord (create_CodeGenConfigurationNode lib ord) (JobSpec.CodeGenConfigurationNodes spec)) (\<lambda>f0.
     and_then (when_set create_JobCommand (JobSpec.Command spec)) (\<lambda>f1.
     and_then (when_set (create_ConnectionsList lib) (JobSpec.Connections spec)) (\<lambda>f2.
     and_then (when_set (create_ExecutionProperty lib) (JobSpec.ExecutionProperty spec)) (\<lambda>f3.
     and_then (int32_write lib ''error: field MaxRetries is of type int32'' (JobSpec.MaxRetries spec)) (\<lambda>f4.
     and_then (when_set (create_NotificationProperty lib) (JobSpec.NotificationProperty spec)) (\<lambda>f5.
     and_then (int32_write_ptr lib ''error: field NumberOfWorkers is of type int32'' (JobSpec.NumberOfWorkers spec)) (\<lambda>f6.
     and_then (when_set create_SourceControlDetails (JobSpec.SourceControlDetails spec)) (\<lambda>f7.
     and_then (int32_write_ptr lib ''error: field Timeout is of type int32'' (JobSpec.Timeout spec)) (\<lambda>f8.
       Inr \<lparr>sdk_CreateJobInput.AllocatedCapacity = 0,
            sdk_CreateJobInput.CodeGenConfigurationNodes = f0,
            sdk_CreateJobInput.Command = f1,
            sdk_CreateJobInput.Connections = f2,
            sdk_CreateJobInput.DefaultArguments = map_option (aws_ToStringMap lib) (JobSpec.DefaultArguments spec),
            sdk_CreateJobInput.Description = JobSpec.Description spec,
            sdk_CreateJobInput.ExecutionClass = or_zero '''' (JobSpec.ExecutionClass spec),
            sdk_CreateJobInput.ExecutionProperty = f3,
            sdk_CreateJobInput.GlueVersion = JobSpec.GlueVersion spec,
            sdk_CreateJobInput.JobMode = or_zero '''' (JobSpec.JobMode spec),
            sdk_CreateJobInput.JobRunQueuingEnabled = JobSpec.JobRunQueuingEnabled spec,
            sdk_CreateJobInput.LogUri = JobSpec.LogURI spec,
            sdk_CreateJobInput.MaintenanceWindow = JobSpec.MaintenanceWindow spec,
            sdk_CreateJobInput.MaxCapacity = JobSpec.MaxCapacity spec,
            sdk_CreateJobInput.MaxRetries = f4,
            sdk_CreateJobInput.Name = JobSpec.Name spec,
            sdk_CreateJobInput.NonOverridableArguments = map_option (aws_ToStringMap lib) (JobSpec.NonOverridableArguments spec),
            sdk_CreateJobInput.NotificationProperty = f5,
            sdk_CreateJobInput.NumberOfWorkers = f6,
            sdk_CreateJobInput.Role = JobSpec.Role spec,
            sdk_CreateJobInput.SecurityConfiguration = JobSpec.SecurityConfiguration spec,
            sdk_CreateJobInput.SourceControlDetails = f7,
            sdk_CreateJobInput.Tags = map_option (aws_ToStringMap lib) (JobSpec.Tags spec),
            sdk_CreateJobInput.Timeout = f8,
            sdk_CreateJobInput.WorkerType = or_zero '''' (JobSpec.WorkerType spec)\<rparr>)))))))))"

definition post_create_job ::
  "'e golib \<Rightarrow> Job \<Rightarrow> ('e, Job) returned \<Rightarrow> ('e, Job) returned" where
  "post_create_job lib ko result = and_then result (\<lambda>(created, err). Inr (case err of
       None \<Rightarrow> (created, None)
     | Some e \<Rightarrow>
         (case created of None \<Rightarrow> Some ko | Some r \<Rightarrow> Some r, Some (ackerr_WrapPostCreateError lib e))))"

definition sdkCreate_job ::
  "'e golib \<Rightarrow> ('e, 'w) resourceManager_job \<Rightarrow> map_order \<Rightarrow> Job \<Rightarrow> ('e, 'w) env \<Rightarrow>
     ('e, 'w) env \<times> ('e, Job) returned" where
  "sdkCreate_job lib rm ord desired s =
     proceed s (newCreateRequestPayload_job lib ord (Spec desired)) (\<lambda>input.
       let (s, resp) = invoke (api_CreateJob (sdkapi rm) input) s;
           s = RecordAPICall ''CREATE'' ''CreateJob'' (err_of resp) s
       in case resp of
            Inl err \<Rightarrow> (s, Inr (None, Some err))
          | Inr name \<Rightarrow>
              (let ko = desired\<lparr>Spec := (Spec desired)\<lparr>JobSpec.Name := name\<rparr>\<rparr>;
                   ko = setStatusDefaults_job rm ko
               in (s, post_create_job lib ko (Inr (Some ko, None)))))"

section \<open>Updating\<close>

definition newUpdateRequestPayload_job :: "Job \<Rightarrow> sdk_UpdateJobInput" where
  "newUpdateRequestPayload_job r_ko =
     \<lparr>sdk_UpdateJobInput.JobName = JobSpec.Name (Spec r_ko), sdk_UpdateJobInput.JobUpdate = None\<rparr>"

text \<open>The JobUpdate of newJobUpdate, and newJobUpdate, which stores it in the request.\<close>

definition job_update ::
  "'e golib \<Rightarrow> map_order \<Rightarrow> JobSpec \<Rightarrow> ('e, sdk_JobUpdate) outcome" where
  "job_update lib ord spec =
     and_then (map_write ord (update_CodeGenConfigurationNode lib ord) (JobSpec.CodeGenConfigurationNodes spec)) (\<lambda>f0.
     and_then (when_set update_JobCommand (JobSpec.Command spec)) (\<lambda>f1.
     and_then (when_set (update_ConnectionsList lib) (JobSpec.Connections spec)) (\<lambda>f2.
     and_then (when_set (update_ExecutionProperty lib) (JobSpec.ExecutionProperty spec)) (\<lambda>f3.
     and_then (int32_write lib ''error: field MaxRetries is of type int32'' (JobSpec.MaxRetries spec)) (\<lambda>f4.
     and_then (when_set (update_NotificationProperty lib) (JobSpec.NotificationProperty spec)) (\<lambda>f5.
     and_then (int32_write_ptr lib ''error: field NumberOfWorkers is of type int32'' (JobSpec.NumberOfWorkers spec)) (\<lambda>f6.
     and_then (when_set update_SourceControlDetails (JobSpec.SourceControlDetails spec)) (\<lambda>f7.
     and_then (int32_write_ptr lib ''error: field Timeout is of type int32'' (JobSpec.Timeout spec)) (\<lambda>f8.
       Inr \<lparr>sdk_JobUpdate.AllocatedCapacity = 0,
            sdk_JobUpdate.CodeGenConfigurationNodes = f0,
            sdk_JobUpdate.Command = f1,
            sdk_JobUpdate.Connections = f2,
            sdk_JobUpdate.DefaultArguments = map_option (aws_ToStringMap lib) (JobSpec.DefaultArguments spec),
            sdk_JobUpdate.Description = JobSpec.Description spec,
            sdk_JobUpdate.ExecutionClass = or_zero '''' (JobSpec.ExecutionClass spec),
            sdk_JobUpdate.ExecutionProperty = f3,
            sdk_JobUpdate.GlueVersion = JobSpec.GlueVersion spec,
            sdk_JobUpdate.JobMode = or_zero '''' (JobSpec.JobMode spec),
            sdk_JobUpdate.JobRunQueuingEnabled = JobSpec.JobRunQueuingEnabled spec,
            sdk_JobUpdate.LogUri = JobSpec.LogURI spec,
            sdk_JobUpdate.MaintenanceWindow = JobSpec.MaintenanceWindow spec,
            sdk_JobUpdate.MaxCapacity = JobSpec.MaxCapacity spec,
            sdk_JobUpdate.MaxRetries = f4,
            sdk_JobUpdate.NonOverridableArguments = map_option (aws_ToStringMap lib) (JobSpec.NonOverridableArguments spec),
            sdk_JobUpdate.NotificationProperty = f5,
            sdk_JobUpdate.NumberOfWorkers = f6,
            sdk_JobUpdate.Role = JobSpec.Role spec,
            sdk_JobUpdate.SecurityConfiguration = JobSpec.SecurityConfiguration spec,
            sdk_JobUpdate.SourceControlDetails = f7,
            sdk_JobUpdate.Timeout = f8,
            sdk_JobUpdate.WorkerType = or_zero '''' (JobSpec.WorkerType spec)\<rparr>)))))))))"

definition newJobUpdate ::
  "'e golib \<Rightarrow> map_order \<Rightarrow> Job \<Rightarrow> sdk_UpdateJobInput \<Rightarrow> ('e, sdk_UpdateJobInput) outcome" where
  "newJobUpdate lib ord r_ko res =
     and_then (job_update lib ord (Spec r_ko)) (\<lambda>u.
       Inr (res\<lparr>sdk_UpdateJobInput.JobUpdate := Some u\<rparr>))"

definition sdkUpdate_job ::
  "'e golib \<Rightarrow> (job_value, 'd) cmplib \<Rightarrow> ('e, 'w) resourceManager_job \<Rightarrow> map_order \<Rightarrow>
     Job \<Rightarrow> Job \<Rightarrow> 'd \<Rightarrow> ('e, 'w) env \<Rightarrow> ('e, 'w) env \<times> ('e, Job) returned" where
  "sdkUpdate_job lib cmp rm ord desired latest delta s =
     (let (s, synced) =
            (if DifferentAt cmp delta ''Spec.Tags'' then syncTags_job lib rm ord desired latest s
             else (s, Inr None))
      in proceed s synced (\<lambda>err.
        if err \<noteq> None then (s, Inr (None, err))
        else if \<not> DifferentExcept cmp delta ''Spec.Tags'' then (s, Inr (Some desired, None))
        else proceed s (newJobUpdate lib ord desired (newUpdateRequestPayload_job desired)) (\<lambda>input.
          let (s, resp) = invoke (api_UpdateJob (sdkapi rm) input) s;
              s = RecordAPICall ''UPDATE'' ''UpdateJob'' (err_of resp) s
          in case resp of
               Inl err \<Rightarrow> (s, Inr (None, Some err))
             | Inr name \<Rightarrow>
                 (let ko = desired\<lparr>Spec := (Spec desired)\<lparr>JobSpec.Name := name\<rparr>\<rparr>
                  in (s, Inr (Some (setStatusDefaults_job rm ko), None))))))"

section \<open>Deleting\<close>

definition newDeleteRequestPayload_job :: "Job \<Rightarrow> sdk_JobKey" where
  "newDeleteRequestPayload_job r_ko = \<lparr>sdk_JobKey.JobName = JobSpec.Name (Spec r_ko)\<rparr>"

definition sdkDelete_job ::
  "('e, 'w) resourceManager_job \<Rightarrow> Job \<Rightarrow> ('e, 'w) env \<Rightarrow> ('e, 'w) env \<times> ('e, Job) returned" where
  "sdkDelete_job rm r_ko s =
     (let input = newDeleteRequestPayload_job r_ko;
          (s, err) = invoke (api_DeleteJob (sdkapi rm) input) s;
          s = RecordAPICall ''DELETE'' ''DeleteJob'' err s
      in (s, Inr (None, err)))"

end
