(* ===== verification/Job_Manager.thy ===== *)
theory Job_Manager
  imports Job_Sdk
begin

text \<open>
  pkg/resource/job/manager.go: the operations the reconciler calls. No field of a job is late
  initialized, so LateInitialize returns at once; the rest of it is generated as for databases. A resource is a pointer to
  its \<open>ko\<close>; an operation that writes to the resource it is given returns the new resource first.
  The AWSResource interface values the reconciler passes always hold this package's resource type,
  so concreteResource is the identity.
\<close>

section \<open>Results\<close>

definition onError_job ::
  "'e golib \<Rightarrow> ('e, 'w) resourceManager_job \<Rightarrow> Job option \<Rightarrow> 'e \<Rightarrow>
     ('e, Job) returned" where
  "onError_job lib rm r err =
     (case r of
        None \<Rightarrow> Inr (None, Some err)
      | Some r_ko \<Rightarrow>
          and_then (updateConditions_job lib rm r_ko (Some err)) (\<lambda>r1. case r1 of
              None \<Rightarrow> Inr (Some r_ko, Some err)
            | Some r1_ko \<Rightarrow>
                and_then (any_condition is_terminal (condition_ptrs (Job.Status r1_ko))) (\<lambda>terminal.
                  if terminal then Inr (Some r1_ko, Some (ackerr_Terminal lib))
                  else Inr (Some r1_ko, Some err))))"

definition onSuccess_job ::
  "'e golib \<Rightarrow> ('e, 'w) resourceManager_job \<Rightarrow> Job option \<Rightarrow> ('e, Job) returned" where
  "onSuccess_job lib rm r =
     (case r of
        None \<Rightarrow> Inr (None, None)
      | Some r_ko \<Rightarrow>
          and_then (updateConditions_job lib rm r_ko None) (\<lambda>r1. Inr (case r1 of
              None \<Rightarrow> (Some r_ko, None)
            | Some r1_ko \<Rightarrow> (Some r1_ko, None))))"

text \<open>
  The tail of ReadOne, Create, Update and Delete: conditions on the resource an sdk method returned
  with its error, on the one passed in when it returned none.
\<close>

definition finish_job ::
  "'e golib \<Rightarrow> ('e, 'w) resourceManager_job \<Rightarrow> Job \<Rightarrow> ('e, Job) returned \<Rightarrow>
     ('e, Job) returned" where
  "finish_job lib rm r result =
     and_then result (\<lambda>(observed, err).
       case err of
         Some e \<Rightarrow> onError_job lib rm (case observed of Some o_ko \<Rightarrow> Some o_ko | None \<Rightarrow> Some r) e
       | None \<Rightarrow> onSuccess_job lib rm observed)"

section \<open>Tags of a resource\<close>

definition mirrorAWSTags_job ::
  "map_order \<Rightarrow> Job option \<Rightarrow> Job option \<Rightarrow> Job option" where
  "mirrorAWSTags_job ord a b =
     (case (a, b) of
        (Some a_ko, Some b_ko) \<Rightarrow>
          (let existingDesiredTags = JobSpec.Tags (Spec a_ko);
               existingLatestTags = JobSpec.Tags (Spec b_ko);
               (desiredTags, desiredTagKeyOrder) =
                 convertToOrderedACKTags_job ord existingDesiredTags;
               (latestTags, _) = convertToOrderedACKTags_job ord existingLatestTags;
               desiredTags = syncAWSTags_job ord desiredTags latestTags
           in Some (a_ko\<lparr>Spec := (Spec a_ko)\<lparr>JobSpec.Tags :=
                Some (fromACKTags_job ord desiredTags desiredTagKeyOrder)\<rparr>\<rparr>))
      | _ \<Rightarrow> a)"

lemma mirrorAWSTags_job_eq:
  "mirrorAWSTags_job ord a b = (case (a, b) of
     (Some a_ko, Some b_ko) \<Rightarrow> Some (a_ko\<lparr>Spec := (Spec a_ko)\<lparr>JobSpec.Tags := Some
       (fromACKTags_job ord (syncAWSTags_job ord
          (fst (convertToOrderedACKTags_job ord (JobSpec.Tags (Spec a_ko))))
          (fst (convertToOrderedACKTags_job ord (JobSpec.Tags (Spec b_ko)))))
        (snd (convertToOrderedACKTags_job ord (JobSpec.Tags (Spec a_ko)))))\<rparr>\<rparr>)
   | _ \<Rightarrow> a)"
  by (simp add: mirrorAWSTags_job_def case_prod_beta Let_def split: option.split)

text \<open>\<open>getDefaultTags\<close> is \<open>ackrt.GetDefaultTags\<close> for the configuration and the service metadata.\<close>

definition EnsureTags_job ::
  "'e golib \<Rightarrow> map_order \<Rightarrow> (Job \<Rightarrow> tags) \<Rightarrow> Job ptr \<Rightarrow>
     ('e, Job \<times> 'e option) outcome" where
  "EnsureTags_job lib ord getDefaultTags r =
     and_then (deref r) (\<lambda>r_ko.
       let defaultTags = getDefaultTags r_ko;
           existingTags = JobSpec.Tags (Spec r_ko);
           (resourceTags, keyOrder) = convertToOrderedACKTags_job ord existingTags;
           tags = acktags_Merge lib resourceTags defaultTags
       in Inr (r_ko\<lparr>Spec := (Spec r_ko)\<lparr>JobSpec.Tags :=
            Some (fromACKTags_job ord tags keyOrder)\<rparr>\<rparr>, None))"

definition FilterSystemTags_job ::
  "map_order \<Rightarrow> Job ptr \<Rightarrow> string list \<Rightarrow> Job ptr" where
  "FilterSystemTags_job ord r systemTags =
     (case r of
        None \<Rightarrow> None
      | Some r_ko \<Rightarrow>
          (let existingTags = JobSpec.Tags (Spec r_ko);
               (resourceTags, tagKeyOrder) = convertToOrderedACKTags_job ord existingTags;
               resourceTags = ignoreSystemTags_job ord resourceTags systemTags
           in Some (r_ko\<lparr>Spec := (Spec r_ko)\<lparr>JobSpec.Tags :=
                Some (fromACKTags_job ord resourceTags tagKeyOrder)\<rparr>\<rparr>)))"

section \<open>The operations\<close>

text \<open>The resource passed in as ReadOne leaves it, and what ReadOne returns.\<close>

definition ReadOne_job ::
  "'e golib \<Rightarrow> ('e, 'w) resourceManager_job \<Rightarrow> map_order \<Rightarrow> Job ptr \<Rightarrow> ('e, 'w) env \<Rightarrow>
     ('e, 'w) env \<times> ('e, Job \<times> (Job option \<times> 'e option)) outcome" where
  "ReadOne_job lib rm ord r s =
     (case r of
        None \<Rightarrow> (s, Inl GoPanic)
      | Some r_ko \<Rightarrow>
          (let (s, found) = sdkFind_job lib rm ord r_ko s
           in (s, and_then found (\<lambda>(observed, err).
                (case mirrorAWSTags_job ord (Some r_ko) observed of
                   None \<Rightarrow> Inl GoPanic
                 | Some r_ko \<Rightarrow>
                     and_then (finish_job lib rm r_ko (Inr (observed, err))) (\<lambda>result.
                       Inr (r_ko, result)))))))"

definition Create_job ::
  "'e golib \<Rightarrow> ('e, 'w) resourceManager_job \<Rightarrow> map_order \<Rightarrow> Job ptr \<Rightarrow> ('e, 'w) env \<Rightarrow>
     ('e, 'w) env \<times> ('e, Job) returned" where
  "Create_job lib rm ord r s =
     (case r of
        None \<Rightarrow> (s, Inl GoPanic)
      | Some r_ko \<Rightarrow>
          (let (s, created) = sdkCreate_job lib rm ord r_ko s
           in (s, finish_job lib rm r_ko created)))"

definition Update_job ::
  "'e golib \<Rightarrow> (job_value, 'd) cmplib \<Rightarrow> ('e, 'w) resourceManager_job \<Rightarrow> map_order \<Rightarrow>
     Job ptr \<Rightarrow> Job ptr \<Rightarrow> 'd \<Rightarrow> ('e, 'w) env \<Rightarrow> ('e, 'w) env \<times> ('e, Job) returned" where
  "Update_job lib cmp rm ord desired latest delta s =
     (case (desired, latest) of
        (Some desired_ko, Some latest_ko) \<Rightarrow>
          (let (s, updated) = sdkUpdate_job lib cmp rm ord desired_ko latest_ko delta s
           in (s, finish_job lib rm latest_ko updated))
      | _ \<Rightarrow> (s, Inl GoPanic))"

definition Delete_job ::
  "'e golib \<Rightarrow> ('e, 'w) resourceManager_job \<Rightarrow> Job ptr \<Rightarrow> ('e, 'w) env \<Rightarrow>
     ('e, 'w) env \<times> ('e, Job) returned" where
  "Delete_job lib rm r s =
     (case r of
        None \<Rightarrow> (s, Inl GoPanic)
      | Some r_ko \<Rightarrow>
          (let (s, observed) = sdkDelete_job rm r_ko s
           in (s, finish_job lib rm r_ko observed)))"

definition ARNFromName_job :: "('e, 'w) resourceManager_job \<Rightarrow> string \<Rightarrow> string" where
  "ARNFromName_job rm name =
     ''arn:'' @ awsPartition rm @ '':glue:'' @ awsRegion rm @ '':'' @ awsAccountID rm @ '':'' @ name"

definition IsSynced_job :: "Job ptr \<Rightarrow> ('e, bool \<times> 'e option) outcome" where
  "IsSynced_job r = and_then (deref r) (\<lambda>_. Inr (True, None))"

section \<open>Late initialization\<close>

definition lateInitializeFieldNames_job :: "string list" where
  "lateInitializeFieldNames_job = []"

definition incompleteLateInitialization_job :: "Job \<Rightarrow> bool" where
  "incompleteLateInitialization_job res \<longleftrightarrow> False"

definition lateInitializeFromReadOneOutput_job :: "Job \<Rightarrow> Job \<Rightarrow> Job" where
  "lateInitializeFromReadOneOutput_job observed latest = latest"

text \<open>\<open>ackcondition.SetLateInitialized\<close> and \<open>ackcondition.SetSynced\<close> on a resource.\<close>

definition with_conditions_job :: "(Condition ptr slice \<Rightarrow> Condition ptr slice) \<Rightarrow> Job \<Rightarrow> Job" where
  "with_conditions_job f res =
     res\<lparr>Job.Status := (Job.Status res)\<lparr>Conditions := f (Conditions (Job.Status res))\<rparr>\<rparr>"

definition LateInitialize_job ::
  "'e golib \<Rightarrow> ('e, 'w) resourceManager_job \<Rightarrow> map_order \<Rightarrow> Job ptr \<Rightarrow> ('e, 'w) env \<Rightarrow>
     ('e, 'w) env \<times> ('e, Job) returned" where
  "LateInitialize_job lib rm ord latest s =
     (if length lateInitializeFieldNames_job = 0 then (s, Inr (latest, None))
      else
        (let (s, read) = ReadOne_job lib rm ord latest s
         in (s, and_then read (\<lambda>(latestCopy, observed, err).
              (case err of
                 Some e \<Rightarrow>
                   (let latestCopy = with_conditions_job (\<lambda>cs. ackcondition_SetLateInitialized lib cs
                          ConditionFalse
                          (Some ''Unable to complete Read operation required for late initialization'')
                          (Some ''Late Initialization Failure'')) latestCopy;
                        latestCopy = with_conditions_job (\<lambda>cs. ackcondition_SetSynced lib cs
                          ConditionFalse None None) latestCopy
                    in Inr (Some latestCopy, Some e))
               | None \<Rightarrow>
                   and_then (deref observed) (\<lambda>observed.
                     let res = lateInitializeFromReadOneOutput_job observed latestCopy
                     in if incompleteLateInitialization_job res then
                          (let res = with_conditions_job (\<lambda>cs. ackcondition_SetLateInitialized lib cs
                                 ConditionFalse
                                 (Some ''Late initialization did not complete, requeuing with delay of 5 seconds'')
                                 (Some ''Delayed Late Initialization'')) res;
                               res = with_conditions_job (\<lambda>cs. ackcondition_SetSynced lib cs
                                 ConditionFalse None None) res
                           in Inr (Some res, Some (ackrequeue_NeededAfter lib None 5)))
                        else
                          (let res = with_conditions_job (\<lambda>cs. ackcondition_SetLateInitialized lib cs
                                 ConditionTrue (Some ''Late initialization successful'')
                                 (Some ''Late initialization successful'')) res
                           in Inr (Some res, None))))))))"

section \<open>The manager interface\<close>

text \<open>The conditions code of this package satisfies the contract proved for managers.\<close>

interpretation job_manager: ack_manager lib Job.Status
  "\<lambda>f ko. ko\<lparr>Job.Status := f (Job.Status ko)\<rparr>"
  "status_defaults (awsRegion rm) (awsPartition rm) (awsAccountID rm)"
  "updateConditions_job lib rm" "onError_job lib rm" "onSuccess_job lib rm" for lib rm
proof unfold_locales
  fix k :: Job and f e and err
  let ?d = "status_defaults (awsRegion rm) (awsPartition rm) (awsAccountID rm)"
  show "Job.Status (k\<lparr>Job.Status := f (Job.Status k)\<rparr>) = f (Job.Status k)"
    by simp
  show "updateConditions_job lib rm k err =
      and_then (update_conditions lib err (condition_ptrs (?d (Job.Status k))))
        (\<lambda>(cs, updated). Inr (if updated
           then Some (k\<lparr>Job.Status := (?d (Job.Status k))\<lparr>Conditions := Some cs\<rparr>\<rparr>) else None))"
    by (simp add: updateConditions_job_def setStatusDefaults_job_def Let_def cong: if_cong)
  show "onError_job lib rm None e = Inr (None, Some e)"
    and "onSuccess_job lib rm None = Inr (None, None)"
    by (simp_all add: onError_job_def onSuccess_job_def)
  show "onError_job lib rm (Some k) e =
      and_then (updateConditions_job lib rm k (Some e)) (\<lambda>r. case r of
          None \<Rightarrow> Inr (Some k, Some e)
        | Some r1 \<Rightarrow> and_then (any_condition is_terminal (condition_ptrs (Job.Status r1))) (\<lambda>terminal.
            Inr (Some r1, Some (if terminal then ackerr_Terminal lib else e))))"
    by (auto simp: onError_job_def split: option.split intro!: and_then_cong)
  show "onSuccess_job lib rm (Some k) =
      and_then (updateConditions_job lib rm k None) (\<lambda>r. Inr (case r of
          None \<Rightarrow> (Some k, None) | Some r1 \<Rightarrow> (Some r1, None)))"
    by (simp add: onSuccess_job_def)
qed

end
