(* ===== verification/Job_References.thy ===== *)
theory Job_References
  imports Job_Types Ack_Status
begin

text \<open>
  pkg/resource/job/references.go: the IAM role of a job may be given by name (Role) or by a reference
  to a Role resource (RoleRef), which is resolved through the Kubernetes API into the role's ARN. The
  code writes the ARN into the object it was given; the model returns the object as it is afterwards.
\<close>

section \<open>The operations\<close>

definition ClearResolvedReferences_job :: "Job \<Rightarrow> Job" where
  "ClearResolvedReferences_job ko =
     (if JobSpec.RoleRef (Spec ko) \<noteq> None then ko\<lparr>Spec := (Spec ko)\<lparr>JobSpec.Role := None\<rparr>\<rparr> else ko)"

definition validateReferenceFields_job :: "'e golib \<Rightarrow> Job \<Rightarrow> 'e option" where
  "validateReferenceFields_job lib ko =
     (if JobSpec.RoleRef (Spec ko) \<noteq> None \<and> JobSpec.Role (Spec ko) \<noteq> None
      then Some (ackerr_ResourceReferenceAndIDNotSupportedFor lib ''Role'' ''RoleRef'')
      else if JobSpec.RoleRef (Spec ko) = None \<and> JobSpec.Role (Spec ko) = None
      then Some (ackerr_ResourceReferenceOrIDRequiredFor lib ''Role'' ''RoleRef'')
      else None)"

definition is_synced :: "Condition \<Rightarrow> bool" where
  "is_synced c \<longleftrightarrow> Condition.Type c = ConditionTypeResourceSynced \<and> Condition.Status c = ConditionTrue"

text \<open>
  The role the reader found, or why it cannot be used; terminal conditions come first. The first loop
  returns at a terminal condition, the second visits all of them; both panic on a nil element.
\<close>

definition getReferencedResourceState_Role ::
  "'e golib \<Rightarrow> 'e reader \<Rightarrow> string \<Rightarrow> string \<Rightarrow> ('e, iam_Role) outcome" where
  "getReferencedResourceState_Role lib apiReader name namespace =
     (case apiReader namespace name of
        Inl err \<Rightarrow> Inl (GoErr err)
      | Inr obj \<Rightarrow>
          and_then (any_condition is_terminal (condition_ptrs (iam_Role.Status obj))) (\<lambda>terminal.
          if terminal then Inl (GoErr (ackerr_ResourceReferenceTerminalFor lib ''Role'' namespace name))
          else
            and_then (traverse deref (condition_ptrs (iam_Role.Status obj))) (\<lambda>conds.
            if \<not> (\<exists>cond\<in>set conds. is_synced cond)
            then Inl (GoErr (ackerr_ResourceReferenceNotSyncedFor lib ''Role'' namespace name))
            else (case ACKResourceMetadata (iam_Role.Status obj) of
                    None \<Rightarrow> Inl (GoErr (ackerr_ResourceReferenceMissingTargetFieldFor lib ''Role'' namespace
                                  name ''Status.ACKResourceMetadata.ARN''))
                  | Some md \<Rightarrow>
                      if ARN md = None
                      then Inl (GoErr (ackerr_ResourceReferenceMissingTargetFieldFor lib ''Role'' namespace
                                  name ''Status.ACKResourceMetadata.ARN''))
                      else Inr obj))))"

text \<open>\<open>hasReferences\<close>, the error and the object afterwards.\<close>

definition resolveReferenceForRole ::
  "'e golib \<Rightarrow> ('e, 'w) resourceManager_job \<Rightarrow> 'e reader \<Rightarrow> Job \<Rightarrow>
     ('e, bool \<times> 'e option \<times> Job) outcome" where
  "resolveReferenceForRole lib rm apiReader ko =
     (case JobSpec.RoleRef (Spec ko) of
        None \<Rightarrow> Inr (False, None, ko)
      | Some ref \<Rightarrow>
          (case From ref of
             None \<Rightarrow> Inr (False, None, ko)
           | Some arr \<Rightarrow>
               (case AWSResourceReference.Name arr of
                  None \<Rightarrow> Inr (True, Some (fmt_Errorf lib ''provided resource reference is nil or empty: RoleRef''), ko)
                | Some name \<Rightarrow>
                    if name = '''' then
                      Inr (True, Some (fmt_Errorf lib ''provided resource reference is nil or empty: RoleRef''), ko)
                    else
                      (case ackrt_ValidateCrossNamespaceReference lib (cfg_EnableCrossNamespace rm)
                              (ObjectMeta.Namespace (Job.ObjectMeta ko))
                              (AWSResourceReference.Namespace arr) name of
                         Inl err \<Rightarrow> Inr (True, Some err, ko)
                       | Inr namespace \<Rightarrow>
                           (case getReferencedResourceState_Role lib apiReader name namespace of
                              Inl GoPanic \<Rightarrow> Inl GoPanic
                            | Inl (GoErr err) \<Rightarrow> Inr (True, Some err, ko)
                            | Inr obj \<Rightarrow>
                                Inr (True, None, ko\<lparr>Spec := (Spec ko)\<lparr>JobSpec.Role :=
                                   and_ptr (ACKResourceMetadata (iam_Role.Status obj)) ARN\<rparr>\<rparr>))))))"

text \<open>The resource returned (the object passed in, written to), whether it has references, the error.\<close>

definition ResolveReferences_job ::
  "'e golib \<Rightarrow> ('e, 'w) resourceManager_job \<Rightarrow> 'e reader \<Rightarrow> Job \<Rightarrow>
     ('e, Job \<times> bool \<times> 'e option) outcome" where
  "ResolveReferences_job lib rm apiReader ko =
     (let err = validateReferenceFields_job lib ko
      in and_then (resolveReferenceForRole lib rm apiReader ko) (\<lambda>(fieldHasReferences, err', ko).
           if err' \<noteq> None then Inr (ko, fieldHasReferences, err')
           else Inr (ko, fieldHasReferences, err)))"

section \<open>What resolution does\<close>

lemma resolveReferenceForRole_other:
  "resolveReferenceForRole lib rm rd ko = Inr (has, err, ko') \<Longrightarrow>
   ko' = ko\<lparr>Spec := (Spec ko)\<lparr>JobSpec.Role := JobSpec.Role (Spec ko')\<rparr>\<rparr>"
  by (auto simp: resolveReferenceForRole_def split: option.splits sum.splits stop.splits if_splits)

lemma resolveReferenceForRole_error:
  "resolveReferenceForRole lib rm rd ko = Inr (has, Some e, ko') \<Longrightarrow> ko' = ko"
  by (auto simp: resolveReferenceForRole_def split: option.splits sum.splits stop.splits if_splits)

lemma resolveReferenceForRole_has:
  "resolveReferenceForRole lib rm rd ko = Inr (has, err, ko') \<Longrightarrow>
   has \<longleftrightarrow> (\<exists>ref. JobSpec.RoleRef (Spec ko) = Some ref \<and> From ref \<noteq> None)"
  by (auto simp: resolveReferenceForRole_def split: option.splits sum.splits stop.splits if_splits)

text \<open>Resolution panics only on a nil element of the conditions of the role that was found.\<close>

lemma getReferencedResourceState_Role_panics:
  assumes "getReferencedResourceState_Role lib rd name ns = Inl GoPanic"
  shows "\<exists>obj. rd ns name = Inr obj \<and> \<not> no_nil (iam_Role.Status obj)"
proof (cases "rd ns name")
  case (Inr obj)
  have "\<not> no_nil (iam_Role.Status obj)"
  proof
    assume "no_nil (iam_Role.Status obj)"
    with assms Inr show False
      by (simp add: getReferencedResourceState_Role_def no_nil_ptrs split: if_splits option.splits)
  qed
  with Inr show ?thesis by blast
qed (use assms in \<open>simp add: getReferencedResourceState_Role_def\<close>)

lemma resolveReferenceForRole_panics:
  assumes "resolveReferenceForRole lib rm rd ko = Inl stop"
  shows "stop = GoPanic \<and> (\<exists>ns n obj. rd ns n = Inr obj \<and> \<not> no_nil (iam_Role.Status obj))"
proof -
  from assms have "stop = GoPanic" "\<exists>name ns. getReferencedResourceState_Role lib rd name ns = Inl GoPanic"
    by (auto simp: resolveReferenceForRole_def split: option.splits sum.splits stop.splits if_splits)
  then show ?thesis using getReferencedResourceState_Role_panics by metis
qed

text \<open>A role that can be used: conditions without nil, not terminal, synced, with an ARN.\<close>

definition usable_role :: "iam_Role \<Rightarrow> string \<Rightarrow> bool" where
  "usable_role obj arn \<longleftrightarrow> no_nil (iam_Role.Status obj) \<and>
     (\<forall>c\<in>set (conditions_of (iam_Role.Status obj)). \<not> is_terminal c) \<and>
     (\<exists>c\<in>set (conditions_of (iam_Role.Status obj)). is_synced c) \<and>
     and_ptr (ACKResourceMetadata (iam_Role.Status obj)) ARN = Some arn"

lemma getReferencedResourceState_Role_ok:
  "getReferencedResourceState_Role lib rd name ns = Inr obj \<longleftrightarrow>
     rd ns name = Inr obj \<and> (\<exists>arn. usable_role obj arn)"
proof (cases "rd ns name")
  case (Inr obj')
  show ?thesis
  proof (cases "no_nil (iam_Role.Status obj')")
    case True
    then show ?thesis
      by (auto simp: getReferencedResourceState_Role_def usable_role_def Inr no_nil_ptrs
          split: option.splits if_splits)
  next
    case False
    have "getReferencedResourceState_Role lib rd name ns \<noteq> Inr obj"
      using False by (auto simp: getReferencedResourceState_Role_def Inr no_nil_def traverse_deref_nil
          and_then_eq_Inr split: if_splits)
    with False Inr show ?thesis by (auto simp: usable_role_def)
  qed
qed (simp add: getReferencedResourceState_Role_def)

lemma resolveReferenceForRole_ok:
  assumes "resolveReferenceForRole lib rm rd ko = Inr (True, None, ko')"
  obtains ref arr name ns obj arn where "JobSpec.RoleRef (Spec ko) = Some ref" "From ref = Some arr"
    "AWSResourceReference.Name arr = Some name" "name \<noteq> ''''"
    "ackrt_ValidateCrossNamespaceReference lib (cfg_EnableCrossNamespace rm)
       (ObjectMeta.Namespace (Job.ObjectMeta ko)) (AWSResourceReference.Namespace arr) name = Inr ns"
    "rd ns name = Inr obj" "usable_role obj arn"
    "ko' = ko\<lparr>Spec := (Spec ko)\<lparr>JobSpec.Role := Some arn\<rparr>\<rparr>"
proof -
  from assms obtain ref arr name ns obj where path: "JobSpec.RoleRef (Spec ko) = Some ref"
    "From ref = Some arr" "AWSResourceReference.Name arr = Some name" "name \<noteq> ''''"
    "ackrt_ValidateCrossNamespaceReference lib (cfg_EnableCrossNamespace rm)
       (ObjectMeta.Namespace (Job.ObjectMeta ko)) (AWSResourceReference.Namespace arr) name = Inr ns"
    and role: "getReferencedResourceState_Role lib rd name ns = Inr obj"
    and ko': "ko' = ko\<lparr>Spec := (Spec ko)\<lparr>JobSpec.Role := and_ptr (ACKResourceMetadata (iam_Role.Status obj)) ARN\<rparr>\<rparr>"
    by (auto simp: resolveReferenceForRole_def split: option.splits sum.splits stop.splits if_splits)
  from role obtain arn where "rd ns name = Inr obj" "usable_role obj arn"
    by (auto simp: getReferencedResourceState_Role_ok)
  with path ko' show ?thesis by (intro that) (auto simp: usable_role_def)
qed

end
