(* ===== verification/Job_Properties.thy ===== *)
theory Job_Properties
  imports Job_Manager Job_References
begin

text \<open>
  What the Job controller guarantees: the differences newResourceDelta reports and what they imply
  for a job whose spec leaves MaxRetries out, the requests built from a response and from a spec,
  the checks on 32-bit fields, the results of sdkFind and sdkUpdate, and the resolution of the role
  reference.
\<close>

section \<open>Requests\<close>

text \<open>
  A JobUpdate with the fields of a GetJob response, and with those of a CreateJob request. The
  controller never sets AllocatedCapacity, which generator.yaml ignores.
\<close>

definition update_of_response :: "sdk_Job \<Rightarrow> sdk_JobUpdate" where
  "update_of_response resp =
     \<lparr>sdk_JobUpdate.AllocatedCapacity = 0,
      sdk_JobUpdate.CodeGenConfigurationNodes = sdk_Job.CodeGenConfigurationNodes resp,
      sdk_JobUpdate.Command = sdk_Job.Command resp,
      sdk_JobUpdate.Connections = sdk_Job.Connections resp,
      sdk_JobUpdate.DefaultArguments = sdk_Job.DefaultArguments resp,
      sdk_JobUpdate.Description = sdk_Job.Description resp,
      sdk_JobUpdate.ExecutionClass = sdk_Job.ExecutionClass resp,
      sdk_JobUpdate.ExecutionProperty = sdk_Job.ExecutionProperty resp,
      sdk_JobUpdate.GlueVersion = sdk_Job.GlueVersion resp,
      sdk_JobUpdate.JobMode = sdk_Job.JobMode resp,
      sdk_JobUpdate.JobRunQueuingEnabled = sdk_Job.JobRunQueuingEnabled resp,
      sdk_JobUpdate.LogUri = sdk_Job.LogUri resp,
      sdk_JobUpdate.MaintenanceWindow = sdk_Job.MaintenanceWindow resp,
      sdk_JobUpdate.MaxCapacity = sdk_Job.MaxCapacity resp,
      sdk_JobUpdate.MaxRetries = sdk_Job.MaxRetries resp,
      sdk_JobUpdate.NonOverridableArguments = sdk_Job.NonOverridableArguments resp,
      sdk_JobUpdate.NotificationProperty = sdk_Job.NotificationProperty resp,
      sdk_JobUpdate.NumberOfWorkers = sdk_Job.NumberOfWorkers resp,
      sdk_JobUpdate.Role = sdk_Job.Role resp,
      sdk_JobUpdate.SecurityConfiguration = sdk_Job.SecurityConfiguration resp,
      sdk_JobUpdate.SourceControlDetails = sdk_Job.SourceControlDetails resp,
      sdk_JobUpdate.Timeout = sdk_Job.Timeout resp,
      sdk_JobUpdate.WorkerType = sdk_Job.WorkerType resp\<rparr>"

definition update_of_create :: "sdk_CreateJobInput \<Rightarrow> sdk_JobUpdate" where
  "update_of_create c =
     \<lparr>sdk_JobUpdate.AllocatedCapacity = sdk_CreateJobInput.AllocatedCapacity c,
      sdk_JobUpdate.CodeGenConfigurationNodes = sdk_CreateJobInput.CodeGenConfigurationNodes c,
      sdk_JobUpdate.Command = sdk_CreateJobInput.Command c,
      sdk_JobUpdate.Connections = sdk_CreateJobInput.Connections c,
      sdk_JobUpdate.DefaultArguments = sdk_CreateJobInput.DefaultArguments c,
      sdk_JobUpdate.Description = sdk_CreateJobInput.Description c,
      sdk_JobUpdate.ExecutionClass = sdk_CreateJobInput.ExecutionClass c,
      sdk_JobUpdate.ExecutionProperty = sdk_CreateJobInput.ExecutionProperty c,
      sdk_JobUpdate.GlueVersion = sdk_CreateJobInput.GlueVersion c,
      sdk_JobUpdate.JobMode = sdk_CreateJobInput.JobMode c,
      sdk_JobUpdate.JobRunQueuingEnabled = sdk_CreateJobInput.JobRunQueuingEnabled c,
      sdk_JobUpdate.LogUri = sdk_CreateJobInput.LogUri c,
      sdk_JobUpdate.MaintenanceWindow = sdk_CreateJobInput.MaintenanceWindow c,
      sdk_JobUpdate.MaxCapacity = sdk_CreateJobInput.MaxCapacity c,
      sdk_JobUpdate.MaxRetries = sdk_CreateJobInput.MaxRetries c,
      sdk_JobUpdate.NonOverridableArguments = sdk_CreateJobInput.NonOverridableArguments c,
      sdk_JobUpdate.NotificationProperty = sdk_CreateJobInput.NotificationProperty c,
      sdk_JobUpdate.NumberOfWorkers = sdk_CreateJobInput.NumberOfWorkers c,
      sdk_JobUpdate.Role = sdk_CreateJobInput.Role c,
      sdk_JobUpdate.SecurityConfiguration = sdk_CreateJobInput.SecurityConfiguration c,
      sdk_JobUpdate.SourceControlDetails = sdk_CreateJobInput.SourceControlDetails c,
      sdk_JobUpdate.Timeout = sdk_CreateJobInput.Timeout c,
      sdk_JobUpdate.WorkerType = sdk_CreateJobInput.WorkerType c\<rparr>"

text \<open>A response without the children of its mappings, which the custom resource has no field for.\<close>

definition without_children :: "sdk_Job \<Rightarrow> sdk_Job" where
  "without_children resp = resp\<lparr>sdk_Job.CodeGenConfigurationNodes :=
     map_option (fmmap childless_node) (sdk_Job.CodeGenConfigurationNodes resp)\<rparr>"

lemma job_update_of_read:
  assumes "conversion_laws lib"
  shows "job_update lib ord (read_JobSpec lib ord' resp spec) = Inr (update_of_response (without_children resp))"
  by (simp add: job_update_def read_JobSpec_def update_of_response_def without_children_def update_eqs codec_rules
      codecs codec_up_to_map_structs [OF codec_CodeGenConfigurationNode] assms)

text \<open>
  C25: Reading a job and updating it again loses nothing but what the controller ignores: the JobUpdate
  built from the spec that sdkFind filled in carries every field of the GetJob response that a JobUpdate
  has, all seventy-one kinds of nodes of the visual graph and their nested structures included,
  without an error or a panic. Ignored, and so dropped by an update that overwrites the definition, are
  the Children of the mappings of an ApplyMapping node and AllocatedCapacity, which is sent as 0.
\<close>
theorem job_read_update_roundtrip:
  assumes "conversion_laws lib"
  shows "newJobUpdate lib ord (ko\<lparr>Spec := read_JobSpec lib ord' resp (Spec ko)\<rparr>) req =
    Inr (req\<lparr>sdk_UpdateJobInput.JobUpdate := Some (update_of_response (without_children resp))\<rparr>)"
  by (simp add: newJobUpdate_def job_update_of_read [OF assms])

lemma job_update_create:
  "job_update lib ord spec = and_then (newCreateRequestPayload_job lib ord spec) (\<lambda>c. Inr (update_of_create c))"
  by (simp add: job_update_def newCreateRequestPayload_job_def update_of_create_def update_eqs)

lemma agree_create: "agree (newCreateRequestPayload_job lib ord spec) (newCreateRequestPayload_job lib ord' spec)"
  unfolding newCreateRequestPayload_job_def
  by (rule agree_and_then, rule agree_map_write, rule agree_CodeGenConfigurationNode) (rule agree_refl)

text \<open>
  C26: The two generated request builders agree. In whatever orders they range over the maps of a spec,
  newJobUpdate succeeds exactly when newCreateRequestPayload does, and then builds a JobUpdate with the
  same value in every field (a JobUpdate has no Name and no Tags). When they range in the same order
  they also stop with the same error or panic; in different orders they may meet different bad nodes.
\<close>
theorem job_create_update_same:
  "(\<forall>u. job_update lib ord spec = Inr u \<longleftrightarrow>
      (\<exists>c. newCreateRequestPayload_job lib ord' spec = Inr c \<and> u = update_of_create c)) \<and>
   job_update lib ord spec =
     and_then (newCreateRequestPayload_job lib ord spec) (\<lambda>c. Inr (update_of_create c))"
  using agreeD [OF agree_create [of lib ord spec ord']] by (auto simp: job_update_create and_then_eq_Inr)

section \<open>Integers\<close>

text \<open>An optional 64-bit field and the 32-bit field sent for it denote the same number.\<close>

definition same_int :: "int64 ptr \<Rightarrow> int32 ptr \<Rightarrow> bool" where
  "same_int p q \<longleftrightarrow> map_option sint p = map_option sint q"

lemma sint_int32_of: "\<not> outside_int32 x \<Longrightarrow> sint (int32_of x) = sint x"
proof -
  assume "\<not> outside_int32 x"
  then have "- (2 ^ 31) \<le> sint x" "sint x < 2 ^ 31" by (auto simp: outside_int32_def)
  then have "signed_take_bit 31 (sint x) = sint x"
    by (simp add: signed_take_bit_int_eq_self)
  moreover have "signed_take_bit 31 (sint x) = signed_take_bit 31 (uint x)"
    by (simp add: sint_uint)
  ultimately show ?thesis
    by (simp add: int32_of_def signed_ucast_eq)
qed

lemma int32_write_ptr_Inr:
  "int32_write_ptr lib msg p = Inr q \<Longrightarrow> same_int p q \<and> (\<forall>x. p = Some x \<longrightarrow> \<not> outside_int32 x)"
  by (cases p) (auto simp: int32_write_ptr_def same_int_def sint_int32_of split: if_splits)

lemma int32_write_Inr:
  "int32_write lib msg p = Inr y \<Longrightarrow>
   sint y = (case p of None \<Rightarrow> 0 | Some x \<Rightarrow> sint x) \<and> (\<forall>x. p = Some x \<longrightarrow> \<not> outside_int32 x)"
  by (cases p) (auto simp: int32_write_def int32_write_ptr_def sint_int32_of split: if_splits)

lemma int32_write_panics_not: "int32_write_ptr lib msg p \<noteq> Inl GoPanic"
  by (cases p) (simp_all add: int32_write_ptr_def)

text \<open>
  C27: No integer is truncated on its way to the service: whenever newCreateRequestPayload yields a
  request, NumberOfWorkers, Timeout, MaxRetries, ExecutionProperty.MaxConcurrentRuns and
  NotificationProperty.NotifyDelayAfter denote in 32 bits the numbers the spec holds in 64.
\<close>
theorem job_create_keeps_integers:
  assumes "newCreateRequestPayload_job lib ord spec = Inr c"
  shows "same_int (JobSpec.NumberOfWorkers spec) (sdk_CreateJobInput.NumberOfWorkers c) \<and>
    same_int (JobSpec.Timeout spec) (sdk_CreateJobInput.Timeout c) \<and>
    sint (sdk_CreateJobInput.MaxRetries c) = (case JobSpec.MaxRetries spec of None \<Rightarrow> 0 | Some x \<Rightarrow> sint x) \<and>
    map_option (\<lambda>p. case ExecutionProperty.MaxConcurrentRuns p of None \<Rightarrow> 0 | Some x \<Rightarrow> sint x)
        (JobSpec.ExecutionProperty spec) =
      map_option (\<lambda>p. sint (sdk_ExecutionProperty.MaxConcurrentRuns p)) (sdk_CreateJobInput.ExecutionProperty c) \<and>
    rel_option (\<lambda>p q. same_int (NotificationProperty.NotifyDelayAfter p) (sdk_NotificationProperty.NotifyDelayAfter q))
      (JobSpec.NotificationProperty spec) (sdk_CreateJobInput.NotificationProperty c)"
proof -
  have exec: "create_ExecutionProperty lib p = Inr q \<Longrightarrow>
      sint (sdk_ExecutionProperty.MaxConcurrentRuns q) =
        (case ExecutionProperty.MaxConcurrentRuns p of None \<Rightarrow> 0 | Some x \<Rightarrow> sint x)" for p q
    by (auto simp: create_ExecutionProperty_def and_then_eq_Inr dest: int32_write_Inr)
  have notify: "create_NotificationProperty lib p = Inr q \<Longrightarrow>
      same_int (NotificationProperty.NotifyDelayAfter p) (sdk_NotificationProperty.NotifyDelayAfter q)" for p q
    by (auto simp: create_NotificationProperty_def and_then_eq_Inr dest: int32_write_ptr_Inr)
  have set: "when_set f p = Inr q \<Longrightarrow> rel_option (\<lambda>a b. f a = Inr b) p q" for f p q
    by (cases p) (auto simp: and_then_eq_Inr)
  obtain f3 f4 f5 f6 f8 where parts: "when_set (create_ExecutionProperty lib) (JobSpec.ExecutionProperty spec) = Inr f3"
    "int32_write lib ''error: field MaxRetries is of type int32'' (JobSpec.MaxRetries spec) = Inr f4"
    "when_set (create_NotificationProperty lib) (JobSpec.NotificationProperty spec) = Inr f5"
    "int32_write_ptr lib ''error: field NumberOfWorkers is of type int32'' (JobSpec.NumberOfWorkers spec) = Inr f6"
    "int32_write_ptr lib ''error: field Timeout is of type int32'' (JobSpec.Timeout spec) = Inr f8"
    and c: "sdk_CreateJobInput.ExecutionProperty c = f3" "sdk_CreateJobInput.MaxRetries c = f4"
    "sdk_CreateJobInput.NotificationProperty c = f5" "sdk_CreateJobInput.NumberOfWorkers c = f6"
    "sdk_CreateJobInput.Timeout c = f8"
    using assms unfolding newCreateRequestPayload_job_def by (auto simp only: and_then_eq_Inr sum.inject sdk_CreateJobInput.simps)
  show ?thesis
    unfolding c
    using set [OF parts(1)] set [OF parts(3)] int32_write_Inr [OF parts(2)]
      int32_write_ptr_Inr [OF parts(4)] int32_write_ptr_Inr [OF parts(5)]
    by (auto elim!: option.rel_cases dest!: exec notify)
qed

text \<open>
  C28: A value that does not fit is refused before anything is sent: when newCreateRequestPayload
  stops with an error, sdkCreate returns that error and has called nothing; and it does stop for
  every MaxRetries, NumberOfWorkers or Timeout outside the 32-bit range.
\<close>
theorem job_create_refuses_overflow:
  assumes "JobSpec.MaxRetries (Spec ko) = Some x \<or> JobSpec.NumberOfWorkers (Spec ko) = Some x \<or>
      JobSpec.Timeout (Spec ko) = Some x" and "outside_int32 x"
  shows "\<exists>stop. newCreateRequestPayload_job lib ord (Spec ko) = Inl stop \<and>
    sdkCreate_job lib rm ord ko s =
      (s, case stop of GoPanic \<Rightarrow> Inl GoPanic | GoErr e \<Rightarrow> Inr (None, Some e))"
proof -
  have "newCreateRequestPayload_job lib ord (Spec ko) \<noteq> Inr c" for c
  proof
    assume "newCreateRequestPayload_job lib ord (Spec ko) = Inr c"
    then obtain f4 f6 f8 where
      "int32_write lib ''error: field MaxRetries is of type int32'' (JobSpec.MaxRetries (Spec ko)) = Inr f4"
      "int32_write_ptr lib ''error: field NumberOfWorkers is of type int32'' (JobSpec.NumberOfWorkers (Spec ko)) = Inr f6"
      "int32_write_ptr lib ''error: field Timeout is of type int32'' (JobSpec.Timeout (Spec ko)) = Inr f8"
      unfolding newCreateRequestPayload_job_def by (auto simp only: and_then_eq_Inr)
    then show False
      using assms by (auto dest!: int32_write_Inr int32_write_ptr_Inr)
  qed
  then obtain stop where "newCreateRequestPayload_job lib ord (Spec ko) = Inl stop"
    by (cases "newCreateRequestPayload_job lib ord (Spec ko)") auto
  then show ?thesis by (cases stop) (simp_all add: sdkCreate_job_def)
qed

section \<open>Samples\<close>

definition sample_job_cmp :: "(job_value, (string \<times> job_value \<times> job_value) list) cmplib" where
  "sample_job_cmp = list_cmplib nil_job zero_job nan_free"

lemma sample_job_cmp_laws:
  "delta_laws sample_job_cmp (map fst) path_below" "value_laws sample_job_cmp nil_job zero_job"
    "reflexive_law sample_job_cmp nan_free"
  by (simp_all add: sample_job_cmp_def list_cmplib_laws)

definition sample_job_meta :: ObjectMeta where
  "sample_job_meta = \<lparr>ObjectMeta.Namespace = ''default'', DeletionTimestamp = None, Finalizers = [], Annotations = None\<rparr>"

definition sample_job_spec :: JobSpec where
  "sample_job_spec = \<lparr>JobSpec.CodeGenConfigurationNodes = None, JobSpec.Command = None, JobSpec.Connections = None,
     JobSpec.DefaultArguments = None, JobSpec.Description = None, JobSpec.ExecutionClass = None,
     JobSpec.ExecutionProperty = None, JobSpec.GlueVersion = None, JobSpec.JobMode = None,
     JobSpec.JobRunQueuingEnabled = None, JobSpec.LogURI = None, JobSpec.MaintenanceWindow = None,
     JobSpec.MaxCapacity = None, JobSpec.MaxRetries = None, JobSpec.Name = Some ''j'',
     JobSpec.NonOverridableArguments = None, JobSpec.NotificationProperty = None,
     JobSpec.NumberOfWorkers = None, JobSpec.Role = None, JobSpec.RoleRef = None,
     JobSpec.SecurityConfiguration = None, JobSpec.SourceControlDetails = None, JobSpec.Tags = None,
     JobSpec.Timeout = None, JobSpec.WorkerType = None\<rparr>"

definition sample_job :: Job where
  "sample_job = \<lparr>Job.ObjectMeta = sample_job_meta, Job.Spec = sample_job_spec,
     Job.Status = \<lparr>ACKResourceMetadata = None, Conditions = None\<rparr>\<rparr>"

definition sample_job_response :: sdk_Job where
  "sample_job_response = \<lparr>sdk_Job.AllocatedCapacity = 5, sdk_Job.CodeGenConfigurationNodes = None, sdk_Job.Command = None,
     sdk_Job.Connections = None, sdk_Job.CreatedOn = Some 1, sdk_Job.DefaultArguments = None, sdk_Job.Description = None,
     sdk_Job.ExecutionClass = ''FLEX'', sdk_Job.ExecutionProperty = None, sdk_Job.GlueVersion = None,
     sdk_Job.JobMode = '''', sdk_Job.JobRunQueuingEnabled = None, sdk_Job.LastModifiedOn = Some 2, sdk_Job.LogUri = None,
     sdk_Job.MaintenanceWindow = None, sdk_Job.MaxCapacity = None, sdk_Job.MaxRetries = 0,
     sdk_Job.Name = Some ''j'', sdk_Job.NonOverridableArguments = None, sdk_Job.NotificationProperty = None,
     sdk_Job.NumberOfWorkers = Some 5, sdk_Job.ProfileName = None, sdk_Job.Role = Some ''r'', sdk_Job.SecurityConfiguration = None,
     sdk_Job.SourceControlDetails = None, sdk_Job.Timeout = None, sdk_Job.WorkerType = ''''\<rparr>"

definition sample_job_rm ::
  "('e, string \<Rightarrow> tags) tagsClient \<Rightarrow> sdk_Job \<Rightarrow> ('e, string \<Rightarrow> tags) resourceManager_job" where
  "sample_job_rm tc out = \<lparr>awsAccountID = ''1'', awsRegion = ''cn-north-1'', awsPartition = ''aws-cn'',
     cfg_EnableCrossNamespace = False, sdkapi = \<lparr>api_tags = tc,
       api_GetJob = (\<lambda>i w. (w, Inr (Some out))), api_CreateJob = (\<lambda>i w. (w, Inr (Some ''j''))),
       api_UpdateJob = (\<lambda>i w. (w, Inr (Some ''j''))), api_DeleteJob = (\<lambda>i w. (w, None))\<rparr>\<rparr>"

definition silent_account :: "'e \<Rightarrow> ('e, string \<Rightarrow> tags) tagsClient" where
  "silent_account e = tag_account\<lparr>api_GetTags := (\<lambda>arn w. (w, Inl e))\<rparr>"

theorem job_read_update_roundtrip_witness:
  "\<exists>u. newJobUpdate go_library sorted_order
      (sample_job\<lparr>Spec := read_JobSpec go_library sorted_order sample_job_response (Job.Spec sample_job)\<rparr>)
      (newUpdateRequestPayload_job sample_job) = (Inr u :: (gerror, _) outcome) \<and>
    map_option sdk_JobUpdate.NumberOfWorkers (sdk_UpdateJobInput.JobUpdate u) = Some (Some 5) \<and>
    sdk_UpdateJobInput.JobName u = Some ''j''"
  unfolding job_read_update_roundtrip [OF go_library_conversion]
  by (simp add: update_of_response_def without_children_def sample_job_response_def newUpdateRequestPayload_job_def
      sample_job_def sample_job_spec_def)

theorem job_create_keeps_integers_witness:
  "\<exists>c. newCreateRequestPayload_job go_library sorted_order (sample_job_spec\<lparr>JobSpec.Timeout := Some 7\<rparr>) =
      (Inr c :: (gerror, _) outcome) \<and> same_int (Some 7) (sdk_CreateJobInput.Timeout c)"
proof -
  have "\<exists>c. newCreateRequestPayload_job go_library sorted_order (sample_job_spec\<lparr>JobSpec.Timeout := Some 7\<rparr>) =
      (Inr c :: (gerror, _) outcome)"
    by (simp add: newCreateRequestPayload_job_def sample_job_spec_def map_write_def int32_write_def
        int32_write_ptr_def outside_int32_def)
  then obtain c where c: "newCreateRequestPayload_job go_library sorted_order
      (sample_job_spec\<lparr>JobSpec.Timeout := Some 7\<rparr>) = (Inr c :: (gerror, _) outcome)" by blast
  have "same_int (Some 7) (sdk_CreateJobInput.Timeout c)"
    using job_create_keeps_integers [OF c] by simp
  with c show ?thesis by blast
qed

theorem job_create_refuses_overflow_witness:
  "\<exists>stop. newCreateRequestPayload_job go_library sorted_order
      (Job.Spec (sample_job\<lparr>Spec := sample_job_spec\<lparr>JobSpec.Timeout := Some 0x80000000\<rparr>\<rparr>)) =
      (Inl stop :: (gerror, _) outcome)"
proof -
  have big: "JobSpec.MaxRetries (Spec (sample_job\<lparr>Spec := sample_job_spec\<lparr>JobSpec.Timeout := Some 0x80000000\<rparr>\<rparr>)) =
        Some 0x80000000 \<or>
      JobSpec.NumberOfWorkers (Spec (sample_job\<lparr>Spec := sample_job_spec\<lparr>JobSpec.Timeout := Some 0x80000000\<rparr>\<rparr>)) =
        Some 0x80000000 \<or>
      JobSpec.Timeout (Spec (sample_job\<lparr>Spec := sample_job_spec\<lparr>JobSpec.Timeout := Some 0x80000000\<rparr>\<rparr>)) =
        Some 0x80000000" "outside_int32 0x80000000"
    by (simp_all add: outside_int32_def)
  from job_create_refuses_overflow [OF big, of go_library sorted_order] show ?thesis by blast
qed

section \<open>Differences\<close>

text \<open>
  C23: newResourceDelta on two jobs reports exactly the spec fields that differ, in the order of the
  fields: pointers by value, MaxCapacity as an IEEE number, the five nested structures by path, the
  collections by size and library equality, RoleRef by the library's deep equality, Tags as ACK tags.
\<close>
theorem newResourceDelta_job_paths:
  assumes "delta_laws cmp paths below" and "value_laws cmp nil_job zero_job"
  shows "\<exists>d. newResourceDelta_job cmp ord (Some \<lparr>resource_ko = Some a\<rparr>) (Some \<lparr>resource_ko = Some b\<rparr>) =
      (Inr d :: ('e, 'd) outcome) \<and>
    paths d = job_spec_paths cmp (Spec a) (Spec b)"
  using paths_diff_JobSpec [OF assms, of ord "Spec a" "Spec b" "NewDelta cmp"]
  by (simp add: newResourceDelta_job_def delta_lawsD(1) [OF assms(1)])

lemma job_delta_paths:
  assumes "delta_laws cmp paths below" and "value_laws cmp nil_job zero_job"
    and "newResourceDelta_job cmp ord (Some \<lparr>resource_ko = Some a\<rparr>) (Some \<lparr>resource_ko = Some b\<rparr>) = Inr d"
  shows "paths d = job_spec_paths cmp (Spec a) (Spec b)"
  using assms(3) paths_diff_JobSpec [OF assms(1,2), of ord "Spec a" "Spec b" "NewDelta cmp"]
  by (auto simp: newResourceDelta_job_def delta_lawsD(1) [OF assms(1)])

lemma job_paths_refl:
  assumes "value_laws cmp nil_job zero_job" "reflexive_law cmp nan_free" "spec_no_nan a"
  shows "job_spec_paths cmp a a = []"
proof -
  have deep: "DeepEqual cmp (VNodes (JobSpec.CodeGenConfigurationNodes a)) (VNodes (JobSpec.CodeGenConfigurationNodes a))"
    "DeepEqual cmp (VRoleRef x) (VRoleRef x)" for x
    using assms(3) by (auto intro: reflexive_lawD [OF assms(2)] simp: spec_no_nan_def)
  have capacity: "\<not> differs_by float_ne (JobSpec.MaxCapacity a) (JobSpec.MaxCapacity a)"
    using assms(3) by (simp add: spec_no_nan_def no_nan_def differs_by_def float_ne_refl split: option.splits)
  show ?thesis
    by (simp add: job_spec_paths_def struct_paths_def JobCommand_paths_def ConnectionsList_paths_def
        ExecutionProperty_paths_def NotificationProperty_paths_def SourceControlDetails_paths_def
        differs_sized_def deep capacity value_lawsD [OF assms(1)] split: option.split)
qed

text \<open>
  C24: A job whose spec leaves MaxRetries out never comes to rest: whatever GetJob answers, the read
  fills MaxRetries in (a missing count is read as 0), so the comparison of the desired with the latest
  job reports Spec.MaxRetries, and sdkUpdate never takes its early return for an unchanged job.
\<close>
theorem job_unset_retries_differs:
  assumes laws: "delta_laws cmp paths below" "value_laws cmp nil_job zero_job"
    and "JobSpec.MaxRetries (Spec desired) = None"
    and "Spec latest = (read_JobSpec lib ord' resp spec)\<lparr>JobSpec.Tags := t\<rparr>"
    and delta: "newResourceDelta_job cmp ord (Some \<lparr>resource_ko = Some desired\<rparr>)
      (Some \<lparr>resource_ko = Some latest\<rparr>) = Inr d"
    and "\<not> below ''Spec.MaxRetries'' ''Spec.Tags''"
  shows "''Spec.MaxRetries'' \<in> set (paths d) \<and> DifferentExcept cmp d ''Spec.Tags''"
proof -
  have "''Spec.MaxRetries'' \<in> set (job_spec_paths cmp (Spec desired) (Spec latest))"
    using assms(3,4) by (simp add: job_spec_paths_def read_JobSpec_def int32_addr_def)
  then show ?thesis
    using job_delta_paths [OF laws delta] assms(6) by (auto simp: delta_lawsD(4) [OF laws(1)])
qed

theorem newResourceDelta_job_paths_witness:
  "\<exists>d. newResourceDelta_job sample_job_cmp sorted_order (Some \<lparr>resource_ko = Some sample_job\<rparr>)
        (Some \<lparr>resource_ko = Some sample_job\<rparr>) = (Inr d :: (gerror, _) outcome) \<and> map fst d = []"
  using newResourceDelta_job_paths [OF sample_job_cmp_laws(1,2), of sorted_order sample_job sample_job,
      where ?'e = gerror]
  by (simp add: job_spec_paths_def differs_by_def struct_paths_def sample_job_def sample_job_spec_def
      differs_sized_def reflexive_lawD [OF sample_job_cmp_laws(3)])

theorem job_unset_retries_differs_witness:
  "\<exists>d. newResourceDelta_job sample_job_cmp sorted_order (Some \<lparr>resource_ko = Some sample_job\<rparr>)
        (Some \<lparr>resource_ko = Some (sample_job\<lparr>Spec :=
           (read_JobSpec go_library sorted_order sample_job_response sample_job_spec)\<lparr>JobSpec.Tags := None\<rparr>\<rparr>)\<rparr>) =
      (Inr d :: (gerror, _) outcome) \<and> DifferentExcept sample_job_cmp d ''Spec.Tags''"
proof -
  let ?latest = "sample_job\<lparr>Spec :=
      (read_JobSpec go_library sorted_order sample_job_response sample_job_spec)\<lparr>JobSpec.Tags := None\<rparr>\<rparr>"
  obtain d where d: "newResourceDelta_job sample_job_cmp sorted_order (Some \<lparr>resource_ko = Some sample_job\<rparr>)
      (Some \<lparr>resource_ko = Some ?latest\<rparr>) = (Inr d :: (gerror, _) outcome)"
    by (simp add: newResourceDelta_job_def)
  have "JobSpec.MaxRetries (Spec sample_job) = None" "\<not> path_below ''Spec.MaxRetries'' ''Spec.Tags''"
    by (simp_all add: sample_job_def sample_job_spec_def path_below_def)
  moreover have "Spec ?latest =
      (read_JobSpec go_library sorted_order sample_job_response sample_job_spec)\<lparr>JobSpec.Tags := None\<rparr>"
    by simp
  ultimately have "DifferentExcept sample_job_cmp d ''Spec.Tags''"
    using job_unset_retries_differs [OF sample_job_cmp_laws(1,2) _ _ d] by blast
  with d show ?thesis by blast
qed

section \<open>Reading\<close>

definition metadata_after_job :: "('e, 'w) resourceManager_job \<Rightarrow> Job \<Rightarrow> ResourceMetadata" where
  "metadata_after_job rm ko = the (ACKResourceMetadata
     (status_defaults (awsRegion rm) (awsPartition rm) (awsAccountID rm) (Job.Status ko)))"

definition job_arn_with :: "ResourceMetadata \<Rightarrow> string \<Rightarrow> string" where
  "job_arn_with md name = ''arn:aws:glue:'' @ the (ResourceMetadata.Region md) @ '':'' @
     the (OwnerAccountID md) @ '':job/'' @ name"

lemma job_metadata_defaulted:
  "ACKResourceMetadata (status_defaults (awsRegion rm) (awsPartition rm) (awsAccountID rm)
     (Job.Status ko)) = Some (metadata_after_job rm ko)"
  "\<exists>x. ResourceMetadata.Region (metadata_after_job rm ko) = Some x"
  "\<exists>x. OwnerAccountID (metadata_after_job rm ko) = Some x"
  using status_defaults_metadata [of "awsRegion rm" "awsPartition rm" "awsAccountID rm" "Job.Status ko"]
  by (auto simp: metadata_after_job_def)

lemma metadata_after_job_spec [simp]: "metadata_after_job rm (ko\<lparr>Spec := x\<rparr>) = metadata_after_job rm ko"
  by (simp add: metadata_after_job_def)

lemma jobARN_defaulted:
  "jobARN (setStatusDefaults_job rm ko) =
     and_then (deref (JobSpec.Name (Spec ko))) (\<lambda>name. Inr (job_arn_with (metadata_after_job rm ko) name))"
  using job_metadata_defaulted [of rm ko]
  by (auto simp: jobARN_def setStatusDefaults_job_def job_arn_with_def)

lemma Name_read_job [simp]: "JobSpec.Name (read_JobSpec lib ord resp spec) = sdk_Job.Name resp"
  by (simp add: read_JobSpec_def)

text \<open>The resource sdkFind returns for a response, but for the tags.\<close>

definition found_job ::
  "'e golib \<Rightarrow> ('e, 'w) resourceManager_job \<Rightarrow> map_order \<Rightarrow> sdk_Job \<Rightarrow> string \<Rightarrow> Job \<Rightarrow> Job" where
  "found_job lib rm ord resp name ko = set_arn_job (job_arn_with (metadata_after_job rm ko) name)
     (setStatusDefaults_job rm (ko\<lparr>Spec := read_JobSpec lib ord resp (Spec ko)\<rparr>))"

lemma found_job_simps:
  "ACKResourceMetadata (Job.Status (found_job lib rm ord resp name ko)) =
     Some ((metadata_after_job rm ko)\<lparr>ARN := Some (job_arn_with (metadata_after_job rm ko) name)\<rparr>)"
  "Spec (found_job lib rm ord resp name ko) = read_JobSpec lib ord resp (Spec ko)"
  by (simp_all add: found_job_def set_arn_job_def setStatusDefaults_job_def job_metadata_defaulted)

lemma sdkFind_job_found:
  assumes "JobSpec.Name (Spec ko) \<noteq> None"
    and "api_GetJob (sdkapi rm) (newDescribeRequestPayload_job ko) (world s) = (w, Inr (Some resp))"
    and "sdk_Job.Name resp = Some name"
  shows "sdkFind_job lib rm ord ko s =
    (let ko' = found_job lib rm ord resp name ko;
         (s, tags) = getTags_job rm ord (job_arn_with (metadata_after_job rm ko) name)
           (RecordAPICall ''READ_ONE'' ''GetJob'' None (s\<lparr>world := w\<rparr>))
     in (s, Inr (Some (ko'\<lparr>Spec := (Spec ko')\<lparr>JobSpec.Tags :=
           (case tags of Inl err \<Rightarrow> None | Inr t \<Rightarrow> Some t)\<rparr>\<rparr>), None)))"
  using assms
  by (auto simp: sdkFind_job_def requiredFieldsMissingFromReadOneInput_job_def found_job_def
      jobARN_defaulted Let_def split: prod.split sum.split)

lemma sdkFind_job_returns:
  assumes run: "sdkFind_job lib rm ord ko s = (s', Inr (Some ko', None))"
  obtains w resp name answer where
    "api_GetJob (sdkapi rm) (newDescribeRequestPayload_job ko) (world s) = (w, Inr (Some resp))"
    "sdk_Job.Name resp = Some name"
    "api_GetTags (api_tags (sdkapi rm)) (job_arn_with (metadata_after_job rm ko) name) w = (world s', answer)"
    "ko' = (found_job lib rm ord resp name ko)\<lparr>Spec := (read_JobSpec lib ord resp (Spec ko))\<lparr>JobSpec.Tags :=
       (case answer of Inl e \<Rightarrow> None | Inr t \<Rightarrow> Some (fmmap Some t))\<rparr>\<rparr>"
proof -
  have name: "JobSpec.Name (Spec ko) \<noteq> None"
  proof
    assume "JobSpec.Name (Spec ko) = None"
    with run show False by (simp add: sdkFind_job_def requiredFieldsMissingFromReadOneInput_job_def)
  qed
  obtain w out where call: "api_GetJob (sdkapi rm) (newDescribeRequestPayload_job ko) (world s) = (w, out)"
    by fastforce
  have "\<exists>resp n. out = Inr (Some resp) \<and> sdk_Job.Name resp = Some n"
    using run name call
    by (cases out) (auto simp: sdkFind_job_def requiredFieldsMissingFromReadOneInput_job_def deref_def
        jobARN_defaulted Let_def split: option.splits)
  then obtain resp n where found: "out = Inr (Some resp)" "sdk_Job.Name resp = Some n" by blast
  obtain w' answer where tags:
    "api_GetTags (api_tags (sdkapi rm)) (job_arn_with (metadata_after_job rm ko) n) w = (w', answer)"
    by fastforce
  show ?thesis
    using run sdkFind_job_found [OF name call [unfolded found(1)] found(2), of lib ord] tags
    by (intro that [OF call [unfolded found(1)] found(2), of answer])
      (auto simp: found_job_simps(2) getTags_job_def GetResourceTags_def GetResourceTags_value Let_def
        split: sum.splits)
qed

text \<open>
  C29: A job whose tags cannot be read is still reported as read: when GetTags fails, sdkFind drops
  the error and returns the job with nil tags, so the caller takes a tagged job for an untagged one.
\<close>
theorem sdkFind_job_drops_tag_error:
  assumes name: "JobSpec.Name (Spec ko) \<noteq> None"
    and "api_GetJob (sdkapi rm) (newDescribeRequestPayload_job ko) (world s) = (w, Inr (Some resp))"
    and "sdk_Job.Name resp = Some n"
    and tags: "\<And>arn. \<exists>w'. api_GetTags (api_tags (sdkapi rm)) arn w = (w', Inl e)"
  shows "\<exists>s' ko'. sdkFind_job lib rm ord ko s = (s', Inr (Some ko', None)) \<and>
    JobSpec.Tags (Spec ko') = None \<and>
    calls s' = calls s @ [(''READ_ONE'', ''GetJob'', None), (''GET'', ''ListTagsForResource'', Some e)]"
proof -
  obtain w' where "api_GetTags (api_tags (sdkapi rm)) (job_arn_with (metadata_after_job rm ko) n) w = (w', Inl e)"
    using tags by blast
  then show ?thesis
    by (simp add: sdkFind_job_found [OF assms(1-3)] getTags_job_def GetResourceTags_def Let_def)
qed

text \<open>
  C30: A job that is read gets an ARN in the partition "aws" whatever the controller's partition: the
  ARN in the metadata sdkFind returns starts with arn:aws:glue and carries the metadata's region and
  account and the name in the response; and it is under this ARN that sdkFind calls GetTags, on the
  account as GetJob left it, so the tags of the result are the tags of that ARN.
\<close>
theorem sdkFind_job_arn_partition:
  assumes "sdkFind_job lib rm ord ko s = (s', Inr (Some ko', None))"
  shows "\<exists>md r a n arn answer. ACKResourceMetadata (Job.Status ko') = Some md \<and>
    ResourceMetadata.Region md = Some r \<and> OwnerAccountID md = Some a \<and> JobSpec.Name (Spec ko') = Some n \<and>
    arn = ''arn:aws:glue:'' @ r @ '':'' @ a @ '':job/'' @ n \<and> ARN md = Some arn \<and>
    (ACKResourceMetadata (Job.Status ko) = None \<longrightarrow> Partition md = Some (awsPartition rm)) \<and>
    api_GetTags (api_tags (sdkapi rm)) arn
      (fst (api_GetJob (sdkapi rm) (newDescribeRequestPayload_job ko) (world s))) = (world s', answer) \<and>
    JobSpec.Tags (Spec ko') = (case answer of Inl e \<Rightarrow> None | Inr t \<Rightarrow> Some (fmmap Some t))"
proof -
  let ?md = "metadata_after_job rm ko"
  from assms obtain w resp n answer where
    get: "api_GetJob (sdkapi rm) (newDescribeRequestPayload_job ko) (world s) = (w, Inr (Some resp))"
    and name: "sdk_Job.Name resp = Some n"
    and tags: "api_GetTags (api_tags (sdkapi rm)) (job_arn_with ?md n) w = (world s', answer)"
    and ko': "ko' = (found_job lib rm ord resp n ko)\<lparr>Spec := (read_JobSpec lib ord resp (Spec ko))\<lparr>JobSpec.Tags :=
       (case answer of Inl e \<Rightarrow> None | Inr t \<Rightarrow> Some (fmmap Some t))\<rparr>\<rparr>"
    by (rule sdkFind_job_returns)
  obtain r a where md: "ResourceMetadata.Region ?md = Some r" "OwnerAccountID ?md = Some a"
    using job_metadata_defaulted(2,3) [of rm ko] by blast
  let ?arn = "job_arn_with ?md n"
  have part: "ACKResourceMetadata (Job.Status ko) = None \<longrightarrow> Partition (?md\<lparr>ARN := Some ?arn\<rparr>) = Some (awsPartition rm)"
    by (simp add: metadata_after_job_def status_defaults_def empty_metadata_def Let_def)
  have arn: "?arn = ''arn:aws:glue:'' @ r @ '':'' @ a @ '':job/'' @ n"
    by (simp only: job_arn_with_def md option.sel)
  have result: "ACKResourceMetadata (Job.Status ko') = Some (?md\<lparr>ARN := Some ?arn\<rparr>)"
    "JobSpec.Name (Spec ko') = Some n"
    "JobSpec.Tags (Spec ko') = (case answer of Inl e \<Rightarrow> None | Inr t \<Rightarrow> Some (fmmap Some t))"
    by (simp_all add: ko' found_job_simps(1) name)
  have called: "api_GetTags (api_tags (sdkapi rm)) ?arn
      (fst (api_GetJob (sdkapi rm) (newDescribeRequestPayload_job ko) (world s))) = (world s', answer)"
    by (simp only: get fst_conv tags)
  have fields: "ResourceMetadata.Region (?md\<lparr>ARN := Some ?arn\<rparr>) = Some r" "OwnerAccountID (?md\<lparr>ARN := Some ?arn\<rparr>) = Some a"
    "ARN (?md\<lparr>ARN := Some ?arn\<rparr>) = Some ?arn"
    by (simp_all add: md)
  show ?thesis
    by (intro exI [of _ "?md\<lparr>ARN := Some ?arn\<rparr>"] exI [of _ r] exI [of _ a] exI [of _ n] exI [of _ ?arn]
        exI [of _ answer] conjI)
      (rule result fields arn part called)+
qed

theorem sdkFind_job_drops_tag_error_witness:
  "\<exists>s' ko'. sdkFind_job go_library (sample_job_rm (silent_account (Errorf ''denied'')) sample_job_response)
      sorted_order sample_job sample_env = (s', Inr (Some ko', None)) \<and> JobSpec.Tags (Spec ko') = None"
proof -
  let ?rm = "sample_job_rm (silent_account (Errorf ''denied'')) sample_job_response"
  have "JobSpec.Name (Spec sample_job) \<noteq> None"
    "api_GetJob (sdkapi ?rm) (newDescribeRequestPayload_job sample_job) (world sample_env) =
       (world sample_env, Inr (Some sample_job_response))"
    "sdk_Job.Name sample_job_response = Some ''j''"
    "\<exists>w'. api_GetTags (api_tags (sdkapi ?rm)) arn (world sample_env) = (w', Inl (Errorf ''denied''))" for arn
    by (simp_all add: sample_job_def sample_job_spec_def sample_job_rm_def sample_job_response_def
        silent_account_def)
  from sdkFind_job_drops_tag_error [OF this, of go_library sorted_order] show ?thesis by blast
qed

theorem sdkFind_job_arn_partition_witness:
  "\<exists>s' ko' md. sdkFind_job go_library (sample_job_rm tag_account sample_job_response)
      sorted_order sample_job sample_env = (s', Inr (Some ko', None)) \<and>
    ACKResourceMetadata (Job.Status ko') = Some md \<and> Partition md = Some ''aws-cn'' \<and>
    (\<exists>rest. ARN md = Some (''arn:aws:glue:'' @ rest) \<and>
       JobSpec.Tags (Spec ko') = Some (fmmap Some (world sample_env (''arn:aws:glue:'' @ rest))))"
proof -
  let ?rm = "sample_job_rm tag_account sample_job_response :: (gerror, string \<Rightarrow> tags) resourceManager_job"
  obtain s' ko' where run: "sdkFind_job go_library ?rm sorted_order sample_job sample_env = (s', Inr (Some ko', None))"
    by (simp add: sdkFind_job_def requiredFieldsMissingFromReadOneInput_job_def sample_job_def sample_job_spec_def
        sample_job_rm_def sample_job_response_def read_JobSpec_def setStatusDefaults_job_def status_defaults_def
        empty_metadata_def jobARN_def getTags_job_def GetResourceTags_def tag_account_def Let_def map_read_def)
  have "ACKResourceMetadata (Job.Status sample_job) = None" "awsPartition ?rm = ''aws-cn''"
    by (simp_all add: sample_job_def sample_job_rm_def)
  note partition = this
  from sdkFind_job_arn_partition [OF run] show ?thesis
  proof (elim exE conjE)
    fix md r a n arn answer
    assume md: "ACKResourceMetadata (Job.Status ko') = Some md" "ARN md = Some arn"
        "arn = ''arn:aws:glue:'' @ r @ '':'' @ a @ '':job/'' @ n"
        "ACKResourceMetadata (Job.Status sample_job) = None \<longrightarrow> Partition md = Some (awsPartition ?rm)"
      and tags: "api_GetTags (api_tags (sdkapi ?rm)) arn
        (fst (api_GetJob (sdkapi ?rm) (newDescribeRequestPayload_job sample_job) (world sample_env))) = (world s', answer)"
        "JobSpec.Tags (Spec ko') = (case answer of Inl e \<Rightarrow> None | Inr t \<Rightarrow> Some (fmmap Some t))"
    have "JobSpec.Tags (Spec ko') = Some (fmmap Some (world sample_env arn))"
      using tags by (auto simp: sample_job_rm_def tag_account_def)
    moreover have "Partition md = Some ''aws-cn''" using md(4) partition by simp
    ultimately show ?thesis
      using run md(1,2) unfolding md(3)
      by (intro exI [of _ s'] exI [of _ ko'] exI [of _ md] exI [of _ "r @ '':'' @ a @ '':job/'' @ n"] conjI)
  qed
qed

section \<open>References\<close>

text \<open>
  C31: ResolveReferences never lets a job use a role that is not ready: when it reports references and
  no error, Role is the ARN of the role the reader found, that role has no true Terminal condition
  and a true ResourceSynced one, the namespace passed the cross-namespace check, exactly one of Role
  and RoleRef was given, and nothing but Role has changed.
\<close>
theorem ResolveReferences_job_safe:
  assumes "ResolveReferences_job lib rm rd ko = Inr (ko', True, None)"
  shows "\<exists>ref arr name ns obj arn. JobSpec.RoleRef (Spec ko) = Some ref \<and> From ref = Some arr \<and>
    AWSResourceReference.Name arr = Some name \<and> name \<noteq> '''' \<and>
    ackrt_ValidateCrossNamespaceReference lib (cfg_EnableCrossNamespace rm)
      (ObjectMeta.Namespace (Job.ObjectMeta ko)) (AWSResourceReference.Namespace arr) name = Inr ns \<and>
    rd ns name = Inr obj \<and> usable_role obj arn \<and>
    ko' = ko\<lparr>Spec := (Spec ko)\<lparr>JobSpec.Role := Some arn\<rparr>\<rparr> \<and> JobSpec.Role (Spec ko) = None"
proof -
  have res: "resolveReferenceForRole lib rm rd ko = Inr (True, None, ko')" "validateReferenceFields_job lib ko = None"
    using assms by (auto simp: ResolveReferences_job_def Let_def and_then_eq_Inr split: if_splits)
  from res(1) show ?thesis
  proof (rule resolveReferenceForRole_ok)
    fix ref arr name ns obj arn
    assume path: "JobSpec.RoleRef (Spec ko) = Some ref" "From ref = Some arr"
      "AWSResourceReference.Name arr = Some name" "name \<noteq> ''''"
      "ackrt_ValidateCrossNamespaceReference lib (cfg_EnableCrossNamespace rm)
         (ObjectMeta.Namespace (Job.ObjectMeta ko)) (AWSResourceReference.Namespace arr) name = Inr ns"
      "rd ns name = Inr obj" "usable_role obj arn"
      "ko' = ko\<lparr>Spec := (Spec ko)\<lparr>JobSpec.Role := Some arn\<rparr>\<rparr>"
    moreover have "JobSpec.Role (Spec ko) = None"
      using res(2) path(1) by (auto simp: validateReferenceFields_job_def split: if_splits)
    ultimately show ?thesis by blast
  qed
qed

text \<open>
  C32: Clearing undoes resolving: whatever ResolveReferences did, on success or on an error, clearing
  the resolved references of its result gives what clearing them beforehand gives, and that is the
  original job when it named its role in only one of the two ways. It returns no result only by
  panicking, on a nil element of the conditions of a role the reader found.
\<close>
theorem ClearResolvedReferences_job_undoes:
  "(case ResolveReferences_job lib rm rd ko of
      Inl stop \<Rightarrow> stop = GoPanic \<and> (\<exists>ns n obj. rd ns n = Inr obj \<and> \<not> no_nil (iam_Role.Status obj))
    | Inr (ko', has, err) \<Rightarrow> ClearResolvedReferences_job ko' = ClearResolvedReferences_job ko) \<and>
   (JobSpec.RoleRef (Spec ko) \<noteq> None \<and> JobSpec.Role (Spec ko) \<noteq> None \<or>
    ClearResolvedReferences_job ko = ko)"
proof -
  have cleared: "ClearResolvedReferences_job ko' = ClearResolvedReferences_job ko"
    if run: "resolveReferenceForRole lib rm rd ko = Inr (has, err, ko')" for has err ko'
  proof (cases "JobSpec.RoleRef (Spec ko) = None")
    case True
    with run show ?thesis by (simp add: resolveReferenceForRole_def)
  next
    case False
    obtain r where "ko' = ko\<lparr>Spec := (Spec ko)\<lparr>JobSpec.Role := r\<rparr>\<rparr>"
      using resolveReferenceForRole_other [OF run] by blast
    with False show ?thesis by (simp add: ClearResolvedReferences_job_def)
  qed
  have "case ResolveReferences_job lib rm rd ko of
      Inl stop \<Rightarrow> stop = GoPanic \<and> (\<exists>ns n obj. rd ns n = Inr obj \<and> \<not> no_nil (iam_Role.Status obj))
    | Inr (ko', has, err) \<Rightarrow> ClearResolvedReferences_job ko' = ClearResolvedReferences_job ko"
  proof (cases "resolveReferenceForRole lib rm rd ko")
    case (Inl stop)
    with resolveReferenceForRole_panics [OF Inl] show ?thesis by (simp add: ResolveReferences_job_def)
  next
    case (Inr res)
    with cleared show ?thesis by (cases res) (auto simp: ResolveReferences_job_def)
  qed
  moreover have "ClearResolvedReferences_job ko = ko" if "JobSpec.Role (Spec ko) = None"
  proof -
    have "ko\<lparr>Spec := (Spec ko)\<lparr>JobSpec.Role := JobSpec.Role (Spec ko)\<rparr>\<rparr> = ko" by simp
    then show ?thesis by (simp only: that ClearResolvedReferences_job_def if_cancel)
  qed
  moreover have "ClearResolvedReferences_job ko = ko" if "JobSpec.RoleRef (Spec ko) = None"
    by (simp add: that ClearResolvedReferences_job_def)
  ultimately show ?thesis by blast
qed

text \<open>
  C33: A job that gives both Role and a usable RoleRef is rejected only after its Role has been
  overwritten: ResolveReferences returns the validation error, but in the object it was given the user's
  Role is already replaced by the ARN of the role the reader found for the reference, and nothing else
  has changed.
\<close>
theorem ResolveReferences_job_overwrites:
  assumes "JobSpec.Role (Spec ko) = Some user"
    and "resolveReferenceForRole lib rm rd ko = Inr (True, None, ko')"
  shows "ResolveReferences_job lib rm rd ko =
      Inr (ko', True, Some (ackerr_ResourceReferenceAndIDNotSupportedFor lib ''Role'' ''RoleRef'')) \<and>
    (\<exists>ref arr name ns obj arn. JobSpec.RoleRef (Spec ko) = Some ref \<and> From ref = Some arr \<and>
       AWSResourceReference.Name arr = Some name \<and>
       ackrt_ValidateCrossNamespaceReference lib (cfg_EnableCrossNamespace rm)
         (ObjectMeta.Namespace (Job.ObjectMeta ko)) (AWSResourceReference.Namespace arr) name = Inr ns \<and>
       rd ns name = Inr obj \<and> usable_role obj arn \<and>
       ko' = ko\<lparr>Spec := (Spec ko)\<lparr>JobSpec.Role := Some arn\<rparr>\<rparr>)"
  using assms(2)
proof (rule resolveReferenceForRole_ok)
  fix ref arr name ns obj arn
  assume path: "JobSpec.RoleRef (Spec ko) = Some ref" "From ref = Some arr"
    "AWSResourceReference.Name arr = Some name"
    "ackrt_ValidateCrossNamespaceReference lib (cfg_EnableCrossNamespace rm)
       (ObjectMeta.Namespace (Job.ObjectMeta ko)) (AWSResourceReference.Namespace arr) name = Inr ns"
    "rd ns name = Inr obj" "usable_role obj arn"
    "ko' = ko\<lparr>Spec := (Spec ko)\<lparr>JobSpec.Role := Some arn\<rparr>\<rparr>"
  have "ResolveReferences_job lib rm rd ko =
      Inr (ko', True, Some (ackerr_ResourceReferenceAndIDNotSupportedFor lib ''Role'' ''RoleRef''))"
    using assms path(1) by (simp add: ResolveReferences_job_def validateReferenceFields_job_def)
  with path show ?thesis by blast
qed

subsection \<open>A concrete role\<close>

definition ready_role :: iam_Role where
  "ready_role = \<lparr>iam_Role.Status = \<lparr>ACKResourceMetadata = Some (empty_metadata\<lparr>ARN := Some ''arn:role''\<rparr>),
     Conditions = Some [Some \<lparr>Condition.Type = ConditionTypeResourceSynced, Condition.Status = ConditionTrue,
       LastTransitionTime = None, Reason = None, Message = None\<rparr>]\<rparr>\<rparr>"

definition role_ref :: AWSResourceReferenceWrapper where
  "role_ref = \<lparr>From = Some \<lparr>AWSResourceReference.Name = Some ''role'', AWSResourceReference.Namespace = None\<rparr>\<rparr>"

definition job_with_role :: "string ptr \<Rightarrow> Job" where
  "job_with_role role = sample_job\<lparr>Spec := sample_job_spec\<lparr>JobSpec.Role := role, JobSpec.RoleRef := Some role_ref\<rparr>\<rparr>"

lemma role_resolves:
  "resolveReferenceForRole go_library rm (\<lambda>ns n. Inr ready_role) (job_with_role role) =
     Inr (True, None, job_with_role (Some ''arn:role''))"
  by (simp add: resolveReferenceForRole_def job_with_role_def role_ref_def go_library_def
      getReferencedResourceState_Role_def ready_role_def condition_ptrs_def is_terminal_def is_synced_def)

theorem ResolveReferences_job_safe_witness:
  "ResolveReferences_job go_library (sample_job_rm tag_account sample_job_response) (\<lambda>ns n. Inr ready_role)
      (job_with_role None) = Inr (job_with_role (Some ''arn:role''), True, None) \<and>
    (\<exists>arn. usable_role ready_role arn)"
proof -
  let ?rm = "sample_job_rm tag_account sample_job_response"
  have run: "ResolveReferences_job go_library ?rm (\<lambda>ns n. Inr ready_role) (job_with_role None) =
      Inr (job_with_role (Some ''arn:role''), True, None)"
    by (simp add: ResolveReferences_job_def role_resolves) (simp add: validateReferenceFields_job_def job_with_role_def)
  from ResolveReferences_job_safe [OF run] run show ?thesis by auto
qed

theorem ResolveReferences_job_overwrites_witness:
  "\<exists>e. ResolveReferences_job go_library (sample_job_rm tag_account sample_job_response)
      (\<lambda>ns n. Inr ready_role) (job_with_role (Some ''mine'')) = Inr (job_with_role (Some ''arn:role''), True, Some e)"
proof -
  have "JobSpec.Role (Spec (job_with_role (Some ''mine''))) = Some ''mine''"
    by (simp add: job_with_role_def)
  from ResolveReferences_job_overwrites [OF this role_resolves] show ?thesis by blast
qed

theorem ClearResolvedReferences_job_undoes_witness:
  "\<exists>ko' has err. ResolveReferences_job go_library (sample_job_rm tag_account sample_job_response)
      (\<lambda>ns n. Inr ready_role) (job_with_role None) = Inr (ko', has, err) \<and>
    JobSpec.Role (Spec ko') = Some ''arn:role'' \<and> ClearResolvedReferences_job ko' = job_with_role None"
proof -
  let ?rm = "sample_job_rm tag_account sample_job_response"
  have run: "ResolveReferences_job go_library ?rm (\<lambda>ns n. Inr ready_role) (job_with_role None) =
      Inr (job_with_role (Some ''arn:role''), True, None)"
    by (simp add: ResolveReferences_job_def role_resolves) (simp add: validateReferenceFields_job_def job_with_role_def)
  have roles: "JobSpec.Role (Spec (job_with_role r)) = r" for r
    by (simp add: job_with_role_def)
  show ?thesis
    using ClearResolvedReferences_job_undoes [where lib = go_library and rm = ?rm
        and rd = "\<lambda>ns n. Inr ready_role" and ko = "job_with_role None"] run
    by (auto simp: roles)
qed

end
