(* ===== verification/Job_Reconcile.thy ===== *)
theory Job_Reconcile
  imports Job_Properties Reconcile_Base
begin

text \<open>
  One pass of the reconciler over a Job, as Database_Reconcile for databases. UpdateJob overwrites the
  whole definition; the service keeps a definition in which there is nothing left for it to choose
  (\<open>complete\<close>) as it is. Under that, an update that succeeds is followed by a read that differs from
  the desired job in no field, for every tree of code generation nodes.
\<close>

section \<open>The account\<close>

definition get_job_law :: "('e, 'w) jobClient \<Rightarrow> ('w \<Rightarrow> string \<Rightarrow> sdk_Job option) \<Rightarrow> bool" where
  "get_job_law client store \<longleftrightarrow> (\<forall>k n w out. sdk_JobKey.JobName k = Some n \<longrightarrow>
     snd (api_GetJob client k w) = Inr (Some out) \<longrightarrow>
       fst (api_GetJob client k w) = w \<and> store w n = Some out \<and> sdk_Job.Name out = Some n)"

text \<open>
  The definition the service keeps is that of the request, but for the deprecated AllocatedCapacity,
  which GetJob answers separately.
\<close>

definition kept_definition :: "sdk_JobUpdate \<Rightarrow> sdk_JobUpdate" where
  "kept_definition u = u\<lparr>sdk_JobUpdate.AllocatedCapacity := 0\<rparr>"

definition update_job_law ::
  "('e, 'w) jobClient \<Rightarrow> ('w \<Rightarrow> string \<Rightarrow> sdk_Job option) \<Rightarrow> ('w \<Rightarrow> string \<Rightarrow> tags) \<Rightarrow>
     (sdk_JobUpdate \<Rightarrow> bool) \<Rightarrow> bool" where
  "update_job_law client store tags_of complete \<longleftrightarrow> (\<forall>i n u w r. sdk_UpdateJobInput.JobName i = Some n \<and>
     sdk_UpdateJobInput.JobUpdate i = Some u \<and> complete u \<and> snd (api_UpdateJob client i w) = Inr r \<longrightarrow>
       (\<exists>d. store (fst (api_UpdateJob client i w)) = (store w)(n := Some d) \<and>
          update_of_response d = kept_definition u \<and> sdk_Job.Name d = Some n) \<and>
       tags_of (fst (api_UpdateJob client i w)) = tags_of w)"

definition job_service ::
  "('e, 'w) jobClient \<Rightarrow> ('w \<Rightarrow> string \<Rightarrow> sdk_Job option) \<Rightarrow> ('w \<Rightarrow> string \<Rightarrow> tags) \<Rightarrow>
     (sdk_JobUpdate \<Rightarrow> bool) \<Rightarrow> bool" where
  "job_service client store tags_of complete \<longleftrightarrow>
     get_job_law client store \<and> update_job_law client store tags_of complete \<and>
     apart_law (api_tags client) store \<and> tag_service (api_tags client) tags_of"

text \<open>
  CreateJob files the job under its name, with the tags of the request at the ARN \<open>arn_of n\<close> that the
  service gives it, and answers with the name.
\<close>

definition given_tags :: "string gomap option \<Rightarrow> tags" where
  "given_tags m = (case m of None \<Rightarrow> fmempty | Some t \<Rightarrow> t)"

definition create_job_law ::
  "('e, 'w) jobClient \<Rightarrow> ('w \<Rightarrow> string \<Rightarrow> sdk_Job option) \<Rightarrow> ('w \<Rightarrow> string \<Rightarrow> tags) \<Rightarrow>
     (sdk_JobUpdate \<Rightarrow> bool) \<Rightarrow> (string \<Rightarrow> string) \<Rightarrow> bool" where
  "create_job_law client store tags_of complete arn_of \<longleftrightarrow> (\<forall>i n w answer. sdk_CreateJobInput.Name i = Some n \<and>
     complete (update_of_create i) \<and> snd (api_CreateJob client i w) = Inr answer \<longrightarrow>
       answer = Some n \<and>
       (\<exists>d. store (fst (api_CreateJob client i w)) = (store w)(n := Some d) \<and>
          update_of_response d = kept_definition (update_of_create i) \<and> sdk_Job.Name d = Some n) \<and>
       tags_of (fst (api_CreateJob client i w)) = (tags_of w)(arn_of n := given_tags (sdk_CreateJobInput.Tags i)))"

text \<open>sdkFind for jobs drops the error of GetTags, so that nothing is known unless it cannot fail.\<close>

definition tags_readable :: "('e, 'w) tagsClient \<Rightarrow> bool" where
  "tags_readable client \<longleftrightarrow> (\<forall>arn w. \<exists>ts. snd (api_GetTags client arn w) = Inr ts)"

section \<open>Reading\<close>

lemma sdkFind_job_result:
  assumes run: "sdkFind_job lib rm ord ko s = (s', Inr (Some ko', None))"
    and readable: "tags_readable (api_tags (sdkapi rm))"
  obtains w resp name tags where "JobSpec.Name (Spec ko) \<noteq> None"
    "api_GetJob (sdkapi rm) (newDescribeRequestPayload_job ko) (world s) = (w, Inr (Some resp))"
    "sdk_Job.Name resp = Some name"
    "snd (api_GetTags (api_tags (sdkapi rm)) (job_arn_with (metadata_after_job rm ko) name) w) = Inr tags"
    "world s' = fst (api_GetTags (api_tags (sdkapi rm)) (job_arn_with (metadata_after_job rm ko) name) w)"
    "Spec ko' = (read_JobSpec lib ord resp (Spec ko))\<lparr>JobSpec.Tags := Some (fmmap Some tags)\<rparr>"
    "and_ptr (ACKResourceMetadata (Job.Status ko')) ARN = Some (job_arn_with (metadata_after_job rm ko) name)"
proof -
  have name: "JobSpec.Name (Spec ko) \<noteq> None"
    using run by (rule contrapos_pn)
      (simp add: sdkFind_job_def requiredFieldsMissingFromReadOneInput_job_def)
  obtain w out where call: "api_GetJob (sdkapi rm) (newDescribeRequestPayload_job ko) (world s) = (w, out)"
    by fastforce
  have "\<exists>resp n. out = Inr (Some resp) \<and> sdk_Job.Name resp = Some n"
    using run name call
    by (cases out) (auto simp: sdkFind_job_def requiredFieldsMissingFromReadOneInput_job_def deref_def
        jobARN_defaulted Let_def split: option.splits)
  then obtain resp n where found: "out = Inr (Some resp)" "sdk_Job.Name resp = Some n" by blast
  obtain tags where tags: "snd (api_GetTags (api_tags (sdkapi rm)) (job_arn_with (metadata_after_job rm ko) n) w) = Inr tags"
    using readable unfolding tags_readable_def by blast
  show thesis
    by (rule that [OF name call [unfolded found(1)] found(2) tags])
      (use run tags sdkFind_job_found [OF name call [unfolded found(1)] found(2), of lib ord] in
        \<open>auto simp: getTags_job_def GetResourceTags_def GetResourceTags_value found_job_simps Let_def\<close>)
qed

lemma sdkFind_job_from_service:
  assumes service: "job_service (sdkapi rm) store tags_of complete" "tags_readable (api_tags (sdkapi rm))"
    and name: "JobSpec.Name (Spec ko) = Some n"
    and find: "sdkFind_job lib rm ord ko s = (s', Inr (Some ko', None))"
    and arn: "arn = job_arn_with (metadata_after_job rm ko) n"
  shows "world s' = world s" "and_ptr (ACKResourceMetadata (Job.Status ko')) ARN = Some arn"
    and "\<exists>d. store (world s) n = Some d \<and> Spec ko' =
      (read_JobSpec lib ord d (Spec ko))\<lparr>JobSpec.Tags := Some (fmmap Some (tags_of (world s) arn))\<rparr>"
proof -
  from find service(2) obtain w d m tags where
    get: "api_GetJob (sdkapi rm) (newDescribeRequestPayload_job ko) (world s) = (w, Inr (Some d))"
    and dname: "sdk_Job.Name d = Some m"
    and tags: "snd (api_GetTags (api_tags (sdkapi rm)) (job_arn_with (metadata_after_job rm ko) m) w) = Inr tags"
      "world s' = fst (api_GetTags (api_tags (sdkapi rm)) (job_arn_with (metadata_after_job rm ko) m) w)"
    and ko': "Spec ko' = (read_JobSpec lib ord d (Spec ko))\<lparr>JobSpec.Tags := Some (fmmap Some tags)\<rparr>"
      "and_ptr (ACKResourceMetadata (Job.Status ko')) ARN = Some (job_arn_with (metadata_after_job rm ko) m)"
    by (rule sdkFind_job_result)
  have "sdk_JobKey.JobName (newDescribeRequestPayload_job ko) = Some n"
    using name by (simp add: newDescribeRequestPayload_job_def)
  moreover have "get_job_law (sdkapi rm) store" using service by (simp add: job_service_def)
  ultimately have stored: "w = world s" "store (world s) n = Some d" "m = n"
    using get dname unfolding get_job_law_def by (metis fst_conv snd_conv option.inject)+
  have "tag_service (api_tags (sdkapi rm)) tags_of" using service by (simp add: job_service_def)
  from tag_serviceD(3) [OF this tags(1)] tags(2) stored
  have w: "world s' = world s" "tags = tags_of (world s) arn" by (simp_all add: arn)
  show "world s' = world s" by (rule w)
  show "and_ptr (ACKResourceMetadata (Job.Status ko')) ARN = Some arn" using ko'(2) by (simp add: arn stored)
  show "\<exists>d. store (world s) n = Some d \<and> Spec ko' =
      (read_JobSpec lib ord d (Spec ko))\<lparr>JobSpec.Tags := Some (fmmap Some (tags_of (world s) arn))\<rparr>"
    using stored ko'(1) w by blast
qed

text \<open>The order in which a read ranges over the maps of a response does not change the spec.\<close>

lemma read_any_order: "read_JobSpec lib ord resp spec = read_JobSpec lib ord' resp spec"
proof -
  have options: "read_JDBCConnectorOptions lib ord = read_JDBCConnectorOptions lib ord'"
    by (simp add: fun_eq_iff read_JDBCConnectorOptions_def range_copy_eq [abs_def])
  have source: "read_JDBCConnectorSource lib ord = read_JDBCConnectorSource lib ord'"
    by (rule ext) (simp only: read_JDBCConnectorSource_def options)
  have "read_CodeGenConfigurationNode lib ord = read_CodeGenConfigurationNode lib ord'"
    by (rule ext) (simp only: read_CodeGenConfigurationNode_def source)
  then show ?thesis by (simp only: read_JobSpec_def map_read_def range_copy_eq [abs_def])
qed

text \<open>A spec read from a stored job is determined by the definition and the name that were stored.\<close>

lemma read_childless_node: "read_CodeGenConfigurationNode lib ord (childless_node x) = read_CodeGenConfigurationNode lib ord x"
proof -
  have "slice_read (read_Mapping lib) (map_option (map childless_Mapping) ms) = slice_read (read_Mapping lib) ms" for ms
    by (cases ms) (simp_all add: slice_read_def read_Mapping_def childless_Mapping_def)
  then have "read_ApplyMapping lib (childless_ApplyMapping a) = read_ApplyMapping lib a" for a
    by (simp add: read_ApplyMapping_def childless_ApplyMapping_def)
  then have "map_option (read_ApplyMapping lib) (map_option childless_ApplyMapping p) = map_option (read_ApplyMapping lib) p" for p
    by (cases p) simp_all
  then show ?thesis by (simp add: read_CodeGenConfigurationNode_def childless_node_def)
qed

lemma read_without_children: "read_JobSpec lib ord (without_children r) spec = read_JobSpec lib ord r spec"
proof -
  have nodes: "map_read ord (read_CodeGenConfigurationNode lib ord) (map_option (fmmap childless_node) m) =
      map_read ord (read_CodeGenConfigurationNode lib ord) m" for m
    by (cases m) (simp_all add: map_read_def range_copy_eq read_childless_node fmap.map_comp o_def)
  have "sdk_Job.CodeGenConfigurationNodes (without_children r) =
      map_option (fmmap childless_node) (sdk_Job.CodeGenConfigurationNodes r)"
    by (simp add: without_children_def)
  moreover have "update_of_response (without_children r) = (update_of_response r)\<lparr>
      sdk_JobUpdate.CodeGenConfigurationNodes := sdk_Job.CodeGenConfigurationNodes (without_children r)\<rparr>"
    by (simp add: update_of_response_def without_children_def)
  ultimately show ?thesis
    by (simp add: read_JobSpec_def nodes) (simp add: without_children_def)
qed

lemma read_same_definition:
  assumes "update_of_response d = update_of_response r" "sdk_Job.Name d = sdk_Job.Name r"
  shows "read_JobSpec lib ord d spec = read_JobSpec lib ord r spec"
  using assms by (simp add: read_JobSpec_def update_of_response_def)

lemma read_stored_definition:
  assumes "update_of_response d = update_of_response (without_children r)" "sdk_Job.Name d = sdk_Job.Name r"
    and "read_JobSpec lib ord r spec = spec"
  shows "read_JobSpec lib ord' d spec = spec"
proof -
  have "read_JobSpec lib ord d spec = read_JobSpec lib ord (without_children r) spec"
    by (rule read_same_definition [OF assms(1)]) (simp add: assms(2) without_children_def)
  then show ?thesis
    by (simp only: read_any_order [of lib ord' d spec ord] read_without_children assms(3))
qed

lemma kept_response [simp]: "kept_definition (update_of_response r) = update_of_response r"
  by (simp add: kept_definition_def update_of_response_def)

section \<open>The differences a read leaves\<close>

lemma job_not_below_tags:
  "\<not> path_below ''Spec.CodeGenConfigurationNodes'' ''Spec.Tags''"
  "\<not> path_below ''Spec.Command'' ''Spec.Tags''"
  "\<not> path_below ''Spec.Command.Name'' ''Spec.Tags''"
  "\<not> path_below ''Spec.Command.PythonVersion'' ''Spec.Tags''"
  "\<not> path_below ''Spec.Command.Runtime'' ''Spec.Tags''"
  "\<not> path_below ''Spec.Command.ScriptLocation'' ''Spec.Tags''"
  "\<not> path_below ''Spec.Connections'' ''Spec.Tags''"
  "\<not> path_below ''Spec.Connections.Connections'' ''Spec.Tags''"
  "\<not> path_below ''Spec.DefaultArguments'' ''Spec.Tags''"
  "\<not> path_below ''Spec.Description'' ''Spec.Tags''"
  "\<not> path_below ''Spec.ExecutionClass'' ''Spec.Tags''"
  "\<not> path_below ''Spec.ExecutionProperty'' ''Spec.Tags''"
  "\<not> path_below ''Spec.ExecutionProperty.MaxConcurrentRuns'' ''Spec.Tags''"
  "\<not> path_below ''Spec.GlueVersion'' ''Spec.Tags''"
  "\<not> path_below ''Spec.JobMode'' ''Spec.Tags''"
  "\<not> path_below ''Spec.JobRunQueuingEnabled'' ''Spec.Tags''"
  "\<not> path_below ''Spec.LogURI'' ''Spec.Tags''"
  "\<not> path_below ''Spec.MaintenanceWindow'' ''Spec.Tags''"
  "\<not> path_below ''Spec.MaxCapacity'' ''Spec.Tags''"
  "\<not> path_below ''Spec.MaxRetries'' ''Spec.Tags''"
  "\<not> path_below ''Spec.Name'' ''Spec.Tags''"
  "\<not> path_below ''Spec.NonOverridableArguments'' ''Spec.Tags''"
  "\<not> path_below ''Spec.NotificationProperty'' ''Spec.Tags''"
  "\<not> path_below ''Spec.NotificationProperty.NotifyDelayAfter'' ''Spec.Tags''"
  "\<not> path_below ''Spec.NumberOfWorkers'' ''Spec.Tags''"
  "\<not> path_below ''Spec.Role'' ''Spec.Tags''"
  "\<not> path_below ''Spec.RoleRef'' ''Spec.Tags''"
  "\<not> path_below ''Spec.SecurityConfiguration'' ''Spec.Tags''"
  "\<not> path_below ''Spec.SourceControlDetails'' ''Spec.Tags''"
  "\<not> path_below ''Spec.SourceControlDetails.AuthStrategy'' ''Spec.Tags''"
  "\<not> path_below ''Spec.SourceControlDetails.AuthToken'' ''Spec.Tags''"
  "\<not> path_below ''Spec.SourceControlDetails.Branch'' ''Spec.Tags''"
  "\<not> path_below ''Spec.SourceControlDetails.Folder'' ''Spec.Tags''"
  "\<not> path_below ''Spec.SourceControlDetails.LastCommitID'' ''Spec.Tags''"
  "\<not> path_below ''Spec.SourceControlDetails.Owner'' ''Spec.Tags''"
  "\<not> path_below ''Spec.SourceControlDetails.Provider'' ''Spec.Tags''"
  "\<not> path_below ''Spec.SourceControlDetails.Repository'' ''Spec.Tags''"
  "\<not> path_below ''Spec.Timeout'' ''Spec.Tags''"
  "\<not> path_below ''Spec.WorkerType'' ''Spec.Tags''"
  "path_below ''Spec.Tags'' ''Spec.Tags''"
  by (simp_all add: path_below_def)

lemmas nested_job_paths = JobCommand_paths_def ConnectionsList_paths_def ExecutionProperty_paths_def
  NotificationProperty_paths_def SourceControlDetails_paths_def

lemma job_below_tags:
  assumes "p \<in> set (job_spec_paths cmp a b)"
  shows "path_below p ''Spec.Tags'' \<longleftrightarrow> p = ''Spec.Tags''"
proof -
  let ?P = "list_all (\<lambda>p. path_below p ''Spec.Tags'' \<longleftrightarrow> p = ''Spec.Tags'')"
  have struct: "?P (struct_paths sub path u v)"
    if "\<And>x y. ?P (sub x y)" "\<not> path_below path ''Spec.Tags''" "path \<noteq> ''Spec.Tags''" for sub path and u v :: "'z option"
    using that by (auto simp: struct_paths_def when_differs_def split: option.split)
  have "?P (job_spec_paths cmp a b)"
    unfolding job_spec_paths_def list_all_append
    by (intro conjI struct) (simp_all add: when_differs_def nested_job_paths job_not_below_tags)
  with assms show ?thesis by (auto simp: list_all_iff)
qed

lemma job_no_tags_path:
  assumes "tag_view (JobSpec.Tags a) = tag_view (JobSpec.Tags b)"
  shows "''Spec.Tags'' \<notin> set (job_spec_paths cmp a b)"
proof -
  let ?P = "list_all (\<lambda>p. p \<noteq> ''Spec.Tags'')"
  have struct: "?P (struct_paths sub path u v)"
    if "\<And>x y. ?P (sub x y)" "path \<noteq> ''Spec.Tags''" for sub path and u v :: "'z option"
    using that by (auto simp: struct_paths_def when_differs_def split: option.split)
  have "?P (job_spec_paths cmp a b)"
    unfolding job_spec_paths_def list_all_append assms
    by (intro conjI struct) (simp_all add: when_differs_def nested_job_paths)
  then show ?thesis by (auto simp: list_all_iff)
qed

lemma job_spec_but_tags:
  "JobSpec.CodeGenConfigurationNodes (b\<lparr>JobSpec.Tags := t\<rparr>) = JobSpec.CodeGenConfigurationNodes b"
  "JobSpec.Command (b\<lparr>JobSpec.Tags := t\<rparr>) = JobSpec.Command b"
  "JobSpec.Connections (b\<lparr>JobSpec.Tags := t\<rparr>) = JobSpec.Connections b"
  "JobSpec.DefaultArguments (b\<lparr>JobSpec.Tags := t\<rparr>) = JobSpec.DefaultArguments b"
  "JobSpec.Description (b\<lparr>JobSpec.Tags := t\<rparr>) = JobSpec.Description b"
  "JobSpec.ExecutionClass (b\<lparr>JobSpec.Tags := t\<rparr>) = JobSpec.ExecutionClass b"
  "JobSpec.ExecutionProperty (b\<lparr>JobSpec.Tags := t\<rparr>) = JobSpec.ExecutionProperty b"
  "JobSpec.GlueVersion (b\<lparr>JobSpec.Tags := t\<rparr>) = JobSpec.GlueVersion b"
  "JobSpec.JobMode (b\<lparr>JobSpec.Tags := t\<rparr>) = JobSpec.JobMode b"
  "JobSpec.JobRunQueuingEnabled (b\<lparr>JobSpec.Tags := t\<rparr>) = JobSpec.JobRunQueuingEnabled b"
  "JobSpec.LogURI (b\<lparr>JobSpec.Tags := t\<rparr>) = JobSpec.LogURI b"
  "JobSpec.MaintenanceWindow (b\<lparr>JobSpec.Tags := t\<rparr>) = JobSpec.MaintenanceWindow b"
  "JobSpec.MaxCapacity (b\<lparr>JobSpec.Tags := t\<rparr>) = JobSpec.MaxCapacity b"
  "JobSpec.MaxRetries (b\<lparr>JobSpec.Tags := t\<rparr>) = JobSpec.MaxRetries b"
  "JobSpec.Name (b\<lparr>JobSpec.Tags := t\<rparr>) = JobSpec.Name b"
  "JobSpec.NonOverridableArguments (b\<lparr>JobSpec.Tags := t\<rparr>) = JobSpec.NonOverridableArguments b"
  "JobSpec.NotificationProperty (b\<lparr>JobSpec.Tags := t\<rparr>) = JobSpec.NotificationProperty b"
  "JobSpec.NumberOfWorkers (b\<lparr>JobSpec.Tags := t\<rparr>) = JobSpec.NumberOfWorkers b"
  "JobSpec.Role (b\<lparr>JobSpec.Tags := t\<rparr>) = JobSpec.Role b"
  "JobSpec.RoleRef (b\<lparr>JobSpec.Tags := t\<rparr>) = JobSpec.RoleRef b"
  "JobSpec.SecurityConfiguration (b\<lparr>JobSpec.Tags := t\<rparr>) = JobSpec.SecurityConfiguration b"
  "JobSpec.SourceControlDetails (b\<lparr>JobSpec.Tags := t\<rparr>) = JobSpec.SourceControlDetails b"
  "JobSpec.Timeout (b\<lparr>JobSpec.Tags := t\<rparr>) = JobSpec.Timeout b"
  "JobSpec.WorkerType (b\<lparr>JobSpec.Tags := t\<rparr>) = JobSpec.WorkerType b"
  by simp_all

text \<open>Two lists with the same pieces in the same order, but for one.\<close>

lemma subset_append_same: "set xs \<subseteq> set ys \<union> T \<Longrightarrow> set (ws @ xs) \<subseteq> set (ws @ ys) \<union> T"
  by auto

lemma subset_append_new: "set us \<subseteq> T \<Longrightarrow> set xs \<subseteq> set ys \<union> T \<Longrightarrow> set (us @ xs) \<subseteq> set (vs @ ys) \<union> T"
  by auto

lemma when_differs_subset: "set (when_differs c p) \<subseteq> {p}"
  by (auto simp: when_differs_def)

lemma subset_one_empty: "X \<subseteq> Y \<union> {p} \<Longrightarrow> p \<notin> X \<Longrightarrow> Y \<subseteq> {p} \<Longrightarrow> X = {}"
  by blast

lemma job_spec_paths_settled:
  assumes "set (job_spec_paths cmp a b) \<subseteq> {''Spec.Tags''}" and "tag_view (JobSpec.Tags a) = tag_view t"
  shows "job_spec_paths cmp a (b\<lparr>JobSpec.Tags := t\<rparr>) = []"
proof -
  let ?new = "job_spec_paths cmp a (b\<lparr>JobSpec.Tags := t\<rparr>)"
  have "set ?new \<subseteq> set (job_spec_paths cmp a b) \<union> {''Spec.Tags''}"
    unfolding job_spec_paths_def job_spec_but_tags
    by (rule Un_upper1 subset_append_same subset_append_new when_differs_subset)+
  moreover have "''Spec.Tags'' \<notin> set ?new" using assms(2) by (intro job_no_tags_path) simp
  ultimately have "set ?new = {}" by (rule subset_one_empty [OF _ _ assms(1)])
  then show ?thesis by simp
qed

lemma job_spec_paths_same:
  assumes "value_laws cmp nil_job zero_job" "reflexive_law cmp nan_free" "spec_no_nan a"
    and "tag_view (JobSpec.Tags a) = tag_view t"
  shows "job_spec_paths cmp a (a\<lparr>JobSpec.Tags := t\<rparr>) = []"
  by (rule job_spec_paths_settled [OF _ assms(4)]) (simp add: job_paths_refl [OF assms(1-3)])

lemma no_job_delta:
  assumes "delta_laws cmp paths below" "value_laws cmp nil_job zero_job"
    and "job_spec_paths cmp (Spec a) (Spec b) = []"
  shows "\<exists>d. newResourceDelta_job cmp ord (Some \<lparr>resource_ko = Some a\<rparr>) (Some \<lparr>resource_ko = Some b\<rparr>) =
    Inr d \<and> paths d = []"
  using paths_diff_JobSpec [OF assms(1,2), of ord "Spec a" "Spec b" "NewDelta cmp"] assms(3)
  by (simp add: newResourceDelta_job_def delta_lawsD(1) [OF assms(1)])

section \<open>One pass of the reconciler\<close>

lemma sdkUpdate_job_success:
  assumes "sdkUpdate_job lib cmp rm ord desired latest delta s = (s', Inr (Some u, None))"
    and payload: "job_update lib ord (Spec desired) = Inr upd"
  obtains t where
    "(if DifferentAt cmp delta ''Spec.Tags'' then syncTags_job lib rm ord desired latest s
      else (s, Inr None)) = (t, Inr None)"
    "\<not> DifferentExcept cmp delta ''Spec.Tags'' \<longrightarrow> s' = t"
    "DifferentExcept cmp delta ''Spec.Tags'' \<longrightarrow> (\<exists>r input.
       input = \<lparr>sdk_UpdateJobInput.JobName = JobSpec.Name (Spec desired), sdk_UpdateJobInput.JobUpdate = Some upd\<rparr> \<and>
       snd (api_UpdateJob (sdkapi rm) input (world t)) = Inr r \<and>
       world s' = fst (api_UpdateJob (sdkapi rm) input (world t)))"
proof -
  obtain t synced where step: "(if DifferentAt cmp delta ''Spec.Tags'' then
      syncTags_job lib rm ord desired latest s else (s, Inr None)) = (t, synced)" by fastforce
  have input: "newJobUpdate lib ord desired (newUpdateRequestPayload_job desired) =
      Inr \<lparr>sdk_UpdateJobInput.JobName = JobSpec.Name (Spec desired), sdk_UpdateJobInput.JobUpdate = Some upd\<rparr>"
    by (simp add: newJobUpdate_def payload newUpdateRequestPayload_job_def)
  from assms(1) [unfolded sdkUpdate_job_def step Let_def prod.case input proceed.simps] show thesis
  proof (rule proceed_success, goal_cases)
    case (1 err)
    show ?case
    proof (rule that)
      show "(if DifferentAt cmp delta ''Spec.Tags'' then syncTags_job lib rm ord desired latest s
        else (s, Inr None)) = (t, Inr None)" using step 1 by (auto split: if_splits)
    qed (use 1(2) in \<open>auto split: if_splits sum.splits\<close>)
  qed
qed

lemma job_tags_brought_in_sync:
  assumes service: "job_service (sdkapi rm) store tags_of complete" and "tag_laws lib"
    and arn: "and_ptr (ACKResourceMetadata (Job.Status latest)) ARN = Some arn"
    and tags: "tag_view (JobSpec.Tags (Spec latest)) = tags_of (world s) arn"
    and run: "(if c then syncTags_job lib rm ord desired latest s else (s, Inr None)) = (s', Inr None)"
    and skip: "\<not> c \<Longrightarrow> tag_view (JobSpec.Tags (Spec desired)) = tag_view (JobSpec.Tags (Spec latest))"
  shows "store (world s') = store (world s)"
    and "tags_of (world s') arn = tag_view (JobSpec.Tags (Spec desired))"
proof -
  have laws: "apart_law (api_tags (sdkapi rm)) store" "tag_service (api_tags (sdkapi rm)) tags_of"
    using service by (simp_all add: job_service_def)
  have sync: "SyncResourceTags lib (api_tags (sdkapi rm)) ord arn (JobSpec.Tags (Spec desired))
      (JobSpec.Tags (Spec latest)) (convertToOrderedACKTags_job ord) s = (s', None)" if c
  proof -
    obtain md where "ACKResourceMetadata (Job.Status latest) = Some md" "ARN md = Some arn"
      using arn by (cases "ACKResourceMetadata (Job.Status latest)") auto
    with run that show ?thesis by (simp add: syncTags_job_def case_prod_beta prod_eq_iff)
  qed
  have "store (world s') = store (world s) \<and> tags_of (world s') arn = tag_view (JobSpec.Tags (Spec desired))"
    by (rule tag_step [OF laws assms(2) job_tags.convert_view tags sync, of c])
      (use run skip in auto)
  then show "store (world s') = store (world s)"
    "tags_of (world s') arn = tag_view (JobSpec.Tags (Spec desired))" by simp_all
qed

lemma paths_of_job_delta:
  assumes "delta_laws cmp paths below" "value_laws cmp nil_job zero_job"
    and "newResourceDelta_job cmp ord (Some \<lparr>resource_ko = Some a\<rparr>) (Some \<lparr>resource_ko = Some b\<rparr>) = Inr d"
  shows "paths d = job_spec_paths cmp (Spec a) (Spec b)"
  using assms(3) paths_diff_JobSpec [OF assms(1,2), of ord "Spec a" "Spec b" "NewDelta cmp"]
  by (simp add: newResourceDelta_job_def delta_lawsD(1) [OF assms(1)])

lemma job_tags_path: "tag_view (JobSpec.Tags a) \<noteq> tag_view (JobSpec.Tags b) \<Longrightarrow>
    ''Spec.Tags'' \<in> set (job_spec_paths cmp a b)"
  by (simp add: job_spec_paths_def when_differs_def del: tag_view_simps)

text \<open>What the call of UpdateJob leaves: a job that reads as the desired definition.\<close>

lemma updated_job_stored:
  assumes service: "job_service client store tags_of complete"
    and canonical: "read_JobSpec lib ord r spec = spec" "complete (update_of_response (without_children r))"
    and name: "JobSpec.Name spec = Some n"
    and call: "input = \<lparr>sdk_UpdateJobInput.JobName = Some n,
        sdk_UpdateJobInput.JobUpdate = Some (update_of_response (without_children r))\<rparr>"
      "snd (api_UpdateJob client input w) = Inr out"
  shows "\<exists>d. store (fst (api_UpdateJob client input w)) n = Some d \<and> (\<forall>ord'. read_JobSpec lib ord' d spec = spec) \<and>
    tags_of (fst (api_UpdateJob client input w)) = tags_of w"
proof -
  let ?u = "update_of_response (without_children r)"
  have "sdk_Job.Name r = JobSpec.Name (read_JobSpec lib ord r spec)" by (simp add: read_JobSpec_def)
  then have rname: "sdk_Job.Name r = Some n" by (simp add: canonical(1) name)
  have "update_job_law client store tags_of complete" using service by (simp add: job_service_def)
  moreover have "sdk_UpdateJobInput.JobName input = Some n \<and>
      sdk_UpdateJobInput.JobUpdate input = Some ?u \<and> complete ?u \<and> snd (api_UpdateJob client input w) = Inr out"
    using call canonical(2) by simp
  ultimately have "(\<exists>d. store (fst (api_UpdateJob client input w)) = (store w)(n := Some d) \<and>
      update_of_response d = kept_definition ?u \<and> sdk_Job.Name d = Some n) \<and>
      tags_of (fst (api_UpdateJob client input w)) = tags_of w"
    unfolding update_job_law_def by blast
  then obtain d where d: "store (fst (api_UpdateJob client input w)) n = Some d" "update_of_response d = ?u"
      "sdk_Job.Name d = sdk_Job.Name r" "tags_of (fst (api_UpdateJob client input w)) = tags_of w"
    by (auto simp: rname)
  with read_stored_definition [OF d(2,3) canonical(1)] show ?thesis by blast
qed

text \<open>
  C2: An update of a Job settles: take a Job whose definition leaves the service nothing to choose and
  is one that some GetJob response describes (in particular every number fits its 32 bits), read it,
  compare, and let sdkUpdate succeed on the differences found; then the next read differs from
  the desired resource in no field: the tree of code generation nodes, the nested structures and the
  tags included, in whatever orders the runtime ranges over the maps. No float of the definition,
  MaxCapacity or one in the nodes, may be a NaN, which the comparison takes to differ from itself; and
  GetTags must not fail, since sdkFind drops its error.
\<close>
theorem sdkUpdate_job_settles:
  fixes lib :: "'e golib"
  assumes laws: "conversion_laws lib" "tag_laws lib"
    and cmp: "delta_laws cmp paths path_below" "value_laws cmp nil_job zero_job" "reflexive_law cmp nan_free"
    and service: "job_service (sdkapi rm) store tags_of complete" "tags_readable (api_tags (sdkapi rm))"
    and desired: "JobSpec.Name (Spec desired) = Some n" "spec_no_nan (Spec desired)"
      "read_JobSpec lib ord r (Spec desired) = Spec desired"
      "complete (update_of_response (without_children r))"
    and read: "sdkFind_job lib rm ord0 desired s0 = (s1, Inr (Some latest, None))"
    and compare: "newResourceDelta_job cmp ord1 (Some \<lparr>resource_ko = Some desired\<rparr>)
        (Some \<lparr>resource_ko = Some latest\<rparr>) = (Inr delta :: ('e, 'd) outcome)"
    and update: "sdkUpdate_job lib cmp rm ord2 desired latest delta s1 = (s2, Inr (Some u, None))"
    and again: "sdkFind_job lib rm ord3 desired s2 = (s3, Inr (Some latest', None))"
  shows "\<exists>delta'. newResourceDelta_job cmp ord4 (Some \<lparr>resource_ko = Some desired\<rparr>)
        (Some \<lparr>resource_ko = Some latest'\<rparr>) = (Inr delta' :: ('e, 'd) outcome) \<and> paths delta' = []"
proof (rule no_job_delta [OF cmp(1,2)])
  let ?arn = "job_arn_with (metadata_after_job rm desired) n"
  let ?spec = "Spec desired"
  let ?tags = "DifferentAt cmp delta ''Spec.Tags''"
  note first = sdkFind_job_from_service [OF service desired(1) read refl]
  note second = sdkFind_job_from_service [OF service desired(1) again refl]
  obtain d where d: "store (world s0) n = Some d" "Spec latest =
      (read_JobSpec lib ord0 d ?spec)\<lparr>JobSpec.Tags := Some (fmmap Some (tags_of (world s0) ?arn))\<rparr>"
    using first(3) by blast
  obtain d' where d': "store (world s2) n = Some d'" "Spec latest' =
      (read_JobSpec lib ord3 d' ?spec)\<lparr>JobSpec.Tags := Some (fmmap Some (tags_of (world s2) ?arn))\<rparr>"
    using second(3) by blast
  note delta = paths_of_job_delta [OF cmp(1,2) compare]
  let ?u = "update_of_response (without_children r)"
  have payload: "job_update lib ord2 ?spec = (Inr ?u :: ('e, _) outcome)"
    using job_update_of_read [OF laws(1), of ord2 ord r ?spec] by (simp only: desired(3))
  from sdkUpdate_job_success [OF update payload] obtain t where
    tagged: "(if ?tags then syncTags_job lib rm ord2 desired latest s1 else (s1, Inr None)) = (t, Inr None)"
    and unchanged: "\<not> DifferentExcept cmp delta ''Spec.Tags'' \<longrightarrow> s2 = t"
    and called: "DifferentExcept cmp delta ''Spec.Tags'' \<longrightarrow> (\<exists>out input.
       input = \<lparr>sdk_UpdateJobInput.JobName = JobSpec.Name ?spec,
         sdk_UpdateJobInput.JobUpdate = Some ?u\<rparr> \<and>
       snd (api_UpdateJob (sdkapi rm) input (world t)) = Inr out \<and>
       world s2 = fst (api_UpdateJob (sdkapi rm) input (world t)))"
    by blast
  have same: "tag_view (JobSpec.Tags ?spec) = tag_view (JobSpec.Tags (Spec latest))" if "\<not> ?tags"
    using that job_tags_path [of ?spec "Spec latest" cmp] job_not_below_tags(40)
    by (auto simp: delta_lawsD(3) [OF cmp(1)] delta)
  have view: "tag_view (JobSpec.Tags (Spec latest)) = tags_of (world s1) ?arn" using d(2) first(1) by simp
  note sync = job_tags_brought_in_sync [OF service(1) laws(2) first(2) view tagged same]
  let ?latest_tags = "Some (fmmap Some (tags_of (world s2) ?arn))"
  show "job_spec_paths cmp ?spec (Spec latest') = []"
  proof (cases "DifferentExcept cmp delta ''Spec.Tags''")
    case False
    with unchanged have "s2 = t" by blast
    with sync first(1) d d' have eq: "d' = d" and tags: "tags_of (world s2) ?arn = tag_view (JobSpec.Tags ?spec)"
      by simp_all
    have "set (job_spec_paths cmp ?spec (Spec latest)) \<subseteq> {''Spec.Tags''}"
      using False job_below_tags [of _ cmp ?spec "Spec latest"]
      by (auto simp: delta_lawsD(4) [OF cmp(1)] delta)
    from job_spec_paths_settled [OF this, of ?latest_tags]
    show ?thesis using d(2) d'(2) eq tags by (simp add: read_any_order [of lib ord3 d ?spec ord0])
  next
    case True
    with called obtain out where
      call: "snd (api_UpdateJob (sdkapi rm) \<lparr>sdk_UpdateJobInput.JobName = Some n,
        sdk_UpdateJobInput.JobUpdate = Some ?u\<rparr> (world t)) = Inr out"
      "world s2 = fst (api_UpdateJob (sdkapi rm) \<lparr>sdk_UpdateJobInput.JobName = Some n,
        sdk_UpdateJobInput.JobUpdate = Some ?u\<rparr> (world t))"
      by (auto simp: desired(1))
    from updated_job_stored [OF service(1) desired(3,4,1) refl call(1)] obtain e where
      e: "store (world s2) n = Some e" "\<forall>ord'. read_JobSpec lib ord' e ?spec = ?spec"
        "tags_of (world s2) = tags_of (world t)"
      unfolding call(2) by blast
    with sync d'(1) have "d' = e" and tags: "tag_view (JobSpec.Tags ?spec) = tag_view ?latest_tags" by simp_all
    with d'(2) e(2) have "Spec latest' = ?spec\<lparr>JobSpec.Tags := ?latest_tags\<rparr>" by simp
    with job_spec_paths_same [OF cmp(2,3) desired(2) tags] show ?thesis by simp
  qed
qed

text \<open>sdkCreate when it succeeds.\<close>

lemma sdkCreate_job_success:
  assumes "sdkCreate_job lib rm ord desired s = (s', Inr (Some created, None))"
  obtains i name where "newCreateRequestPayload_job lib ord (Spec desired) = Inr i"
    "snd (api_CreateJob (sdkapi rm) i (world s)) = Inr name"
    "world s' = fst (api_CreateJob (sdkapi rm) i (world s))"
    "created = setStatusDefaults_job rm (desired\<lparr>Spec := (Spec desired)\<lparr>JobSpec.Name := name\<rparr>\<rparr>)"
  using assms [unfolded sdkCreate_job_def]
proof (rule proceed_success, goal_cases)
  case (1 i)
  show ?case
    by (rule that [of i "case snd (api_CreateJob (sdkapi rm) i (world s)) of Inl e \<Rightarrow> None | Inr n \<Rightarrow> n"])
      (use 1 in \<open>auto simp: Let_def post_create_job_def split: sum.splits\<close>)
qed

lemma metadata_after_create_job:
  "metadata_after_job rm (setStatusDefaults_job rm ko) = metadata_after_job rm ko"
  by (cases "ACKResourceMetadata (Job.Status ko)")
    (auto simp: metadata_after_job_def setStatusDefaults_job_def status_defaults_def or_default_def Let_def
      split: option.split)

text \<open>The request for a definition that a response describes carries that response.\<close>

lemma create_payload_canonical:
  assumes "conversion_laws lib" "read_JobSpec lib ord r spec = spec"
    and "newCreateRequestPayload_job lib ord' spec = Inr i"
  shows "update_of_create i = update_of_response (without_children r)" "sdk_CreateJobInput.Name i = JobSpec.Name spec"
    "sdk_CreateJobInput.Tags i = map_option (aws_ToStringMap lib) (JobSpec.Tags spec)"
proof -
  have "job_update lib ord' spec = Inr (update_of_response (without_children r))"
    using job_update_of_read [OF assms(1), of ord' ord r spec] by (simp only: assms(2))
  then show "update_of_create i = update_of_response (without_children r)" by (simp add: job_update_create assms(3))
  show "sdk_CreateJobInput.Name i = JobSpec.Name spec"
    "sdk_CreateJobInput.Tags i = map_option (aws_ToStringMap lib) (JobSpec.Tags spec)"
    using assms(3) by (auto simp: newCreateRequestPayload_job_def and_then_eq_Inr)
qed


section \<open>A concrete account\<close>

text \<open>
  Jobs and tags, in maps. The account chooses a Glue version where the definition has none, so that
  a definition is complete when it names one.
\<close>

type_synonym job_account = "(string \<Rightarrow> sdk_JobUpdate option) \<times> (string \<Rightarrow> tags)"

definition job_as_stored :: "string \<Rightarrow> sdk_JobUpdate \<Rightarrow> sdk_Job" where
  "job_as_stored n u = \<lparr>
     sdk_Job.AllocatedCapacity = 5,
     sdk_Job.CodeGenConfigurationNodes = sdk_JobUpdate.CodeGenConfigurationNodes u,
     sdk_Job.Command = sdk_JobUpdate.Command u,
     sdk_Job.Connections = sdk_JobUpdate.Connections u,
     sdk_Job.CreatedOn = Some 1,
     sdk_Job.DefaultArguments = sdk_JobUpdate.DefaultArguments u,
     sdk_Job.Description = sdk_JobUpdate.Description u,
     sdk_Job.ExecutionClass = sdk_JobUpdate.ExecutionClass u,
     sdk_Job.ExecutionProperty = sdk_JobUpdate.ExecutionProperty u,
     sdk_Job.GlueVersion = sdk_JobUpdate.GlueVersion u,
     sdk_Job.JobMode = sdk_JobUpdate.JobMode u,
     sdk_Job.JobRunQueuingEnabled = sdk_JobUpdate.JobRunQueuingEnabled u,
     sdk_Job.LastModifiedOn = Some 2,
     sdk_Job.LogUri = sdk_JobUpdate.LogUri u,
     sdk_Job.MaintenanceWindow = sdk_JobUpdate.MaintenanceWindow u,
     sdk_Job.MaxCapacity = sdk_JobUpdate.MaxCapacity u,
     sdk_Job.MaxRetries = sdk_JobUpdate.MaxRetries u,
     sdk_Job.Name = Some n,
     sdk_Job.NonOverridableArguments = sdk_JobUpdate.NonOverridableArguments u,
     sdk_Job.NotificationProperty = sdk_JobUpdate.NotificationProperty u,
     sdk_Job.NumberOfWorkers = sdk_JobUpdate.NumberOfWorkers u,
     sdk_Job.ProfileName = None,
     sdk_Job.Role = sdk_JobUpdate.Role u,
     sdk_Job.SecurityConfiguration = sdk_JobUpdate.SecurityConfiguration u,
     sdk_Job.SourceControlDetails = sdk_JobUpdate.SourceControlDetails u,
     sdk_Job.Timeout = sdk_JobUpdate.Timeout u,
     sdk_Job.WorkerType = sdk_JobUpdate.WorkerType u\<rparr>"

lemma update_of_stored: "update_of_response (job_as_stored n u) = kept_definition u" "sdk_Job.Name (job_as_stored n u) = Some n"
  by (simp_all add: update_of_response_def job_as_stored_def kept_definition_def)

definition choose_version :: "sdk_JobUpdate \<Rightarrow> sdk_JobUpdate" where
  "choose_version u = (case sdk_JobUpdate.GlueVersion u of
     None \<Rightarrow> u\<lparr>sdk_JobUpdate.GlueVersion := Some ''0.9''\<rparr> | Some v \<Rightarrow> u)"

definition names_version :: "sdk_JobUpdate \<Rightarrow> bool" where
  "names_version u \<longleftrightarrow> sdk_JobUpdate.GlueVersion u \<noteq> None"

definition job_account_store :: "job_account \<Rightarrow> string \<Rightarrow> sdk_Job option" where
  "job_account_store w n = map_option (job_as_stored n) (fst w n)"

definition job_account_arn :: "string \<Rightarrow> string" where
  "job_account_arn n = ''arn:aws:glue:r:1:job/'' @ n"

definition job_account_client :: "(gerror, job_account) jobClient" where
  "job_account_client = \<lparr>
     api_tags = \<lparr>api_GetTags = (\<lambda>arn w. (w, Inr (snd w arn))),
       api_TagResource = (\<lambda>arn ts w. ((fst w, (snd w)(arn := snd w arn ++\<^sub>f ts)), None)),
       api_UntagResource = (\<lambda>arn ks w. ((fst w, (snd w)(arn := fmdrop_set (set ks) (snd w arn))), None))\<rparr>,
     api_GetJob = (\<lambda>k w. (w, case sdk_JobKey.JobName k of
         None \<Rightarrow> Inl (Errorf ''no name'')
       | Some n \<Rightarrow> (case job_account_store w n of
           None \<Rightarrow> Inl (APIError ''EntityNotFoundException'' n) | Some d \<Rightarrow> Inr (Some d)))),
     api_CreateJob = (\<lambda>i w. case sdk_CreateJobInput.Name i of
         None \<Rightarrow> (w, Inl (Errorf ''no name''))
       | Some n \<Rightarrow> (((fst w)(n := Some (choose_version (update_of_create i))),
           (snd w)(job_account_arn n := given_tags (sdk_CreateJobInput.Tags i))), Inr (Some n))),
     api_UpdateJob = (\<lambda>i w. case (sdk_UpdateJobInput.JobName i, sdk_UpdateJobInput.JobUpdate i) of
         (Some n, Some u) \<Rightarrow> (((fst w)(n := Some (choose_version u)), snd w), Inr (Some n))
       | _ \<Rightarrow> (w, Inl (Errorf ''no name''))),
     api_DeleteJob = (\<lambda>k w. case sdk_JobKey.JobName k of
         None \<Rightarrow> (w, Some (Errorf ''no name'')) | Some n \<Rightarrow> (((fst w)(n := None), snd w), None))\<rparr>"

definition job_account_rm :: "(gerror, job_account) resourceManager_job" where
  "job_account_rm = \<lparr>awsAccountID = ''1'', awsRegion = ''r'', awsPartition = ''aws'',
     cfg_EnableCrossNamespace = False, sdkapi = job_account_client\<rparr>"

lemma job_account_service:
  "job_service (sdkapi job_account_rm) job_account_store snd names_version"
  "tags_readable (api_tags (sdkapi job_account_rm))"
proof -
  have store: "job_account_store ((fst w)(n := Some u), t) = (job_account_store w)(n := Some (job_as_stored n u))"
    for w :: job_account and n u t
    by (rule ext) (simp add: job_account_store_def)
  have "get_job_law job_account_client job_account_store"
    by (auto simp: get_job_law_def job_account_client_def job_account_store_def update_of_stored split: option.splits)
  moreover have "update_job_law job_account_client job_account_store snd names_version"
    by (auto simp: update_job_law_def job_account_client_def store names_version_def choose_version_def
        update_of_stored split: option.splits)
  moreover have "apart_law (api_tags job_account_client) job_account_store"
    by (auto simp: apart_law_def job_account_client_def job_account_store_def fun_eq_iff)
  moreover have "tag_service (api_tags job_account_client) snd"
    by (simp add: tag_service_def job_account_client_def)
  ultimately show "job_service (sdkapi job_account_rm) job_account_store snd names_version"
    by (simp add: job_service_def job_account_rm_def)
  show "tags_readable (api_tags (sdkapi job_account_rm))"
    by (simp add: tags_readable_def job_account_rm_def job_account_client_def)
qed

lemma job_account_find:
  assumes "JobSpec.Name (Spec ko) = Some n" "job_account_store (world s) n \<noteq> None"
  shows "\<exists>s' ko'. sdkFind_job go_library job_account_rm ord ko s = (s', Inr (Some ko', None))"
proof -
  obtain d where d: "job_account_store (world s) n = Some d" "sdk_Job.Name d = Some n"
    using assms(2) by (auto simp: job_account_store_def update_of_stored)
  have get: "api_GetJob (sdkapi job_account_rm) (newDescribeRequestPayload_job ko) (world s) = (world s, Inr (Some d))"
    using assms(1) d(1) by (simp add: job_account_rm_def job_account_client_def newDescribeRequestPayload_job_def)
  show ?thesis
    by (subst sdkFind_job_found [OF _ get d(2)])
      (simp_all add: assms(1) getTags_job_def GetResourceTags_def Let_def case_prod_beta)
qed

lemma job_account_sync:
  assumes "and_ptr (ACKResourceMetadata (Job.Status latest)) ARN = Some arn"
  shows "\<exists>t. (if c then syncTags_job go_library job_account_rm ord desired latest s else (s, Inr None)) =
      (t, Inr None) \<and> job_account_store (world t) = job_account_store (world s)"
proof -
  obtain md where md: "ACKResourceMetadata (Job.Status latest) = Some md" "ARN md = Some arn"
    using assms by (cases "ACKResourceMetadata (Job.Status latest)") auto
  have none: "snd (SyncResourceTags go_library (api_tags (sdkapi job_account_rm)) ord arn d l conv s) = None" for d l conv
    by (simp add: SyncResourceTags_eq [OF go_library_tags refl refl] untag_removed_def tag_added_def Let_def
        job_account_rm_def job_account_client_def)
  have apart: "apart_law (api_tags (sdkapi job_account_rm)) job_account_store"
    using job_account_service(1) by (simp add: job_service_def)
  show ?thesis
    using none SyncResourceTags_store [OF apart, of go_library ord arn _ _ _ s]
    by (auto simp: syncTags_job_def md case_prod_beta)
qed

lemma job_account_update:
  assumes arn: "and_ptr (ACKResourceMetadata (Job.Status latest)) ARN = Some arn"
    and payload: "job_update go_library ord (Spec desired) = (Inr upd :: (gerror, _) outcome)"
    and name: "JobSpec.Name (Spec desired) = Some n" "job_account_store (world s) n \<noteq> None"
  shows "\<exists>s' u. sdkUpdate_job go_library cmp job_account_rm ord desired latest delta s = (s', Inr (Some u, None)) \<and>
    job_account_store (world s') n \<noteq> None"
proof -
  from job_account_sync [OF arn, of "DifferentAt cmp delta ''Spec.Tags''" ord desired s] obtain t where
    t: "(if DifferentAt cmp delta ''Spec.Tags'' then syncTags_job go_library job_account_rm ord desired latest s
        else (s, Inr None)) = (t, Inr None)" "job_account_store (world t) = job_account_store (world s)" by blast
  show ?thesis
    using t(2) name
    by (simp add: sdkUpdate_job_def t(1) newJobUpdate_def newUpdateRequestPayload_job_def payload Let_def)
      (simp add: job_account_rm_def job_account_client_def job_account_store_def err_of_def)
qed

text \<open>The desired job is the sample response with another description, tagged.\<close>

definition sample_described :: "string \<Rightarrow> sdk_Job" where
  "sample_described text = sample_job_response\<lparr>sdk_Job.Description := Some text, sdk_Job.GlueVersion := Some ''4.0''\<rparr>"

definition sample_described_job :: Job where
  "sample_described_job = sample_job\<lparr>Spec := (read_JobSpec go_library sorted_order (sample_described ''new'')
     sample_job_spec)\<lparr>JobSpec.Tags := Some (fmap_of_list [(''kept'', Some ''3'')])\<rparr>\<rparr>"

definition sample_job_account :: "(gerror, job_account) env" where
  "sample_job_account = \<lparr>world = ((\<lambda>n. None)(''j'' := Some (update_of_response (sample_described ''d''))),
     \<lambda>arn. fmap_of_list [(''old'', ''1'')]), calls = []\<rparr>"

lemma sample_described_props:
  "JobSpec.Name (Spec sample_described_job) = Some ''j''"
  "spec_no_nan (Spec sample_described_job)"
  "read_JobSpec go_library sorted_order (sample_described ''new'') (Spec sample_described_job) = Spec sample_described_job"
  "names_version (update_of_response (without_children (sample_described text)))"
  "JobSpec.Description (Spec sample_described_job) = Some ''new''"
  "JobSpec.Description (read_JobSpec lib ord (sample_described text) spec) = Some text"
  by (simp_all add: sample_described_job_def sample_described_def sample_job_response_def read_JobSpec_def
      names_version_def update_of_response_def without_children_def spec_no_nan_def no_nan_def nodes_no_nan_def
      map_read_def)

lemma sample_described_update:
  "job_update go_library sorted_order (Spec sample_described_job) =
     (Inr (update_of_response (without_children (sample_described ''new''))) :: (gerror, _) outcome)"
  using job_update_of_read [OF go_library_conversion, of sorted_order sorted_order "sample_described ''new''"
      "Spec sample_described_job"]
  by (simp only: sample_described_props(3))

lemma sample_job_account_holds:
  "\<exists>d. job_account_store (world sample_job_account) ''j'' = Some d \<and> sdk_Job.Description d = Some ''d''"
  by (simp add: job_account_store_def sample_job_account_def job_as_stored_def update_of_response_def
      sample_described_def)

theorem sdkUpdate_job_settles_witness:
  "\<exists>s1 latest delta s2 u s3 latest' delta'.
     sdkFind_job go_library job_account_rm sorted_order sample_described_job sample_job_account = (s1, Inr (Some latest, None)) \<and>
     newResourceDelta_job sample_job_cmp sorted_order (Some \<lparr>resource_ko = Some sample_described_job\<rparr>)
       (Some \<lparr>resource_ko = Some latest\<rparr>) = (Inr delta :: (gerror, _) outcome) \<and>
     ''Spec.Description'' \<in> fst ` set delta \<and>
     sdkUpdate_job go_library sample_job_cmp job_account_rm sorted_order sample_described_job latest delta s1 = (s2, Inr (Some u, None)) \<and>
     sdkFind_job go_library job_account_rm sorted_order sample_described_job s2 = (s3, Inr (Some latest', None)) \<and>
     newResourceDelta_job sample_job_cmp sorted_order (Some \<lparr>resource_ko = Some sample_described_job\<rparr>)
       (Some \<lparr>resource_ko = Some latest'\<rparr>) = (Inr delta' :: (gerror, _) outcome) \<and> delta' = []"
proof -
  note props = sample_described_props
  obtain s1 latest where read: "sdkFind_job go_library job_account_rm sorted_order sample_described_job sample_job_account =
      (s1, Inr (Some latest, None))"
    using job_account_find [OF props(1), of sample_job_account sorted_order] sample_job_account_holds by auto
  note first = sdkFind_job_from_service [OF job_account_service props(1) read refl]
  obtain delta where delta: "newResourceDelta_job sample_job_cmp sorted_order
      (Some \<lparr>resource_ko = Some sample_described_job\<rparr>) (Some \<lparr>resource_ko = Some latest\<rparr>) = (Inr delta :: (gerror, _) outcome)"
    by (simp add: newResourceDelta_job_def)
  have "JobSpec.Description (Spec latest) = Some ''d''"
    using first(3) sample_job_account_holds by (auto simp: read_JobSpec_def)
  then have differs: "''Spec.Description'' \<in> fst ` set delta"
    using paths_of_job_delta [OF sample_job_cmp_laws(1,2) delta] props(5)
    by (simp add: job_spec_paths_def when_differs_def flip: list.set_map)
  from job_account_update [OF first(2) sample_described_update props(1), of s1 sample_job_cmp delta] obtain s2 u where
    update: "sdkUpdate_job go_library sample_job_cmp job_account_rm sorted_order sample_described_job latest delta s1 = (s2, Inr (Some u, None))"
    and held: "job_account_store (world s2) ''j'' \<noteq> None"
    using sample_job_account_holds by (auto simp: first(1))
  obtain s3 latest' where again: "sdkFind_job go_library job_account_rm sorted_order sample_described_job s2 = (s3, Inr (Some latest', None))"
    using job_account_find [OF props(1) held, of sorted_order] by blast
  from sdkUpdate_job_settles [OF go_library_conversion go_library_tags sample_job_cmp_laws
      job_account_service props(1-4) read delta update again]
  obtain delta' where "newResourceDelta_job sample_job_cmp sorted_order (Some \<lparr>resource_ko = Some sample_described_job\<rparr>)
       (Some \<lparr>resource_ko = Some latest'\<rparr>) = (Inr delta' :: (gerror, _) outcome)" "map fst delta' = []" by blast
  with read delta differs update again show ?thesis by simp
qed

lemma job_account_creation:
  "create_job_law (sdkapi job_account_rm) job_account_store snd names_version job_account_arn"
proof -
  have store: "job_account_store ((fst w)(n := Some u), t) = (job_account_store w)(n := Some (job_as_stored n u))"
    for w :: job_account and n u t
    by (rule ext) (simp add: job_account_store_def)
  show ?thesis
    by (auto simp: create_job_law_def job_account_rm_def job_account_client_def store names_version_def
        choose_version_def update_of_stored split: option.splits)
qed


end
