(* ===== verification/Job_Resource.thy ===== *)
theory Job_Resource
  imports Job_Types Ack_Status Ack_Lifecycle
begin

text \<open>
  pkg/resource/job/resource.go, identifiers.go and descriptor.go: what the reconciler asks of a
  job resource and of its descriptor. A resource is its non-nil \<open>ko\<close>; an operation that writes to it
  returns the new value. Finalizers and annotations are those of the object's metadata; the key of the
  adoption annotation is the runtime's, an argument here.
\<close>

section \<open>resource.go\<close>

definition IsBeingDeleted_job :: "'e golib \<Rightarrow> Job \<Rightarrow> bool" where
  "IsBeingDeleted_job lib r_ko \<longleftrightarrow> \<not> metav1_Time_IsZero lib (DeletionTimestamp (Job.ObjectMeta r_ko))"

definition Conditions_job :: "Job \<Rightarrow> Condition ptr slice" where
  "Conditions_job r_ko = ack_status.Conditions (Job.Status r_ko)"

definition ReplaceConditions_job :: "Condition ptr slice \<Rightarrow> Job \<Rightarrow> Job" where
  "ReplaceConditions_job conditions r_ko =
     r_ko\<lparr>Job.Status := (Job.Status r_ko)\<lparr>ack_status.Conditions := conditions\<rparr>\<rparr>"

definition SetObjectMeta_job :: "ObjectMeta \<Rightarrow> Job \<Rightarrow> Job" where
  "SetObjectMeta_job meta r_ko = r_ko\<lparr>Job.ObjectMeta := meta\<rparr>"

definition SetStatus_job :: "Job \<Rightarrow> Job \<Rightarrow> Job" where
  "SetStatus_job desired_ko r_ko = r_ko\<lparr>Job.Status := Job.Status desired_ko\<rparr>"

text \<open>The error, if any, and the resource afterwards.\<close>

definition SetIdentifiers_job :: "'e golib \<Rightarrow> AWSIdentifiers \<Rightarrow> Job \<Rightarrow> 'e option \<times> Job" where
  "SetIdentifiers_job lib identifier r_ko =
     (if NameOrID identifier = '''' then (Some (ackerr_MissingNameIdentifier lib), r_ko)
      else
        (let r_ko = r_ko\<lparr>Spec := (Spec r_ko)\<lparr>JobSpec.Name := Some (NameOrID identifier)\<rparr>\<rparr>
         in (None, r_ko)))"

definition PopulateResourceFromAnnotation_job ::
  "'e golib \<Rightarrow> string gomap \<Rightarrow> Job \<Rightarrow> 'e option \<times> Job" where
  "PopulateResourceFromAnnotation_job lib annotation r_ko =
     (case fmlookup annotation ''name'' of
        None \<Rightarrow> (Some (ackerr_NewTerminalError lib (fmt_Errorf lib ''required field missing: name'')), r_ko)
      | Some name \<Rightarrow>
          (let r_ko = r_ko\<lparr>Spec := (Spec r_ko)\<lparr>JobSpec.Name := Some name\<rparr>\<rparr>
           in (None, r_ko)))"

section \<open>identifiers.go\<close>

text \<open>The identifiers read the metadata of the status, nil when there is none.\<close>

definition Identifiers_job :: "Job \<Rightarrow> ResourceMetadata ptr" where
  "Identifiers_job r_ko = ACKResourceMetadata (Job.Status r_ko)"

definition identifiers_ARN_job :: "ResourceMetadata ptr \<Rightarrow> string ptr" where
  "identifiers_ARN_job meta = (case meta of Some md \<Rightarrow> ResourceMetadata.ARN md | None \<Rightarrow> None)"

definition identifiers_OwnerAccountID_job :: "ResourceMetadata ptr \<Rightarrow> string ptr" where
  "identifiers_OwnerAccountID_job meta =
     (case meta of Some md \<Rightarrow> ResourceMetadata.OwnerAccountID md | None \<Rightarrow> None)"

definition identifiers_Region_job :: "ResourceMetadata ptr \<Rightarrow> string ptr" where
  "identifiers_Region_job meta = (case meta of Some md \<Rightarrow> ResourceMetadata.Region md | None \<Rightarrow> None)"

definition identifiers_Partition_job :: "ResourceMetadata ptr \<Rightarrow> string ptr" where
  "identifiers_Partition_job meta = (case meta of Some md \<Rightarrow> ResourceMetadata.Partition md | None \<Rightarrow> None)"

section \<open>descriptor.go\<close>

definition FinalizerString_job :: string where
  "FinalizerString_job = ''finalizers.glue.services.k8s.aws/Job''"

fun containsFinalizer_job :: "string list \<Rightarrow> string \<Rightarrow> bool" where
  "containsFinalizer_job [] finalizer \<longleftrightarrow> False"
| "containsFinalizer_job (e # f) finalizer \<longleftrightarrow> (if e = finalizer then True else containsFinalizer_job f finalizer)"

definition IsManaged_job :: "Job \<Rightarrow> bool" where
  "IsManaged_job r_ko \<longleftrightarrow> containsFinalizer_job (Finalizers (Job.ObjectMeta r_ko)) FinalizerString_job"

definition MarkManaged_job :: "'e golib \<Rightarrow> Job \<Rightarrow> Job" where
  "MarkManaged_job lib r_ko = r_ko\<lparr>Job.ObjectMeta := (Job.ObjectMeta r_ko)\<lparr>Finalizers :=
     k8sctrlutil_AddFinalizer lib (Finalizers (Job.ObjectMeta r_ko)) FinalizerString_job\<rparr>\<rparr>"

definition MarkUnmanaged_job :: "'e golib \<Rightarrow> Job \<Rightarrow> Job" where
  "MarkUnmanaged_job lib r_ko = r_ko\<lparr>Job.ObjectMeta := (Job.ObjectMeta r_ko)\<lparr>Finalizers :=
     k8sctrlutil_RemoveFinalizer lib (Finalizers (Job.ObjectMeta r_ko)) FinalizerString_job\<rparr>\<rparr>"

definition MarkAdopted_job :: "string \<Rightarrow> Job \<Rightarrow> Job" where
  "MarkAdopted_job annotationAdopted r_ko =
     (let curr = (case Annotations (Job.ObjectMeta r_ko) of None \<Rightarrow> fmempty | Some m \<Rightarrow> m)
      in r_ko\<lparr>Job.ObjectMeta := (Job.ObjectMeta r_ko)\<lparr>Annotations :=
           Some (fmupd annotationAdopted ''true'' curr)\<rparr>\<rparr>)"

section \<open>The lifecycle contract\<close>

lemma containsFinalizer_job_iff [simp]: "containsFinalizer_job fs f \<longleftrightarrow> f \<in> set fs"
  by (induction fs) auto

text \<open>The interface the reconciler's lifecycle rests on, proved for this package's descriptor.\<close>

interpretation job_lifecycle: finalized lib "\<lambda>ko. set (Finalizers (Job.ObjectMeta ko))"
  FinalizerString_job IsManaged_job "MarkManaged_job lib" "MarkUnmanaged_job lib" for lib
  by unfold_locales
    (simp_all add: IsManaged_job_def MarkManaged_job_def MarkUnmanaged_job_def finalizer_laws_def)

end
