(* ===== verification/Manager_Factory.thy ===== *)
theory Manager_Factory
  imports Go_Prelude
begin

text \<open>
  pkg/resource/*/manager_factory.go: the factory that hands out one resource manager per account,
  region and role, from a map guarded by a read-write lock. The controller calls ManagerFor from
  many goroutines, so the model is a step relation: each call goes through the code's critical
  sections, one step per lock operation, and the steps of different calls interleave freely. The
  lock is sync.RWMutex: any number of readers or one writer.

  A manager has a \<open>serial\<close> (the pointer) and the fields of the code's struct. The client configuration,
  of type \<open>'a\<close>, and the logger, the metrics and the reconciler, of type \<open>'h\<close>, are values of the libraries
  that are only passed on; of the controller's configuration the fields the repository reads appear.
  An SDK client is known by the configuration it was made from. newResourceManager does not fail, so
  the error branch of the code is never taken.
\<close>

section \<open>The factory\<close>

record ackcfg_Config =
  Partition :: string
  EnableCrossNamespace :: bool

datatype 'a svcsdk_Client = NewFromConfig 'a

record ('a, 'h) manager =
  serial :: nat
  cfg :: ackcfg_Config
  clientcfg :: 'a
  log :: 'h
  metrics :: 'h
  rr :: 'h
  awsAccountID :: string
  awsRegion :: string
  awsPartition :: string
  sdkapi :: "'a svcsdk_Client"

record ('a, 'h) manager_args =
  arg_cfg :: ackcfg_Config
  arg_clientcfg :: 'a
  arg_log :: 'h
  arg_metrics :: 'h
  arg_rr :: 'h
  arg_id :: string
  arg_region :: string
  arg_roleARN :: string

text \<open>\<open>fmt.Sprintf("%s/%s/%s", id, region, roleARN)\<close>\<close>

definition rmId :: "('a, 'h) manager_args \<Rightarrow> string" where
  "rmId a = arg_id a @ ''/'' @ arg_region a @ ''/'' @ arg_roleARN a"

definition newResourceManager :: "nat \<Rightarrow> ('a, 'h) manager_args \<Rightarrow> ('a, 'h) manager" where
  "newResourceManager n a =
     \<lparr>serial = n, cfg = arg_cfg a, clientcfg = arg_clientcfg a, log = arg_log a, metrics = arg_metrics a,
      rr = arg_rr a, awsAccountID = arg_id a, awsRegion = arg_region a,
      awsPartition = Partition (arg_cfg a), sdkapi = NewFromConfig (arg_clientcfg a)\<rparr>"

text \<open>
  Where a call is: not started; before RLock; holding the read lock; after the miss, before Lock;
  holding the write lock; returned.
\<close>

datatype ('a, 'h) place = Idle
  | Called "('a, 'h) manager_args"
  | Reading "('a, 'h) manager_args"
  | Missed "('a, 'h) manager_args"
  | Writing "('a, 'h) manager_args"
  | Returned "('a, 'h) manager_args" "('a, 'h) manager"

record ('a, 'h) factory =
  rmCache :: "(string, ('a, 'h) manager) fmap"
  readers :: "nat set"
  writer :: "nat option"
  next_serial :: nat
  at :: "nat \<Rightarrow> ('a, 'h) place"

definition newResourceManagerFactory :: "('a, 'h) factory" where
  "newResourceManagerFactory =
     \<lparr>rmCache = fmempty, readers = {}, writer = None, next_serial = 0, at = (\<lambda>_. Idle)\<rparr>"

inductive ManagerFor :: "nat \<Rightarrow> ('a, 'h) factory \<Rightarrow> ('a, 'h) factory \<Rightarrow> bool" where
  Call: "at f t = Idle \<Longrightarrow> ManagerFor t f (f\<lparr>at := (at f)(t := Called a)\<rparr>)"
| RLock: "at f t = Called a \<Longrightarrow> writer f = None \<Longrightarrow>
    ManagerFor t f (f\<lparr>readers := insert t (readers f), at := (at f)(t := Reading a)\<rparr>)"
| Found: "at f t = Reading a \<Longrightarrow> fmlookup (rmCache f) (rmId a) = Some rm \<Longrightarrow>
    ManagerFor t f (f\<lparr>readers := readers f - {t}, at := (at f)(t := Returned a rm)\<rparr>)"
| NotFound: "at f t = Reading a \<Longrightarrow> fmlookup (rmCache f) (rmId a) = None \<Longrightarrow>
    ManagerFor t f (f\<lparr>readers := readers f - {t}, at := (at f)(t := Missed a)\<rparr>)"
| Lock: "at f t = Missed a \<Longrightarrow> writer f = None \<Longrightarrow> readers f = {} \<Longrightarrow>
    ManagerFor t f (f\<lparr>writer := Some t, at := (at f)(t := Writing a)\<rparr>)"
| Store: "at f t = Writing a \<Longrightarrow> rm = newResourceManager (next_serial f) a \<Longrightarrow>
    ManagerFor t f (f\<lparr>rmCache := fmupd (rmId a) rm (rmCache f), writer := None,
      next_serial := Suc (next_serial f), at := (at f)(t := Returned a rm)\<rparr>)"

text \<open>\<open>P\<close>: what the controller calls ManagerFor with.\<close>

inductive reachable :: "(('a, 'h) manager_args \<Rightarrow> bool) \<Rightarrow> ('a, 'h) factory \<Rightarrow> bool" for P where
  start: "reachable P newResourceManagerFactory"
| step: "reachable P f \<Longrightarrow> ManagerFor t f f' \<Longrightarrow> (\<And>a. at f' t = Called a \<Longrightarrow> P a) \<Longrightarrow> reachable P f'"

inductive_cases ManagerForE: "ManagerFor t f f'"

section \<open>Invariants\<close>

text \<open>The lock: a writer excludes everyone else, and only a call in its section holds the lock.\<close>

definition lock_inv :: "('a, 'h) factory \<Rightarrow> bool" where
  "lock_inv f \<longleftrightarrow>
     (\<forall>t. t \<in> readers f \<longleftrightarrow> (\<exists>a. at f t = Reading a)) \<and>
     (\<forall>t. writer f = Some t \<longleftrightarrow> (\<exists>a. at f t = Writing a)) \<and>
     (writer f \<noteq> None \<longrightarrow> readers f = {})"

fun args_at :: "('a, 'h) place \<Rightarrow> ('a, 'h) manager_args option" where
  "args_at Idle = None"
| "args_at (Called a) = Some a"
| "args_at (Reading a) = Some a"
| "args_at (Missed a) = Some a"
| "args_at (Writing a) = Some a"
| "args_at (Returned a rm) = Some a"

text \<open>
  The cache: a manager is filed under, and handed to, calls with the key of the call it was built for,
  from the arguments of that call.
\<close>

definition made_for :: "('a, 'h) factory \<Rightarrow> string \<Rightarrow> ('a, 'h) manager \<Rightarrow> bool" where
  "made_for f k rm \<longleftrightarrow>
     (\<exists>u b n. args_at (at f u) = Some b \<and> rmId b = k \<and> rm = newResourceManager n b)"

definition cache_inv :: "(('a, 'h) manager_args \<Rightarrow> bool) \<Rightarrow> ('a, 'h) factory \<Rightarrow> bool" where
  "cache_inv P f \<longleftrightarrow>
     (\<forall>t a. args_at (at f t) = Some a \<longrightarrow> P a) \<and>
     (\<forall>k rm. fmlookup (rmCache f) k = Some rm \<longrightarrow> made_for f k rm \<and> serial rm < next_serial f) \<and>
     (\<forall>t a rm. at f t = Returned a rm \<longrightarrow> made_for f (rmId a) rm)"

lemma lock_inv_step: "lock_inv f \<Longrightarrow> ManagerFor t f f' \<Longrightarrow> lock_inv f'"
  by (erule ManagerForE) (auto simp: lock_inv_def, metis option.inject)

lemma args_step:
  "ManagerFor t f f' \<Longrightarrow> args_at (at f' u) = Some a \<Longrightarrow> args_at (at f u) = Some a \<or> at f' u = Called a"
  by (erule ManagerForE) (auto split: if_splits)

lemma args_kept: "ManagerFor t f f' \<Longrightarrow> args_at (at f u) = Some a \<Longrightarrow> args_at (at f' u) = Some a"
  by (erule ManagerForE) auto

lemma made_kept: "ManagerFor t f f' \<Longrightarrow> made_for f k rm \<Longrightarrow> made_for f' k rm"
  unfolding made_for_def using args_kept by blast

lemma made_step:
  assumes "cache_inv P f" "ManagerFor t f f'"
  shows "fmlookup (rmCache f') k = Some rm \<Longrightarrow> made_for f' k rm \<and> serial rm < next_serial f'"
    and "at f' u = Returned a rm \<Longrightarrow> made_for f' (rmId a) rm"
proof -
  have old: "fmlookup (rmCache f) k = Some rm \<Longrightarrow> made_for f k rm \<and> serial rm < next_serial f"
    "at f u = Returned a rm \<Longrightarrow> made_for f (rmId a) rm" for k rm u a
    using assms(1) unfolding cache_inv_def by blast+
  have new: "made_for f (rmId b) (newResourceManager n b)" if "at f t = Writing b" for b n
    unfolding made_for_def using that by (intro exI [of _ t] exI [of _ b] exI [of _ n]) simp
  have "made_for f k rm \<and> serial rm < next_serial f'" if "fmlookup (rmCache f') k = Some rm"
    using assms(2) that old(1) [of k rm] new
    by (elim ManagerForE) (auto simp: newResourceManager_def less_Suc_eq split: if_splits)
  then show "made_for f' k rm \<and> serial rm < next_serial f'" if "fmlookup (rmCache f') k = Some rm"
    using that made_kept [OF assms(2)] by blast
  have "made_for f (rmId a) rm" if "at f' u = Returned a rm"
    using assms(2) that old new by (elim ManagerForE) (auto split: if_splits)
  then show "made_for f' (rmId a) rm" if "at f' u = Returned a rm"
    using that made_kept [OF assms(2)] by blast
qed

lemma cache_inv_step:
  assumes "cache_inv P f" "ManagerFor t f f'" "\<And>a. at f' t = Called a \<Longrightarrow> P a"
  shows "cache_inv P f'"
proof -
  have "P a" if "args_at (at f' u) = Some a" for u a
  proof (cases "u = t")
    case False
    then have "at f' u = at f u" using assms(2) by (elim ManagerForE) auto
    with that assms(1) show ?thesis unfolding cache_inv_def by metis
  qed (use args_step [OF assms(2) that] assms(1,3) in \<open>auto simp: cache_inv_def\<close>)
  with made_step [OF assms(1,2)] show ?thesis unfolding cache_inv_def by blast
qed

lemma reachable_invs: "reachable P f \<Longrightarrow> lock_inv f \<and> cache_inv P f"
proof (induction rule: reachable.induct)
  case start
  then show ?case by (simp add: lock_inv_def cache_inv_def newResourceManagerFactory_def)
qed (auto intro: lock_inv_step cache_inv_step)

section \<open>The key\<close>

lemma split_at_slash:
  "CHR ''/'' \<notin> set xs \<Longrightarrow> CHR ''/'' \<notin> set ys \<Longrightarrow> xs @ ''/'' @ zs = ys @ ''/'' @ ws \<Longrightarrow> xs = ys \<and> zs = ws"
proof (induction xs arbitrary: ys)
  case Nil
  then show ?case by (cases ys) auto
next
  case (Cons x xs)
  then show ?case by (cases ys) auto
qed

definition plain_args :: "('a, 'h) manager_args \<Rightarrow> bool" where
  "plain_args a \<longleftrightarrow> CHR ''/'' \<notin> set (arg_id a) \<and> CHR ''/'' \<notin> set (arg_region a)"

lemma rmId_inj:
  assumes "plain_args a" "plain_args b" "rmId a = rmId b"
  shows "arg_id a = arg_id b" "arg_region a = arg_region b" "arg_roleARN a = arg_roleARN b"
proof -
  have first: "arg_id a = arg_id b \<and> arg_region a @ ''/'' @ arg_roleARN a = arg_region b @ ''/'' @ arg_roleARN b"
    by (rule split_at_slash) (use assms in \<open>auto simp: plain_args_def rmId_def\<close>)
  moreover from first have "arg_region a = arg_region b \<and> arg_roleARN a = arg_roleARN b"
    by (intro split_at_slash) (use assms in \<open>auto simp: plain_args_def\<close>)
  ultimately show "arg_id a = arg_id b" "arg_region a = arg_region b" "arg_roleARN a = arg_roleARN b"
    by simp_all
qed

section \<open>Properties\<close>

text \<open>
  C35: However the calls interleave, ManagerFor never hands out a manager of another account or
  region, provided accounts and regions contain no slash (a role ARN may): the manager a call returns
  works for the account and region it asked for, and newResourceManager built it from the arguments of
  a call for the same account, region and role ARN. That may be another call, whose configuration,
  partition and client the manager then has.
\<close>
theorem ManagerFor_right_manager:
  assumes "reachable plain_args f" and "at f t = Returned a rm"
  shows "awsAccountID rm = arg_id a \<and> awsRegion rm = arg_region a \<and>
    (\<exists>u b n. args_at (at f u) = Some b \<and> arg_id b = arg_id a \<and> arg_region b = arg_region a \<and>
       arg_roleARN b = arg_roleARN a \<and> rm = newResourceManager n b)"
proof -
  have plain: "plain_args b" if "args_at (at f u) = Some b" for u b
    using reachable_invs [OF assms(1)] that unfolding cache_inv_def by blast
  have "plain_args a" by (rule plain [of t]) (simp add: assms(2))
  have "made_for f (rmId a) rm"
    using reachable_invs [OF assms(1)] assms(2) unfolding cache_inv_def by blast
  then obtain u b n where b: "args_at (at f u) = Some b" "rmId b = rmId a" "rm = newResourceManager n b"
    unfolding made_for_def by blast
  note same = rmId_inj [OF plain [OF b(1)] \<open>plain_args a\<close> b(2)]
  have "awsAccountID rm = arg_id a \<and> awsRegion rm = arg_region a"
    by (simp add: b(3) newResourceManager_def same)
  with b(1,3) same show ?thesis by blast
qed

text \<open>
  C36: The factory's lock works: in every reachable state at most one call is in the section that
  writes the cache, and none is reading it meanwhile.
\<close>
theorem ManagerFor_exclusive:
  assumes "reachable P f" and "at f t = Writing a"
  shows "at f t' \<noteq> Reading b \<and> (at f t' = Writing b \<longrightarrow> t' = t)"
proof -
  have "lock_inv f" using reachable_invs [OF assms(1)] by blast
  moreover from this assms(2) have "writer f = Some t" by (auto simp: lock_inv_def)
  ultimately show ?thesis unfolding lock_inv_def by (metis empty_iff option.distinct(1) option.inject)
qed

text \<open>
  C37: ManagerFor cannot deadlock: in every reachable state in which some call has not returned, some
  call can take a step.
\<close>
theorem ManagerFor_progress:
  assumes "reachable P f" and "args_at (at f t) = Some a" and "\<forall>rm. at f t \<noteq> Returned a rm"
  shows "\<exists>u f'. ManagerFor u f f' \<and> at f u \<noteq> Idle"
proof -
  have lock: "lock_inv f" using reachable_invs [OF assms(1)] by blast
  show ?thesis
  proof (cases "writer f")
    case (Some u)
    then obtain b where "at f u = Writing b" using lock unfolding lock_inv_def by blast
    with ManagerFor.Store [OF this refl] show ?thesis by fastforce
  next
    case no_writer: None
    show ?thesis
    proof (cases "readers f = {}")
      case False
      then obtain u b where "at f u = Reading b" using lock by (auto simp: lock_inv_def)
      with ManagerFor.Found [OF this] ManagerFor.NotFound [OF this] show ?thesis
        by (cases "fmlookup (rmCache f) (rmId b)") fastforce+
    next
      case True
      have "(\<forall>b. at f t \<noteq> Reading b) \<and> (\<forall>b. at f t \<noteq> Writing b)"
        using lock True no_writer unfolding lock_inv_def by (metis empty_iff option.distinct(1))
      with assms(2,3) have "at f t = Called a \<or> at f t = Missed a" by (cases "at f t") auto
      with ManagerFor.RLock [of f t a] ManagerFor.Lock [of f t a] no_writer True show ?thesis by fastforce
    qed
  qed
qed

text \<open>Two calls, 0 and 1, and the steps each can take.\<close>

definition two_calls ::
  "(string, ('a, 'h) manager) fmap \<Rightarrow> nat set \<Rightarrow> nat option \<Rightarrow> nat \<Rightarrow> ('a, 'h) place \<Rightarrow>
     ('a, 'h) place \<Rightarrow> ('a, 'h) factory" where
  "two_calls c rs w n p q = \<lparr>rmCache = c, readers = rs, writer = w, next_serial = n,
     at = (\<lambda>t. if t = 0 then p else if t = 1 then q else Idle)\<rparr>"

lemma two_calls_start: "newResourceManagerFactory = two_calls fmempty {} None 0 Idle Idle"
  by (simp add: newResourceManagerFactory_def two_calls_def fun_eq_iff)

lemma two_calls_step:
  "reachable P (two_calls c rs w n p q) \<Longrightarrow>
   ManagerFor t (two_calls c rs w n p q) (two_calls c' rs' w' n' p' q') \<Longrightarrow>
   (\<And>b. p' = Called b \<or> q' = Called b \<Longrightarrow> P b) \<Longrightarrow> reachable P (two_calls c' rs' w' n' p' q')"
  by (erule reachable.step) (auto simp: two_calls_def split: if_splits)

lemma two_calls_upd:
  "at (two_calls c rs w n p q) 0 = p" "at (two_calls c rs w n p q) 1 = q"
  "at (two_calls c rs w n p q) (Suc 0) = q"
  "rmCache (two_calls c rs w n p q) = c" "readers (two_calls c rs w n p q) = rs"
  "writer (two_calls c rs w n p q) = w" "next_serial (two_calls c rs w n p q) = n"
  "two_calls c rs w n p q\<lparr>rmCache := c'\<rparr> = two_calls c' rs w n p q"
  "two_calls c rs w n p q\<lparr>readers := rs'\<rparr> = two_calls c rs' w n p q"
  "two_calls c rs w n p q\<lparr>writer := w'\<rparr> = two_calls c rs w' n p q"
  "two_calls c rs w n p q\<lparr>next_serial := n'\<rparr> = two_calls c rs w n' p q"
  "two_calls c rs w n p q\<lparr>at := (at (two_calls c rs' w' n' p q))(0 := p')\<rparr> = two_calls c rs w n p' q"
  "two_calls c rs w n p q\<lparr>at := (at (two_calls c rs' w' n' p q))(1 := q')\<rparr> = two_calls c rs w n p q'"
  "two_calls c rs w n p q\<lparr>at := (at (two_calls c' rs' w' n' p q))(0 := p')\<rparr> = two_calls c rs w n p' q"
  "two_calls c rs w n p q\<lparr>at := (at (two_calls c' rs' w' n' p q))(Suc 0 := q')\<rparr> = two_calls c rs w n p q'"
  by (simp_all add: two_calls_def fun_eq_iff)

lemma two_calls_Call:
  "ManagerFor 0 (two_calls c rs w n Idle q) (two_calls c rs w n (Called a) q)"
  "ManagerFor 1 (two_calls c rs w n p Idle) (two_calls c rs w n p (Called a))"
  using ManagerFor.Call [of "two_calls c rs w n Idle q" 0 a] ManagerFor.Call [of "two_calls c rs w n p Idle" 1 a]
  by (simp_all add: two_calls_upd)

lemma two_calls_RLock:
  "ManagerFor 0 (two_calls c rs None n (Called a) q) (two_calls c (insert 0 rs) None n (Reading a) q)"
  "ManagerFor 1 (two_calls c rs None n p (Called a)) (two_calls c (insert 1 rs) None n p (Reading a))"
  using ManagerFor.RLock [of "two_calls c rs None n (Called a) q" 0 a]
    ManagerFor.RLock [of "two_calls c rs None n p (Called a)" 1 a]
  by (simp_all add: two_calls_upd)

lemma two_calls_NotFound:
  "fmlookup c (rmId a) = None \<Longrightarrow>
   ManagerFor 0 (two_calls c {0} w n (Reading a) q) (two_calls c {} w n (Missed a) q)"
  "fmlookup c (rmId a) = None \<Longrightarrow>
   ManagerFor 1 (two_calls c {1} w n p (Reading a)) (two_calls c {} w n p (Missed a))"
  using ManagerFor.NotFound [of "two_calls c {0} w n (Reading a) q" 0 a]
    ManagerFor.NotFound [of "two_calls c {1} w n p (Reading a)" 1 a]
  by (simp_all add: two_calls_upd)

lemma two_calls_Lock:
  "ManagerFor 0 (two_calls c {} None n (Missed a) q) (two_calls c {} (Some 0) n (Writing a) q)"
  "ManagerFor 1 (two_calls c {} None n p (Missed a)) (two_calls c {} (Some 1) n p (Writing a))"
  using ManagerFor.Lock [of "two_calls c {} None n (Missed a) q" 0 a]
    ManagerFor.Lock [of "two_calls c {} None n p (Missed a)" 1 a]
  by (simp_all add: two_calls_upd)

lemma two_calls_Store:
  "n' = Suc n \<Longrightarrow> ManagerFor 0 (two_calls c rs w n (Writing a) q)
     (two_calls (fmupd (rmId a) (newResourceManager n a) c) rs None n' (Returned a (newResourceManager n a)) q)"
  "n' = Suc n \<Longrightarrow> ManagerFor 1 (two_calls c rs w n p (Writing a))
     (two_calls (fmupd (rmId a) (newResourceManager n a) c) rs None n' p (Returned a (newResourceManager n a)))"
  using ManagerFor.Store [of "two_calls c rs w n (Writing a) q" 0 a "newResourceManager n a"]
    ManagerFor.Store [of "two_calls c rs w n p (Writing a)" 1 a "newResourceManager n a"]
  by (simp_all add: two_calls_upd)

text \<open>
  C38: The cache does not keep the promise in ManagerFor's comment, "to avoid creating multiple resource
  managers for the same account/region/roleARN combination": two calls with the same arguments that
  both miss before either stores get two different managers, since the miss is not checked again
  under the write lock.
\<close>
theorem ManagerFor_creates_two:
  "\<exists>f rm rm'. reachable (\<lambda>b. b = a) f \<and> at f 0 = Returned a rm \<and> at f 1 = Returned a rm' \<and>
     serial rm \<noteq> serial rm'"
proof -
  let ?P = "\<lambda>b. b = a"
  let ?rm0 = "newResourceManager 0 a" and ?rm1 = "newResourceManager 1 a"
  let ?c0 = "fmupd (rmId a) ?rm0 fmempty"
  have start: "reachable ?P (two_calls fmempty {} None 0 Idle Idle)"
    using reachable.start [of ?P] by (simp add: two_calls_start)
  note steps = two_calls_Call two_calls_RLock two_calls_NotFound two_calls_Lock two_calls_Store
  have "reachable ?P (two_calls fmempty {} None 0 (Called a) Idle)"
    by (rule two_calls_step [OF start steps(1)]) auto
  then have "reachable ?P (two_calls fmempty {} None 0 (Called a) (Called a))"
    by (rule two_calls_step [OF _ steps(2)]) auto
  then have "reachable ?P (two_calls fmempty {0} None 0 (Reading a) (Called a))"
    by (rule two_calls_step [OF _ steps(3)]) auto
  then have "reachable ?P (two_calls fmempty {} None 0 (Missed a) (Called a))"
    by (rule two_calls_step [OF _ steps(5)]) auto
  then have "reachable ?P (two_calls fmempty {1} None 0 (Missed a) (Reading a))"
    by (rule two_calls_step [OF _ steps(4)]) auto
  then have "reachable ?P (two_calls fmempty {} None 0 (Missed a) (Missed a))"
    by (rule two_calls_step [OF _ steps(6)]) auto
  then have "reachable ?P (two_calls fmempty {} (Some 0) 0 (Writing a) (Missed a))"
    by (rule two_calls_step [OF _ steps(7)]) auto
  then have "reachable ?P (two_calls ?c0 {} None 1 (Returned a ?rm0) (Missed a))"
    by (rule two_calls_step [OF _ steps(9)]) auto
  then have "reachable ?P (two_calls ?c0 {} (Some 1) 1 (Returned a ?rm0) (Writing a))"
    by (rule two_calls_step [OF _ steps(8)]) auto
  then have "reachable ?P (two_calls (fmupd (rmId a) ?rm1 ?c0) {} None 2 (Returned a ?rm0) (Returned a ?rm1))"
    by (rule two_calls_step [OF _ steps(10)]) auto
  then show ?thesis
    by (intro exI [of _ "two_calls _ _ _ _ _ _"] exI [of _ ?rm0] exI [of _ ?rm1] conjI)
      (assumption, simp_all add: two_calls_def newResourceManager_def)
qed

section \<open>One call, for the witnesses\<close>

lemma one_call:
  assumes "P a"
  shows "reachable P (two_calls fmempty {} (Some 0) 0 (Writing a) Idle)"
    and "reachable P (two_calls (fmupd (rmId a) (newResourceManager 0 a) fmempty) {} None 1
           (Returned a (newResourceManager 0 a)) Idle)"
proof -
  have "reachable P (two_calls fmempty {} None 0 Idle Idle)"
    using reachable.start [of P] by (simp add: two_calls_start)
  then have "reachable P (two_calls fmempty {} None 0 (Called a) Idle)"
    by (rule two_calls_step [OF _ two_calls_Call(1)]) (auto simp: assms)
  then have "reachable P (two_calls fmempty {0} None 0 (Reading a) Idle)"
    by (rule two_calls_step [OF _ two_calls_RLock(1)]) auto
  then have "reachable P (two_calls fmempty {} None 0 (Missed a) Idle)"
    by (rule two_calls_step [OF _ two_calls_NotFound(1)]) auto
  then show writing: "reachable P (two_calls fmempty {} (Some 0) 0 (Writing a) Idle)"
    by (rule two_calls_step [OF _ two_calls_Lock(1)]) auto
  then show "reachable P (two_calls (fmupd (rmId a) (newResourceManager 0 a) fmempty) {} None 1
      (Returned a (newResourceManager 0 a)) Idle)"
    by (rule two_calls_step [OF _ two_calls_Store(1)]) auto
qed

definition sample_args :: "(string, unit) manager_args" where
  "sample_args = \<lparr>arg_cfg = \<lparr>Partition = ''aws-cn'', EnableCrossNamespace = False\<rparr>,
     arg_clientcfg = ''client'', arg_log = (), arg_metrics = (), arg_rr = (), arg_id = ''123'', arg_region = ''r'', arg_roleARN = ''arn:aws:iam::123:role/ack''\<rparr>"

lemma plain_sample: "plain_args sample_args"
  by (simp add: plain_args_def sample_args_def)

theorem ManagerFor_right_manager_witness:
  "\<exists>f rm. reachable plain_args f \<and> at f 0 = Returned sample_args rm \<and> awsAccountID rm = ''123''"
proof -
  let ?f = "two_calls (fmupd (rmId sample_args) (newResourceManager 0 sample_args) fmempty) {} None 1
      (Returned sample_args (newResourceManager 0 sample_args)) Idle"
  have f: "reachable plain_args ?f" "at ?f 0 = Returned sample_args (newResourceManager 0 sample_args)"
    by (rule one_call(2) [where P = plain_args, OF plain_sample]) (simp add: two_calls_upd)
  from ManagerFor_right_manager [OF f] f show ?thesis by (force simp: sample_args_def)
qed

theorem ManagerFor_exclusive_witness:
  "\<exists>f. reachable plain_args f \<and> at f 0 = Writing sample_args \<and> at f 1 \<noteq> Reading sample_args"
proof -
  let ?f = "two_calls fmempty {} (Some 0) 0 (Writing sample_args) Idle"
  have f: "reachable plain_args ?f" "at ?f 0 = Writing sample_args"
    by (rule one_call(1) [where P = plain_args, OF plain_sample]) (simp add: two_calls_upd)
  have "at ?f 1 \<noteq> Reading sample_args"
    by (rule conjunct1 [OF ManagerFor_exclusive [OF f, of 1 sample_args]])
  with f show ?thesis by blast
qed

theorem ManagerFor_progress_witness:
  "\<exists>f u f'. reachable plain_args f \<and> at f 0 = Writing sample_args \<and> ManagerFor u f f' \<and> at f u \<noteq> Idle"
proof -
  let ?f = "two_calls fmempty {} (Some 0) 0 (Writing sample_args) Idle"
  have f: "reachable plain_args ?f" "at ?f 0 = Writing sample_args"
    by (rule one_call(1) [where P = plain_args, OF plain_sample]) (simp add: two_calls_upd)
  have "args_at (at ?f 0) = Some sample_args" "\<forall>rm. at ?f 0 \<noteq> Returned sample_args rm"
    by (simp_all add: f(2))
  from ManagerFor_progress [OF f(1) this] f show ?thesis by blast
qed

end
