(* ===== verification/Go_Memory.thy ===== *)
theory Go_Memory
  imports Go_Prelude
begin

text \<open>
  Memory, for the code whose point is which values share it: the deep copies of
  apis/v1alpha1/zz_generated.deepcopy.go. Elsewhere a pointer is an option and sharing is left out;
  here a pointer, a slice or a map is the address of a cell, and a copy that forgets a field leaves
  two objects with one cell. The lemmas say what each kind of copy statement of the generated code
  guarantees (\<open>copies\<close>); a deep copy function is correct when all its fields are.
\<close>

section \<open>Values, cells and memory\<close>

datatype val = VNil | VBool bool | VInt int64 | VFloat float64 | VString string
  | VAddr nat  \<comment> \<open>a non-nil pointer, slice or map\<close>
  | VStruct "(string \<times> val) list"

datatype cell = Pointee val | Elements "val list" | Entries "val gomap"

record memory =
  cells :: "nat \<Rightarrow> cell option"
  fresh :: nat

definition wf_memory :: "memory \<Rightarrow> bool" where
  "wf_memory m \<longleftrightarrow> (\<forall>a. cells m a \<noteq> None \<longrightarrow> a < fresh m)"

definition alloc :: "cell \<Rightarrow> memory \<Rightarrow> memory \<times> val" where
  "alloc c m = (m\<lparr>cells := (cells m)(fresh m := Some c), fresh := Suc (fresh m)\<rparr>, VAddr (fresh m))"

fun cell_of :: "memory \<Rightarrow> val \<Rightarrow> cell option" where
  "cell_of m (VAddr a) = cells m a"
| "cell_of m _ = None"

fun field :: "string \<Rightarrow> val \<Rightarrow> val option" where
  "field n (VStruct fs) = map_of fs n"
| "field n _ = None"

fun set_field :: "string \<Rightarrow> val \<Rightarrow> val \<Rightarrow> val" where
  "set_field n x (VStruct fs) = VStruct (map (\<lambda>(k, y). if k = n then (k, x) else (k, y)) fs)"
| "set_field n x v = v"

lemma map_of_set_entry:
  "map_of (map (\<lambda>(k', y). if k' = k then (k', x) else (k', y)) fs) n =
     (if n = k then map_option (\<lambda>_. x) (map_of fs n) else map_of fs n)"
  by (induction fs) auto

lemma field_set_field [simp]:
  "field n (set_field k x v) = (if n = k then map_option (\<lambda>_. x) (field n v) else field n v)"
  by (cases v) (simp_all add: map_of_set_entry)

section \<open>Go types\<close>

datatype basic = BString | BInt | BFloat | BBool

text \<open>A struct is a chain of its fields; \<open>TStruct\<close> builds it from the list the declaration gives.\<close>

datatype gotype = TBasic basic | TPtr gotype | TSlice gotype | TMap gotype
  | TEmpty | TField string gotype gotype

definition TStruct :: "(string \<times> gotype) list \<Rightarrow> gotype" where
  "TStruct fs = foldr (\<lambda>(n, T). TField n T) fs TEmpty"

fun has_basic :: "basic \<Rightarrow> val \<Rightarrow> bool" where
  "has_basic BString v \<longleftrightarrow> (case v of VString _ \<Rightarrow> True | _ \<Rightarrow> False)"
| "has_basic BInt v \<longleftrightarrow> (case v of VInt _ \<Rightarrow> True | _ \<Rightarrow> False)"
| "has_basic BFloat v \<longleftrightarrow> (case v of VFloat _ \<Rightarrow> True | _ \<Rightarrow> False)"
| "has_basic BBool v \<longleftrightarrow> (case v of VBool _ \<Rightarrow> True | _ \<Rightarrow> False)"

text \<open>A value of a type in a memory: nothing dangles, every cell holds what its type says.\<close>

primrec typed :: "gotype \<Rightarrow> memory \<Rightarrow> val \<Rightarrow> bool" where
  "typed (TBasic b) m v \<longleftrightarrow> has_basic b v"
| "typed (TPtr T) m v \<longleftrightarrow> v = VNil \<or> (case cell_of m v of Some (Pointee x) \<Rightarrow> typed T m x | _ \<Rightarrow> False)"
| "typed (TSlice T) m v \<longleftrightarrow> v = VNil \<or>
     (case cell_of m v of Some (Elements xs) \<Rightarrow> list_all (typed T m) xs | _ \<Rightarrow> False)"
| "typed (TMap T) m v \<longleftrightarrow> v = VNil \<or>
     (case cell_of m v of Some (Entries f) \<Rightarrow> fmpred (\<lambda>_. typed T m) f | _ \<Rightarrow> False)"
| "typed TEmpty m v \<longleftrightarrow> (case v of VStruct _ \<Rightarrow> True | _ \<Rightarrow> False)"
| "typed (TField n T R) m v \<longleftrightarrow> (case field n v of None \<Rightarrow> False | Some x \<Rightarrow> typed T m x) \<and> typed R m v"

text \<open>What a program reads through a value, with no address in it: \<open>DeepEqual\<close> compares these.\<close>

datatype tree = Null | Leaf val | Ref tree | Items "tree list" | Assoc "tree gomap"
  | Fields "(string \<times> tree) list"

fun add_field :: "string \<Rightarrow> tree \<Rightarrow> tree \<Rightarrow> tree" where
  "add_field n t (Fields fs) = Fields ((n, t) # fs)"
| "add_field n t r = r"

primrec view :: "gotype \<Rightarrow> memory \<Rightarrow> val \<Rightarrow> tree" where
  "view (TBasic b) m v = Leaf v"
| "view (TPtr T) m v = (case cell_of m v of Some (Pointee x) \<Rightarrow> Ref (view T m x) | _ \<Rightarrow> Null)"
| "view (TSlice T) m v = (case cell_of m v of Some (Elements xs) \<Rightarrow> Items (map (view T m) xs) | _ \<Rightarrow> Null)"
| "view (TMap T) m v = (case cell_of m v of Some (Entries f) \<Rightarrow> Assoc (fmmap (view T m) f) | _ \<Rightarrow> Null)"
| "view TEmpty m v = Fields []"
| "view (TField n T R) m v =
     add_field n (case field n v of None \<Rightarrow> Null | Some x \<Rightarrow> view T m x) (view R m v)"

text \<open>The cells a value gives access to.\<close>

fun own :: "val \<Rightarrow> nat set" where
  "own (VAddr a) = {a}"
| "own v = {}"

primrec footprint :: "gotype \<Rightarrow> memory \<Rightarrow> val \<Rightarrow> nat set" where
  "footprint (TBasic b) m v = {}"
| "footprint (TPtr T) m v = own v \<union> (case cell_of m v of Some (Pointee x) \<Rightarrow> footprint T m x | _ \<Rightarrow> {})"
| "footprint (TSlice T) m v = own v \<union>
     (case cell_of m v of Some (Elements xs) \<Rightarrow> \<Union>(footprint T m ` set xs) | _ \<Rightarrow> {})"
| "footprint (TMap T) m v = own v \<union>
     (case cell_of m v of Some (Entries f) \<Rightarrow> \<Union>(footprint T m ` fmran' f) | _ \<Rightarrow> {})"
| "footprint TEmpty m v = {}"
| "footprint (TField n T R) m v =
     (case field n v of None \<Rightarrow> {} | Some x \<Rightarrow> footprint T m x) \<union> footprint R m v"

text \<open>Types without references: assigning such a value copies it.\<close>

primrec flat :: "gotype \<Rightarrow> bool" where
  "flat (TBasic b) \<longleftrightarrow> True" | "flat (TPtr T) \<longleftrightarrow> False" | "flat (TSlice T) \<longleftrightarrow> False"
| "flat (TMap T) \<longleftrightarrow> False" | "flat TEmpty \<longleftrightarrow> True" | "flat (TField n T R) \<longleftrightarrow> flat T \<and> flat R"

section \<open>Growing memory\<close>

text \<open>Allocation leaves the cells there are as they were, and so everything typed in them.\<close>

definition grows :: "memory \<Rightarrow> memory \<Rightarrow> bool" where
  "grows m m' \<longleftrightarrow> (\<forall>a. cells m a \<noteq> None \<longrightarrow> cells m' a = cells m a)"

lemma grows_refl [simp]: "grows m m"
  by (simp add: grows_def)

lemma grows_trans: "grows m m' \<Longrightarrow> grows m' m'' \<Longrightarrow> grows m m''"
  by (simp add: grows_def)

lemma grows_cell: "grows m m' \<Longrightarrow> cell_of m v = Some c \<Longrightarrow> cell_of m' v = Some c"
  by (cases v) (auto simp: grows_def)

lemma grows_unused: "grows m m' \<Longrightarrow> cells m' a = None \<Longrightarrow> cells m a = None"
  by (auto simp: grows_def)

lemma alloc_props:
  assumes "wf_memory m"
  shows "wf_memory (fst (alloc c m))" "grows m (fst (alloc c m))"
    and "cell_of (fst (alloc c m)) (snd (alloc c m)) = Some c"
    and "own (snd (alloc c m)) = {fresh m}" "snd (alloc c m) \<noteq> VNil" "cells m (fresh m) = None"
  using assms by (force simp: wf_memory_def alloc_def grows_def)+

text \<open>Typing, view and footprint of a value only depend on the cells it reaches.\<close>

lemma typed_agree:
  assumes "typed T m v" and "\<And>a. a \<in> footprint T m v \<Longrightarrow> cells m' a = cells m a"
  shows "typed T m' v \<and> view T m' v = view T m v \<and> footprint T m' v = footprint T m v"
  using assms
proof (induction T arbitrary: v)
  case (TPtr T)
  show ?case
  proof (cases v)
    case (VAddr a)
    with TPtr.prems have cell: "cells m' a = cells m a" by simp
    from VAddr TPtr.prems(1) obtain x where x: "cells m a = Some (Pointee x)" "typed T m x"
      by (auto split: option.splits cell.splits)
    with TPtr.IH [of x] TPtr.prems(2) VAddr show ?thesis by (simp add: cell)
  qed (use TPtr.prems in auto)
next
  case (TSlice T)
  show ?case
  proof (cases v)
    case (VAddr a)
    with TSlice.prems have cell: "cells m' a = cells m a" by simp
    from VAddr TSlice.prems(1) obtain xs where xs: "cells m a = Some (Elements xs)" "list_all (typed T m) xs"
      by (auto split: option.splits cell.splits)
    with TSlice.IH TSlice.prems(2) VAddr
    have "typed T m' x \<and> view T m' x = view T m x \<and> footprint T m' x = footprint T m x" if "x \<in> set xs" for x
      using that by (auto simp: list_all_iff)
    with xs VAddr show ?thesis by (simp add: cell list_all_iff)
  qed (use TSlice.prems in auto)
next
  case (TMap T)
  show ?case
  proof (cases v)
    case (VAddr a)
    with TMap.prems have cell: "cells m' a = cells m a" by simp
    from VAddr TMap.prems(1) obtain f where f: "cells m a = Some (Entries f)" "fmpred (\<lambda>_. typed T m) f"
      by (auto split: option.splits cell.splits)
    have sub: "typed T m' x \<and> view T m' x = view T m x \<and> footprint T m' x = footprint T m x"
      if "x \<in> fmran' f" for x
    proof (rule TMap.IH)
      show "typed T m x" using f(2) that by (auto simp: fmpred_iff elim: fmran'E)
      show "cells m' b = cells m b" if "b \<in> footprint T m x" for b
        using TMap.prems(2) [of b] that \<open>x \<in> fmran' f\<close> VAddr f(1) by auto
    qed
    then have "fmmap (view T m') f = fmmap (view T m) f" by (intro fmap.map_cong) auto
    moreover have "fmpred (\<lambda>_. typed T m') f" using sub by (auto simp: fmpred_iff intro: fmran'I)
    moreover have "\<Union>(footprint T m' ` fmran' f) = \<Union>(footprint T m ` fmran' f)" using sub by simp
    ultimately show ?thesis using f VAddr by (simp add: cell)
  qed (use TMap.prems in auto)
next
  case (TField n T R)
  then show ?case by (auto split: option.splits)
qed (simp_all split: val.splits)

lemma footprint_used: "typed T m v \<Longrightarrow> a \<in> footprint T m v \<Longrightarrow> cells m a \<noteq> None"
proof (induction T arbitrary: v)
  case (TPtr T) then show ?case by (cases v) (auto split: option.splits cell.splits)
next
  case (TSlice T) then show ?case by (cases v) (auto simp: list_all_iff split: option.splits cell.splits)
next
  case (TMap T) then show ?case
    by (cases v) (auto simp: fmpred_iff elim!: fmran'E split: option.splits cell.splits)
next
  case (TField n T R) then show ?case by (auto split: option.splits)
qed simp_all

lemma typed_grows:
  assumes "grows m m'" "typed T m v"
  shows "typed T m' v" "view T m' v = view T m v" "footprint T m' v = footprint T m v"
  using typed_agree [OF assms(2), of m'] footprint_used [OF assms(2)] assms(1)
  by (auto simp: grows_def)

lemma flat_footprint: "flat T \<Longrightarrow> footprint T m v = {}"
  by (induction T arbitrary: v) (auto split: option.splits)

end
