(* ===== verification/Deep_Copy.thy ===== *)
theory Deep_Copy
  imports Go_Memory
begin

text \<open>
  The statements the generated deep copy functions are made of, as functions that copy a value into
  newly allocated cells, and what each guarantees. A copy yields nothing (\<open>None\<close>) when it would read
  a cell that is not there; \<open>copies\<close> includes that it does not. A cell is allocated once its
  contents are known: the code allocates it zeroed and fills it before anything else can see it.
\<close>

section \<open>Copy statements\<close>

type_synonym copier = "memory \<Rightarrow> val \<Rightarrow> (memory \<times> val) option"

text \<open>\<open>*out = *in\<close> and \<open>copy(*out, *in)\<close>: the value as it is, addresses included.\<close>

definition shallow :: copier where
  "shallow m v = Some (m, v)"

text \<open>\<open>if in != nil { *out = new(T); (copy of **in into **out) }\<close>\<close>

definition copy_ptr :: "copier \<Rightarrow> copier" where
  "copy_ptr c m v =
     (if v = VNil then Some (m, VNil)
      else (case cell_of m v of
              Some (Pointee x) \<Rightarrow>
                (case c m x of None \<Rightarrow> None | Some (m, y) \<Rightarrow> Some (alloc (Pointee y) m))
            | _ \<Rightarrow> None))"

text \<open>\<open>*out = make([]T, len(*in))\<close> and the loop over its elements\<close>

primrec copy_elements :: "copier \<Rightarrow> memory \<Rightarrow> val list \<Rightarrow> (memory \<times> val list) option" where
  "copy_elements c m [] = Some (m, [])"
| "copy_elements c m (x # xs) =
     (case c m x of
        None \<Rightarrow> None
      | Some (m, y) \<Rightarrow>
          (case copy_elements c m xs of None \<Rightarrow> None | Some (m, ys) \<Rightarrow> Some (m, y # ys)))"

definition copy_slice :: "copier \<Rightarrow> copier" where
  "copy_slice c m v =
     (if v = VNil then Some (m, VNil)
      else (case cell_of m v of
              Some (Elements xs) \<Rightarrow>
                (case copy_elements c m xs of None \<Rightarrow> None | Some (m, ys) \<Rightarrow> Some (alloc (Elements ys) m))
            | _ \<Rightarrow> None))"

text \<open>\<open>*out = make(map[string]T, len(*in))\<close> and the loop over its keys, in the order given\<close>

primrec copy_entries :: "copier \<Rightarrow> val gomap \<Rightarrow> memory \<Rightarrow> string list \<Rightarrow> (memory \<times> val gomap) option" where
  "copy_entries c f m [] = Some (m, fmempty)"
| "copy_entries c f m (k # ks) =
     (case fmlookup f k of
        None \<Rightarrow> copy_entries c f m ks
      | Some x \<Rightarrow>
          (case c m x of
             None \<Rightarrow> None
           | Some (m, y) \<Rightarrow>
               (case copy_entries c f m ks of None \<Rightarrow> None | Some (m, g) \<Rightarrow> Some (m, fmupd k y g))))"

definition copy_map :: "map_order \<Rightarrow> copier \<Rightarrow> copier" where
  "copy_map ord c m v =
     (if v = VNil then Some (m, VNil)
      else (case cell_of m v of
              Some (Entries f) \<Rightarrow>
                (case copy_entries c f m (keys_in ord (fmdom f)) of
                   None \<Rightarrow> None | Some (m, g) \<Rightarrow> Some (alloc (Entries g) m))
            | _ \<Rightarrow> None))"

text \<open>
  A DeepCopyInto: \<open>*out = *in\<close>, then one statement for each listed field, from the field of \<open>in\<close> into
  the field of \<open>out\<close>. The fields that are not listed keep the value \<open>*out = *in\<close> gave them.
\<close>

primrec copy_fields :: "(string \<times> copier) list \<Rightarrow> memory \<Rightarrow> val \<Rightarrow> val \<Rightarrow> (memory \<times> val) option" where
  "copy_fields [] m inp out = Some (m, out)"
| "copy_fields (p # ps) m inp out =
     (case field (fst p) inp of
        None \<Rightarrow> None
      | Some x \<Rightarrow>
          (case snd p m x of
             None \<Rightarrow> None
           | Some (m, y) \<Rightarrow> copy_fields ps m inp (set_field (fst p) y out)))"

definition copy_struct :: "(string \<times> copier) list \<Rightarrow> copier" where
  "copy_struct ps m inp = copy_fields ps m inp inp"

section \<open>What a copy guarantees\<close>

text \<open>
  The copy returns; memory only grows; the copy has the type of the original and reads the same; and
  every cell it gives access to was allocated by it.
\<close>

definition copied :: "gotype \<Rightarrow> memory \<Rightarrow> val \<Rightarrow> memory \<Rightarrow> val \<Rightarrow> bool" where
  "copied T m v m' v' \<longleftrightarrow> typed T m' v' \<and> view T m' v' = view T m v \<and>
     (\<forall>a\<in>footprint T m' v'. cells m a = None)"

definition copies :: "gotype \<Rightarrow> copier \<Rightarrow> bool" where
  "copies T c \<longleftrightarrow> (\<forall>m v. wf_memory m \<and> typed T m v \<longrightarrow>
     (\<exists>m' v'. c m v = Some (m', v') \<and> wf_memory m' \<and> grows m m' \<and> copied T m v m' v'))"

named_theorems copy_rules \<open>copies that are correct\<close>

lemma copiesE:
  assumes "copies T c" "wf_memory m" "typed T m v"
  obtains m' v' where "c m v = Some (m', v')" "wf_memory m'" "grows m m'" "copied T m v m' v'"
  using assms unfolding copies_def by blast

text \<open>A copy stays correct while memory grows, and is correct for an earlier state of memory.\<close>

lemma copied_later:
  assumes "copied T m v m' v'" "grows m' m''"
  shows "copied T m v m'' v'"
  using assms typed_grows [OF assms(2)] by (auto simp: copied_def)

lemma copied_earlier:
  assumes "copied T m v m' v'" "grows m0 m" "typed T m0 v"
  shows "copied T m0 v m' v'"
  using assms typed_grows [OF assms(2,3)] grows_unused [OF assms(2)] by (auto simp: copied_def)

lemma shallow_copies: "flat T \<Longrightarrow> copies T shallow"
  by (auto simp: copies_def shallow_def copied_def flat_footprint)

lemma shallow_basic [copy_rules]: "copies (TBasic b) shallow"
  by (simp add: shallow_copies)

lemma alloc_copied:
  assumes "wf_memory m'" "grows m m'"
    and "\<And>m'' a. grows m' m'' \<Longrightarrow> cells m'' a = Some c \<Longrightarrow> cells m a = None \<Longrightarrow> copied T m v m'' (VAddr a)"
  shows "\<exists>m'' v'. alloc c m' = (m'', v') \<and> wf_memory m'' \<and> grows m m'' \<and> copied T m v m'' v'"
proof (intro exI conjI)
  note new = alloc_props [OF assms(1)]
  show "alloc c m' = (fst (alloc c m'), VAddr (fresh m'))" by (simp add: alloc_def)
  show "wf_memory (fst (alloc c m'))" by (rule new)
  show "grows m (fst (alloc c m'))" using assms(2) new(2) by (rule grows_trans)
  have "cells (fst (alloc c m')) (fresh m') = Some c" by (simp add: alloc_def)
  then show "copied T m v (fst (alloc c m')) (VAddr (fresh m'))"
    using assms(3) [OF new(2) _ grows_unused [OF assms(2) new(6)]] by simp
qed

lemma nil_copied:
  "typed T m VNil \<Longrightarrow> footprint T m VNil = {} \<Longrightarrow> copied T m VNil m VNil"
  by (simp add: copied_def)

section \<open>Each statement copies\<close>

lemma copy_ptr_copies [copy_rules]:
  assumes "copies T c"
  shows "copies (TPtr T) (copy_ptr c)"
  unfolding copies_def
proof (intro allI impI, elim conjE)
  fix m v
  assume wf: "wf_memory m" and ty: "typed (TPtr T) m v"
  show "\<exists>m' v'. copy_ptr c m v = Some (m', v') \<and> wf_memory m' \<and> grows m m' \<and> copied (TPtr T) m v m' v'"
  proof (cases "v = VNil")
    case True
    then show ?thesis using wf ty by (simp add: copy_ptr_def nil_copied)
  next
    case False
    with ty obtain x where x: "cell_of m v = Some (Pointee x)" "typed T m x"
      by (auto split: option.splits cell.splits)
    from assms wf x(2) obtain m1 y where y: "c m x = Some (m1, y)" "wf_memory m1" "grows m m1" "copied T m x m1 y"
      by (rule copiesE)
    have "\<exists>m2 v'. alloc (Pointee y) m1 = (m2, v') \<and> wf_memory m2 \<and> grows m m2 \<and> copied (TPtr T) m v m2 v'"
    proof (rule alloc_copied [OF y(2,3)])
      fix m2 a
      assume later: "grows m1 m2" "cells m2 a = Some (Pointee y)" "cells m a = None"
      from copied_later [OF y(4) later(1)] show "copied (TPtr T) m v m2 (VAddr a)"
        using later x False by (auto simp: copied_def)
    qed
    with False x y show ?thesis by (simp add: copy_ptr_def)
  qed
qed

lemma copy_elements_copied:
  assumes "copies T c" "wf_memory m" "list_all (typed T m) xs"
  shows "\<exists>m' ys. copy_elements c m xs = Some (m', ys) \<and> wf_memory m' \<and> grows m m' \<and>
    list_all2 (\<lambda>x y. copied T m x m' y) xs ys"
  using assms(2,3)
proof (induction xs arbitrary: m)
  case (Cons x xs)
  from Cons.prems have ty: "typed T m x" "list_all (typed T m) xs" by simp_all
  from assms(1) Cons.prems(1) ty(1) obtain m1 y
    where y: "c m x = Some (m1, y)" "wf_memory m1" "grows m m1" "copied T m x m1 y"
    by (rule copiesE)
  have "list_all (typed T m1) xs" using ty(2) typed_grows [OF y(3)] by (auto simp: list_all_iff)
  from Cons.IH [OF y(2) this] obtain m2 ys where ys: "copy_elements c m1 xs = Some (m2, ys)" "wf_memory m2"
    "grows m1 m2" "list_all2 (\<lambda>x y. copied T m1 x m2 y) xs ys" by blast
  have "list_all2 (\<lambda>x y. copied T m x m2 y) xs ys"
    using ys(4) ty(2) by (auto simp: list_all2_conv_all_nth list_all_length intro: copied_earlier [OF _ y(3)])
  moreover have "copied T m x m2 y" by (rule copied_later [OF y(4) ys(3)])
  ultimately show ?case using y ys by (auto intro: grows_trans)
qed simp

lemma copied_list:
  assumes "list_all2 (\<lambda>x y. copied T m x m' y) xs ys"
  shows "list_all (typed T m') ys" "map (view T m') ys = map (view T m) xs"
    and "y \<in> set ys \<Longrightarrow> a \<in> footprint T m' y \<Longrightarrow> cells m a = None"
  using assms by (induction rule: list_all2_induct) (auto simp: copied_def)

lemma copy_slice_copies [copy_rules]:
  assumes "copies T c"
  shows "copies (TSlice T) (copy_slice c)"
  unfolding copies_def
proof (intro allI impI, elim conjE)
  fix m v
  assume wf: "wf_memory m" and ty: "typed (TSlice T) m v"
  show "\<exists>m' v'. copy_slice c m v = Some (m', v') \<and> wf_memory m' \<and> grows m m' \<and> copied (TSlice T) m v m' v'"
  proof (cases "v = VNil")
    case True
    then show ?thesis using wf ty by (simp add: copy_slice_def nil_copied)
  next
    case False
    with ty obtain xs where xs: "cell_of m v = Some (Elements xs)" "list_all (typed T m) xs"
      by (auto split: option.splits cell.splits)
    from copy_elements_copied [OF assms wf xs(2)] obtain m1 ys where ys: "copy_elements c m xs = Some (m1, ys)"
      "wf_memory m1" "grows m m1" "list_all2 (\<lambda>x y. copied T m x m1 y) xs ys" by blast
    have "\<exists>m2 v'. alloc (Elements ys) m1 = (m2, v') \<and> wf_memory m2 \<and> grows m m2 \<and> copied (TSlice T) m v m2 v'"
    proof (rule alloc_copied [OF ys(2,3)])
      fix m2 a
      assume later: "grows m1 m2" "cells m2 a = Some (Elements ys)" "cells m a = None"
      have "list_all2 (\<lambda>x y. copied T m x m2 y) xs ys"
        using ys(4) by (rule list_all2_mono) (rule copied_later [OF _ later(1)])
      from copied_list [OF this] show "copied (TSlice T) m v m2 (VAddr a)"
        using later(2,3) xs False by (auto simp: copied_def)
    qed
    with False xs ys show ?thesis by (simp add: copy_slice_def)
  qed
qed

text \<open>A map is copied key by key; the order of the keys does not show in the result.\<close>

definition copied_entries :: "gotype \<Rightarrow> memory \<Rightarrow> val gomap \<Rightarrow> memory \<Rightarrow> val gomap \<Rightarrow> string set \<Rightarrow> bool" where
  "copied_entries T m f m' g K \<longleftrightarrow>
     (\<forall>k y. fmlookup g k = Some y \<longrightarrow> (\<exists>x. fmlookup f k = Some x \<and> copied T m x m' y)) \<and>
     (\<forall>k\<in>K. fmlookup g k = None \<longrightarrow> fmlookup f k = None)"

lemma copied_entries_mono:
  assumes "copied_entries T m f m' g K"
    and "\<And>k x y. fmlookup f k = Some x \<Longrightarrow> copied T m x m' y \<Longrightarrow> copied T m0 x m'' y"
  shows "copied_entries T m0 f m'' g K"
  using assms unfolding copied_entries_def by metis

lemma copied_entries_upd:
  assumes "copied_entries T m f m' g K" "fmlookup f k = Some x" "copied T m x m' y"
  shows "copied_entries T m f m' (fmupd k y g) (insert k K)"
  using assms unfolding copied_entries_def by auto

lemma copy_entries_copied:
  assumes "copies T c" "wf_memory m" "fmpred (\<lambda>_. typed T m) f"
  shows "\<exists>m' g. copy_entries c f m ks = Some (m', g) \<and> wf_memory m' \<and> grows m m' \<and>
    copied_entries T m f m' g (set ks)"
  using assms(2,3)
proof (induction ks arbitrary: m)
  case Nil
  then show ?case by (auto simp: copied_entries_def)
next
  case (Cons k ks)
  show ?case
  proof (cases "fmlookup f k")
    case None
    moreover obtain m' g where "copy_entries c f m ks = Some (m', g)" "wf_memory m'" "grows m m'"
      "copied_entries T m f m' g (set ks)" using Cons.IH [OF Cons.prems] by blast
    ultimately show ?thesis by (simp add: copied_entries_def)
  next
    case (Some x)
    then have ty: "typed T m x" using Cons.prems(2) by (simp add: fmpred_iff)
    from assms(1) Cons.prems(1) ty obtain m1 y
      where y: "c m x = Some (m1, y)" "wf_memory m1" "grows m m1" "copied T m x m1 y"
      by (rule copiesE)
    have "fmpred (\<lambda>_. typed T m1) f"
      using Cons.prems(2) typed_grows [OF y(3)] by (auto simp: fmpred_iff)
    from Cons.IH [OF y(2) this] obtain m2 g where g: "copy_entries c f m1 ks = Some (m2, g)" "wf_memory m2"
      "grows m1 m2" "copied_entries T m1 f m2 g (set ks)" by blast
    have "copied_entries T m f m2 g (set ks)"
      using g(4) by (rule copied_entries_mono)
        (use Cons.prems(2) in \<open>auto simp: fmpred_iff intro: copied_earlier [OF _ y(3)]\<close>)
    from copied_entries_upd [OF this Some copied_later [OF y(4) g(3)]]
    have "copied_entries T m f m2 (fmupd k y g) (set (k # ks))" by simp
    with Some y g show ?thesis by (auto intro: grows_trans)
  qed
qed

lemma copied_entries_all:
  assumes "copied_entries T m f m' g K" "fset (fmdom f) \<subseteq> K"
  shows "fmpred (\<lambda>_. typed T m') g" "fmmap (view T m') g = fmmap (view T m) f"
    and "y \<in> fmran' g \<Longrightarrow> a \<in> footprint T m' y \<Longrightarrow> cells m a = None"
proof -
  have entry: "\<exists>x. fmlookup f k = Some x \<and> copied T m x m' y" if "fmlookup g k = Some y" for k y
    using assms(1) that unfolding copied_entries_def by blast
  have none: "fmlookup f k = None" if "fmlookup g k = None" for k
  proof (rule ccontr)
    assume f: "fmlookup f k \<noteq> None"
    then have "k \<in> K" using assms(2) by (auto simp: fmlookup_dom_iff)
    with f assms(1) that show False by (simp add: copied_entries_def)
  qed
  show "fmpred (\<lambda>_. typed T m') g" using entry by (fastforce simp: fmpred_iff copied_def)
  show "fmmap (view T m') g = fmmap (view T m) f"
  proof (rule fmap_ext)
    fix k
    show "fmlookup (fmmap (view T m') g) k = fmlookup (fmmap (view T m) f) k"
      using entry [of k] none [of k] by (cases "fmlookup g k") (auto simp: copied_def)
  qed
  show "cells m a = None" if "y \<in> fmran' g" "a \<in> footprint T m' y"
    using that entry by (fastforce simp: copied_def elim!: fmran'E)
qed

lemma copy_map_copies [copy_rules]:
  assumes "copies T c"
  shows "copies (TMap T) (copy_map ord c)"
  unfolding copies_def
proof (intro allI impI, elim conjE)
  fix m v
  assume wf: "wf_memory m" and ty: "typed (TMap T) m v"
  show "\<exists>m' v'. copy_map ord c m v = Some (m', v') \<and> wf_memory m' \<and> grows m m' \<and> copied (TMap T) m v m' v'"
  proof (cases "v = VNil")
    case True
    then show ?thesis using wf ty by (simp add: copy_map_def nil_copied)
  next
    case False
    with ty obtain f where f: "cell_of m v = Some (Entries f)" "fmpred (\<lambda>_. typed T m) f"
      by (auto split: option.splits cell.splits)
    let ?ks = "keys_in ord (fmdom f)"
    from copy_entries_copied [OF assms wf f(2)] obtain m1 g where g: "copy_entries c f m ?ks = Some (m1, g)"
      "wf_memory m1" "grows m m1" "copied_entries T m f m1 g (set ?ks)" by blast
    have "\<exists>m2 v'. alloc (Entries g) m1 = (m2, v') \<and> wf_memory m2 \<and> grows m m2 \<and> copied (TMap T) m v m2 v'"
    proof (rule alloc_copied [OF g(2,3)])
      fix m2 a
      assume later: "grows m1 m2" "cells m2 a = Some (Entries g)" "cells m a = None"
      have "copied_entries T m f m2 g (set ?ks)"
        using g(4) by (rule copied_entries_mono) (rule copied_later [OF _ later(1)])
      from copied_entries_all [OF this] show "copied (TMap T) m v m2 (VAddr a)"
        using later(2,3) f False by (auto simp: copied_def)
    qed
    with False f g show ?thesis by (simp add: copy_map_def)
  qed
qed

section \<open>Structs\<close>

definition is_struct :: "val \<Rightarrow> bool" where
  "is_struct v \<longleftrightarrow> (case v of VStruct _ \<Rightarrow> True | _ \<Rightarrow> False)"

lemma is_struct_set_field [simp]: "is_struct (set_field n x v) = is_struct v"
  by (cases v) (simp_all add: is_struct_def)

lemma TStruct_simps [simp]: "TStruct [] = TEmpty" "TStruct ((n, T) # fs) = TField n T (TStruct fs)"
  by (simp_all add: TStruct_def)

lemma typed_TStruct: "typed (TStruct fs) m v \<longleftrightarrow>
    is_struct v \<and> (\<forall>(n, T)\<in>set fs. \<exists>x. field n v = Some x \<and> typed T m x)"
  by (induction fs) (auto simp: is_struct_def split: option.splits)

lemma view_TStruct: "view (TStruct fs) m v =
    Fields (map (\<lambda>(n, T). (n, case field n v of None \<Rightarrow> Null | Some x \<Rightarrow> view T m x)) fs)"
  by (induction fs) auto

lemma footprint_TStruct: "footprint (TStruct fs) m v =
    (\<Union>(n, T)\<in>set fs. case field n v of None \<Rightarrow> {} | Some x \<Rightarrow> footprint T m x)"
  by (induction fs) auto

text \<open>
  The listed fields are fields of the struct, in its order, each with a copy that is correct for its
  type, and every field left out has no reference in it.
\<close>

fun covers :: "(string \<times> gotype) list \<Rightarrow> (string \<times> copier) list \<Rightarrow> bool" where
  "covers [] ps \<longleftrightarrow> ps = []"
| "covers (f # fs) [] \<longleftrightarrow> flat (snd f) \<and> covers fs []"
| "covers (f # fs) (p # ps) \<longleftrightarrow>
     (if fst f = fst p then copies (snd f) (snd p) \<and> covers fs ps else flat (snd f) \<and> covers fs (p # ps))"

lemma covers_fields: "covers fs ps \<Longrightarrow> fst ` set ps \<subseteq> fst ` set fs"
  by (induction fs ps rule: covers.induct) (auto split: if_splits)

lemma covers_distinct: "covers fs ps \<Longrightarrow> distinct (map fst fs) \<Longrightarrow> distinct (map fst ps)"
proof (induction fs ps rule: covers.induct)
  case (3 f fs p ps)
  then show ?case using covers_fields [of fs ps] by (auto split: if_splits)
qed auto

lemma covers_types:
  "covers fs ps \<Longrightarrow> distinct (map fst fs) \<Longrightarrow> (n, T) \<in> set fs \<Longrightarrow>
     (case map_of ps n of None \<Rightarrow> flat T | Some c \<Rightarrow> copies T c)"
proof (induction fs ps rule: covers.induct)
  case (3 f fs p ps)
  show ?case
  proof (cases "(n, T) = f")
    case True
    have "map_of (p # ps) n = None" if "fst f \<noteq> fst p"
    proof -
      have "fst ` set (p # ps) \<subseteq> fst ` set fs" using that "3.prems"(1) covers_fields [of fs "p # ps"] by simp
      moreover have "n \<notin> fst ` set fs" using True "3.prems"(2) by (metis distinct.simps(2) fst_conv image_set list.simps(9))
      ultimately have "n \<notin> fst ` set (p # ps)" by blast
      then show ?thesis by (simp only: map_of_eq_None_iff not_False_eq_True)
    qed
    then show ?thesis using True "3.prems"(1) by (cases p) (auto split: if_splits)
  next
    case False
    with "3.prems"(3) have "(n, T) \<in> set fs" by simp
    moreover from this have "n \<in> fst ` set fs" by (metis fst_conv image_eqI)
    moreover from this "3.prems"(2) have "n \<noteq> fst f"
      by (metis distinct.simps(2) image_set list.simps(9))
    ultimately show ?thesis using "3.IH" "3.prems" by (auto split: if_splits)
  qed
qed auto

lemma copy_fields_copied:
  assumes "wf_memory m" "distinct (map fst ps)"
    and "\<And>n c. (n, c) \<in> set ps \<Longrightarrow> copies (T n) c \<and> (\<exists>x. field n inp = Some x \<and> typed (T n) m x) \<and> field n out \<noteq> None"
  shows "\<exists>m' out'. copy_fields ps m inp out = Some (m', out') \<and> wf_memory m' \<and> grows m m' \<and>
    is_struct out' = is_struct out \<and> (\<forall>n. n \<notin> fst ` set ps \<longrightarrow> field n out' = field n out) \<and>
    (\<forall>n\<in>fst ` set ps. \<exists>x y. field n inp = Some x \<and> field n out' = Some y \<and> copied (T n) m x m' y)"
  using assms
proof (induction ps arbitrary: m out)
  case (Cons p ps)
  obtain k c where p: "p = (k, c)" by fastforce
  have step: "copies (T k) c" "\<exists>x. field k inp = Some x \<and> typed (T k) m x" "field k out \<noteq> None"
    using Cons.prems(3) [of k c] p by simp_all
  then obtain x where x: "field k inp = Some x" "typed (T k) m x" by blast
  from step(1) Cons.prems(1) x(2) obtain m1 y
    where y: "c m x = Some (m1, y)" "wf_memory m1" "grows m m1" "copied (T k) m x m1 y"
    by (rule copiesE)
  have rest: "copies (T n) c' \<and> (\<exists>x. field n inp = Some x \<and> typed (T n) m1 x) \<and>
      field n (set_field k y out) \<noteq> None" if "(n, c') \<in> set ps" for n c'
    using Cons.prems(3) [of n c'] that typed_grows(1) [OF y(3)] by auto
  from Cons.prems(2) have "distinct (map fst ps)" by simp
  from Cons.IH [OF y(2) this rest] obtain m2 out2 where r: "copy_fields ps m1 inp (set_field k y out) = Some (m2, out2)"
    "wf_memory m2" "grows m1 m2" "is_struct out2 = is_struct out"
    "\<forall>n. n \<notin> fst ` set ps \<longrightarrow> field n out2 = field n (set_field k y out)"
    "\<forall>n\<in>fst ` set ps. \<exists>x y. field n inp = Some x \<and> field n out2 = Some y \<and> copied (T n) m1 x m2 y"
    by auto
  have k: "k \<notin> fst ` set ps" using Cons.prems(2) p by auto
  have "\<exists>x y. field n inp = Some x \<and> field n out2 = Some y \<and> copied (T n) m x m2 y" if "n \<in> fst ` set ps" for n
  proof -
    from that r(6) obtain x' y' where xy: "field n inp = Some x'" "field n out2 = Some y'" "copied (T n) m1 x' m2 y'"
      by blast
    from that Cons.prems(3) xy(1) have "typed (T n) m x'" by fastforce
    with copied_earlier [OF xy(3) y(3)] xy show ?thesis by blast
  qed
  moreover have "\<exists>y. field k out2 = Some y \<and> copied (T k) m x m2 y"
    using r(5) k step(3) copied_later [OF y(4) r(3)] by auto
  ultimately show ?case
    using p x y r k by (auto intro: grows_trans)
qed simp

lemma copy_struct_copies:
  assumes cov: "covers fs ps" and dist: "distinct (map fst fs)"
  shows "copies (TStruct fs) (copy_struct ps)"
  unfolding copies_def
proof (intro allI impI, elim conjE)
  fix m v
  assume wf: "wf_memory m" and ty: "typed (TStruct fs) m v"
  note types = covers_types [OF cov dist]
  note names = covers_distinct [OF cov dist]
  let ?T = "\<lambda>n. the (map_of fs n)"
  have T: "?T n = t" if "(n, t) \<in> set fs" for n t using dist that by simp
  have ps: "copies (?T n) c \<and> (\<exists>x. field n v = Some x \<and> typed (?T n) m x) \<and> field n v \<noteq> None"
    if "(n, c) \<in> set ps" for n c
  proof -
    from covers_fields [OF cov] that obtain t where t: "(n, t) \<in> set fs" by force
    have "copies t c" using types [OF t] names that by simp
    moreover have "\<exists>x. field n v = Some x \<and> typed t m x" using ty t by (auto simp: typed_TStruct)
    ultimately show ?thesis using T [OF t] by auto
  qed
  from copy_fields_copied [OF wf names ps] obtain m' out where c: "copy_fields ps m v v = Some (m', out)"
    "wf_memory m'" "grows m m'" "is_struct out = is_struct v"
    "\<forall>n. n \<notin> fst ` set ps \<longrightarrow> field n out = field n v"
    "\<forall>n\<in>fst ` set ps. \<exists>x y. field n v = Some x \<and> field n out = Some y \<and> copied (?T n) m x m' y"
    by blast
  have f: "\<exists>x y. field n v = Some x \<and> field n out = Some y \<and> copied t m x m' y" if "(n, t) \<in> set fs" for n t
  proof (cases "n \<in> fst ` set ps")
    case True
    with c(6) T [OF that] show ?thesis by auto
  next
    case False
    then have "map_of ps n = None" by (simp add: map_of_eq_None_iff)
    with types [OF that] have "flat t" by simp
    moreover from ty that obtain x where "field n v = Some x" "typed t m x" by (auto simp: typed_TStruct)
    ultimately show ?thesis using c(5) False typed_grows [OF c(3)]
      by (auto simp: copied_def flat_footprint)
  qed
  have "copied (TStruct fs) m v m' out"
    unfolding copied_def typed_TStruct view_TStruct footprint_TStruct
  proof (intro conjI)
    show "is_struct out" using ty c(4) by (simp add: typed_TStruct)
    show "\<forall>(n, T)\<in>set fs. \<exists>x. field n out = Some x \<and> typed T m' x" using f by (fastforce simp: copied_def)
    show "\<forall>a\<in>\<Union>(n, T)\<in>set fs. case field n out of None \<Rightarrow> {} | Some x \<Rightarrow> footprint T m' x. cells m a = None"
      using f by (auto simp: copied_def split: option.splits) (metis option.inject)
    have "view t m' y = view t m x" if "(n, t) \<in> set fs" "field n v = Some x" "field n out = Some y" for n t x y
      using f [OF that(1)] that by (auto simp: copied_def)
    with f show "Fields (map (\<lambda>(n, T). (n, case field n out of None \<Rightarrow> Null | Some x \<Rightarrow> view T m' x)) fs) =
        Fields (map (\<lambda>(n, T). (n, case field n v of None \<Rightarrow> Null | Some x \<Rightarrow> view T m x)) fs)"
      by (auto split: option.splits) (metis option.distinct(1))+
  qed
  with c show "\<exists>m' v'. copy_struct ps m v = Some (m', v') \<and> wf_memory m' \<and> grows m m' \<and> copied (TStruct fs) m v m' v'"
    by (auto simp: copy_struct_def)
qed

section \<open>Isolation\<close>

text \<open>\<open>only_at S m m'\<close>: whatever was written between the two states was written in cells of \<open>S\<close>.\<close>

definition only_at :: "nat set \<Rightarrow> memory \<Rightarrow> memory \<Rightarrow> bool" where
  "only_at S m m' \<longleftrightarrow> (\<forall>a. a \<notin> S \<longrightarrow> cells m' a = cells m a)"

text \<open>After a copy, writes through either value do not show in the other.\<close>

lemma copy_isolated:
  assumes "copies T c" "wf_memory m" "typed T m v" "c m v = Some (m', v')"
  shows "only_at (footprint T m' v') m' m'' \<Longrightarrow> typed T m'' v \<and> view T m'' v = view T m v"
    and "only_at (footprint T m v) m' m'' \<Longrightarrow> typed T m'' v' \<and> view T m'' v' = view T m v"
proof -
  from assms have grow: "grows m m'" and copy: "copied T m v m' v'"
    by (auto elim: copiesE)
  note old = typed_grows [OF grow assms(3)]
  have apart: "a \<notin> footprint T m' v'" if "a \<in> footprint T m v" for a
    using footprint_used [OF assms(3) that] copy by (auto simp: copied_def)
  show "typed T m'' v \<and> view T m'' v = view T m v" if "only_at (footprint T m' v') m' m''"
    using typed_agree [OF old(1), of m''] that apart by (simp add: only_at_def old)
  show "typed T m'' v' \<and> view T m'' v' = view T m v" if "only_at (footprint T m v) m' m''"
    using typed_agree [of T m' v' m''] that apart copy by (auto simp: only_at_def copied_def)
qed

end
