(* ===== verification/Api_Types.thy ===== *)
theory Api_Types
  imports Deep_Copy
begin

text \<open>
  The Go types of the API, field by field as apis/v1alpha1/types.go, database.go and job.go declare
  them, in order of use. The types of the Kubernetes and ACK libraries are the fields \<open>t_...\<close> of a
  record, next to the library's own copy functions; \<open>ext_laws\<close> says that those copy.
\<close>

section \<open>Library types\<close>

record api_library =
  t_Time :: gotype
  t_TypeMeta :: gotype
  t_ObjectMeta :: gotype
  t_ListMeta :: gotype
  t_ResourceMetadata :: gotype
  t_Condition :: gotype
  t_AWSResourceReferenceWrapper :: gotype
  Time_DeepCopy :: copier  \<comment> \<open>from pointer to pointer\<close>
  ObjectMeta_DeepCopyInto :: copier
  ListMeta_DeepCopyInto :: copier
  ResourceMetadata_DeepCopyInto :: copier
  Condition_DeepCopyInto :: copier
  AWSResourceReferenceWrapper_DeepCopyInto :: copier

definition ext_laws :: "api_library \<Rightarrow> bool" where
  "ext_laws x \<longleftrightarrow> flat (t_TypeMeta x) \<and> copies (TPtr (t_Time x)) (Time_DeepCopy x) \<and>
     copies (t_ObjectMeta x) (ObjectMeta_DeepCopyInto x) \<and>
     copies (t_ListMeta x) (ListMeta_DeepCopyInto x) \<and>
     copies (t_ResourceMetadata x) (ResourceMetadata_DeepCopyInto x) \<and>
     copies (t_Condition x) (Condition_DeepCopyInto x) \<and>
     copies (t_AWSResourceReferenceWrapper x) (AWSResourceReferenceWrapper_DeepCopyInto x)"

lemma ext_lawsD:
  assumes "ext_laws x"
  shows "flat (t_TypeMeta x)" "copies (t_TypeMeta x) shallow" "copies (TPtr (t_Time x)) (Time_DeepCopy x)"
    "copies (t_ObjectMeta x) (ObjectMeta_DeepCopyInto x)"
    "copies (t_ListMeta x) (ListMeta_DeepCopyInto x)"
    "copies (t_ResourceMetadata x) (ResourceMetadata_DeepCopyInto x)"
    "copies (t_Condition x) (Condition_DeepCopyInto x)"
    "copies (t_AWSResourceReferenceWrapper x) (AWSResourceReferenceWrapper_DeepCopyInto x)"
  using assms by (auto simp: ext_laws_def shallow_copies)

section \<open>The declared types\<close>

abbreviation pstring :: gotype where "pstring \<equiv> TPtr (TBasic BString)"
abbreviation pint :: gotype where "pint \<equiv> TPtr (TBasic BInt)"
abbreviation pfloat :: gotype where "pfloat \<equiv> TPtr (TBasic BFloat)"
abbreviation pbool :: gotype where "pbool \<equiv> TPtr (TBasic BBool)"

definition type_NotificationProperty :: gotype where
  "type_NotificationProperty = TStruct
     [(''NotifyDelayAfter'', pint)]"

definition type_Action :: gotype where
  "type_Action = TStruct
     [(''Arguments'', TMap pstring), (''CrawlerName'', pstring), (''JobName'', pstring),
      (''NotificationProperty'', TPtr type_NotificationProperty), (''SecurityConfiguration'', pstring),
      (''Timeout'', pint)]"

definition type_AggregateOperation :: gotype where
  "type_AggregateOperation = TStruct
     [(''AggFunc'', pstring), (''Column'', TSlice pstring)]"

definition type_Aggregate :: gotype where
  "type_Aggregate = TStruct
     [(''Aggs'', TSlice (TPtr type_AggregateOperation)), (''Groups'', TSlice (TSlice pstring)),
      (''Inputs'', TSlice pstring), (''Name'', pstring)]"

definition type_AmazonRedshiftAdvancedOption :: gotype where
  "type_AmazonRedshiftAdvancedOption = TStruct
     [(''Key'', pstring), (''Value'', pstring)]"

definition type_Option :: gotype where
  "type_Option = TStruct
     [(''Description'', pstring), (''Label'', pstring), (''Value'', pstring)]"

definition type_AmazonRedshiftNodeData :: gotype where
  "type_AmazonRedshiftNodeData = TStruct
     [(''AccessType'', pstring), (''Action'', pstring),
      (''AdvancedOptions'', TSlice (TPtr type_AmazonRedshiftAdvancedOption)),
      (''CatalogDatabase'', TPtr type_Option), (''CatalogRedshiftSchema'', pstring),
      (''CatalogRedshiftTable'', pstring), (''CatalogTable'', TPtr type_Option),
      (''Connection'', TPtr type_Option), (''CrawlerConnection'', pstring),
      (''IAMRole'', TPtr type_Option), (''MergeAction'', pstring), (''MergeClause'', pstring),
      (''MergeWhenMatched'', pstring), (''MergeWhenNotMatched'', pstring), (''PostAction'', pstring),
      (''PreAction'', pstring), (''SampleQuery'', pstring), (''Schema'', TPtr type_Option),
      (''SelectedColumns'', TSlice (TPtr type_Option)), (''SourceType'', pstring),
      (''StagingTable'', pstring), (''Table'', TPtr type_Option), (''TablePrefix'', pstring),
      (''TableSchema'', TSlice (TPtr type_Option)), (''TempDir'', pstring), (''Upsert'', pbool)]"

definition type_AmazonRedshiftSource :: gotype where
  "type_AmazonRedshiftSource = TStruct
     [(''Data'', TPtr type_AmazonRedshiftNodeData), (''Name'', pstring)]"

definition type_AmazonRedshiftTarget :: gotype where
  "type_AmazonRedshiftTarget = TStruct
     [(''Data'', TPtr type_AmazonRedshiftNodeData), (''Inputs'', TSlice pstring), (''Name'', pstring)]"

definition type_AnnotationError :: gotype where
  "type_AnnotationError = TStruct
     [(''FailureReason'', pstring)]"

definition type_Mapping :: gotype where
  "type_Mapping = TStruct
     [(''Dropped'', pbool), (''FromPath'', TSlice pstring), (''FromType'', pstring),
      (''ToKey'', pstring), (''ToType'', pstring)]"

definition type_ApplyMapping :: gotype where
  "type_ApplyMapping = TStruct
     [(''Inputs'', TSlice pstring), (''Mapping'', TSlice (TPtr type_Mapping)), (''Name'', pstring)]"

definition type_GlueStudioSchemaColumn :: gotype where
  "type_GlueStudioSchemaColumn = TStruct
     [(''Name'', pstring), (''Type'', pstring)]"

definition type_GlueSchema :: gotype where
  "type_GlueSchema = TStruct
     [(''Columns'', TSlice (TPtr type_GlueStudioSchemaColumn))]"

definition type_AthenaConnectorSource :: gotype where
  "type_AthenaConnectorSource = TStruct
     [(''ConnectionName'', pstring), (''ConnectionTable'', pstring), (''ConnectionType'', pstring),
      (''ConnectorName'', pstring), (''Name'', pstring),
      (''OutputSchemas'', TSlice (TPtr type_GlueSchema)), (''SchemaName'', pstring)]"

definition type_AuditContext :: gotype where
  "type_AuditContext = TStruct
     [(''AllColumnsRequested'', pbool)]"

definition type_BasicCatalogTarget :: gotype where
  "type_BasicCatalogTarget = TStruct
     [(''Database'', pstring), (''Inputs'', TSlice pstring), (''Name'', pstring),
      (''PartitionKeys'', TSlice (TSlice pstring)), (''Table'', pstring)]"

definition type_BatchGetTableOptimizerEntry :: gotype where
  "type_BatchGetTableOptimizerEntry = TStruct
     [(''CatalogID'', pstring)]"

definition type_BatchGetTableOptimizerError :: gotype where
  "type_BatchGetTableOptimizerError = TStruct
     [(''CatalogID'', pstring)]"

definition type_BatchStopJobRunError :: gotype where
  "type_BatchStopJobRunError = TStruct
     [(''JobName'', pstring)]"

definition type_BatchStopJobRunSuccessfulSubmission :: gotype where
  "type_BatchStopJobRunSuccessfulSubmission = TStruct
     [(''JobName'', pstring)]"

definition type_BatchTableOptimizer :: gotype where
  "type_BatchTableOptimizer = TStruct
     [(''CatalogID'', pstring)]"

definition type_Blueprint :: "api_library \<Rightarrow> gotype" where
  "type_Blueprint x = TStruct
     [(''BlueprintLocation'', pstring), (''BlueprintServiceLocation'', pstring),
      (''CreatedOn'', TPtr (t_Time x)), (''Description'', pstring),
      (''LastModifiedOn'', TPtr (t_Time x))]"

definition type_BlueprintRun :: "api_library \<Rightarrow> gotype" where
  "type_BlueprintRun x = TStruct
     [(''CompletedOn'', TPtr (t_Time x)), (''StartedOn'', TPtr (t_Time x)),
      (''WorkflowName'', pstring)]"

definition type_CatalogDeltaSource :: gotype where
  "type_CatalogDeltaSource = TStruct
     [(''AdditionalDeltaOptions'', TMap pstring), (''Database'', pstring), (''Name'', pstring),
      (''OutputSchemas'', TSlice (TPtr type_GlueSchema)), (''Table'', pstring)]"

definition type_CatalogEntry :: gotype where
  "type_CatalogEntry = TStruct
     [(''DatabaseName'', pstring), (''TableName'', pstring)]"

definition type_CatalogHudiSource :: gotype where
  "type_CatalogHudiSource = TStruct
     [(''AdditionalHudiOptions'', TMap pstring), (''Database'', pstring), (''Name'', pstring),
      (''OutputSchemas'', TSlice (TPtr type_GlueSchema)), (''Table'', pstring)]"

definition type_CatalogImportStatus :: "api_library \<Rightarrow> gotype" where
  "type_CatalogImportStatus x = TStruct
     [(''ImportTime'', TPtr (t_Time x)), (''ImportedBy'', pstring)]"

definition type_StreamingDataPreviewOptions :: gotype where
  "type_StreamingDataPreviewOptions = TStruct
     [(''PollingTime'', pint), (''RecordPollingLimit'', pint)]"

definition type_KafkaStreamingSourceOptions :: "api_library \<Rightarrow> gotype" where
  "type_KafkaStreamingSourceOptions x = TStruct
     [(''AddRecordTimestamp'', pstring), (''Assign'', pstring), (''BootstrapServers'', pstring),
      (''Classification'', pstring), (''ConnectionName'', pstring), (''Delimiter'', pstring),
      (''EmitConsumerLagMetrics'', pstring), (''EndingOffsets'', pstring), (''IncludeHeaders'', pbool),
      (''MaxOffsetsPerTrigger'', pint), (''MinPartitions'', pint), (''NumRetries'', pint),
      (''PollTimeoutMs'', pint), (''RetryIntervalMs'', pint), (''SecurityProtocol'', pstring),
      (''StartingOffsets'', pstring), (''StartingTimestamp'', TPtr (t_Time x)),
      (''SubscribePattern'', pstring), (''TopicName'', pstring)]"

definition type_CatalogKafkaSource :: "api_library \<Rightarrow> gotype" where
  "type_CatalogKafkaSource x = TStruct
     [(''DataPreviewOptions'', TPtr type_StreamingDataPreviewOptions), (''Database'', pstring),
      (''DetectSchema'', pbool), (''Name'', pstring),
      (''StreamingOptions'', TPtr (type_KafkaStreamingSourceOptions x)), (''Table'', pstring),
      (''WindowSize'', pint)]"

definition type_KinesisStreamingSourceOptions :: "api_library \<Rightarrow> gotype" where
  "type_KinesisStreamingSourceOptions x = TStruct
     [(''AddIdleTimeBetweenReads'', pbool), (''AddRecordTimestamp'', pstring),
      (''AvoidEmptyBatches'', pbool), (''Classification'', pstring), (''Delimiter'', pstring),
      (''DescribeShardInterval'', pint), (''EmitConsumerLagMetrics'', pstring),
      (''EndpointURL'', pstring), (''IdleTimeBetweenReadsInMs'', pint),
      (''MaxFetchRecordsPerShard'', pint), (''MaxFetchTimeInMs'', pint), (''MaxRecordPerRead'', pint),
      (''MaxRetryIntervalMs'', pint), (''NumRetries'', pint), (''RetryIntervalMs'', pint),
      (''RoleARN'', pstring), (''RoleSessionName'', pstring), (''StartingPosition'', pstring),
      (''StartingTimestamp'', TPtr (t_Time x)), (''StreamARN'', pstring), (''StreamName'', pstring)]"

definition type_CatalogKinesisSource :: "api_library \<Rightarrow> gotype" where
  "type_CatalogKinesisSource x = TStruct
     [(''DataPreviewOptions'', TPtr type_StreamingDataPreviewOptions), (''Database'', pstring),
      (''DetectSchema'', pbool), (''Name'', pstring),
      (''StreamingOptions'', TPtr (type_KinesisStreamingSourceOptions x)), (''Table'', pstring),
      (''WindowSize'', pint)]"

definition type_CatalogSchemaChangePolicy :: gotype where
  "type_CatalogSchemaChangePolicy = TStruct
     [(''EnableUpdateCatalog'', pbool), (''UpdateBehavior'', pstring)]"

definition type_CatalogSource :: gotype where
  "type_CatalogSource = TStruct
     [(''Database'', pstring), (''Name'', pstring), (''Table'', pstring)]"

definition type_CatalogTarget :: gotype where
  "type_CatalogTarget = TStruct
     [(''DatabaseName'', pstring)]"

definition type_ConnectorDataSource :: gotype where
  "type_ConnectorDataSource = TStruct
     [(''ConnectionType'', pstring), (''Data'', TMap pstring), (''Name'', pstring),
      (''OutputSchemas'', TSlice (TPtr type_GlueSchema))]"

definition type_ConnectorDataTarget :: gotype where
  "type_ConnectorDataTarget = TStruct
     [(''ConnectionType'', pstring), (''Data'', TMap pstring), (''Inputs'', TSlice pstring),
      (''Name'', pstring)]"

definition type_CustomCode :: gotype where
  "type_CustomCode = TStruct
     [(''ClassName'', pstring), (''Code'', pstring), (''Inputs'', TSlice pstring), (''Name'', pstring),
      (''OutputSchemas'', TSlice (TPtr type_GlueSchema))]"

definition type_DirectJDBCSource :: gotype where
  "type_DirectJDBCSource = TStruct
     [(''ConnectionName'', pstring), (''ConnectionType'', pstring), (''Database'', pstring),
      (''Name'', pstring), (''RedshiftTmpDir'', pstring), (''Table'', pstring)]"

definition type_DirectKafkaSource :: "api_library \<Rightarrow> gotype" where
  "type_DirectKafkaSource x = TStruct
     [(''DataPreviewOptions'', TPtr type_StreamingDataPreviewOptions), (''DetectSchema'', pbool),
      (''Name'', pstring), (''StreamingOptions'', TPtr (type_KafkaStreamingSourceOptions x)),
      (''WindowSize'', pint)]"

definition type_DirectKinesisSource :: "api_library \<Rightarrow> gotype" where
  "type_DirectKinesisSource x = TStruct
     [(''DataPreviewOptions'', TPtr type_StreamingDataPreviewOptions), (''DetectSchema'', pbool),
      (''Name'', pstring), (''StreamingOptions'', TPtr (type_KinesisStreamingSourceOptions x)),
      (''WindowSize'', pint)]"

definition type_DropDuplicates :: gotype where
  "type_DropDuplicates = TStruct
     [(''Columns'', TSlice (TSlice pstring)), (''Inputs'', TSlice pstring), (''Name'', pstring)]"

definition type_DropFields :: gotype where
  "type_DropFields = TStruct
     [(''Inputs'', TSlice pstring), (''Name'', pstring), (''Paths'', TSlice (TSlice pstring))]"

definition type_NullCheckBoxList :: gotype where
  "type_NullCheckBoxList = TStruct
     [(''IsEmpty'', pbool), (''IsNegOne'', pbool), (''IsNullString'', pbool)]"

definition type_Datatype :: gotype where
  "type_Datatype = TStruct
     [(''ID'', pstring), (''Label'', pstring)]"

definition type_NullValueField :: gotype where
  "type_NullValueField = TStruct
     [(''Datatype'', TPtr type_Datatype), (''Value'', pstring)]"

definition type_DropNullFields :: gotype where
  "type_DropNullFields = TStruct
     [(''Inputs'', TSlice pstring), (''Name'', pstring),
      (''NullCheckBoxList'', TPtr type_NullCheckBoxList),
      (''NullTextList'', TSlice (TPtr type_NullValueField))]"

definition type_TransformConfigParameter :: gotype where
  "type_TransformConfigParameter = TStruct
     [(''IsOptional'', pbool), (''ListType'', pstring), (''Name'', pstring), (''Type'', pstring),
      (''ValidationMessage'', pstring), (''ValidationRule'', pstring), (''Value'', TSlice pstring)]"

definition type_DynamicTransform :: gotype where
  "type_DynamicTransform = TStruct
     [(''FunctionName'', pstring), (''Inputs'', TSlice pstring), (''Name'', pstring),
      (''OutputSchemas'', TSlice (TPtr type_GlueSchema)),
      (''Parameters'', TSlice (TPtr type_TransformConfigParameter)), (''Path'', pstring),
      (''TransformName'', pstring), (''Version'', pstring)]"

definition type_DynamoDBCatalogSource :: gotype where
  "type_DynamoDBCatalogSource = TStruct
     [(''Database'', pstring), (''Name'', pstring), (''Table'', pstring)]"

definition type_DQResultsPublishingOptions :: gotype where
  "type_DQResultsPublishingOptions = TStruct
     [(''CloudWatchMetricsEnabled'', pbool), (''EvaluationContext'', pstring),
      (''ResultsPublishingEnabled'', pbool), (''ResultsS3Prefix'', pstring)]"

definition type_DQStopJobOnFailureOptions :: gotype where
  "type_DQStopJobOnFailureOptions = TStruct
     [(''StopJobOnFailureTiming'', pstring)]"

definition type_EvaluateDataQuality :: gotype where
  "type_EvaluateDataQuality = TStruct
     [(''Inputs'', TSlice pstring), (''Name'', pstring), (''Output'', pstring),
      (''PublishingOptions'', TPtr type_DQResultsPublishingOptions), (''Ruleset'', pstring),
      (''StopJobOnFailureOptions'', TPtr type_DQStopJobOnFailureOptions)]"

definition type_EvaluateDataQualityMultiFrame :: gotype where
  "type_EvaluateDataQualityMultiFrame = TStruct
     [(''AdditionalDataSources'', TMap pstring), (''AdditionalOptions'', TMap pstring),
      (''Inputs'', TSlice pstring), (''Name'', pstring),
      (''PublishingOptions'', TPtr type_DQResultsPublishingOptions), (''Ruleset'', pstring),
      (''StopJobOnFailureOptions'', TPtr type_DQStopJobOnFailureOptions)]"

definition type_FillMissingValues :: gotype where
  "type_FillMissingValues = TStruct
     [(''FilledPath'', pstring), (''ImputedPath'', pstring), (''Inputs'', TSlice pstring),
      (''Name'', pstring)]"

definition type_FilterValue :: gotype where
  "type_FilterValue = TStruct
     [(''Type'', pstring), (''Value'', TSlice pstring)]"

definition type_FilterExpression :: gotype where
  "type_FilterExpression = TStruct
     [(''Negated'', pbool), (''Operation'', pstring), (''Values'', TSlice (TPtr type_FilterValue))]"

definition type_Filter :: gotype where
  "type_Filter = TStruct
     [(''Filters'', TSlice (TPtr type_FilterExpression)), (''Inputs'', TSlice pstring),
      (''LogicalOperator'', pstring), (''Name'', pstring)]"

definition type_S3SourceAdditionalOptions :: gotype where
  "type_S3SourceAdditionalOptions = TStruct
     [(''BoundedFiles'', pint), (''BoundedSize'', pint)]"

definition type_GovernedCatalogSource :: gotype where
  "type_GovernedCatalogSource = TStruct
     [(''AdditionalOptions'', TPtr type_S3SourceAdditionalOptions), (''Database'', pstring),
      (''Name'', pstring), (''PartitionPredicate'', pstring), (''Table'', pstring)]"

definition type_GovernedCatalogTarget :: gotype where
  "type_GovernedCatalogTarget = TStruct
     [(''Database'', pstring), (''Inputs'', TSlice pstring), (''Name'', pstring),
      (''PartitionKeys'', TSlice (TSlice pstring)),
      (''SchemaChangePolicy'', TPtr type_CatalogSchemaChangePolicy), (''Table'', pstring)]"

definition type_JDBCConnectorOptions :: gotype where
  "type_JDBCConnectorOptions = TStruct
     [(''DataTypeMapping'', TMap pstring), (''FilterPredicate'', pstring),
      (''JobBookmarkKeys'', TSlice pstring), (''JobBookmarkKeysSortOrder'', pstring),
      (''LowerBound'', pint), (''NumPartitions'', pint), (''PartitionColumn'', pstring),
      (''UpperBound'', pint)]"

definition type_JDBCConnectorSource :: gotype where
  "type_JDBCConnectorSource = TStruct
     [(''AdditionalOptions'', TPtr type_JDBCConnectorOptions), (''ConnectionName'', pstring),
      (''ConnectionTable'', pstring), (''ConnectionType'', pstring), (''ConnectorName'', pstring),
      (''Name'', pstring), (''OutputSchemas'', TSlice (TPtr type_GlueSchema)), (''Query'', pstring)]"

definition type_JDBCConnectorTarget :: gotype where
  "type_JDBCConnectorTarget = TStruct
     [(''AdditionalOptions'', TMap pstring), (''ConnectionName'', pstring),
      (''ConnectionTable'', pstring), (''ConnectionType'', pstring), (''ConnectorName'', pstring),
      (''Inputs'', TSlice pstring), (''Name'', pstring),
      (''OutputSchemas'', TSlice (TPtr type_GlueSchema))]"

definition type_JoinColumn :: gotype where
  "type_JoinColumn = TStruct
     [(''From'', pstring), (''Keys'', TSlice (TSlice pstring))]"

definition type_Join :: gotype where
  "type_Join = TStruct
     [(''Columns'', TSlice (TPtr type_JoinColumn)), (''Inputs'', TSlice pstring),
      (''JoinType'', pstring), (''Name'', pstring)]"

definition type_Merge :: gotype where
  "type_Merge = TStruct
     [(''Inputs'', TSlice pstring), (''Name'', pstring), (''PrimaryKeys'', TSlice (TSlice pstring)),
      (''Source'', pstring)]"

definition type_MicrosoftSQLServerCatalogSource :: gotype where
  "type_MicrosoftSQLServerCatalogSource = TStruct
     [(''Database'', pstring), (''Name'', pstring), (''Table'', pstring)]"

definition type_MicrosoftSQLServerCatalogTarget :: gotype where
  "type_MicrosoftSQLServerCatalogTarget = TStruct
     [(''Database'', pstring), (''Inputs'', TSlice pstring), (''Name'', pstring), (''Table'', pstring)]"

definition type_MySQLCatalogSource :: gotype where
  "type_MySQLCatalogSource = TStruct
     [(''Database'', pstring), (''Name'', pstring), (''Table'', pstring)]"

definition type_MySQLCatalogTarget :: gotype where
  "type_MySQLCatalogTarget = TStruct
     [(''Database'', pstring), (''Inputs'', TSlice pstring), (''Name'', pstring), (''Table'', pstring)]"

definition type_OracleSQLCatalogSource :: gotype where
  "type_OracleSQLCatalogSource = TStruct
     [(''Database'', pstring), (''Name'', pstring), (''Table'', pstring)]"

definition type_OracleSQLCatalogTarget :: gotype where
  "type_OracleSQLCatalogTarget = TStruct
     [(''Database'', pstring), (''Inputs'', TSlice pstring), (''Name'', pstring), (''Table'', pstring)]"

definition type_PIIDetection :: gotype where
  "type_PIIDetection = TStruct
     [(''EntityTypesToDetect'', TSlice pstring), (''Inputs'', TSlice pstring),
      (''MaskValue'', pstring), (''Name'', pstring), (''OutputColumnName'', pstring),
      (''PiiType'', pstring), (''SampleFraction'', pfloat), (''ThresholdFraction'', pfloat)]"

definition type_PostgreSQLCatalogSource :: gotype where
  "type_PostgreSQLCatalogSource = TStruct
     [(''Database'', pstring), (''Name'', pstring), (''Table'', pstring)]"

definition type_PostgreSQLCatalogTarget :: gotype where
  "type_PostgreSQLCatalogTarget = TStruct
     [(''Database'', pstring), (''Inputs'', TSlice pstring), (''Name'', pstring), (''Table'', pstring)]"

definition type_RecipeReference :: gotype where
  "type_RecipeReference = TStruct
     [(''RecipeARN'', pstring), (''RecipeVersion'', pstring)]"

definition type_RecipeAction :: gotype where
  "type_RecipeAction = TStruct
     [(''Operation'', pstring), (''Parameters'', TMap pstring)]"

definition type_ConditionExpression :: gotype where
  "type_ConditionExpression = TStruct
     [(''Condition'', pstring), (''TargetColumn'', pstring), (''Value'', pstring)]"

definition type_RecipeStep :: gotype where
  "type_RecipeStep = TStruct
     [(''Action'', TPtr type_RecipeAction),
      (''ConditionExpressions'', TSlice (TPtr type_ConditionExpression))]"

definition type_Recipe :: gotype where
  "type_Recipe = TStruct
     [(''Inputs'', TSlice pstring), (''Name'', pstring),
      (''RecipeReference'', TPtr type_RecipeReference),
      (''RecipeSteps'', TSlice (TPtr type_RecipeStep))]"

definition type_RedshiftSource :: gotype where
  "type_RedshiftSource = TStruct
     [(''Database'', pstring), (''Name'', pstring), (''RedshiftTmpDir'', pstring),
      (''Table'', pstring), (''TmpDirIAMRole'', pstring)]"

definition type_UpsertRedshiftTargetOptions :: gotype where
  "type_UpsertRedshiftTargetOptions = TStruct
     [(''ConnectionName'', pstring), (''TableLocation'', pstring), (''UpsertKeys'', TSlice pstring)]"

definition type_RedshiftTarget :: gotype where
  "type_RedshiftTarget = TStruct
     [(''Database'', pstring), (''Inputs'', TSlice pstring), (''Name'', pstring),
      (''RedshiftTmpDir'', pstring), (''Table'', pstring), (''TmpDirIAMRole'', pstring),
      (''UpsertRedshiftOptions'', TPtr type_UpsertRedshiftTargetOptions)]"

definition type_RelationalCatalogSource :: gotype where
  "type_RelationalCatalogSource = TStruct
     [(''Database'', pstring), (''Name'', pstring), (''Table'', pstring)]"

definition type_RenameField :: gotype where
  "type_RenameField = TStruct
     [(''Inputs'', TSlice pstring), (''Name'', pstring), (''SourcePath'', TSlice pstring),
      (''TargetPath'', TSlice pstring)]"

definition type_S3CatalogDeltaSource :: gotype where
  "type_S3CatalogDeltaSource = TStruct
     [(''AdditionalDeltaOptions'', TMap pstring), (''Database'', pstring), (''Name'', pstring),
      (''OutputSchemas'', TSlice (TPtr type_GlueSchema)), (''Table'', pstring)]"

definition type_S3CatalogHudiSource :: gotype where
  "type_S3CatalogHudiSource = TStruct
     [(''AdditionalHudiOptions'', TMap pstring), (''Database'', pstring), (''Name'', pstring),
      (''OutputSchemas'', TSlice (TPtr type_GlueSchema)), (''Table'', pstring)]"

definition type_S3CatalogSource :: gotype where
  "type_S3CatalogSource = TStruct
     [(''AdditionalOptions'', TPtr type_S3SourceAdditionalOptions), (''Database'', pstring),
      (''Name'', pstring), (''PartitionPredicate'', pstring), (''Table'', pstring)]"

definition type_S3CatalogTarget :: gotype where
  "type_S3CatalogTarget = TStruct
     [(''Database'', pstring), (''Inputs'', TSlice pstring), (''Name'', pstring),
      (''PartitionKeys'', TSlice (TSlice pstring)),
      (''SchemaChangePolicy'', TPtr type_CatalogSchemaChangePolicy), (''Table'', pstring)]"

definition type_S3DirectSourceAdditionalOptions :: gotype where
  "type_S3DirectSourceAdditionalOptions = TStruct
     [(''BoundedFiles'', pint), (''BoundedSize'', pint), (''EnableSamplePath'', pbool),
      (''SamplePath'', pstring)]"

definition type_S3CsvSource :: gotype where
  "type_S3CsvSource = TStruct
     [(''AdditionalOptions'', TPtr type_S3DirectSourceAdditionalOptions),
      (''CompressionType'', pstring), (''Escaper'', pstring), (''Exclusions'', TSlice pstring),
      (''GroupFiles'', pstring), (''GroupSize'', pstring), (''MaxBand'', pint),
      (''MaxFilesInBand'', pint), (''Multiline'', pbool), (''Name'', pstring),
      (''OptimizePerformance'', pbool), (''OutputSchemas'', TSlice (TPtr type_GlueSchema)),
      (''Paths'', TSlice pstring), (''QuoteChar'', pstring), (''Recurse'', pbool),
      (''Separator'', pstring), (''SkipFirst'', pbool), (''WithHeader'', pbool),
      (''WriteHeader'', pbool)]"

definition type_S3DeltaCatalogTarget :: gotype where
  "type_S3DeltaCatalogTarget = TStruct
     [(''AdditionalOptions'', TMap pstring), (''Database'', pstring), (''Inputs'', TSlice pstring),
      (''Name'', pstring), (''PartitionKeys'', TSlice (TSlice pstring)),
      (''SchemaChangePolicy'', TPtr type_CatalogSchemaChangePolicy), (''Table'', pstring)]"

definition type_DirectSchemaChangePolicy :: gotype where
  "type_DirectSchemaChangePolicy = TStruct
     [(''Database'', pstring), (''EnableUpdateCatalog'', pbool), (''Table'', pstring),
      (''UpdateBehavior'', pstring)]"

definition type_S3DeltaDirectTarget :: gotype where
  "type_S3DeltaDirectTarget = TStruct
     [(''AdditionalOptions'', TMap pstring), (''Compression'', pstring), (''Format'', pstring),
      (''Inputs'', TSlice pstring), (''Name'', pstring), (''PartitionKeys'', TSlice (TSlice pstring)),
      (''Path'', pstring), (''SchemaChangePolicy'', TPtr type_DirectSchemaChangePolicy)]"

definition type_S3DeltaSource :: gotype where
  "type_S3DeltaSource = TStruct
     [(''AdditionalDeltaOptions'', TMap pstring),
      (''AdditionalOptions'', TPtr type_S3DirectSourceAdditionalOptions), (''Name'', pstring),
      (''OutputSchemas'', TSlice (TPtr type_GlueSchema)), (''Paths'', TSlice pstring)]"

definition type_S3DirectTarget :: gotype where
  "type_S3DirectTarget = TStruct
     [(''Compression'', pstring), (''Format'', pstring), (''Inputs'', TSlice pstring),
      (''Name'', pstring), (''PartitionKeys'', TSlice (TSlice pstring)), (''Path'', pstring),
      (''SchemaChangePolicy'', TPtr type_DirectSchemaChangePolicy)]"

definition type_S3GlueParquetTarget :: gotype where
  "type_S3GlueParquetTarget = TStruct
     [(''Compression'', pstring), (''Inputs'', TSlice pstring), (''Name'', pstring),
      (''PartitionKeys'', TSlice (TSlice pstring)), (''Path'', pstring),
      (''SchemaChangePolicy'', TPtr type_DirectSchemaChangePolicy)]"

definition type_S3HudiCatalogTarget :: gotype where
  "type_S3HudiCatalogTarget = TStruct
     [(''AdditionalOptions'', TMap pstring), (''Database'', pstring), (''Inputs'', TSlice pstring),
      (''Name'', pstring), (''PartitionKeys'', TSlice (TSlice pstring)),
      (''SchemaChangePolicy'', TPtr type_CatalogSchemaChangePolicy), (''Table'', pstring)]"

definition type_S3HudiDirectTarget :: gotype where
  "type_S3HudiDirectTarget = TStruct
     [(''AdditionalOptions'', TMap pstring), (''Compression'', pstring), (''Format'', pstring),
      (''Inputs'', TSlice pstring), (''Name'', pstring), (''PartitionKeys'', TSlice (TSlice pstring)),
      (''Path'', pstring), (''SchemaChangePolicy'', TPtr type_DirectSchemaChangePolicy)]"

definition type_S3HudiSource :: gotype where
  "type_S3HudiSource = TStruct
     [(''AdditionalHudiOptions'', TMap pstring),
      (''AdditionalOptions'', TPtr type_S3DirectSourceAdditionalOptions), (''Name'', pstring),
      (''OutputSchemas'', TSlice (TPtr type_GlueSchema)), (''Paths'', TSlice pstring)]"

definition type_S3JSONSource :: gotype where
  "type_S3JSONSource = TStruct
     [(''AdditionalOptions'', TPtr type_S3DirectSourceAdditionalOptions),
      (''CompressionType'', pstring), (''Exclusions'', TSlice pstring), (''GroupFiles'', pstring),
      (''GroupSize'', pstring), (''JSONPath'', pstring), (''MaxBand'', pint),
      (''MaxFilesInBand'', pint), (''Multiline'', pbool), (''Name'', pstring),
      (''OutputSchemas'', TSlice (TPtr type_GlueSchema)), (''Paths'', TSlice pstring),
      (''Recurse'', pbool)]"

definition type_S3ParquetSource :: gotype where
  "type_S3ParquetSource = TStruct
     [(''AdditionalOptions'', TPtr type_S3DirectSourceAdditionalOptions),
      (''CompressionType'', pstring), (''Exclusions'', TSlice pstring), (''GroupFiles'', pstring),
      (''GroupSize'', pstring), (''MaxBand'', pint), (''MaxFilesInBand'', pint), (''Name'', pstring),
      (''OutputSchemas'', TSlice (TPtr type_GlueSchema)), (''Paths'', TSlice pstring),
      (''Recurse'', pbool)]"

definition type_SelectFields :: gotype where
  "type_SelectFields = TStruct
     [(''Inputs'', TSlice pstring), (''Name'', pstring), (''Paths'', TSlice (TSlice pstring))]"

definition type_SelectFromCollection :: gotype where
  "type_SelectFromCollection = TStruct
     [(''Index'', pint), (''Inputs'', TSlice pstring), (''Name'', pstring)]"

definition type_SnowflakeNodeData :: gotype where
  "type_SnowflakeNodeData = TStruct
     [(''Action'', pstring), (''AdditionalOptions'', TMap pstring), (''AutoPushdown'', pbool),
      (''Connection'', TPtr type_Option), (''Database'', pstring), (''IAMRole'', TPtr type_Option),
      (''MergeAction'', pstring), (''MergeClause'', pstring), (''MergeWhenMatched'', pstring),
      (''MergeWhenNotMatched'', pstring), (''PostAction'', pstring), (''PreAction'', pstring),
      (''SampleQuery'', pstring), (''Schema'', pstring),
      (''SelectedColumns'', TSlice (TPtr type_Option)), (''SourceType'', pstring),
      (''StagingTable'', pstring), (''Table'', pstring), (''TableSchema'', TSlice (TPtr type_Option)),
      (''TempDir'', pstring), (''Upsert'', pbool)]"

definition type_SnowflakeSource :: gotype where
  "type_SnowflakeSource = TStruct
     [(''Data'', TPtr type_SnowflakeNodeData), (''Name'', pstring),
      (''OutputSchemas'', TSlice (TPtr type_GlueSchema))]"

definition type_SnowflakeTarget :: gotype where
  "type_SnowflakeTarget = TStruct
     [(''Data'', TPtr type_SnowflakeNodeData), (''Inputs'', TSlice pstring), (''Name'', pstring)]"

definition type_SparkConnectorSource :: gotype where
  "type_SparkConnectorSource = TStruct
     [(''AdditionalOptions'', TMap pstring), (''ConnectionName'', pstring),
      (''ConnectionType'', pstring), (''ConnectorName'', pstring), (''Name'', pstring),
      (''OutputSchemas'', TSlice (TPtr type_GlueSchema))]"

definition type_SparkConnectorTarget :: gotype where
  "type_SparkConnectorTarget = TStruct
     [(''AdditionalOptions'', TMap pstring), (''ConnectionName'', pstring),
      (''ConnectionType'', pstring), (''ConnectorName'', pstring), (''Inputs'', TSlice pstring),
      (''Name'', pstring), (''OutputSchemas'', TSlice (TPtr type_GlueSchema))]"

definition type_SQLAlias :: gotype where
  "type_SQLAlias = TStruct
     [(''Alias'', pstring), (''From'', pstring)]"

definition type_SparkSQL :: gotype where
  "type_SparkSQL = TStruct
     [(''Inputs'', TSlice pstring), (''Name'', pstring),
      (''OutputSchemas'', TSlice (TPtr type_GlueSchema)),
      (''SQLAliases'', TSlice (TPtr type_SQLAlias)), (''SQLQuery'', pstring)]"

definition type_Spigot :: gotype where
  "type_Spigot = TStruct
     [(''Inputs'', TSlice pstring), (''Name'', pstring), (''Path'', pstring), (''Prob'', pfloat),
      (''Topk'', pint)]"

definition type_SplitFields :: gotype where
  "type_SplitFields = TStruct
     [(''Inputs'', TSlice pstring), (''Name'', pstring), (''Paths'', TSlice (TSlice pstring))]"

definition type_Union :: gotype where
  "type_Union = TStruct
     [(''Inputs'', TSlice pstring), (''Name'', pstring), (''UnionType'', pstring)]"

definition type_CodeGenConfigurationNode :: "api_library \<Rightarrow> gotype" where
  "type_CodeGenConfigurationNode x = TStruct
     [(''Aggregate'', TPtr type_Aggregate), (''AmazonRedshiftSource'', TPtr type_AmazonRedshiftSource),
      (''AmazonRedshiftTarget'', TPtr type_AmazonRedshiftTarget),
      (''ApplyMapping'', TPtr type_ApplyMapping),
      (''AthenaConnectorSource'', TPtr type_AthenaConnectorSource),
      (''CatalogDeltaSource'', TPtr type_CatalogDeltaSource),
      (''CatalogHudiSource'', TPtr type_CatalogHudiSource),
      (''CatalogKafkaSource'', TPtr (type_CatalogKafkaSource x)),
      (''CatalogKinesisSource'', TPtr (type_CatalogKinesisSource x)),
      (''CatalogSource'', TPtr type_CatalogSource), (''CatalogTarget'', TPtr type_BasicCatalogTarget),
      (''ConnectorDataSource'', TPtr type_ConnectorDataSource),
      (''ConnectorDataTarget'', TPtr type_ConnectorDataTarget), (''CustomCode'', TPtr type_CustomCode),
      (''DirectJDBCSource'', TPtr type_DirectJDBCSource),
      (''DirectKafkaSource'', TPtr (type_DirectKafkaSource x)),
      (''DirectKinesisSource'', TPtr (type_DirectKinesisSource x)),
      (''DropDuplicates'', TPtr type_DropDuplicates), (''DropFields'', TPtr type_DropFields),
      (''DropNullFields'', TPtr type_DropNullFields),
      (''DynamicTransform'', TPtr type_DynamicTransform),
      (''DynamoDBCatalogSource'', TPtr type_DynamoDBCatalogSource),
      (''EvaluateDataQuality'', TPtr type_EvaluateDataQuality),
      (''EvaluateDataQualityMultiFrame'', TPtr type_EvaluateDataQualityMultiFrame),
      (''FillMissingValues'', TPtr type_FillMissingValues), (''Filter'', TPtr type_Filter),
      (''GovernedCatalogSource'', TPtr type_GovernedCatalogSource),
      (''GovernedCatalogTarget'', TPtr type_GovernedCatalogTarget),
      (''JDBCConnectorSource'', TPtr type_JDBCConnectorSource),
      (''JDBCConnectorTarget'', TPtr type_JDBCConnectorTarget), (''Join'', TPtr type_Join),
      (''Merge'', TPtr type_Merge),
      (''MicrosoftSQLServerCatalogSource'', TPtr type_MicrosoftSQLServerCatalogSource),
      (''MicrosoftSQLServerCatalogTarget'', TPtr type_MicrosoftSQLServerCatalogTarget),
      (''MySQLCatalogSource'', TPtr type_MySQLCatalogSource),
      (''MySQLCatalogTarget'', TPtr type_MySQLCatalogTarget),
      (''OracleSQLCatalogSource'', TPtr type_OracleSQLCatalogSource),
      (''OracleSQLCatalogTarget'', TPtr type_OracleSQLCatalogTarget),
      (''PIIDetection'', TPtr type_PIIDetection),
      (''PostgreSQLCatalogSource'', TPtr type_PostgreSQLCatalogSource),
      (''PostgreSQLCatalogTarget'', TPtr type_PostgreSQLCatalogTarget), (''Recipe'', TPtr type_Recipe),
      (''RedshiftSource'', TPtr type_RedshiftSource), (''RedshiftTarget'', TPtr type_RedshiftTarget),
      (''RelationalCatalogSource'', TPtr type_RelationalCatalogSource),
      (''RenameField'', TPtr type_RenameField),
      (''S3CatalogDeltaSource'', TPtr type_S3CatalogDeltaSource),
      (''S3CatalogHudiSource'', TPtr type_S3CatalogHudiSource),
      (''S3CatalogSource'', TPtr type_S3CatalogSource),
      (''S3CatalogTarget'', TPtr type_S3CatalogTarget), (''S3CsvSource'', TPtr type_S3CsvSource),
      (''S3DeltaCatalogTarget'', TPtr type_S3DeltaCatalogTarget),
      (''S3DeltaDirectTarget'', TPtr type_S3DeltaDirectTarget),
      (''S3DeltaSource'', TPtr type_S3DeltaSource), (''S3DirectTarget'', TPtr type_S3DirectTarget),
      (''S3GlueParquetTarget'', TPtr type_S3GlueParquetTarget),
      (''S3HudiCatalogTarget'', TPtr type_S3HudiCatalogTarget),
      (''S3HudiDirectTarget'', TPtr type_S3HudiDirectTarget),
      (''S3HudiSource'', TPtr type_S3HudiSource), (''S3JSONSource'', TPtr type_S3JSONSource),
      (''S3ParquetSource'', TPtr type_S3ParquetSource), (''SelectFields'', TPtr type_SelectFields),
      (''SelectFromCollection'', TPtr type_SelectFromCollection),
      (''SnowflakeSource'', TPtr type_SnowflakeSource),
      (''SnowflakeTarget'', TPtr type_SnowflakeTarget),
      (''SparkConnectorSource'', TPtr type_SparkConnectorSource),
      (''SparkConnectorTarget'', TPtr type_SparkConnectorTarget), (''SparkSQL'', TPtr type_SparkSQL),
      (''Spigot'', TPtr type_Spigot), (''SplitFields'', TPtr type_SplitFields),
      (''Union'', TPtr type_Union)]"

definition type_ColumnError :: gotype where
  "type_ColumnError = TStruct
     [(''ColumnName'', pstring)]"

definition type_ColumnImportance :: gotype where
  "type_ColumnImportance = TStruct
     [(''ColumnName'', pstring)]"

definition type_ColumnRowFilter :: gotype where
  "type_ColumnRowFilter = TStruct
     [(''ColumnName'', pstring)]"

definition type_ColumnStatistics :: "api_library \<Rightarrow> gotype" where
  "type_ColumnStatistics x = TStruct
     [(''AnalyzedTime'', TPtr (t_Time x)), (''ColumnName'', pstring)]"

definition type_ColumnStatisticsTaskRun :: "api_library \<Rightarrow> gotype" where
  "type_ColumnStatisticsTaskRun x = TStruct
     [(''CatalogID'', pstring), (''CreationTime'', TPtr (t_Time x)), (''EndTime'', TPtr (t_Time x)),
      (''ErrorMessage'', pstring), (''LastUpdated'', TPtr (t_Time x)),
      (''StartTime'', TPtr (t_Time x)), (''WorkerType'', pstring)]"

definition type_ColumnStatisticsTaskSettings :: gotype where
  "type_ColumnStatisticsTaskSettings = TStruct
     [(''CatalogID'', pstring)]"

definition type_Condition :: gotype where
  "type_Condition = TStruct
     [(''CrawlerName'', pstring), (''JobName'', pstring)]"

definition type_Connection :: "api_library \<Rightarrow> gotype" where
  "type_Connection x = TStruct
     [(''CreationTime'', TPtr (t_Time x)), (''Description'', pstring),
      (''LastConnectionValidationTime'', TPtr (t_Time x)), (''LastUpdatedBy'', pstring),
      (''LastUpdatedTime'', TPtr (t_Time x)), (''Name'', pstring)]"

definition type_ConnectionInput :: gotype where
  "type_ConnectionInput = TStruct
     [(''Description'', pstring), (''Name'', pstring)]"

definition type_ConnectionPasswordEncryption :: gotype where
  "type_ConnectionPasswordEncryption = TStruct
     [(''AWSKMSKeyID'', pstring)]"

definition type_ConnectionsList :: gotype where
  "type_ConnectionsList = TStruct
     [(''Connections'', TSlice pstring)]"

definition type_Crawl :: "api_library \<Rightarrow> gotype" where
  "type_Crawl x = TStruct
     [(''CompletedOn'', TPtr (t_Time x)), (''ErrorMessage'', pstring),
      (''StartedOn'', TPtr (t_Time x))]"

definition type_Crawler :: "api_library \<Rightarrow> gotype" where
  "type_Crawler x = TStruct
     [(''CreationTime'', TPtr (t_Time x)), (''Description'', pstring),
      (''LastUpdated'', TPtr (t_Time x)), (''Name'', pstring)]"

definition type_CrawlerHistory :: "api_library \<Rightarrow> gotype" where
  "type_CrawlerHistory x = TStruct
     [(''EndTime'', TPtr (t_Time x)), (''ErrorMessage'', pstring), (''StartTime'', TPtr (t_Time x)),
      (''Summary'', pstring)]"

definition type_CrawlerMetrics :: gotype where
  "type_CrawlerMetrics = TStruct
     [(''CrawlerName'', pstring)]"

definition type_CrawlsFilter :: gotype where
  "type_CrawlsFilter = TStruct
     [(''FieldValue'', pstring)]"

definition type_CreateCsvClassifierRequest :: gotype where
  "type_CreateCsvClassifierRequest = TStruct
     [(''AllowSingleColumn'', pbool), (''CustomDatatypeConfigured'', pbool),
      (''DisableValueTrimming'', pbool), (''Name'', pstring)]"

definition type_CreateGrokClassifierRequest :: gotype where
  "type_CreateGrokClassifierRequest = TStruct
     [(''Name'', pstring)]"

definition type_CreateJSONClassifierRequest :: gotype where
  "type_CreateJSONClassifierRequest = TStruct
     [(''Name'', pstring)]"

definition type_CreateXMLClassifierRequest :: gotype where
  "type_CreateXMLClassifierRequest = TStruct
     [(''Name'', pstring)]"

definition type_CsvClassifier :: "api_library \<Rightarrow> gotype" where
  "type_CsvClassifier x = TStruct
     [(''AllowSingleColumn'', pbool), (''CreationTime'', TPtr (t_Time x)),
      (''CustomDatatypeConfigured'', pbool), (''DisableValueTrimming'', pbool),
      (''LastUpdated'', TPtr (t_Time x)), (''Name'', pstring)]"

definition type_CustomEntityType :: gotype where
  "type_CustomEntityType = TStruct
     [(''Name'', pstring), (''RegexString'', pstring)]"

definition type_DataLakePrincipal :: gotype where
  "type_DataLakePrincipal = TStruct
     [(''DataLakePrincipalIdentifier'', pstring)]"

definition type_DataQualityAnalyzerResult :: gotype where
  "type_DataQualityAnalyzerResult = TStruct
     [(''Name'', pstring)]"

definition type_DataQualityEvaluationRunAdditionalRunOptions :: gotype where
  "type_DataQualityEvaluationRunAdditionalRunOptions = TStruct
     [(''CloudWatchMetricsEnabled'', pbool), (''ResultsS3Prefix'', pstring)]"

definition type_DataQualityMetricValues :: gotype where
  "type_DataQualityMetricValues = TStruct
     [(''ActualValue'', pfloat), (''ExpectedValue'', pfloat), (''LowerLimit'', pfloat),
      (''UpperLimit'', pfloat)]"

definition type_DataQualityResult :: "api_library \<Rightarrow> gotype" where
  "type_DataQualityResult x = TStruct
     [(''CompletedOn'', TPtr (t_Time x)), (''EvaluationContext'', pstring), (''JobName'', pstring),
      (''RulesetName'', pstring), (''StartedOn'', TPtr (t_Time x))]"

definition type_DataQualityResultDescription :: "api_library \<Rightarrow> gotype" where
  "type_DataQualityResultDescription x = TStruct
     [(''JobName'', pstring), (''StartedOn'', TPtr (t_Time x))]"

definition type_DataQualityResultFilterCriteria :: "api_library \<Rightarrow> gotype" where
  "type_DataQualityResultFilterCriteria x = TStruct
     [(''JobName'', pstring), (''StartedAfter'', TPtr (t_Time x)),
      (''StartedBefore'', TPtr (t_Time x))]"

definition type_DataQualityRuleRecommendationRunDescription :: "api_library \<Rightarrow> gotype" where
  "type_DataQualityRuleRecommendationRunDescription x = TStruct
     [(''StartedOn'', TPtr (t_Time x))]"

definition type_DataQualityRuleRecommendationRunFilter :: "api_library \<Rightarrow> gotype" where
  "type_DataQualityRuleRecommendationRunFilter x = TStruct
     [(''StartedAfter'', TPtr (t_Time x)), (''StartedBefore'', TPtr (t_Time x))]"

definition type_DataQualityRuleResult :: gotype where
  "type_DataQualityRuleResult = TStruct
     [(''Name'', pstring)]"

definition type_DataQualityRulesetEvaluationRunDescription :: "api_library \<Rightarrow> gotype" where
  "type_DataQualityRulesetEvaluationRunDescription x = TStruct
     [(''StartedOn'', TPtr (t_Time x))]"

definition type_DataQualityRulesetEvaluationRunFilter :: "api_library \<Rightarrow> gotype" where
  "type_DataQualityRulesetEvaluationRunFilter x = TStruct
     [(''StartedAfter'', TPtr (t_Time x)), (''StartedBefore'', TPtr (t_Time x))]"

definition type_DataQualityRulesetFilterCriteria :: "api_library \<Rightarrow> gotype" where
  "type_DataQualityRulesetFilterCriteria x = TStruct
     [(''CreatedAfter'', TPtr (t_Time x)), (''CreatedBefore'', TPtr (t_Time x)),
      (''Description'', pstring), (''LastModifiedAfter'', TPtr (t_Time x)),
      (''LastModifiedBefore'', TPtr (t_Time x)), (''Name'', pstring)]"

definition type_DataQualityRulesetListDetails :: "api_library \<Rightarrow> gotype" where
  "type_DataQualityRulesetListDetails x = TStruct
     [(''CreatedOn'', TPtr (t_Time x)), (''Description'', pstring),
      (''LastModifiedOn'', TPtr (t_Time x)), (''Name'', pstring), (''RuleCount'', pint)]"

definition type_DataQualityTargetTable :: gotype where
  "type_DataQualityTargetTable = TStruct
     [(''CatalogID'', pstring), (''DatabaseName'', pstring), (''TableName'', pstring)]"

definition type_DatabaseIdentifier :: gotype where
  "type_DatabaseIdentifier = TStruct
     [(''CatalogID'', pstring), (''DatabaseName'', pstring), (''Region'', pstring)]"

definition type_PrincipalPermissions :: gotype where
  "type_PrincipalPermissions = TStruct
     [(''Permissions'', TSlice pstring), (''Principal'', TPtr type_DataLakePrincipal)]"

definition type_FederatedDatabase :: gotype where
  "type_FederatedDatabase = TStruct
     [(''ConnectionName'', pstring), (''Identifier'', pstring)]"

definition type_DatabaseInput :: gotype where
  "type_DatabaseInput = TStruct
     [(''CreateTableDefaultPermissions'', TSlice (TPtr type_PrincipalPermissions)),
      (''Description'', pstring), (''FederatedDatabase'', TPtr type_FederatedDatabase),
      (''LocationURI'', pstring), (''Name'', pstring), (''Parameters'', TMap pstring),
      (''TargetDatabase'', TPtr type_DatabaseIdentifier)]"

definition type_Database_SDK :: "api_library \<Rightarrow> gotype" where
  "type_Database_SDK x = TStruct
     [(''CatalogID'', pstring),
      (''CreateTableDefaultPermissions'', TSlice (TPtr type_PrincipalPermissions)),
      (''CreateTime'', TPtr (t_Time x)), (''Description'', pstring),
      (''FederatedDatabase'', TPtr type_FederatedDatabase), (''LocationURI'', pstring),
      (''Name'', pstring), (''Parameters'', TMap pstring),
      (''TargetDatabase'', TPtr type_DatabaseIdentifier)]"

definition type_DateColumnStatisticsData :: "api_library \<Rightarrow> gotype" where
  "type_DateColumnStatisticsData x = TStruct
     [(''MaximumValue'', TPtr (t_Time x)), (''MinimumValue'', TPtr (t_Time x))]"

definition type_DeltaTarget :: gotype where
  "type_DeltaTarget = TStruct
     [(''CreateNativeDeltaTable'', pbool), (''WriteManifest'', pbool)]"

definition type_DevEndpoint :: "api_library \<Rightarrow> gotype" where
  "type_DevEndpoint x = TStruct
     [(''AvailabilityZone'', pstring), (''CreatedTimestamp'', TPtr (t_Time x)),
      (''EndpointName'', pstring), (''ExtraJarsS3Path'', pstring),
      (''ExtraPythonLibsS3Path'', pstring), (''FailureReason'', pstring), (''GlueVersion'', pstring),
      (''LastModifiedTimestamp'', TPtr (t_Time x)), (''LastUpdateStatus'', pstring),
      (''NumberOfNodes'', pint), (''NumberOfWorkers'', pint), (''PrivateAddress'', pstring),
      (''PublicAddress'', pstring), (''PublicKey'', pstring), (''SecurityConfiguration'', pstring),
      (''Status'', pstring), (''SubnetID'', pstring), (''VPCID'', pstring), (''WorkerType'', pstring),
      (''YarnEndpointAddress'', pstring), (''ZeppelinRemoteSparkInterpreterPort'', pint)]"

definition type_DevEndpointCustomLibraries :: gotype where
  "type_DevEndpointCustomLibraries = TStruct
     [(''ExtraJarsS3Path'', pstring), (''ExtraPythonLibsS3Path'', pstring)]"

definition type_DynamoDBTarget :: gotype where
  "type_DynamoDBTarget = TStruct
     [(''ScanAll'', pbool), (''ScanRate'', pfloat)]"

definition type_Edge :: gotype where
  "type_Edge = TStruct
     [(''DestinationID'', pstring), (''SourceID'', pstring)]"

definition type_EncryptionAtRest :: gotype where
  "type_EncryptionAtRest = TStruct
     [(''SSEAWSKMSKeyID'', pstring)]"

definition type_ErrorDetail :: gotype where
  "type_ErrorDetail = TStruct
     [(''ErrorCode'', pstring), (''ErrorMessage'', pstring)]"

definition type_ExecutionProperty :: gotype where
  "type_ExecutionProperty = TStruct
     [(''MaxConcurrentRuns'', pint)]"

definition type_ExportLabelsTaskRunProperties :: gotype where
  "type_ExportLabelsTaskRunProperties = TStruct
     [(''OutputS3Path'', pstring)]"

definition type_FederatedTable :: gotype where
  "type_FederatedTable = TStruct
     [(''ConnectionName'', pstring), (''DatabaseIdentifier'', pstring), (''Identifier'', pstring)]"

definition type_FindMatchesParameters :: gotype where
  "type_FindMatchesParameters = TStruct
     [(''EnforceProvidedLabels'', pbool)]"

definition type_FindMatchesTaskRunProperties :: gotype where
  "type_FindMatchesTaskRunProperties = TStruct
     [(''JobName'', pstring)]"

definition type_GluePolicy :: "api_library \<Rightarrow> gotype" where
  "type_GluePolicy x = TStruct
     [(''CreateTime'', TPtr (t_Time x)), (''UpdateTime'', TPtr (t_Time x))]"

definition type_GrokClassifier :: "api_library \<Rightarrow> gotype" where
  "type_GrokClassifier x = TStruct
     [(''CreationTime'', TPtr (t_Time x)), (''LastUpdated'', TPtr (t_Time x)), (''Name'', pstring)]"

definition type_HudiTarget :: gotype where
  "type_HudiTarget = TStruct
     [(''MaximumTraversalDepth'', pint)]"

definition type_IcebergOrphanFileDeletionConfiguration :: gotype where
  "type_IcebergOrphanFileDeletionConfiguration = TStruct
     [(''OrphanFileRetentionPeriodInDays'', pint)]"

definition type_IcebergRetentionConfiguration :: gotype where
  "type_IcebergRetentionConfiguration = TStruct
     [(''CleanExpiredFiles'', pbool), (''NumberOfSnapshotsToRetain'', pint),
      (''SnapshotRetentionPeriodInDays'', pint)]"

definition type_IcebergTarget :: gotype where
  "type_IcebergTarget = TStruct
     [(''MaximumTraversalDepth'', pint)]"

definition type_ImportLabelsTaskRunProperties :: gotype where
  "type_ImportLabelsTaskRunProperties = TStruct
     [(''InputS3Path'', pstring)]"

definition type_JSONClassifier :: "api_library \<Rightarrow> gotype" where
  "type_JSONClassifier x = TStruct
     [(''CreationTime'', TPtr (t_Time x)), (''LastUpdated'', TPtr (t_Time x)), (''Name'', pstring)]"

definition type_JobBookmarkEntry :: gotype where
  "type_JobBookmarkEntry = TStruct
     [(''Attempt'', pint), (''Run'', pint), (''Version'', pint)]"

definition type_JobCommand :: gotype where
  "type_JobCommand = TStruct
     [(''Name'', pstring), (''PythonVersion'', pstring), (''Runtime'', pstring),
      (''ScriptLocation'', pstring)]"

definition type_JobRun :: "api_library \<Rightarrow> gotype" where
  "type_JobRun x = TStruct
     [(''AllocatedCapacity'', pint), (''Arguments'', TMap pstring), (''CompletedOn'', TPtr (t_Time x)),
      (''DPUSeconds'', pfloat), (''ExecutionClass'', pstring), (''GlueVersion'', pstring),
      (''JobMode'', pstring), (''JobName'', pstring), (''JobRunQueuingEnabled'', pbool),
      (''LastModifiedOn'', TPtr (t_Time x)), (''LogGroupName'', pstring),
      (''MaintenanceWindow'', pstring), (''MaxCapacity'', pfloat),
      (''NotificationProperty'', TPtr type_NotificationProperty), (''NumberOfWorkers'', pint),
      (''ProfileName'', pstring), (''SecurityConfiguration'', pstring),
      (''StartedOn'', TPtr (t_Time x)), (''Timeout'', pint), (''TriggerName'', pstring),
      (''WorkerType'', pstring)]"

definition type_SourceControlDetails :: gotype where
  "type_SourceControlDetails = TStruct
     [(''AuthStrategy'', pstring), (''AuthToken'', pstring), (''Branch'', pstring),
      (''Folder'', pstring), (''LastCommitID'', pstring), (''Owner'', pstring),
      (''Provider'', pstring), (''Repository'', pstring)]"

definition type_JobUpdate :: "api_library \<Rightarrow> gotype" where
  "type_JobUpdate x = TStruct
     [(''CodeGenConfigurationNodes'', TMap (TPtr (type_CodeGenConfigurationNode x))),
      (''Command'', TPtr type_JobCommand), (''Connections'', TPtr type_ConnectionsList),
      (''DefaultArguments'', TMap pstring), (''Description'', pstring), (''ExecutionClass'', pstring),
      (''ExecutionProperty'', TPtr type_ExecutionProperty), (''GlueVersion'', pstring),
      (''JobMode'', pstring), (''JobRunQueuingEnabled'', pbool), (''LogURI'', pstring),
      (''MaintenanceWindow'', pstring), (''MaxCapacity'', pfloat), (''MaxRetries'', pint),
      (''NonOverridableArguments'', TMap pstring),
      (''NotificationProperty'', TPtr type_NotificationProperty), (''NumberOfWorkers'', pint),
      (''Role'', pstring), (''SecurityConfiguration'', pstring),
      (''SourceControlDetails'', TPtr type_SourceControlDetails), (''Timeout'', pint),
      (''WorkerType'', pstring)]"

definition type_Job_SDK :: "api_library \<Rightarrow> gotype" where
  "type_Job_SDK x = TStruct
     [(''AllocatedCapacity'', pint),
      (''CodeGenConfigurationNodes'', TMap (TPtr (type_CodeGenConfigurationNode x))),
      (''Command'', TPtr type_JobCommand), (''Connections'', TPtr type_ConnectionsList),
      (''CreatedOn'', TPtr (t_Time x)), (''DefaultArguments'', TMap pstring),
      (''Description'', pstring), (''ExecutionClass'', pstring),
      (''ExecutionProperty'', TPtr type_ExecutionProperty), (''GlueVersion'', pstring),
      (''JobMode'', pstring), (''JobRunQueuingEnabled'', pbool), (''LastModifiedOn'', TPtr (t_Time x)),
      (''LogURI'', pstring), (''MaintenanceWindow'', pstring), (''MaxCapacity'', pfloat),
      (''MaxRetries'', pint), (''Name'', pstring), (''NonOverridableArguments'', TMap pstring),
      (''NotificationProperty'', TPtr type_NotificationProperty), (''NumberOfWorkers'', pint),
      (''ProfileName'', pstring), (''Role'', pstring), (''SecurityConfiguration'', pstring),
      (''SourceControlDetails'', TPtr type_SourceControlDetails), (''Timeout'', pint),
      (''WorkerType'', pstring)]"

definition type_LabelingSetGenerationTaskRunProperties :: gotype where
  "type_LabelingSetGenerationTaskRunProperties = TStruct
     [(''OutputS3Path'', pstring)]"

definition type_LakeFormationConfiguration :: gotype where
  "type_LakeFormationConfiguration = TStruct
     [(''UseLakeFormationCredentials'', pbool)]"

definition type_LastActiveDefinition :: "api_library \<Rightarrow> gotype" where
  "type_LastActiveDefinition x = TStruct
     [(''BlueprintLocation'', pstring), (''BlueprintServiceLocation'', pstring),
      (''Description'', pstring), (''LastModifiedOn'', TPtr (t_Time x))]"

definition type_LastCrawlInfo :: "api_library \<Rightarrow> gotype" where
  "type_LastCrawlInfo x = TStruct
     [(''ErrorMessage'', pstring), (''StartTime'', TPtr (t_Time x))]"

definition type_MLTransform :: "api_library \<Rightarrow> gotype" where
  "type_MLTransform x = TStruct
     [(''CreatedOn'', TPtr (t_Time x)), (''Description'', pstring), (''GlueVersion'', pstring),
      (''LastModifiedOn'', TPtr (t_Time x)), (''MaxCapacity'', pfloat), (''MaxRetries'', pint),
      (''Name'', pstring), (''NumberOfWorkers'', pint), (''Role'', pstring), (''Timeout'', pint),
      (''WorkerType'', pstring)]"

definition type_MLUserDataEncryption :: gotype where
  "type_MLUserDataEncryption = TStruct
     [(''KMSKeyID'', pstring)]"

definition type_MetricBasedObservation :: gotype where
  "type_MetricBasedObservation = TStruct
     [(''MetricName'', pstring)]"

definition type_MongoDBTarget :: gotype where
  "type_MongoDBTarget = TStruct
     [(''ScanAll'', pbool)]"

definition type_Node :: gotype where
  "type_Node = TStruct
     [(''Name'', pstring), (''UniqueID'', pstring)]"

definition type_Order :: gotype where
  "type_Order = TStruct
     [(''Column'', pstring)]"

definition type_Partition :: "api_library \<Rightarrow> gotype" where
  "type_Partition x = TStruct
     [(''CatalogID'', pstring), (''CreationTime'', TPtr (t_Time x)), (''DatabaseName'', pstring),
      (''LastAccessTime'', TPtr (t_Time x)), (''LastAnalyzedTime'', TPtr (t_Time x)),
      (''Parameters'', TMap pstring), (''TableName'', pstring)]"

definition type_PartitionIndex :: gotype where
  "type_PartitionIndex = TStruct
     [(''IndexName'', pstring)]"

definition type_PartitionIndexDescriptor :: gotype where
  "type_PartitionIndexDescriptor = TStruct
     [(''IndexName'', pstring)]"

definition type_PartitionInput :: "api_library \<Rightarrow> gotype" where
  "type_PartitionInput x = TStruct
     [(''LastAccessTime'', TPtr (t_Time x)), (''LastAnalyzedTime'', TPtr (t_Time x)),
      (''Parameters'', TMap pstring)]"

definition type_PhysicalConnectionRequirements :: gotype where
  "type_PhysicalConnectionRequirements = TStruct
     [(''AvailabilityZone'', pstring), (''SubnetID'', pstring)]"

definition type_Predecessor :: gotype where
  "type_Predecessor = TStruct
     [(''JobName'', pstring)]"

definition type_QuerySessionContext :: "api_library \<Rightarrow> gotype" where
  "type_QuerySessionContext x = TStruct
     [(''QueryStartTime'', TPtr (t_Time x))]"

definition type_RegistryListItem :: gotype where
  "type_RegistryListItem = TStruct
     [(''Description'', pstring)]"

definition type_ResourceURI :: gotype where
  "type_ResourceURI = TStruct
     [(''URI'', pstring)]"

definition type_S3Target :: gotype where
  "type_S3Target = TStruct
     [(''SampleSize'', pint)]"

definition type_SchemaColumn :: gotype where
  "type_SchemaColumn = TStruct
     [(''DataType'', pstring)]"

definition type_SchemaListItem :: gotype where
  "type_SchemaListItem = TStruct
     [(''Description'', pstring)]"

definition type_SecurityConfiguration :: "api_library \<Rightarrow> gotype" where
  "type_SecurityConfiguration x = TStruct
     [(''CreatedTimeStamp'', TPtr (t_Time x)), (''Name'', pstring)]"

definition type_SerDeInfo :: gotype where
  "type_SerDeInfo = TStruct
     [(''Name'', pstring), (''Parameters'', TMap pstring), (''SerializationLibrary'', pstring)]"

definition type_Session :: "api_library \<Rightarrow> gotype" where
  "type_Session x = TStruct
     [(''CompletedOn'', TPtr (t_Time x)), (''Connections'', TPtr type_ConnectionsList),
      (''CreatedOn'', TPtr (t_Time x)), (''DPUSeconds'', pfloat), (''Description'', pstring),
      (''ErrorMessage'', pstring), (''ExecutionTime'', pfloat), (''GlueVersion'', pstring),
      (''ID'', pstring), (''MaxCapacity'', pfloat), (''NumberOfWorkers'', pint),
      (''ProfileName'', pstring), (''SecurityConfiguration'', pstring), (''WorkerType'', pstring)]"

definition type_SessionCommand :: gotype where
  "type_SessionCommand = TStruct
     [(''Name'', pstring), (''PythonVersion'', pstring)]"

definition type_StartingEventBatchCondition :: gotype where
  "type_StartingEventBatchCondition = TStruct
     [(''BatchSize'', pint), (''BatchWindow'', pint)]"

definition type_Statement :: gotype where
  "type_Statement = TStruct
     [(''Code'', pstring), (''ID'', pint)]"

definition type_StatementOutput :: gotype where
  "type_StatementOutput = TStruct
     [(''ErrorName'', pstring), (''ErrorValue'', pstring), (''ExecutionCount'', pint),
      (''Traceback'', TSlice pstring)]"

definition type_StatementOutputData :: gotype where
  "type_StatementOutputData = TStruct
     [(''TextPlain'', pstring)]"

definition type_StatisticAnnotation :: "api_library \<Rightarrow> gotype" where
  "type_StatisticAnnotation x = TStruct
     [(''StatisticRecordedOn'', TPtr (t_Time x))]"

definition type_StatisticModelResult :: "api_library \<Rightarrow> gotype" where
  "type_StatisticModelResult x = TStruct
     [(''ActualValue'', pfloat), (''Date'', TPtr (t_Time x)), (''LowerBound'', pfloat),
      (''PredictedValue'', pfloat), (''UpperBound'', pfloat)]"

definition type_StatisticSummary :: "api_library \<Rightarrow> gotype" where
  "type_StatisticSummary x = TStruct
     [(''RecordedOn'', TPtr (t_Time x))]"

definition type_StorageDescriptor :: gotype where
  "type_StorageDescriptor = TStruct
     [(''Parameters'', TMap pstring)]"

definition type_Table :: gotype where
  "type_Table = TStruct
     [(''CatalogID'', pstring), (''ConnectionName'', pstring), (''DatabaseName'', pstring),
      (''TableName'', pstring)]"

definition type_TableData :: "api_library \<Rightarrow> gotype" where
  "type_TableData x = TStruct
     [(''CatalogID'', pstring), (''CreateTime'', TPtr (t_Time x)), (''CreatedBy'', pstring),
      (''DatabaseName'', pstring), (''Description'', pstring), (''IsMultiDialectView'', pbool),
      (''LastAccessTime'', TPtr (t_Time x)), (''LastAnalyzedTime'', TPtr (t_Time x)),
      (''Name'', pstring), (''Owner'', pstring), (''Parameters'', TMap pstring),
      (''UpdateTime'', TPtr (t_Time x))]"

definition type_TableError :: gotype where
  "type_TableError = TStruct
     [(''TableName'', pstring)]"

definition type_TableIdentifier :: gotype where
  "type_TableIdentifier = TStruct
     [(''CatalogID'', pstring), (''DatabaseName'', pstring), (''Name'', pstring),
      (''Region'', pstring)]"

definition type_TableInput :: "api_library \<Rightarrow> gotype" where
  "type_TableInput x = TStruct
     [(''Description'', pstring), (''LastAccessTime'', TPtr (t_Time x)),
      (''LastAnalyzedTime'', TPtr (t_Time x)), (''Name'', pstring), (''Owner'', pstring),
      (''Parameters'', TMap pstring)]"

definition type_TableOptimizerConfiguration :: gotype where
  "type_TableOptimizerConfiguration = TStruct
     [(''Enabled'', pbool)]"

definition type_TableStatus :: "api_library \<Rightarrow> gotype" where
  "type_TableStatus x = TStruct
     [(''RequestTime'', TPtr (t_Time x)), (''RequestedBy'', pstring),
      (''UpdateTime'', TPtr (t_Time x)), (''UpdatedBy'', pstring)]"

definition type_TableVersionError :: gotype where
  "type_TableVersionError = TStruct
     [(''TableName'', pstring)]"

definition type_TaskRun :: "api_library \<Rightarrow> gotype" where
  "type_TaskRun x = TStruct
     [(''CompletedOn'', TPtr (t_Time x)), (''ErrorString'', pstring),
      (''LastModifiedOn'', TPtr (t_Time x)), (''LogGroupName'', pstring),
      (''StartedOn'', TPtr (t_Time x))]"

definition type_TaskRunFilterCriteria :: "api_library \<Rightarrow> gotype" where
  "type_TaskRunFilterCriteria x = TStruct
     [(''StartedAfter'', TPtr (t_Time x)), (''StartedBefore'', TPtr (t_Time x))]"

definition type_TimestampFilter :: "api_library \<Rightarrow> gotype" where
  "type_TimestampFilter x = TStruct
     [(''RecordedAfter'', TPtr (t_Time x)), (''RecordedBefore'', TPtr (t_Time x))]"

definition type_TimestampedInclusionAnnotation :: "api_library \<Rightarrow> gotype" where
  "type_TimestampedInclusionAnnotation x = TStruct
     [(''LastModifiedOn'', TPtr (t_Time x))]"

definition type_TransformEncryption :: gotype where
  "type_TransformEncryption = TStruct
     [(''TaskRunSecurityConfigurationName'', pstring)]"

definition type_TransformFilterCriteria :: "api_library \<Rightarrow> gotype" where
  "type_TransformFilterCriteria x = TStruct
     [(''CreatedAfter'', TPtr (t_Time x)), (''CreatedBefore'', TPtr (t_Time x)),
      (''GlueVersion'', pstring), (''LastModifiedAfter'', TPtr (t_Time x)),
      (''LastModifiedBefore'', TPtr (t_Time x)), (''Name'', pstring)]"

definition type_Trigger :: gotype where
  "type_Trigger = TStruct
     [(''Description'', pstring), (''Name'', pstring), (''Schedule'', pstring),
      (''WorkflowName'', pstring)]"

definition type_TriggerUpdate :: gotype where
  "type_TriggerUpdate = TStruct
     [(''Description'', pstring), (''Name'', pstring), (''Schedule'', pstring)]"

definition type_UpdateCsvClassifierRequest :: gotype where
  "type_UpdateCsvClassifierRequest = TStruct
     [(''AllowSingleColumn'', pbool), (''CustomDatatypeConfigured'', pbool),
      (''DisableValueTrimming'', pbool), (''Name'', pstring)]"

definition type_UpdateGrokClassifierRequest :: gotype where
  "type_UpdateGrokClassifierRequest = TStruct
     [(''Name'', pstring)]"

definition type_UpdateJSONClassifierRequest :: gotype where
  "type_UpdateJSONClassifierRequest = TStruct
     [(''Name'', pstring)]"

definition type_UpdateXMLClassifierRequest :: gotype where
  "type_UpdateXMLClassifierRequest = TStruct
     [(''Name'', pstring)]"

definition type_UsageProfileDefinition :: "api_library \<Rightarrow> gotype" where
  "type_UsageProfileDefinition x = TStruct
     [(''CreatedOn'', TPtr (t_Time x)), (''Description'', pstring),
      (''LastModifiedOn'', TPtr (t_Time x)), (''Name'', pstring)]"

definition type_UserDefinedFunction :: "api_library \<Rightarrow> gotype" where
  "type_UserDefinedFunction x = TStruct
     [(''CatalogID'', pstring), (''ClassName'', pstring), (''CreateTime'', TPtr (t_Time x)),
      (''DatabaseName'', pstring), (''FunctionName'', pstring), (''OwnerName'', pstring)]"

definition type_UserDefinedFunctionInput :: gotype where
  "type_UserDefinedFunctionInput = TStruct
     [(''ClassName'', pstring), (''FunctionName'', pstring), (''OwnerName'', pstring)]"

definition type_ViewDefinition :: gotype where
  "type_ViewDefinition = TStruct
     [(''IsProtected'', pbool)]"

definition type_ViewDefinitionInput :: gotype where
  "type_ViewDefinitionInput = TStruct
     [(''IsProtected'', pbool)]"

definition type_ViewRepresentation :: gotype where
  "type_ViewRepresentation = TStruct
     [(''IsStale'', pbool), (''ValidationConnection'', pstring)]"

definition type_ViewRepresentationInput :: gotype where
  "type_ViewRepresentationInput = TStruct
     [(''ValidationConnection'', pstring)]"

definition type_ViewValidation :: "api_library \<Rightarrow> gotype" where
  "type_ViewValidation x = TStruct
     [(''UpdateTime'', TPtr (t_Time x))]"

definition type_Workflow :: "api_library \<Rightarrow> gotype" where
  "type_Workflow x = TStruct
     [(''CreatedOn'', TPtr (t_Time x)), (''Description'', pstring),
      (''LastModifiedOn'', TPtr (t_Time x)), (''MaxConcurrentRuns'', pint), (''Name'', pstring)]"

definition type_WorkflowRun :: "api_library \<Rightarrow> gotype" where
  "type_WorkflowRun x = TStruct
     [(''CompletedOn'', TPtr (t_Time x)), (''Name'', pstring), (''StartedOn'', TPtr (t_Time x))]"

definition type_WorkflowRunStatistics :: gotype where
  "type_WorkflowRunStatistics = TStruct
     [(''ErroredActions'', pint), (''FailedActions'', pint), (''RunningActions'', pint),
      (''StoppedActions'', pint), (''SucceededActions'', pint), (''TimeoutActions'', pint),
      (''TotalActions'', pint), (''WaitingActions'', pint)]"

definition type_XMLClassifier :: "api_library \<Rightarrow> gotype" where
  "type_XMLClassifier x = TStruct
     [(''CreationTime'', TPtr (t_Time x)), (''LastUpdated'', TPtr (t_Time x)), (''Name'', pstring)]"

definition type_DatabaseSpec :: gotype where
  "type_DatabaseSpec = TStruct
     [(''CatalogID'', pstring), (''Description'', pstring),
      (''FederatedDatabase'', TPtr type_FederatedDatabase), (''LocationURI'', pstring),
      (''Name'', pstring), (''Parameters'', TMap pstring),
      (''TableDefaultPermissions'', TSlice (TPtr type_PrincipalPermissions)), (''Tags'', TMap pstring),
      (''TargetDatabase'', TPtr type_DatabaseIdentifier)]"

definition type_DatabaseStatus :: "api_library \<Rightarrow> gotype" where
  "type_DatabaseStatus x = TStruct
     [(''ACKResourceMetadata'', TPtr (t_ResourceMetadata x)),
      (''Conditions'', TSlice (TPtr (t_Condition x)))]"

definition type_Database :: "api_library \<Rightarrow> gotype" where
  "type_Database x = TStruct
     [(''TypeMeta'', t_TypeMeta x), (''ObjectMeta'', t_ObjectMeta x), (''Spec'', type_DatabaseSpec),
      (''Status'', type_DatabaseStatus x)]"

definition type_DatabaseList :: "api_library \<Rightarrow> gotype" where
  "type_DatabaseList x = TStruct
     [(''TypeMeta'', t_TypeMeta x), (''ListMeta'', t_ListMeta x),
      (''Items'', TSlice (type_Database x))]"

definition type_JobSpec :: "api_library \<Rightarrow> gotype" where
  "type_JobSpec x = TStruct
     [(''CodeGenConfigurationNodes'', TMap (TPtr (type_CodeGenConfigurationNode x))),
      (''Command'', TPtr type_JobCommand), (''Connections'', TPtr type_ConnectionsList),
      (''DefaultArguments'', TMap pstring), (''Description'', pstring), (''ExecutionClass'', pstring),
      (''ExecutionProperty'', TPtr type_ExecutionProperty), (''GlueVersion'', pstring),
      (''JobMode'', pstring), (''JobRunQueuingEnabled'', pbool), (''LogURI'', pstring),
      (''MaintenanceWindow'', pstring), (''MaxCapacity'', pfloat), (''MaxRetries'', pint),
      (''Name'', pstring), (''NonOverridableArguments'', TMap pstring),
      (''NotificationProperty'', TPtr type_NotificationProperty), (''NumberOfWorkers'', pint),
      (''Role'', pstring), (''RoleRef'', TPtr (t_AWSResourceReferenceWrapper x)),
      (''SecurityConfiguration'', pstring), (''SourceControlDetails'', TPtr type_SourceControlDetails),
      (''Tags'', TMap pstring), (''Timeout'', pint), (''WorkerType'', pstring)]"

definition type_JobStatus :: "api_library \<Rightarrow> gotype" where
  "type_JobStatus x = TStruct
     [(''ACKResourceMetadata'', TPtr (t_ResourceMetadata x)),
      (''Conditions'', TSlice (TPtr (t_Condition x)))]"

definition type_Job :: "api_library \<Rightarrow> gotype" where
  "type_Job x = TStruct
     [(''TypeMeta'', t_TypeMeta x), (''ObjectMeta'', t_ObjectMeta x), (''Spec'', type_JobSpec x),
      (''Status'', type_JobStatus x)]"

definition type_JobList :: "api_library \<Rightarrow> gotype" where
  "type_JobList x = TStruct
     [(''TypeMeta'', t_TypeMeta x), (''ListMeta'', t_ListMeta x), (''Items'', TSlice (type_Job x))]"

end
