(* ===== verification/Api_Copy_1.thy ===== *)
theory Api_Copy_1
  imports Api_Types
begin

text \<open>
  Deep copies of apis/v1alpha1/zz_generated.deepcopy.go, part 1 of 4, in order of use
  (NotificationProperty to JDBCConnectorTarget): each DeepCopyInto with the statements of its body, each
  DeepCopy on a pointer, and the lemma that the listed fields are all the fields that need copying.
\<close>

definition DeepCopyInto_NotificationProperty :: copier where
  "DeepCopyInto_NotificationProperty = copy_struct
     [(''NotifyDelayAfter'', copy_ptr shallow)]"

definition DeepCopy_NotificationProperty :: copier where
  "DeepCopy_NotificationProperty = copy_ptr DeepCopyInto_NotificationProperty"

lemma copies_NotificationProperty:
  "copies type_NotificationProperty DeepCopyInto_NotificationProperty"
  unfolding type_NotificationProperty_def DeepCopyInto_NotificationProperty_def
  by (rule copy_struct_copies) (simp_all add: copy_rules)

definition DeepCopyInto_Action :: "map_order \<Rightarrow> copier" where
  "DeepCopyInto_Action ord = copy_struct
     [(''Arguments'', copy_map ord (copy_ptr shallow)), (''CrawlerName'', copy_ptr shallow),
      (''JobName'', copy_ptr shallow),
      (''NotificationProperty'', copy_ptr DeepCopyInto_NotificationProperty),
      (''SecurityConfiguration'', copy_ptr shallow), (''Timeout'', copy_ptr shallow)]"

definition DeepCopy_Action :: "map_order \<Rightarrow> copier" where
  "DeepCopy_Action ord = copy_ptr (DeepCopyInto_Action ord)"

lemma copies_Action:
  "copies type_Action (DeepCopyInto_Action ord)"
  unfolding type_Action_def DeepCopyInto_Action_def
  by (rule copy_struct_copies) (simp_all add: copy_rules copies_NotificationProperty)

definition DeepCopyInto_AggregateOperation :: copier where
  "DeepCopyInto_AggregateOperation = copy_struct
     [(''AggFunc'', copy_ptr shallow), (''Column'', copy_slice (copy_ptr shallow))]"

definition DeepCopy_AggregateOperation :: copier where
  "DeepCopy_AggregateOperation = copy_ptr DeepCopyInto_AggregateOperation"

lemma copies_AggregateOperation:
  "copies type_AggregateOperation DeepCopyInto_AggregateOperation"
  unfolding type_AggregateOperation_def DeepCopyInto_AggregateOperation_def
  by (rule copy_struct_copies) (simp_all add: copy_rules)

definition DeepCopyInto_Aggregate :: copier where
  "DeepCopyInto_Aggregate = copy_struct
     [(''Aggs'', copy_slice (copy_ptr DeepCopyInto_AggregateOperation)),
      (''Groups'', copy_slice (copy_slice (copy_ptr shallow))),
      (''Inputs'', copy_slice (copy_ptr shallow)), (''Name'', copy_ptr shallow)]"

definition DeepCopy_Aggregate :: copier where
  "DeepCopy_Aggregate = copy_ptr DeepCopyInto_Aggregate"

lemma copies_Aggregate:
  "copies type_Aggregate DeepCopyInto_Aggregate"
  unfolding type_Aggregate_def DeepCopyInto_Aggregate_def
  by (rule copy_struct_copies) (simp_all add: copy_rules copies_AggregateOperation)

definition DeepCopyInto_AmazonRedshiftAdvancedOption :: copier where
  "DeepCopyInto_AmazonRedshiftAdvancedOption = copy_struct
     [(''Key'', copy_ptr shallow), (''Value'', copy_ptr shallow)]"

definition DeepCopy_AmazonRedshiftAdvancedOption :: copier where
  "DeepCopy_AmazonRedshiftAdvancedOption = copy_ptr DeepCopyInto_AmazonRedshiftAdvancedOption"

lemma copies_AmazonRedshiftAdvancedOption:
  "copies type_AmazonRedshiftAdvancedOption DeepCopyInto_AmazonRedshiftAdvancedOption"
  unfolding type_AmazonRedshiftAdvancedOption_def DeepCopyInto_AmazonRedshiftAdvancedOption_def
  by (rule copy_struct_copies) (simp_all add: copy_rules)

definition DeepCopyInto_Option :: copier where
  "DeepCopyInto_Option = copy_struct
     [(''Description'', copy_ptr shallow), (''Label'', copy_ptr shallow),
      (''Value'', copy_ptr shallow)]"

definition DeepCopy_Option :: copier where
  "DeepCopy_Option = copy_ptr DeepCopyInto_Option"

lemma copies_Option:
  "copies type_Option DeepCopyInto_Option"
  unfolding type_Option_def DeepCopyInto_Option_def
  by (rule copy_struct_copies) (simp_all add: copy_rules)

definition DeepCopyInto_AmazonRedshiftNodeData :: copier where
  "DeepCopyInto_AmazonRedshiftNodeData = copy_struct
     [(''AccessType'', copy_ptr shallow), (''Action'', copy_ptr shallow),
      (''AdvancedOptions'', copy_slice (copy_ptr DeepCopyInto_AmazonRedshiftAdvancedOption)),
      (''CatalogDatabase'', copy_ptr DeepCopyInto_Option),
      (''CatalogRedshiftSchema'', copy_ptr shallow), (''CatalogRedshiftTable'', copy_ptr shallow),
      (''CatalogTable'', copy_ptr DeepCopyInto_Option), (''Connection'', copy_ptr DeepCopyInto_Option),
      (''CrawlerConnection'', copy_ptr shallow), (''IAMRole'', copy_ptr DeepCopyInto_Option),
      (''MergeAction'', copy_ptr shallow), (''MergeClause'', copy_ptr shallow),
      (''MergeWhenMatched'', copy_ptr shallow), (''MergeWhenNotMatched'', copy_ptr shallow),
      (''PostAction'', copy_ptr shallow), (''PreAction'', copy_ptr shallow),
      (''SampleQuery'', copy_ptr shallow), (''Schema'', copy_ptr DeepCopyInto_Option),
      (''SelectedColumns'', copy_slice (copy_ptr DeepCopyInto_Option)),
      (''SourceType'', copy_ptr shallow), (''StagingTable'', copy_ptr shallow),
      (''Table'', copy_ptr DeepCopyInto_Option), (''TablePrefix'', copy_ptr shallow),
      (''TableSchema'', copy_slice (copy_ptr DeepCopyInto_Option)), (''TempDir'', copy_ptr shallow),
      (''Upsert'', copy_ptr shallow)]"

definition DeepCopy_AmazonRedshiftNodeData :: copier where
  "DeepCopy_AmazonRedshiftNodeData = copy_ptr DeepCopyInto_AmazonRedshiftNodeData"

lemma copies_AmazonRedshiftNodeData:
  "copies type_AmazonRedshiftNodeData DeepCopyInto_AmazonRedshiftNodeData"
  unfolding type_AmazonRedshiftNodeData_def DeepCopyInto_AmazonRedshiftNodeData_def
  by (rule copy_struct_copies) (simp_all add: copy_rules copies_AmazonRedshiftAdvancedOption copies_Option)

definition DeepCopyInto_AmazonRedshiftSource :: copier where
  "DeepCopyInto_AmazonRedshiftSource = copy_struct
     [(''Data'', copy_ptr DeepCopyInto_AmazonRedshiftNodeData), (''Name'', copy_ptr shallow)]"

definition DeepCopy_AmazonRedshiftSource :: copier where
  "DeepCopy_AmazonRedshiftSource = copy_ptr DeepCopyInto_AmazonRedshiftSource"

lemma copies_AmazonRedshiftSource:
  "copies type_AmazonRedshiftSource DeepCopyInto_AmazonRedshiftSource"
  unfolding type_AmazonRedshiftSource_def DeepCopyInto_AmazonRedshiftSource_def
  by (rule copy_struct_copies) (simp_all add: copy_rules copies_AmazonRedshiftNodeData)

definition DeepCopyInto_AmazonRedshiftTarget :: copier where
  "DeepCopyInto_AmazonRedshiftTarget = copy_struct
     [(''Data'', copy_ptr DeepCopyInto_AmazonRedshiftNodeData),
      (''Inputs'', copy_slice (copy_ptr shallow)), (''Name'', copy_ptr shallow)]"

definition DeepCopy_AmazonRedshiftTarget :: copier where
  "DeepCopy_AmazonRedshiftTarget = copy_ptr DeepCopyInto_AmazonRedshiftTarget"

lemma copies_AmazonRedshiftTarget:
  "copies type_AmazonRedshiftTarget DeepCopyInto_AmazonRedshiftTarget"
  unfolding type_AmazonRedshiftTarget_def DeepCopyInto_AmazonRedshiftTarget_def
  by (rule copy_struct_copies) (simp_all add: copy_rules copies_AmazonRedshiftNodeData)

definition DeepCopyInto_AnnotationError :: copier where
  "DeepCopyInto_AnnotationError = copy_struct
     [(''FailureReason'', copy_ptr shallow)]"

definition DeepCopy_AnnotationError :: copier where
  "DeepCopy_AnnotationError = copy_ptr DeepCopyInto_AnnotationError"

lemma copies_AnnotationError:
  "copies type_AnnotationError DeepCopyInto_AnnotationError"
  unfolding type_AnnotationError_def DeepCopyInto_AnnotationError_def
  by (rule copy_struct_copies) (simp_all add: copy_rules)

definition DeepCopyInto_Mapping :: copier where
  "DeepCopyInto_Mapping = copy_struct
     [(''Dropped'', copy_ptr shallow), (''FromPath'', copy_slice (copy_ptr shallow)),
      (''FromType'', copy_ptr shallow), (''ToKey'', copy_ptr shallow), (''ToType'', copy_ptr shallow)]"

definition DeepCopy_Mapping :: copier where
  "DeepCopy_Mapping = copy_ptr DeepCopyInto_Mapping"

lemma copies_Mapping:
  "copies type_Mapping DeepCopyInto_Mapping"
  unfolding type_Mapping_def DeepCopyInto_Mapping_def
  by (rule copy_struct_copies) (simp_all add: copy_rules)

definition DeepCopyInto_ApplyMapping :: copier where
  "DeepCopyInto_ApplyMapping = copy_struct
     [(''Inputs'', copy_slice (copy_ptr shallow)),
      (''Mapping'', copy_slice (copy_ptr DeepCopyInto_Mapping)), (''Name'', copy_ptr shallow)]"

definition DeepCopy_ApplyMapping :: copier where
  "DeepCopy_ApplyMapping = copy_ptr DeepCopyInto_ApplyMapping"

lemma copies_ApplyMapping:
  "copies type_ApplyMapping DeepCopyInto_ApplyMapping"
  unfolding type_ApplyMapping_def DeepCopyInto_ApplyMapping_def
  by (rule copy_struct_copies) (simp_all add: copy_rules copies_Mapping)

definition DeepCopyInto_GlueStudioSchemaColumn :: copier where
  "DeepCopyInto_GlueStudioSchemaColumn = copy_struct
     [(''Name'', copy_ptr shallow), (''Type'', copy_ptr shallow)]"

definition DeepCopy_GlueStudioSchemaColumn :: copier where
  "DeepCopy_GlueStudioSchemaColumn = copy_ptr DeepCopyInto_GlueStudioSchemaColumn"

lemma copies_GlueStudioSchemaColumn:
  "copies type_GlueStudioSchemaColumn DeepCopyInto_GlueStudioSchemaColumn"
  unfolding type_GlueStudioSchemaColumn_def DeepCopyInto_GlueStudioSchemaColumn_def
  by (rule copy_struct_copies) (simp_all add: copy_rules)

definition DeepCopyInto_GlueSchema :: copier where
  "DeepCopyInto_GlueSchema = copy_struct
     [(''Columns'', copy_slice (copy_ptr DeepCopyInto_GlueStudioSchemaColumn))]"

definition DeepCopy_GlueSchema :: copier where
  "DeepCopy_GlueSchema = copy_ptr DeepCopyInto_GlueSchema"

lemma copies_GlueSchema:
  "copies type_GlueSchema DeepCopyInto_GlueSchema"
  unfolding type_GlueSchema_def DeepCopyInto_GlueSchema_def
  by (rule copy_struct_copies) (simp_all add: copy_rules copies_GlueStudioSchemaColumn)

definition DeepCopyInto_AthenaConnectorSource :: copier where
  "DeepCopyInto_AthenaConnectorSource = copy_struct
     [(''ConnectionName'', copy_ptr shallow), (''ConnectionTable'', copy_ptr shallow),
      (''ConnectionType'', copy_ptr shallow), (''ConnectorName'', copy_ptr shallow),
      (''Name'', copy_ptr shallow), (''OutputSchemas'', copy_slice (copy_ptr DeepCopyInto_GlueSchema)),
      (''SchemaName'', copy_ptr shallow)]"

definition DeepCopy_AthenaConnectorSource :: copier where
  "DeepCopy_AthenaConnectorSource = copy_ptr DeepCopyInto_AthenaConnectorSource"

lemma copies_AthenaConnectorSource:
  "copies type_AthenaConnectorSource DeepCopyInto_AthenaConnectorSource"
  unfolding type_AthenaConnectorSource_def DeepCopyInto_AthenaConnectorSource_def
  by (rule copy_struct_copies) (simp_all add: copy_rules copies_GlueSchema)

definition DeepCopyInto_AuditContext :: copier where
  "DeepCopyInto_AuditContext = copy_struct
     [(''AllColumnsRequested'', copy_ptr shallow)]"

definition DeepCopy_AuditContext :: copier where
  "DeepCopy_AuditContext = copy_ptr DeepCopyInto_AuditContext"

lemma copies_AuditContext:
  "copies type_AuditContext DeepCopyInto_AuditContext"
  unfolding type_AuditContext_def DeepCopyInto_AuditContext_def
  by (rule copy_struct_copies) (simp_all add: copy_rules)

definition DeepCopyInto_BasicCatalogTarget :: copier where
  "DeepCopyInto_BasicCatalogTarget = copy_struct
     [(''Database'', copy_ptr shallow), (''Inputs'', copy_slice (copy_ptr shallow)),
      (''Name'', copy_ptr shallow), (''PartitionKeys'', copy_slice (copy_slice (copy_ptr shallow))),
      (''Table'', copy_ptr shallow)]"

definition DeepCopy_BasicCatalogTarget :: copier where
  "DeepCopy_BasicCatalogTarget = copy_ptr DeepCopyInto_BasicCatalogTarget"

lemma copies_BasicCatalogTarget:
  "copies type_BasicCatalogTarget DeepCopyInto_BasicCatalogTarget"
  unfolding type_BasicCatalogTarget_def DeepCopyInto_BasicCatalogTarget_def
  by (rule copy_struct_copies) (simp_all add: copy_rules)

definition DeepCopyInto_BatchGetTableOptimizerEntry :: copier where
  "DeepCopyInto_BatchGetTableOptimizerEntry = copy_struct
     [(''CatalogID'', copy_ptr shallow)]"

definition DeepCopy_BatchGetTableOptimizerEntry :: copier where
  "DeepCopy_BatchGetTableOptimizerEntry = copy_ptr DeepCopyInto_BatchGetTableOptimizerEntry"

lemma copies_BatchGetTableOptimizerEntry:
  "copies type_BatchGetTableOptimizerEntry DeepCopyInto_BatchGetTableOptimizerEntry"
  unfolding type_BatchGetTableOptimizerEntry_def DeepCopyInto_BatchGetTableOptimizerEntry_def
  by (rule copy_struct_copies) (simp_all add: copy_rules)

definition DeepCopyInto_BatchGetTableOptimizerError :: copier where
  "DeepCopyInto_BatchGetTableOptimizerError = copy_struct
     [(''CatalogID'', copy_ptr shallow)]"

definition DeepCopy_BatchGetTableOptimizerError :: copier where
  "DeepCopy_BatchGetTableOptimizerError = copy_ptr DeepCopyInto_BatchGetTableOptimizerError"

lemma copies_BatchGetTableOptimizerError:
  "copies type_BatchGetTableOptimizerError DeepCopyInto_BatchGetTableOptimizerError"
  unfolding type_BatchGetTableOptimizerError_def DeepCopyInto_BatchGetTableOptimizerError_def
  by (rule copy_struct_copies) (simp_all add: copy_rules)

definition DeepCopyInto_BatchStopJobRunError :: copier where
  "DeepCopyInto_BatchStopJobRunError = copy_struct
     [(''JobName'', copy_ptr shallow)]"

definition DeepCopy_BatchStopJobRunError :: copier where
  "DeepCopy_BatchStopJobRunError = copy_ptr DeepCopyInto_BatchStopJobRunError"

lemma copies_BatchStopJobRunError:
  "copies type_BatchStopJobRunError DeepCopyInto_BatchStopJobRunError"
  unfolding type_BatchStopJobRunError_def DeepCopyInto_BatchStopJobRunError_def
  by (rule copy_struct_copies) (simp_all add: copy_rules)

definition DeepCopyInto_BatchStopJobRunSuccessfulSubmission :: copier where
  "DeepCopyInto_BatchStopJobRunSuccessfulSubmission = copy_struct
     [(''JobName'', copy_ptr shallow)]"

definition DeepCopy_BatchStopJobRunSuccessfulSubmission :: copier where
  "DeepCopy_BatchStopJobRunSuccessfulSubmission = copy_ptr DeepCopyInto_BatchStopJobRunSuccessfulSubmission"

lemma copies_BatchStopJobRunSuccessfulSubmission:
  "copies type_BatchStopJobRunSuccessfulSubmission DeepCopyInto_BatchStopJobRunSuccessfulSubmission"
  unfolding type_BatchStopJobRunSuccessfulSubmission_def DeepCopyInto_BatchStopJobRunSuccessfulSubmission_def
  by (rule copy_struct_copies) (simp_all add: copy_rules)

definition DeepCopyInto_BatchTableOptimizer :: copier where
  "DeepCopyInto_BatchTableOptimizer = copy_struct
     [(''CatalogID'', copy_ptr shallow)]"

definition DeepCopy_BatchTableOptimizer :: copier where
  "DeepCopy_BatchTableOptimizer = copy_ptr DeepCopyInto_BatchTableOptimizer"

lemma copies_BatchTableOptimizer:
  "copies type_BatchTableOptimizer DeepCopyInto_BatchTableOptimizer"
  unfolding type_BatchTableOptimizer_def DeepCopyInto_BatchTableOptimizer_def
  by (rule copy_struct_copies) (simp_all add: copy_rules)

definition DeepCopyInto_Blueprint :: "api_library \<Rightarrow> copier" where
  "DeepCopyInto_Blueprint x = copy_struct
     [(''BlueprintLocation'', copy_ptr shallow), (''BlueprintServiceLocation'', copy_ptr shallow),
      (''CreatedOn'', Time_DeepCopy x), (''Description'', copy_ptr shallow),
      (''LastModifiedOn'', Time_DeepCopy x)]"

definition DeepCopy_Blueprint :: "api_library \<Rightarrow> copier" where
  "DeepCopy_Blueprint x = copy_ptr (DeepCopyInto_Blueprint x)"

lemma copies_Blueprint:
  assumes "ext_laws x"
  shows
  "copies (type_Blueprint x) (DeepCopyInto_Blueprint x)"
  unfolding type_Blueprint_def DeepCopyInto_Blueprint_def
  by (rule copy_struct_copies) (simp_all add: copy_rules ext_lawsD [OF assms])

definition DeepCopyInto_BlueprintRun :: "api_library \<Rightarrow> copier" where
  "DeepCopyInto_BlueprintRun x = copy_struct
     [(''CompletedOn'', Time_DeepCopy x), (''StartedOn'', Time_DeepCopy x),
      (''WorkflowName'', copy_ptr shallow)]"

definition DeepCopy_BlueprintRun :: "api_library \<Rightarrow> copier" where
  "DeepCopy_BlueprintRun x = copy_ptr (DeepCopyInto_BlueprintRun x)"

lemma copies_BlueprintRun:
  assumes "ext_laws x"
  shows
  "copies (type_BlueprintRun x) (DeepCopyInto_BlueprintRun x)"
  unfolding type_BlueprintRun_def DeepCopyInto_BlueprintRun_def
  by (rule copy_struct_copies) (simp_all add: copy_rules ext_lawsD [OF assms])

definition DeepCopyInto_CatalogDeltaSource :: "map_order \<Rightarrow> copier" where
  "DeepCopyInto_CatalogDeltaSource ord = copy_struct
     [(''AdditionalDeltaOptions'', copy_map ord (copy_ptr shallow)), (''Database'', copy_ptr shallow),
      (''Name'', copy_ptr shallow), (''OutputSchemas'', copy_slice (copy_ptr DeepCopyInto_GlueSchema)),
      (''Table'', copy_ptr shallow)]"

definition DeepCopy_CatalogDeltaSource :: "map_order \<Rightarrow> copier" where
  "DeepCopy_CatalogDeltaSource ord = copy_ptr (DeepCopyInto_CatalogDeltaSource ord)"

lemma copies_CatalogDeltaSource:
  "copies type_CatalogDeltaSource (DeepCopyInto_CatalogDeltaSource ord)"
  unfolding type_CatalogDeltaSource_def DeepCopyInto_CatalogDeltaSource_def
  by (rule copy_struct_copies) (simp_all add: copy_rules copies_GlueSchema)

definition DeepCopyInto_CatalogEntry :: copier where
  "DeepCopyInto_CatalogEntry = copy_struct
     [(''DatabaseName'', copy_ptr shallow), (''TableName'', copy_ptr shallow)]"

definition DeepCopy_CatalogEntry :: copier where
  "DeepCopy_CatalogEntry = copy_ptr DeepCopyInto_CatalogEntry"

lemma copies_CatalogEntry:
  "copies type_CatalogEntry DeepCopyInto_CatalogEntry"
  unfolding type_CatalogEntry_def DeepCopyInto_CatalogEntry_def
  by (rule copy_struct_copies) (simp_all add: copy_rules)

definition DeepCopyInto_CatalogHudiSource :: "map_order \<Rightarrow> copier" where
  "DeepCopyInto_CatalogHudiSource ord = copy_struct
     [(''AdditionalHudiOptions'', copy_map ord (copy_ptr shallow)), (''Database'', copy_ptr shallow),
      (''Name'', copy_ptr shallow), (''OutputSchemas'', copy_slice (copy_ptr DeepCopyInto_GlueSchema)),
      (''Table'', copy_ptr shallow)]"

definition DeepCopy_CatalogHudiSource :: "map_order \<Rightarrow> copier" where
  "DeepCopy_CatalogHudiSource ord = copy_ptr (DeepCopyInto_CatalogHudiSource ord)"

lemma copies_CatalogHudiSource:
  "copies type_CatalogHudiSource (DeepCopyInto_CatalogHudiSource ord)"
  unfolding type_CatalogHudiSource_def DeepCopyInto_CatalogHudiSource_def
  by (rule copy_struct_copies) (simp_all add: copy_rules copies_GlueSchema)

definition DeepCopyInto_CatalogImportStatus :: "api_library \<Rightarrow> copier" where
  "DeepCopyInto_CatalogImportStatus x = copy_struct
     [(''ImportTime'', Time_DeepCopy x), (''ImportedBy'', copy_ptr shallow)]"

definition DeepCopy_CatalogImportStatus :: "api_library \<Rightarrow> copier" where
  "DeepCopy_CatalogImportStatus x = copy_ptr (DeepCopyInto_CatalogImportStatus x)"

lemma copies_CatalogImportStatus:
  assumes "ext_laws x"
  shows
  "copies (type_CatalogImportStatus x) (DeepCopyInto_CatalogImportStatus x)"
  unfolding type_CatalogImportStatus_def DeepCopyInto_CatalogImportStatus_def
  by (rule copy_struct_copies) (simp_all add: copy_rules ext_lawsD [OF assms])

definition DeepCopyInto_StreamingDataPreviewOptions :: copier where
  "DeepCopyInto_StreamingDataPreviewOptions = copy_struct
     [(''PollingTime'', copy_ptr shallow), (''RecordPollingLimit'', copy_ptr shallow)]"

definition DeepCopy_StreamingDataPreviewOptions :: copier where
  "DeepCopy_StreamingDataPreviewOptions = copy_ptr DeepCopyInto_StreamingDataPreviewOptions"

lemma copies_StreamingDataPreviewOptions:
  "copies type_StreamingDataPreviewOptions DeepCopyInto_StreamingDataPreviewOptions"
  unfolding type_StreamingDataPreviewOptions_def DeepCopyInto_StreamingDataPreviewOptions_def
  by (rule copy_struct_copies) (simp_all add: copy_rules)

definition DeepCopyInto_KafkaStreamingSourceOptions :: "api_library \<Rightarrow> copier" where
  "DeepCopyInto_KafkaStreamingSourceOptions x = copy_struct
     [(''AddRecordTimestamp'', copy_ptr shallow), (''Assign'', copy_ptr shallow),
      (''BootstrapServers'', copy_ptr shallow), (''Classification'', copy_ptr shallow),
      (''ConnectionName'', copy_ptr shallow), (''Delimiter'', copy_ptr shallow),
      (''EmitConsumerLagMetrics'', copy_ptr shallow), (''EndingOffsets'', copy_ptr shallow),
      (''IncludeHeaders'', copy_ptr shallow), (''MaxOffsetsPerTrigger'', copy_ptr shallow),
      (''MinPartitions'', copy_ptr shallow), (''NumRetries'', copy_ptr shallow),
      (''PollTimeoutMs'', copy_ptr shallow), (''RetryIntervalMs'', copy_ptr shallow),
      (''SecurityProtocol'', copy_ptr shallow), (''StartingOffsets'', copy_ptr shallow),
      (''StartingTimestamp'', Time_DeepCopy x), (''SubscribePattern'', copy_ptr shallow),
      (''TopicName'', copy_ptr shallow)]"

definition DeepCopy_KafkaStreamingSourceOptions :: "api_library \<Rightarrow> copier" where
  "DeepCopy_KafkaStreamingSourceOptions x = copy_ptr (DeepCopyInto_KafkaStreamingSourceOptions x)"

lemma copies_KafkaStreamingSourceOptions:
  assumes "ext_laws x"
  shows
  "copies (type_KafkaStreamingSourceOptions x) (DeepCopyInto_KafkaStreamingSourceOptions x)"
  unfolding type_KafkaStreamingSourceOptions_def DeepCopyInto_KafkaStreamingSourceOptions_def
  by (rule copy_struct_copies) (simp_all add: copy_rules ext_lawsD [OF assms])

definition DeepCopyInto_CatalogKafkaSource :: "api_library \<Rightarrow> copier" where
  "DeepCopyInto_CatalogKafkaSource x = copy_struct
     [(''DataPreviewOptions'', copy_ptr DeepCopyInto_StreamingDataPreviewOptions),
      (''Database'', copy_ptr shallow), (''DetectSchema'', copy_ptr shallow),
      (''Name'', copy_ptr shallow),
      (''StreamingOptions'', copy_ptr (DeepCopyInto_KafkaStreamingSourceOptions x)),
      (''Table'', copy_ptr shallow), (''WindowSize'', copy_ptr shallow)]"

definition DeepCopy_CatalogKafkaSource :: "api_library \<Rightarrow> copier" where
  "DeepCopy_CatalogKafkaSource x = copy_ptr (DeepCopyInto_CatalogKafkaSource x)"

lemma copies_CatalogKafkaSource:
  assumes "ext_laws x"
  shows
  "copies (type_CatalogKafkaSource x) (DeepCopyInto_CatalogKafkaSource x)"
  unfolding type_CatalogKafkaSource_def DeepCopyInto_CatalogKafkaSource_def
  by (rule copy_struct_copies) (simp_all add: copy_rules copies_StreamingDataPreviewOptions copies_KafkaStreamingSourceOptions ext_lawsD [OF assms] assms)

definition DeepCopyInto_KinesisStreamingSourceOptions :: "api_library \<Rightarrow> copier" where
  "DeepCopyInto_KinesisStreamingSourceOptions x = copy_struct
     [(''AddIdleTimeBetweenReads'', copy_ptr shallow), (''AddRecordTimestamp'', copy_ptr shallow),
      (''AvoidEmptyBatches'', copy_ptr shallow), (''Classification'', copy_ptr shallow),
      (''Delimiter'', copy_ptr shallow), (''DescribeShardInterval'', copy_ptr shallow),
      (''EmitConsumerLagMetrics'', copy_ptr shallow), (''EndpointURL'', copy_ptr shallow),
      (''IdleTimeBetweenReadsInMs'', copy_ptr shallow),
      (''MaxFetchRecordsPerShard'', copy_ptr shallow), (''MaxFetchTimeInMs'', copy_ptr shallow),
      (''MaxRecordPerRead'', copy_ptr shallow), (''MaxRetryIntervalMs'', copy_ptr shallow),
      (''NumRetries'', copy_ptr shallow), (''RetryIntervalMs'', copy_ptr shallow),
      (''RoleARN'', copy_ptr shallow), (''RoleSessionName'', copy_ptr shallow),
      (''StartingPosition'', copy_ptr shallow), (''StartingTimestamp'', Time_DeepCopy x),
      (''StreamARN'', copy_ptr shallow), (''StreamName'', copy_ptr shallow)]"

definition DeepCopy_KinesisStreamingSourceOptions :: "api_library \<Rightarrow> copier" where
  "DeepCopy_KinesisStreamingSourceOptions x = copy_ptr (DeepCopyInto_KinesisStreamingSourceOptions x)"

lemma copies_KinesisStreamingSourceOptions:
  assumes "ext_laws x"
  shows
  "copies (type_KinesisStreamingSourceOptions x) (DeepCopyInto_KinesisStreamingSourceOptions x)"
  unfolding type_KinesisStreamingSourceOptions_def DeepCopyInto_KinesisStreamingSourceOptions_def
  by (rule copy_struct_copies) (simp_all add: copy_rules ext_lawsD [OF assms])

definition DeepCopyInto_CatalogKinesisSource :: "api_library \<Rightarrow> copier" where
  "DeepCopyInto_CatalogKinesisSource x = copy_struct
     [(''DataPreviewOptions'', copy_ptr DeepCopyInto_StreamingDataPreviewOptions),
      (''Database'', copy_ptr shallow), (''DetectSchema'', copy_ptr shallow),
      (''Name'', copy_ptr shallow),
      (''StreamingOptions'', copy_ptr (DeepCopyInto_KinesisStreamingSourceOptions x)),
      (''Table'', copy_ptr shallow), (''WindowSize'', copy_ptr shallow)]"

definition DeepCopy_CatalogKinesisSource :: "api_library \<Rightarrow> copier" where
  "DeepCopy_CatalogKinesisSource x = copy_ptr (DeepCopyInto_CatalogKinesisSource x)"

lemma copies_CatalogKinesisSource:
  assumes "ext_laws x"
  shows
  "copies (type_CatalogKinesisSource x) (DeepCopyInto_CatalogKinesisSource x)"
  unfolding type_CatalogKinesisSource_def DeepCopyInto_CatalogKinesisSource_def
  by (rule copy_struct_copies) (simp_all add: copy_rules copies_StreamingDataPreviewOptions copies_KinesisStreamingSourceOptions ext_lawsD [OF assms] assms)

definition DeepCopyInto_CatalogSchemaChangePolicy :: copier where
  "DeepCopyInto_CatalogSchemaChangePolicy = copy_struct
     [(''EnableUpdateCatalog'', copy_ptr shallow), (''UpdateBehavior'', copy_ptr shallow)]"

definition DeepCopy_CatalogSchemaChangePolicy :: copier where
  "DeepCopy_CatalogSchemaChangePolicy = copy_ptr DeepCopyInto_CatalogSchemaChangePolicy"

lemma copies_CatalogSchemaChangePolicy:
  "copies type_CatalogSchemaChangePolicy DeepCopyInto_CatalogSchemaChangePolicy"
  unfolding type_CatalogSchemaChangePolicy_def DeepCopyInto_CatalogSchemaChangePolicy_def
  by (rule copy_struct_copies) (simp_all add: copy_rules)

definition DeepCopyInto_CatalogSource :: copier where
  "DeepCopyInto_CatalogSource = copy_struct
     [(''Database'', copy_ptr shallow), (''Name'', copy_ptr shallow), (''Table'', copy_ptr shallow)]"

definition DeepCopy_CatalogSource :: copier where
  "DeepCopy_CatalogSource = copy_ptr DeepCopyInto_CatalogSource"

lemma copies_CatalogSource:
  "copies type_CatalogSource DeepCopyInto_CatalogSource"
  unfolding type_CatalogSource_def DeepCopyInto_CatalogSource_def
  by (rule copy_struct_copies) (simp_all add: copy_rules)

definition DeepCopyInto_CatalogTarget :: copier where
  "DeepCopyInto_CatalogTarget = copy_struct
     [(''DatabaseName'', copy_ptr shallow)]"

definition DeepCopy_CatalogTarget :: copier where
  "DeepCopy_CatalogTarget = copy_ptr DeepCopyInto_CatalogTarget"

lemma copies_CatalogTarget:
  "copies type_CatalogTarget DeepCopyInto_CatalogTarget"
  unfolding type_CatalogTarget_def DeepCopyInto_CatalogTarget_def
  by (rule copy_struct_copies) (simp_all add: copy_rules)

definition DeepCopyInto_ConnectorDataSource :: "map_order \<Rightarrow> copier" where
  "DeepCopyInto_ConnectorDataSource ord = copy_struct
     [(''ConnectionType'', copy_ptr shallow), (''Data'', copy_map ord (copy_ptr shallow)),
      (''Name'', copy_ptr shallow), (''OutputSchemas'', copy_slice (copy_ptr DeepCopyInto_GlueSchema))]"

definition DeepCopy_ConnectorDataSource :: "map_order \<Rightarrow> copier" where
  "DeepCopy_ConnectorDataSource ord = copy_ptr (DeepCopyInto_ConnectorDataSource ord)"

lemma copies_ConnectorDataSource:
  "copies type_ConnectorDataSource (DeepCopyInto_ConnectorDataSource ord)"
  unfolding type_ConnectorDataSource_def DeepCopyInto_ConnectorDataSource_def
  by (rule copy_struct_copies) (simp_all add: copy_rules copies_GlueSchema)

definition DeepCopyInto_ConnectorDataTarget :: "map_order \<Rightarrow> copier" where
  "DeepCopyInto_ConnectorDataTarget ord = copy_struct
     [(''ConnectionType'', copy_ptr shallow), (''Data'', copy_map ord (copy_ptr shallow)),
      (''Inputs'', copy_slice (copy_ptr shallow)), (''Name'', copy_ptr shallow)]"

definition DeepCopy_ConnectorDataTarget :: "map_order \<Rightarrow> copier" where
  "DeepCopy_ConnectorDataTarget ord = copy_ptr (DeepCopyInto_ConnectorDataTarget ord)"

lemma copies_ConnectorDataTarget:
  "copies type_ConnectorDataTarget (DeepCopyInto_ConnectorDataTarget ord)"
  unfolding type_ConnectorDataTarget_def DeepCopyInto_ConnectorDataTarget_def
  by (rule copy_struct_copies) (simp_all add: copy_rules)

definition DeepCopyInto_CustomCode :: copier where
  "DeepCopyInto_CustomCode = copy_struct
     [(''ClassName'', copy_ptr shallow), (''Code'', copy_ptr shallow),
      (''Inputs'', copy_slice (copy_ptr shallow)), (''Name'', copy_ptr shallow),
      (''OutputSchemas'', copy_slice (copy_ptr DeepCopyInto_GlueSchema))]"

definition DeepCopy_CustomCode :: copier where
  "DeepCopy_CustomCode = copy_ptr DeepCopyInto_CustomCode"

lemma copies_CustomCode:
  "copies type_CustomCode DeepCopyInto_CustomCode"
  unfolding type_CustomCode_def DeepCopyInto_CustomCode_def
  by (rule copy_struct_copies) (simp_all add: copy_rules copies_GlueSchema)

definition DeepCopyInto_DirectJDBCSource :: copier where
  "DeepCopyInto_DirectJDBCSource = copy_struct
     [(''ConnectionName'', copy_ptr shallow), (''ConnectionType'', copy_ptr shallow),
      (''Database'', copy_ptr shallow), (''Name'', copy_ptr shallow),
      (''RedshiftTmpDir'', copy_ptr shallow), (''Table'', copy_ptr shallow)]"

definition DeepCopy_DirectJDBCSource :: copier where
  "DeepCopy_DirectJDBCSource = copy_ptr DeepCopyInto_DirectJDBCSource"

lemma copies_DirectJDBCSource:
  "copies type_DirectJDBCSource DeepCopyInto_DirectJDBCSource"
  unfolding type_DirectJDBCSource_def DeepCopyInto_DirectJDBCSource_def
  by (rule copy_struct_copies) (simp_all add: copy_rules)

definition DeepCopyInto_DirectKafkaSource :: "api_library \<Rightarrow> copier" where
  "DeepCopyInto_DirectKafkaSource x = copy_struct
     [(''DataPreviewOptions'', copy_ptr DeepCopyInto_StreamingDataPreviewOptions),
      (''DetectSchema'', copy_ptr shallow), (''Name'', copy_ptr shallow),
      (''StreamingOptions'', copy_ptr (DeepCopyInto_KafkaStreamingSourceOptions x)),
      (''WindowSize'', copy_ptr shallow)]"

definition DeepCopy_DirectKafkaSource :: "api_library \<Rightarrow> copier" where
  "DeepCopy_DirectKafkaSource x = copy_ptr (DeepCopyInto_DirectKafkaSource x)"

lemma copies_DirectKafkaSource:
  assumes "ext_laws x"
  shows
  "copies (type_DirectKafkaSource x) (DeepCopyInto_DirectKafkaSource x)"
  unfolding type_DirectKafkaSource_def DeepCopyInto_DirectKafkaSource_def
  by (rule copy_struct_copies) (simp_all add: copy_rules copies_StreamingDataPreviewOptions copies_KafkaStreamingSourceOptions ext_lawsD [OF assms] assms)

definition DeepCopyInto_DirectKinesisSource :: "api_library \<Rightarrow> copier" where
  "DeepCopyInto_DirectKinesisSource x = copy_struct
     [(''DataPreviewOptions'', copy_ptr DeepCopyInto_StreamingDataPreviewOptions),
      (''DetectSchema'', copy_ptr shallow), (''Name'', copy_ptr shallow),
      (''StreamingOptions'', copy_ptr (DeepCopyInto_KinesisStreamingSourceOptions x)),
      (''WindowSize'', copy_ptr shallow)]"

definition DeepCopy_DirectKinesisSource :: "api_library \<Rightarrow> copier" where
  "DeepCopy_DirectKinesisSource x = copy_ptr (DeepCopyInto_DirectKinesisSource x)"

lemma copies_DirectKinesisSource:
  assumes "ext_laws x"
  shows
  "copies (type_DirectKinesisSource x) (DeepCopyInto_DirectKinesisSource x)"
  unfolding type_DirectKinesisSource_def DeepCopyInto_DirectKinesisSource_def
  by (rule copy_struct_copies) (simp_all add: copy_rules copies_StreamingDataPreviewOptions copies_KinesisStreamingSourceOptions ext_lawsD [OF assms] assms)

definition DeepCopyInto_DropDuplicates :: copier where
  "DeepCopyInto_DropDuplicates = copy_struct
     [(''Columns'', copy_slice (copy_slice (copy_ptr shallow))),
      (''Inputs'', copy_slice (copy_ptr shallow)), (''Name'', copy_ptr shallow)]"

definition DeepCopy_DropDuplicates :: copier where
  "DeepCopy_DropDuplicates = copy_ptr DeepCopyInto_DropDuplicates"

lemma copies_DropDuplicates:
  "copies type_DropDuplicates DeepCopyInto_DropDuplicates"
  unfolding type_DropDuplicates_def DeepCopyInto_DropDuplicates_def
  by (rule copy_struct_copies) (simp_all add: copy_rules)

definition DeepCopyInto_DropFields :: copier where
  "DeepCopyInto_DropFields = copy_struct
     [(''Inputs'', copy_slice (copy_ptr shallow)), (''Name'', copy_ptr shallow),
      (''Paths'', copy_slice (copy_slice (copy_ptr shallow)))]"

definition DeepCopy_DropFields :: copier where
  "DeepCopy_DropFields = copy_ptr DeepCopyInto_DropFields"

lemma copies_DropFields:
  "copies type_DropFields DeepCopyInto_DropFields"
  unfolding type_DropFields_def DeepCopyInto_DropFields_def
  by (rule copy_struct_copies) (simp_all add: copy_rules)

definition DeepCopyInto_NullCheckBoxList :: copier where
  "DeepCopyInto_NullCheckBoxList = copy_struct
     [(''IsEmpty'', copy_ptr shallow), (''IsNegOne'', copy_ptr shallow),
      (''IsNullString'', copy_ptr shallow)]"

definition DeepCopy_NullCheckBoxList :: copier where
  "DeepCopy_NullCheckBoxList = copy_ptr DeepCopyInto_NullCheckBoxList"

lemma copies_NullCheckBoxList:
  "copies type_NullCheckBoxList DeepCopyInto_NullCheckBoxList"
  unfolding type_NullCheckBoxList_def DeepCopyInto_NullCheckBoxList_def
  by (rule copy_struct_copies) (simp_all add: copy_rules)

definition DeepCopyInto_Datatype :: copier where
  "DeepCopyInto_Datatype = copy_struct
     [(''ID'', copy_ptr shallow), (''Label'', copy_ptr shallow)]"

definition DeepCopy_Datatype :: copier where
  "DeepCopy_Datatype = copy_ptr DeepCopyInto_Datatype"

lemma copies_Datatype:
  "copies type_Datatype DeepCopyInto_Datatype"
  unfolding type_Datatype_def DeepCopyInto_Datatype_def
  by (rule copy_struct_copies) (simp_all add: copy_rules)

definition DeepCopyInto_NullValueField :: copier where
  "DeepCopyInto_NullValueField = copy_struct
     [(''Datatype'', copy_ptr DeepCopyInto_Datatype), (''Value'', copy_ptr shallow)]"

definition DeepCopy_NullValueField :: copier where
  "DeepCopy_NullValueField = copy_ptr DeepCopyInto_NullValueField"

lemma copies_NullValueField:
  "copies type_NullValueField DeepCopyInto_NullValueField"
  unfolding type_NullValueField_def DeepCopyInto_NullValueField_def
  by (rule copy_struct_copies) (simp_all add: copy_rules copies_Datatype)

definition DeepCopyInto_DropNullFields :: copier where
  "DeepCopyInto_DropNullFields = copy_struct
     [(''Inputs'', copy_slice (copy_ptr shallow)), (''Name'', copy_ptr shallow),
      (''NullCheckBoxList'', copy_ptr DeepCopyInto_NullCheckBoxList),
      (''NullTextList'', copy_slice (copy_ptr DeepCopyInto_NullValueField))]"

definition DeepCopy_DropNullFields :: copier where
  "DeepCopy_DropNullFields = copy_ptr DeepCopyInto_DropNullFields"

lemma copies_DropNullFields:
  "copies type_DropNullFields DeepCopyInto_DropNullFields"
  unfolding type_DropNullFields_def DeepCopyInto_DropNullFields_def
  by (rule copy_struct_copies) (simp_all add: copy_rules copies_NullCheckBoxList copies_NullValueField)

definition DeepCopyInto_TransformConfigParameter :: copier where
  "DeepCopyInto_TransformConfigParameter = copy_struct
     [(''IsOptional'', copy_ptr shallow), (''ListType'', copy_ptr shallow),
      (''Name'', copy_ptr shallow), (''Type'', copy_ptr shallow),
      (''ValidationMessage'', copy_ptr shallow), (''ValidationRule'', copy_ptr shallow),
      (''Value'', copy_slice (copy_ptr shallow))]"

definition DeepCopy_TransformConfigParameter :: copier where
  "DeepCopy_TransformConfigParameter = copy_ptr DeepCopyInto_TransformConfigParameter"

lemma copies_TransformConfigParameter:
  "copies type_TransformConfigParameter DeepCopyInto_TransformConfigParameter"
  unfolding type_TransformConfigParameter_def DeepCopyInto_TransformConfigParameter_def
  by (rule copy_struct_copies) (simp_all add: copy_rules)

definition DeepCopyInto_DynamicTransform :: copier where
  "DeepCopyInto_DynamicTransform = copy_struct
     [(''FunctionName'', copy_ptr shallow), (''Inputs'', copy_slice (copy_ptr shallow)),
      (''Name'', copy_ptr shallow), (''OutputSchemas'', copy_slice (copy_ptr DeepCopyInto_GlueSchema)),
      (''Parameters'', copy_slice (copy_ptr DeepCopyInto_TransformConfigParameter)),
      (''Path'', copy_ptr shallow), (''TransformName'', copy_ptr shallow),
      (''Version'', copy_ptr shallow)]"

definition DeepCopy_DynamicTransform :: copier where
  "DeepCopy_DynamicTransform = copy_ptr DeepCopyInto_DynamicTransform"

lemma copies_DynamicTransform:
  "copies type_DynamicTransform DeepCopyInto_DynamicTransform"
  unfolding type_DynamicTransform_def DeepCopyInto_DynamicTransform_def
  by (rule copy_struct_copies) (simp_all add: copy_rules copies_GlueSchema copies_TransformConfigParameter)

definition DeepCopyInto_DynamoDBCatalogSource :: copier where
  "DeepCopyInto_DynamoDBCatalogSource = copy_struct
     [(''Database'', copy_ptr shallow), (''Name'', copy_ptr shallow), (''Table'', copy_ptr shallow)]"

definition DeepCopy_DynamoDBCatalogSource :: copier where
  "DeepCopy_DynamoDBCatalogSource = copy_ptr DeepCopyInto_DynamoDBCatalogSource"

lemma copies_DynamoDBCatalogSource:
  "copies type_DynamoDBCatalogSource DeepCopyInto_DynamoDBCatalogSource"
  unfolding type_DynamoDBCatalogSource_def DeepCopyInto_DynamoDBCatalogSource_def
  by (rule copy_struct_copies) (simp_all add: copy_rules)

definition DeepCopyInto_DQResultsPublishingOptions :: copier where
  "DeepCopyInto_DQResultsPublishingOptions = copy_struct
     [(''CloudWatchMetricsEnabled'', copy_ptr shallow), (''EvaluationContext'', copy_ptr shallow),
      (''ResultsPublishingEnabled'', copy_ptr shallow), (''ResultsS3Prefix'', copy_ptr shallow)]"

definition DeepCopy_DQResultsPublishingOptions :: copier where
  "DeepCopy_DQResultsPublishingOptions = copy_ptr DeepCopyInto_DQResultsPublishingOptions"

lemma copies_DQResultsPublishingOptions:
  "copies type_DQResultsPublishingOptions DeepCopyInto_DQResultsPublishingOptions"
  unfolding type_DQResultsPublishingOptions_def DeepCopyInto_DQResultsPublishingOptions_def
  by (rule copy_struct_copies) (simp_all add: copy_rules)

definition DeepCopyInto_DQStopJobOnFailureOptions :: copier where
  "DeepCopyInto_DQStopJobOnFailureOptions = copy_struct
     [(''StopJobOnFailureTiming'', copy_ptr shallow)]"

definition DeepCopy_DQStopJobOnFailureOptions :: copier where
  "DeepCopy_DQStopJobOnFailureOptions = copy_ptr DeepCopyInto_DQStopJobOnFailureOptions"

lemma copies_DQStopJobOnFailureOptions:
  "copies type_DQStopJobOnFailureOptions DeepCopyInto_DQStopJobOnFailureOptions"
  unfolding type_DQStopJobOnFailureOptions_def DeepCopyInto_DQStopJobOnFailureOptions_def
  by (rule copy_struct_copies) (simp_all add: copy_rules)

definition DeepCopyInto_EvaluateDataQuality :: copier where
  "DeepCopyInto_EvaluateDataQuality = copy_struct
     [(''Inputs'', copy_slice (copy_ptr shallow)), (''Name'', copy_ptr shallow),
      (''Output'', copy_ptr shallow),
      (''PublishingOptions'', copy_ptr DeepCopyInto_DQResultsPublishingOptions),
      (''Ruleset'', copy_ptr shallow),
      (''StopJobOnFailureOptions'', copy_ptr DeepCopyInto_DQStopJobOnFailureOptions)]"

definition DeepCopy_EvaluateDataQuality :: copier where
  "DeepCopy_EvaluateDataQuality = copy_ptr DeepCopyInto_EvaluateDataQuality"

lemma copies_EvaluateDataQuality:
  "copies type_EvaluateDataQuality DeepCopyInto_EvaluateDataQuality"
  unfolding type_EvaluateDataQuality_def DeepCopyInto_EvaluateDataQuality_def
  by (rule copy_struct_copies) (simp_all add: copy_rules copies_DQResultsPublishingOptions copies_DQStopJobOnFailureOptions)

definition DeepCopyInto_EvaluateDataQualityMultiFrame :: "map_order \<Rightarrow> copier" where
  "DeepCopyInto_EvaluateDataQualityMultiFrame ord = copy_struct
     [(''AdditionalDataSources'', copy_map ord (copy_ptr shallow)),
      (''AdditionalOptions'', copy_map ord (copy_ptr shallow)),
      (''Inputs'', copy_slice (copy_ptr shallow)), (''Name'', copy_ptr shallow),
      (''PublishingOptions'', copy_ptr DeepCopyInto_DQResultsPublishingOptions),
      (''Ruleset'', copy_ptr shallow),
      (''StopJobOnFailureOptions'', copy_ptr DeepCopyInto_DQStopJobOnFailureOptions)]"

definition DeepCopy_EvaluateDataQualityMultiFrame :: "map_order \<Rightarrow> copier" where
  "DeepCopy_EvaluateDataQualityMultiFrame ord = copy_ptr (DeepCopyInto_EvaluateDataQualityMultiFrame ord)"

lemma copies_EvaluateDataQualityMultiFrame:
  "copies type_EvaluateDataQualityMultiFrame (DeepCopyInto_EvaluateDataQualityMultiFrame ord)"
  unfolding type_EvaluateDataQualityMultiFrame_def DeepCopyInto_EvaluateDataQualityMultiFrame_def
  by (rule copy_struct_copies) (simp_all add: copy_rules copies_DQResultsPublishingOptions copies_DQStopJobOnFailureOptions)

definition DeepCopyInto_FillMissingValues :: copier where
  "DeepCopyInto_FillMissingValues = copy_struct
     [(''FilledPath'', copy_ptr shallow), (''ImputedPath'', copy_ptr shallow),
      (''Inputs'', copy_slice (copy_ptr shallow)), (''Name'', copy_ptr shallow)]"

definition DeepCopy_FillMissingValues :: copier where
  "DeepCopy_FillMissingValues = copy_ptr DeepCopyInto_FillMissingValues"

lemma copies_FillMissingValues:
  "copies type_FillMissingValues DeepCopyInto_FillMissingValues"
  unfolding type_FillMissingValues_def DeepCopyInto_FillMissingValues_def
  by (rule copy_struct_copies) (simp_all add: copy_rules)

definition DeepCopyInto_FilterValue :: copier where
  "DeepCopyInto_FilterValue = copy_struct
     [(''Type'', copy_ptr shallow), (''Value'', copy_slice (copy_ptr shallow))]"

definition DeepCopy_FilterValue :: copier where
  "DeepCopy_FilterValue = copy_ptr DeepCopyInto_FilterValue"

lemma copies_FilterValue:
  "copies type_FilterValue DeepCopyInto_FilterValue"
  unfolding type_FilterValue_def DeepCopyInto_FilterValue_def
  by (rule copy_struct_copies) (simp_all add: copy_rules)

definition DeepCopyInto_FilterExpression :: copier where
  "DeepCopyInto_FilterExpression = copy_struct
     [(''Negated'', copy_ptr shallow), (''Operation'', copy_ptr shallow),
      (''Values'', copy_slice (copy_ptr DeepCopyInto_FilterValue))]"

definition DeepCopy_FilterExpression :: copier where
  "DeepCopy_FilterExpression = copy_ptr DeepCopyInto_FilterExpression"

lemma copies_FilterExpression:
  "copies type_FilterExpression DeepCopyInto_FilterExpression"
  unfolding type_FilterExpression_def DeepCopyInto_FilterExpression_def
  by (rule copy_struct_copies) (simp_all add: copy_rules copies_FilterValue)

definition DeepCopyInto_Filter :: copier where
  "DeepCopyInto_Filter = copy_struct
     [(''Filters'', copy_slice (copy_ptr DeepCopyInto_FilterExpression)),
      (''Inputs'', copy_slice (copy_ptr shallow)), (''LogicalOperator'', copy_ptr shallow),
      (''Name'', copy_ptr shallow)]"

definition DeepCopy_Filter :: copier where
  "DeepCopy_Filter = copy_ptr DeepCopyInto_Filter"

lemma copies_Filter:
  "copies type_Filter DeepCopyInto_Filter"
  unfolding type_Filter_def DeepCopyInto_Filter_def
  by (rule copy_struct_copies) (simp_all add: copy_rules copies_FilterExpression)

definition DeepCopyInto_S3SourceAdditionalOptions :: copier where
  "DeepCopyInto_S3SourceAdditionalOptions = copy_struct
     [(''BoundedFiles'', copy_ptr shallow), (''BoundedSize'', copy_ptr shallow)]"

definition DeepCopy_S3SourceAdditionalOptions :: copier where
  "DeepCopy_S3SourceAdditionalOptions = copy_ptr DeepCopyInto_S3SourceAdditionalOptions"

lemma copies_S3SourceAdditionalOptions:
  "copies type_S3SourceAdditionalOptions DeepCopyInto_S3SourceAdditionalOptions"
  unfolding type_S3SourceAdditionalOptions_def DeepCopyInto_S3SourceAdditionalOptions_def
  by (rule copy_struct_copies) (simp_all add: copy_rules)

definition DeepCopyInto_GovernedCatalogSource :: copier where
  "DeepCopyInto_GovernedCatalogSource = copy_struct
     [(''AdditionalOptions'', copy_ptr DeepCopyInto_S3SourceAdditionalOptions),
      (''Database'', copy_ptr shallow), (''Name'', copy_ptr shallow),
      (''PartitionPredicate'', copy_ptr shallow), (''Table'', copy_ptr shallow)]"

definition DeepCopy_GovernedCatalogSource :: copier where
  "DeepCopy_GovernedCatalogSource = copy_ptr DeepCopyInto_GovernedCatalogSource"

lemma copies_GovernedCatalogSource:
  "copies type_GovernedCatalogSource DeepCopyInto_GovernedCatalogSource"
  unfolding type_GovernedCatalogSource_def DeepCopyInto_GovernedCatalogSource_def
  by (rule copy_struct_copies) (simp_all add: copy_rules copies_S3SourceAdditionalOptions)

definition DeepCopyInto_GovernedCatalogTarget :: copier where
  "DeepCopyInto_GovernedCatalogTarget = copy_struct
     [(''Database'', copy_ptr shallow), (''Inputs'', copy_slice (copy_ptr shallow)),
      (''Name'', copy_ptr shallow), (''PartitionKeys'', copy_slice (copy_slice (copy_ptr shallow))),
      (''SchemaChangePolicy'', copy_ptr DeepCopyInto_CatalogSchemaChangePolicy),
      (''Table'', copy_ptr shallow)]"

definition DeepCopy_GovernedCatalogTarget :: copier where
  "DeepCopy_GovernedCatalogTarget = copy_ptr DeepCopyInto_GovernedCatalogTarget"

lemma copies_GovernedCatalogTarget:
  "copies type_GovernedCatalogTarget DeepCopyInto_GovernedCatalogTarget"
  unfolding type_GovernedCatalogTarget_def DeepCopyInto_GovernedCatalogTarget_def
  by (rule copy_struct_copies) (simp_all add: copy_rules copies_CatalogSchemaChangePolicy)

definition DeepCopyInto_JDBCConnectorOptions :: "map_order \<Rightarrow> copier" where
  "DeepCopyInto_JDBCConnectorOptions ord = copy_struct
     [(''DataTypeMapping'', copy_map ord (copy_ptr shallow)), (''FilterPredicate'', copy_ptr shallow),
      (''JobBookmarkKeys'', copy_slice (copy_ptr shallow)),
      (''JobBookmarkKeysSortOrder'', copy_ptr shallow), (''LowerBound'', copy_ptr shallow),
      (''NumPartitions'', copy_ptr shallow), (''PartitionColumn'', copy_ptr shallow),
      (''UpperBound'', copy_ptr shallow)]"

definition DeepCopy_JDBCConnectorOptions :: "map_order \<Rightarrow> copier" where
  "DeepCopy_JDBCConnectorOptions ord = copy_ptr (DeepCopyInto_JDBCConnectorOptions ord)"

lemma copies_JDBCConnectorOptions:
  "copies type_JDBCConnectorOptions (DeepCopyInto_JDBCConnectorOptions ord)"
  unfolding type_JDBCConnectorOptions_def DeepCopyInto_JDBCConnectorOptions_def
  by (rule copy_struct_copies) (simp_all add: copy_rules)

definition DeepCopyInto_JDBCConnectorSource :: "map_order \<Rightarrow> copier" where
  "DeepCopyInto_JDBCConnectorSource ord = copy_struct
     [(''AdditionalOptions'', copy_ptr (DeepCopyInto_JDBCConnectorOptions ord)),
      (''ConnectionName'', copy_ptr shallow), (''ConnectionTable'', copy_ptr shallow),
      (''ConnectionType'', copy_ptr shallow), (''ConnectorName'', copy_ptr shallow),
      (''Name'', copy_ptr shallow), (''OutputSchemas'', copy_slice (copy_ptr DeepCopyInto_GlueSchema)),
      (''Query'', copy_ptr shallow)]"

definition DeepCopy_JDBCConnectorSource :: "map_order \<Rightarrow> copier" where
  "DeepCopy_JDBCConnectorSource ord = copy_ptr (DeepCopyInto_JDBCConnectorSource ord)"

lemma copies_JDBCConnectorSource:
  "copies type_JDBCConnectorSource (DeepCopyInto_JDBCConnectorSource ord)"
  unfolding type_JDBCConnectorSource_def DeepCopyInto_JDBCConnectorSource_def
  by (rule copy_struct_copies) (simp_all add: copy_rules copies_JDBCConnectorOptions copies_GlueSchema)

definition DeepCopyInto_JDBCConnectorTarget :: "map_order \<Rightarrow> copier" where
  "DeepCopyInto_JDBCConnectorTarget ord = copy_struct
     [(''AdditionalOptions'', copy_map ord (copy_ptr shallow)), (''ConnectionName'', copy_ptr shallow),
      (''ConnectionTable'', copy_ptr shallow), (''ConnectionType'', copy_ptr shallow),
      (''ConnectorName'', copy_ptr shallow), (''Inputs'', copy_slice (copy_ptr shallow)),
      (''Name'', copy_ptr shallow), (''OutputSchemas'', copy_slice (copy_ptr DeepCopyInto_GlueSchema))]"

definition DeepCopy_JDBCConnectorTarget :: "map_order \<Rightarrow> copier" where
  "DeepCopy_JDBCConnectorTarget ord = copy_ptr (DeepCopyInto_JDBCConnectorTarget ord)"

lemma copies_JDBCConnectorTarget:
  "copies type_JDBCConnectorTarget (DeepCopyInto_JDBCConnectorTarget ord)"
  unfolding type_JDBCConnectorTarget_def DeepCopyInto_JDBCConnectorTarget_def
  by (rule copy_struct_copies) (simp_all add: copy_rules copies_GlueSchema)

end
