(* ===== verification/Api_Copy_2.thy ===== *)
theory Api_Copy_2
  imports Api_Copy_1
begin

text \<open>
  Deep copies of apis/v1alpha1/zz_generated.deepcopy.go, part 2 of 4, in order of use
  (JoinColumn to Crawler): each DeepCopyInto with the statements of its body, each
  DeepCopy on a pointer, and the lemma that the listed fields are all the fields that need copying.
\<close>

definition DeepCopyInto_JoinColumn :: copier where
  "DeepCopyInto_JoinColumn = copy_struct
     [(''From'', copy_ptr shallow), (''Keys'', copy_slice (copy_slice (copy_ptr shallow)))]"

definition DeepCopy_JoinColumn :: copier where
  "DeepCopy_JoinColumn = copy_ptr DeepCopyInto_JoinColumn"

lemma copies_JoinColumn:
  "copies type_JoinColumn DeepCopyInto_JoinColumn"
  unfolding type_JoinColumn_def DeepCopyInto_JoinColumn_def
  by (rule copy_struct_copies) (simp_all add: copy_rules)

definition DeepCopyInto_Join :: copier where
  "DeepCopyInto_Join = copy_struct
     [(''Columns'', copy_slice (copy_ptr DeepCopyInto_JoinColumn)),
      (''Inputs'', copy_slice (copy_ptr shallow)), (''JoinType'', copy_ptr shallow),
      (''Name'', copy_ptr shallow)]"

definition DeepCopy_Join :: copier where
  "DeepCopy_Join = copy_ptr DeepCopyInto_Join"

lemma copies_Join:
  "copies type_Join DeepCopyInto_Join"
  unfolding type_Join_def DeepCopyInto_Join_def
  by (rule copy_struct_copies) (simp_all add: copy_rules copies_JoinColumn)

definition DeepCopyInto_Merge :: copier where
  "DeepCopyInto_Merge = copy_struct
     [(''Inputs'', copy_slice (copy_ptr shallow)), (''Name'', copy_ptr shallow),
      (''PrimaryKeys'', copy_slice (copy_slice (copy_ptr shallow))), (''Source'', copy_ptr shallow)]"

definition DeepCopy_Merge :: copier where
  "DeepCopy_Merge = copy_ptr DeepCopyInto_Merge"

lemma copies_Merge:
  "copies type_Merge DeepCopyInto_Merge"
  unfolding type_Merge_def DeepCopyInto_Merge_def
  by (rule copy_struct_copies) (simp_all add: copy_rules)

definition DeepCopyInto_MicrosoftSQLServerCatalogSource :: copier where
  "DeepCopyInto_MicrosoftSQLServerCatalogSource = copy_struct
     [(''Database'', copy_ptr shallow), (''Name'', copy_ptr shallow), (''Table'', copy_ptr shallow)]"

definition DeepCopy_MicrosoftSQLServerCatalogSource :: copier where
  "DeepCopy_MicrosoftSQLServerCatalogSource = copy_ptr DeepCopyInto_MicrosoftSQLServerCatalogSource"

lemma copies_MicrosoftSQLServerCatalogSource:
  "copies type_MicrosoftSQLServerCatalogSource DeepCopyInto_MicrosoftSQLServerCatalogSource"
  unfolding type_MicrosoftSQLServerCatalogSource_def DeepCopyInto_MicrosoftSQLServerCatalogSource_def
  by (rule copy_struct_copies) (simp_all add: copy_rules)

definition DeepCopyInto_MicrosoftSQLServerCatalogTarget :: copier where
  "DeepCopyInto_MicrosoftSQLServerCatalogTarget = copy_struct
     [(''Database'', copy_ptr shallow), (''Inputs'', copy_slice (copy_ptr shallow)),
      (''Name'', copy_ptr shallow), (''Table'', copy_ptr shallow)]"

definition DeepCopy_MicrosoftSQLServerCatalogTarget :: copier where
  "DeepCopy_MicrosoftSQLServerCatalogTarget = copy_ptr DeepCopyInto_MicrosoftSQLServerCatalogTarget"

lemma copies_MicrosoftSQLServerCatalogTarget:
  "copies type_MicrosoftSQLServerCatalogTarget DeepCopyInto_MicrosoftSQLServerCatalogTarget"
  unfolding type_MicrosoftSQLServerCatalogTarget_def DeepCopyInto_MicrosoftSQLServerCatalogTarget_def
  by (rule copy_struct_copies) (simp_all add: copy_rules)

definition DeepCopyInto_MySQLCatalogSource :: copier where
  "DeepCopyInto_MySQLCatalogSource = copy_struct
     [(''Database'', copy_ptr shallow), (''Name'', copy_ptr shallow), (''Table'', copy_ptr shallow)]"

definition DeepCopy_MySQLCatalogSource :: copier where
  "DeepCopy_MySQLCatalogSource = copy_ptr DeepCopyInto_MySQLCatalogSource"

lemma copies_MySQLCatalogSource:
  "copies type_MySQLCatalogSource DeepCopyInto_MySQLCatalogSource"
  unfolding type_MySQLCatalogSource_def DeepCopyInto_MySQLCatalogSource_def
  by (rule copy_struct_copies) (simp_all add: copy_rules)

definition DeepCopyInto_MySQLCatalogTarget :: copier where
  "DeepCopyInto_MySQLCatalogTarget = copy_struct
     [(''Database'', copy_ptr shallow), (''Inputs'', copy_slice (copy_ptr shallow)),
      (''Name'', copy_ptr shallow), (''Table'', copy_ptr shallow)]"

definition DeepCopy_MySQLCatalogTarget :: copier where
  "DeepCopy_MySQLCatalogTarget = copy_ptr DeepCopyInto_MySQLCatalogTarget"

lemma copies_MySQLCatalogTarget:
  "copies type_MySQLCatalogTarget DeepCopyInto_MySQLCatalogTarget"
  unfolding type_MySQLCatalogTarget_def DeepCopyInto_MySQLCatalogTarget_def
  by (rule copy_struct_copies) (simp_all add: copy_rules)

definition DeepCopyInto_OracleSQLCatalogSource :: copier where
  "DeepCopyInto_OracleSQLCatalogSource = copy_struct
     [(''Database'', copy_ptr shallow), (''Name'', copy_ptr shallow), (''Table'', copy_ptr shallow)]"

definition DeepCopy_OracleSQLCatalogSource :: copier where
  "DeepCopy_OracleSQLCatalogSource = copy_ptr DeepCopyInto_OracleSQLCatalogSource"

lemma copies_OracleSQLCatalogSource:
  "copies type_OracleSQLCatalogSource DeepCopyInto_OracleSQLCatalogSource"
  unfolding type_OracleSQLCatalogSource_def DeepCopyInto_OracleSQLCatalogSource_def
  by (rule copy_struct_copies) (simp_all add: copy_rules)

definition DeepCopyInto_OracleSQLCatalogTarget :: copier where
  "DeepCopyInto_OracleSQLCatalogTarget = copy_struct
     [(''Database'', copy_ptr shallow), (''Inputs'', copy_slice (copy_ptr shallow)),
      (''Name'', copy_ptr shallow), (''Table'', copy_ptr shallow)]"

definition DeepCopy_OracleSQLCatalogTarget :: copier where
  "DeepCopy_OracleSQLCatalogTarget = copy_ptr DeepCopyInto_OracleSQLCatalogTarget"

lemma copies_OracleSQLCatalogTarget:
  "copies type_OracleSQLCatalogTarget DeepCopyInto_OracleSQLCatalogTarget"
  unfolding type_OracleSQLCatalogTarget_def DeepCopyInto_OracleSQLCatalogTarget_def
  by (rule copy_struct_copies) (simp_all add: copy_rules)

definition DeepCopyInto_PIIDetection :: copier where
  "DeepCopyInto_PIIDetection = copy_struct
     [(''EntityTypesToDetect'', copy_slice (copy_ptr shallow)),
      (''Inputs'', copy_slice (copy_ptr shallow)), (''MaskValue'', copy_ptr shallow),
      (''Name'', copy_ptr shallow), (''OutputColumnName'', copy_ptr shallow),
      (''PiiType'', copy_ptr shallow), (''SampleFraction'', copy_ptr shallow),
      (''ThresholdFraction'', copy_ptr shallow)]"

definition DeepCopy_PIIDetection :: copier where
  "DeepCopy_PIIDetection = copy_ptr DeepCopyInto_PIIDetection"

lemma copies_PIIDetection:
  "copies type_PIIDetection DeepCopyInto_PIIDetection"
  unfolding type_PIIDetection_def DeepCopyInto_PIIDetection_def
  by (rule copy_struct_copies) (simp_all add: copy_rules)

definition DeepCopyInto_PostgreSQLCatalogSource :: copier where
  "DeepCopyInto_PostgreSQLCatalogSource = copy_struct
     [(''Database'', copy_ptr shallow), (''Name'', copy_ptr shallow), (''Table'', copy_ptr shallow)]"

definition DeepCopy_PostgreSQLCatalogSource :: copier where
  "DeepCopy_PostgreSQLCatalogSource = copy_ptr DeepCopyInto_PostgreSQLCatalogSource"

lemma copies_PostgreSQLCatalogSource:
  "copies type_PostgreSQLCatalogSource DeepCopyInto_PostgreSQLCatalogSource"
  unfolding type_PostgreSQLCatalogSource_def DeepCopyInto_PostgreSQLCatalogSource_def
  by (rule copy_struct_copies) (simp_all add: copy_rules)

definition DeepCopyInto_PostgreSQLCatalogTarget :: copier where
  "DeepCopyInto_PostgreSQLCatalogTarget = copy_struct
     [(''Database'', copy_ptr shallow), (''Inputs'', copy_slice (copy_ptr shallow)),
      (''Name'', copy_ptr shallow), (''Table'', copy_ptr shallow)]"

definition DeepCopy_PostgreSQLCatalogTarget :: copier where
  "DeepCopy_PostgreSQLCatalogTarget = copy_ptr DeepCopyInto_PostgreSQLCatalogTarget"

lemma copies_PostgreSQLCatalogTarget:
  "copies type_PostgreSQLCatalogTarget DeepCopyInto_PostgreSQLCatalogTarget"
  unfolding type_PostgreSQLCatalogTarget_def DeepCopyInto_PostgreSQLCatalogTarget_def
  by (rule copy_struct_copies) (simp_all add: copy_rules)

definition DeepCopyInto_RecipeReference :: copier where
  "DeepCopyInto_RecipeReference = copy_struct
     [(''RecipeARN'', copy_ptr shallow), (''RecipeVersion'', copy_ptr shallow)]"

definition DeepCopy_RecipeReference :: copier where
  "DeepCopy_RecipeReference = copy_ptr DeepCopyInto_RecipeReference"

lemma copies_RecipeReference:
  "copies type_RecipeReference DeepCopyInto_RecipeReference"
  unfolding type_RecipeReference_def DeepCopyInto_RecipeReference_def
  by (rule copy_struct_copies) (simp_all add: copy_rules)

definition DeepCopyInto_RecipeAction :: "map_order \<Rightarrow> copier" where
  "DeepCopyInto_RecipeAction ord = copy_struct
     [(''Operation'', copy_ptr shallow), (''Parameters'', copy_map ord (copy_ptr shallow))]"

definition DeepCopy_RecipeAction :: "map_order \<Rightarrow> copier" where
  "DeepCopy_RecipeAction ord = copy_ptr (DeepCopyInto_RecipeAction ord)"

lemma copies_RecipeAction:
  "copies type_RecipeAction (DeepCopyInto_RecipeAction ord)"
  unfolding type_RecipeAction_def DeepCopyInto_RecipeAction_def
  by (rule copy_struct_copies) (simp_all add: copy_rules)

definition DeepCopyInto_ConditionExpression :: copier where
  "DeepCopyInto_ConditionExpression = copy_struct
     [(''Condition'', copy_ptr shallow), (''TargetColumn'', copy_ptr shallow),
      (''Value'', copy_ptr shallow)]"

definition DeepCopy_ConditionExpression :: copier where
  "DeepCopy_ConditionExpression = copy_ptr DeepCopyInto_ConditionExpression"

lemma copies_ConditionExpression:
  "copies type_ConditionExpression DeepCopyInto_ConditionExpression"
  unfolding type_ConditionExpression_def DeepCopyInto_ConditionExpression_def
  by (rule copy_struct_copies) (simp_all add: copy_rules)

definition DeepCopyInto_RecipeStep :: "map_order \<Rightarrow> copier" where
  "DeepCopyInto_RecipeStep ord = copy_struct
     [(''Action'', copy_ptr (DeepCopyInto_RecipeAction ord)),
      (''ConditionExpressions'', copy_slice (copy_ptr DeepCopyInto_ConditionExpression))]"

definition DeepCopy_RecipeStep :: "map_order \<Rightarrow> copier" where
  "DeepCopy_RecipeStep ord = copy_ptr (DeepCopyInto_RecipeStep ord)"

lemma copies_RecipeStep:
  "copies type_RecipeStep (DeepCopyInto_RecipeStep ord)"
  unfolding type_RecipeStep_def DeepCopyInto_RecipeStep_def
  by (rule copy_struct_copies) (simp_all add: copy_rules copies_RecipeAction copies_ConditionExpression)

definition DeepCopyInto_Recipe :: "map_order \<Rightarrow> copier" where
  "DeepCopyInto_Recipe ord = copy_struct
     [(''Inputs'', copy_slice (copy_ptr shallow)), (''Name'', copy_ptr shallow),
      (''RecipeReference'', copy_ptr DeepCopyInto_RecipeReference),
      (''RecipeSteps'', copy_slice (copy_ptr (DeepCopyInto_RecipeStep ord)))]"

definition DeepCopy_Recipe :: "map_order \<Rightarrow> copier" where
  "DeepCopy_Recipe ord = copy_ptr (DeepCopyInto_Recipe ord)"

lemma copies_Recipe:
  "copies type_Recipe (DeepCopyInto_Recipe ord)"
  unfolding type_Recipe_def DeepCopyInto_Recipe_def
  by (rule copy_struct_copies) (simp_all add: copy_rules copies_RecipeReference copies_RecipeStep)

definition DeepCopyInto_RedshiftSource :: copier where
  "DeepCopyInto_RedshiftSource = copy_struct
     [(''Database'', copy_ptr shallow), (''Name'', copy_ptr shallow),
      (''RedshiftTmpDir'', copy_ptr shallow), (''Table'', copy_ptr shallow),
      (''TmpDirIAMRole'', copy_ptr shallow)]"

definition DeepCopy_RedshiftSource :: copier where
  "DeepCopy_RedshiftSource = copy_ptr DeepCopyInto_RedshiftSource"

lemma copies_RedshiftSource:
  "copies type_RedshiftSource DeepCopyInto_RedshiftSource"
  unfolding type_RedshiftSource_def DeepCopyInto_RedshiftSource_def
  by (rule copy_struct_copies) (simp_all add: copy_rules)

definition DeepCopyInto_UpsertRedshiftTargetOptions :: copier where
  "DeepCopyInto_UpsertRedshiftTargetOptions = copy_struct
     [(''ConnectionName'', copy_ptr shallow), (''TableLocation'', copy_ptr shallow),
      (''UpsertKeys'', copy_slice (copy_ptr shallow))]"

definition DeepCopy_UpsertRedshiftTargetOptions :: copier where
  "DeepCopy_UpsertRedshiftTargetOptions = copy_ptr DeepCopyInto_UpsertRedshiftTargetOptions"

lemma copies_UpsertRedshiftTargetOptions:
  "copies type_UpsertRedshiftTargetOptions DeepCopyInto_UpsertRedshiftTargetOptions"
  unfolding type_UpsertRedshiftTargetOptions_def DeepCopyInto_UpsertRedshiftTargetOptions_def
  by (rule copy_struct_copies) (simp_all add: copy_rules)

definition DeepCopyInto_RedshiftTarget :: copier where
  "DeepCopyInto_RedshiftTarget = copy_struct
     [(''Database'', copy_ptr shallow), (''Inputs'', copy_slice (copy_ptr shallow)),
      (''Name'', copy_ptr shallow), (''RedshiftTmpDir'', copy_ptr shallow),
      (''Table'', copy_ptr shallow), (''TmpDirIAMRole'', copy_ptr shallow),
      (''UpsertRedshiftOptions'', copy_ptr DeepCopyInto_UpsertRedshiftTargetOptions)]"

definition DeepCopy_RedshiftTarget :: copier where
  "DeepCopy_RedshiftTarget = copy_ptr DeepCopyInto_RedshiftTarget"

lemma copies_RedshiftTarget:
  "copies type_RedshiftTarget DeepCopyInto_RedshiftTarget"
  unfolding type_RedshiftTarget_def DeepCopyInto_RedshiftTarget_def
  by (rule copy_struct_copies) (simp_all add: copy_rules copies_UpsertRedshiftTargetOptions)

definition DeepCopyInto_RelationalCatalogSource :: copier where
  "DeepCopyInto_RelationalCatalogSource = copy_struct
     [(''Database'', copy_ptr shallow), (''Name'', copy_ptr shallow), (''Table'', copy_ptr shallow)]"

definition DeepCopy_RelationalCatalogSource :: copier where
  "DeepCopy_RelationalCatalogSource = copy_ptr DeepCopyInto_RelationalCatalogSource"

lemma copies_RelationalCatalogSource:
  "copies type_RelationalCatalogSource DeepCopyInto_RelationalCatalogSource"
  unfolding type_RelationalCatalogSource_def DeepCopyInto_RelationalCatalogSource_def
  by (rule copy_struct_copies) (simp_all add: copy_rules)

definition DeepCopyInto_RenameField :: copier where
  "DeepCopyInto_RenameField = copy_struct
     [(''Inputs'', copy_slice (copy_ptr shallow)), (''Name'', copy_ptr shallow),
      (''SourcePath'', copy_slice (copy_ptr shallow)), (''TargetPath'', copy_slice (copy_ptr shallow))]"

definition DeepCopy_RenameField :: copier where
  "DeepCopy_RenameField = copy_ptr DeepCopyInto_RenameField"

lemma copies_RenameField:
  "copies type_RenameField DeepCopyInto_RenameField"
  unfolding type_RenameField_def DeepCopyInto_RenameField_def
  by (rule copy_struct_copies) (simp_all add: copy_rules)

definition DeepCopyInto_S3CatalogDeltaSource :: "map_order \<Rightarrow> copier" where
  "DeepCopyInto_S3CatalogDeltaSource ord = copy_struct
     [(''AdditionalDeltaOptions'', copy_map ord (copy_ptr shallow)), (''Database'', copy_ptr shallow),
      (''Name'', copy_ptr shallow), (''OutputSchemas'', copy_slice (copy_ptr DeepCopyInto_GlueSchema)),
      (''Table'', copy_ptr shallow)]"

definition DeepCopy_S3CatalogDeltaSource :: "map_order \<Rightarrow> copier" where
  "DeepCopy_S3CatalogDeltaSource ord = copy_ptr (DeepCopyInto_S3CatalogDeltaSource ord)"

lemma copies_S3CatalogDeltaSource:
  "copies type_S3CatalogDeltaSource (DeepCopyInto_S3CatalogDeltaSource ord)"
  unfolding type_S3CatalogDeltaSource_def DeepCopyInto_S3CatalogDeltaSource_def
  by (rule copy_struct_copies) (simp_all add: copy_rules copies_GlueSchema)

definition DeepCopyInto_S3CatalogHudiSource :: "map_order \<Rightarrow> copier" where
  "DeepCopyInto_S3CatalogHudiSource ord = copy_struct
     [(''AdditionalHudiOptions'', copy_map ord (copy_ptr shallow)), (''Database'', copy_ptr shallow),
      (''Name'', copy_ptr shallow), (''OutputSchemas'', copy_slice (copy_ptr DeepCopyInto_GlueSchema)),
      (''Table'', copy_ptr shallow)]"

definition DeepCopy_S3CatalogHudiSource :: "map_order \<Rightarrow> copier" where
  "DeepCopy_S3CatalogHudiSource ord = copy_ptr (DeepCopyInto_S3CatalogHudiSource ord)"

lemma copies_S3CatalogHudiSource:
  "copies type_S3CatalogHudiSource (DeepCopyInto_S3CatalogHudiSource ord)"
  unfolding type_S3CatalogHudiSource_def DeepCopyInto_S3CatalogHudiSource_def
  by (rule copy_struct_copies) (simp_all add: copy_rules copies_GlueSchema)

definition DeepCopyInto_S3CatalogSource :: copier where
  "DeepCopyInto_S3CatalogSource = copy_struct
     [(''AdditionalOptions'', copy_ptr DeepCopyInto_S3SourceAdditionalOptions),
      (''Database'', copy_ptr shallow), (''Name'', copy_ptr shallow),
      (''PartitionPredicate'', copy_ptr shallow), (''Table'', copy_ptr shallow)]"

definition DeepCopy_S3CatalogSource :: copier where
  "DeepCopy_S3CatalogSource = copy_ptr DeepCopyInto_S3CatalogSource"

lemma copies_S3CatalogSource:
  "copies type_S3CatalogSource DeepCopyInto_S3CatalogSource"
  unfolding type_S3CatalogSource_def DeepCopyInto_S3CatalogSource_def
  by (rule copy_struct_copies) (simp_all add: copy_rules copies_S3SourceAdditionalOptions)

definition DeepCopyInto_S3CatalogTarget :: copier where
  "DeepCopyInto_S3CatalogTarget = copy_struct
     [(''Database'', copy_ptr shallow), (''Inputs'', copy_slice (copy_ptr shallow)),
      (''Name'', copy_ptr shallow), (''PartitionKeys'', copy_slice (copy_slice (copy_ptr shallow))),
      (''SchemaChangePolicy'', copy_ptr DeepCopyInto_CatalogSchemaChangePolicy),
      (''Table'', copy_ptr shallow)]"

definition DeepCopy_S3CatalogTarget :: copier where
  "DeepCopy_S3CatalogTarget = copy_ptr DeepCopyInto_S3CatalogTarget"

lemma copies_S3CatalogTarget:
  "copies type_S3CatalogTarget DeepCopyInto_S3CatalogTarget"
  unfolding type_S3CatalogTarget_def DeepCopyInto_S3CatalogTarget_def
  by (rule copy_struct_copies) (simp_all add: copy_rules copies_CatalogSchemaChangePolicy)

definition DeepCopyInto_S3DirectSourceAdditionalOptions :: copier where
  "DeepCopyInto_S3DirectSourceAdditionalOptions = copy_struct
     [(''BoundedFiles'', copy_ptr shallow), (''BoundedSize'', copy_ptr shallow),
      (''EnableSamplePath'', copy_ptr shallow), (''SamplePath'', copy_ptr shallow)]"

definition DeepCopy_S3DirectSourceAdditionalOptions :: copier where
  "DeepCopy_S3DirectSourceAdditionalOptions = copy_ptr DeepCopyInto_S3DirectSourceAdditionalOptions"

lemma copies_S3DirectSourceAdditionalOptions:
  "copies type_S3DirectSourceAdditionalOptions DeepCopyInto_S3DirectSourceAdditionalOptions"
  unfolding type_S3DirectSourceAdditionalOptions_def DeepCopyInto_S3DirectSourceAdditionalOptions_def
  by (rule copy_struct_copies) (simp_all add: copy_rules)

definition DeepCopyInto_S3CsvSource :: copier where
  "DeepCopyInto_S3CsvSource = copy_struct
     [(''AdditionalOptions'', copy_ptr DeepCopyInto_S3DirectSourceAdditionalOptions),
      (''CompressionType'', copy_ptr shallow), (''Escaper'', copy_ptr shallow),
      (''Exclusions'', copy_slice (copy_ptr shallow)), (''GroupFiles'', copy_ptr shallow),
      (''GroupSize'', copy_ptr shallow), (''MaxBand'', copy_ptr shallow),
      (''MaxFilesInBand'', copy_ptr shallow), (''Multiline'', copy_ptr shallow),
      (''Name'', copy_ptr shallow), (''OptimizePerformance'', copy_ptr shallow),
      (''OutputSchemas'', copy_slice (copy_ptr DeepCopyInto_GlueSchema)),
      (''Paths'', copy_slice (copy_ptr shallow)), (''QuoteChar'', copy_ptr shallow),
      (''Recurse'', copy_ptr shallow), (''Separator'', copy_ptr shallow),
      (''SkipFirst'', copy_ptr shallow), (''WithHeader'', copy_ptr shallow),
      (''WriteHeader'', copy_ptr shallow)]"

definition DeepCopy_S3CsvSource :: copier where
  "DeepCopy_S3CsvSource = copy_ptr DeepCopyInto_S3CsvSource"

lemma copies_S3CsvSource:
  "copies type_S3CsvSource DeepCopyInto_S3CsvSource"
  unfolding type_S3CsvSource_def DeepCopyInto_S3CsvSource_def
  by (rule copy_struct_copies) (simp_all add: copy_rules copies_S3DirectSourceAdditionalOptions copies_GlueSchema)

definition DeepCopyInto_S3DeltaCatalogTarget :: "map_order \<Rightarrow> copier" where
  "DeepCopyInto_S3DeltaCatalogTarget ord = copy_struct
     [(''AdditionalOptions'', copy_map ord (copy_ptr shallow)), (''Database'', copy_ptr shallow),
      (''Inputs'', copy_slice (copy_ptr shallow)), (''Name'', copy_ptr shallow),
      (''PartitionKeys'', copy_slice (copy_slice (copy_ptr shallow))),
      (''SchemaChangePolicy'', copy_ptr DeepCopyInto_CatalogSchemaChangePolicy),
      (''Table'', copy_ptr shallow)]"

definition DeepCopy_S3DeltaCatalogTarget :: "map_order \<Rightarrow> copier" where
  "DeepCopy_S3DeltaCatalogTarget ord = copy_ptr (DeepCopyInto_S3DeltaCatalogTarget ord)"

lemma copies_S3DeltaCatalogTarget:
  "copies type_S3DeltaCatalogTarget (DeepCopyInto_S3DeltaCatalogTarget ord)"
  unfolding type_S3DeltaCatalogTarget_def DeepCopyInto_S3DeltaCatalogTarget_def
  by (rule copy_struct_copies) (simp_all add: copy_rules copies_CatalogSchemaChangePolicy)

definition DeepCopyInto_DirectSchemaChangePolicy :: copier where
  "DeepCopyInto_DirectSchemaChangePolicy = copy_struct
     [(''Database'', copy_ptr shallow), (''EnableUpdateCatalog'', copy_ptr shallow),
      (''Table'', copy_ptr shallow), (''UpdateBehavior'', copy_ptr shallow)]"

definition DeepCopy_DirectSchemaChangePolicy :: copier where
  "DeepCopy_DirectSchemaChangePolicy = copy_ptr DeepCopyInto_DirectSchemaChangePolicy"

lemma copies_DirectSchemaChangePolicy:
  "copies type_DirectSchemaChangePolicy DeepCopyInto_DirectSchemaChangePolicy"
  unfolding type_DirectSchemaChangePolicy_def DeepCopyInto_DirectSchemaChangePolicy_def
  by (rule copy_struct_copies) (simp_all add: copy_rules)

definition DeepCopyInto_S3DeltaDirectTarget :: "map_order \<Rightarrow> copier" where
  "DeepCopyInto_S3DeltaDirectTarget ord = copy_struct
     [(''AdditionalOptions'', copy_map ord (copy_ptr shallow)), (''Compression'', copy_ptr shallow),
      (''Format'', copy_ptr shallow), (''Inputs'', copy_slice (copy_ptr shallow)),
      (''Name'', copy_ptr shallow), (''PartitionKeys'', copy_slice (copy_slice (copy_ptr shallow))),
      (''Path'', copy_ptr shallow),
      (''SchemaChangePolicy'', copy_ptr DeepCopyInto_DirectSchemaChangePolicy)]"

definition DeepCopy_S3DeltaDirectTarget :: "map_order \<Rightarrow> copier" where
  "DeepCopy_S3DeltaDirectTarget ord = copy_ptr (DeepCopyInto_S3DeltaDirectTarget ord)"

lemma copies_S3DeltaDirectTarget:
  "copies type_S3DeltaDirectTarget (DeepCopyInto_S3DeltaDirectTarget ord)"
  unfolding type_S3DeltaDirectTarget_def DeepCopyInto_S3DeltaDirectTarget_def
  by (rule copy_struct_copies) (simp_all add: copy_rules copies_DirectSchemaChangePolicy)

definition DeepCopyInto_S3DeltaSource :: "map_order \<Rightarrow> copier" where
  "DeepCopyInto_S3DeltaSource ord = copy_struct
     [(''AdditionalDeltaOptions'', copy_map ord (copy_ptr shallow)),
      (''AdditionalOptions'', copy_ptr DeepCopyInto_S3DirectSourceAdditionalOptions),
      (''Name'', copy_ptr shallow), (''OutputSchemas'', copy_slice (copy_ptr DeepCopyInto_GlueSchema)),
      (''Paths'', copy_slice (copy_ptr shallow))]"

definition DeepCopy_S3DeltaSource :: "map_order \<Rightarrow> copier" where
  "DeepCopy_S3DeltaSource ord = copy_ptr (DeepCopyInto_S3DeltaSource ord)"

lemma copies_S3DeltaSource:
  "copies type_S3DeltaSource (DeepCopyInto_S3DeltaSource ord)"
  unfolding type_S3DeltaSource_def DeepCopyInto_S3DeltaSource_def
  by (rule copy_struct_copies) (simp_all add: copy_rules copies_S3DirectSourceAdditionalOptions copies_GlueSchema)

definition DeepCopyInto_S3DirectTarget :: copier where
  "DeepCopyInto_S3DirectTarget = copy_struct
     [(''Compression'', copy_ptr shallow), (''Format'', copy_ptr shallow),
      (''Inputs'', copy_slice (copy_ptr shallow)), (''Name'', copy_ptr shallow),
      (''PartitionKeys'', copy_slice (copy_slice (copy_ptr shallow))), (''Path'', copy_ptr shallow),
      (''SchemaChangePolicy'', copy_ptr DeepCopyInto_DirectSchemaChangePolicy)]"

definition DeepCopy_S3DirectTarget :: copier where
  "DeepCopy_S3DirectTarget = copy_ptr DeepCopyInto_S3DirectTarget"

lemma copies_S3DirectTarget:
  "copies type_S3DirectTarget DeepCopyInto_S3DirectTarget"
  unfolding type_S3DirectTarget_def DeepCopyInto_S3DirectTarget_def
  by (rule copy_struct_copies) (simp_all add: copy_rules copies_DirectSchemaChangePolicy)

definition DeepCopyInto_S3GlueParquetTarget :: copier where
  "DeepCopyInto_S3GlueParquetTarget = copy_struct
     [(''Compression'', copy_ptr shallow), (''Inputs'', copy_slice (copy_ptr shallow)),
      (''Name'', copy_ptr shallow), (''PartitionKeys'', copy_slice (copy_slice (copy_ptr shallow))),
      (''Path'', copy_ptr shallow),
      (''SchemaChangePolicy'', copy_ptr DeepCopyInto_DirectSchemaChangePolicy)]"

definition DeepCopy_S3GlueParquetTarget :: copier where
  "DeepCopy_S3GlueParquetTarget = copy_ptr DeepCopyInto_S3GlueParquetTarget"

lemma copies_S3GlueParquetTarget:
  "copies type_S3GlueParquetTarget DeepCopyInto_S3GlueParquetTarget"
  unfolding type_S3GlueParquetTarget_def DeepCopyInto_S3GlueParquetTarget_def
  by (rule copy_struct_copies) (simp_all add: copy_rules copies_DirectSchemaChangePolicy)

definition DeepCopyInto_S3HudiCatalogTarget :: "map_order \<Rightarrow> copier" where
  "DeepCopyInto_S3HudiCatalogTarget ord = copy_struct
     [(''AdditionalOptions'', copy_map ord (copy_ptr shallow)), (''Database'', copy_ptr shallow),
      (''Inputs'', copy_slice (copy_ptr shallow)), (''Name'', copy_ptr shallow),
      (''PartitionKeys'', copy_slice (copy_slice (copy_ptr shallow))),
      (''SchemaChangePolicy'', copy_ptr DeepCopyInto_CatalogSchemaChangePolicy),
      (''Table'', copy_ptr shallow)]"

definition DeepCopy_S3HudiCatalogTarget :: "map_order \<Rightarrow> copier" where
  "DeepCopy_S3HudiCatalogTarget ord = copy_ptr (DeepCopyInto_S3HudiCatalogTarget ord)"

lemma copies_S3HudiCatalogTarget:
  "copies type_S3HudiCatalogTarget (DeepCopyInto_S3HudiCatalogTarget ord)"
  unfolding type_S3HudiCatalogTarget_def DeepCopyInto_S3HudiCatalogTarget_def
  by (rule copy_struct_copies) (simp_all add: copy_rules copies_CatalogSchemaChangePolicy)

definition DeepCopyInto_S3HudiDirectTarget :: "map_order \<Rightarrow> copier" where
  "DeepCopyInto_S3HudiDirectTarget ord = copy_struct
     [(''AdditionalOptions'', copy_map ord (copy_ptr shallow)), (''Compression'', copy_ptr shallow),
      (''Format'', copy_ptr shallow), (''Inputs'', copy_slice (copy_ptr shallow)),
      (''Name'', copy_ptr shallow), (''PartitionKeys'', copy_slice (copy_slice (copy_ptr shallow))),
      (''Path'', copy_ptr shallow),
      (''SchemaChangePolicy'', copy_ptr DeepCopyInto_DirectSchemaChangePolicy)]"

definition DeepCopy_S3HudiDirectTarget :: "map_order \<Rightarrow> copier" where
  "DeepCopy_S3HudiDirectTarget ord = copy_ptr (DeepCopyInto_S3HudiDirectTarget ord)"

lemma copies_S3HudiDirectTarget:
  "copies type_S3HudiDirectTarget (DeepCopyInto_S3HudiDirectTarget ord)"
  unfolding type_S3HudiDirectTarget_def DeepCopyInto_S3HudiDirectTarget_def
  by (rule copy_struct_copies) (simp_all add: copy_rules copies_DirectSchemaChangePolicy)

definition DeepCopyInto_S3HudiSource :: "map_order \<Rightarrow> copier" where
  "DeepCopyInto_S3HudiSource ord = copy_struct
     [(''AdditionalHudiOptions'', copy_map ord (copy_ptr shallow)),
      (''AdditionalOptions'', copy_ptr DeepCopyInto_S3DirectSourceAdditionalOptions),
      (''Name'', copy_ptr shallow), (''OutputSchemas'', copy_slice (copy_ptr DeepCopyInto_GlueSchema)),
      (''Paths'', copy_slice (copy_ptr shallow))]"

definition DeepCopy_S3HudiSource :: "map_order \<Rightarrow> copier" where
  "DeepCopy_S3HudiSource ord = copy_ptr (DeepCopyInto_S3HudiSource ord)"

lemma copies_S3HudiSource:
  "copies type_S3HudiSource (DeepCopyInto_S3HudiSource ord)"
  unfolding type_S3HudiSource_def DeepCopyInto_S3HudiSource_def
  by (rule copy_struct_copies) (simp_all add: copy_rules copies_S3DirectSourceAdditionalOptions copies_GlueSchema)

definition DeepCopyInto_S3JSONSource :: copier where
  "DeepCopyInto_S3JSONSource = copy_struct
     [(''AdditionalOptions'', copy_ptr DeepCopyInto_S3DirectSourceAdditionalOptions),
      (''CompressionType'', copy_ptr shallow), (''Exclusions'', copy_slice (copy_ptr shallow)),
      (''GroupFiles'', copy_ptr shallow), (''GroupSize'', copy_ptr shallow),
      (''JSONPath'', copy_ptr shallow), (''MaxBand'', copy_ptr shallow),
      (''MaxFilesInBand'', copy_ptr shallow), (''Multiline'', copy_ptr shallow),
      (''Name'', copy_ptr shallow), (''OutputSchemas'', copy_slice (copy_ptr DeepCopyInto_GlueSchema)),
      (''Paths'', copy_slice (copy_ptr shallow)), (''Recurse'', copy_ptr shallow)]"

definition DeepCopy_S3JSONSource :: copier where
  "DeepCopy_S3JSONSource = copy_ptr DeepCopyInto_S3JSONSource"

lemma copies_S3JSONSource:
  "copies type_S3JSONSource DeepCopyInto_S3JSONSource"
  unfolding type_S3JSONSource_def DeepCopyInto_S3JSONSource_def
  by (rule copy_struct_copies) (simp_all add: copy_rules copies_S3DirectSourceAdditionalOptions copies_GlueSchema)

definition DeepCopyInto_S3ParquetSource :: copier where
  "DeepCopyInto_S3ParquetSource = copy_struct
     [(''AdditionalOptions'', copy_ptr DeepCopyInto_S3DirectSourceAdditionalOptions),
      (''CompressionType'', copy_ptr shallow), (''Exclusions'', copy_slice (copy_ptr shallow)),
      (''GroupFiles'', copy_ptr shallow), (''GroupSize'', copy_ptr shallow),
      (''MaxBand'', copy_ptr shallow), (''MaxFilesInBand'', copy_ptr shallow),
      (''Name'', copy_ptr shallow), (''OutputSchemas'', copy_slice (copy_ptr DeepCopyInto_GlueSchema)),
      (''Paths'', copy_slice (copy_ptr shallow)), (''Recurse'', copy_ptr shallow)]"

definition DeepCopy_S3ParquetSource :: copier where
  "DeepCopy_S3ParquetSource = copy_ptr DeepCopyInto_S3ParquetSource"

lemma copies_S3ParquetSource:
  "copies type_S3ParquetSource DeepCopyInto_S3ParquetSource"
  unfolding type_S3ParquetSource_def DeepCopyInto_S3ParquetSource_def
  by (rule copy_struct_copies) (simp_all add: copy_rules copies_S3DirectSourceAdditionalOptions copies_GlueSchema)

definition DeepCopyInto_SelectFields :: copier where
  "DeepCopyInto_SelectFields = copy_struct
     [(''Inputs'', copy_slice (copy_ptr shallow)), (''Name'', copy_ptr shallow),
      (''Paths'', copy_slice (copy_slice (copy_ptr shallow)))]"

definition DeepCopy_SelectFields :: copier where
  "DeepCopy_SelectFields = copy_ptr DeepCopyInto_SelectFields"

lemma copies_SelectFields:
  "copies type_SelectFields DeepCopyInto_SelectFields"
  unfolding type_SelectFields_def DeepCopyInto_SelectFields_def
  by (rule copy_struct_copies) (simp_all add: copy_rules)

definition DeepCopyInto_SelectFromCollection :: copier where
  "DeepCopyInto_SelectFromCollection = copy_struct
     [(''Index'', copy_ptr shallow), (''Inputs'', copy_slice (copy_ptr shallow)),
      (''Name'', copy_ptr shallow)]"

definition DeepCopy_SelectFromCollection :: copier where
  "DeepCopy_SelectFromCollection = copy_ptr DeepCopyInto_SelectFromCollection"

lemma copies_SelectFromCollection:
  "copies type_SelectFromCollection DeepCopyInto_SelectFromCollection"
  unfolding type_SelectFromCollection_def DeepCopyInto_SelectFromCollection_def
  by (rule copy_struct_copies) (simp_all add: copy_rules)

definition DeepCopyInto_SnowflakeNodeData :: "map_order \<Rightarrow> copier" where
  "DeepCopyInto_SnowflakeNodeData ord = copy_struct
     [(''Action'', copy_ptr shallow), (''AdditionalOptions'', copy_map ord (copy_ptr shallow)),
      (''AutoPushdown'', copy_ptr shallow), (''Connection'', copy_ptr DeepCopyInto_Option),
      (''Database'', copy_ptr shallow), (''IAMRole'', copy_ptr DeepCopyInto_Option),
      (''MergeAction'', copy_ptr shallow), (''MergeClause'', copy_ptr shallow),
      (''MergeWhenMatched'', copy_ptr shallow), (''MergeWhenNotMatched'', copy_ptr shallow),
      (''PostAction'', copy_ptr shallow), (''PreAction'', copy_ptr shallow),
      (''SampleQuery'', copy_ptr shallow), (''Schema'', copy_ptr shallow),
      (''SelectedColumns'', copy_slice (copy_ptr DeepCopyInto_Option)),
      (''SourceType'', copy_ptr shallow), (''StagingTable'', copy_ptr shallow),
      (''Table'', copy_ptr shallow), (''TableSchema'', copy_slice (copy_ptr DeepCopyInto_Option)),
      (''TempDir'', copy_ptr shallow), (''Upsert'', copy_ptr shallow)]"

definition DeepCopy_SnowflakeNodeData :: "map_order \<Rightarrow> copier" where
  "DeepCopy_SnowflakeNodeData ord = copy_ptr (DeepCopyInto_SnowflakeNodeData ord)"

lemma copies_SnowflakeNodeData:
  "copies type_SnowflakeNodeData (DeepCopyInto_SnowflakeNodeData ord)"
  unfolding type_SnowflakeNodeData_def DeepCopyInto_SnowflakeNodeData_def
  by (rule copy_struct_copies) (simp_all add: copy_rules copies_Option)

definition DeepCopyInto_SnowflakeSource :: "map_order \<Rightarrow> copier" where
  "DeepCopyInto_SnowflakeSource ord = copy_struct
     [(''Data'', copy_ptr (DeepCopyInto_SnowflakeNodeData ord)), (''Name'', copy_ptr shallow),
      (''OutputSchemas'', copy_slice (copy_ptr DeepCopyInto_GlueSchema))]"

definition DeepCopy_SnowflakeSource :: "map_order \<Rightarrow> copier" where
  "DeepCopy_SnowflakeSource ord = copy_ptr (DeepCopyInto_SnowflakeSource ord)"

lemma copies_SnowflakeSource:
  "copies type_SnowflakeSource (DeepCopyInto_SnowflakeSource ord)"
  unfolding type_SnowflakeSource_def DeepCopyInto_SnowflakeSource_def
  by (rule copy_struct_copies) (simp_all add: copy_rules copies_SnowflakeNodeData copies_GlueSchema)

definition DeepCopyInto_SnowflakeTarget :: "map_order \<Rightarrow> copier" where
  "DeepCopyInto_SnowflakeTarget ord = copy_struct
     [(''Data'', copy_ptr (DeepCopyInto_SnowflakeNodeData ord)),
      (''Inputs'', copy_slice (copy_ptr shallow)), (''Name'', copy_ptr shallow)]"

definition DeepCopy_SnowflakeTarget :: "map_order \<Rightarrow> copier" where
  "DeepCopy_SnowflakeTarget ord = copy_ptr (DeepCopyInto_SnowflakeTarget ord)"

lemma copies_SnowflakeTarget:
  "copies type_SnowflakeTarget (DeepCopyInto_SnowflakeTarget ord)"
  unfolding type_SnowflakeTarget_def DeepCopyInto_SnowflakeTarget_def
  by (rule copy_struct_copies) (simp_all add: copy_rules copies_SnowflakeNodeData)

definition DeepCopyInto_SparkConnectorSource :: "map_order \<Rightarrow> copier" where
  "DeepCopyInto_SparkConnectorSource ord = copy_struct
     [(''AdditionalOptions'', copy_map ord (copy_ptr shallow)), (''ConnectionName'', copy_ptr shallow),
      (''ConnectionType'', copy_ptr shallow), (''ConnectorName'', copy_ptr shallow),
      (''Name'', copy_ptr shallow), (''OutputSchemas'', copy_slice (copy_ptr DeepCopyInto_GlueSchema))]"

definition DeepCopy_SparkConnectorSource :: "map_order \<Rightarrow> copier" where
  "DeepCopy_SparkConnectorSource ord = copy_ptr (DeepCopyInto_SparkConnectorSource ord)"

lemma copies_SparkConnectorSource:
  "copies type_SparkConnectorSource (DeepCopyInto_SparkConnectorSource ord)"
  unfolding type_SparkConnectorSource_def DeepCopyInto_SparkConnectorSource_def
  by (rule copy_struct_copies) (simp_all add: copy_rules copies_GlueSchema)

definition DeepCopyInto_SparkConnectorTarget :: "map_order \<Rightarrow> copier" where
  "DeepCopyInto_SparkConnectorTarget ord = copy_struct
     [(''AdditionalOptions'', copy_map ord (copy_ptr shallow)), (''ConnectionName'', copy_ptr shallow),
      (''ConnectionType'', copy_ptr shallow), (''ConnectorName'', copy_ptr shallow),
      (''Inputs'', copy_slice (copy_ptr shallow)), (''Name'', copy_ptr shallow),
      (''OutputSchemas'', copy_slice (copy_ptr DeepCopyInto_GlueSchema))]"

definition DeepCopy_SparkConnectorTarget :: "map_order \<Rightarrow> copier" where
  "DeepCopy_SparkConnectorTarget ord = copy_ptr (DeepCopyInto_SparkConnectorTarget ord)"

lemma copies_SparkConnectorTarget:
  "copies type_SparkConnectorTarget (DeepCopyInto_SparkConnectorTarget ord)"
  unfolding type_SparkConnectorTarget_def DeepCopyInto_SparkConnectorTarget_def
  by (rule copy_struct_copies) (simp_all add: copy_rules copies_GlueSchema)

definition DeepCopyInto_SQLAlias :: copier where
  "DeepCopyInto_SQLAlias = copy_struct
     [(''Alias'', copy_ptr shallow), (''From'', copy_ptr shallow)]"

definition DeepCopy_SQLAlias :: copier where
  "DeepCopy_SQLAlias = copy_ptr DeepCopyInto_SQLAlias"

lemma copies_SQLAlias:
  "copies type_SQLAlias DeepCopyInto_SQLAlias"
  unfolding type_SQLAlias_def DeepCopyInto_SQLAlias_def
  by (rule copy_struct_copies) (simp_all add: copy_rules)

definition DeepCopyInto_SparkSQL :: copier where
  "DeepCopyInto_SparkSQL = copy_struct
     [(''Inputs'', copy_slice (copy_ptr shallow)), (''Name'', copy_ptr shallow),
      (''OutputSchemas'', copy_slice (copy_ptr DeepCopyInto_GlueSchema)),
      (''SQLAliases'', copy_slice (copy_ptr DeepCopyInto_SQLAlias)), (''SQLQuery'', copy_ptr shallow)]"

definition DeepCopy_SparkSQL :: copier where
  "DeepCopy_SparkSQL = copy_ptr DeepCopyInto_SparkSQL"

lemma copies_SparkSQL:
  "copies type_SparkSQL DeepCopyInto_SparkSQL"
  unfolding type_SparkSQL_def DeepCopyInto_SparkSQL_def
  by (rule copy_struct_copies) (simp_all add: copy_rules copies_GlueSchema copies_SQLAlias)

definition DeepCopyInto_Spigot :: copier where
  "DeepCopyInto_Spigot = copy_struct
     [(''Inputs'', copy_slice (copy_ptr shallow)), (''Name'', copy_ptr shallow),
      (''Path'', copy_ptr shallow), (''Prob'', copy_ptr shallow), (''Topk'', copy_ptr shallow)]"

definition DeepCopy_Spigot :: copier where
  "DeepCopy_Spigot = copy_ptr DeepCopyInto_Spigot"

lemma copies_Spigot:
  "copies type_Spigot DeepCopyInto_Spigot"
  unfolding type_Spigot_def DeepCopyInto_Spigot_def
  by (rule copy_struct_copies) (simp_all add: copy_rules)

definition DeepCopyInto_SplitFields :: copier where
  "DeepCopyInto_SplitFields = copy_struct
     [(''Inputs'', copy_slice (copy_ptr shallow)), (''Name'', copy_ptr shallow),
      (''Paths'', copy_slice (copy_slice (copy_ptr shallow)))]"

definition DeepCopy_SplitFields :: copier where
  "DeepCopy_SplitFields = copy_ptr DeepCopyInto_SplitFields"

lemma copies_SplitFields:
  "copies type_SplitFields DeepCopyInto_SplitFields"
  unfolding type_SplitFields_def DeepCopyInto_SplitFields_def
  by (rule copy_struct_copies) (simp_all add: copy_rules)

definition DeepCopyInto_Union :: copier where
  "DeepCopyInto_Union = copy_struct
     [(''Inputs'', copy_slice (copy_ptr shallow)), (''Name'', copy_ptr shallow),
      (''UnionType'', copy_ptr shallow)]"

definition DeepCopy_Union :: copier where
  "DeepCopy_Union = copy_ptr DeepCopyInto_Union"

lemma copies_Union:
  "copies type_Union DeepCopyInto_Union"
  unfolding type_Union_def DeepCopyInto_Union_def
  by (rule copy_struct_copies) (simp_all add: copy_rules)

definition DeepCopyInto_CodeGenConfigurationNode :: "api_library \<Rightarrow> map_order \<Rightarrow> copier" where
  "DeepCopyInto_CodeGenConfigurationNode x ord = copy_struct
     [(''Aggregate'', copy_ptr DeepCopyInto_Aggregate),
      (''AmazonRedshiftSource'', copy_ptr DeepCopyInto_AmazonRedshiftSource),
      (''AmazonRedshiftTarget'', copy_ptr DeepCopyInto_AmazonRedshiftTarget),
      (''ApplyMapping'', copy_ptr DeepCopyInto_ApplyMapping),
      (''AthenaConnectorSource'', copy_ptr DeepCopyInto_AthenaConnectorSource),
      (''CatalogDeltaSource'', copy_ptr (DeepCopyInto_CatalogDeltaSource ord)),
      (''CatalogHudiSource'', copy_ptr (DeepCopyInto_CatalogHudiSource ord)),
      (''CatalogKafkaSource'', copy_ptr (DeepCopyInto_CatalogKafkaSource x)),
      (''CatalogKinesisSource'', copy_ptr (DeepCopyInto_CatalogKinesisSource x)),
      (''CatalogSource'', copy_ptr DeepCopyInto_CatalogSource),
      (''CatalogTarget'', copy_ptr DeepCopyInto_BasicCatalogTarget),
      (''ConnectorDataSource'', copy_ptr (DeepCopyInto_ConnectorDataSource ord)),
      (''ConnectorDataTarget'', copy_ptr (DeepCopyInto_ConnectorDataTarget ord)),
      (''CustomCode'', copy_ptr DeepCopyInto_CustomCode),
      (''DirectJDBCSource'', copy_ptr DeepCopyInto_DirectJDBCSource),
      (''DirectKafkaSource'', copy_ptr (DeepCopyInto_DirectKafkaSource x)),
      (''DirectKinesisSource'', copy_ptr (DeepCopyInto_DirectKinesisSource x)),
      (''DropDuplicates'', copy_ptr DeepCopyInto_DropDuplicates),
      (''DropFields'', copy_ptr DeepCopyInto_DropFields),
      (''DropNullFields'', copy_ptr DeepCopyInto_DropNullFields),
      (''DynamicTransform'', copy_ptr DeepCopyInto_DynamicTransform),
      (''DynamoDBCatalogSource'', copy_ptr DeepCopyInto_DynamoDBCatalogSource),
      (''EvaluateDataQuality'', copy_ptr DeepCopyInto_EvaluateDataQuality),
      (''EvaluateDataQualityMultiFrame'', copy_ptr (DeepCopyInto_EvaluateDataQualityMultiFrame ord)),
      (''FillMissingValues'', copy_ptr DeepCopyInto_FillMissingValues),
      (''Filter'', copy_ptr DeepCopyInto_Filter),
      (''GovernedCatalogSource'', copy_ptr DeepCopyInto_GovernedCatalogSource),
      (''GovernedCatalogTarget'', copy_ptr DeepCopyInto_GovernedCatalogTarget),
      (''JDBCConnectorSource'', copy_ptr (DeepCopyInto_JDBCConnectorSource ord)),
      (''JDBCConnectorTarget'', copy_ptr (DeepCopyInto_JDBCConnectorTarget ord)),
      (''Join'', copy_ptr DeepCopyInto_Join), (''Merge'', copy_ptr DeepCopyInto_Merge),
      (''MicrosoftSQLServerCatalogSource'', copy_ptr DeepCopyInto_MicrosoftSQLServerCatalogSource),
      (''MicrosoftSQLServerCatalogTarget'', copy_ptr DeepCopyInto_MicrosoftSQLServerCatalogTarget),
      (''MySQLCatalogSource'', copy_ptr DeepCopyInto_MySQLCatalogSource),
      (''MySQLCatalogTarget'', copy_ptr DeepCopyInto_MySQLCatalogTarget),
      (''OracleSQLCatalogSource'', copy_ptr DeepCopyInto_OracleSQLCatalogSource),
      (''OracleSQLCatalogTarget'', copy_ptr DeepCopyInto_OracleSQLCatalogTarget),
      (''PIIDetection'', copy_ptr DeepCopyInto_PIIDetection),
      (''PostgreSQLCatalogSource'', copy_ptr DeepCopyInto_PostgreSQLCatalogSource),
      (''PostgreSQLCatalogTarget'', copy_ptr DeepCopyInto_PostgreSQLCatalogTarget),
      (''Recipe'', copy_ptr (DeepCopyInto_Recipe ord)),
      (''RedshiftSource'', copy_ptr DeepCopyInto_RedshiftSource),
      (''RedshiftTarget'', copy_ptr DeepCopyInto_RedshiftTarget),
      (''RelationalCatalogSource'', copy_ptr DeepCopyInto_RelationalCatalogSource),
      (''RenameField'', copy_ptr DeepCopyInto_RenameField),
      (''S3CatalogDeltaSource'', copy_ptr (DeepCopyInto_S3CatalogDeltaSource ord)),
      (''S3CatalogHudiSource'', copy_ptr (DeepCopyInto_S3CatalogHudiSource ord)),
      (''S3CatalogSource'', copy_ptr DeepCopyInto_S3CatalogSource),
      (''S3CatalogTarget'', copy_ptr DeepCopyInto_S3CatalogTarget),
      (''S3CsvSource'', copy_ptr DeepCopyInto_S3CsvSource),
      (''S3DeltaCatalogTarget'', copy_ptr (DeepCopyInto_S3DeltaCatalogTarget ord)),
      (''S3DeltaDirectTarget'', copy_ptr (DeepCopyInto_S3DeltaDirectTarget ord)),
      (''S3DeltaSource'', copy_ptr (DeepCopyInto_S3DeltaSource ord)),
      (''S3DirectTarget'', copy_ptr DeepCopyInto_S3DirectTarget),
      (''S3GlueParquetTarget'', copy_ptr DeepCopyInto_S3GlueParquetTarget),
      (''S3HudiCatalogTarget'', copy_ptr (DeepCopyInto_S3HudiCatalogTarget ord)),
      (''S3HudiDirectTarget'', copy_ptr (DeepCopyInto_S3HudiDirectTarget ord)),
      (''S3HudiSource'', copy_ptr (DeepCopyInto_S3HudiSource ord)),
      (''S3JSONSource'', copy_ptr DeepCopyInto_S3JSONSource),
      (''S3ParquetSource'', copy_ptr DeepCopyInto_S3ParquetSource),
      (''SelectFields'', copy_ptr DeepCopyInto_SelectFields),
      (''SelectFromCollection'', copy_ptr DeepCopyInto_SelectFromCollection),
      (''SnowflakeSource'', copy_ptr (DeepCopyInto_SnowflakeSource ord)),
      (''SnowflakeTarget'', copy_ptr (DeepCopyInto_SnowflakeTarget ord)),
      (''SparkConnectorSource'', copy_ptr (DeepCopyInto_SparkConnectorSource ord)),
      (''SparkConnectorTarget'', copy_ptr (DeepCopyInto_SparkConnectorTarget ord)),
      (''SparkSQL'', copy_ptr DeepCopyInto_SparkSQL), (''Spigot'', copy_ptr DeepCopyInto_Spigot),
      (''SplitFields'', copy_ptr DeepCopyInto_SplitFields), (''Union'', copy_ptr DeepCopyInto_Union)]"

definition DeepCopy_CodeGenConfigurationNode :: "api_library \<Rightarrow> map_order \<Rightarrow> copier" where
  "DeepCopy_CodeGenConfigurationNode x ord = copy_ptr (DeepCopyInto_CodeGenConfigurationNode x ord)"

lemma copies_CodeGenConfigurationNode:
  assumes "ext_laws x"
  shows
  "copies (type_CodeGenConfigurationNode x) (DeepCopyInto_CodeGenConfigurationNode x ord)"
  unfolding type_CodeGenConfigurationNode_def DeepCopyInto_CodeGenConfigurationNode_def
  by (rule copy_struct_copies) (simp_all add: copy_rules copies_Aggregate copies_AmazonRedshiftSource copies_AmazonRedshiftTarget copies_ApplyMapping copies_AthenaConnectorSource copies_CatalogDeltaSource copies_CatalogHudiSource copies_CatalogKafkaSource copies_CatalogKinesisSource copies_CatalogSource copies_BasicCatalogTarget copies_ConnectorDataSource copies_ConnectorDataTarget copies_CustomCode copies_DirectJDBCSource copies_DirectKafkaSource copies_DirectKinesisSource copies_DropDuplicates copies_DropFields copies_DropNullFields copies_DynamicTransform copies_DynamoDBCatalogSource copies_EvaluateDataQuality copies_EvaluateDataQualityMultiFrame copies_FillMissingValues copies_Filter copies_GovernedCatalogSource copies_GovernedCatalogTarget copies_JDBCConnectorSource copies_JDBCConnectorTarget copies_Join copies_Merge copies_MicrosoftSQLServerCatalogSource copies_MicrosoftSQLServerCatalogTarget copies_MySQLCatalogSource copies_MySQLCatalogTarget copies_OracleSQLCatalogSource copies_OracleSQLCatalogTarget copies_PIIDetection copies_PostgreSQLCatalogSource copies_PostgreSQLCatalogTarget copies_Recipe copies_RedshiftSource copies_RedshiftTarget copies_RelationalCatalogSource copies_RenameField copies_S3CatalogDeltaSource copies_S3CatalogHudiSource copies_S3CatalogSource copies_S3CatalogTarget copies_S3CsvSource copies_S3DeltaCatalogTarget copies_S3DeltaDirectTarget copies_S3DeltaSource copies_S3DirectTarget copies_S3GlueParquetTarget copies_S3HudiCatalogTarget copies_S3HudiDirectTarget copies_S3HudiSource copies_S3JSONSource copies_S3ParquetSource copies_SelectFields copies_SelectFromCollection copies_SnowflakeSource copies_SnowflakeTarget copies_SparkConnectorSource copies_SparkConnectorTarget copies_SparkSQL copies_Spigot copies_SplitFields copies_Union ext_lawsD [OF assms] assms)

definition DeepCopyInto_ColumnError :: copier where
  "DeepCopyInto_ColumnError = copy_struct
     [(''ColumnName'', copy_ptr shallow)]"

definition DeepCopy_ColumnError :: copier where
  "DeepCopy_ColumnError = copy_ptr DeepCopyInto_ColumnError"

lemma copies_ColumnError:
  "copies type_ColumnError DeepCopyInto_ColumnError"
  unfolding type_ColumnError_def DeepCopyInto_ColumnError_def
  by (rule copy_struct_copies) (simp_all add: copy_rules)

definition DeepCopyInto_ColumnImportance :: copier where
  "DeepCopyInto_ColumnImportance = copy_struct
     [(''ColumnName'', copy_ptr shallow)]"

definition DeepCopy_ColumnImportance :: copier where
  "DeepCopy_ColumnImportance = copy_ptr DeepCopyInto_ColumnImportance"

lemma copies_ColumnImportance:
  "copies type_ColumnImportance DeepCopyInto_ColumnImportance"
  unfolding type_ColumnImportance_def DeepCopyInto_ColumnImportance_def
  by (rule copy_struct_copies) (simp_all add: copy_rules)

definition DeepCopyInto_ColumnRowFilter :: copier where
  "DeepCopyInto_ColumnRowFilter = copy_struct
     [(''ColumnName'', copy_ptr shallow)]"

definition DeepCopy_ColumnRowFilter :: copier where
  "DeepCopy_ColumnRowFilter = copy_ptr DeepCopyInto_ColumnRowFilter"

lemma copies_ColumnRowFilter:
  "copies type_ColumnRowFilter DeepCopyInto_ColumnRowFilter"
  unfolding type_ColumnRowFilter_def DeepCopyInto_ColumnRowFilter_def
  by (rule copy_struct_copies) (simp_all add: copy_rules)

definition DeepCopyInto_ColumnStatistics :: "api_library \<Rightarrow> copier" where
  "DeepCopyInto_ColumnStatistics x = copy_struct
     [(''AnalyzedTime'', Time_DeepCopy x), (''ColumnName'', copy_ptr shallow)]"

definition DeepCopy_ColumnStatistics :: "api_library \<Rightarrow> copier" where
  "DeepCopy_ColumnStatistics x = copy_ptr (DeepCopyInto_ColumnStatistics x)"

lemma copies_ColumnStatistics:
  assumes "ext_laws x"
  shows
  "copies (type_ColumnStatistics x) (DeepCopyInto_ColumnStatistics x)"
  unfolding type_ColumnStatistics_def DeepCopyInto_ColumnStatistics_def
  by (rule copy_struct_copies) (simp_all add: copy_rules ext_lawsD [OF assms])

definition DeepCopyInto_ColumnStatisticsTaskRun :: "api_library \<Rightarrow> copier" where
  "DeepCopyInto_ColumnStatisticsTaskRun x = copy_struct
     [(''CatalogID'', copy_ptr shallow), (''CreationTime'', Time_DeepCopy x),
      (''EndTime'', Time_DeepCopy x), (''ErrorMessage'', copy_ptr shallow),
      (''LastUpdated'', Time_DeepCopy x), (''StartTime'', Time_DeepCopy x),
      (''WorkerType'', copy_ptr shallow)]"

definition DeepCopy_ColumnStatisticsTaskRun :: "api_library \<Rightarrow> copier" where
  "DeepCopy_ColumnStatisticsTaskRun x = copy_ptr (DeepCopyInto_ColumnStatisticsTaskRun x)"

lemma copies_ColumnStatisticsTaskRun:
  assumes "ext_laws x"
  shows
  "copies (type_ColumnStatisticsTaskRun x) (DeepCopyInto_ColumnStatisticsTaskRun x)"
  unfolding type_ColumnStatisticsTaskRun_def DeepCopyInto_ColumnStatisticsTaskRun_def
  by (rule copy_struct_copies) (simp_all add: copy_rules ext_lawsD [OF assms])

definition DeepCopyInto_ColumnStatisticsTaskSettings :: copier where
  "DeepCopyInto_ColumnStatisticsTaskSettings = copy_struct
     [(''CatalogID'', copy_ptr shallow)]"

definition DeepCopy_ColumnStatisticsTaskSettings :: copier where
  "DeepCopy_ColumnStatisticsTaskSettings = copy_ptr DeepCopyInto_ColumnStatisticsTaskSettings"

lemma copies_ColumnStatisticsTaskSettings:
  "copies type_ColumnStatisticsTaskSettings DeepCopyInto_ColumnStatisticsTaskSettings"
  unfolding type_ColumnStatisticsTaskSettings_def DeepCopyInto_ColumnStatisticsTaskSettings_def
  by (rule copy_struct_copies) (simp_all add: copy_rules)

definition DeepCopyInto_Condition :: copier where
  "DeepCopyInto_Condition = copy_struct
     [(''CrawlerName'', copy_ptr shallow), (''JobName'', copy_ptr shallow)]"

definition DeepCopy_Condition :: copier where
  "DeepCopy_Condition = copy_ptr DeepCopyInto_Condition"

lemma copies_Condition:
  "copies type_Condition DeepCopyInto_Condition"
  unfolding type_Condition_def DeepCopyInto_Condition_def
  by (rule copy_struct_copies) (simp_all add: copy_rules)

definition DeepCopyInto_Connection :: "api_library \<Rightarrow> copier" where
  "DeepCopyInto_Connection x = copy_struct
     [(''CreationTime'', Time_DeepCopy x), (''Description'', copy_ptr shallow),
      (''LastConnectionValidationTime'', Time_DeepCopy x), (''LastUpdatedBy'', copy_ptr shallow),
      (''LastUpdatedTime'', Time_DeepCopy x), (''Name'', copy_ptr shallow)]"

definition DeepCopy_Connection :: "api_library \<Rightarrow> copier" where
  "DeepCopy_Connection x = copy_ptr (DeepCopyInto_Connection x)"

lemma copies_Connection:
  assumes "ext_laws x"
  shows
  "copies (type_Connection x) (DeepCopyInto_Connection x)"
  unfolding type_Connection_def DeepCopyInto_Connection_def
  by (rule copy_struct_copies) (simp_all add: copy_rules ext_lawsD [OF assms])

definition DeepCopyInto_ConnectionInput :: copier where
  "DeepCopyInto_ConnectionInput = copy_struct
     [(''Description'', copy_ptr shallow), (''Name'', copy_ptr shallow)]"

definition DeepCopy_ConnectionInput :: copier where
  "DeepCopy_ConnectionInput = copy_ptr DeepCopyInto_ConnectionInput"

lemma copies_ConnectionInput:
  "copies type_ConnectionInput DeepCopyInto_ConnectionInput"
  unfolding type_ConnectionInput_def DeepCopyInto_ConnectionInput_def
  by (rule copy_struct_copies) (simp_all add: copy_rules)

definition DeepCopyInto_ConnectionPasswordEncryption :: copier where
  "DeepCopyInto_ConnectionPasswordEncryption = copy_struct
     [(''AWSKMSKeyID'', copy_ptr shallow)]"

definition DeepCopy_ConnectionPasswordEncryption :: copier where
  "DeepCopy_ConnectionPasswordEncryption = copy_ptr DeepCopyInto_ConnectionPasswordEncryption"

lemma copies_ConnectionPasswordEncryption:
  "copies type_ConnectionPasswordEncryption DeepCopyInto_ConnectionPasswordEncryption"
  unfolding type_ConnectionPasswordEncryption_def DeepCopyInto_ConnectionPasswordEncryption_def
  by (rule copy_struct_copies) (simp_all add: copy_rules)

definition DeepCopyInto_ConnectionsList :: copier where
  "DeepCopyInto_ConnectionsList = copy_struct
     [(''Connections'', copy_slice (copy_ptr shallow))]"

definition DeepCopy_ConnectionsList :: copier where
  "DeepCopy_ConnectionsList = copy_ptr DeepCopyInto_ConnectionsList"

lemma copies_ConnectionsList:
  "copies type_ConnectionsList DeepCopyInto_ConnectionsList"
  unfolding type_ConnectionsList_def DeepCopyInto_ConnectionsList_def
  by (rule copy_struct_copies) (simp_all add: copy_rules)

definition DeepCopyInto_Crawl :: "api_library \<Rightarrow> copier" where
  "DeepCopyInto_Crawl x = copy_struct
     [(''CompletedOn'', Time_DeepCopy x), (''ErrorMessage'', copy_ptr shallow),
      (''StartedOn'', Time_DeepCopy x)]"

definition DeepCopy_Crawl :: "api_library \<Rightarrow> copier" where
  "DeepCopy_Crawl x = copy_ptr (DeepCopyInto_Crawl x)"

lemma copies_Crawl:
  assumes "ext_laws x"
  shows
  "copies (type_Crawl x) (DeepCopyInto_Crawl x)"
  unfolding type_Crawl_def DeepCopyInto_Crawl_def
  by (rule copy_struct_copies) (simp_all add: copy_rules ext_lawsD [OF assms])

definition DeepCopyInto_Crawler :: "api_library \<Rightarrow> copier" where
  "DeepCopyInto_Crawler x = copy_struct
     [(''CreationTime'', Time_DeepCopy x), (''Description'', copy_ptr shallow),
      (''LastUpdated'', Time_DeepCopy x), (''Name'', copy_ptr shallow)]"

definition DeepCopy_Crawler :: "api_library \<Rightarrow> copier" where
  "DeepCopy_Crawler x = copy_ptr (DeepCopyInto_Crawler x)"

lemma copies_Crawler:
  assumes "ext_laws x"
  shows
  "copies (type_Crawler x) (DeepCopyInto_Crawler x)"
  unfolding type_Crawler_def DeepCopyInto_Crawler_def
  by (rule copy_struct_copies) (simp_all add: copy_rules ext_lawsD [OF assms])

end
