(* ===== verification/Api_Copy_3.thy ===== *)
theory Api_Copy_3
  imports Api_Copy_2
begin

text \<open>
  Deep copies of apis/v1alpha1/zz_generated.deepcopy.go, part 3 of 4, in order of use
  (CrawlerHistory to Node): each DeepCopyInto with the statements of its body, each
  DeepCopy on a pointer, and the lemma that the listed fields are all the fields that need copying.
\<close>

definition DeepCopyInto_CrawlerHistory :: "api_library \<Rightarrow> copier" where
  "DeepCopyInto_CrawlerHistory x = copy_struct
     [(''EndTime'', Time_DeepCopy x), (''ErrorMessage'', copy_ptr shallow),
      (''StartTime'', Time_DeepCopy x), (''Summary'', copy_ptr shallow)]"

definition DeepCopy_CrawlerHistory :: "api_library \<Rightarrow> copier" where
  "DeepCopy_CrawlerHistory x = copy_ptr (DeepCopyInto_CrawlerHistory x)"

lemma copies_CrawlerHistory:
  assumes "ext_laws x"
  shows
  "copies (type_CrawlerHistory x) (DeepCopyInto_CrawlerHistory x)"
  unfolding type_CrawlerHistory_def DeepCopyInto_CrawlerHistory_def
  by (rule copy_struct_copies) (simp_all add: copy_rules ext_lawsD [OF assms])

definition DeepCopyInto_CrawlerMetrics :: copier where
  "DeepCopyInto_CrawlerMetrics = copy_struct
     [(''CrawlerName'', copy_ptr shallow)]"

definition DeepCopy_CrawlerMetrics :: copier where
  "DeepCopy_CrawlerMetrics = copy_ptr DeepCopyInto_CrawlerMetrics"

lemma copies_CrawlerMetrics:
  "copies type_CrawlerMetrics DeepCopyInto_CrawlerMetrics"
  unfolding type_CrawlerMetrics_def DeepCopyInto_CrawlerMetrics_def
  by (rule copy_struct_copies) (simp_all add: copy_rules)

definition DeepCopyInto_CrawlsFilter :: copier where
  "DeepCopyInto_CrawlsFilter = copy_struct
     [(''FieldValue'', copy_ptr shallow)]"

definition DeepCopy_CrawlsFilter :: copier where
  "DeepCopy_CrawlsFilter = copy_ptr DeepCopyInto_CrawlsFilter"

lemma copies_CrawlsFilter:
  "copies type_CrawlsFilter DeepCopyInto_CrawlsFilter"
  unfolding type_CrawlsFilter_def DeepCopyInto_CrawlsFilter_def
  by (rule copy_struct_copies) (simp_all add: copy_rules)

definition DeepCopyInto_CreateCsvClassifierRequest :: copier where
  "DeepCopyInto_CreateCsvClassifierRequest = copy_struct
     [(''AllowSingleColumn'', copy_ptr shallow), (''CustomDatatypeConfigured'', copy_ptr shallow),
      (''DisableValueTrimming'', copy_ptr shallow), (''Name'', copy_ptr shallow)]"

definition DeepCopy_CreateCsvClassifierRequest :: copier where
  "DeepCopy_CreateCsvClassifierRequest = copy_ptr DeepCopyInto_CreateCsvClassifierRequest"

lemma copies_CreateCsvClassifierRequest:
  "copies type_CreateCsvClassifierRequest DeepCopyInto_CreateCsvClassifierRequest"
  unfolding type_CreateCsvClassifierRequest_def DeepCopyInto_CreateCsvClassifierRequest_def
  by (rule copy_struct_copies) (simp_all add: copy_rules)

definition DeepCopyInto_CreateGrokClassifierRequest :: copier where
  "DeepCopyInto_CreateGrokClassifierRequest = copy_struct
     [(''Name'', copy_ptr shallow)]"

definition DeepCopy_CreateGrokClassifierRequest :: copier where
  "DeepCopy_CreateGrokClassifierRequest = copy_ptr DeepCopyInto_CreateGrokClassifierRequest"

lemma copies_CreateGrokClassifierRequest:
  "copies type_CreateGrokClassifierRequest DeepCopyInto_CreateGrokClassifierRequest"
  unfolding type_CreateGrokClassifierRequest_def DeepCopyInto_CreateGrokClassifierRequest_def
  by (rule copy_struct_copies) (simp_all add: copy_rules)

definition DeepCopyInto_CreateJSONClassifierRequest :: copier where
  "DeepCopyInto_CreateJSONClassifierRequest = copy_struct
     [(''Name'', copy_ptr shallow)]"

definition DeepCopy_CreateJSONClassifierRequest :: copier where
  "DeepCopy_CreateJSONClassifierRequest = copy_ptr DeepCopyInto_CreateJSONClassifierRequest"

lemma copies_CreateJSONClassifierRequest:
  "copies type_CreateJSONClassifierRequest DeepCopyInto_CreateJSONClassifierRequest"
  unfolding type_CreateJSONClassifierRequest_def DeepCopyInto_CreateJSONClassifierRequest_def
  by (rule copy_struct_copies) (simp_all add: copy_rules)

definition DeepCopyInto_CreateXMLClassifierRequest :: copier where
  "DeepCopyInto_CreateXMLClassifierRequest = copy_struct
     [(''Name'', copy_ptr shallow)]"

definition DeepCopy_CreateXMLClassifierRequest :: copier where
  "DeepCopy_CreateXMLClassifierRequest = copy_ptr DeepCopyInto_CreateXMLClassifierRequest"

lemma copies_CreateXMLClassifierRequest:
  "copies type_CreateXMLClassifierRequest DeepCopyInto_CreateXMLClassifierRequest"
  unfolding type_CreateXMLClassifierRequest_def DeepCopyInto_CreateXMLClassifierRequest_def
  by (rule copy_struct_copies) (simp_all add: copy_rules)

definition DeepCopyInto_CsvClassifier :: "api_library \<Rightarrow> copier" where
  "DeepCopyInto_CsvClassifier x = copy_struct
     [(''AllowSingleColumn'', copy_ptr shallow), (''CreationTime'', Time_DeepCopy x),
      (''CustomDatatypeConfigured'', copy_ptr shallow), (''DisableValueTrimming'', copy_ptr shallow),
      (''LastUpdated'', Time_DeepCopy x), (''Name'', copy_ptr shallow)]"

definition DeepCopy_CsvClassifier :: "api_library \<Rightarrow> copier" where
  "DeepCopy_CsvClassifier x = copy_ptr (DeepCopyInto_CsvClassifier x)"

lemma copies_CsvClassifier:
  assumes "ext_laws x"
  shows
  "copies (type_CsvClassifier x) (DeepCopyInto_CsvClassifier x)"
  unfolding type_CsvClassifier_def DeepCopyInto_CsvClassifier_def
  by (rule copy_struct_copies) (simp_all add: copy_rules ext_lawsD [OF assms])

definition DeepCopyInto_CustomEntityType :: copier where
  "DeepCopyInto_CustomEntityType = copy_struct
     [(''Name'', copy_ptr shallow), (''RegexString'', copy_ptr shallow)]"

definition DeepCopy_CustomEntityType :: copier where
  "DeepCopy_CustomEntityType = copy_ptr DeepCopyInto_CustomEntityType"

lemma copies_CustomEntityType:
  "copies type_CustomEntityType DeepCopyInto_CustomEntityType"
  unfolding type_CustomEntityType_def DeepCopyInto_CustomEntityType_def
  by (rule copy_struct_copies) (simp_all add: copy_rules)

definition DeepCopyInto_DataLakePrincipal :: copier where
  "DeepCopyInto_DataLakePrincipal = copy_struct
     [(''DataLakePrincipalIdentifier'', copy_ptr shallow)]"

definition DeepCopy_DataLakePrincipal :: copier where
  "DeepCopy_DataLakePrincipal = copy_ptr DeepCopyInto_DataLakePrincipal"

lemma copies_DataLakePrincipal:
  "copies type_DataLakePrincipal DeepCopyInto_DataLakePrincipal"
  unfolding type_DataLakePrincipal_def DeepCopyInto_DataLakePrincipal_def
  by (rule copy_struct_copies) (simp_all add: copy_rules)

definition DeepCopyInto_DataQualityAnalyzerResult :: copier where
  "DeepCopyInto_DataQualityAnalyzerResult = copy_struct
     [(''Name'', copy_ptr shallow)]"

definition DeepCopy_DataQualityAnalyzerResult :: copier where
  "DeepCopy_DataQualityAnalyzerResult = copy_ptr DeepCopyInto_DataQualityAnalyzerResult"

lemma copies_DataQualityAnalyzerResult:
  "copies type_DataQualityAnalyzerResult DeepCopyInto_DataQualityAnalyzerResult"
  unfolding type_DataQualityAnalyzerResult_def DeepCopyInto_DataQualityAnalyzerResult_def
  by (rule copy_struct_copies) (simp_all add: copy_rules)

definition DeepCopyInto_DataQualityEvaluationRunAdditionalRunOptions :: copier where
  "DeepCopyInto_DataQualityEvaluationRunAdditionalRunOptions = copy_struct
     [(''CloudWatchMetricsEnabled'', copy_ptr shallow), (''ResultsS3Prefix'', copy_ptr shallow)]"

definition DeepCopy_DataQualityEvaluationRunAdditionalRunOptions :: copier where
  "DeepCopy_DataQualityEvaluationRunAdditionalRunOptions = copy_ptr DeepCopyInto_DataQualityEvaluationRunAdditionalRunOptions"

lemma copies_DataQualityEvaluationRunAdditionalRunOptions:
  "copies type_DataQualityEvaluationRunAdditionalRunOptions DeepCopyInto_DataQualityEvaluationRunAdditionalRunOptions"
  unfolding type_DataQualityEvaluationRunAdditionalRunOptions_def DeepCopyInto_DataQualityEvaluationRunAdditionalRunOptions_def
  by (rule copy_struct_copies) (simp_all add: copy_rules)

definition DeepCopyInto_DataQualityMetricValues :: copier where
  "DeepCopyInto_DataQualityMetricValues = copy_struct
     [(''ActualValue'', copy_ptr shallow), (''ExpectedValue'', copy_ptr shallow),
      (''LowerLimit'', copy_ptr shallow), (''UpperLimit'', copy_ptr shallow)]"

definition DeepCopy_DataQualityMetricValues :: copier where
  "DeepCopy_DataQualityMetricValues = copy_ptr DeepCopyInto_DataQualityMetricValues"

lemma copies_DataQualityMetricValues:
  "copies type_DataQualityMetricValues DeepCopyInto_DataQualityMetricValues"
  unfolding type_DataQualityMetricValues_def DeepCopyInto_DataQualityMetricValues_def
  by (rule copy_struct_copies) (simp_all add: copy_rules)

definition DeepCopyInto_DataQualityResult :: "api_library \<Rightarrow> copier" where
  "DeepCopyInto_DataQualityResult x = copy_struct
     [(''CompletedOn'', Time_DeepCopy x), (''EvaluationContext'', copy_ptr shallow),
      (''JobName'', copy_ptr shallow), (''RulesetName'', copy_ptr shallow),
      (''StartedOn'', Time_DeepCopy x)]"

definition DeepCopy_DataQualityResult :: "api_library \<Rightarrow> copier" where
  "DeepCopy_DataQualityResult x = copy_ptr (DeepCopyInto_DataQualityResult x)"

lemma copies_DataQualityResult:
  assumes "ext_laws x"
  shows
  "copies (type_DataQualityResult x) (DeepCopyInto_DataQualityResult x)"
  unfolding type_DataQualityResult_def DeepCopyInto_DataQualityResult_def
  by (rule copy_struct_copies) (simp_all add: copy_rules ext_lawsD [OF assms])

definition DeepCopyInto_DataQualityResultDescription :: "api_library \<Rightarrow> copier" where
  "DeepCopyInto_DataQualityResultDescription x = copy_struct
     [(''JobName'', copy_ptr shallow), (''StartedOn'', Time_DeepCopy x)]"

definition DeepCopy_DataQualityResultDescription :: "api_library \<Rightarrow> copier" where
  "DeepCopy_DataQualityResultDescription x = copy_ptr (DeepCopyInto_DataQualityResultDescription x)"

lemma copies_DataQualityResultDescription:
  assumes "ext_laws x"
  shows
  "copies (type_DataQualityResultDescription x) (DeepCopyInto_DataQualityResultDescription x)"
  unfolding type_DataQualityResultDescription_def DeepCopyInto_DataQualityResultDescription_def
  by (rule copy_struct_copies) (simp_all add: copy_rules ext_lawsD [OF assms])

definition DeepCopyInto_DataQualityResultFilterCriteria :: "api_library \<Rightarrow> copier" where
  "DeepCopyInto_DataQualityResultFilterCriteria x = copy_struct
     [(''JobName'', copy_ptr shallow), (''StartedAfter'', Time_DeepCopy x),
      (''StartedBefore'', Time_DeepCopy x)]"

definition DeepCopy_DataQualityResultFilterCriteria :: "api_library \<Rightarrow> copier" where
  "DeepCopy_DataQualityResultFilterCriteria x = copy_ptr (DeepCopyInto_DataQualityResultFilterCriteria x)"

lemma copies_DataQualityResultFilterCriteria:
  assumes "ext_laws x"
  shows
  "copies (type_DataQualityResultFilterCriteria x) (DeepCopyInto_DataQualityResultFilterCriteria x)"
  unfolding type_DataQualityResultFilterCriteria_def DeepCopyInto_DataQualityResultFilterCriteria_def
  by (rule copy_struct_copies) (simp_all add: copy_rules ext_lawsD [OF assms])

definition DeepCopyInto_DataQualityRuleRecommendationRunDescription :: "api_library \<Rightarrow> copier" where
  "DeepCopyInto_DataQualityRuleRecommendationRunDescription x = copy_struct
     [(''StartedOn'', Time_DeepCopy x)]"

definition DeepCopy_DataQualityRuleRecommendationRunDescription :: "api_library \<Rightarrow> copier" where
  "DeepCopy_DataQualityRuleRecommendationRunDescription x = copy_ptr (DeepCopyInto_DataQualityRuleRecommendationRunDescription x)"

lemma copies_DataQualityRuleRecommendationRunDescription:
  assumes "ext_laws x"
  shows
  "copies (type_DataQualityRuleRecommendationRunDescription x) (DeepCopyInto_DataQualityRuleRecommendationRunDescription x)"
  unfolding type_DataQualityRuleRecommendationRunDescription_def DeepCopyInto_DataQualityRuleRecommendationRunDescription_def
  by (rule copy_struct_copies) (simp_all add: copy_rules ext_lawsD [OF assms])

definition DeepCopyInto_DataQualityRuleRecommendationRunFilter :: "api_library \<Rightarrow> copier" where
  "DeepCopyInto_DataQualityRuleRecommendationRunFilter x = copy_struct
     [(''StartedAfter'', Time_DeepCopy x), (''StartedBefore'', Time_DeepCopy x)]"

definition DeepCopy_DataQualityRuleRecommendationRunFilter :: "api_library \<Rightarrow> copier" where
  "DeepCopy_DataQualityRuleRecommendationRunFilter x = copy_ptr (DeepCopyInto_DataQualityRuleRecommendationRunFilter x)"

lemma copies_DataQualityRuleRecommendationRunFilter:
  assumes "ext_laws x"
  shows
  "copies (type_DataQualityRuleRecommendationRunFilter x) (DeepCopyInto_DataQualityRuleRecommendationRunFilter x)"
  unfolding type_DataQualityRuleRecommendationRunFilter_def DeepCopyInto_DataQualityRuleRecommendationRunFilter_def
  by (rule copy_struct_copies) (simp_all add: copy_rules ext_lawsD [OF assms])

definition DeepCopyInto_DataQualityRuleResult :: copier where
  "DeepCopyInto_DataQualityRuleResult = copy_struct
     [(''Name'', copy_ptr shallow)]"

definition DeepCopy_DataQualityRuleResult :: copier where
  "DeepCopy_DataQualityRuleResult = copy_ptr DeepCopyInto_DataQualityRuleResult"

lemma copies_DataQualityRuleResult:
  "copies type_DataQualityRuleResult DeepCopyInto_DataQualityRuleResult"
  unfolding type_DataQualityRuleResult_def DeepCopyInto_DataQualityRuleResult_def
  by (rule copy_struct_copies) (simp_all add: copy_rules)

definition DeepCopyInto_DataQualityRulesetEvaluationRunDescription :: "api_library \<Rightarrow> copier" where
  "DeepCopyInto_DataQualityRulesetEvaluationRunDescription x = copy_struct
     [(''StartedOn'', Time_DeepCopy x)]"

definition DeepCopy_DataQualityRulesetEvaluationRunDescription :: "api_library \<Rightarrow> copier" where
  "DeepCopy_DataQualityRulesetEvaluationRunDescription x = copy_ptr (DeepCopyInto_DataQualityRulesetEvaluationRunDescription x)"

lemma copies_DataQualityRulesetEvaluationRunDescription:
  assumes "ext_laws x"
  shows
  "copies (type_DataQualityRulesetEvaluationRunDescription x) (DeepCopyInto_DataQualityRulesetEvaluationRunDescription x)"
  unfolding type_DataQualityRulesetEvaluationRunDescription_def DeepCopyInto_DataQualityRulesetEvaluationRunDescription_def
  by (rule copy_struct_copies) (simp_all add: copy_rules ext_lawsD [OF assms])

definition DeepCopyInto_DataQualityRulesetEvaluationRunFilter :: "api_library \<Rightarrow> copier" where
  "DeepCopyInto_DataQualityRulesetEvaluationRunFilter x = copy_struct
     [(''StartedAfter'', Time_DeepCopy x), (''StartedBefore'', Time_DeepCopy x)]"

definition DeepCopy_DataQualityRulesetEvaluationRunFilter :: "api_library \<Rightarrow> copier" where
  "DeepCopy_DataQualityRulesetEvaluationRunFilter x = copy_ptr (DeepCopyInto_DataQualityRulesetEvaluationRunFilter x)"

lemma copies_DataQualityRulesetEvaluationRunFilter:
  assumes "ext_laws x"
  shows
  "copies (type_DataQualityRulesetEvaluationRunFilter x) (DeepCopyInto_DataQualityRulesetEvaluationRunFilter x)"
  unfolding type_DataQualityRulesetEvaluationRunFilter_def DeepCopyInto_DataQualityRulesetEvaluationRunFilter_def
  by (rule copy_struct_copies) (simp_all add: copy_rules ext_lawsD [OF assms])

definition DeepCopyInto_DataQualityRulesetFilterCriteria :: "api_library \<Rightarrow> copier" where
  "DeepCopyInto_DataQualityRulesetFilterCriteria x = copy_struct
     [(''CreatedAfter'', Time_DeepCopy x), (''CreatedBefore'', Time_DeepCopy x),
      (''Description'', copy_ptr shallow), (''LastModifiedAfter'', Time_DeepCopy x),
      (''LastModifiedBefore'', Time_DeepCopy x), (''Name'', copy_ptr shallow)]"

definition DeepCopy_DataQualityRulesetFilterCriteria :: "api_library \<Rightarrow> copier" where
  "DeepCopy_DataQualityRulesetFilterCriteria x = copy_ptr (DeepCopyInto_DataQualityRulesetFilterCriteria x)"

lemma copies_DataQualityRulesetFilterCriteria:
  assumes "ext_laws x"
  shows
  "copies (type_DataQualityRulesetFilterCriteria x) (DeepCopyInto_DataQualityRulesetFilterCriteria x)"
  unfolding type_DataQualityRulesetFilterCriteria_def DeepCopyInto_DataQualityRulesetFilterCriteria_def
  by (rule copy_struct_copies) (simp_all add: copy_rules ext_lawsD [OF assms])

definition DeepCopyInto_DataQualityRulesetListDetails :: "api_library \<Rightarrow> copier" where
  "DeepCopyInto_DataQualityRulesetListDetails x = copy_struct
     [(''CreatedOn'', Time_DeepCopy x), (''Description'', copy_ptr shallow),
      (''LastModifiedOn'', Time_DeepCopy x), (''Name'', copy_ptr shallow),
      (''RuleCount'', copy_ptr shallow)]"

definition DeepCopy_DataQualityRulesetListDetails :: "api_library \<Rightarrow> copier" where
  "DeepCopy_DataQualityRulesetListDetails x = copy_ptr (DeepCopyInto_DataQualityRulesetListDetails x)"

lemma copies_DataQualityRulesetListDetails:
  assumes "ext_laws x"
  shows
  "copies (type_DataQualityRulesetListDetails x) (DeepCopyInto_DataQualityRulesetListDetails x)"
  unfolding type_DataQualityRulesetListDetails_def DeepCopyInto_DataQualityRulesetListDetails_def
  by (rule copy_struct_copies) (simp_all add: copy_rules ext_lawsD [OF assms])

definition DeepCopyInto_DataQualityTargetTable :: copier where
  "DeepCopyInto_DataQualityTargetTable = copy_struct
     [(''CatalogID'', copy_ptr shallow), (''DatabaseName'', copy_ptr shallow),
      (''TableName'', copy_ptr shallow)]"

definition DeepCopy_DataQualityTargetTable :: copier where
  "DeepCopy_DataQualityTargetTable = copy_ptr DeepCopyInto_DataQualityTargetTable"

lemma copies_DataQualityTargetTable:
  "copies type_DataQualityTargetTable DeepCopyInto_DataQualityTargetTable"
  unfolding type_DataQualityTargetTable_def DeepCopyInto_DataQualityTargetTable_def
  by (rule copy_struct_copies) (simp_all add: copy_rules)

definition DeepCopyInto_DatabaseIdentifier :: copier where
  "DeepCopyInto_DatabaseIdentifier = copy_struct
     [(''CatalogID'', copy_ptr shallow), (''DatabaseName'', copy_ptr shallow),
      (''Region'', copy_ptr shallow)]"

definition DeepCopy_DatabaseIdentifier :: copier where
  "DeepCopy_DatabaseIdentifier = copy_ptr DeepCopyInto_DatabaseIdentifier"

lemma copies_DatabaseIdentifier:
  "copies type_DatabaseIdentifier DeepCopyInto_DatabaseIdentifier"
  unfolding type_DatabaseIdentifier_def DeepCopyInto_DatabaseIdentifier_def
  by (rule copy_struct_copies) (simp_all add: copy_rules)

definition DeepCopyInto_PrincipalPermissions :: copier where
  "DeepCopyInto_PrincipalPermissions = copy_struct
     [(''Permissions'', copy_slice (copy_ptr shallow)),
      (''Principal'', copy_ptr DeepCopyInto_DataLakePrincipal)]"

definition DeepCopy_PrincipalPermissions :: copier where
  "DeepCopy_PrincipalPermissions = copy_ptr DeepCopyInto_PrincipalPermissions"

lemma copies_PrincipalPermissions:
  "copies type_PrincipalPermissions DeepCopyInto_PrincipalPermissions"
  unfolding type_PrincipalPermissions_def DeepCopyInto_PrincipalPermissions_def
  by (rule copy_struct_copies) (simp_all add: copy_rules copies_DataLakePrincipal)

definition DeepCopyInto_FederatedDatabase :: copier where
  "DeepCopyInto_FederatedDatabase = copy_struct
     [(''ConnectionName'', copy_ptr shallow), (''Identifier'', copy_ptr shallow)]"

definition DeepCopy_FederatedDatabase :: copier where
  "DeepCopy_FederatedDatabase = copy_ptr DeepCopyInto_FederatedDatabase"

lemma copies_FederatedDatabase:
  "copies type_FederatedDatabase DeepCopyInto_FederatedDatabase"
  unfolding type_FederatedDatabase_def DeepCopyInto_FederatedDatabase_def
  by (rule copy_struct_copies) (simp_all add: copy_rules)

definition DeepCopyInto_DatabaseInput :: "map_order \<Rightarrow> copier" where
  "DeepCopyInto_DatabaseInput ord = copy_struct
     [(''CreateTableDefaultPermissions'', copy_slice (copy_ptr DeepCopyInto_PrincipalPermissions)),
      (''Description'', copy_ptr shallow),
      (''FederatedDatabase'', copy_ptr DeepCopyInto_FederatedDatabase),
      (''LocationURI'', copy_ptr shallow), (''Name'', copy_ptr shallow),
      (''Parameters'', copy_map ord (copy_ptr shallow)),
      (''TargetDatabase'', copy_ptr DeepCopyInto_DatabaseIdentifier)]"

definition DeepCopy_DatabaseInput :: "map_order \<Rightarrow> copier" where
  "DeepCopy_DatabaseInput ord = copy_ptr (DeepCopyInto_DatabaseInput ord)"

lemma copies_DatabaseInput:
  "copies type_DatabaseInput (DeepCopyInto_DatabaseInput ord)"
  unfolding type_DatabaseInput_def DeepCopyInto_DatabaseInput_def
  by (rule copy_struct_copies) (simp_all add: copy_rules copies_PrincipalPermissions copies_FederatedDatabase copies_DatabaseIdentifier)

definition DeepCopyInto_Database_SDK :: "api_library \<Rightarrow> map_order \<Rightarrow> copier" where
  "DeepCopyInto_Database_SDK x ord = copy_struct
     [(''CatalogID'', copy_ptr shallow),
      (''CreateTableDefaultPermissions'', copy_slice (copy_ptr DeepCopyInto_PrincipalPermissions)),
      (''CreateTime'', Time_DeepCopy x), (''Description'', copy_ptr shallow),
      (''FederatedDatabase'', copy_ptr DeepCopyInto_FederatedDatabase),
      (''LocationURI'', copy_ptr shallow), (''Name'', copy_ptr shallow),
      (''Parameters'', copy_map ord (copy_ptr shallow)),
      (''TargetDatabase'', copy_ptr DeepCopyInto_DatabaseIdentifier)]"

definition DeepCopy_Database_SDK :: "api_library \<Rightarrow> map_order \<Rightarrow> copier" where
  "DeepCopy_Database_SDK x ord = copy_ptr (DeepCopyInto_Database_SDK x ord)"

lemma copies_Database_SDK:
  assumes "ext_laws x"
  shows
  "copies (type_Database_SDK x) (DeepCopyInto_Database_SDK x ord)"
  unfolding type_Database_SDK_def DeepCopyInto_Database_SDK_def
  by (rule copy_struct_copies) (simp_all add: copy_rules copies_PrincipalPermissions copies_FederatedDatabase copies_DatabaseIdentifier ext_lawsD [OF assms])

definition DeepCopyInto_DateColumnStatisticsData :: "api_library \<Rightarrow> copier" where
  "DeepCopyInto_DateColumnStatisticsData x = copy_struct
     [(''MaximumValue'', Time_DeepCopy x), (''MinimumValue'', Time_DeepCopy x)]"

definition DeepCopy_DateColumnStatisticsData :: "api_library \<Rightarrow> copier" where
  "DeepCopy_DateColumnStatisticsData x = copy_ptr (DeepCopyInto_DateColumnStatisticsData x)"

lemma copies_DateColumnStatisticsData:
  assumes "ext_laws x"
  shows
  "copies (type_DateColumnStatisticsData x) (DeepCopyInto_DateColumnStatisticsData x)"
  unfolding type_DateColumnStatisticsData_def DeepCopyInto_DateColumnStatisticsData_def
  by (rule copy_struct_copies) (simp_all add: copy_rules ext_lawsD [OF assms])

definition DeepCopyInto_DeltaTarget :: copier where
  "DeepCopyInto_DeltaTarget = copy_struct
     [(''CreateNativeDeltaTable'', copy_ptr shallow), (''WriteManifest'', copy_ptr shallow)]"

definition DeepCopy_DeltaTarget :: copier where
  "DeepCopy_DeltaTarget = copy_ptr DeepCopyInto_DeltaTarget"

lemma copies_DeltaTarget:
  "copies type_DeltaTarget DeepCopyInto_DeltaTarget"
  unfolding type_DeltaTarget_def DeepCopyInto_DeltaTarget_def
  by (rule copy_struct_copies) (simp_all add: copy_rules)

definition DeepCopyInto_DevEndpoint :: "api_library \<Rightarrow> copier" where
  "DeepCopyInto_DevEndpoint x = copy_struct
     [(''AvailabilityZone'', copy_ptr shallow), (''CreatedTimestamp'', Time_DeepCopy x),
      (''EndpointName'', copy_ptr shallow), (''ExtraJarsS3Path'', copy_ptr shallow),
      (''ExtraPythonLibsS3Path'', copy_ptr shallow), (''FailureReason'', copy_ptr shallow),
      (''GlueVersion'', copy_ptr shallow), (''LastModifiedTimestamp'', Time_DeepCopy x),
      (''LastUpdateStatus'', copy_ptr shallow), (''NumberOfNodes'', copy_ptr shallow),
      (''NumberOfWorkers'', copy_ptr shallow), (''PrivateAddress'', copy_ptr shallow),
      (''PublicAddress'', copy_ptr shallow), (''PublicKey'', copy_ptr shallow),
      (''SecurityConfiguration'', copy_ptr shallow), (''Status'', copy_ptr shallow),
      (''SubnetID'', copy_ptr shallow), (''VPCID'', copy_ptr shallow),
      (''WorkerType'', copy_ptr shallow), (''YarnEndpointAddress'', copy_ptr shallow),
      (''ZeppelinRemoteSparkInterpreterPort'', copy_ptr shallow)]"

definition DeepCopy_DevEndpoint :: "api_library \<Rightarrow> copier" where
  "DeepCopy_DevEndpoint x = copy_ptr (DeepCopyInto_DevEndpoint x)"

lemma copies_DevEndpoint:
  assumes "ext_laws x"
  shows
  "copies (type_DevEndpoint x) (DeepCopyInto_DevEndpoint x)"
  unfolding type_DevEndpoint_def DeepCopyInto_DevEndpoint_def
  by (rule copy_struct_copies) (simp_all add: copy_rules ext_lawsD [OF assms])

definition DeepCopyInto_DevEndpointCustomLibraries :: copier where
  "DeepCopyInto_DevEndpointCustomLibraries = copy_struct
     [(''ExtraJarsS3Path'', copy_ptr shallow), (''ExtraPythonLibsS3Path'', copy_ptr shallow)]"

definition DeepCopy_DevEndpointCustomLibraries :: copier where
  "DeepCopy_DevEndpointCustomLibraries = copy_ptr DeepCopyInto_DevEndpointCustomLibraries"

lemma copies_DevEndpointCustomLibraries:
  "copies type_DevEndpointCustomLibraries DeepCopyInto_DevEndpointCustomLibraries"
  unfolding type_DevEndpointCustomLibraries_def DeepCopyInto_DevEndpointCustomLibraries_def
  by (rule copy_struct_copies) (simp_all add: copy_rules)

definition DeepCopyInto_DynamoDBTarget :: copier where
  "DeepCopyInto_DynamoDBTarget = copy_struct
     [(''ScanAll'', copy_ptr shallow), (''ScanRate'', copy_ptr shallow)]"

definition DeepCopy_DynamoDBTarget :: copier where
  "DeepCopy_DynamoDBTarget = copy_ptr DeepCopyInto_DynamoDBTarget"

lemma copies_DynamoDBTarget:
  "copies type_DynamoDBTarget DeepCopyInto_DynamoDBTarget"
  unfolding type_DynamoDBTarget_def DeepCopyInto_DynamoDBTarget_def
  by (rule copy_struct_copies) (simp_all add: copy_rules)

definition DeepCopyInto_Edge :: copier where
  "DeepCopyInto_Edge = copy_struct
     [(''DestinationID'', copy_ptr shallow), (''SourceID'', copy_ptr shallow)]"

definition DeepCopy_Edge :: copier where
  "DeepCopy_Edge = copy_ptr DeepCopyInto_Edge"

lemma copies_Edge:
  "copies type_Edge DeepCopyInto_Edge"
  unfolding type_Edge_def DeepCopyInto_Edge_def
  by (rule copy_struct_copies) (simp_all add: copy_rules)

definition DeepCopyInto_EncryptionAtRest :: copier where
  "DeepCopyInto_EncryptionAtRest = copy_struct
     [(''SSEAWSKMSKeyID'', copy_ptr shallow)]"

definition DeepCopy_EncryptionAtRest :: copier where
  "DeepCopy_EncryptionAtRest = copy_ptr DeepCopyInto_EncryptionAtRest"

lemma copies_EncryptionAtRest:
  "copies type_EncryptionAtRest DeepCopyInto_EncryptionAtRest"
  unfolding type_EncryptionAtRest_def DeepCopyInto_EncryptionAtRest_def
  by (rule copy_struct_copies) (simp_all add: copy_rules)

definition DeepCopyInto_ErrorDetail :: copier where
  "DeepCopyInto_ErrorDetail = copy_struct
     [(''ErrorCode'', copy_ptr shallow), (''ErrorMessage'', copy_ptr shallow)]"

definition DeepCopy_ErrorDetail :: copier where
  "DeepCopy_ErrorDetail = copy_ptr DeepCopyInto_ErrorDetail"

lemma copies_ErrorDetail:
  "copies type_ErrorDetail DeepCopyInto_ErrorDetail"
  unfolding type_ErrorDetail_def DeepCopyInto_ErrorDetail_def
  by (rule copy_struct_copies) (simp_all add: copy_rules)

definition DeepCopyInto_ExecutionProperty :: copier where
  "DeepCopyInto_ExecutionProperty = copy_struct
     [(''MaxConcurrentRuns'', copy_ptr shallow)]"

definition DeepCopy_ExecutionProperty :: copier where
  "DeepCopy_ExecutionProperty = copy_ptr DeepCopyInto_ExecutionProperty"

lemma copies_ExecutionProperty:
  "copies type_ExecutionProperty DeepCopyInto_ExecutionProperty"
  unfolding type_ExecutionProperty_def DeepCopyInto_ExecutionProperty_def
  by (rule copy_struct_copies) (simp_all add: copy_rules)

definition DeepCopyInto_ExportLabelsTaskRunProperties :: copier where
  "DeepCopyInto_ExportLabelsTaskRunProperties = copy_struct
     [(''OutputS3Path'', copy_ptr shallow)]"

definition DeepCopy_ExportLabelsTaskRunProperties :: copier where
  "DeepCopy_ExportLabelsTaskRunProperties = copy_ptr DeepCopyInto_ExportLabelsTaskRunProperties"

lemma copies_ExportLabelsTaskRunProperties:
  "copies type_ExportLabelsTaskRunProperties DeepCopyInto_ExportLabelsTaskRunProperties"
  unfolding type_ExportLabelsTaskRunProperties_def DeepCopyInto_ExportLabelsTaskRunProperties_def
  by (rule copy_struct_copies) (simp_all add: copy_rules)

definition DeepCopyInto_FederatedTable :: copier where
  "DeepCopyInto_FederatedTable = copy_struct
     [(''ConnectionName'', copy_ptr shallow), (''DatabaseIdentifier'', copy_ptr shallow),
      (''Identifier'', copy_ptr shallow)]"

definition DeepCopy_FederatedTable :: copier where
  "DeepCopy_FederatedTable = copy_ptr DeepCopyInto_FederatedTable"

lemma copies_FederatedTable:
  "copies type_FederatedTable DeepCopyInto_FederatedTable"
  unfolding type_FederatedTable_def DeepCopyInto_FederatedTable_def
  by (rule copy_struct_copies) (simp_all add: copy_rules)

definition DeepCopyInto_FindMatchesParameters :: copier where
  "DeepCopyInto_FindMatchesParameters = copy_struct
     [(''EnforceProvidedLabels'', copy_ptr shallow)]"

definition DeepCopy_FindMatchesParameters :: copier where
  "DeepCopy_FindMatchesParameters = copy_ptr DeepCopyInto_FindMatchesParameters"

lemma copies_FindMatchesParameters:
  "copies type_FindMatchesParameters DeepCopyInto_FindMatchesParameters"
  unfolding type_FindMatchesParameters_def DeepCopyInto_FindMatchesParameters_def
  by (rule copy_struct_copies) (simp_all add: copy_rules)

definition DeepCopyInto_FindMatchesTaskRunProperties :: copier where
  "DeepCopyInto_FindMatchesTaskRunProperties = copy_struct
     [(''JobName'', copy_ptr shallow)]"

definition DeepCopy_FindMatchesTaskRunProperties :: copier where
  "DeepCopy_FindMatchesTaskRunProperties = copy_ptr DeepCopyInto_FindMatchesTaskRunProperties"

lemma copies_FindMatchesTaskRunProperties:
  "copies type_FindMatchesTaskRunProperties DeepCopyInto_FindMatchesTaskRunProperties"
  unfolding type_FindMatchesTaskRunProperties_def DeepCopyInto_FindMatchesTaskRunProperties_def
  by (rule copy_struct_copies) (simp_all add: copy_rules)

definition DeepCopyInto_GluePolicy :: "api_library \<Rightarrow> copier" where
  "DeepCopyInto_GluePolicy x = copy_struct
     [(''CreateTime'', Time_DeepCopy x), (''UpdateTime'', Time_DeepCopy x)]"

definition DeepCopy_GluePolicy :: "api_library \<Rightarrow> copier" where
  "DeepCopy_GluePolicy x = copy_ptr (DeepCopyInto_GluePolicy x)"

lemma copies_GluePolicy:
  assumes "ext_laws x"
  shows
  "copies (type_GluePolicy x) (DeepCopyInto_GluePolicy x)"
  unfolding type_GluePolicy_def DeepCopyInto_GluePolicy_def
  by (rule copy_struct_copies) (simp_all add: copy_rules ext_lawsD [OF assms])

definition DeepCopyInto_GrokClassifier :: "api_library \<Rightarrow> copier" where
  "DeepCopyInto_GrokClassifier x = copy_struct
     [(''CreationTime'', Time_DeepCopy x), (''LastUpdated'', Time_DeepCopy x),
      (''Name'', copy_ptr shallow)]"

definition DeepCopy_GrokClassifier :: "api_library \<Rightarrow> copier" where
  "DeepCopy_GrokClassifier x = copy_ptr (DeepCopyInto_GrokClassifier x)"

lemma copies_GrokClassifier:
  assumes "ext_laws x"
  shows
  "copies (type_GrokClassifier x) (DeepCopyInto_GrokClassifier x)"
  unfolding type_GrokClassifier_def DeepCopyInto_GrokClassifier_def
  by (rule copy_struct_copies) (simp_all add: copy_rules ext_lawsD [OF assms])

definition DeepCopyInto_HudiTarget :: copier where
  "DeepCopyInto_HudiTarget = copy_struct
     [(''MaximumTraversalDepth'', copy_ptr shallow)]"

definition DeepCopy_HudiTarget :: copier where
  "DeepCopy_HudiTarget = copy_ptr DeepCopyInto_HudiTarget"

lemma copies_HudiTarget:
  "copies type_HudiTarget DeepCopyInto_HudiTarget"
  unfolding type_HudiTarget_def DeepCopyInto_HudiTarget_def
  by (rule copy_struct_copies) (simp_all add: copy_rules)

definition DeepCopyInto_IcebergOrphanFileDeletionConfiguration :: copier where
  "DeepCopyInto_IcebergOrphanFileDeletionConfiguration = copy_struct
     [(''OrphanFileRetentionPeriodInDays'', copy_ptr shallow)]"

definition DeepCopy_IcebergOrphanFileDeletionConfiguration :: copier where
  "DeepCopy_IcebergOrphanFileDeletionConfiguration = copy_ptr DeepCopyInto_IcebergOrphanFileDeletionConfiguration"

lemma copies_IcebergOrphanFileDeletionConfiguration:
  "copies type_IcebergOrphanFileDeletionConfiguration DeepCopyInto_IcebergOrphanFileDeletionConfiguration"
  unfolding type_IcebergOrphanFileDeletionConfiguration_def DeepCopyInto_IcebergOrphanFileDeletionConfiguration_def
  by (rule copy_struct_copies) (simp_all add: copy_rules)

definition DeepCopyInto_IcebergRetentionConfiguration :: copier where
  "DeepCopyInto_IcebergRetentionConfiguration = copy_struct
     [(''CleanExpiredFiles'', copy_ptr shallow), (''NumberOfSnapshotsToRetain'', copy_ptr shallow),
      (''SnapshotRetentionPeriodInDays'', copy_ptr shallow)]"

definition DeepCopy_IcebergRetentionConfiguration :: copier where
  "DeepCopy_IcebergRetentionConfiguration = copy_ptr DeepCopyInto_IcebergRetentionConfiguration"

lemma copies_IcebergRetentionConfiguration:
  "copies type_IcebergRetentionConfiguration DeepCopyInto_IcebergRetentionConfiguration"
  unfolding type_IcebergRetentionConfiguration_def DeepCopyInto_IcebergRetentionConfiguration_def
  by (rule copy_struct_copies) (simp_all add: copy_rules)

definition DeepCopyInto_IcebergTarget :: copier where
  "DeepCopyInto_IcebergTarget = copy_struct
     [(''MaximumTraversalDepth'', copy_ptr shallow)]"

definition DeepCopy_IcebergTarget :: copier where
  "DeepCopy_IcebergTarget = copy_ptr DeepCopyInto_IcebergTarget"

lemma copies_IcebergTarget:
  "copies type_IcebergTarget DeepCopyInto_IcebergTarget"
  unfolding type_IcebergTarget_def DeepCopyInto_IcebergTarget_def
  by (rule copy_struct_copies) (simp_all add: copy_rules)

definition DeepCopyInto_ImportLabelsTaskRunProperties :: copier where
  "DeepCopyInto_ImportLabelsTaskRunProperties = copy_struct
     [(''InputS3Path'', copy_ptr shallow)]"

definition DeepCopy_ImportLabelsTaskRunProperties :: copier where
  "DeepCopy_ImportLabelsTaskRunProperties = copy_ptr DeepCopyInto_ImportLabelsTaskRunProperties"

lemma copies_ImportLabelsTaskRunProperties:
  "copies type_ImportLabelsTaskRunProperties DeepCopyInto_ImportLabelsTaskRunProperties"
  unfolding type_ImportLabelsTaskRunProperties_def DeepCopyInto_ImportLabelsTaskRunProperties_def
  by (rule copy_struct_copies) (simp_all add: copy_rules)

definition DeepCopyInto_JSONClassifier :: "api_library \<Rightarrow> copier" where
  "DeepCopyInto_JSONClassifier x = copy_struct
     [(''CreationTime'', Time_DeepCopy x), (''LastUpdated'', Time_DeepCopy x),
      (''Name'', copy_ptr shallow)]"

definition DeepCopy_JSONClassifier :: "api_library \<Rightarrow> copier" where
  "DeepCopy_JSONClassifier x = copy_ptr (DeepCopyInto_JSONClassifier x)"

lemma copies_JSONClassifier:
  assumes "ext_laws x"
  shows
  "copies (type_JSONClassifier x) (DeepCopyInto_JSONClassifier x)"
  unfolding type_JSONClassifier_def DeepCopyInto_JSONClassifier_def
  by (rule copy_struct_copies) (simp_all add: copy_rules ext_lawsD [OF assms])

definition DeepCopyInto_JobBookmarkEntry :: copier where
  "DeepCopyInto_JobBookmarkEntry = copy_struct
     [(''Attempt'', copy_ptr shallow), (''Run'', copy_ptr shallow), (''Version'', copy_ptr shallow)]"

definition DeepCopy_JobBookmarkEntry :: copier where
  "DeepCopy_JobBookmarkEntry = copy_ptr DeepCopyInto_JobBookmarkEntry"

lemma copies_JobBookmarkEntry:
  "copies type_JobBookmarkEntry DeepCopyInto_JobBookmarkEntry"
  unfolding type_JobBookmarkEntry_def DeepCopyInto_JobBookmarkEntry_def
  by (rule copy_struct_copies) (simp_all add: copy_rules)

definition DeepCopyInto_JobCommand :: copier where
  "DeepCopyInto_JobCommand = copy_struct
     [(''Name'', copy_ptr shallow), (''PythonVersion'', copy_ptr shallow),
      (''Runtime'', copy_ptr shallow), (''ScriptLocation'', copy_ptr shallow)]"

definition DeepCopy_JobCommand :: copier where
  "DeepCopy_JobCommand = copy_ptr DeepCopyInto_JobCommand"

lemma copies_JobCommand:
  "copies type_JobCommand DeepCopyInto_JobCommand"
  unfolding type_JobCommand_def DeepCopyInto_JobCommand_def
  by (rule copy_struct_copies) (simp_all add: copy_rules)

definition DeepCopyInto_JobRun :: "api_library \<Rightarrow> map_order \<Rightarrow> copier" where
  "DeepCopyInto_JobRun x ord = copy_struct
     [(''AllocatedCapacity'', copy_ptr shallow), (''Arguments'', copy_map ord (copy_ptr shallow)),
      (''CompletedOn'', Time_DeepCopy x), (''DPUSeconds'', copy_ptr shallow),
      (''ExecutionClass'', copy_ptr shallow), (''GlueVersion'', copy_ptr shallow),
      (''JobMode'', copy_ptr shallow), (''JobName'', copy_ptr shallow),
      (''JobRunQueuingEnabled'', copy_ptr shallow), (''LastModifiedOn'', Time_DeepCopy x),
      (''LogGroupName'', copy_ptr shallow), (''MaintenanceWindow'', copy_ptr shallow),
      (''MaxCapacity'', copy_ptr shallow),
      (''NotificationProperty'', copy_ptr DeepCopyInto_NotificationProperty),
      (''NumberOfWorkers'', copy_ptr shallow), (''ProfileName'', copy_ptr shallow),
      (''SecurityConfiguration'', copy_ptr shallow), (''StartedOn'', Time_DeepCopy x),
      (''Timeout'', copy_ptr shallow), (''TriggerName'', copy_ptr shallow),
      (''WorkerType'', copy_ptr shallow)]"

definition DeepCopy_JobRun :: "api_library \<Rightarrow> map_order \<Rightarrow> copier" where
  "DeepCopy_JobRun x ord = copy_ptr (DeepCopyInto_JobRun x ord)"

lemma copies_JobRun:
  assumes "ext_laws x"
  shows
  "copies (type_JobRun x) (DeepCopyInto_JobRun x ord)"
  unfolding type_JobRun_def DeepCopyInto_JobRun_def
  by (rule copy_struct_copies) (simp_all add: copy_rules copies_NotificationProperty ext_lawsD [OF assms])

definition DeepCopyInto_SourceControlDetails :: copier where
  "DeepCopyInto_SourceControlDetails = copy_struct
     [(''AuthStrategy'', copy_ptr shallow), (''AuthToken'', copy_ptr shallow),
      (''Branch'', copy_ptr shallow), (''Folder'', copy_ptr shallow),
      (''LastCommitID'', copy_ptr shallow), (''Owner'', copy_ptr shallow),
      (''Provider'', copy_ptr shallow), (''Repository'', copy_ptr shallow)]"

definition DeepCopy_SourceControlDetails :: copier where
  "DeepCopy_SourceControlDetails = copy_ptr DeepCopyInto_SourceControlDetails"

lemma copies_SourceControlDetails:
  "copies type_SourceControlDetails DeepCopyInto_SourceControlDetails"
  unfolding type_SourceControlDetails_def DeepCopyInto_SourceControlDetails_def
  by (rule copy_struct_copies) (simp_all add: copy_rules)

definition DeepCopyInto_JobUpdate :: "api_library \<Rightarrow> map_order \<Rightarrow> copier" where
  "DeepCopyInto_JobUpdate x ord = copy_struct
     [(''CodeGenConfigurationNodes'', copy_map ord (copy_ptr (DeepCopyInto_CodeGenConfigurationNode x ord))),
      (''Command'', copy_ptr DeepCopyInto_JobCommand),
      (''Connections'', copy_ptr DeepCopyInto_ConnectionsList),
      (''DefaultArguments'', copy_map ord (copy_ptr shallow)), (''Description'', copy_ptr shallow),
      (''ExecutionClass'', copy_ptr shallow),
      (''ExecutionProperty'', copy_ptr DeepCopyInto_ExecutionProperty),
      (''GlueVersion'', copy_ptr shallow), (''JobMode'', copy_ptr shallow),
      (''JobRunQueuingEnabled'', copy_ptr shallow), (''LogURI'', copy_ptr shallow),
      (''MaintenanceWindow'', copy_ptr shallow), (''MaxCapacity'', copy_ptr shallow),
      (''MaxRetries'', copy_ptr shallow),
      (''NonOverridableArguments'', copy_map ord (copy_ptr shallow)),
      (''NotificationProperty'', copy_ptr DeepCopyInto_NotificationProperty),
      (''NumberOfWorkers'', copy_ptr shallow), (''Role'', copy_ptr shallow),
      (''SecurityConfiguration'', copy_ptr shallow),
      (''SourceControlDetails'', copy_ptr DeepCopyInto_SourceControlDetails),
      (''Timeout'', copy_ptr shallow), (''WorkerType'', copy_ptr shallow)]"

definition DeepCopy_JobUpdate :: "api_library \<Rightarrow> map_order \<Rightarrow> copier" where
  "DeepCopy_JobUpdate x ord = copy_ptr (DeepCopyInto_JobUpdate x ord)"

lemma copies_JobUpdate:
  assumes "ext_laws x"
  shows
  "copies (type_JobUpdate x) (DeepCopyInto_JobUpdate x ord)"
  unfolding type_JobUpdate_def DeepCopyInto_JobUpdate_def
  by (rule copy_struct_copies) (simp_all add: copy_rules copies_CodeGenConfigurationNode copies_JobCommand copies_ConnectionsList copies_ExecutionProperty copies_NotificationProperty copies_SourceControlDetails ext_lawsD [OF assms] assms)

definition DeepCopyInto_Job_SDK :: "api_library \<Rightarrow> map_order \<Rightarrow> copier" where
  "DeepCopyInto_Job_SDK x ord = copy_struct
     [(''AllocatedCapacity'', copy_ptr shallow),
      (''CodeGenConfigurationNodes'', copy_map ord (copy_ptr (DeepCopyInto_CodeGenConfigurationNode x ord))),
      (''Command'', copy_ptr DeepCopyInto_JobCommand),
      (''Connections'', copy_ptr DeepCopyInto_ConnectionsList), (''CreatedOn'', Time_DeepCopy x),
      (''DefaultArguments'', copy_map ord (copy_ptr shallow)), (''Description'', copy_ptr shallow),
      (''ExecutionClass'', copy_ptr shallow),
      (''ExecutionProperty'', copy_ptr DeepCopyInto_ExecutionProperty),
      (''GlueVersion'', copy_ptr shallow), (''JobMode'', copy_ptr shallow),
      (''JobRunQueuingEnabled'', copy_ptr shallow), (''LastModifiedOn'', Time_DeepCopy x),
      (''LogURI'', copy_ptr shallow), (''MaintenanceWindow'', copy_ptr shallow),
      (''MaxCapacity'', copy_ptr shallow), (''MaxRetries'', copy_ptr shallow),
      (''Name'', copy_ptr shallow), (''NonOverridableArguments'', copy_map ord (copy_ptr shallow)),
      (''NotificationProperty'', copy_ptr DeepCopyInto_NotificationProperty),
      (''NumberOfWorkers'', copy_ptr shallow), (''ProfileName'', copy_ptr shallow),
      (''Role'', copy_ptr shallow), (''SecurityConfiguration'', copy_ptr shallow),
      (''SourceControlDetails'', copy_ptr DeepCopyInto_SourceControlDetails),
      (''Timeout'', copy_ptr shallow), (''WorkerType'', copy_ptr shallow)]"

definition DeepCopy_Job_SDK :: "api_library \<Rightarrow> map_order \<Rightarrow> copier" where
  "DeepCopy_Job_SDK x ord = copy_ptr (DeepCopyInto_Job_SDK x ord)"

lemma copies_Job_SDK:
  assumes "ext_laws x"
  shows
  "copies (type_Job_SDK x) (DeepCopyInto_Job_SDK x ord)"
  unfolding type_Job_SDK_def DeepCopyInto_Job_SDK_def
  by (rule copy_struct_copies) (simp_all add: copy_rules copies_CodeGenConfigurationNode copies_JobCommand copies_ConnectionsList copies_ExecutionProperty copies_NotificationProperty copies_SourceControlDetails ext_lawsD [OF assms] assms)

definition DeepCopyInto_LabelingSetGenerationTaskRunProperties :: copier where
  "DeepCopyInto_LabelingSetGenerationTaskRunProperties = copy_struct
     [(''OutputS3Path'', copy_ptr shallow)]"

definition DeepCopy_LabelingSetGenerationTaskRunProperties :: copier where
  "DeepCopy_LabelingSetGenerationTaskRunProperties = copy_ptr DeepCopyInto_LabelingSetGenerationTaskRunProperties"

lemma copies_LabelingSetGenerationTaskRunProperties:
  "copies type_LabelingSetGenerationTaskRunProperties DeepCopyInto_LabelingSetGenerationTaskRunProperties"
  unfolding type_LabelingSetGenerationTaskRunProperties_def DeepCopyInto_LabelingSetGenerationTaskRunProperties_def
  by (rule copy_struct_copies) (simp_all add: copy_rules)

definition DeepCopyInto_LakeFormationConfiguration :: copier where
  "DeepCopyInto_LakeFormationConfiguration = copy_struct
     [(''UseLakeFormationCredentials'', copy_ptr shallow)]"

definition DeepCopy_LakeFormationConfiguration :: copier where
  "DeepCopy_LakeFormationConfiguration = copy_ptr DeepCopyInto_LakeFormationConfiguration"

lemma copies_LakeFormationConfiguration:
  "copies type_LakeFormationConfiguration DeepCopyInto_LakeFormationConfiguration"
  unfolding type_LakeFormationConfiguration_def DeepCopyInto_LakeFormationConfiguration_def
  by (rule copy_struct_copies) (simp_all add: copy_rules)

definition DeepCopyInto_LastActiveDefinition :: "api_library \<Rightarrow> copier" where
  "DeepCopyInto_LastActiveDefinition x = copy_struct
     [(''BlueprintLocation'', copy_ptr shallow), (''BlueprintServiceLocation'', copy_ptr shallow),
      (''Description'', copy_ptr shallow), (''LastModifiedOn'', Time_DeepCopy x)]"

definition DeepCopy_LastActiveDefinition :: "api_library \<Rightarrow> copier" where
  "DeepCopy_LastActiveDefinition x = copy_ptr (DeepCopyInto_LastActiveDefinition x)"

lemma copies_LastActiveDefinition:
  assumes "ext_laws x"
  shows
  "copies (type_LastActiveDefinition x) (DeepCopyInto_LastActiveDefinition x)"
  unfolding type_LastActiveDefinition_def DeepCopyInto_LastActiveDefinition_def
  by (rule copy_struct_copies) (simp_all add: copy_rules ext_lawsD [OF assms])

definition DeepCopyInto_LastCrawlInfo :: "api_library \<Rightarrow> copier" where
  "DeepCopyInto_LastCrawlInfo x = copy_struct
     [(''ErrorMessage'', copy_ptr shallow), (''StartTime'', Time_DeepCopy x)]"

definition DeepCopy_LastCrawlInfo :: "api_library \<Rightarrow> copier" where
  "DeepCopy_LastCrawlInfo x = copy_ptr (DeepCopyInto_LastCrawlInfo x)"

lemma copies_LastCrawlInfo:
  assumes "ext_laws x"
  shows
  "copies (type_LastCrawlInfo x) (DeepCopyInto_LastCrawlInfo x)"
  unfolding type_LastCrawlInfo_def DeepCopyInto_LastCrawlInfo_def
  by (rule copy_struct_copies) (simp_all add: copy_rules ext_lawsD [OF assms])

definition DeepCopyInto_MLTransform :: "api_library \<Rightarrow> copier" where
  "DeepCopyInto_MLTransform x = copy_struct
     [(''CreatedOn'', Time_DeepCopy x), (''Description'', copy_ptr shallow),
      (''GlueVersion'', copy_ptr shallow), (''LastModifiedOn'', Time_DeepCopy x),
      (''MaxCapacity'', copy_ptr shallow), (''MaxRetries'', copy_ptr shallow),
      (''Name'', copy_ptr shallow), (''NumberOfWorkers'', copy_ptr shallow),
      (''Role'', copy_ptr shallow), (''Timeout'', copy_ptr shallow),
      (''WorkerType'', copy_ptr shallow)]"

definition DeepCopy_MLTransform :: "api_library \<Rightarrow> copier" where
  "DeepCopy_MLTransform x = copy_ptr (DeepCopyInto_MLTransform x)"

lemma copies_MLTransform:
  assumes "ext_laws x"
  shows
  "copies (type_MLTransform x) (DeepCopyInto_MLTransform x)"
  unfolding type_MLTransform_def DeepCopyInto_MLTransform_def
  by (rule copy_struct_copies) (simp_all add: copy_rules ext_lawsD [OF assms])

definition DeepCopyInto_MLUserDataEncryption :: copier where
  "DeepCopyInto_MLUserDataEncryption = copy_struct
     [(''KMSKeyID'', copy_ptr shallow)]"

definition DeepCopy_MLUserDataEncryption :: copier where
  "DeepCopy_MLUserDataEncryption = copy_ptr DeepCopyInto_MLUserDataEncryption"

lemma copies_MLUserDataEncryption:
  "copies type_MLUserDataEncryption DeepCopyInto_MLUserDataEncryption"
  unfolding type_MLUserDataEncryption_def DeepCopyInto_MLUserDataEncryption_def
  by (rule copy_struct_copies) (simp_all add: copy_rules)

definition DeepCopyInto_MetricBasedObservation :: copier where
  "DeepCopyInto_MetricBasedObservation = copy_struct
     [(''MetricName'', copy_ptr shallow)]"

definition DeepCopy_MetricBasedObservation :: copier where
  "DeepCopy_MetricBasedObservation = copy_ptr DeepCopyInto_MetricBasedObservation"

lemma copies_MetricBasedObservation:
  "copies type_MetricBasedObservation DeepCopyInto_MetricBasedObservation"
  unfolding type_MetricBasedObservation_def DeepCopyInto_MetricBasedObservation_def
  by (rule copy_struct_copies) (simp_all add: copy_rules)

definition DeepCopyInto_MongoDBTarget :: copier where
  "DeepCopyInto_MongoDBTarget = copy_struct
     [(''ScanAll'', copy_ptr shallow)]"

definition DeepCopy_MongoDBTarget :: copier where
  "DeepCopy_MongoDBTarget = copy_ptr DeepCopyInto_MongoDBTarget"

lemma copies_MongoDBTarget:
  "copies type_MongoDBTarget DeepCopyInto_MongoDBTarget"
  unfolding type_MongoDBTarget_def DeepCopyInto_MongoDBTarget_def
  by (rule copy_struct_copies) (simp_all add: copy_rules)

definition DeepCopyInto_Node :: copier where
  "DeepCopyInto_Node = copy_struct
     [(''Name'', copy_ptr shallow), (''UniqueID'', copy_ptr shallow)]"

definition DeepCopy_Node :: copier where
  "DeepCopy_Node = copy_ptr DeepCopyInto_Node"

lemma copies_Node:
  "copies type_Node DeepCopyInto_Node"
  unfolding type_Node_def DeepCopyInto_Node_def
  by (rule copy_struct_copies) (simp_all add: copy_rules)

end
