(* ===== verification/Api_Copy_4.thy ===== *)
theory Api_Copy_4
  imports Api_Copy_3
begin

text \<open>
  Deep copies of apis/v1alpha1/zz_generated.deepcopy.go, part 4 of 4, in order of use
  (Order to JobList): each DeepCopyInto with the statements of its body, each
  DeepCopy on a pointer, and the lemma that the listed fields are all the fields that need copying.
\<close>

definition DeepCopyInto_Order :: copier where
  "DeepCopyInto_Order = copy_struct
     [(''Column'', copy_ptr shallow)]"

definition DeepCopy_Order :: copier where
  "DeepCopy_Order = copy_ptr DeepCopyInto_Order"

lemma copies_Order:
  "copies type_Order DeepCopyInto_Order"
  unfolding type_Order_def DeepCopyInto_Order_def
  by (rule copy_struct_copies) (simp_all add: copy_rules)

definition DeepCopyInto_Partition :: "api_library \<Rightarrow> map_order \<Rightarrow> copier" where
  "DeepCopyInto_Partition x ord = copy_struct
     [(''CatalogID'', copy_ptr shallow), (''CreationTime'', Time_DeepCopy x),
      (''DatabaseName'', copy_ptr shallow), (''LastAccessTime'', Time_DeepCopy x),
      (''LastAnalyzedTime'', Time_DeepCopy x), (''Parameters'', copy_map ord (copy_ptr shallow)),
      (''TableName'', copy_ptr shallow)]"

definition DeepCopy_Partition :: "api_library \<Rightarrow> map_order \<Rightarrow> copier" where
  "DeepCopy_Partition x ord = copy_ptr (DeepCopyInto_Partition x ord)"

lemma copies_Partition:
  assumes "ext_laws x"
  shows
  "copies (type_Partition x) (DeepCopyInto_Partition x ord)"
  unfolding type_Partition_def DeepCopyInto_Partition_def
  by (rule copy_struct_copies) (simp_all add: copy_rules ext_lawsD [OF assms])

definition DeepCopyInto_PartitionIndex :: copier where
  "DeepCopyInto_PartitionIndex = copy_struct
     [(''IndexName'', copy_ptr shallow)]"

definition DeepCopy_PartitionIndex :: copier where
  "DeepCopy_PartitionIndex = copy_ptr DeepCopyInto_PartitionIndex"

lemma copies_PartitionIndex:
  "copies type_PartitionIndex DeepCopyInto_PartitionIndex"
  unfolding type_PartitionIndex_def DeepCopyInto_PartitionIndex_def
  by (rule copy_struct_copies) (simp_all add: copy_rules)

definition DeepCopyInto_PartitionIndexDescriptor :: copier where
  "DeepCopyInto_PartitionIndexDescriptor = copy_struct
     [(''IndexName'', copy_ptr shallow)]"

definition DeepCopy_PartitionIndexDescriptor :: copier where
  "DeepCopy_PartitionIndexDescriptor = copy_ptr DeepCopyInto_PartitionIndexDescriptor"

lemma copies_PartitionIndexDescriptor:
  "copies type_PartitionIndexDescriptor DeepCopyInto_PartitionIndexDescriptor"
  unfolding type_PartitionIndexDescriptor_def DeepCopyInto_PartitionIndexDescriptor_def
  by (rule copy_struct_copies) (simp_all add: copy_rules)

definition DeepCopyInto_PartitionInput :: "api_library \<Rightarrow> map_order \<Rightarrow> copier" where
  "DeepCopyInto_PartitionInput x ord = copy_struct
     [(''LastAccessTime'', Time_DeepCopy x), (''LastAnalyzedTime'', Time_DeepCopy x),
      (''Parameters'', copy_map ord (copy_ptr shallow))]"

definition DeepCopy_PartitionInput :: "api_library \<Rightarrow> map_order \<Rightarrow> copier" where
  "DeepCopy_PartitionInput x ord = copy_ptr (DeepCopyInto_PartitionInput x ord)"

lemma copies_PartitionInput:
  assumes "ext_laws x"
  shows
  "copies (type_PartitionInput x) (DeepCopyInto_PartitionInput x ord)"
  unfolding type_PartitionInput_def DeepCopyInto_PartitionInput_def
  by (rule copy_struct_copies) (simp_all add: copy_rules ext_lawsD [OF assms])

definition DeepCopyInto_PhysicalConnectionRequirements :: copier where
  "DeepCopyInto_PhysicalConnectionRequirements = copy_struct
     [(''AvailabilityZone'', copy_ptr shallow), (''SubnetID'', copy_ptr shallow)]"

definition DeepCopy_PhysicalConnectionRequirements :: copier where
  "DeepCopy_PhysicalConnectionRequirements = copy_ptr DeepCopyInto_PhysicalConnectionRequirements"

lemma copies_PhysicalConnectionRequirements:
  "copies type_PhysicalConnectionRequirements DeepCopyInto_PhysicalConnectionRequirements"
  unfolding type_PhysicalConnectionRequirements_def DeepCopyInto_PhysicalConnectionRequirements_def
  by (rule copy_struct_copies) (simp_all add: copy_rules)

definition DeepCopyInto_Predecessor :: copier where
  "DeepCopyInto_Predecessor = copy_struct
     [(''JobName'', copy_ptr shallow)]"

definition DeepCopy_Predecessor :: copier where
  "DeepCopy_Predecessor = copy_ptr DeepCopyInto_Predecessor"

lemma copies_Predecessor:
  "copies type_Predecessor DeepCopyInto_Predecessor"
  unfolding type_Predecessor_def DeepCopyInto_Predecessor_def
  by (rule copy_struct_copies) (simp_all add: copy_rules)

definition DeepCopyInto_QuerySessionContext :: "api_library \<Rightarrow> copier" where
  "DeepCopyInto_QuerySessionContext x = copy_struct
     [(''QueryStartTime'', Time_DeepCopy x)]"

definition DeepCopy_QuerySessionContext :: "api_library \<Rightarrow> copier" where
  "DeepCopy_QuerySessionContext x = copy_ptr (DeepCopyInto_QuerySessionContext x)"

lemma copies_QuerySessionContext:
  assumes "ext_laws x"
  shows
  "copies (type_QuerySessionContext x) (DeepCopyInto_QuerySessionContext x)"
  unfolding type_QuerySessionContext_def DeepCopyInto_QuerySessionContext_def
  by (rule copy_struct_copies) (simp_all add: copy_rules ext_lawsD [OF assms])

definition DeepCopyInto_RegistryListItem :: copier where
  "DeepCopyInto_RegistryListItem = copy_struct
     [(''Description'', copy_ptr shallow)]"

definition DeepCopy_RegistryListItem :: copier where
  "DeepCopy_RegistryListItem = copy_ptr DeepCopyInto_RegistryListItem"

lemma copies_RegistryListItem:
  "copies type_RegistryListItem DeepCopyInto_RegistryListItem"
  unfolding type_RegistryListItem_def DeepCopyInto_RegistryListItem_def
  by (rule copy_struct_copies) (simp_all add: copy_rules)

definition DeepCopyInto_ResourceURI :: copier where
  "DeepCopyInto_ResourceURI = copy_struct
     [(''URI'', copy_ptr shallow)]"

definition DeepCopy_ResourceURI :: copier where
  "DeepCopy_ResourceURI = copy_ptr DeepCopyInto_ResourceURI"

lemma copies_ResourceURI:
  "copies type_ResourceURI DeepCopyInto_ResourceURI"
  unfolding type_ResourceURI_def DeepCopyInto_ResourceURI_def
  by (rule copy_struct_copies) (simp_all add: copy_rules)

definition DeepCopyInto_S3Target :: copier where
  "DeepCopyInto_S3Target = copy_struct
     [(''SampleSize'', copy_ptr shallow)]"

definition DeepCopy_S3Target :: copier where
  "DeepCopy_S3Target = copy_ptr DeepCopyInto_S3Target"

lemma copies_S3Target:
  "copies type_S3Target DeepCopyInto_S3Target"
  unfolding type_S3Target_def DeepCopyInto_S3Target_def
  by (rule copy_struct_copies) (simp_all add: copy_rules)

definition DeepCopyInto_SchemaColumn :: copier where
  "DeepCopyInto_SchemaColumn = copy_struct
     [(''DataType'', copy_ptr shallow)]"

definition DeepCopy_SchemaColumn :: copier where
  "DeepCopy_SchemaColumn = copy_ptr DeepCopyInto_SchemaColumn"

lemma copies_SchemaColumn:
  "copies type_SchemaColumn DeepCopyInto_SchemaColumn"
  unfolding type_SchemaColumn_def DeepCopyInto_SchemaColumn_def
  by (rule copy_struct_copies) (simp_all add: copy_rules)

definition DeepCopyInto_SchemaListItem :: copier where
  "DeepCopyInto_SchemaListItem = copy_struct
     [(''Description'', copy_ptr shallow)]"

definition DeepCopy_SchemaListItem :: copier where
  "DeepCopy_SchemaListItem = copy_ptr DeepCopyInto_SchemaListItem"

lemma copies_SchemaListItem:
  "copies type_SchemaListItem DeepCopyInto_SchemaListItem"
  unfolding type_SchemaListItem_def DeepCopyInto_SchemaListItem_def
  by (rule copy_struct_copies) (simp_all add: copy_rules)

definition DeepCopyInto_SecurityConfiguration :: "api_library \<Rightarrow> copier" where
  "DeepCopyInto_SecurityConfiguration x = copy_struct
     [(''CreatedTimeStamp'', Time_DeepCopy x), (''Name'', copy_ptr shallow)]"

definition DeepCopy_SecurityConfiguration :: "api_library \<Rightarrow> copier" where
  "DeepCopy_SecurityConfiguration x = copy_ptr (DeepCopyInto_SecurityConfiguration x)"

lemma copies_SecurityConfiguration:
  assumes "ext_laws x"
  shows
  "copies (type_SecurityConfiguration x) (DeepCopyInto_SecurityConfiguration x)"
  unfolding type_SecurityConfiguration_def DeepCopyInto_SecurityConfiguration_def
  by (rule copy_struct_copies) (simp_all add: copy_rules ext_lawsD [OF assms])

definition DeepCopyInto_SerDeInfo :: "map_order \<Rightarrow> copier" where
  "DeepCopyInto_SerDeInfo ord = copy_struct
     [(''Name'', copy_ptr shallow), (''Parameters'', copy_map ord (copy_ptr shallow)),
      (''SerializationLibrary'', copy_ptr shallow)]"

definition DeepCopy_SerDeInfo :: "map_order \<Rightarrow> copier" where
  "DeepCopy_SerDeInfo ord = copy_ptr (DeepCopyInto_SerDeInfo ord)"

lemma copies_SerDeInfo:
  "copies type_SerDeInfo (DeepCopyInto_SerDeInfo ord)"
  unfolding type_SerDeInfo_def DeepCopyInto_SerDeInfo_def
  by (rule copy_struct_copies) (simp_all add: copy_rules)

definition DeepCopyInto_Session :: "api_library \<Rightarrow> copier" where
  "DeepCopyInto_Session x = copy_struct
     [(''CompletedOn'', Time_DeepCopy x), (''Connections'', copy_ptr DeepCopyInto_ConnectionsList),
      (''CreatedOn'', Time_DeepCopy x), (''DPUSeconds'', copy_ptr shallow),
      (''Description'', copy_ptr shallow), (''ErrorMessage'', copy_ptr shallow),
      (''ExecutionTime'', copy_ptr shallow), (''GlueVersion'', copy_ptr shallow),
      (''ID'', copy_ptr shallow), (''MaxCapacity'', copy_ptr shallow),
      (''NumberOfWorkers'', copy_ptr shallow), (''ProfileName'', copy_ptr shallow),
      (''SecurityConfiguration'', copy_ptr shallow), (''WorkerType'', copy_ptr shallow)]"

definition DeepCopy_Session :: "api_library \<Rightarrow> copier" where
  "DeepCopy_Session x = copy_ptr (DeepCopyInto_Session x)"

lemma copies_Session:
  assumes "ext_laws x"
  shows
  "copies (type_Session x) (DeepCopyInto_Session x)"
  unfolding type_Session_def DeepCopyInto_Session_def
  by (rule copy_struct_copies) (simp_all add: copy_rules copies_ConnectionsList ext_lawsD [OF assms])

definition DeepCopyInto_SessionCommand :: copier where
  "DeepCopyInto_SessionCommand = copy_struct
     [(''Name'', copy_ptr shallow), (''PythonVersion'', copy_ptr shallow)]"

definition DeepCopy_SessionCommand :: copier where
  "DeepCopy_SessionCommand = copy_ptr DeepCopyInto_SessionCommand"

lemma copies_SessionCommand:
  "copies type_SessionCommand DeepCopyInto_SessionCommand"
  unfolding type_SessionCommand_def DeepCopyInto_SessionCommand_def
  by (rule copy_struct_copies) (simp_all add: copy_rules)

definition DeepCopyInto_StartingEventBatchCondition :: copier where
  "DeepCopyInto_StartingEventBatchCondition = copy_struct
     [(''BatchSize'', copy_ptr shallow), (''BatchWindow'', copy_ptr shallow)]"

definition DeepCopy_StartingEventBatchCondition :: copier where
  "DeepCopy_StartingEventBatchCondition = copy_ptr DeepCopyInto_StartingEventBatchCondition"

lemma copies_StartingEventBatchCondition:
  "copies type_StartingEventBatchCondition DeepCopyInto_StartingEventBatchCondition"
  unfolding type_StartingEventBatchCondition_def DeepCopyInto_StartingEventBatchCondition_def
  by (rule copy_struct_copies) (simp_all add: copy_rules)

definition DeepCopyInto_Statement :: copier where
  "DeepCopyInto_Statement = copy_struct
     [(''Code'', copy_ptr shallow), (''ID'', copy_ptr shallow)]"

definition DeepCopy_Statement :: copier where
  "DeepCopy_Statement = copy_ptr DeepCopyInto_Statement"

lemma copies_Statement:
  "copies type_Statement DeepCopyInto_Statement"
  unfolding type_Statement_def DeepCopyInto_Statement_def
  by (rule copy_struct_copies) (simp_all add: copy_rules)

definition DeepCopyInto_StatementOutput :: copier where
  "DeepCopyInto_StatementOutput = copy_struct
     [(''ErrorName'', copy_ptr shallow), (''ErrorValue'', copy_ptr shallow),
      (''ExecutionCount'', copy_ptr shallow), (''Traceback'', copy_slice (copy_ptr shallow))]"

definition DeepCopy_StatementOutput :: copier where
  "DeepCopy_StatementOutput = copy_ptr DeepCopyInto_StatementOutput"

lemma copies_StatementOutput:
  "copies type_StatementOutput DeepCopyInto_StatementOutput"
  unfolding type_StatementOutput_def DeepCopyInto_StatementOutput_def
  by (rule copy_struct_copies) (simp_all add: copy_rules)

definition DeepCopyInto_StatementOutputData :: copier where
  "DeepCopyInto_StatementOutputData = copy_struct
     [(''TextPlain'', copy_ptr shallow)]"

definition DeepCopy_StatementOutputData :: copier where
  "DeepCopy_StatementOutputData = copy_ptr DeepCopyInto_StatementOutputData"

lemma copies_StatementOutputData:
  "copies type_StatementOutputData DeepCopyInto_StatementOutputData"
  unfolding type_StatementOutputData_def DeepCopyInto_StatementOutputData_def
  by (rule copy_struct_copies) (simp_all add: copy_rules)

definition DeepCopyInto_StatisticAnnotation :: "api_library \<Rightarrow> copier" where
  "DeepCopyInto_StatisticAnnotation x = copy_struct
     [(''StatisticRecordedOn'', Time_DeepCopy x)]"

definition DeepCopy_StatisticAnnotation :: "api_library \<Rightarrow> copier" where
  "DeepCopy_StatisticAnnotation x = copy_ptr (DeepCopyInto_StatisticAnnotation x)"

lemma copies_StatisticAnnotation:
  assumes "ext_laws x"
  shows
  "copies (type_StatisticAnnotation x) (DeepCopyInto_StatisticAnnotation x)"
  unfolding type_StatisticAnnotation_def DeepCopyInto_StatisticAnnotation_def
  by (rule copy_struct_copies) (simp_all add: copy_rules ext_lawsD [OF assms])

definition DeepCopyInto_StatisticModelResult :: "api_library \<Rightarrow> copier" where
  "DeepCopyInto_StatisticModelResult x = copy_struct
     [(''ActualValue'', copy_ptr shallow), (''Date'', Time_DeepCopy x),
      (''LowerBound'', copy_ptr shallow), (''PredictedValue'', copy_ptr shallow),
      (''UpperBound'', copy_ptr shallow)]"

definition DeepCopy_StatisticModelResult :: "api_library \<Rightarrow> copier" where
  "DeepCopy_StatisticModelResult x = copy_ptr (DeepCopyInto_StatisticModelResult x)"

lemma copies_StatisticModelResult:
  assumes "ext_laws x"
  shows
  "copies (type_StatisticModelResult x) (DeepCopyInto_StatisticModelResult x)"
  unfolding type_StatisticModelResult_def DeepCopyInto_StatisticModelResult_def
  by (rule copy_struct_copies) (simp_all add: copy_rules ext_lawsD [OF assms])

definition DeepCopyInto_StatisticSummary :: "api_library \<Rightarrow> copier" where
  "DeepCopyInto_StatisticSummary x = copy_struct
     [(''RecordedOn'', Time_DeepCopy x)]"

definition DeepCopy_StatisticSummary :: "api_library \<Rightarrow> copier" where
  "DeepCopy_StatisticSummary x = copy_ptr (DeepCopyInto_StatisticSummary x)"

lemma copies_StatisticSummary:
  assumes "ext_laws x"
  shows
  "copies (type_StatisticSummary x) (DeepCopyInto_StatisticSummary x)"
  unfolding type_StatisticSummary_def DeepCopyInto_StatisticSummary_def
  by (rule copy_struct_copies) (simp_all add: copy_rules ext_lawsD [OF assms])

definition DeepCopyInto_StorageDescriptor :: "map_order \<Rightarrow> copier" where
  "DeepCopyInto_StorageDescriptor ord = copy_struct
     [(''Parameters'', copy_map ord (copy_ptr shallow))]"

definition DeepCopy_StorageDescriptor :: "map_order \<Rightarrow> copier" where
  "DeepCopy_StorageDescriptor ord = copy_ptr (DeepCopyInto_StorageDescriptor ord)"

lemma copies_StorageDescriptor:
  "copies type_StorageDescriptor (DeepCopyInto_StorageDescriptor ord)"
  unfolding type_StorageDescriptor_def DeepCopyInto_StorageDescriptor_def
  by (rule copy_struct_copies) (simp_all add: copy_rules)

definition DeepCopyInto_Table :: copier where
  "DeepCopyInto_Table = copy_struct
     [(''CatalogID'', copy_ptr shallow), (''ConnectionName'', copy_ptr shallow),
      (''DatabaseName'', copy_ptr shallow), (''TableName'', copy_ptr shallow)]"

definition DeepCopy_Table :: copier where
  "DeepCopy_Table = copy_ptr DeepCopyInto_Table"

lemma copies_Table:
  "copies type_Table DeepCopyInto_Table"
  unfolding type_Table_def DeepCopyInto_Table_def
  by (rule copy_struct_copies) (simp_all add: copy_rules)

definition DeepCopyInto_TableData :: "api_library \<Rightarrow> map_order \<Rightarrow> copier" where
  "DeepCopyInto_TableData x ord = copy_struct
     [(''CatalogID'', copy_ptr shallow), (''CreateTime'', Time_DeepCopy x),
      (''CreatedBy'', copy_ptr shallow), (''DatabaseName'', copy_ptr shallow),
      (''Description'', copy_ptr shallow), (''IsMultiDialectView'', copy_ptr shallow),
      (''LastAccessTime'', Time_DeepCopy x), (''LastAnalyzedTime'', Time_DeepCopy x),
      (''Name'', copy_ptr shallow), (''Owner'', copy_ptr shallow),
      (''Parameters'', copy_map ord (copy_ptr shallow)), (''UpdateTime'', Time_DeepCopy x)]"

definition DeepCopy_TableData :: "api_library \<Rightarrow> map_order \<Rightarrow> copier" where
  "DeepCopy_TableData x ord = copy_ptr (DeepCopyInto_TableData x ord)"

lemma copies_TableData:
  assumes "ext_laws x"
  shows
  "copies (type_TableData x) (DeepCopyInto_TableData x ord)"
  unfolding type_TableData_def DeepCopyInto_TableData_def
  by (rule copy_struct_copies) (simp_all add: copy_rules ext_lawsD [OF assms])

definition DeepCopyInto_TableError :: copier where
  "DeepCopyInto_TableError = copy_struct
     [(''TableName'', copy_ptr shallow)]"

definition DeepCopy_TableError :: copier where
  "DeepCopy_TableError = copy_ptr DeepCopyInto_TableError"

lemma copies_TableError:
  "copies type_TableError DeepCopyInto_TableError"
  unfolding type_TableError_def DeepCopyInto_TableError_def
  by (rule copy_struct_copies) (simp_all add: copy_rules)

definition DeepCopyInto_TableIdentifier :: copier where
  "DeepCopyInto_TableIdentifier = copy_struct
     [(''CatalogID'', copy_ptr shallow), (''DatabaseName'', copy_ptr shallow),
      (''Name'', copy_ptr shallow), (''Region'', copy_ptr shallow)]"

definition DeepCopy_TableIdentifier :: copier where
  "DeepCopy_TableIdentifier = copy_ptr DeepCopyInto_TableIdentifier"

lemma copies_TableIdentifier:
  "copies type_TableIdentifier DeepCopyInto_TableIdentifier"
  unfolding type_TableIdentifier_def DeepCopyInto_TableIdentifier_def
  by (rule copy_struct_copies) (simp_all add: copy_rules)

definition DeepCopyInto_TableInput :: "api_library \<Rightarrow> map_order \<Rightarrow> copier" where
  "DeepCopyInto_TableInput x ord = copy_struct
     [(''Description'', copy_ptr shallow), (''LastAccessTime'', Time_DeepCopy x),
      (''LastAnalyzedTime'', Time_DeepCopy x), (''Name'', copy_ptr shallow),
      (''Owner'', copy_ptr shallow), (''Parameters'', copy_map ord (copy_ptr shallow))]"

definition DeepCopy_TableInput :: "api_library \<Rightarrow> map_order \<Rightarrow> copier" where
  "DeepCopy_TableInput x ord = copy_ptr (DeepCopyInto_TableInput x ord)"

lemma copies_TableInput:
  assumes "ext_laws x"
  shows
  "copies (type_TableInput x) (DeepCopyInto_TableInput x ord)"
  unfolding type_TableInput_def DeepCopyInto_TableInput_def
  by (rule copy_struct_copies) (simp_all add: copy_rules ext_lawsD [OF assms])

definition DeepCopyInto_TableOptimizerConfiguration :: copier where
  "DeepCopyInto_TableOptimizerConfiguration = copy_struct
     [(''Enabled'', copy_ptr shallow)]"

definition DeepCopy_TableOptimizerConfiguration :: copier where
  "DeepCopy_TableOptimizerConfiguration = copy_ptr DeepCopyInto_TableOptimizerConfiguration"

lemma copies_TableOptimizerConfiguration:
  "copies type_TableOptimizerConfiguration DeepCopyInto_TableOptimizerConfiguration"
  unfolding type_TableOptimizerConfiguration_def DeepCopyInto_TableOptimizerConfiguration_def
  by (rule copy_struct_copies) (simp_all add: copy_rules)

definition DeepCopyInto_TableStatus :: "api_library \<Rightarrow> copier" where
  "DeepCopyInto_TableStatus x = copy_struct
     [(''RequestTime'', Time_DeepCopy x), (''RequestedBy'', copy_ptr shallow),
      (''UpdateTime'', Time_DeepCopy x), (''UpdatedBy'', copy_ptr shallow)]"

definition DeepCopy_TableStatus :: "api_library \<Rightarrow> copier" where
  "DeepCopy_TableStatus x = copy_ptr (DeepCopyInto_TableStatus x)"

lemma copies_TableStatus:
  assumes "ext_laws x"
  shows
  "copies (type_TableStatus x) (DeepCopyInto_TableStatus x)"
  unfolding type_TableStatus_def DeepCopyInto_TableStatus_def
  by (rule copy_struct_copies) (simp_all add: copy_rules ext_lawsD [OF assms])

definition DeepCopyInto_TableVersionError :: copier where
  "DeepCopyInto_TableVersionError = copy_struct
     [(''TableName'', copy_ptr shallow)]"

definition DeepCopy_TableVersionError :: copier where
  "DeepCopy_TableVersionError = copy_ptr DeepCopyInto_TableVersionError"

lemma copies_TableVersionError:
  "copies type_TableVersionError DeepCopyInto_TableVersionError"
  unfolding type_TableVersionError_def DeepCopyInto_TableVersionError_def
  by (rule copy_struct_copies) (simp_all add: copy_rules)

definition DeepCopyInto_TaskRun :: "api_library \<Rightarrow> copier" where
  "DeepCopyInto_TaskRun x = copy_struct
     [(''CompletedOn'', Time_DeepCopy x), (''ErrorString'', copy_ptr shallow),
      (''LastModifiedOn'', Time_DeepCopy x), (''LogGroupName'', copy_ptr shallow),
      (''StartedOn'', Time_DeepCopy x)]"

definition DeepCopy_TaskRun :: "api_library \<Rightarrow> copier" where
  "DeepCopy_TaskRun x = copy_ptr (DeepCopyInto_TaskRun x)"

lemma copies_TaskRun:
  assumes "ext_laws x"
  shows
  "copies (type_TaskRun x) (DeepCopyInto_TaskRun x)"
  unfolding type_TaskRun_def DeepCopyInto_TaskRun_def
  by (rule copy_struct_copies) (simp_all add: copy_rules ext_lawsD [OF assms])

definition DeepCopyInto_TaskRunFilterCriteria :: "api_library \<Rightarrow> copier" where
  "DeepCopyInto_TaskRunFilterCriteria x = copy_struct
     [(''StartedAfter'', Time_DeepCopy x), (''StartedBefore'', Time_DeepCopy x)]"

definition DeepCopy_TaskRunFilterCriteria :: "api_library \<Rightarrow> copier" where
  "DeepCopy_TaskRunFilterCriteria x = copy_ptr (DeepCopyInto_TaskRunFilterCriteria x)"

lemma copies_TaskRunFilterCriteria:
  assumes "ext_laws x"
  shows
  "copies (type_TaskRunFilterCriteria x) (DeepCopyInto_TaskRunFilterCriteria x)"
  unfolding type_TaskRunFilterCriteria_def DeepCopyInto_TaskRunFilterCriteria_def
  by (rule copy_struct_copies) (simp_all add: copy_rules ext_lawsD [OF assms])

definition DeepCopyInto_TimestampFilter :: "api_library \<Rightarrow> copier" where
  "DeepCopyInto_TimestampFilter x = copy_struct
     [(''RecordedAfter'', Time_DeepCopy x), (''RecordedBefore'', Time_DeepCopy x)]"

definition DeepCopy_TimestampFilter :: "api_library \<Rightarrow> copier" where
  "DeepCopy_TimestampFilter x = copy_ptr (DeepCopyInto_TimestampFilter x)"

lemma copies_TimestampFilter:
  assumes "ext_laws x"
  shows
  "copies (type_TimestampFilter x) (DeepCopyInto_TimestampFilter x)"
  unfolding type_TimestampFilter_def DeepCopyInto_TimestampFilter_def
  by (rule copy_struct_copies) (simp_all add: copy_rules ext_lawsD [OF assms])

definition DeepCopyInto_TimestampedInclusionAnnotation :: "api_library \<Rightarrow> copier" where
  "DeepCopyInto_TimestampedInclusionAnnotation x = copy_struct
     [(''LastModifiedOn'', Time_DeepCopy x)]"

definition DeepCopy_TimestampedInclusionAnnotation :: "api_library \<Rightarrow> copier" where
  "DeepCopy_TimestampedInclusionAnnotation x = copy_ptr (DeepCopyInto_TimestampedInclusionAnnotation x)"

lemma copies_TimestampedInclusionAnnotation:
  assumes "ext_laws x"
  shows
  "copies (type_TimestampedInclusionAnnotation x) (DeepCopyInto_TimestampedInclusionAnnotation x)"
  unfolding type_TimestampedInclusionAnnotation_def DeepCopyInto_TimestampedInclusionAnnotation_def
  by (rule copy_struct_copies) (simp_all add: copy_rules ext_lawsD [OF assms])

definition DeepCopyInto_TransformEncryption :: copier where
  "DeepCopyInto_TransformEncryption = copy_struct
     [(''TaskRunSecurityConfigurationName'', copy_ptr shallow)]"

definition DeepCopy_TransformEncryption :: copier where
  "DeepCopy_TransformEncryption = copy_ptr DeepCopyInto_TransformEncryption"

lemma copies_TransformEncryption:
  "copies type_TransformEncryption DeepCopyInto_TransformEncryption"
  unfolding type_TransformEncryption_def DeepCopyInto_TransformEncryption_def
  by (rule copy_struct_copies) (simp_all add: copy_rules)

definition DeepCopyInto_TransformFilterCriteria :: "api_library \<Rightarrow> copier" where
  "DeepCopyInto_TransformFilterCriteria x = copy_struct
     [(''CreatedAfter'', Time_DeepCopy x), (''CreatedBefore'', Time_DeepCopy x),
      (''GlueVersion'', copy_ptr shallow), (''LastModifiedAfter'', Time_DeepCopy x),
      (''LastModifiedBefore'', Time_DeepCopy x), (''Name'', copy_ptr shallow)]"

definition DeepCopy_TransformFilterCriteria :: "api_library \<Rightarrow> copier" where
  "DeepCopy_TransformFilterCriteria x = copy_ptr (DeepCopyInto_TransformFilterCriteria x)"

lemma copies_TransformFilterCriteria:
  assumes "ext_laws x"
  shows
  "copies (type_TransformFilterCriteria x) (DeepCopyInto_TransformFilterCriteria x)"
  unfolding type_TransformFilterCriteria_def DeepCopyInto_TransformFilterCriteria_def
  by (rule copy_struct_copies) (simp_all add: copy_rules ext_lawsD [OF assms])

definition DeepCopyInto_Trigger :: copier where
  "DeepCopyInto_Trigger = copy_struct
     [(''Description'', copy_ptr shallow), (''Name'', copy_ptr shallow),
      (''Schedule'', copy_ptr shallow), (''WorkflowName'', copy_ptr shallow)]"

definition DeepCopy_Trigger :: copier where
  "DeepCopy_Trigger = copy_ptr DeepCopyInto_Trigger"

lemma copies_Trigger:
  "copies type_Trigger DeepCopyInto_Trigger"
  unfolding type_Trigger_def DeepCopyInto_Trigger_def
  by (rule copy_struct_copies) (simp_all add: copy_rules)

definition DeepCopyInto_TriggerUpdate :: copier where
  "DeepCopyInto_TriggerUpdate = copy_struct
     [(''Description'', copy_ptr shallow), (''Name'', copy_ptr shallow),
      (''Schedule'', copy_ptr shallow)]"

definition DeepCopy_TriggerUpdate :: copier where
  "DeepCopy_TriggerUpdate = copy_ptr DeepCopyInto_TriggerUpdate"

lemma copies_TriggerUpdate:
  "copies type_TriggerUpdate DeepCopyInto_TriggerUpdate"
  unfolding type_TriggerUpdate_def DeepCopyInto_TriggerUpdate_def
  by (rule copy_struct_copies) (simp_all add: copy_rules)

definition DeepCopyInto_UpdateCsvClassifierRequest :: copier where
  "DeepCopyInto_UpdateCsvClassifierRequest = copy_struct
     [(''AllowSingleColumn'', copy_ptr shallow), (''CustomDatatypeConfigured'', copy_ptr shallow),
      (''DisableValueTrimming'', copy_ptr shallow), (''Name'', copy_ptr shallow)]"

definition DeepCopy_UpdateCsvClassifierRequest :: copier where
  "DeepCopy_UpdateCsvClassifierRequest = copy_ptr DeepCopyInto_UpdateCsvClassifierRequest"

lemma copies_UpdateCsvClassifierRequest:
  "copies type_UpdateCsvClassifierRequest DeepCopyInto_UpdateCsvClassifierRequest"
  unfolding type_UpdateCsvClassifierRequest_def DeepCopyInto_UpdateCsvClassifierRequest_def
  by (rule copy_struct_copies) (simp_all add: copy_rules)

definition DeepCopyInto_UpdateGrokClassifierRequest :: copier where
  "DeepCopyInto_UpdateGrokClassifierRequest = copy_struct
     [(''Name'', copy_ptr shallow)]"

definition DeepCopy_UpdateGrokClassifierRequest :: copier where
  "DeepCopy_UpdateGrokClassifierRequest = copy_ptr DeepCopyInto_UpdateGrokClassifierRequest"

lemma copies_UpdateGrokClassifierRequest:
  "copies type_UpdateGrokClassifierRequest DeepCopyInto_UpdateGrokClassifierRequest"
  unfolding type_UpdateGrokClassifierRequest_def DeepCopyInto_UpdateGrokClassifierRequest_def
  by (rule copy_struct_copies) (simp_all add: copy_rules)

definition DeepCopyInto_UpdateJSONClassifierRequest :: copier where
  "DeepCopyInto_UpdateJSONClassifierRequest = copy_struct
     [(''Name'', copy_ptr shallow)]"

definition DeepCopy_UpdateJSONClassifierRequest :: copier where
  "DeepCopy_UpdateJSONClassifierRequest = copy_ptr DeepCopyInto_UpdateJSONClassifierRequest"

lemma copies_UpdateJSONClassifierRequest:
  "copies type_UpdateJSONClassifierRequest DeepCopyInto_UpdateJSONClassifierRequest"
  unfolding type_UpdateJSONClassifierRequest_def DeepCopyInto_UpdateJSONClassifierRequest_def
  by (rule copy_struct_copies) (simp_all add: copy_rules)

definition DeepCopyInto_UpdateXMLClassifierRequest :: copier where
  "DeepCopyInto_UpdateXMLClassifierRequest = copy_struct
     [(''Name'', copy_ptr shallow)]"

definition DeepCopy_UpdateXMLClassifierRequest :: copier where
  "DeepCopy_UpdateXMLClassifierRequest = copy_ptr DeepCopyInto_UpdateXMLClassifierRequest"

lemma copies_UpdateXMLClassifierRequest:
  "copies type_UpdateXMLClassifierRequest DeepCopyInto_UpdateXMLClassifierRequest"
  unfolding type_UpdateXMLClassifierRequest_def DeepCopyInto_UpdateXMLClassifierRequest_def
  by (rule copy_struct_copies) (simp_all add: copy_rules)

definition DeepCopyInto_UsageProfileDefinition :: "api_library \<Rightarrow> copier" where
  "DeepCopyInto_UsageProfileDefinition x = copy_struct
     [(''CreatedOn'', Time_DeepCopy x), (''Description'', copy_ptr shallow),
      (''LastModifiedOn'', Time_DeepCopy x), (''Name'', copy_ptr shallow)]"

definition DeepCopy_UsageProfileDefinition :: "api_library \<Rightarrow> copier" where
  "DeepCopy_UsageProfileDefinition x = copy_ptr (DeepCopyInto_UsageProfileDefinition x)"

lemma copies_UsageProfileDefinition:
  assumes "ext_laws x"
  shows
  "copies (type_UsageProfileDefinition x) (DeepCopyInto_UsageProfileDefinition x)"
  unfolding type_UsageProfileDefinition_def DeepCopyInto_UsageProfileDefinition_def
  by (rule copy_struct_copies) (simp_all add: copy_rules ext_lawsD [OF assms])

definition DeepCopyInto_UserDefinedFunction :: "api_library \<Rightarrow> copier" where
  "DeepCopyInto_UserDefinedFunction x = copy_struct
     [(''CatalogID'', copy_ptr shallow), (''ClassName'', copy_ptr shallow),
      (''CreateTime'', Time_DeepCopy x), (''DatabaseName'', copy_ptr shallow),
      (''FunctionName'', copy_ptr shallow), (''OwnerName'', copy_ptr shallow)]"

definition DeepCopy_UserDefinedFunction :: "api_library \<Rightarrow> copier" where
  "DeepCopy_UserDefinedFunction x = copy_ptr (DeepCopyInto_UserDefinedFunction x)"

lemma copies_UserDefinedFunction:
  assumes "ext_laws x"
  shows
  "copies (type_UserDefinedFunction x) (DeepCopyInto_UserDefinedFunction x)"
  unfolding type_UserDefinedFunction_def DeepCopyInto_UserDefinedFunction_def
  by (rule copy_struct_copies) (simp_all add: copy_rules ext_lawsD [OF assms])

definition DeepCopyInto_UserDefinedFunctionInput :: copier where
  "DeepCopyInto_UserDefinedFunctionInput = copy_struct
     [(''ClassName'', copy_ptr shallow), (''FunctionName'', copy_ptr shallow),
      (''OwnerName'', copy_ptr shallow)]"

definition DeepCopy_UserDefinedFunctionInput :: copier where
  "DeepCopy_UserDefinedFunctionInput = copy_ptr DeepCopyInto_UserDefinedFunctionInput"

lemma copies_UserDefinedFunctionInput:
  "copies type_UserDefinedFunctionInput DeepCopyInto_UserDefinedFunctionInput"
  unfolding type_UserDefinedFunctionInput_def DeepCopyInto_UserDefinedFunctionInput_def
  by (rule copy_struct_copies) (simp_all add: copy_rules)

definition DeepCopyInto_ViewDefinition :: copier where
  "DeepCopyInto_ViewDefinition = copy_struct
     [(''IsProtected'', copy_ptr shallow)]"

definition DeepCopy_ViewDefinition :: copier where
  "DeepCopy_ViewDefinition = copy_ptr DeepCopyInto_ViewDefinition"

lemma copies_ViewDefinition:
  "copies type_ViewDefinition DeepCopyInto_ViewDefinition"
  unfolding type_ViewDefinition_def DeepCopyInto_ViewDefinition_def
  by (rule copy_struct_copies) (simp_all add: copy_rules)

definition DeepCopyInto_ViewDefinitionInput :: copier where
  "DeepCopyInto_ViewDefinitionInput = copy_struct
     [(''IsProtected'', copy_ptr shallow)]"

definition DeepCopy_ViewDefinitionInput :: copier where
  "DeepCopy_ViewDefinitionInput = copy_ptr DeepCopyInto_ViewDefinitionInput"

lemma copies_ViewDefinitionInput:
  "copies type_ViewDefinitionInput DeepCopyInto_ViewDefinitionInput"
  unfolding type_ViewDefinitionInput_def DeepCopyInto_ViewDefinitionInput_def
  by (rule copy_struct_copies) (simp_all add: copy_rules)

definition DeepCopyInto_ViewRepresentation :: copier where
  "DeepCopyInto_ViewRepresentation = copy_struct
     [(''IsStale'', copy_ptr shallow), (''ValidationConnection'', copy_ptr shallow)]"

definition DeepCopy_ViewRepresentation :: copier where
  "DeepCopy_ViewRepresentation = copy_ptr DeepCopyInto_ViewRepresentation"

lemma copies_ViewRepresentation:
  "copies type_ViewRepresentation DeepCopyInto_ViewRepresentation"
  unfolding type_ViewRepresentation_def DeepCopyInto_ViewRepresentation_def
  by (rule copy_struct_copies) (simp_all add: copy_rules)

definition DeepCopyInto_ViewRepresentationInput :: copier where
  "DeepCopyInto_ViewRepresentationInput = copy_struct
     [(''ValidationConnection'', copy_ptr shallow)]"

definition DeepCopy_ViewRepresentationInput :: copier where
  "DeepCopy_ViewRepresentationInput = copy_ptr DeepCopyInto_ViewRepresentationInput"

lemma copies_ViewRepresentationInput:
  "copies type_ViewRepresentationInput DeepCopyInto_ViewRepresentationInput"
  unfolding type_ViewRepresentationInput_def DeepCopyInto_ViewRepresentationInput_def
  by (rule copy_struct_copies) (simp_all add: copy_rules)

definition DeepCopyInto_ViewValidation :: "api_library \<Rightarrow> copier" where
  "DeepCopyInto_ViewValidation x = copy_struct
     [(''UpdateTime'', Time_DeepCopy x)]"

definition DeepCopy_ViewValidation :: "api_library \<Rightarrow> copier" where
  "DeepCopy_ViewValidation x = copy_ptr (DeepCopyInto_ViewValidation x)"

lemma copies_ViewValidation:
  assumes "ext_laws x"
  shows
  "copies (type_ViewValidation x) (DeepCopyInto_ViewValidation x)"
  unfolding type_ViewValidation_def DeepCopyInto_ViewValidation_def
  by (rule copy_struct_copies) (simp_all add: copy_rules ext_lawsD [OF assms])

definition DeepCopyInto_Workflow :: "api_library \<Rightarrow> copier" where
  "DeepCopyInto_Workflow x = copy_struct
     [(''CreatedOn'', Time_DeepCopy x), (''Description'', copy_ptr shallow),
      (''LastModifiedOn'', Time_DeepCopy x), (''MaxConcurrentRuns'', copy_ptr shallow),
      (''Name'', copy_ptr shallow)]"

definition DeepCopy_Workflow :: "api_library \<Rightarrow> copier" where
  "DeepCopy_Workflow x = copy_ptr (DeepCopyInto_Workflow x)"

lemma copies_Workflow:
  assumes "ext_laws x"
  shows
  "copies (type_Workflow x) (DeepCopyInto_Workflow x)"
  unfolding type_Workflow_def DeepCopyInto_Workflow_def
  by (rule copy_struct_copies) (simp_all add: copy_rules ext_lawsD [OF assms])

definition DeepCopyInto_WorkflowRun :: "api_library \<Rightarrow> copier" where
  "DeepCopyInto_WorkflowRun x = copy_struct
     [(''CompletedOn'', Time_DeepCopy x), (''Name'', copy_ptr shallow),
      (''StartedOn'', Time_DeepCopy x)]"

definition DeepCopy_WorkflowRun :: "api_library \<Rightarrow> copier" where
  "DeepCopy_WorkflowRun x = copy_ptr (DeepCopyInto_WorkflowRun x)"

lemma copies_WorkflowRun:
  assumes "ext_laws x"
  shows
  "copies (type_WorkflowRun x) (DeepCopyInto_WorkflowRun x)"
  unfolding type_WorkflowRun_def DeepCopyInto_WorkflowRun_def
  by (rule copy_struct_copies) (simp_all add: copy_rules ext_lawsD [OF assms])

definition DeepCopyInto_WorkflowRunStatistics :: copier where
  "DeepCopyInto_WorkflowRunStatistics = copy_struct
     [(''ErroredActions'', copy_ptr shallow), (''FailedActions'', copy_ptr shallow),
      (''RunningActions'', copy_ptr shallow), (''StoppedActions'', copy_ptr shallow),
      (''SucceededActions'', copy_ptr shallow), (''TimeoutActions'', copy_ptr shallow),
      (''TotalActions'', copy_ptr shallow), (''WaitingActions'', copy_ptr shallow)]"

definition DeepCopy_WorkflowRunStatistics :: copier where
  "DeepCopy_WorkflowRunStatistics = copy_ptr DeepCopyInto_WorkflowRunStatistics"

lemma copies_WorkflowRunStatistics:
  "copies type_WorkflowRunStatistics DeepCopyInto_WorkflowRunStatistics"
  unfolding type_WorkflowRunStatistics_def DeepCopyInto_WorkflowRunStatistics_def
  by (rule copy_struct_copies) (simp_all add: copy_rules)

definition DeepCopyInto_XMLClassifier :: "api_library \<Rightarrow> copier" where
  "DeepCopyInto_XMLClassifier x = copy_struct
     [(''CreationTime'', Time_DeepCopy x), (''LastUpdated'', Time_DeepCopy x),
      (''Name'', copy_ptr shallow)]"

definition DeepCopy_XMLClassifier :: "api_library \<Rightarrow> copier" where
  "DeepCopy_XMLClassifier x = copy_ptr (DeepCopyInto_XMLClassifier x)"

lemma copies_XMLClassifier:
  assumes "ext_laws x"
  shows
  "copies (type_XMLClassifier x) (DeepCopyInto_XMLClassifier x)"
  unfolding type_XMLClassifier_def DeepCopyInto_XMLClassifier_def
  by (rule copy_struct_copies) (simp_all add: copy_rules ext_lawsD [OF assms])

definition DeepCopyInto_DatabaseSpec :: "map_order \<Rightarrow> copier" where
  "DeepCopyInto_DatabaseSpec ord = copy_struct
     [(''CatalogID'', copy_ptr shallow), (''Description'', copy_ptr shallow),
      (''FederatedDatabase'', copy_ptr DeepCopyInto_FederatedDatabase),
      (''LocationURI'', copy_ptr shallow), (''Name'', copy_ptr shallow),
      (''Parameters'', copy_map ord (copy_ptr shallow)),
      (''TableDefaultPermissions'', copy_slice (copy_ptr DeepCopyInto_PrincipalPermissions)),
      (''Tags'', copy_map ord (copy_ptr shallow)),
      (''TargetDatabase'', copy_ptr DeepCopyInto_DatabaseIdentifier)]"

definition DeepCopy_DatabaseSpec :: "map_order \<Rightarrow> copier" where
  "DeepCopy_DatabaseSpec ord = copy_ptr (DeepCopyInto_DatabaseSpec ord)"

lemma copies_DatabaseSpec:
  "copies type_DatabaseSpec (DeepCopyInto_DatabaseSpec ord)"
  unfolding type_DatabaseSpec_def DeepCopyInto_DatabaseSpec_def
  by (rule copy_struct_copies) (simp_all add: copy_rules copies_FederatedDatabase copies_PrincipalPermissions copies_DatabaseIdentifier)

definition DeepCopyInto_DatabaseStatus :: "api_library \<Rightarrow> copier" where
  "DeepCopyInto_DatabaseStatus x = copy_struct
     [(''ACKResourceMetadata'', copy_ptr (ResourceMetadata_DeepCopyInto x)),
      (''Conditions'', copy_slice (copy_ptr (Condition_DeepCopyInto x)))]"

definition DeepCopy_DatabaseStatus :: "api_library \<Rightarrow> copier" where
  "DeepCopy_DatabaseStatus x = copy_ptr (DeepCopyInto_DatabaseStatus x)"

lemma copies_DatabaseStatus:
  assumes "ext_laws x"
  shows
  "copies (type_DatabaseStatus x) (DeepCopyInto_DatabaseStatus x)"
  unfolding type_DatabaseStatus_def DeepCopyInto_DatabaseStatus_def
  by (rule copy_struct_copies) (simp_all add: copy_rules ext_lawsD [OF assms])

definition DeepCopyInto_Database :: "api_library \<Rightarrow> map_order \<Rightarrow> copier" where
  "DeepCopyInto_Database x ord = copy_struct
     [(''TypeMeta'', shallow), (''ObjectMeta'', ObjectMeta_DeepCopyInto x),
      (''Spec'', DeepCopyInto_DatabaseSpec ord), (''Status'', DeepCopyInto_DatabaseStatus x)]"

definition DeepCopy_Database :: "api_library \<Rightarrow> map_order \<Rightarrow> copier" where
  "DeepCopy_Database x ord = copy_ptr (DeepCopyInto_Database x ord)"

lemma copies_Database:
  assumes "ext_laws x"
  shows
  "copies (type_Database x) (DeepCopyInto_Database x ord)"
  unfolding type_Database_def DeepCopyInto_Database_def
  by (rule copy_struct_copies) (simp_all add: copy_rules copies_DatabaseSpec copies_DatabaseStatus ext_lawsD [OF assms] assms)

definition DeepCopyObject_Database :: "api_library \<Rightarrow> map_order \<Rightarrow> copier" where
  "DeepCopyObject_Database x ord = DeepCopy_Database x ord"

definition DeepCopyInto_DatabaseList :: "api_library \<Rightarrow> map_order \<Rightarrow> copier" where
  "DeepCopyInto_DatabaseList x ord = copy_struct
     [(''TypeMeta'', shallow), (''ListMeta'', ListMeta_DeepCopyInto x),
      (''Items'', copy_slice (DeepCopyInto_Database x ord))]"

definition DeepCopy_DatabaseList :: "api_library \<Rightarrow> map_order \<Rightarrow> copier" where
  "DeepCopy_DatabaseList x ord = copy_ptr (DeepCopyInto_DatabaseList x ord)"

lemma copies_DatabaseList:
  assumes "ext_laws x"
  shows
  "copies (type_DatabaseList x) (DeepCopyInto_DatabaseList x ord)"
  unfolding type_DatabaseList_def DeepCopyInto_DatabaseList_def
  by (rule copy_struct_copies) (simp_all add: copy_rules copies_Database ext_lawsD [OF assms] assms)

definition DeepCopyObject_DatabaseList :: "api_library \<Rightarrow> map_order \<Rightarrow> copier" where
  "DeepCopyObject_DatabaseList x ord = DeepCopy_DatabaseList x ord"

definition DeepCopyInto_JobSpec :: "api_library \<Rightarrow> map_order \<Rightarrow> copier" where
  "DeepCopyInto_JobSpec x ord = copy_struct
     [(''CodeGenConfigurationNodes'', copy_map ord (copy_ptr (DeepCopyInto_CodeGenConfigurationNode x ord))),
      (''Command'', copy_ptr DeepCopyInto_JobCommand),
      (''Connections'', copy_ptr DeepCopyInto_ConnectionsList),
      (''DefaultArguments'', copy_map ord (copy_ptr shallow)), (''Description'', copy_ptr shallow),
      (''ExecutionClass'', copy_ptr shallow),
      (''ExecutionProperty'', copy_ptr DeepCopyInto_ExecutionProperty),
      (''GlueVersion'', copy_ptr shallow), (''JobMode'', copy_ptr shallow),
      (''JobRunQueuingEnabled'', copy_ptr shallow), (''LogURI'', copy_ptr shallow),
      (''MaintenanceWindow'', copy_ptr shallow), (''MaxCapacity'', copy_ptr shallow),
      (''MaxRetries'', copy_ptr shallow), (''Name'', copy_ptr shallow),
      (''NonOverridableArguments'', copy_map ord (copy_ptr shallow)),
      (''NotificationProperty'', copy_ptr DeepCopyInto_NotificationProperty),
      (''NumberOfWorkers'', copy_ptr shallow), (''Role'', copy_ptr shallow),
      (''RoleRef'', copy_ptr (AWSResourceReferenceWrapper_DeepCopyInto x)),
      (''SecurityConfiguration'', copy_ptr shallow),
      (''SourceControlDetails'', copy_ptr DeepCopyInto_SourceControlDetails),
      (''Tags'', copy_map ord (copy_ptr shallow)), (''Timeout'', copy_ptr shallow),
      (''WorkerType'', copy_ptr shallow)]"

definition DeepCopy_JobSpec :: "api_library \<Rightarrow> map_order \<Rightarrow> copier" where
  "DeepCopy_JobSpec x ord = copy_ptr (DeepCopyInto_JobSpec x ord)"

lemma copies_JobSpec:
  assumes "ext_laws x"
  shows
  "copies (type_JobSpec x) (DeepCopyInto_JobSpec x ord)"
  unfolding type_JobSpec_def DeepCopyInto_JobSpec_def
  by (rule copy_struct_copies) (simp_all add: copy_rules copies_CodeGenConfigurationNode copies_JobCommand copies_ConnectionsList copies_ExecutionProperty copies_NotificationProperty copies_SourceControlDetails ext_lawsD [OF assms] assms)

definition DeepCopyInto_JobStatus :: "api_library \<Rightarrow> copier" where
  "DeepCopyInto_JobStatus x = copy_struct
     [(''ACKResourceMetadata'', copy_ptr (ResourceMetadata_DeepCopyInto x)),
      (''Conditions'', copy_slice (copy_ptr (Condition_DeepCopyInto x)))]"

definition DeepCopy_JobStatus :: "api_library \<Rightarrow> copier" where
  "DeepCopy_JobStatus x = copy_ptr (DeepCopyInto_JobStatus x)"

lemma copies_JobStatus:
  assumes "ext_laws x"
  shows
  "copies (type_JobStatus x) (DeepCopyInto_JobStatus x)"
  unfolding type_JobStatus_def DeepCopyInto_JobStatus_def
  by (rule copy_struct_copies) (simp_all add: copy_rules ext_lawsD [OF assms])

definition DeepCopyInto_Job :: "api_library \<Rightarrow> map_order \<Rightarrow> copier" where
  "DeepCopyInto_Job x ord = copy_struct
     [(''TypeMeta'', shallow), (''ObjectMeta'', ObjectMeta_DeepCopyInto x),
      (''Spec'', DeepCopyInto_JobSpec x ord), (''Status'', DeepCopyInto_JobStatus x)]"

definition DeepCopy_Job :: "api_library \<Rightarrow> map_order \<Rightarrow> copier" where
  "DeepCopy_Job x ord = copy_ptr (DeepCopyInto_Job x ord)"

lemma copies_Job:
  assumes "ext_laws x"
  shows
  "copies (type_Job x) (DeepCopyInto_Job x ord)"
  unfolding type_Job_def DeepCopyInto_Job_def
  by (rule copy_struct_copies) (simp_all add: copy_rules copies_JobSpec copies_JobStatus ext_lawsD [OF assms] assms)

definition DeepCopyObject_Job :: "api_library \<Rightarrow> map_order \<Rightarrow> copier" where
  "DeepCopyObject_Job x ord = DeepCopy_Job x ord"

definition DeepCopyInto_JobList :: "api_library \<Rightarrow> map_order \<Rightarrow> copier" where
  "DeepCopyInto_JobList x ord = copy_struct
     [(''TypeMeta'', shallow), (''ListMeta'', ListMeta_DeepCopyInto x),
      (''Items'', copy_slice (DeepCopyInto_Job x ord))]"

definition DeepCopy_JobList :: "api_library \<Rightarrow> map_order \<Rightarrow> copier" where
  "DeepCopy_JobList x ord = copy_ptr (DeepCopyInto_JobList x ord)"

lemma copies_JobList:
  assumes "ext_laws x"
  shows
  "copies (type_JobList x) (DeepCopyInto_JobList x ord)"
  unfolding type_JobList_def DeepCopyInto_JobList_def
  by (rule copy_struct_copies) (simp_all add: copy_rules copies_Job ext_lawsD [OF assms] assms)

definition DeepCopyObject_JobList :: "api_library \<Rightarrow> map_order \<Rightarrow> copier" where
  "DeepCopyObject_JobList x ord = DeepCopy_JobList x ord"

end
