(* ===== verification/Api_Copies.thy ===== *)
theory Api_Copies
  imports Api_Copy_4
begin

text \<open>
  All deep copies of the API together: each keeps its promise, and writing through a copy of a Database
  or a Job does not show in the original, which is what every \<open>ko := r.ko.DeepCopy()\<close> of the resource
  managers relies on.
\<close>

section \<open>The API types and their copies\<close>

definition api_copiers :: "api_library \<Rightarrow> map_order \<Rightarrow> (string \<times> gotype \<times> copier) list" where
  "api_copiers x ord =
     [(''NotificationProperty'', type_NotificationProperty, DeepCopyInto_NotificationProperty),
      (''Action'', type_Action, DeepCopyInto_Action ord),
      (''AggregateOperation'', type_AggregateOperation, DeepCopyInto_AggregateOperation),
      (''Aggregate'', type_Aggregate, DeepCopyInto_Aggregate),
      (''AmazonRedshiftAdvancedOption'', type_AmazonRedshiftAdvancedOption, DeepCopyInto_AmazonRedshiftAdvancedOption),
      (''Option'', type_Option, DeepCopyInto_Option),
      (''AmazonRedshiftNodeData'', type_AmazonRedshiftNodeData, DeepCopyInto_AmazonRedshiftNodeData),
      (''AmazonRedshiftSource'', type_AmazonRedshiftSource, DeepCopyInto_AmazonRedshiftSource),
      (''AmazonRedshiftTarget'', type_AmazonRedshiftTarget, DeepCopyInto_AmazonRedshiftTarget),
      (''AnnotationError'', type_AnnotationError, DeepCopyInto_AnnotationError),
      (''Mapping'', type_Mapping, DeepCopyInto_Mapping),
      (''ApplyMapping'', type_ApplyMapping, DeepCopyInto_ApplyMapping),
      (''GlueStudioSchemaColumn'', type_GlueStudioSchemaColumn, DeepCopyInto_GlueStudioSchemaColumn),
      (''GlueSchema'', type_GlueSchema, DeepCopyInto_GlueSchema),
      (''AthenaConnectorSource'', type_AthenaConnectorSource, DeepCopyInto_AthenaConnectorSource),
      (''AuditContext'', type_AuditContext, DeepCopyInto_AuditContext),
      (''BasicCatalogTarget'', type_BasicCatalogTarget, DeepCopyInto_BasicCatalogTarget),
      (''BatchGetTableOptimizerEntry'', type_BatchGetTableOptimizerEntry, DeepCopyInto_BatchGetTableOptimizerEntry),
      (''BatchGetTableOptimizerError'', type_BatchGetTableOptimizerError, DeepCopyInto_BatchGetTableOptimizerError),
      (''BatchStopJobRunError'', type_BatchStopJobRunError, DeepCopyInto_BatchStopJobRunError),
      (''BatchStopJobRunSuccessfulSubmission'', type_BatchStopJobRunSuccessfulSubmission, DeepCopyInto_BatchStopJobRunSuccessfulSubmission),
      (''BatchTableOptimizer'', type_BatchTableOptimizer, DeepCopyInto_BatchTableOptimizer),
      (''Blueprint'', type_Blueprint x, DeepCopyInto_Blueprint x),
      (''BlueprintRun'', type_BlueprintRun x, DeepCopyInto_BlueprintRun x),
      (''CatalogDeltaSource'', type_CatalogDeltaSource, DeepCopyInto_CatalogDeltaSource ord),
      (''CatalogEntry'', type_CatalogEntry, DeepCopyInto_CatalogEntry),
      (''CatalogHudiSource'', type_CatalogHudiSource, DeepCopyInto_CatalogHudiSource ord),
      (''CatalogImportStatus'', type_CatalogImportStatus x, DeepCopyInto_CatalogImportStatus x),
      (''StreamingDataPreviewOptions'', type_StreamingDataPreviewOptions, DeepCopyInto_StreamingDataPreviewOptions),
      (''KafkaStreamingSourceOptions'', type_KafkaStreamingSourceOptions x, DeepCopyInto_KafkaStreamingSourceOptions x),
      (''CatalogKafkaSource'', type_CatalogKafkaSource x, DeepCopyInto_CatalogKafkaSource x),
      (''KinesisStreamingSourceOptions'', type_KinesisStreamingSourceOptions x, DeepCopyInto_KinesisStreamingSourceOptions x),
      (''CatalogKinesisSource'', type_CatalogKinesisSource x, DeepCopyInto_CatalogKinesisSource x),
      (''CatalogSchemaChangePolicy'', type_CatalogSchemaChangePolicy, DeepCopyInto_CatalogSchemaChangePolicy),
      (''CatalogSource'', type_CatalogSource, DeepCopyInto_CatalogSource),
      (''CatalogTarget'', type_CatalogTarget, DeepCopyInto_CatalogTarget),
      (''ConnectorDataSource'', type_ConnectorDataSource, DeepCopyInto_ConnectorDataSource ord),
      (''ConnectorDataTarget'', type_ConnectorDataTarget, DeepCopyInto_ConnectorDataTarget ord),
      (''CustomCode'', type_CustomCode, DeepCopyInto_CustomCode),
      (''DirectJDBCSource'', type_DirectJDBCSource, DeepCopyInto_DirectJDBCSource),
      (''DirectKafkaSource'', type_DirectKafkaSource x, DeepCopyInto_DirectKafkaSource x),
      (''DirectKinesisSource'', type_DirectKinesisSource x, DeepCopyInto_DirectKinesisSource x),
      (''DropDuplicates'', type_DropDuplicates, DeepCopyInto_DropDuplicates),
      (''DropFields'', type_DropFields, DeepCopyInto_DropFields),
      (''NullCheckBoxList'', type_NullCheckBoxList, DeepCopyInto_NullCheckBoxList),
      (''Datatype'', type_Datatype, DeepCopyInto_Datatype),
      (''NullValueField'', type_NullValueField, DeepCopyInto_NullValueField),
      (''DropNullFields'', type_DropNullFields, DeepCopyInto_DropNullFields),
      (''TransformConfigParameter'', type_TransformConfigParameter, DeepCopyInto_TransformConfigParameter),
      (''DynamicTransform'', type_DynamicTransform, DeepCopyInto_DynamicTransform),
      (''DynamoDBCatalogSource'', type_DynamoDBCatalogSource, DeepCopyInto_DynamoDBCatalogSource),
      (''DQResultsPublishingOptions'', type_DQResultsPublishingOptions, DeepCopyInto_DQResultsPublishingOptions),
      (''DQStopJobOnFailureOptions'', type_DQStopJobOnFailureOptions, DeepCopyInto_DQStopJobOnFailureOptions),
      (''EvaluateDataQuality'', type_EvaluateDataQuality, DeepCopyInto_EvaluateDataQuality),
      (''EvaluateDataQualityMultiFrame'', type_EvaluateDataQualityMultiFrame, DeepCopyInto_EvaluateDataQualityMultiFrame ord),
      (''FillMissingValues'', type_FillMissingValues, DeepCopyInto_FillMissingValues),
      (''FilterValue'', type_FilterValue, DeepCopyInto_FilterValue),
      (''FilterExpression'', type_FilterExpression, DeepCopyInto_FilterExpression),
      (''Filter'', type_Filter, DeepCopyInto_Filter),
      (''S3SourceAdditionalOptions'', type_S3SourceAdditionalOptions, DeepCopyInto_S3SourceAdditionalOptions),
      (''GovernedCatalogSource'', type_GovernedCatalogSource, DeepCopyInto_GovernedCatalogSource),
      (''GovernedCatalogTarget'', type_GovernedCatalogTarget, DeepCopyInto_GovernedCatalogTarget),
      (''JDBCConnectorOptions'', type_JDBCConnectorOptions, DeepCopyInto_JDBCConnectorOptions ord),
      (''JDBCConnectorSource'', type_JDBCConnectorSource, DeepCopyInto_JDBCConnectorSource ord),
      (''JDBCConnectorTarget'', type_JDBCConnectorTarget, DeepCopyInto_JDBCConnectorTarget ord),
      (''JoinColumn'', type_JoinColumn, DeepCopyInto_JoinColumn),
      (''Join'', type_Join, DeepCopyInto_Join), (''Merge'', type_Merge, DeepCopyInto_Merge),
      (''MicrosoftSQLServerCatalogSource'', type_MicrosoftSQLServerCatalogSource, DeepCopyInto_MicrosoftSQLServerCatalogSource),
      (''MicrosoftSQLServerCatalogTarget'', type_MicrosoftSQLServerCatalogTarget, DeepCopyInto_MicrosoftSQLServerCatalogTarget),
      (''MySQLCatalogSource'', type_MySQLCatalogSource, DeepCopyInto_MySQLCatalogSource),
      (''MySQLCatalogTarget'', type_MySQLCatalogTarget, DeepCopyInto_MySQLCatalogTarget),
      (''OracleSQLCatalogSource'', type_OracleSQLCatalogSource, DeepCopyInto_OracleSQLCatalogSource),
      (''OracleSQLCatalogTarget'', type_OracleSQLCatalogTarget, DeepCopyInto_OracleSQLCatalogTarget),
      (''PIIDetection'', type_PIIDetection, DeepCopyInto_PIIDetection),
      (''PostgreSQLCatalogSource'', type_PostgreSQLCatalogSource, DeepCopyInto_PostgreSQLCatalogSource),
      (''PostgreSQLCatalogTarget'', type_PostgreSQLCatalogTarget, DeepCopyInto_PostgreSQLCatalogTarget),
      (''RecipeReference'', type_RecipeReference, DeepCopyInto_RecipeReference),
      (''RecipeAction'', type_RecipeAction, DeepCopyInto_RecipeAction ord),
      (''ConditionExpression'', type_ConditionExpression, DeepCopyInto_ConditionExpression),
      (''RecipeStep'', type_RecipeStep, DeepCopyInto_RecipeStep ord),
      (''Recipe'', type_Recipe, DeepCopyInto_Recipe ord),
      (''RedshiftSource'', type_RedshiftSource, DeepCopyInto_RedshiftSource),
      (''UpsertRedshiftTargetOptions'', type_UpsertRedshiftTargetOptions, DeepCopyInto_UpsertRedshiftTargetOptions),
      (''RedshiftTarget'', type_RedshiftTarget, DeepCopyInto_RedshiftTarget),
      (''RelationalCatalogSource'', type_RelationalCatalogSource, DeepCopyInto_RelationalCatalogSource),
      (''RenameField'', type_RenameField, DeepCopyInto_RenameField),
      (''S3CatalogDeltaSource'', type_S3CatalogDeltaSource, DeepCopyInto_S3CatalogDeltaSource ord),
      (''S3CatalogHudiSource'', type_S3CatalogHudiSource, DeepCopyInto_S3CatalogHudiSource ord),
      (''S3CatalogSource'', type_S3CatalogSource, DeepCopyInto_S3CatalogSource),
      (''S3CatalogTarget'', type_S3CatalogTarget, DeepCopyInto_S3CatalogTarget),
      (''S3DirectSourceAdditionalOptions'', type_S3DirectSourceAdditionalOptions, DeepCopyInto_S3DirectSourceAdditionalOptions),
      (''S3CsvSource'', type_S3CsvSource, DeepCopyInto_S3CsvSource),
      (''S3DeltaCatalogTarget'', type_S3DeltaCatalogTarget, DeepCopyInto_S3DeltaCatalogTarget ord),
      (''DirectSchemaChangePolicy'', type_DirectSchemaChangePolicy, DeepCopyInto_DirectSchemaChangePolicy),
      (''S3DeltaDirectTarget'', type_S3DeltaDirectTarget, DeepCopyInto_S3DeltaDirectTarget ord),
      (''S3DeltaSource'', type_S3DeltaSource, DeepCopyInto_S3DeltaSource ord),
      (''S3DirectTarget'', type_S3DirectTarget, DeepCopyInto_S3DirectTarget),
      (''S3GlueParquetTarget'', type_S3GlueParquetTarget, DeepCopyInto_S3GlueParquetTarget),
      (''S3HudiCatalogTarget'', type_S3HudiCatalogTarget, DeepCopyInto_S3HudiCatalogTarget ord),
      (''S3HudiDirectTarget'', type_S3HudiDirectTarget, DeepCopyInto_S3HudiDirectTarget ord),
      (''S3HudiSource'', type_S3HudiSource, DeepCopyInto_S3HudiSource ord),
      (''S3JSONSource'', type_S3JSONSource, DeepCopyInto_S3JSONSource),
      (''S3ParquetSource'', type_S3ParquetSource, DeepCopyInto_S3ParquetSource),
      (''SelectFields'', type_SelectFields, DeepCopyInto_SelectFields),
      (''SelectFromCollection'', type_SelectFromCollection, DeepCopyInto_SelectFromCollection),
      (''SnowflakeNodeData'', type_SnowflakeNodeData, DeepCopyInto_SnowflakeNodeData ord),
      (''SnowflakeSource'', type_SnowflakeSource, DeepCopyInto_SnowflakeSource ord),
      (''SnowflakeTarget'', type_SnowflakeTarget, DeepCopyInto_SnowflakeTarget ord),
      (''SparkConnectorSource'', type_SparkConnectorSource, DeepCopyInto_SparkConnectorSource ord),
      (''SparkConnectorTarget'', type_SparkConnectorTarget, DeepCopyInto_SparkConnectorTarget ord),
      (''SQLAlias'', type_SQLAlias, DeepCopyInto_SQLAlias),
      (''SparkSQL'', type_SparkSQL, DeepCopyInto_SparkSQL),
      (''Spigot'', type_Spigot, DeepCopyInto_Spigot),
      (''SplitFields'', type_SplitFields, DeepCopyInto_SplitFields),
      (''Union'', type_Union, DeepCopyInto_Union),
      (''CodeGenConfigurationNode'', type_CodeGenConfigurationNode x, DeepCopyInto_CodeGenConfigurationNode x ord),
      (''ColumnError'', type_ColumnError, DeepCopyInto_ColumnError),
      (''ColumnImportance'', type_ColumnImportance, DeepCopyInto_ColumnImportance),
      (''ColumnRowFilter'', type_ColumnRowFilter, DeepCopyInto_ColumnRowFilter),
      (''ColumnStatistics'', type_ColumnStatistics x, DeepCopyInto_ColumnStatistics x),
      (''ColumnStatisticsTaskRun'', type_ColumnStatisticsTaskRun x, DeepCopyInto_ColumnStatisticsTaskRun x),
      (''ColumnStatisticsTaskSettings'', type_ColumnStatisticsTaskSettings, DeepCopyInto_ColumnStatisticsTaskSettings),
      (''Condition'', type_Condition, DeepCopyInto_Condition),
      (''Connection'', type_Connection x, DeepCopyInto_Connection x),
      (''ConnectionInput'', type_ConnectionInput, DeepCopyInto_ConnectionInput),
      (''ConnectionPasswordEncryption'', type_ConnectionPasswordEncryption, DeepCopyInto_ConnectionPasswordEncryption),
      (''ConnectionsList'', type_ConnectionsList, DeepCopyInto_ConnectionsList),
      (''Crawl'', type_Crawl x, DeepCopyInto_Crawl x),
      (''Crawler'', type_Crawler x, DeepCopyInto_Crawler x),
      (''CrawlerHistory'', type_CrawlerHistory x, DeepCopyInto_CrawlerHistory x),
      (''CrawlerMetrics'', type_CrawlerMetrics, DeepCopyInto_CrawlerMetrics),
      (''CrawlsFilter'', type_CrawlsFilter, DeepCopyInto_CrawlsFilter),
      (''CreateCsvClassifierRequest'', type_CreateCsvClassifierRequest, DeepCopyInto_CreateCsvClassifierRequest),
      (''CreateGrokClassifierRequest'', type_CreateGrokClassifierRequest, DeepCopyInto_CreateGrokClassifierRequest),
      (''CreateJSONClassifierRequest'', type_CreateJSONClassifierRequest, DeepCopyInto_CreateJSONClassifierRequest),
      (''CreateXMLClassifierRequest'', type_CreateXMLClassifierRequest, DeepCopyInto_CreateXMLClassifierRequest),
      (''CsvClassifier'', type_CsvClassifier x, DeepCopyInto_CsvClassifier x),
      (''CustomEntityType'', type_CustomEntityType, DeepCopyInto_CustomEntityType),
      (''DataLakePrincipal'', type_DataLakePrincipal, DeepCopyInto_DataLakePrincipal),
      (''DataQualityAnalyzerResult'', type_DataQualityAnalyzerResult, DeepCopyInto_DataQualityAnalyzerResult),
      (''DataQualityEvaluationRunAdditionalRunOptions'', type_DataQualityEvaluationRunAdditionalRunOptions, DeepCopyInto_DataQualityEvaluationRunAdditionalRunOptions),
      (''DataQualityMetricValues'', type_DataQualityMetricValues, DeepCopyInto_DataQualityMetricValues),
      (''DataQualityResult'', type_DataQualityResult x, DeepCopyInto_DataQualityResult x),
      (''DataQualityResultDescription'', type_DataQualityResultDescription x, DeepCopyInto_DataQualityResultDescription x),
      (''DataQualityResultFilterCriteria'', type_DataQualityResultFilterCriteria x, DeepCopyInto_DataQualityResultFilterCriteria x),
      (''DataQualityRuleRecommendationRunDescription'', type_DataQualityRuleRecommendationRunDescription x, DeepCopyInto_DataQualityRuleRecommendationRunDescription x),
      (''DataQualityRuleRecommendationRunFilter'', type_DataQualityRuleRecommendationRunFilter x, DeepCopyInto_DataQualityRuleRecommendationRunFilter x),
      (''DataQualityRuleResult'', type_DataQualityRuleResult, DeepCopyInto_DataQualityRuleResult),
      (''DataQualityRulesetEvaluationRunDescription'', type_DataQualityRulesetEvaluationRunDescription x, DeepCopyInto_DataQualityRulesetEvaluationRunDescription x),
      (''DataQualityRulesetEvaluationRunFilter'', type_DataQualityRulesetEvaluationRunFilter x, DeepCopyInto_DataQualityRulesetEvaluationRunFilter x),
      (''DataQualityRulesetFilterCriteria'', type_DataQualityRulesetFilterCriteria x, DeepCopyInto_DataQualityRulesetFilterCriteria x),
      (''DataQualityRulesetListDetails'', type_DataQualityRulesetListDetails x, DeepCopyInto_DataQualityRulesetListDetails x),
      (''DataQualityTargetTable'', type_DataQualityTargetTable, DeepCopyInto_DataQualityTargetTable),
      (''DatabaseIdentifier'', type_DatabaseIdentifier, DeepCopyInto_DatabaseIdentifier),
      (''PrincipalPermissions'', type_PrincipalPermissions, DeepCopyInto_PrincipalPermissions),
      (''FederatedDatabase'', type_FederatedDatabase, DeepCopyInto_FederatedDatabase),
      (''DatabaseInput'', type_DatabaseInput, DeepCopyInto_DatabaseInput ord),
      (''Database_SDK'', type_Database_SDK x, DeepCopyInto_Database_SDK x ord),
      (''DateColumnStatisticsData'', type_DateColumnStatisticsData x, DeepCopyInto_DateColumnStatisticsData x),
      (''DeltaTarget'', type_DeltaTarget, DeepCopyInto_DeltaTarget),
      (''DevEndpoint'', type_DevEndpoint x, DeepCopyInto_DevEndpoint x),
      (''DevEndpointCustomLibraries'', type_DevEndpointCustomLibraries, DeepCopyInto_DevEndpointCustomLibraries),
      (''DynamoDBTarget'', type_DynamoDBTarget, DeepCopyInto_DynamoDBTarget),
      (''Edge'', type_Edge, DeepCopyInto_Edge),
      (''EncryptionAtRest'', type_EncryptionAtRest, DeepCopyInto_EncryptionAtRest),
      (''ErrorDetail'', type_ErrorDetail, DeepCopyInto_ErrorDetail),
      (''ExecutionProperty'', type_ExecutionProperty, DeepCopyInto_ExecutionProperty),
      (''ExportLabelsTaskRunProperties'', type_ExportLabelsTaskRunProperties, DeepCopyInto_ExportLabelsTaskRunProperties),
      (''FederatedTable'', type_FederatedTable, DeepCopyInto_FederatedTable),
      (''FindMatchesParameters'', type_FindMatchesParameters, DeepCopyInto_FindMatchesParameters),
      (''FindMatchesTaskRunProperties'', type_FindMatchesTaskRunProperties, DeepCopyInto_FindMatchesTaskRunProperties),
      (''GluePolicy'', type_GluePolicy x, DeepCopyInto_GluePolicy x),
      (''GrokClassifier'', type_GrokClassifier x, DeepCopyInto_GrokClassifier x),
      (''HudiTarget'', type_HudiTarget, DeepCopyInto_HudiTarget),
      (''IcebergOrphanFileDeletionConfiguration'', type_IcebergOrphanFileDeletionConfiguration, DeepCopyInto_IcebergOrphanFileDeletionConfiguration),
      (''IcebergRetentionConfiguration'', type_IcebergRetentionConfiguration, DeepCopyInto_IcebergRetentionConfiguration),
      (''IcebergTarget'', type_IcebergTarget, DeepCopyInto_IcebergTarget),
      (''ImportLabelsTaskRunProperties'', type_ImportLabelsTaskRunProperties, DeepCopyInto_ImportLabelsTaskRunProperties),
      (''JSONClassifier'', type_JSONClassifier x, DeepCopyInto_JSONClassifier x),
      (''JobBookmarkEntry'', type_JobBookmarkEntry, DeepCopyInto_JobBookmarkEntry),
      (''JobCommand'', type_JobCommand, DeepCopyInto_JobCommand),
      (''JobRun'', type_JobRun x, DeepCopyInto_JobRun x ord),
      (''SourceControlDetails'', type_SourceControlDetails, DeepCopyInto_SourceControlDetails),
      (''JobUpdate'', type_JobUpdate x, DeepCopyInto_JobUpdate x ord),
      (''Job_SDK'', type_Job_SDK x, DeepCopyInto_Job_SDK x ord),
      (''LabelingSetGenerationTaskRunProperties'', type_LabelingSetGenerationTaskRunProperties, DeepCopyInto_LabelingSetGenerationTaskRunProperties),
      (''LakeFormationConfiguration'', type_LakeFormationConfiguration, DeepCopyInto_LakeFormationConfiguration),
      (''LastActiveDefinition'', type_LastActiveDefinition x, DeepCopyInto_LastActiveDefinition x),
      (''LastCrawlInfo'', type_LastCrawlInfo x, DeepCopyInto_LastCrawlInfo x),
      (''MLTransform'', type_MLTransform x, DeepCopyInto_MLTransform x),
      (''MLUserDataEncryption'', type_MLUserDataEncryption, DeepCopyInto_MLUserDataEncryption),
      (''MetricBasedObservation'', type_MetricBasedObservation, DeepCopyInto_MetricBasedObservation),
      (''MongoDBTarget'', type_MongoDBTarget, DeepCopyInto_MongoDBTarget),
      (''Node'', type_Node, DeepCopyInto_Node), (''Order'', type_Order, DeepCopyInto_Order),
      (''Partition'', type_Partition x, DeepCopyInto_Partition x ord),
      (''PartitionIndex'', type_PartitionIndex, DeepCopyInto_PartitionIndex),
      (''PartitionIndexDescriptor'', type_PartitionIndexDescriptor, DeepCopyInto_PartitionIndexDescriptor),
      (''PartitionInput'', type_PartitionInput x, DeepCopyInto_PartitionInput x ord),
      (''PhysicalConnectionRequirements'', type_PhysicalConnectionRequirements, DeepCopyInto_PhysicalConnectionRequirements),
      (''Predecessor'', type_Predecessor, DeepCopyInto_Predecessor),
      (''QuerySessionContext'', type_QuerySessionContext x, DeepCopyInto_QuerySessionContext x),
      (''RegistryListItem'', type_RegistryListItem, DeepCopyInto_RegistryListItem),
      (''ResourceURI'', type_ResourceURI, DeepCopyInto_ResourceURI),
      (''S3Target'', type_S3Target, DeepCopyInto_S3Target),
      (''SchemaColumn'', type_SchemaColumn, DeepCopyInto_SchemaColumn),
      (''SchemaListItem'', type_SchemaListItem, DeepCopyInto_SchemaListItem),
      (''SecurityConfiguration'', type_SecurityConfiguration x, DeepCopyInto_SecurityConfiguration x),
      (''SerDeInfo'', type_SerDeInfo, DeepCopyInto_SerDeInfo ord),
      (''Session'', type_Session x, DeepCopyInto_Session x),
      (''SessionCommand'', type_SessionCommand, DeepCopyInto_SessionCommand),
      (''StartingEventBatchCondition'', type_StartingEventBatchCondition, DeepCopyInto_StartingEventBatchCondition),
      (''Statement'', type_Statement, DeepCopyInto_Statement),
      (''StatementOutput'', type_StatementOutput, DeepCopyInto_StatementOutput),
      (''StatementOutputData'', type_StatementOutputData, DeepCopyInto_StatementOutputData),
      (''StatisticAnnotation'', type_StatisticAnnotation x, DeepCopyInto_StatisticAnnotation x),
      (''StatisticModelResult'', type_StatisticModelResult x, DeepCopyInto_StatisticModelResult x),
      (''StatisticSummary'', type_StatisticSummary x, DeepCopyInto_StatisticSummary x),
      (''StorageDescriptor'', type_StorageDescriptor, DeepCopyInto_StorageDescriptor ord),
      (''Table'', type_Table, DeepCopyInto_Table),
      (''TableData'', type_TableData x, DeepCopyInto_TableData x ord),
      (''TableError'', type_TableError, DeepCopyInto_TableError),
      (''TableIdentifier'', type_TableIdentifier, DeepCopyInto_TableIdentifier),
      (''TableInput'', type_TableInput x, DeepCopyInto_TableInput x ord),
      (''TableOptimizerConfiguration'', type_TableOptimizerConfiguration, DeepCopyInto_TableOptimizerConfiguration),
      (''TableStatus'', type_TableStatus x, DeepCopyInto_TableStatus x),
      (''TableVersionError'', type_TableVersionError, DeepCopyInto_TableVersionError),
      (''TaskRun'', type_TaskRun x, DeepCopyInto_TaskRun x),
      (''TaskRunFilterCriteria'', type_TaskRunFilterCriteria x, DeepCopyInto_TaskRunFilterCriteria x),
      (''TimestampFilter'', type_TimestampFilter x, DeepCopyInto_TimestampFilter x),
      (''TimestampedInclusionAnnotation'', type_TimestampedInclusionAnnotation x, DeepCopyInto_TimestampedInclusionAnnotation x),
      (''TransformEncryption'', type_TransformEncryption, DeepCopyInto_TransformEncryption),
      (''TransformFilterCriteria'', type_TransformFilterCriteria x, DeepCopyInto_TransformFilterCriteria x),
      (''Trigger'', type_Trigger, DeepCopyInto_Trigger),
      (''TriggerUpdate'', type_TriggerUpdate, DeepCopyInto_TriggerUpdate),
      (''UpdateCsvClassifierRequest'', type_UpdateCsvClassifierRequest, DeepCopyInto_UpdateCsvClassifierRequest),
      (''UpdateGrokClassifierRequest'', type_UpdateGrokClassifierRequest, DeepCopyInto_UpdateGrokClassifierRequest),
      (''UpdateJSONClassifierRequest'', type_UpdateJSONClassifierRequest, DeepCopyInto_UpdateJSONClassifierRequest),
      (''UpdateXMLClassifierRequest'', type_UpdateXMLClassifierRequest, DeepCopyInto_UpdateXMLClassifierRequest),
      (''UsageProfileDefinition'', type_UsageProfileDefinition x, DeepCopyInto_UsageProfileDefinition x),
      (''UserDefinedFunction'', type_UserDefinedFunction x, DeepCopyInto_UserDefinedFunction x),
      (''UserDefinedFunctionInput'', type_UserDefinedFunctionInput, DeepCopyInto_UserDefinedFunctionInput),
      (''ViewDefinition'', type_ViewDefinition, DeepCopyInto_ViewDefinition),
      (''ViewDefinitionInput'', type_ViewDefinitionInput, DeepCopyInto_ViewDefinitionInput),
      (''ViewRepresentation'', type_ViewRepresentation, DeepCopyInto_ViewRepresentation),
      (''ViewRepresentationInput'', type_ViewRepresentationInput, DeepCopyInto_ViewRepresentationInput),
      (''ViewValidation'', type_ViewValidation x, DeepCopyInto_ViewValidation x),
      (''Workflow'', type_Workflow x, DeepCopyInto_Workflow x),
      (''WorkflowRun'', type_WorkflowRun x, DeepCopyInto_WorkflowRun x),
      (''WorkflowRunStatistics'', type_WorkflowRunStatistics, DeepCopyInto_WorkflowRunStatistics),
      (''XMLClassifier'', type_XMLClassifier x, DeepCopyInto_XMLClassifier x),
      (''DatabaseSpec'', type_DatabaseSpec, DeepCopyInto_DatabaseSpec ord),
      (''DatabaseStatus'', type_DatabaseStatus x, DeepCopyInto_DatabaseStatus x),
      (''Database'', type_Database x, DeepCopyInto_Database x ord),
      (''DatabaseList'', type_DatabaseList x, DeepCopyInto_DatabaseList x ord),
      (''JobSpec'', type_JobSpec x, DeepCopyInto_JobSpec x ord),
      (''JobStatus'', type_JobStatus x, DeepCopyInto_JobStatus x),
      (''Job'', type_Job x, DeepCopyInto_Job x ord),
      (''JobList'', type_JobList x, DeepCopyInto_JobList x ord)]"

lemmas api_copies_1 =
  copies_NotificationProperty copies_Action copies_AggregateOperation
  copies_Aggregate copies_AmazonRedshiftAdvancedOption copies_Option
  copies_AmazonRedshiftNodeData copies_AmazonRedshiftSource copies_AmazonRedshiftTarget
  copies_AnnotationError copies_Mapping copies_ApplyMapping
  copies_GlueStudioSchemaColumn copies_GlueSchema copies_AthenaConnectorSource
  copies_AuditContext copies_BasicCatalogTarget copies_BatchGetTableOptimizerEntry
  copies_BatchGetTableOptimizerError copies_BatchStopJobRunError copies_BatchStopJobRunSuccessfulSubmission
  copies_BatchTableOptimizer copies_Blueprint copies_BlueprintRun
  copies_CatalogDeltaSource copies_CatalogEntry copies_CatalogHudiSource
  copies_CatalogImportStatus copies_StreamingDataPreviewOptions copies_KafkaStreamingSourceOptions
  copies_CatalogKafkaSource copies_KinesisStreamingSourceOptions copies_CatalogKinesisSource
  copies_CatalogSchemaChangePolicy copies_CatalogSource copies_CatalogTarget
  copies_ConnectorDataSource copies_ConnectorDataTarget copies_CustomCode
  copies_DirectJDBCSource copies_DirectKafkaSource copies_DirectKinesisSource

lemmas api_copies_2 =
  copies_DirectKafkaSource copies_DirectKinesisSource copies_DropDuplicates
  copies_DropFields copies_NullCheckBoxList copies_Datatype
  copies_NullValueField copies_DropNullFields copies_TransformConfigParameter
  copies_DynamicTransform copies_DynamoDBCatalogSource copies_DQResultsPublishingOptions
  copies_DQStopJobOnFailureOptions copies_EvaluateDataQuality copies_EvaluateDataQualityMultiFrame
  copies_FillMissingValues copies_FilterValue copies_FilterExpression
  copies_Filter copies_S3SourceAdditionalOptions copies_GovernedCatalogSource
  copies_GovernedCatalogTarget copies_JDBCConnectorOptions copies_JDBCConnectorSource
  copies_JDBCConnectorTarget copies_JoinColumn copies_Join
  copies_Merge copies_MicrosoftSQLServerCatalogSource copies_MicrosoftSQLServerCatalogTarget
  copies_MySQLCatalogSource copies_MySQLCatalogTarget copies_OracleSQLCatalogSource
  copies_OracleSQLCatalogTarget copies_PIIDetection copies_PostgreSQLCatalogSource
  copies_PostgreSQLCatalogTarget copies_RecipeReference copies_RecipeAction
  copies_ConditionExpression copies_RecipeStep copies_Recipe

lemmas api_copies_3 =
  copies_RecipeStep copies_Recipe copies_RedshiftSource
  copies_UpsertRedshiftTargetOptions copies_RedshiftTarget copies_RelationalCatalogSource
  copies_RenameField copies_S3CatalogDeltaSource copies_S3CatalogHudiSource
  copies_S3CatalogSource copies_S3CatalogTarget copies_S3DirectSourceAdditionalOptions
  copies_S3CsvSource copies_S3DeltaCatalogTarget copies_DirectSchemaChangePolicy
  copies_S3DeltaDirectTarget copies_S3DeltaSource copies_S3DirectTarget
  copies_S3GlueParquetTarget copies_S3HudiCatalogTarget copies_S3HudiDirectTarget
  copies_S3HudiSource copies_S3JSONSource copies_S3ParquetSource
  copies_SelectFields copies_SelectFromCollection copies_SnowflakeNodeData
  copies_SnowflakeSource copies_SnowflakeTarget copies_SparkConnectorSource
  copies_SparkConnectorTarget copies_SQLAlias copies_SparkSQL
  copies_Spigot copies_SplitFields copies_Union
  copies_CodeGenConfigurationNode copies_ColumnError copies_ColumnImportance
  copies_ColumnRowFilter copies_ColumnStatistics copies_ColumnStatisticsTaskRun

lemmas api_copies_4 =
  copies_ColumnStatistics copies_ColumnStatisticsTaskRun copies_ColumnStatisticsTaskSettings
  copies_Condition copies_Connection copies_ConnectionInput
  copies_ConnectionPasswordEncryption copies_ConnectionsList copies_Crawl
  copies_Crawler copies_CrawlerHistory copies_CrawlerMetrics
  copies_CrawlsFilter copies_CreateCsvClassifierRequest copies_CreateGrokClassifierRequest
  copies_CreateJSONClassifierRequest copies_CreateXMLClassifierRequest copies_CsvClassifier
  copies_CustomEntityType copies_DataLakePrincipal copies_DataQualityAnalyzerResult
  copies_DataQualityEvaluationRunAdditionalRunOptions copies_DataQualityMetricValues copies_DataQualityResult
  copies_DataQualityResultDescription copies_DataQualityResultFilterCriteria copies_DataQualityRuleRecommendationRunDescription
  copies_DataQualityRuleRecommendationRunFilter copies_DataQualityRuleResult copies_DataQualityRulesetEvaluationRunDescription
  copies_DataQualityRulesetEvaluationRunFilter copies_DataQualityRulesetFilterCriteria copies_DataQualityRulesetListDetails
  copies_DataQualityTargetTable copies_DatabaseIdentifier copies_PrincipalPermissions
  copies_FederatedDatabase copies_DatabaseInput copies_Database_SDK
  copies_DateColumnStatisticsData copies_DeltaTarget copies_DevEndpoint

lemmas api_copies_5 =
  copies_DeltaTarget copies_DevEndpoint copies_DevEndpointCustomLibraries
  copies_DynamoDBTarget copies_Edge copies_EncryptionAtRest
  copies_ErrorDetail copies_ExecutionProperty copies_ExportLabelsTaskRunProperties
  copies_FederatedTable copies_FindMatchesParameters copies_FindMatchesTaskRunProperties
  copies_GluePolicy copies_GrokClassifier copies_HudiTarget
  copies_IcebergOrphanFileDeletionConfiguration copies_IcebergRetentionConfiguration copies_IcebergTarget
  copies_ImportLabelsTaskRunProperties copies_JSONClassifier copies_JobBookmarkEntry
  copies_JobCommand copies_JobRun copies_SourceControlDetails
  copies_JobUpdate copies_Job_SDK copies_LabelingSetGenerationTaskRunProperties
  copies_LakeFormationConfiguration copies_LastActiveDefinition copies_LastCrawlInfo
  copies_MLTransform copies_MLUserDataEncryption copies_MetricBasedObservation
  copies_MongoDBTarget copies_Node copies_Order
  copies_Partition copies_PartitionIndex copies_PartitionIndexDescriptor
  copies_PartitionInput copies_PhysicalConnectionRequirements copies_Predecessor

lemmas api_copies_6 =
  copies_PhysicalConnectionRequirements copies_Predecessor copies_QuerySessionContext
  copies_RegistryListItem copies_ResourceURI copies_S3Target
  copies_SchemaColumn copies_SchemaListItem copies_SecurityConfiguration
  copies_SerDeInfo copies_Session copies_SessionCommand
  copies_StartingEventBatchCondition copies_Statement copies_StatementOutput
  copies_StatementOutputData copies_StatisticAnnotation copies_StatisticModelResult
  copies_StatisticSummary copies_StorageDescriptor copies_Table
  copies_TableData copies_TableError copies_TableIdentifier
  copies_TableInput copies_TableOptimizerConfiguration copies_TableStatus
  copies_TableVersionError copies_TaskRun copies_TaskRunFilterCriteria
  copies_TimestampFilter copies_TimestampedInclusionAnnotation copies_TransformEncryption
  copies_TransformFilterCriteria copies_Trigger copies_TriggerUpdate
  copies_UpdateCsvClassifierRequest copies_UpdateGrokClassifierRequest copies_UpdateJSONClassifierRequest
  copies_UpdateXMLClassifierRequest copies_UsageProfileDefinition copies_UserDefinedFunction

lemmas api_copies_7 =
  copies_UsageProfileDefinition copies_UserDefinedFunction copies_UserDefinedFunctionInput
  copies_ViewDefinition copies_ViewDefinitionInput copies_ViewRepresentation
  copies_ViewRepresentationInput copies_ViewValidation copies_Workflow
  copies_WorkflowRun copies_WorkflowRunStatistics copies_XMLClassifier
  copies_DatabaseSpec copies_DatabaseStatus copies_Database
  copies_DatabaseList copies_JobSpec copies_JobStatus
  copies_Job copies_JobList

lemma api_copiers_copy:
  assumes "ext_laws x"
  shows "list_all (\<lambda>(n, T, c). copies T c) (api_copiers x ord)"
  unfolding api_copiers_def
  by (simp add: assms api_copies_1 api_copies_2 api_copies_3 api_copies_4 api_copies_5 api_copies_6 api_copies_7)

end
