(* ===== verification/Copy_Properties.thy ===== *)
theory Copy_Properties
  imports Api_Copies
begin

text \<open>
  What the deep copies guarantee. Every \<open>ko := r.ko.DeepCopy()\<close> of the resource managers relies on it:
  the models of those methods treat a deep copy as the value itself, because by these theorems the
  copy reads the same and nothing written through it shows in the original.
\<close>

section \<open>Samples\<close>

text \<open>The library types with a few of their fields, one of each kind.\<close>

definition sample_library :: api_library where
  "sample_library = \<lparr>
     t_Time = TStruct [(''sec'', TBasic BInt)],
     t_TypeMeta = TStruct [(''Kind'', TBasic BString)],
     t_ObjectMeta = TStruct [(''Namespace'', TBasic BString), (''Finalizers'', TSlice (TBasic BString)),
       (''Annotations'', TMap (TBasic BString))],
     t_ListMeta = TStruct [(''RemainingItemCount'', pint)],
     t_ResourceMetadata = TStruct [(''ARN'', pstring), (''Region'', pstring)],
     t_Condition = TStruct [(''Type'', TBasic BString), (''Message'', pstring)],
     t_AWSResourceReferenceWrapper = TStruct [(''From'', TPtr (TStruct [(''Name'', pstring)]))],
     Time_DeepCopy = copy_ptr shallow,
     ObjectMeta_DeepCopyInto = copy_struct [(''Finalizers'', copy_slice shallow),
       (''Annotations'', copy_map sorted_order shallow)],
     ListMeta_DeepCopyInto = copy_struct [(''RemainingItemCount'', copy_ptr shallow)],
     ResourceMetadata_DeepCopyInto = copy_struct [(''ARN'', copy_ptr shallow), (''Region'', copy_ptr shallow)],
     Condition_DeepCopyInto = copy_struct [(''Message'', copy_ptr shallow)],
     AWSResourceReferenceWrapper_DeepCopyInto =
       copy_struct [(''From'', copy_ptr (copy_struct [(''Name'', copy_ptr shallow)]))]\<rparr>"

lemma sample_library_laws: "ext_laws sample_library"
proof -
  have time: "copies (TStruct [(''sec'', TBasic BInt)]) shallow" by (rule shallow_copies) simp
  have name: "copies (TStruct [(''Name'', pstring)]) (copy_struct [(''Name'', copy_ptr shallow)])"
    by (rule copy_struct_copies) (simp_all add: copy_rules)
  have structs:
    "copies (TStruct [(''Namespace'', TBasic BString), (''Finalizers'', TSlice (TBasic BString)),
         (''Annotations'', TMap (TBasic BString))])
       (copy_struct [(''Finalizers'', copy_slice shallow), (''Annotations'', copy_map sorted_order shallow)])"
    "copies (TStruct [(''RemainingItemCount'', pint)]) (copy_struct [(''RemainingItemCount'', copy_ptr shallow)])"
    "copies (TStruct [(''ARN'', pstring), (''Region'', pstring)])
       (copy_struct [(''ARN'', copy_ptr shallow), (''Region'', copy_ptr shallow)])"
    "copies (TStruct [(''Type'', TBasic BString), (''Message'', pstring)])
       (copy_struct [(''Message'', copy_ptr shallow)])"
    "copies (TStruct [(''From'', TPtr (TStruct [(''Name'', pstring)]))])
       (copy_struct [(''From'', copy_ptr (copy_struct [(''Name'', copy_ptr shallow)]))])"
    using name by (rule_tac [!] copy_struct_copies) (simp_all add: copy_rules del: TStruct_simps)
  show ?thesis
    unfolding ext_laws_def sample_library_def api_library.simps
    by (intro conjI structs copy_ptr_copies time) simp
qed

section \<open>Every type\<close>

text \<open>
  C39: Every generated DeepCopyInto of the API makes an independent copy: on any value of its type it
  returns, in memory that has only grown, a value of the same type that reads the same and gives
  access to no cell that was there before, so no field of any of the 260 types is left shared.
\<close>
theorem DeepCopyInto_independent:
  assumes "ext_laws x" and "(n, T, c) \<in> set (api_copiers x ord)"
    and "wf_memory m" and "typed T m v"
  shows "\<exists>m' v'. c m v = Some (m', v') \<and> grows m m' \<and> typed T m' v' \<and> view T m' v' = view T m v \<and>
    (\<forall>a\<in>footprint T m' v'. cells m a = None)"
proof -
  have "copies T c" using api_copiers_copy [OF assms(1), of ord] assms(2) by (auto simp: list_all_iff)
  then show ?thesis using assms(3,4) by (auto simp: copied_def elim: copiesE)
qed

text \<open>A principal whose identifier is in cell 0.\<close>

definition sample_memory :: memory where
  "sample_memory = \<lparr>cells = (\<lambda>a. None)(0 := Some (Pointee (VString ''me''))), fresh = 1\<rparr>"

definition sample_principal :: val where
  "sample_principal = VStruct [(''DataLakePrincipalIdentifier'', VAddr 0)]"

theorem DeepCopyInto_independent_witness:
  "\<exists>m' v'. DeepCopyInto_DataLakePrincipal sample_memory sample_principal = Some (m', v') \<and>
     view type_DataLakePrincipal m' v' =
       Fields [(''DataLakePrincipalIdentifier'', Ref (Leaf (VString ''me'')))] \<and>
     0 \<notin> footprint type_DataLakePrincipal m' v'"
proof -
  have mem: "wf_memory sample_memory" by (simp add: wf_memory_def sample_memory_def)
  have ty: "typed type_DataLakePrincipal sample_memory sample_principal"
    "view type_DataLakePrincipal sample_memory sample_principal =
       Fields [(''DataLakePrincipalIdentifier'', Ref (Leaf (VString ''me'')))]"
    "cells sample_memory 0 \<noteq> None"
    by (simp_all add: type_DataLakePrincipal_def sample_principal_def sample_memory_def)
  have listed: "(''DataLakePrincipal'', type_DataLakePrincipal, DeepCopyInto_DataLakePrincipal)
      \<in> set (api_copiers sample_library sorted_order)"
    unfolding api_copiers_def by simp
  from DeepCopyInto_independent [OF sample_library_laws listed mem ty(1)] show ?thesis
    using ty(2,3) by auto
qed

section \<open>The copies the resource managers work on\<close>

text \<open>
  C40: What a Database method writes through its copy is not seen through the resource it was given, and
  the other way round: after ko := r.ko.DeepCopy(), writes to cells of the copy leave the original
  as it reads, and writes to cells of the original leave the copy.
\<close>
theorem DeepCopy_Database_isolated:
  assumes "ext_laws x" and "wf_memory m" and "typed (TPtr (type_Database x)) m ko"
    and "DeepCopy_Database x ord m ko = Some (m', ko')"
  shows "(only_at (footprint (TPtr (type_Database x)) m' ko') m' m'' \<longrightarrow>
      view (TPtr (type_Database x)) m'' ko = view (TPtr (type_Database x)) m ko) \<and>
    (only_at (footprint (TPtr (type_Database x)) m ko) m' m'' \<longrightarrow>
      view (TPtr (type_Database x)) m'' ko' = view (TPtr (type_Database x)) m ko)"
  using copy_isolated [OF copy_ptr_copies [OF copies_Database [OF assms(1)]] assms(2,3)
      assms(4) [unfolded DeepCopy_Database_def]]
  by blast

text \<open>The same for a Job, with the whole tree of its code generation nodes.\<close>

lemma DeepCopy_Job_isolated:
  assumes "ext_laws x" and "wf_memory m" and "typed (TPtr (type_Job x)) m ko"
    and "DeepCopy_Job x ord m ko = Some (m', ko')"
  shows "(only_at (footprint (TPtr (type_Job x)) m' ko') m' m'' \<longrightarrow>
      view (TPtr (type_Job x)) m'' ko = view (TPtr (type_Job x)) m ko) \<and>
    (only_at (footprint (TPtr (type_Job x)) m ko) m' m'' \<longrightarrow>
      view (TPtr (type_Job x)) m'' ko' = view (TPtr (type_Job x)) m ko)"
  using copy_isolated [OF copy_ptr_copies [OF copies_Job [OF assms(1)]] assms(2,3)
      assms(4) [unfolded DeepCopy_Job_def]]
  by blast

text \<open>A Database and a Job with a name and a tag, the Job with a connection; the rest is nil.\<close>

definition sample_object :: "val \<Rightarrow> val" where
  "sample_object spec = VStruct [(''TypeMeta'', VStruct [(''Kind'', VString ''k'')]),
     (''ObjectMeta'', VStruct [(''Namespace'', VString ''n''), (''Finalizers'', VNil), (''Annotations'', VNil)]),
     (''Spec'', spec), (''Status'', VStruct [(''ACKResourceMetadata'', VNil), (''Conditions'', VNil)])]"

definition sample_heap :: "val \<Rightarrow> memory" where
  "sample_heap spec = \<lparr>cells = (\<lambda>a. None)(0 := Some (Pointee (sample_object spec)),
       1 := Some (Pointee (VString ''name'')), 2 := Some (Entries (fmap_of_list [(''k'', VAddr 3)])),
       3 := Some (Pointee (VString ''v'')),
       4 := Some (Pointee (VStruct [(''Connections'', VAddr 5)])), 5 := Some (Elements [VAddr 1])),
     fresh = 6\<rparr>"

lemma sample_heap_wf: "wf_memory (sample_heap spec)"
  by (simp add: wf_memory_def sample_heap_def)

definition sample_database_spec :: val where
  "sample_database_spec = VStruct [(''CatalogID'', VNil), (''Description'', VNil), (''FederatedDatabase'', VNil),
     (''LocationURI'', VNil), (''Name'', VAddr 1), (''Parameters'', VNil), (''TableDefaultPermissions'', VNil),
     (''Tags'', VAddr 2), (''TargetDatabase'', VNil)]"

definition sample_job_spec :: val where
  "sample_job_spec = VStruct ([(''Connections'', VAddr 4), (''Name'', VAddr 1), (''Tags'', VAddr 2)] @
     map (\<lambda>n. (n, VNil)) [''CodeGenConfigurationNodes'', ''Command'', ''DefaultArguments'', ''Description'',
       ''ExecutionClass'', ''ExecutionProperty'', ''GlueVersion'', ''JobMode'', ''JobRunQueuingEnabled'',
       ''LogURI'', ''MaintenanceWindow'', ''MaxCapacity'', ''MaxRetries'', ''NonOverridableArguments'',
       ''NotificationProperty'', ''NumberOfWorkers'', ''Role'', ''RoleRef'', ''SecurityConfiguration'',
       ''SourceControlDetails'', ''Timeout'', ''WorkerType''])"

lemma sample_database_typed:
  "typed (TPtr (type_Database sample_library)) (sample_heap sample_database_spec) (VAddr 0)"
  by (simp add: type_Database_def type_DatabaseSpec_def type_DatabaseStatus_def sample_library_def
      sample_heap_def sample_object_def sample_database_spec_def fmpred_iff)

lemma sample_job_typed: "typed (TPtr (type_Job sample_library)) (sample_heap sample_job_spec) (VAddr 0)"
  by (simp add: type_Job_def type_JobSpec_def type_JobStatus_def type_ConnectionsList_def sample_library_def
      sample_heap_def sample_object_def sample_job_spec_def fmpred_iff)

theorem DeepCopy_Database_isolated_witness:
  "\<exists>m' ko'. DeepCopy_Database sample_library sorted_order (sample_heap sample_database_spec) (VAddr 0) = Some (m', ko') \<and>
    (\<forall>m''. only_at (footprint (TPtr (type_Database sample_library)) m' ko') m' m'' \<longrightarrow>
       view (TPtr (type_Database sample_library)) m'' (VAddr 0) =
         view (TPtr (type_Database sample_library)) (sample_heap sample_database_spec) (VAddr 0))"
proof -
  obtain m' ko' where run: "DeepCopy_Database sample_library sorted_order (sample_heap sample_database_spec) (VAddr 0) = Some (m', ko')"
    unfolding DeepCopy_Database_def
    using copiesE [OF copy_ptr_copies [OF copies_Database [OF sample_library_laws]] sample_heap_wf sample_database_typed]
    by blast
  from DeepCopy_Database_isolated [OF sample_library_laws sample_heap_wf sample_database_typed run] run
  show ?thesis by blast
qed

end
