(* ===== verification/Spec2Isabelle.thy ===== *)
theory Spec2Isabelle
  imports Database_Reconcile Job_Reconcile Job_Resource Manager_Factory Copy_Properties
begin

text \<open>
  The AWS Glue controller for Kubernetes (ACK), verified.

  The controller keeps custom resources (Database, Job) and their counterparts in AWS Glue in step. The
  ACK runtime, a library, drives it: for each resource it gets a resource manager from a factory, reads
  the counterpart (ReadOne, sdkFind), compares (newResourceDelta), and creates, updates or deletes it
  (Create, Update, Delete over sdkCreate, sdkUpdate, sdkDelete); between these steps it resolves
  references, late-initializes the fields the service chose, adds or filters tags, and keeps
  finalizers and conditions on the resource. All of that code is under src/pkg; the data it moves is
  declared under src/apis/v1alpha1. It is generated, one package per resource, so the two packages
  database and job have the same shape.

  Reading guide: theory, source, content.

  \<^item> Go_Prelude: Go values. A pointer is an option, a nil slice or map is \<open>None\<close>, a map is a finite map
    ranged over in any order given (\<open>map_order\<close>), int32 and int64 are words, a panic or an early error
    return is a value of \<open>outcome\<close>.
  \<^item> Ack_Runtime: the data of the ACK runtime (conditions, metadata, tags) and the library functions the
    controller calls, as fields of one record \<open>golib\<close> with laws (\<open>conversion_laws\<close>, \<open>tag_laws\<close>,
    \<open>error_laws\<close>, \<open>finalizer_laws\<close>) and a concrete instance for the witnesses; the state \<open>env\<close> of the
    account and the log of recorded API calls.
  \<^item> Sync_Tags: pkg/tags/sync.go. Tag_Codec, Database_Tags, Job_Tags: pkg/resource/*/tags.go; the locale
    \<open>tag_codec\<close> is what the managers and the delta need of a package's tag helpers, interpreted on both.
  \<^item> Ack_Status: setStatusDefaults, terminalAWSError, updateConditions of pkg/resource/*/sdk.go; the locale
    \<open>ack_manager\<close> gives what onError and onSuccess of manager.go do to the conditions, interpreted on both
    managers. The conditions are pointers, as in the code, and the loops over them panic on a nil one.
    Ack_Lifecycle: the locale \<open>finalized\<close>, the finalizer contract of descriptor.go.
  \<^item> Ack_Compare: the comparison library as a record \<open>cmplib\<close> with laws, and the kinds of field comparison
    delta.go is made of, each with the paths it adds. \<open>value_laws\<close> say which values the library calls nil
    or zero; that a value equals itself is a law of its own, \<open>reflexive_law\<close>, for the values without a NaN
    only (\<open>nan_free\<close> of Job_Delta). Sdk_Codec: the conversions sdk.go is made of, with \<open>codec_up_to\<close> for
    those that drop a part of the value.
  \<^item> Database_Types, Database_Delta, Database_Sdk, Database_Manager, Database_Resource: database.go and
    types.go, delta.go, sdk.go with hooks.go, manager.go, and resource.go with identifiers.go,
    descriptor.go and references.go of the database package. Database_Properties, Database_Reconcile: its
    theorems.
  \<^item> Job_Types, Job_Delta, Job_Sdk, Job_Manager, Job_Resource, Job_References, Job_Properties, Job_Reconcile:
    the same for the job package; Reconcile_Base is what the two Reconcile theories share. The 108
    structures below CodeGenConfigurationNode and their copies on reading, creating and updating are
    Job_Node_Types, Sdk_Node_Types, Job_Node_Read, Job_Node_Create, Job_Node_Update; Job_Node_Codec
    proves that each pair is a codec, up to the Children of the mappings of an ApplyMapping node, which
    generator.yaml tells the controller to ignore: the SDK's type has them, the controller's has not.
  \<^item> Manager_Factory: pkg/resource/*/manager_factory.go as a step relation, one step per lock operation.
  \<^item> Go_Memory, Deep_Copy, Api_Types, Api_Copy_1 to Api_Copy_4, Api_Copies, Copy_Properties: all types of
    apis/v1alpha1 and zz_generated.deepcopy.go, on an explicit memory of cells.

  State and operations. The resource managers hold no state of their own; a method takes the \<open>ko\<close> of the
  resource and the \<open>env\<close>, and returns the new \<open>env\<close> with the results of the Go function, or a panic. The
  Glue client is a record of functions on the state of the account; nothing is assumed of it except
  where a theorem names a law of the service (\<open>tag_service\<close>, \<open>database_service\<close>, \<open>job_service\<close> and the
  laws of deleting), which say that a call without an error has had its documented effect. A database is
  kept under its catalog and its name, so a request that leaves the catalog out speaks of the caller's
  own; what GetDatabase answers may differ from what was sent where the repository says so, in
  particular it answers "" for the Description and LocationUri of a resource link (\<open>keeps\<close>). A method
  that writes to an object it was given returns it as well. Where a theorem speaks of several calls, each
  has its own \<open>map_order\<close>, since two ranges over the same map need not agree.
  \<open>ko := r.ko.DeepCopy()\<close> is the identity in these models; Copy_Properties justifies it.

  What is proved. Together: after a successful update, and after a successful create, a Database or a
  Job reads back without a difference, provided no float of a Job is a NaN (the comparison takes a NaN
  to differ from itself), and after a successful delete a Database reads as NotFound, the same name in
  another catalog untouched (Database_Reconcile, Job_Reconcile). Tags: SyncResourceTags ends with the
  desired tags or reports the first failure. Delta: the exact list of paths reported. Requests:
  reading and updating again loses nothing but the fields the controller ignores (the creation time of
  a database; of a job, Children and AllocatedCapacity, which the update sends as 0), create and
  update agree, integers are range-checked before they are narrowed. Methods: every branch of sdkFind,
  the conditions left by errors, exactly when a panic occurs. References: only a synced role is used,
  and clearing undoes resolving. Factory: a call gets a manager for its own account and region, built
  from the arguments of a call for the same account, region and role, perhaps another call's; the lock
  excludes, every call can go on. Deep copies: nothing is shared with the original, for each of the
  260 types. Where the code does not do what its comments or its sister package do, the theorem states
  what it does (job tags on an error, MaxRetries left out, the partition of a job's ARN, the reference
  that overwrites its argument, the double manager).

  Termination and bounds. Every loop of the program ranges over a slice or a map, so every function here
  is total by structural recursion and no fuel is needed; the step relation of the factory has no
  deadlock (\<open>ManagerFor_progress\<close>).

  Not modelled, and why. cmd/controller/main.go and pkg/version: flags, logging and wiring of library
  objects. pkg/resource/registry.go and groupversion_info.go: calls of the runtime library with
  constants. enums.go: string constants no code refers to. RuntimeObject, MetaObject, GroupVersionKind
  and the type assertions between interfaces: identities on the model. Logging and tracing inside
  the methods. The runtime, the AWS SDK, Kubernetes: parameters. YAML, templates and the Python
  end-to-end tests are not part of the Go program.
\<close>

end
